(* ===== verification/PyBase.thy ===== *)
theory PyBase
  imports Main "HOL-Library.AList"
begin

text \<open>
  The prelude: what the Python of the agent uses of its language, in HOL.

  \<^item> \<open>exn\<close>: the exceptions the modelled code raises or catches. Message texts are dropped where
    the code only logs them.
  \<^item> \<open>exn + 'a\<close> is a pure computation that may raise (\<open>bindE\<close>); \<open>('s, 'a) py\<close> one that also
    changes a state (\<open>retM\<close>, \<open>raiseM\<close>, \<open>bindM\<close>, \<open>tryM\<close>): a state change made before an exception
    stays made, as in Python.
  \<^item> \<open>for_bigips\<close> is the loop \<open>for bigip in bigips\<close> with an accumulator; each pass works on its
    own device.
  \<^item> strings are \<open>string\<close>; \<open>split_on\<close>, \<open>startswith\<close>, \<open>endswith\<close>, \<open>rindex_after\<close>, \<open>str_int\<close>,
    \<open>py_int\<close> are the \<open>str\<close> methods and conversions the code calls.
  \<^item> the collections \<open>py_simps\<close> and \<open>svc_simps\<close> are filled by the component theories.
\<close>

named_theorems py_simps \<open>unfoldings of the exception and state combinators\<close>
named_theorems svc_simps \<open>frame facts of updates on service objects\<close>

section \<open>Exceptions\<close>

datatype f5exn =
    MissingVTEPAddress | MissingNetwork | NetworkNotReady | InvalidNetworkType
  | InvalidNetworkDefinition | BigIPClusterInvalidHA | MajorVersionValidateFailed
  | MinorVersionValidateFailed | ProvisioningExtraMBValidateFailed
  | NodeDeleteException | MonitorCreationException | MonitorUpdateException
  | MonitorDeleteException | PoolCreationException | PoolUpdateException | PoolDeleteException
  | RouteDomainCreationException | SelfIPCreationException | SelfIPQueryException
  | SelfIPDeleteException | SNATCreationException | SystemCreationException
  | VirtualServerCreationException | VirtualServerUpdateException | VirtualServerDeleteException
  | VLANCreationException | VXLANCreationException | L7PolicyCreationException
  | L7PolicyUpdateException | L7PolicyDeleteException | EsdJSONFileInvalidException
  | PolicyHasNoRules | NoActionFoundForPolicy | RouteDomainCacheMiss | SSLProfileError
  | BigIPNotLicensedForVcmp | UnreadableCert | InvalidBarbicanConfig

datatype exn =
    HTTPError nat string \<comment> \<open>status code, response text\<close>
  | KeyError | IndexError | ValueError | TypeError | AttributeError | UnboundLocalError
  | LookupError | IOError | NotImplementedError
  | F5 f5exn
  | OtherError string

section \<open>Computations that may raise\<close>

definition bindE :: "exn + 'a \<Rightarrow> ('a \<Rightarrow> exn + 'b) \<Rightarrow> exn + 'b" where
  "bindE m f = (case m of Inl e \<Rightarrow> Inl e | Inr x \<Rightarrow> f x)"

lemma bindE_simps [simp]:
  "bindE (Inl e) f = Inl e"
  "bindE (Inr x) f = f x"
  by (simp_all add: bindE_def)

lemma bindE_eq_Inr: "bindE m f = Inr y \<longleftrightarrow> (\<exists>x. m = Inr x \<and> f x = Inr y)"
  by (cases m) auto

lemma bindE_eq_Inl: "bindE m f = Inl e \<longleftrightarrow> m = Inl e \<or> (\<exists>x. m = Inr x \<and> f x = Inl e)"
  by (cases m) auto

text \<open>\<open>d[k]\<close> on a key that may be missing.\<close>

definition subE :: "'a option \<Rightarrow> exn + 'a" where
  "subE v = (case v of None \<Rightarrow> Inl KeyError | Some x \<Rightarrow> Inr x)"

lemma subE_simps [simp]:
  "subE None = Inl KeyError"
  "subE (Some x) = Inr x"
  by (simp_all add: subE_def)

lemma subE_eq_Inr [simp]: "subE v = Inr x \<longleftrightarrow> v = Some x"
  by (cases v) auto

text \<open>\<open>d.get(k, x)\<close>.\<close>

definition get_or :: "'a \<Rightarrow> 'a option \<Rightarrow> 'a" where
  "get_or x v = (case v of None \<Rightarrow> x | Some y \<Rightarrow> y)"

lemma get_or_simps [simp]:
  "get_or x None = x"
  "get_or x (Some y) = y"
  by (simp_all add: get_or_def)

text \<open>A list comprehension whose element expression may raise, left to right.\<close>

fun mapE :: "('a \<Rightarrow> exn + 'b) \<Rightarrow> 'a list \<Rightarrow> exn + 'b list" where
  "mapE f [] = Inr []"
| "mapE f (x # xs) = bindE (f x) (\<lambda>y. bindE (mapE f xs) (\<lambda>ys. Inr (y # ys)))"

lemma mapE_eq_Inr: "mapE f xs = Inr ys \<longleftrightarrow> list_all2 (\<lambda>x y. f x = Inr y) xs ys"
  by (induction xs arbitrary: ys) (auto simp: bindE_eq_Inr list_all2_Cons1)

lemma mapE_length: "mapE f xs = Inr ys \<Longrightarrow> length ys = length xs"
  by (auto simp: mapE_eq_Inr dest: list_all2_lengthD)

lemma mapE_total: "(\<And>x. x \<in> set xs \<Longrightarrow> f x = Inr (g x)) \<Longrightarrow> mapE f xs = Inr (map g xs)"
  by (induction xs) auto

section \<open>Computations with a state\<close>

type_synonym ('s, 'a) py = "'s \<Rightarrow> (exn + 'a) \<times> 's"

definition retM :: "'a \<Rightarrow> ('s, 'a) py" where
  [py_simps]: "retM x s = (Inr x, s)"

definition raiseM :: "exn \<Rightarrow> ('s, 'a) py" where
  [py_simps]: "raiseM e s = (Inl e, s)"

definition liftM :: "exn + 'a \<Rightarrow> ('s, 'a) py" where
  [py_simps]: "liftM r s = (r, s)"

definition getsM :: "('s \<Rightarrow> 'a) \<Rightarrow> ('s, 'a) py" where
  [py_simps]: "getsM f s = (Inr (f s), s)"

definition modifyM :: "('s \<Rightarrow> 's) \<Rightarrow> ('s, unit) py" where
  [py_simps]: "modifyM f s = (Inr (), f s)"

definition bindM :: "('s, 'a) py \<Rightarrow> ('a \<Rightarrow> ('s, 'b) py) \<Rightarrow> ('s, 'b) py" where
  [py_simps]: "bindM m f s = (case m s of (Inl e, s') \<Rightarrow> (Inl e, s') | (Inr x, s') \<Rightarrow> f x s')"

text \<open>\<open>try: m except ... : h\<close>; the handler re-raises (\<open>raiseM e\<close>) what it does not catch.\<close>

definition tryM :: "('s, 'a) py \<Rightarrow> (exn \<Rightarrow> ('s, 'a) py) \<Rightarrow> ('s, 'a) py" where
  [py_simps]: "tryM m h s = (case m s of (Inl e, s') \<Rightarrow> h e s' | (Inr x, s') \<Rightarrow> (Inr x, s'))"

text \<open>An operation on a part of the state.\<close>

definition zoomM :: "('s \<Rightarrow> 't) \<Rightarrow> ('t \<Rightarrow> 's \<Rightarrow> 's) \<Rightarrow> ('t, 'a) py \<Rightarrow> ('s, 'a) py" where
  [py_simps]: "zoomM g p m s = (case m (g s) of (r, t) \<Rightarrow> (r, p t s))"

fun forM :: "'x list \<Rightarrow> ('x \<Rightarrow> ('s, unit) py) \<Rightarrow> ('s, unit) py" where
  "forM [] body = retM ()"
| "forM (x # xs) body = bindM (body x) (\<lambda>_. forM xs body)"

text \<open>\<open>for bigip in bigips: ...\<close> with the local variables of the loop in the accumulator.\<close>

fun for_bigips :: "('acc \<Rightarrow> ('d, 'acc) py) \<Rightarrow> 'acc \<Rightarrow> ('d list, 'acc) py" where
  "for_bigips body acc [] = (Inr acc, [])"
| "for_bigips body acc (d # ds) =
     (case body acc d of
        (Inl e, d') \<Rightarrow> (Inl e, d' # ds)
      | (Inr acc', d') \<Rightarrow> (case for_bigips body acc' ds of (r, ds') \<Rightarrow> (r, d' # ds')))"

lemma for_bigips_length: "for_bigips body acc ds = (r, ds') \<Longrightarrow> length ds' = length ds"
  by (induction ds arbitrary: acc r ds') (auto split: prod.splits sum.splits)

lemma fst_bindM_retM [simp]: "bindM (retM x) f = f x"
  by (rule ext) (simp add: py_simps)

lemma bindM_raiseM [simp]: "bindM (raiseM e) f = raiseM e"
  by (rule ext) (simp add: py_simps)

lemma tryM_retM [simp]: "tryM (retM x) h = retM x"
  by (rule ext) (simp add: py_simps)

lemma tryM_raiseM [simp]: "tryM (raiseM e) h = h e"
  by (rule ext) (simp add: py_simps)

text \<open>A body that never raises makes the loop a fold over the devices.\<close>

lemma for_bigips_total:
  assumes "\<And>acc d. d \<in> set ds \<Longrightarrow> \<exists>acc' d'. body acc d = (Inr acc', d')"
  shows "\<exists>acc' ds'. for_bigips body acc ds = (Inr acc', ds') \<and> length ds' = length ds"
  using assms
proof (induction ds arbitrary: acc)
  case Nil
  then show ?case by simp
next
  case (Cons d ds)
  from Cons.prems [of d acc] obtain acc1 d' where 1: "body acc d = (Inr acc1, d')" by auto
  from Cons.IH [of acc1] Cons.prems obtain acc2 ds'
    where "for_bigips body acc1 ds = (Inr acc2, ds') \<and> length ds' = length ds"
    by auto
  with 1 show ?case by simp
qed

text \<open>A body that leaves the accumulator alone and keeps a relation of each device.\<close>

lemma for_bigips_rel:
  assumes "\<And>acc d r d'. body acc d = (r, d') \<Longrightarrow> R d d'" and "\<And>d. R d d"
    and "for_bigips body acc ds = (r, ds')"
  shows "list_all2 R ds ds'"
  using assms(3)
proof (induction ds arbitrary: acc r ds')
  case Nil
  then show ?case by simp
next
  case (Cons d ds)
  from Cons.prems Cons.IH show ?case
    by (auto split: prod.splits sum.splits intro: assms(1) assms(2) list_all2_refl)
qed

text \<open>A body that succeeds on every device: what it does to each holds afterwards.\<close>

lemma for_bigips_each:
  assumes "\<And>d. d \<in> set ds \<Longrightarrow> \<exists>d'. m d = (Inr (), d') \<and> R d d'"
  shows "\<exists>ds'. for_bigips (\<lambda>_. m) () ds = (Inr (), ds') \<and> list_all2 R ds ds'"
  using assms
proof (induction ds)
  case (Cons d ds)
  from Cons.prems [of d] obtain d' where 1: "m d = (Inr (), d')" "R d d'" by auto
  from Cons.IH Cons.prems obtain ds'
    where "for_bigips (\<lambda>_. m) () ds = (Inr (), ds')" "list_all2 R ds ds'" by auto
  with 1 show ?case by simp
qed simp

section \<open>Loops over mutable objects\<close>

text \<open>
  \<open>for x in xs: step\<close> where the step mutates \<open>x\<close> and a shared state: what was mutated before an
  exception stays mutated, the objects after it are untouched.
\<close>

fun inplace :: "('x \<Rightarrow> 's \<Rightarrow> (exn + unit) \<times> 'x \<times> 's) \<Rightarrow> 'x list \<Rightarrow> 's \<Rightarrow> (exn + unit) \<times> 'x list \<times> 's" where
  "inplace step [] s = (Inr (), [], s)"
| "inplace step (x # xs) s =
     (case step x s of
        (Inl e, x', s') \<Rightarrow> (Inl e, x' # xs, s')
      | (Inr _, x', s') \<Rightarrow> (case inplace step xs s' of (r, xs', s'') \<Rightarrow> (r, x' # xs', s'')))"

text \<open>What a step keeps, the loop keeps, whether or not it raises.\<close>

lemma inplace_rel:
  assumes "inplace step xs s = (r, xs', s')"
    and "\<And>x s r x' s'. step x s = (r, x', s') \<Longrightarrow> R x x' \<and> Q s s'"
    and "\<And>x. R x x" and "\<And>s. Q s s" and "\<And>a b c. Q a b \<Longrightarrow> Q b c \<Longrightarrow> Q a c"
  shows "list_all2 R xs xs' \<and> Q s s'"
  using assms(1)
proof (induction xs arbitrary: s r xs' s')
  case Nil
  then show ?case using assms(4) by simp
next
  case (Cons x xs)
  obtain r1 x1 s1 where step: "step x s = (r1, x1, s1)" by (cases "step x s") auto
  note h = assms(2) [OF step]
  show ?case
  proof (cases r1)
    case (Inl e)
    with Cons.prems step h show ?thesis
      by (auto intro: list_all2_refl assms(3))
  next
    case (Inr u)
    obtain r2 xs2 s2 where rest: "inplace step xs s1 = (r2, xs2, s2)" by (cases "inplace step xs s1") auto
    from Cons.IH [OF rest] Cons.prems step h Inr rest show ?thesis
      by (auto intro: assms(5))
  qed
qed

lemma inplace_ids:
  assumes "inplace step xs s = (r, xs', s')"
    and "\<And>x s r x' s'. step x s = (r, x', s') \<Longrightarrow> f x' = f x"
  shows "map f xs' = map f xs"
  using assms(1)
proof (induction xs arbitrary: s r xs' s')
  case (Cons x xs)
  then show ?case by (auto split: prod.splits sum.splits dest!: assms(2))
qed simp

lemma inplace_total:
  assumes "\<And>x s. x \<in> set xs \<Longrightarrow> \<exists>x' s'. step x s = (Inr (), x', s')"
  shows "\<exists>xs' s'. inplace step xs s = (Inr (), xs', s')"
  using assms
proof (induction xs arbitrary: s)
  case (Cons x xs)
  from Cons.prems [of x s] obtain x' s1 where 1: "step x s = (Inr (), x', s1)" by auto
  from Cons.IH [of s1] Cons.prems obtain xs' s' where "inplace step xs s1 = (Inr (), xs', s')" by auto
  with 1 show ?case by simp
qed simp

section \<open>HTTP errors\<close>

text \<open>\<open>err.response.status_code\<close> of an \<open>HTTPError\<close>; \<open>None\<close> for the other exceptions.\<close>

fun http_status :: "exn \<Rightarrow> nat option" where
  "http_status (HTTPError n _) = Some n"
| "http_status _ = None"

end
