(* ===== verification/PyStrings.thy ===== *)
theory PyStrings
  imports PyBase
begin

text \<open>
  The \<open>str\<close> methods and conversions the agent uses, on \<open>string\<close> (a list of characters):
  \<open>s.split(c)\<close>, \<open>s.startswith(p)\<close>, \<open>s.endswith(p)\<close>, \<open>s.replace(c, '')\<close>, \<open>s.rindex('/') + 1\<close>,
  \<open>os.path.basename\<close>, \<open>str(n)\<close>, \<open>int(s)\<close>, \<open>s.upper()\<close>, \<open>s.lower()\<close>. The lemmas give the
  characteristic equations the component proofs use, and the round trip \<open>int(str(n)) = n\<close>.
\<close>

section \<open>Splitting and matching\<close>

fun split_on :: "char \<Rightarrow> string \<Rightarrow> string list" where
  "split_on c [] = [[]]"
| "split_on c (x # xs) =
     (if x = c then [] # split_on c xs
      else (case split_on c xs of [] \<Rightarrow> [[x]] | y # ys \<Rightarrow> (x # y) # ys))"

lemma split_on_nonempty [simp]: "split_on c s \<noteq> []"
  by (induction s) (auto split: list.splits)

lemma split_on_absent [simp]: "c \<notin> set s \<Longrightarrow> split_on c s = [s]"
  by (induction s) auto

lemma split_on_append: "c \<notin> set a \<Longrightarrow> split_on c (a @ c # b) = a # split_on c b"
  by (induction a) auto

lemma split_on_length_one: "length (split_on c s) = Suc 0 \<longleftrightarrow> c \<notin> set s"
  by (induction s) (auto split: list.splits)

definition startswith :: "string \<Rightarrow> string \<Rightarrow> bool" where
  "startswith p s \<longleftrightarrow> take (length p) s = p"

definition endswith :: "string \<Rightarrow> string \<Rightarrow> bool" where
  "endswith p s \<longleftrightarrow> length p \<le> length s \<and> drop (length s - length p) s = p"

lemma startswith_append [simp]: "startswith p (p @ s)"
  by (simp add: startswith_def)

lemma startswith_iff: "startswith p s \<longleftrightarrow> (\<exists>t. s = p @ t)"
  by (metis append_take_drop_id append_eq_conv_conj startswith_def)

lemma endswith_append [simp]: "endswith p (s @ p)"
  by (simp add: endswith_def)

fun contains_str :: "string \<Rightarrow> string \<Rightarrow> bool" where
  "contains_str p [] = (p = [])"
| "contains_str p (x # xs) = (startswith p (x # xs) \<or> contains_str p xs)"

text \<open>\<open>s.find(p)\<close>: the first index, or \<open>-1\<close>.\<close>

fun find_from :: "nat \<Rightarrow> string \<Rightarrow> string \<Rightarrow> int" where
  "find_from i p [] = (if p = [] then int i else - 1)"
| "find_from i p (x # xs) = (if startswith p (x # xs) then int i else find_from (Suc i) p xs)"

definition find_str :: "string \<Rightarrow> string \<Rightarrow> int" where
  "find_str p s = find_from 0 p s"

lemma find_from_char_absent: "c \<notin> set s \<Longrightarrow> find_from i [c] s = - 1"
  by (induction s arbitrary: i) (auto simp: startswith_def)

lemma find_from_char: "c \<notin> set a \<Longrightarrow> find_from i [c] (a @ c # b) = int (i + length a)"
  by (induction a arbitrary: i) (auto simp: startswith_def)

lemma find_str_char_absent [simp]: "c \<notin> set s \<Longrightarrow> find_str [c] s = - 1"
  by (simp add: find_str_def find_from_char_absent)

lemma find_str_char [simp]: "c \<notin> set a \<Longrightarrow> find_str [c] (a @ c # b) = int (length a)"
  by (simp add: find_str_def find_from_char)

text \<open>\<open>i = s.rindex(c) + 1; s[i:]\<close>: \<open>None\<close> stands for the \<open>ValueError\<close> of a missing \<open>c\<close>.\<close>

lemma takeWhile_neq_stop [simp]: "c \<notin> set xs \<Longrightarrow> takeWhile (\<lambda>x. x \<noteq> c) (xs @ c # ys) = xs"
  by (induction xs) auto

lemma takeWhile_neq_all [simp]: "c \<notin> set xs \<Longrightarrow> takeWhile (\<lambda>x. x \<noteq> c) xs = xs"
  by (induction xs) auto

definition rindex_after :: "char \<Rightarrow> string \<Rightarrow> string option" where
  "rindex_after c s = (if c \<in> set s then Some (rev (takeWhile (\<lambda>x. x \<noteq> c) (rev s))) else None)"

lemma rindex_after_append [simp]: "c \<notin> set b \<Longrightarrow> rindex_after c (a @ c # b) = Some b"
  by (simp add: rindex_after_def)

text \<open>\<open>os.path.basename\<close>: what follows the last slash, the whole string if there is none.\<close>

definition basename :: "string \<Rightarrow> string" where
  "basename s = rev (takeWhile (\<lambda>x. x \<noteq> CHR ''/'') (rev s))"

lemma basename_append: "CHR ''/'' \<notin> set b \<Longrightarrow> basename (a @ CHR ''/'' # b) = b"
  by (simp add: basename_def)

lemma basename_absent: "CHR ''/'' \<notin> set b \<Longrightarrow> basename b = b"
  by (simp add: basename_def)

section \<open>Numbers as text\<close>

definition digit_char :: "nat \<Rightarrow> char" where
  "digit_char n = char_of (48 + n)"

definition is_digit :: "char \<Rightarrow> bool" where
  "is_digit c \<longleftrightarrow> 48 \<le> (of_char c :: nat) \<and> (of_char c :: nat) \<le> 57"

definition digit_val :: "char \<Rightarrow> nat" where
  "digit_val c = of_char c - 48"

lemma digit_val_char [simp]: "n < 10 \<Longrightarrow> digit_val (digit_char n) = n"
  by (simp add: digit_val_def digit_char_def)

lemma is_digit_char [simp]: "n < 10 \<Longrightarrow> is_digit (digit_char n)"
  by (simp add: is_digit_def digit_char_def)

fun str_nat :: "nat \<Rightarrow> string" where
  "str_nat n = (if n < 10 then [digit_char n] else str_nat (n div 10) @ [digit_char (n mod 10)])"

declare str_nat.simps [simp del]

definition str_int :: "int \<Rightarrow> string" where
  "str_int i = (if i < 0 then CHR ''-'' # str_nat (nat (- i)) else str_nat (nat i))"

fun parse_digits :: "nat \<Rightarrow> string \<Rightarrow> nat option" where
  "parse_digits acc [] = Some acc"
| "parse_digits acc (c # cs) = (if is_digit c then parse_digits (acc * 10 + digit_val c) cs else None)"

definition is_space :: "char \<Rightarrow> bool" where
  "is_space c \<longleftrightarrow> c = CHR '' '' \<or> (9 \<le> (of_char c :: nat) \<and> (of_char c :: nat) \<le> 13)"

definition strip :: "string \<Rightarrow> string" where
  "strip s = rev (dropWhile is_space (rev (dropWhile is_space s)))"

text \<open>\<open>int(s)\<close>: surrounding white space, an optional sign, at least one digit; else \<open>ValueError\<close>.\<close>

definition py_int :: "string \<Rightarrow> exn + int" where
  "py_int s =
     (let t = strip s;
          r = (case t of [] \<Rightarrow> None
               | c # cs \<Rightarrow>
                   if c = CHR ''-'' then (if cs = [] then None else map_option (\<lambda>n. - int n) (parse_digits 0 cs))
                   else if c = CHR ''+'' then (if cs = [] then None else map_option int (parse_digits 0 cs))
                   else map_option int (parse_digits 0 (c # cs)))
      in case r of None \<Rightarrow> Inl ValueError | Some i \<Rightarrow> Inr i)"

lemma parse_digits_append:
  "parse_digits acc (a @ b) = (case parse_digits acc a of None \<Rightarrow> None | Some n \<Rightarrow> parse_digits n b)"
  by (induction a arbitrary: acc) auto

lemma parse_str_nat [simp]: "parse_digits 0 (str_nat n) = Some n"
proof (induction n rule: str_nat.induct)
  case (1 n)
  then show ?case
    by (subst str_nat.simps) (simp add: parse_digits_append)
qed

lemma str_nat_digits: "c \<in> set (str_nat n) \<Longrightarrow> is_digit c"
proof (induction n rule: str_nat.induct)
  case (1 n)
  then show ?case
    by (subst (asm) (2) str_nat.simps) (auto split: if_splits)
qed

lemma str_nat_nonempty [simp]: "str_nat n \<noteq> []"
  by (subst str_nat.simps) simp

lemma digit_not_special:
  "is_digit c \<Longrightarrow> c \<noteq> CHR ''-'' \<and> c \<noteq> CHR ''+'' \<and> c \<noteq> CHR '':'' \<and> c \<noteq> CHR ''.''
     \<and> c \<noteq> CHR ''%'' \<and> c \<noteq> CHR ''/'' \<and> \<not> is_space c"
  by (auto simp: is_digit_def is_space_def)

lemma str_nat_chars [simp]:
  "CHR '':'' \<notin> set (str_nat n)" "CHR ''.'' \<notin> set (str_nat n)"
  "CHR ''%'' \<notin> set (str_nat n)" "CHR ''/'' \<notin> set (str_nat n)"
  using str_nat_digits digit_not_special by blast+

lemma str_int_chars [simp]:
  "CHR '':'' \<notin> set (str_int n)" "CHR ''.'' \<notin> set (str_int n)"
  "CHR ''%'' \<notin> set (str_int n)" "CHR ''/'' \<notin> set (str_int n)"
  by (auto simp: str_int_def)

lemma dropWhile_hd_id: "xs \<noteq> [] \<Longrightarrow> \<not> P (hd xs) \<Longrightarrow> dropWhile P xs = xs"
  by (cases xs) auto

lemma strip_id:
  assumes "s \<noteq> []" "\<And>c. c \<in> set s \<Longrightarrow> \<not> is_space c"
  shows "strip s = s"
proof -
  have "dropWhile is_space s = s" using assms by (intro dropWhile_hd_id) auto
  moreover have "dropWhile is_space (rev s) = rev s"
    using assms by (intro dropWhile_hd_id) (auto simp: hd_rev)
  ultimately show ?thesis by (simp add: strip_def)
qed

lemma str_nat_hd: "hd (str_nat n) \<noteq> CHR ''-'' \<and> hd (str_nat n) \<noteq> CHR ''+''"
  using str_nat_digits [of "hd (str_nat n)" n] digit_not_special by auto

lemma py_int_str_nat: "py_int (str_nat n) = Inr (int n)"
proof -
  have "strip (str_nat n) = str_nat n"
    using str_nat_digits digit_not_special by (intro strip_id) auto
  moreover obtain c cs where "str_nat n = c # cs" by (cases "str_nat n") auto
  moreover have "parse_digits 0 (c # cs) = Some n" using parse_str_nat [of n] calculation by simp
  ultimately show ?thesis using str_nat_hd [of n] by (simp add: py_int_def Let_def)
qed

lemma py_int_str_int [simp]: "py_int (str_int i) = Inr i"
proof (cases "i < 0")
  case True
  have "strip (CHR ''-'' # str_nat (nat (- i))) = CHR ''-'' # str_nat (nat (- i))"
    using str_nat_digits digit_not_special by (intro strip_id) (auto simp: is_space_def)
  with True show ?thesis by (simp add: str_int_def py_int_def Let_def)
next
  case False
  then show ?thesis by (simp add: str_int_def py_int_str_nat)
qed

section \<open>Case\<close>

definition upper_char :: "char \<Rightarrow> char" where
  "upper_char c = (let n = (of_char c :: nat) in if 97 \<le> n \<and> n \<le> 122 then char_of (n - 32) else c)"

definition lower_char :: "char \<Rightarrow> char" where
  "lower_char c = (let n = (of_char c :: nat) in if 65 \<le> n \<and> n \<le> 90 then char_of (n + 32) else c)"

definition upper :: "string \<Rightarrow> string" where
  "upper s = map upper_char s"

definition lower :: "string \<Rightarrow> string" where
  "lower s = map lower_char s"

lemma upper_char_idem [simp]: "upper_char (upper_char c) = upper_char c"
proof (cases "97 \<le> (of_char c :: nat) \<and> (of_char c :: nat) \<le> 122")
  case True
  then have "((of_char c :: nat) - 32) mod 256 = of_char c - 32" by (intro mod_less) linarith
  moreover have "\<not> 97 \<le> (of_char c :: nat) - 32" using True by linarith
  ultimately show ?thesis using True by (simp add: upper_char_def Let_def)
next
  case False
  then show ?thesis by (auto simp: upper_char_def Let_def)
qed

lemma upper_idem [simp]: "upper (upper s) = upper s"
  by (simp add: upper_def)

section \<open>Route domain suffixes\<close>

text \<open>\<open>s.split('%')[0]\<close>.\<close>

definition before_percent :: "string \<Rightarrow> string" where
  "before_percent s = hd (split_on CHR ''%'' s)"

lemma before_percent_append [simp]: "CHR ''%'' \<notin> set a \<Longrightarrow> before_percent (a @ CHR ''%'' # b) = a"
  by (simp add: before_percent_def split_on_append)

lemma before_percent_absent [simp]: "CHR ''%'' \<notin> set a \<Longrightarrow> before_percent a = a"
  by (simp add: before_percent_def)

section \<open>URL quoting\<close>

text \<open>\<open>urllib.quote\<close>: letters, digits and \<open>_.-/\<close> stay, any other character becomes \<open>%XX\<close>.\<close>

definition quote_safe :: "char \<Rightarrow> bool" where
  "quote_safe c \<longleftrightarrow>
     (let n = (of_char c :: nat) in
      is_digit c \<or> (65 \<le> n \<and> n \<le> 90) \<or> (97 \<le> n \<and> n \<le> 122) \<or>
      c \<in> {CHR ''_'', CHR ''.'', CHR ''-'', CHR ''/''})"

definition hex_char :: "nat \<Rightarrow> char" where
  "hex_char n = (if n < 10 then digit_char n else char_of (55 + n))"

definition quote_char :: "char \<Rightarrow> string" where
  "quote_char c =
     (if quote_safe c then [c]
      else [CHR ''%'', hex_char (of_char c div 16), hex_char (of_char c mod 16)])"

definition quote :: "string \<Rightarrow> string" where
  "quote s = concat (map quote_char s)"

fun joined :: "string \<Rightarrow> string list \<Rightarrow> string" where
  "joined sep [] = []"
| "joined sep [x] = x"
| "joined sep (x # xs) = x @ sep @ joined sep xs"

text \<open>Splitting what was joined gives the parts back.\<close>

lemma split_on_joined:
  "xs \<noteq> [] \<Longrightarrow> (\<And>x. x \<in> set xs \<Longrightarrow> c \<notin> set x) \<Longrightarrow> split_on c (joined [c] xs) = xs"
proof (induction "[c]" xs rule: joined.induct)
  case (2 x)
  then show ?case by simp
next
  case (3 x y ys)
  then show ?case by (simp add: split_on_append)
qed simp

end
