(* ===== verification/Service.thy ===== *)
theory Service
  imports PyStrings
begin

text \<open>
  The LBaaS service model: the constants of \<open>constants_v2.py\<close>, the dictionaries the Neutron driver
  sends (load balancer, listener, pool, member, health monitor, L7 policy, L7 rule, network,
  subnet) as records, and the accessors of \<open>lbaas_service.py\<close>.

  A key the code tests for (\<open>in\<close>, \<open>.get\<close>) is an \<open>option\<close> field, \<open>None\<close> when the key is absent
  (or holds Python's \<open>None\<close>); a key the code only subscripts is a plain field. The dictionaries
  are mutated in place, so operations return the updated record.
\<close>

section \<open>Constants\<close>

datatype pstatus = ACTIVE | PENDING_CREATE | PENDING_UPDATE | PENDING_DELETE | ERROR
  | OtherStatus string

datatype ostatus = ONLINE | OFFLINE | DISABLED | NO_MONITOR

definition DEFAULT_PARTITION :: string where
  "DEFAULT_PARTITION = ''Common''"

definition OBJ_PREFIX :: string where
  "OBJ_PREFIX = ''uuid_''"

section \<open>The service dictionaries\<close>

record session_persistence =
  sp_type :: "string option"
  sp_cookie_name :: "string option"

text \<open>Truth value of a persistence dictionary: \<open>{}\<close> is false.\<close>

definition sp_true :: "session_persistence \<Rightarrow> bool" where
  "sp_true p \<longleftrightarrow> sp_type p \<noteq> None \<or> sp_cookie_name p \<noteq> None"

record l7_ref =
  ref_id :: string
  ref_name :: "string option"

record f5_condition =
  c_name :: string
  c_operand :: string \<comment> \<open>\<open>httpHost\<close>, \<open>httpUri\<close>, \<open>httpHeader\<close>, \<open>httpCookie\<close>\<close>
  c_selector :: "string option" \<comment> \<open>\<open>host\<close>, \<open>path\<close>, \<open>extension\<close>\<close>
  c_tmName :: "string option"
  c_values :: "string list"
  c_not :: bool
  c_compare :: string

datatype f5_action =
    ForwardPool string string \<comment> \<open>action name, pool\<close>
  | Redirect string "string option" \<comment> \<open>action name, location\<close>
  | Reset string

record f5_rule =
  fr_name :: string
  fr_ordinal :: int
  fr_actions :: "f5_action list"
  fr_conditions :: "f5_condition list"

record f5_policy =
  fp_name :: string
  fp_partition :: string
  fp_strategy :: string
  fp_rules :: "f5_rule list"
  fp_legacy :: bool
  fp_requires :: "string list"
  fp_controls :: "string list"

record network =
  net_id :: string
  net_tenant_id :: "string option"
  net_shared :: bool
  net_external :: "bool option" \<comment> \<open>\<open>router:external\<close>\<close>
  net_type :: "string option" \<comment> \<open>\<open>provider:network_type\<close>\<close>
  net_segmentation_id :: "int option"
  net_physical :: "string option"
  net_route_domain_id :: "int option"

record subnet =
  sub_id :: string
  sub_tenant_id :: "string option"
  sub_cidr :: string
  sub_gateway_ip :: "string option"

record loadbalancer =
  lb_id :: string
  lb_tenant_id :: "string option" \<comment> \<open>the value may be \<open>None\<close>\<close>
  lb_name :: "string option"
  lb_description :: "string option"
  lb_status :: pstatus
  lb_vip_address :: "string option"
  lb_vip_subnet_id :: string
  lb_vip_port_id :: "string option"
  lb_network_id :: "string option"
  lb_admin_state_up :: "bool option"
  lb_traffic_group :: "string option"
  lb_vteps :: "(string \<times> string list) list" \<comment> \<open>the keys \<open>vxlan_vteps\<close>, \<open>gre_vteps\<close>\<close>

record listener =
  li_id :: string
  li_tenant_id :: "string option"
  li_name :: "string option"
  li_description :: "string option"
  li_status :: pstatus
  li_operating_status :: "ostatus option"
  li_protocol :: "string option"
  li_protocol_port :: "int option"
  li_connection_limit :: "int option"
  li_admin_state_up :: "bool option"
  li_default_pool_id :: "string option"
  li_session_persistence :: "session_persistence option"
  li_use_snat :: "bool option"
  li_snat_pool_name :: "string option"
  li_l7_policies :: "l7_ref list option"
  li_default_tls_container_id :: "string option"
  li_sni_containers :: "string list option"
  li_f5_policy :: "f5_policy option"

record pool =
  po_id :: string
  po_name :: "string option"
  po_description :: "string option"
  po_status :: pstatus
  po_operating_status :: "ostatus option"
  po_admin_state_up :: bool
  po_lb_algorithm :: "string option"
  po_session_persistence :: "session_persistence option option" \<comment> \<open>key present, value\<close>
  po_healthmonitor_id :: "string option"
  po_members :: "string list"

text \<open>\<open>pool.get('session_persistence', None)\<close>.\<close>

definition po_persistence :: "pool \<Rightarrow> session_persistence option" where
  "po_persistence p = Option.bind (po_session_persistence p) (\<lambda>v. v)"

record member =
  me_id :: string
  me_address :: string
  me_protocol_port :: int
  me_weight :: "int option"
  me_admin_state_up :: bool
  me_status :: "pstatus option"
  me_operating_status :: "ostatus option"
  me_pool_id :: "string option"
  me_subnet_id :: string
  me_network_id :: "string option"
  me_port_mac :: "string option"
  me_missing :: bool
  me_parent_pool_deleted :: bool
  me_vteps :: "(string \<times> string list) list"

record healthmonitor =
  hm_id :: string
  hm_name :: "string option"
  hm_description :: "string option"
  hm_status :: pstatus
  hm_type :: "string option"
  hm_url_path :: "string option"
  hm_expected_codes :: "string option"
  hm_delay :: "int option"
  hm_timeout :: "string option"
  hm_max_retries :: "string option"

record l7policy =
  l7p_id :: string
  l7p_name :: "string option"
  l7p_tenant_id :: "string option"
  l7p_listener_id :: "string option"
  l7p_position :: int
  l7p_action :: string
  l7p_redirect_pool_id :: "string option"
  l7p_redirect_url :: "string option"
  l7p_status :: pstatus
  l7p_admin_state_up :: bool
  l7p_rules :: "string list" \<comment> \<open>the ids of \<open>rules\<close>\<close>

record l7rule =
  l7r_id :: string
  l7r_policy_id :: string
  l7r_type :: string
  l7r_compare_type :: string
  l7r_key :: "string option"
  l7r_value :: string
  l7r_invert :: bool
  l7r_status :: pstatus
  l7r_admin_state_up :: bool

record service =
  sv_loadbalancer :: "loadbalancer option"
  sv_listeners :: "listener list option"
  sv_pools :: "pool list option"
  sv_members :: "member list option"
  sv_healthmonitors :: "healthmonitor list option"
  sv_l7policies :: "l7policy list option"
  sv_l7policy_rules :: "l7rule list option"
  sv_networks :: "(string \<times> network) list option"
  sv_subnets :: "(string \<times> subnet) list option"

section \<open>Objects with an id: the lookups of \<open>LbaasServiceObject\<close>\<close>

text \<open>\<open>get(obj_type, obj_id)\<close> and \<open>get_pool_by_id\<close>: the first object with the id, or \<open>None\<close>.\<close>

fun get_obj :: "('o \<Rightarrow> string) \<Rightarrow> 'o list \<Rightarrow> string \<Rightarrow> 'o option" where
  "get_obj idf [] i = None"
| "get_obj idf (x # xs) i = (if idf x = i then Some x else get_obj idf xs i)"

definition get_all :: "'o list option \<Rightarrow> 'o list" where
  "get_all objs = (case objs of None \<Rightarrow> [] | Some xs \<Rightarrow> xs)"

lemma get_all_simps [simp]:
  "get_all None = []"
  "get_all (Some xs) = xs"
  by (simp_all add: get_all_def)

definition get_l7policy :: "service \<Rightarrow> string \<Rightarrow> l7policy option" where
  "get_l7policy svc i = get_obj l7p_id (get_all (sv_l7policies svc)) i"

definition get_l7rule :: "service \<Rightarrow> string \<Rightarrow> l7rule option" where
  "get_l7rule svc i = get_obj l7r_id (get_all (sv_l7policy_rules svc)) i"

definition get_listener :: "service \<Rightarrow> string \<Rightarrow> listener option" where
  "get_listener svc i = get_obj li_id (get_all (sv_listeners svc)) i"

definition get_pool_obj :: "service \<Rightarrow> string \<Rightarrow> pool option" where
  "get_pool_obj svc i = get_obj po_id (get_all (sv_pools svc)) i"

definition get_member_obj :: "service \<Rightarrow> string \<Rightarrow> member option" where
  "get_member_obj svc i = get_obj me_id (get_all (sv_members svc)) i"

definition get_healthmonitor_obj :: "service \<Rightarrow> string \<Rightarrow> healthmonitor option" where
  "get_healthmonitor_obj svc i = get_obj hm_id (get_all (sv_healthmonitors svc)) i"

definition get_loadbalancer_obj :: "service \<Rightarrow> loadbalancer option" where
  "get_loadbalancer_obj svc = sv_loadbalancer svc"

text \<open>In-place update of the first object with an id, as a mutation through a looked-up reference.\<close>

fun upd_obj :: "('o \<Rightarrow> string) \<Rightarrow> string \<Rightarrow> ('o \<Rightarrow> 'o) \<Rightarrow> 'o list \<Rightarrow> 'o list" where
  "upd_obj idf i f [] = []"
| "upd_obj idf i f (x # xs) = (if idf x = i then f x # xs else x # upd_obj idf i f xs)"

text \<open>The contract of objects with an id whose updates keep it.\<close>

locale id_objects =
  fixes idf :: "'o \<Rightarrow> string" and f :: "'o \<Rightarrow> 'o"
  assumes id_kept: "idf (f x) = idf x"
begin

lemma upd_ids: "map idf (upd_obj idf i f xs) = map idf xs"
  by (induction xs) (auto simp: id_kept)

lemma get_upd: "get_obj idf (upd_obj idf i f xs) j =
    (if j = i then map_option f (get_obj idf xs i) else get_obj idf xs j)"
  by (induction xs) (auto simp: id_kept)

end

interpretation li_f5: id_objects li_id "\<lambda>l. l\<lparr>li_f5_policy := p\<rparr>" for p
  by unfold_locales simp

lemma get_obj_Some: "get_obj idf xs i = Some x \<Longrightarrow> x \<in> set xs \<and> idf x = i"
  by (induction xs) (auto split: if_splits)

lemma get_obj_None: "get_obj idf xs i = None \<longleftrightarrow> i \<notin> idf ` set xs"
  by (induction xs) auto

lemma get_obj_distinct:
  "distinct (map idf xs) \<Longrightarrow> x \<in> set xs \<Longrightarrow> get_obj idf xs (idf x) = Some x"
  by (induction xs) (auto simp: image_iff)

section \<open>Provisioning status\<close>

text \<open>
  The code writes \<open>obj['provisioning_status']\<close> on every kind of service object. The locale
  states what these duck-typed updates rely on; it is interpreted for each record below.
\<close>

locale status_obj =
  fixes st :: "'o \<Rightarrow> pstatus" and set_st :: "pstatus \<Rightarrow> 'o \<Rightarrow> 'o" and oid :: "'o \<Rightarrow> string"
  assumes st_set [simp]: "st (set_st v x) = v"
    and set_set [simp]: "set_st v (set_st w x) = set_st v x"
    and set_st_same [simp]: "set_st (st x) x = x"
    and oid_set [simp]: "oid (set_st v x) = oid x"
begin

text \<open>Marking the objects of a list that satisfy a test.\<close>

lemma map_mark_ids: "map oid (map (\<lambda>x. if P x then set_st v x else x) xs) = map oid xs"
  by (induction xs) auto

lemma mark_mem: "x \<in> set (map (\<lambda>x. if P x then set_st v x else x) xs) \<Longrightarrow>
    st x = v \<or> x \<in> set xs"
  by auto

end

definition set_lb_status :: "pstatus \<Rightarrow> loadbalancer \<Rightarrow> loadbalancer" where
  [svc_simps]: "set_lb_status v x = x\<lparr>lb_status := v\<rparr>"

definition set_li_status :: "pstatus \<Rightarrow> listener \<Rightarrow> listener" where
  [svc_simps]: "set_li_status v x = x\<lparr>li_status := v\<rparr>"

definition set_po_status :: "pstatus \<Rightarrow> pool \<Rightarrow> pool" where
  [svc_simps]: "set_po_status v x = x\<lparr>po_status := v\<rparr>"

definition set_hm_status :: "pstatus \<Rightarrow> healthmonitor \<Rightarrow> healthmonitor" where
  [svc_simps]: "set_hm_status v x = x\<lparr>hm_status := v\<rparr>"

definition set_l7p_status :: "pstatus \<Rightarrow> l7policy \<Rightarrow> l7policy" where
  [svc_simps]: "set_l7p_status v x = x\<lparr>l7p_status := v\<rparr>"

interpretation lb_obj: status_obj lb_status set_lb_status lb_id
  by unfold_locales (simp_all add: svc_simps)

interpretation li_obj: status_obj li_status set_li_status li_id
  by unfold_locales (simp_all add: svc_simps)

interpretation po_obj: status_obj po_status set_po_status po_id
  by unfold_locales (simp_all add: svc_simps)

interpretation hm_obj: status_obj hm_status set_hm_status hm_id
  by unfold_locales (simp_all add: svc_simps)

interpretation l7p_obj: status_obj l7p_status set_l7p_status l7p_id
  by unfold_locales (simp_all add: svc_simps)

section \<open>Configuration\<close>

text \<open>The options of \<open>f5-openstack-agent.ini\<close> the modelled code reads.\<close>

record conf =
  environment_prefix :: string
  f5_snat_mode :: bool
  f5_snat_addresses_per_subnet :: int
  common_network_ids :: "(string \<times> string) list"
  f5_common_networks :: bool
  f5_common_external_networks :: bool
  f5_global_routed_mode :: bool
  use_namespaces :: bool
  max_namespaces_per_tenant :: int
  f5_route_domain_strictness :: bool
  external_gateway_mode :: bool
  f5_network_segment_physical_network :: "string option"
  f5_ha_type :: string
  f5_populate_static_arp :: bool
  f5_pending_services_timeout :: int
  service_resync_interval :: int
  unlegacy_setting_placeholder :: bool
  l2_population :: bool
  advertised_tunnel_types :: "string list"
  f5_external_physical_mappings :: "string list"
  f5_vtep_folder :: "string option"
  f5_vtep_selfip_name :: "string option"

end
