(* ===== verification/ResourceHelper.thy ===== *)
theory ResourceHelper
  imports Service
begin

text \<open>
  \<open>resource_helper.py\<close>: the resource types, the SDK attribute path of each type, and the
  create/exists/delete/load/update/get_resources/get_stats operations every service builder uses;
  \<open>get_filter\<close> of \<open>utils.py\<close>.

  The f5-sdk is not part of the repository: an \<open>endpoint\<close> is what the code calls of it for one
  resource type, a parameter of every definition that talks to a device. \<open>'d\<close> is the device,
  \<open>'m\<close> the attributes of one resource. \<open>endpoint_ok\<close> is the documented behaviour of the SDK on a
  device that answers: 409 for a create of what exists, 404 for a load, modify or delete of what
  does not. It is a hypothesis of the theorems that need it, never of the definitions.
\<close>

section \<open>Resource types\<close>

datatype resource_type =
    nat_rt | pool_rt | sys_rt | virtual_rt | member_rt | folder_rt | http_monitor_rt
  | https_monitor_rt | tcp_monitor_rt | ping_monitor_rt | node_rt | snat_rt | snatpool_rt
  | snat_translation_rt | selfip_rt | rule_rt | vlan_rt | arp_rt | route_domain_rt | tunnel_rt
  | virtual_address_rt | l7policy_rt | client_ssl_profile_rt | server_ssl_profile_rt
  | tcp_profile_rt | persistence_rt | cookie_persistence_rt | dest_addr_persistence_rt
  | hash_persistence_rt | msrdp_persistence_rt | sip_persistence_rt | source_addr_persistence_rt
  | ssl_persistence_rt | universal_persistence_rt | ssl_cert_file_rt | http_profile_rt
  | oneconnect_rt

text \<open>\<open>_resource\<close>: the SDK path of the resource of a type; a type not in the table is a \<open>KeyError\<close>.\<close>

fun resource_path :: "resource_type \<Rightarrow> exn + string" where
  "resource_path nat_rt = Inr ''tm.ltm.nats.nat''"
| "resource_path pool_rt = Inr ''tm.ltm.pools.pool''"
| "resource_path sys_rt = Inr ''tm.sys''"
| "resource_path virtual_rt = Inr ''tm.ltm.virtuals.virtual''"
| "resource_path member_rt = Inr ''tm.ltm.pools.pool.member''"
| "resource_path folder_rt = Inr ''tm.sys.folders.folder''"
| "resource_path http_monitor_rt = Inr ''tm.ltm.monitor.https.http''"
| "resource_path https_monitor_rt = Inr ''tm.ltm.monitor.https_s.https''"
| "resource_path tcp_monitor_rt = Inr ''tm.ltm.monitor.tcps.tcp''"
| "resource_path ping_monitor_rt = Inr ''tm.ltm.monitor.gateway_icmps.gateway_icmp''"
| "resource_path node_rt = Inr ''tm.ltm.nodes.node''"
| "resource_path snat_rt = Inr ''tm.ltm.snats.snat''"
| "resource_path snatpool_rt = Inr ''tm.ltm.snatpools.snatpool''"
| "resource_path snat_translation_rt = Inr ''tm.ltm.snat_translations.snat_translation''"
| "resource_path selfip_rt = Inr ''tm.net.selfips.selfip''"
| "resource_path rule_rt = Inr ''tm.ltm.rules.rule''"
| "resource_path vlan_rt = Inr ''tm.net.vlans.vlan''"
| "resource_path arp_rt = Inr ''tm.net.arps.arp''"
| "resource_path route_domain_rt = Inr ''tm.net.route_domains.route_domain''"
| "resource_path tunnel_rt = Inr ''tm.net.tunnels.tunnels.tunnel''"
| "resource_path virtual_address_rt = Inr ''tm.ltm.virtual_address_s.virtual_address''"
| "resource_path l7policy_rt = Inr ''tm.ltm.policys.policy''"
| "resource_path client_ssl_profile_rt = Inr ''tm.ltm.profile.client_ssls.client_ssl''"
| "resource_path server_ssl_profile_rt = Inr ''tm.ltm.profile.server_ssls.server_ssl''"
| "resource_path tcp_profile_rt = Inr ''tm.ltm.profile.tcps.tcp''"
| "resource_path persistence_rt = Inr ''tm.ltm.persistence''"
| "resource_path cookie_persistence_rt = Inr ''tm.ltm.persistence.cookies.cookie''"
| "resource_path dest_addr_persistence_rt = Inr ''tm.ltm.persistence.dest_addrs.dest_addr''"
| "resource_path hash_persistence_rt = Inr ''tm.ltm.persistence.hashs.hash''"
| "resource_path msrdp_persistence_rt = Inr ''tm.ltm.persistence.msrdp''"
| "resource_path sip_persistence_rt = Inr ''tm.ltm.persistence.sips''"
| "resource_path source_addr_persistence_rt = Inr ''tm.ltm.persistence.source_addr''"
| "resource_path ssl_persistence_rt = Inr ''tm.ltm.persistence.ssl''"
| "resource_path universal_persistence_rt = Inr ''tm.ltm.persistence.universal''"
| "resource_path ssl_cert_file_rt = Inr ''tm.sys.file.ssl_certs.ssl_cert''"
| "resource_path http_profile_rt = Inl KeyError"
| "resource_path oneconnect_rt = Inl KeyError"

text \<open>\<open>_collection\<close>: the SDK path of the collection of a type; every type is in the table.\<close>

fun collection_path :: "resource_type \<Rightarrow> exn + string" where
  "collection_path nat_rt = Inr ''tm.ltm.nats''"
| "collection_path pool_rt = Inr ''tm.ltm.pools''"
| "collection_path sys_rt = Inr ''tm.sys''"
| "collection_path virtual_rt = Inr ''tm.ltm.virtuals''"
| "collection_path member_rt = Inr ''tm.ltm.pools.pool.member''"
| "collection_path folder_rt = Inr ''tm.sys.folders''"
| "collection_path http_monitor_rt = Inr ''tm.ltm.monitor.https''"
| "collection_path https_monitor_rt = Inr ''tm.ltm.monitor.https_s''"
| "collection_path tcp_monitor_rt = Inr ''tm.ltm.monitor.tcps''"
| "collection_path ping_monitor_rt = Inr ''tm.ltm.monitor.gateway_icmps''"
| "collection_path node_rt = Inr ''tm.ltm.nodes''"
| "collection_path snat_rt = Inr ''tm.ltm.snats''"
| "collection_path snatpool_rt = Inr ''tm.ltm.snatpools''"
| "collection_path snat_translation_rt = Inr ''tm.ltm.snat_translations''"
| "collection_path selfip_rt = Inr ''tm.net.selfips''"
| "collection_path rule_rt = Inr ''tm.ltm.rules''"
| "collection_path route_domain_rt = Inr ''tm.net.route_domains''"
| "collection_path vlan_rt = Inr ''tm.net.vlans''"
| "collection_path arp_rt = Inr ''tm.net.arps''"
| "collection_path tunnel_rt = Inr ''tm.net.tunnels.tunnels''"
| "collection_path virtual_address_rt = Inr ''tm.ltm.virtual_address_s''"
| "collection_path l7policy_rt = Inr ''tm.ltm.policys''"
| "collection_path client_ssl_profile_rt = Inr ''tm.ltm.profile.client_ssls''"
| "collection_path server_ssl_profile_rt = Inr ''tm.ltm.profile.server_ssls''"
| "collection_path tcp_profile_rt = Inr ''tm.ltm.profile.tcps''"
| "collection_path persistence_rt = Inr ''tm.ltm.persistence''"
| "collection_path cookie_persistence_rt = Inr ''tm.ltm.persistence.cookies''"
| "collection_path dest_addr_persistence_rt = Inr ''tm.ltm.persistence.dest_addrs''"
| "collection_path hash_persistence_rt = Inr ''tm.ltm.persistence.hashs''"
| "collection_path msrdp_persistence_rt = Inr ''tm.ltm.persistence.msrdps''"
| "collection_path sip_persistence_rt = Inr ''tm.ltm.persistence.sips''"
| "collection_path source_addr_persistence_rt = Inr ''tm.ltm.persistence.source_addrs''"
| "collection_path ssl_persistence_rt = Inr ''tm.ltm.persistence.ssls''"
| "collection_path universal_persistence_rt = Inr ''tm.ltm.persistence.universals''"
| "collection_path ssl_cert_file_rt = Inr ''tm.sys.file.ssl_certs''"
| "collection_path http_profile_rt = Inr ''tm.ltm.profile.https''"
| "collection_path oneconnect_rt = Inr ''tm.ltm.profile.one_connects''"

section \<open>Query filters\<close>

datatype params = ParamStr string | ParamDict "(string \<times> string) list"

text \<open>
  \<open>get_filter\<close>; \<open>old\<close> is the outcome of \<open>LooseVersion(bigip.tmos_version) < '11.6.0'\<close>.
\<close>

definition get_filter :: "bool \<Rightarrow> string \<Rightarrow> string \<Rightarrow> string \<Rightarrow> params" where
  "get_filter old key op value =
     (if old then ParamStr (''$filter='' @ key @ ''+'' @ op @ ''+'' @ value)
      else ParamDict [(''$filter'', key @ '' '' @ op @ '' '' @ value)])"

definition expand_params :: "params \<Rightarrow> params" where
  "expand_params p =
     (case p of
        ParamDict d \<Rightarrow> ParamDict (AList.update ''expandSubcollections'' ''true'' d)
      | ParamStr s \<Rightarrow> ParamStr (s @ ''&expandSubCollections=true''))"

text \<open>\<open>get_collection(partition=...)\<close>: a keyword argument is an entry of the parameters.\<close>

definition in_partition :: "string \<Rightarrow> params option" where
  "in_partition part = Some (ParamDict [(''partition'', part)])"

section \<open>The SDK endpoint of a resource type\<close>

record ('d, 'm) endpoint =
  ep_create :: "'m \<Rightarrow> ('d, unit) py"
  ep_exists :: "string \<Rightarrow> string \<Rightarrow> ('d, bool) py"
  ep_load :: "string \<Rightarrow> string \<Rightarrow> ('d, 'm) py"
  ep_modify :: "string \<Rightarrow> string \<Rightarrow> 'm \<Rightarrow> ('d, unit) py"
  ep_delete :: "string \<Rightarrow> string \<Rightarrow> ('d, unit) py"
  ep_collection :: "params option \<Rightarrow> ('d, 'm list) py"

text \<open>The documented behaviour on a device that answers; \<open>view\<close> reads the device's objects.\<close>

definition endpoint_ok ::
  "('d, 'm) endpoint \<Rightarrow> ('m \<Rightarrow> string \<times> string) \<Rightarrow> ('d \<Rightarrow> (string \<times> string) \<Rightarrow> 'm option) \<Rightarrow> bool" where
  "endpoint_ok ep key view \<longleftrightarrow>
     (\<forall>m d. if view d (key m) = None
            then \<exists>d'. ep_create ep m d = (Inr (), d') \<and> view d' = (view d)(key m \<mapsto> m)
            else ep_create ep m d = (Inl (HTTPError 409 ''''), d)) \<and>
     (\<forall>n p d. ep_exists ep n p d = (Inr (view d (n, p) \<noteq> None), d)) \<and>
     (\<forall>n p d. ep_load ep n p d =
        (case view d (n, p) of None \<Rightarrow> Inl (HTTPError 404 '''') | Some m \<Rightarrow> Inr m, d)) \<and>
     (\<forall>n p m d. if view d (n, p) = None then ep_modify ep n p m d = (Inl (HTTPError 404 ''''), d)
            else \<exists>d'. ep_modify ep n p m d = (Inr (), d') \<and> view d' = (view d)((n, p) \<mapsto> m)) \<and>
     (\<forall>n p d. if view d (n, p) = None then ep_delete ep n p d = (Inl (HTTPError 404 ''''), d)
            else \<exists>d'. ep_delete ep n p d = (Inr (), d') \<and> view d' = (view d)((n, p) := None))"

lemma endpoint_ok_create_new:
  "endpoint_ok ep key view \<Longrightarrow> view d (key m) = None \<Longrightarrow>
     \<exists>d'. ep_create ep m d = (Inr (), d') \<and> view d' = (view d)(key m \<mapsto> m)"
  unfolding endpoint_ok_def by presburger

lemma endpoint_ok_create_dup:
  "endpoint_ok ep key view \<Longrightarrow> view d (key m) = Some x \<Longrightarrow>
     ep_create ep m d = (Inl (HTTPError 409 ''''), d)"
  unfolding endpoint_ok_def by (metis option.distinct(1))

lemma endpoint_ok_exists:
  "endpoint_ok ep key view \<Longrightarrow> ep_exists ep n p d = (Inr (view d (n, p) \<noteq> None), d)"
  unfolding endpoint_ok_def by blast

lemma endpoint_ok_load:
  "endpoint_ok ep key view \<Longrightarrow> ep_load ep n p d =
     (case view d (n, p) of None \<Rightarrow> Inl (HTTPError 404 '''') | Some m \<Rightarrow> Inr m, d)"
  unfolding endpoint_ok_def by blast

lemma endpoint_ok_modify:
  "endpoint_ok ep key view \<Longrightarrow> view d (n, p) = Some x \<Longrightarrow>
     \<exists>d'. ep_modify ep n p m d = (Inr (), d') \<and> view d' = (view d)((n, p) \<mapsto> m)"
  unfolding endpoint_ok_def by (metis option.distinct(1))

lemma endpoint_ok_delete:
  "endpoint_ok ep key view \<Longrightarrow> view d (n, p) = Some x \<Longrightarrow>
     \<exists>d'. ep_delete ep n p d = (Inr (), d') \<and> view d' = (view d)((n, p) := None)"
  unfolding endpoint_ok_def by (metis option.distinct(1))

text \<open>A device that is a table of objects behaves so; the witnesses use it.\<close>

definition table_endpoint :: "('m \<Rightarrow> string \<times> string) \<Rightarrow> (((string \<times> string) \<times> 'm) list, 'm) endpoint" where
  "table_endpoint key =
     \<lparr>ep_create = (\<lambda>m d. if map_of d (key m) = None then (Inr (), AList.update (key m) m d)
                         else (Inl (HTTPError 409 ''''), d)),
      ep_exists = (\<lambda>n p d. (Inr (map_of d (n, p) \<noteq> None), d)),
      ep_load = (\<lambda>n p d. (case map_of d (n, p) of None \<Rightarrow> Inl (HTTPError 404 '''') | Some m \<Rightarrow> Inr m, d)),
      ep_modify = (\<lambda>n p m d. if map_of d (n, p) = None then (Inl (HTTPError 404 ''''), d)
                             else (Inr (), AList.update (n, p) m d)),
      ep_delete = (\<lambda>n p d. if map_of d (n, p) = None then (Inl (HTTPError 404 ''''), d)
                           else (Inr (), AList.delete (n, p) d)),
      ep_collection = (\<lambda>q d. (Inr (map snd d), d))\<rparr>"

lemma table_endpoint_ok: "endpoint_ok (table_endpoint key) key map_of"
  by (auto simp: endpoint_ok_def table_endpoint_def update_conv' delete_conv' split: option.splits)

section \<open>The helper's operations\<close>

definition rh_create :: "('d, 'm) endpoint \<Rightarrow> 'm \<Rightarrow> ('d, unit) py" where
  "rh_create ep model = ep_create ep model"

definition rh_exists :: "('d, 'm) endpoint \<Rightarrow> string \<Rightarrow> string \<Rightarrow> ('d, bool) py" where
  "rh_exists ep name part = ep_exists ep name part"

definition rh_delete :: "('d, 'm) endpoint \<Rightarrow> string \<Rightarrow> string \<Rightarrow> ('d, unit) py" where
  "rh_delete ep name part =
     bindM (ep_exists ep name part) (\<lambda>ex.
       if ex then bindM (ep_load ep name part) (\<lambda>obj. ep_delete ep name part)
       else retM ())"

definition rh_load :: "('d, 'm) endpoint \<Rightarrow> string \<Rightarrow> string \<Rightarrow> ('d, 'm) py" where
  "rh_load ep name part = ep_load ep name part"

definition rh_update :: "('d, 'm) endpoint \<Rightarrow> ('m \<Rightarrow> string \<times> string) \<Rightarrow> 'm \<Rightarrow> ('d, unit) py" where
  "rh_update ep key model =
     (let name = fst (key model); part = snd (key model) in
      bindM (rh_load ep name part) (\<lambda>resource. ep_modify ep name part model))"

definition get_resources :: "bool \<Rightarrow> ('d, 'm) endpoint \<Rightarrow> string option \<Rightarrow> bool \<Rightarrow> ('d, 'm list) py" where
  "get_resources old ep part expand =
     (case part of
        None \<Rightarrow> ep_collection ep None
      | Some p \<Rightarrow>
          if p = '''' then ep_collection ep None
          else let q = get_filter old ''partition'' ''eq'' p
               in ep_collection ep (Some (if expand then expand_params q else q)))"

definition exists_in_collection ::
  "bool \<Rightarrow> ('d, 'm) endpoint \<Rightarrow> ('m \<Rightarrow> string) \<Rightarrow> string \<Rightarrow> ('d, bool) py" where
  "exists_in_collection old ep name_of name =
     bindM (get_resources old ep (Some ''Common'') False) (\<lambda>collection.
       retM (list_ex (\<lambda>item. name_of item = name) collection))"

text \<open>On a device that answers, delete removes the object and never fails.\<close>

lemma rh_delete_ok:
  assumes "endpoint_ok ep key view"
  shows "\<exists>d'. rh_delete ep n p d = (Inr (), d') \<and> view d' = (view d)((n, p) := None)"
proof (cases "view d (n, p)")
  case None
  then have "view d = (view d)((n, p) := None)" by auto
  with None show ?thesis
    by (auto simp: rh_delete_def py_simps endpoint_ok_exists [OF assms])
next
  case (Some x)
  from endpoint_ok_delete [OF assms Some] obtain d'
    where "ep_delete ep n p d = (Inr (), d') \<and> view d' = (view d)((n, p) := None)" by blast
  with Some show ?thesis
    by (auto simp: rh_delete_def py_simps endpoint_ok_exists [OF assms] endpoint_ok_load [OF assms])
qed

lemma rh_update_ok:
  assumes "endpoint_ok ep key view" and "view d (key m) = Some x"
  shows "\<exists>d'. rh_update ep key m d = (Inr (), d') \<and> view d' = (view d)(key m \<mapsto> m)"
proof -
  from assms(2) have s: "view d (fst (key m), snd (key m)) = Some x" by simp
  from endpoint_ok_modify [OF assms(1) s, of m] s show ?thesis
    by (auto simp: rh_update_def rh_load_def py_simps Let_def endpoint_ok_load [OF assms(1)])
qed

section \<open>Statistics\<close>

datatype stat_value = StatInt int | StatText string

datatype stat_entry =
  StatEntry (st_value: "int option") (st_description: "string option")
    (st_nested: "(string \<times> stat_entry) list option")

text \<open>
  The search for \<open>nestedStats\<close> (TMOS 12.1): the loop runs over the keys of the outer entries while
  it replaces the entries it looks them up in; a key missing from the replaced entries is a
  \<open>'nestedStats' in None\<close>, a \<open>TypeError\<close>.
\<close>

fun find_nested :: "string list \<Rightarrow> (string \<times> stat_entry) list \<Rightarrow> exn + (string \<times> stat_entry) list" where
  "find_nested [] entries = Inr entries"
| "find_nested (k # ks) entries =
     (case map_of entries k of
        None \<Rightarrow> Inl TypeError
      | Some v \<Rightarrow> find_nested ks (case st_nested v of None \<Rightarrow> entries | Some inner \<Rightarrow> inner))"

fun pick_stats :: "string list \<Rightarrow> (string \<times> stat_entry) list \<Rightarrow> (string \<times> stat_value) list" where
  "pick_stats [] entries = []"
| "pick_stats (k # ks) entries =
     (let rest = pick_stats ks entries in
      case map_of entries k of
        None \<Rightarrow> rest
      | Some v \<Rightarrow>
          (case st_value v of
             Some i \<Rightarrow> (k, StatInt i) # rest
           | None \<Rightarrow> (case st_description v of Some t \<Rightarrow> (k, StatText t) # rest | None \<Rightarrow> rest)))"

definition collect_stats ::
  "(string \<times> stat_entry) list \<Rightarrow> string list \<Rightarrow> exn + (string \<times> stat_value) list" where
  "collect_stats stat_entries stat_keys =
     (case stat_keys of
        [] \<Rightarrow> Inl IndexError
      | k0 # _ \<Rightarrow>
          bindE (if map_of stat_entries k0 = None
                 then find_nested (map fst stat_entries) stat_entries else Inr stat_entries)
            (\<lambda>entries. Inr (pick_stats stat_keys entries)))"

lemma pick_stats_keys: "set (map fst (pick_stats ks entries)) \<subseteq> set ks"
  by (induction ks) (auto simp: Let_def split: option.splits)

lemma pick_stats_sub: "set (map fst (pick_stats ks entries)) \<subseteq> fst ` set entries"
  by (induction ks) (auto simp: Let_def dest!: map_of_SomeD split: option.splits
      intro: image_eqI [rotated])

text \<open>
  \<open>get_stats\<close>: what the resource's \<open>stats.load()\<close> gives is \<open>stats_of\<close>, read from the loaded
  object.
\<close>

definition rh_get_stats ::
  "('d, 'm) endpoint \<Rightarrow> ('m \<Rightarrow> (string \<times> stat_entry) list) \<Rightarrow> string \<Rightarrow> string \<Rightarrow> string list
     \<Rightarrow> ('d, (string \<times> stat_value) list) py" where
  "rh_get_stats ep stats_of name part stat_keys =
     bindM (rh_exists ep name part) (\<lambda>ex.
       if ex then bindM (rh_load ep name part) (\<lambda>resource.
              liftM (collect_stats (stats_of resource) stat_keys))
       else retM [])"

end
