(* ===== verification/Esd.thy ===== *)
theory Esd
  imports ResourceHelper
begin

text \<open>
  \<open>esd_filehandler.py\<close>: the enhanced service definitions (ESD). A JSON value is \<open>EStr\<close>, \<open>EList\<close> or
  \<open>EOther\<close>; an ESD is its list of tags. What is on a device is the parameter \<open>coll\<close>: the names
  \<open>get_resources(bigip, 'Common')\<close> returns for a resource type, or the exception it raises.

  The lemmas characterise \<open>verify_esd\<close> as a filter of the tags and \<open>verify_esd_dict\<close> as a
  selection whose stored tags are those of the last device.
\<close>

section \<open>Data\<close>

datatype esd_value = EStr string | EList "string list" | EOther

type_synonym esd = "(string \<times> esd_value) list"

text \<open>What \<open>verify_esd_dict\<close> stores for a name: a dictionary, or the initial \<open>True\<close>.\<close>

datatype esd_entry = EsdTrue | EsdDict esd

type_synonym esd_table = "(string \<times> esd_entry) list"

datatype value_type = StringTypes | ListType

definition valid_esd_tags :: "(string \<times> (resource_type \<times> value_type)) list" where
  "valid_esd_tags =
     [(''lbaas_ctcp'', (tcp_profile_rt, StringTypes)),
      (''lbaas_stcp'', (tcp_profile_rt, StringTypes)),
      (''lbaas_cssl_profile'', (client_ssl_profile_rt, StringTypes)),
      (''lbaas_sssl_profile'', (server_ssl_profile_rt, StringTypes)),
      (''lbaas_http_profile'', (http_profile_rt, StringTypes)),
      (''lbaas_irule'', (rule_rt, ListType)),
      (''lbaas_policy'', (l7policy_rt, ListType)),
      (''lbaas_persist'', (persistence_rt, StringTypes)),
      (''lbaas_fallback_persist'', (persistence_rt, StringTypes)),
      (''lbaas_oneconnect_profile'', (oneconnect_rt, StringTypes))]"

type_synonym 'd coll = "'d \<Rightarrow> resource_type \<Rightarrow> exn + string list"

section \<open>Reading the files\<close>

text \<open>
  \<open>read_json\<close>: each element is what \<open>json.load\<close> gives for one file of the directory. A later file
  overrides an earlier one; a file that is not JSON (\<open>ValueError\<close>) stops the reading.
\<close>

fun read_json :: "(exn + (string \<times> esd) list) list \<Rightarrow> (string \<times> esd) list \<Rightarrow> exn + (string \<times> esd) list" where
  "read_json [] acc = Inr acc"
| "read_json (f # fs) acc =
     (case f of
        Inl ValueError \<Rightarrow> Inl (F5 EsdJSONFileInvalidException)
      | Inl e \<Rightarrow> Inl e
      | Inr d \<Rightarrow> read_json fs (AList.merge acc d))"

section \<open>Checking tags and values\<close>

definition is_valid_tag :: "string \<Rightarrow> bool" where
  "is_valid_tag tag \<longleftrightarrow> map_of valid_esd_tags tag \<noteq> None"

definition verify_tag :: "string \<Rightarrow> exn + unit" where
  "verify_tag tag = (if is_valid_tag tag then Inr () else Inl (F5 EsdJSONFileInvalidException))"

text \<open>A chain certificate may be named with or without \<open>.crt\<close>.\<close>

definition resource_exists :: "'d coll \<Rightarrow> 'd \<Rightarrow> esd_value \<Rightarrow> resource_type \<Rightarrow> exn + bool" where
  "resource_exists coll d v rt =
     (case v of
        EStr s \<Rightarrow>
          let name = (if rt = ssl_cert_file_rt \<and> \<not> endswith ''.crt'' s then s @ ''.crt'' else s)
          in bindE (coll d rt) (\<lambda>items. Inr (name \<in> set items))
      | _ \<Rightarrow> if rt = ssl_cert_file_rt then Inl AttributeError
             else bindE (coll d rt) (\<lambda>items. Inr False))"

definition persistence_types :: "resource_type list" where
  "persistence_types =
     [cookie_persistence_rt, dest_addr_persistence_rt, source_addr_persistence_rt,
      hash_persistence_rt, msrdp_persistence_rt, sip_persistence_rt, ssl_persistence_rt,
      universal_persistence_rt]"

fun first_type :: "'d coll \<Rightarrow> 'd \<Rightarrow> esd_value \<Rightarrow> resource_type list \<Rightarrow> exn + resource_type option" where
  "first_type coll d v [] = Inr None"
| "first_type coll d v (rt # rts) =
     bindE (resource_exists coll d v rt) (\<lambda>ex. if ex then Inr (Some rt) else first_type coll d v rts)"

definition get_persistence_type :: "'d coll \<Rightarrow> 'd \<Rightarrow> esd_value \<Rightarrow> exn + resource_type option" where
  "get_persistence_type coll d v = first_type coll d v persistence_types"

definition get_resource_type :: "'d coll \<Rightarrow> 'd \<Rightarrow> resource_type \<Rightarrow> esd_value \<Rightarrow> exn + resource_type option" where
  "get_resource_type coll d rt v =
     (if rt = persistence_rt then get_persistence_type coll d v else Inr (Some rt))"

fun has_type :: "esd_value \<Rightarrow> value_type \<Rightarrow> bool" where
  "has_type (EStr _) StringTypes = True"
| "has_type (EList _) ListType = True"
| "has_type _ _ = False"

fun is_valid_value_list :: "'d coll \<Rightarrow> 'd \<Rightarrow> string list \<Rightarrow> resource_type \<Rightarrow> exn + bool" where
  "is_valid_value_list coll d [] rt = Inr True"
| "is_valid_value_list coll d (v # vs) rt =
     bindE (resource_exists coll d (EStr v) rt) (\<lambda>ex.
       if ex then is_valid_value_list coll d vs rt else Inr False)"

definition value_exists :: "'d coll \<Rightarrow> 'd \<Rightarrow> esd_value \<Rightarrow> resource_type \<Rightarrow> exn + bool" where
  "value_exists coll d v rt =
     (case v of EList vs \<Rightarrow> is_valid_value_list coll d vs rt | _ \<Rightarrow> resource_exists coll d v rt)"

definition verify_value :: "'d coll \<Rightarrow> 'd \<Rightarrow> string \<Rightarrow> esd_value \<Rightarrow> exn + unit" where
  "verify_value coll d tag v =
     (case map_of valid_esd_tags tag of
        None \<Rightarrow> Inl TypeError
      | Some (def_rt, def_vt) \<Rightarrow>
          bindE (get_resource_type coll d def_rt v) (\<lambda>rt.
          case rt of
            None \<Rightarrow> Inl (F5 EsdJSONFileInvalidException)
          | Some rt \<Rightarrow>
              if \<not> has_type v def_vt then Inl (F5 EsdJSONFileInvalidException)
              else bindE (value_exists coll d v rt) (\<lambda>ok.
                   if ok then Inr () else Inl (F5 EsdJSONFileInvalidException))))"

section \<open>Checking whole ESDs\<close>

text \<open>An invalid tag is dropped; any other exception leaves the loop.\<close>

fun verify_esd :: "'d coll \<Rightarrow> 'd \<Rightarrow> esd \<Rightarrow> exn + esd" where
  "verify_esd coll d [] = Inr []"
| "verify_esd coll d ((tag, v) # rest) =
     (case bindE (verify_tag tag) (\<lambda>_. verify_value coll d tag v) of
        Inr _ \<Rightarrow> bindE (verify_esd coll d rest) (\<lambda>r. Inr ((tag, v) # r))
      | Inl (F5 EsdJSONFileInvalidException) \<Rightarrow> verify_esd coll d rest
      | Inl e \<Rightarrow> Inl e)"

text \<open>The loop over the devices: it stops at the first device that leaves no tag.\<close>

fun verify_on_all :: "'d coll \<Rightarrow> 'd list \<Rightarrow> esd \<Rightarrow> esd_entry \<Rightarrow> exn + esd_entry" where
  "verify_on_all coll [] e valid = Inr valid"
| "verify_on_all coll (d # ds) e valid =
     bindE (verify_esd coll d e) (\<lambda>v. if v = [] then Inr (EsdDict []) else verify_on_all coll ds e (EsdDict v))"

definition entry_true :: "esd_entry \<Rightarrow> bool" where
  "entry_true e \<longleftrightarrow> e \<noteq> EsdDict []"

fun verify_esd_dict :: "'d coll \<Rightarrow> 'd list \<Rightarrow> (string \<times> esd) list \<Rightarrow> exn + esd_table" where
  "verify_esd_dict coll bigips [] = Inr []"
| "verify_esd_dict coll bigips ((name, e) # rest) =
     bindE (verify_on_all coll bigips e EsdTrue) (\<lambda>v.
     bindE (verify_esd_dict coll bigips rest) (\<lambda>r.
       Inr (if entry_true v then (name, v) # r else r)))"

text \<open>\<open>process_esd\<close>: the outcome, and the \<open>esd_dict\<close> the processor holds afterwards.\<close>

definition process_esd ::
  "'d coll \<Rightarrow> 'd list \<Rightarrow> (exn + (string \<times> esd) list) list \<Rightarrow> esd_table option
     \<Rightarrow> (exn + unit) \<times> esd_table option" where
  "process_esd coll bigips files old =
     (case bindE (read_json files []) (verify_esd_dict coll bigips) of
        Inr t \<Rightarrow> (Inr (), Some t)
      | Inl (F5 EsdJSONFileInvalidException) \<Rightarrow> (Inl (F5 EsdJSONFileInvalidException), Some [])
      | Inl e \<Rightarrow> (Inl e, old))"

definition get_esd :: "esd_table \<Rightarrow> string \<Rightarrow> esd_entry option" where
  "get_esd t name = map_of t name"

definition is_esd :: "esd_table \<Rightarrow> string \<Rightarrow> bool" where
  "is_esd t name \<longleftrightarrow> get_esd t name \<noteq> None"

section \<open>Lemmas\<close>

definition tag_ok :: "'d coll \<Rightarrow> 'd \<Rightarrow> string \<times> esd_value \<Rightarrow> bool" where
  "tag_ok coll d tv \<longleftrightarrow>
     bindE (verify_tag (fst tv)) (\<lambda>_. verify_value coll d (fst tv) (snd tv)) = Inr ()"

lemma verify_esd_filter: "verify_esd coll d e = Inr r \<Longrightarrow> r = filter (tag_ok coll d) e"
proof (induction coll d e arbitrary: r rule: verify_esd.induct)
  case (2 coll d tag v rest)
  then show ?case
    by (auto simp: tag_ok_def bindE_eq_Inr split: sum.splits exn.splits f5exn.splits)
qed auto

lemma tag_okD:
  assumes "tag_ok coll d (tag, v)"
  shows "\<exists>rt vt. map_of valid_esd_tags tag = Some (rt, vt) \<and> has_type v vt"
  using assms
  by (auto simp: tag_ok_def verify_tag_def verify_value_def bindE_eq_Inr
      split: option.splits if_splits prod.splits)

lemma tag_ok_value:
  assumes "tag_ok coll d (tag, v)"
  shows "\<exists>rt. value_exists coll d v rt = Inr True"
  using assms
  by (auto simp: tag_ok_def verify_tag_def verify_value_def bindE_eq_Inr
      split: option.splits if_splits prod.splits)

lemma verify_on_all_last:
  "verify_on_all coll ds e v0 = Inr v \<Longrightarrow> entry_true v \<Longrightarrow> ds \<noteq> [] \<Longrightarrow>
     v = EsdDict (filter (tag_ok coll (last ds)) e) \<and> (\<forall>d \<in> set ds. filter (tag_ok coll d) e \<noteq> [])"
proof (induction coll ds e v0 rule: verify_on_all.induct)
  case (2 coll d ds e valid)
  from "2.prems"(1) obtain w where w: "verify_esd coll d e = Inr w"
    and rest: "(if w = [] then Inr (EsdDict []) else verify_on_all coll ds e (EsdDict w)) = Inr v"
    by (auto simp: bindE_eq_Inr)
  from verify_esd_filter [OF w] have wf: "w = filter (tag_ok coll d) e" .
  from rest "2.prems"(2) have ne: "w \<noteq> []" by (auto simp: entry_true_def split: if_splits)
  show ?case
  proof (cases "ds = []")
    case True
    with rest ne wf show ?thesis by auto
  next
    case False
    with "2.IH" [OF ne] rest ne "2.prems"(2) wf show ?thesis by auto
  qed
qed auto

lemma verify_esd_dict_entry:
  "verify_esd_dict coll bigips ds = Inr t \<Longrightarrow> (name, v) \<in> set t \<Longrightarrow>
     \<exists>e. (name, e) \<in> set ds \<and> verify_on_all coll bigips e EsdTrue = Inr v \<and> entry_true v"
proof (induction coll bigips ds arbitrary: t rule: verify_esd_dict.induct)
  case (2 coll bigips nm e rest)
  then show ?case by (auto simp: bindE_eq_Inr split: if_splits) blast+
qed auto

text \<open>
  Every stored ESD comes from the files, keeps only known tags with values of the declared type,
  and left at least one valid tag on every device.
\<close>

lemma verify_esd_dict_sound:
  assumes "verify_esd_dict coll bigips ds = Inr t" and "(name, v) \<in> set t" and "bigips \<noteq> []"
  shows "\<exists>e. (name, e) \<in> set ds \<and> v = EsdDict (filter (tag_ok coll (last bigips)) e) \<and>
           (\<forall>d \<in> set bigips. filter (tag_ok coll d) e \<noteq> [])"
  using verify_esd_dict_entry [OF assms(1,2)] verify_on_all_last [OF _ _ assms(3)] by blast

end
