(* ===== verification/Adapter.thy ===== *)
theory Adapter
  imports Esd
begin

text \<open>
  \<open>service_adapter.py\<close>: the translation of LBaaS objects to BIG-IP objects. The adapter's state
  (\<open>conf\<close>, \<open>prefix\<close>, \<open>esd\<close>) is the record \<open>adapter\<close>; each method is one definition, an \<open>exn +\<close>
  result where the Python can raise. A method that also writes into the service dictionaries
  returns the updated record. \<open>ip_version\<close> is \<open>netaddr.IPAddress(_).version\<close> and \<open>md5\<close> the value
  of the hex digest; both are parameters.
\<close>

section \<open>The adapter and names\<close>

record adapter =
  ad_conf :: conf
  ad_prefix :: string
  ad_esd :: "esd_table option"

definition new_adapter :: "conf \<Rightarrow> adapter" where
  "new_adapter c =
     \<lparr>ad_conf = c,
      ad_prefix = (if environment_prefix c \<noteq> '''' then environment_prefix c @ ''_'' else OBJ_PREFIX @ ''_''),
      ad_esd = None\<rparr>"

definition init_esd :: "adapter \<Rightarrow> esd_table \<Rightarrow> adapter" where
  "init_esd A t = A\<lparr>ad_esd := Some t\<rparr>"

text \<open>\<open>self.esd.get_esd(name)\<close>; an adapter without ESDs has \<open>self.esd = None\<close>.\<close>

definition esd_get :: "adapter \<Rightarrow> string option \<Rightarrow> exn + esd_entry option" where
  "esd_get A name =
     (case ad_esd A of
        None \<Rightarrow> Inl AttributeError
      | Some t \<Rightarrow> Inr (case name of None \<Rightarrow> None | Some n \<Rightarrow> Esd.get_esd t n))"

definition adapter_get_esd :: "adapter \<Rightarrow> string option \<Rightarrow> esd_entry option" where
  "adapter_get_esd A name =
     (case ad_esd A of None \<Rightarrow> None | Some t \<Rightarrow> (case name of None \<Rightarrow> None | Some n \<Rightarrow> Esd.get_esd t n))"

definition adapter_is_esd :: "adapter \<Rightarrow> string option \<Rightarrow> exn + bool" where
  "adapter_is_esd A name = bindE (esd_get A name) (\<lambda>e. Inr (e \<noteq> None))"

definition get_folder_name :: "adapter \<Rightarrow> string option \<Rightarrow> string" where
  "get_folder_name A tenant_id =
     (case tenant_id of
        Some t \<Rightarrow> ad_prefix A @ filter (\<lambda>c. c \<noteq> CHR ''/'') t
      | None \<Rightarrow> ''Common'')"

definition get_name :: "adapter \<Rightarrow> string \<Rightarrow> string" where
  "get_name A uuid = ad_prefix A @ uuid"

definition snat_mode :: "adapter \<Rightarrow> bool" where
  "snat_mode A = f5_snat_mode (ad_conf A)"

definition snat_count :: "adapter \<Rightarrow> int" where
  "snat_count A = f5_snat_addresses_per_subnet (ad_conf A)"

definition vip_on_common_network :: "adapter \<Rightarrow> service \<Rightarrow> bool" where
  "vip_on_common_network A svc =
     (get_or '''' (case sv_loadbalancer svc of None \<Rightarrow> None | Some lb \<Rightarrow> lb_network_id lb)
        \<in> fst ` set (common_network_ids (ad_conf A)))"

text \<open>A name and a partition; the resources built from it extend it.\<close>

record bigip_name =
  bn_name :: string
  bn_partition :: string

definition init_pool_name :: "adapter \<Rightarrow> loadbalancer \<Rightarrow> pool option \<Rightarrow> bigip_name" where
  "init_pool_name A lb po =
     \<lparr>bn_name = (case po of None \<Rightarrow> '''' | Some p \<Rightarrow> ad_prefix A @ po_id p),
      bn_partition = get_folder_name A (lb_tenant_id lb)\<rparr>"

definition init_monitor_name :: "adapter \<Rightarrow> loadbalancer \<Rightarrow> healthmonitor \<Rightarrow> bigip_name" where
  "init_monitor_name A lb hm =
     \<lparr>bn_name = ad_prefix A @ hm_id hm, bn_partition = get_folder_name A (lb_tenant_id lb)\<rparr>"

definition init_virtual_name :: "adapter \<Rightarrow> loadbalancer \<Rightarrow> listener \<Rightarrow> bigip_name" where
  "init_virtual_name A lb li =
     \<lparr>bn_name = ad_prefix A @ li_id li, bn_partition = get_folder_name A (lb_tenant_id lb)\<rparr>"

text \<open>\<open>get_resource_description\<close> of a dictionary with the given \<open>name\<close> and \<open>description\<close> keys.\<close>

definition get_resource_description :: "string option \<Rightarrow> string option \<Rightarrow> string" where
  "get_resource_description name description =
     (let full = get_or '''' name; desc = get_or '''' description in
      if full \<noteq> '''' then (if desc \<noteq> '''' then full @ '':'' @ '' '' @ desc else full @ '':'')
      else if desc \<noteq> '''' then desc else '''')"

definition get_traffic_group :: "loadbalancer \<Rightarrow> string" where
  "get_traffic_group lb = get_or ''traffic-group-local-only'' (lb_traffic_group lb)"

definition tenant_to_traffic_group :: "(string \<Rightarrow> nat) \<Rightarrow> string \<Rightarrow> 'g list \<Rightarrow> exn + 'g" where
  "tenant_to_traffic_group md5 tenant_id traffic_groups =
     (if traffic_groups = [] then Inl (OtherError ''ZeroDivisionError'')
      else Inr (traffic_groups ! (md5 tenant_id mod length traffic_groups)))"

record folder =
  fo_name :: string
  fo_subPath :: string
  fo_fullPath :: string
  fo_hidden :: bool
  fo_inheritedDevicegroup :: bool
  fo_trafficGroup :: "string option"
  fo_inheritedTrafficGroup :: bool

definition get_folder :: "adapter \<Rightarrow> loadbalancer \<Rightarrow> folder" where
  "get_folder A lb =
     (let folder_name = get_folder_name A (lb_tenant_id lb) in
      \<lparr>fo_name = folder_name, fo_subPath = ''/'', fo_fullPath = ''/'' @ folder_name,
       fo_hidden = False, fo_inheritedDevicegroup = True,
       fo_trafficGroup = lb_traffic_group lb,
       fo_inheritedTrafficGroup = (lb_traffic_group lb = None)\<rparr>)"

section \<open>Health monitors\<close>

record bigip_monitor = bigip_name +
  bm_description :: string
  bm_send :: "string option"
  bm_recv :: "string option"
  bm_interval :: "int option"
  bm_timeout :: "int option"

text \<open>\<open>_get_recv_text\<close>; \<open>find(c) > 0\<close> asks for the separator after the first character.\<close>

definition recv_default :: string where
  "recv_default = ''HTTP/1.(0|1) 200''"

fun recv_list :: "string list \<Rightarrow> string \<Rightarrow> exn + string" where
  "recv_list [] acc = Inr acc"
| "recv_list (st # sts) acc = bindE (py_int st) (\<lambda>_. recv_list sts (acc @ st @ ''|''))"

definition recv_parse :: "string \<Rightarrow> exn + string" where
  "recv_parse codes =
     (if find_str '','' codes > 0 then
        bindE (recv_list (split_on CHR '','' codes) ''HTTP/1.(0|1) ('') (\<lambda>t. Inr (butlast t @ '')''))
      else if find_str ''-'' codes > 0 then
        (case split_on CHR ''-'' codes of
           start_range # stop_range # _ \<Rightarrow>
             bindE (py_int start_range) (\<lambda>_. bindE (py_int stop_range) (\<lambda>_.
               Inr (''HTTP/1.(0|1) ['' @ start_range @ ''-'' @ stop_range @ '']'')))
         | _ \<Rightarrow> Inl IndexError)
      else bindE (py_int codes) (\<lambda>_. Inr (''HTTP/1.(0|1) '' @ codes)))"

definition get_recv_text :: "healthmonitor \<Rightarrow> string" where
  "get_recv_text hm =
     (case hm_expected_codes hm of
        Some codes \<Rightarrow> (case recv_parse codes of Inr t \<Rightarrow> t | Inl _ \<Rightarrow> recv_default)
      | None \<Rightarrow> recv_default)"

definition get_monitor_type :: "healthmonitor \<Rightarrow> string option" where
  "get_monitor_type hm = hm_type hm"

text \<open>The text \<open>\r\n\r\n\<close> with the backslashes spelled out, as the Python literal has it.\<close>

definition escaped_crlf2 :: string where
  "escaped_crlf2 = concat (replicate 2 [CHR 0x5C, CHR ''r'', CHR 0x5C, CHR ''n''])"

definition map_healthmonitor :: "adapter \<Rightarrow> loadbalancer \<Rightarrow> healthmonitor \<Rightarrow> exn + bigip_monitor" where
  "map_healthmonitor A lb hm =
     (let http = (hm_type hm = Some ''HTTP'' \<or> hm_type hm = Some ''HTTPS'') in
      bindE
        (case hm_timeout hm of
           None \<Rightarrow> Inr None
         | Some t \<Rightarrow>
             (case hm_max_retries hm of
                None \<Rightarrow> Inr None
              | Some r \<Rightarrow> bindE (py_int r) (\<lambda>ri. bindE (py_int t) (\<lambda>ti. Inr (Some (ri * ti))))))
        (\<lambda>timeout. Inr
          \<lparr>bn_name = bn_name (init_monitor_name A lb hm),
           bn_partition = bn_partition (init_monitor_name A lb hm),
           bm_description = get_resource_description (hm_name hm) (hm_description hm),
           bm_send =
             (if http then Some (case hm_url_path hm of
                Some u \<Rightarrow> ''GET '' @ u @ '' HTTP/1.0'' @ escaped_crlf2
              | None \<Rightarrow> ''GET / HTTP/1.0'' @ escaped_crlf2) else None),
           bm_recv = (if http then Some (get_recv_text hm) else None),
           bm_interval = hm_delay hm,
           bm_timeout = timeout\<rparr>))"

section \<open>Members and pools\<close>

record bigip_member = bigip_name +
  bmem_address :: string
  bmem_session :: string
  bmem_ratio :: int

text \<open>\<open>address.port\<close> for IPv6, \<open>address:port\<close> for IPv4.\<close>

definition addr_port :: "string \<Rightarrow> int \<Rightarrow> string" where
  "addr_port ip port =
     (if CHR '':'' \<in> set ip then ip @ ''.'' @ str_int port else ip @ '':'' @ str_int port)"

definition map_member :: "adapter \<Rightarrow> loadbalancer \<Rightarrow> member \<Rightarrow> exn + bigip_member" where
  "map_member A lb m =
     bindE (subE (me_weight m)) (\<lambda>weight. Inr
       \<lparr>bn_name = addr_port (me_address m) (me_protocol_port m),
        bn_partition = get_folder_name A (lb_tenant_id lb),
        bmem_address = me_address m,
        bmem_session =
          (if weight = 0 then ''user-disabled''
           else if me_admin_state_up m then ''user-enabled'' else ''user-disabled''),
        bmem_ratio = (if weight = 0 then 1 else weight)\<rparr>)"

definition map_node :: "adapter \<Rightarrow> loadbalancer \<Rightarrow> member \<Rightarrow> bigip_name" where
  "map_node A lb m =
     \<lparr>bn_name = me_address m, bn_partition = get_folder_name A (lb_tenant_id lb)\<rparr>"

definition get_lb_method :: "string \<Rightarrow> string" where
  "get_lb_method meth =
     (let m = upper meth in
      if m = ''LEAST_CONNECTIONS'' then ''least-connections-member''
      else if m = ''RATIO_LEAST_CONNECTIONS'' then ''ratio-least-connections-member''
      else if m = ''SOURCE_IP'' then ''least-connections-node''
      else if m = ''OBSERVED_MEMBER'' then ''observed-member''
      else if m = ''PREDICTIVE_MEMBER'' then ''predictive-member''
      else if m = ''RATIO'' then ''ratio-member''
      else ''round-robin'')"

text \<open>The loop of \<open>_set_lb_method\<close>: the status is only subscripted behind the weight test.\<close>

fun member_has_weight :: "member list \<Rightarrow> exn + bool" where
  "member_has_weight [] = Inr False"
| "member_has_weight (m # ms) =
     (case me_weight m of
        Some w \<Rightarrow>
          if w > 1 then bindE (subE (me_status m)) (\<lambda>s.
            if s \<noteq> PENDING_DELETE then Inr True else member_has_weight ms)
          else member_has_weight ms
      | None \<Rightarrow> member_has_weight ms)"

definition set_lb_method :: "string \<Rightarrow> member list \<Rightarrow> exn + string" where
  "set_lb_method meth members =
     (if meth = ''SOURCE_IP'' then Inr (get_lb_method meth)
      else bindE (member_has_weight members) (\<lambda>weighted.
        Inr (if weighted
             then (if meth = ''LEAST_CONNECTIONS'' then get_lb_method ''RATIO_LEAST_CONNECTIONS''
                   else get_lb_method ''RATIO'')
             else get_lb_method meth)))"

record bigip_pool = bigip_name +
  bp_description :: string
  bp_loadBalancingMode :: "string option"
  bp_monitor :: string
  bp_members :: "bigip_member list"

text \<open>
  \<open>_map_pool\<close>: the BIG-IP pool, and the LBaaS pool whose persistence a \<open>SOURCE_IP\<close> method sets (it
  stays set when a member then cannot be mapped). The description is taken of the new dictionary,
  which holds only \<open>name\<close> and \<open>partition\<close>.
\<close>

definition source_ip_persistence :: "string \<Rightarrow> pool \<Rightarrow> pool" where
  "source_ip_persistence alg p =
     (if upper alg = ''SOURCE_IP'' \<and> (case po_persistence p of None \<Rightarrow> True | Some sp \<Rightarrow> \<not> sp_true sp)
      then p\<lparr>po_session_persistence := Some (Some \<lparr>sp_type = Some ''SOURCE_IP'', sp_cookie_name = None\<rparr>)\<rparr>
      else p)"

definition pool_model ::
  "adapter \<Rightarrow> loadbalancer \<Rightarrow> string option \<Rightarrow> healthmonitor option \<Rightarrow> member list \<Rightarrow> pool \<Rightarrow> exn + bigip_pool" where
  "pool_model A lb mode hm members p =
     (let nm = init_pool_name A lb (Some p) in
      bindE (mapE (map_member A lb) (filter (\<lambda>m. me_status m \<noteq> Some PENDING_DELETE) members)) (\<lambda>ms. Inr
        \<lparr>bn_name = bn_name nm, bn_partition = bn_partition nm,
         bp_description = get_resource_description (Some (bn_name nm)) None,
         bp_loadBalancingMode = mode,
         bp_monitor = (case hm of None \<Rightarrow> '''' | Some h \<Rightarrow> bn_name (init_monitor_name A lb h)),
         bp_members = ms\<rparr>))"

definition map_pool ::
  "adapter \<Rightarrow> loadbalancer \<Rightarrow> pool \<Rightarrow> healthmonitor option \<Rightarrow> member list \<Rightarrow> (exn + bigip_pool) \<times> pool" where
  "map_pool A lb p hm members =
     (case po_lb_algorithm p of
        None \<Rightarrow> (pool_model A lb None hm members p, p)
      | Some alg \<Rightarrow>
          (case set_lb_method (upper alg) members of
             Inl e \<Rightarrow> (Inl e, p)
           | Inr mode \<Rightarrow>
               (pool_model A lb (Some mode) hm members p, source_ip_persistence alg p)))"

definition get_pool_monitor :: "pool \<Rightarrow> healthmonitor list \<Rightarrow> healthmonitor option" where
  "get_pool_monitor p monitors =
     (let mid = get_or '''' (po_healthmonitor_id p) in
      if mid = '''' then None else get_obj hm_id monitors mid)"

text \<open>\<open>get_pool\<close> of the dictionary \<open>{loadbalancer, pool, members, healthmonitors}\<close>.\<close>

definition get_pool ::
  "adapter \<Rightarrow> loadbalancer \<Rightarrow> pool \<Rightarrow> member list \<Rightarrow> healthmonitor list \<Rightarrow> (exn + bigip_pool) \<times> pool" where
  "get_pool A lb p members monitors = map_pool A lb p (get_pool_monitor p monitors) members"

section \<open>Lemmas\<close>

lemma pool_model_names:
  "pool_model A lb mode hm members p = Inr bp \<Longrightarrow>
     bn_name bp = ad_prefix A @ po_id p \<and> bn_partition bp = get_folder_name A (lb_tenant_id lb)"
  by (auto simp: pool_model_def Let_def bindE_eq_Inr init_pool_name_def)

lemma get_pool_names:
  "get_pool A lb p members monitors = (Inr bp, p') \<Longrightarrow>
     bn_name bp = ad_prefix A @ po_id p \<and> bn_partition bp = get_folder_name A (lb_tenant_id lb)"
  by (auto simp: get_pool_def map_pool_def split: option.splits sum.splits dest: pool_model_names)

lemma get_pool_id [simp]: "po_id (snd (get_pool A lb p members monitors)) = po_id p"
  by (auto simp: get_pool_def map_pool_def source_ip_persistence_def split: option.splits sum.splits)

end
