(* ===== verification/AdapterVirtual.thy ===== *)
theory AdapterVirtual
  imports Adapter
begin

text \<open>
  The virtual server half of \<open>service_adapter.py\<close>: \<open>get_virtual\<close> and what it calls, the ESD
  application, VLAN pinning and TLS data. A virtual server dictionary is the record \<open>virtual\<close>; a
  key that may be absent is an \<open>option\<close> or a flag that says whether it is set.
\<close>

section \<open>The virtual server\<close>

datatype profile =
    PPath string \<comment> \<open>\<open>'/Common/http'\<close>\<close>
  | PRef string "string option" string \<comment> \<open>\<open>name\<close>, \<open>partition\<close>, \<open>context\<close>\<close>

datatype snat_translation = Automap | SnatPool string

record virtual = bigip_name +
  vs_description :: string
  vs_pool :: string
  vs_connectionLimit :: int
  vs_destination :: "string option"
  vs_mask :: "string option"
  vs_enabled :: bool
  vs_disabled :: bool
  vs_sourceAddressTranslation :: "snat_translation option"
  vs_vlansDisabled :: bool
  vs_vlansEnabled :: bool
  vs_vlans :: "string list"
  vs_ipProtocol :: string
  vs_profiles :: "profile list"
  vs_fallbackPersistence :: string
  vs_persist :: "string list"
  vs_rules :: "string list"
  vs_policies :: "(string \<times> string) list" \<comment> \<open>\<open>name\<close>, \<open>partition\<close>\<close>

definition get_virtual_name :: "adapter \<Rightarrow> loadbalancer \<Rightarrow> listener option \<Rightarrow> bigip_name option" where
  "get_virtual_name A lb li = map_option (init_virtual_name A lb) li"

section \<open>Policies and the default pool\<close>

fun policy_rules :: "service \<Rightarrow> string list \<Rightarrow> l7rule list" where
  "policy_rules svc [] = []"
| "policy_rules svc (i # is) =
     (case get_l7rule svc i of
        None \<Rightarrow> policy_rules svc is
      | Some r \<Rightarrow> if l7r_status r \<noteq> PENDING_DELETE then r # policy_rules svc is
                  else policy_rules svc is)"

text \<open>
  \<open>get_listener_policies\<close>: each listed policy that is no ESD and is in the service, with the rules
  stored under its \<open>l7policy_rules\<close> key.
\<close>

fun listener_policies :: "adapter \<Rightarrow> service \<Rightarrow> l7_ref list \<Rightarrow> exn + (l7policy \<times> l7rule list) list" where
  "listener_policies A svc [] = Inr []"
| "listener_policies A svc (ref # refs) =
     bindE (adapter_is_esd A (ref_name ref)) (\<lambda>e.
       if e then listener_policies A svc refs
       else (case get_l7policy svc (ref_id ref) of
               None \<Rightarrow> listener_policies A svc refs
             | Some p \<Rightarrow> bindE (listener_policies A svc refs) (\<lambda>ps.
                 Inr ((p, policy_rules svc (l7p_rules p)) # ps))))"

definition get_listener_policies ::
  "adapter \<Rightarrow> service \<Rightarrow> listener \<Rightarrow> exn + (l7policy \<times> l7rule list) list" where
  "get_listener_policies A svc li = listener_policies A svc (get_all (li_l7_policies li))"

text \<open>The loop stops at the first pool with the id, even if it is being deleted.\<close>

definition get_vip_default_pool :: "listener \<Rightarrow> pool list \<Rightarrow> pool option" where
  "get_vip_default_pool li pools =
     (case li_default_pool_id li of
        None \<Rightarrow> None
      | Some i \<Rightarrow>
          (case get_obj po_id pools i of
             None \<Rightarrow> None
           | Some p \<Rightarrow> if po_status p = PENDING_DELETE then None else Some p))"

section \<open>SNAT, profiles and persistence\<close>

definition add_vlan_and_snat :: "listener \<Rightarrow> virtual \<Rightarrow> virtual" where
  "add_vlan_and_snat li vip =
     vip\<lparr>vs_sourceAddressTranslation :=
           (if li_use_snat li = Some True
            then Some (case li_snat_pool_name li of Some n \<Rightarrow> SnatPool n | None \<Rightarrow> Automap)
            else vs_sourceAddressTranslation vip),
         vs_vlansDisabled := True,
         vs_vlans := []\<rparr>"

definition http_profiles :: "profile list" where
  "http_profiles = [PPath ''/Common/http'', PPath ''/Common/oneconnect'']"

definition base_profiles :: "string \<Rightarrow> profile list" where
  "base_profiles protocol =
     (if protocol = ''TCP'' \<or> protocol = ''HTTPS'' then [PPath ''/Common/fastL4''] else http_profiles)"

definition persist_profiles :: "string \<Rightarrow> string \<Rightarrow> string list" where
  "persist_profiles vip_name t =
     (if t = ''APP_COOKIE'' then [''app_cookie_'' @ vip_name]
      else if t = ''SOURCE_IP'' then [''/Common/source_addr'']
      else if t = ''HTTP_COOKIE'' then [''/Common/cookie'']
      else [])"

definition add_profiles_session_persistence ::
  "listener \<Rightarrow> pool option \<Rightarrow> virtual \<Rightarrow> exn + virtual" where
  "add_profiles_session_persistence li po vip =
     (let protocol = get_or '''' (li_protocol li) in
      bindE (if protocol \<notin> {''HTTP'', ''HTTPS'', ''TCP'', ''TERMINATED_HTTPS''}
             then bindE (subE (li_protocol li)) (\<lambda>_. Inr ()) else Inr ()) (\<lambda>_.
      let vip = vip\<lparr>vs_ipProtocol := ''tcp'', vs_profiles := base_profiles protocol,
                    vs_fallbackPersistence := '''', vs_persist := []\<rparr>
      in Inr
        (case Option.bind po po_persistence of
           None \<Rightarrow> vip
         | Some sp \<Rightarrow>
             if \<not> sp_true sp then vip
             else
               let t = get_or '''' (sp_type sp);
                   alg = get_or ''ROUND_ROBIN'' (Option.bind po po_lb_algorithm)
               in if t \<notin> {''SOURCE_IP'', ''APP_COOKIE'', ''HTTP_COOKIE''} then vip
                  else vip\<lparr>vs_persist := persist_profiles (bn_name vip) t,
                           vs_fallbackPersistence :=
                             (if t \<noteq> ''SOURCE_IP'' \<and> alg = ''SOURCE_IP''
                              then ''/Common/source_addr'' else ''''),
                           vs_profiles :=
                             (if t \<in> {''HTTP_COOKIE'', ''APP_COOKIE''} then http_profiles
                              else base_profiles protocol)\<rparr>)))"

section \<open>Enhanced service definitions\<close>

text \<open>
  \<open>esd[tag]\<close> where the code uses it as text (or as a list of names): \<open>verify_value\<close> has checked the
  type when the ESDs were read; any other value is a \<open>TypeError\<close>.
\<close>

definition str_tag :: "esd \<Rightarrow> string \<Rightarrow> exn + string option" where
  "str_tag e tag =
     (case map_of e tag of
        None \<Rightarrow> Inr None
      | Some (EStr s) \<Rightarrow> Inr (Some s)
      | Some _ \<Rightarrow> Inl TypeError)"

definition list_tag :: "esd \<Rightarrow> string \<Rightarrow> exn + string list option" where
  "list_tag e tag =
     (case map_of e tag of
        None \<Rightarrow> Inr None
      | Some (EList xs) \<Rightarrow> Inr (Some xs)
      | Some _ \<Rightarrow> Inl TypeError)"

text \<open>The part \<open>_apply_esd\<close> and \<open>_apply_fastl4_esd\<close> share: persistence, iRules, L7 policies.\<close>

definition esd_persist_rules_policies :: "virtual \<Rightarrow> esd \<Rightarrow> exn + virtual" where
  "esd_persist_rules_policies vip e =
     bindE (str_tag e ''lbaas_persist'') (\<lambda>persist.
     bindE (str_tag e ''lbaas_fallback_persist'') (\<lambda>fallback.
     bindE (list_tag e ''lbaas_irule'') (\<lambda>irules.
     bindE (list_tag e ''lbaas_policy'') (\<lambda>policies.
       let vip = (case persist of None \<Rightarrow> vip | Some p \<Rightarrow> vip\<lparr>vs_persist := [p]\<rparr>);
           vip = (case fallback of
                    None \<Rightarrow> vip
                  | Some f \<Rightarrow> if vs_persist vip \<noteq> [] then vip\<lparr>vs_fallbackPersistence := f\<rparr> else vip);
           vip = vip\<lparr>vs_rules := map (\<lambda>r. ''/Common/'' @ r) (get_or [] irules)\<rparr>;
           vip = (case policies of
                    None \<Rightarrow> vip
                  | Some ps \<Rightarrow> vip\<lparr>vs_policies := map (\<lambda>p. (p, ''Common'')) ps\<rparr>)
       in Inr vip))))"

definition apply_fastl4_esd :: "virtual \<Rightarrow> esd \<Rightarrow> exn + virtual" where
  "apply_fastl4_esd vip e =
     (if e = [] then Inr vip
      else bindE (str_tag e ''lbaas_http_profile'') (\<lambda>http.
        esd_persist_rules_policies
          (vip\<lparr>vs_profiles :=
             [PPath (''/Common/'' @ get_or ''http'' http), PPath ''/Common/fastL4'']\<rparr>) e))"

text \<open>\<open>profiles.remove(x)\<close>: the first occurrence, \<open>ValueError\<close> if there is none.\<close>

definition py_remove :: "'a \<Rightarrow> 'a list \<Rightarrow> exn + 'a list" where
  "py_remove x xs = (if x \<in> set xs then Inr (remove1 x xs) else Inl ValueError)"

definition esd_profiles :: "profile list \<Rightarrow> esd \<Rightarrow> exn + profile list" where
  "esd_profiles profiles e =
     bindE (str_tag e ''lbaas_stcp'') (\<lambda>stcp.
     bindE (str_tag e ''lbaas_ctcp'') (\<lambda>ctcp.
     bindE (str_tag e ''lbaas_oneconnect_profile'') (\<lambda>oneconnect.
     bindE (str_tag e ''lbaas_cssl_profile'') (\<lambda>cssl.
     bindE (str_tag e ''lbaas_sssl_profile'') (\<lambda>sssl.
     bindE (str_tag e ''lbaas_http_profile'') (\<lambda>http.
       let ps = profiles @ (case stcp of None \<Rightarrow> [] | Some n \<Rightarrow> [PRef n (Some ''Common'') ''serverside'']);
           ctx = (if stcp = None then ''all'' else ''clientside'');
           ps = ps @ [PRef (get_or ''tcp'' ctcp) (Some ''Common'') ctx]
       in bindE (case oneconnect of
                   None \<Rightarrow> Inr ps
                 | Some n \<Rightarrow> bindE (py_remove (PPath ''/Common/oneconnect'') ps) (\<lambda>qs.
                     Inr (qs @ [PPath (''/Common/'' @ n)])))
          (\<lambda>ps.
          let ps = ps @ (case cssl of None \<Rightarrow> [] | Some n \<Rightarrow> [PRef n (Some ''Common'') ''clientside'']);
              ps = ps @ (case sssl of None \<Rightarrow> [] | Some n \<Rightarrow> [PRef n (Some ''Common'') ''serverside''])
          in case http of
               None \<Rightarrow> Inr ps
             | Some n \<Rightarrow> bindE (py_remove (PPath ''/Common/http'') ps) (\<lambda>qs.
                 Inr (qs @ [PPath (''/Common/'' @ n)])))))))))"

definition apply_esd :: "virtual \<Rightarrow> esd \<Rightarrow> exn + virtual" where
  "apply_esd vip e =
     (if e = [] then Inr vip
      else bindE (esd_profiles (vs_profiles vip) e) (\<lambda>ps.
        esd_persist_rules_policies (vip\<lparr>vs_profiles := ps\<rparr>) e))"

text \<open>
  The composite of the ESDs a listener's policies name: highest position first (a stable sort), a
  later one overriding; updating a dictionary with the entry \<open>True\<close> is a \<open>TypeError\<close>.
\<close>

fun esd_composite :: "adapter \<Rightarrow> l7policy list \<Rightarrow> esd \<Rightarrow> exn + esd" where
  "esd_composite A [] acc = Inr acc"
| "esd_composite A (p # ps) acc =
     (if l7p_status p = PENDING_DELETE then esd_composite A ps acc
      else bindE (esd_get A (l7p_name p)) (\<lambda>e.
        case e of
          None \<Rightarrow> esd_composite A ps acc
        | Some EsdTrue \<Rightarrow> Inl TypeError
        | Some (EsdDict d) \<Rightarrow> esd_composite A ps (AList.merge acc d)))"

definition apply_l7_and_esd_policies ::
  "adapter \<Rightarrow> listener \<Rightarrow> l7policy list \<Rightarrow> virtual \<Rightarrow> exn + virtual" where
  "apply_l7_and_esd_policies A li policies vip =
     (if policies = [] then Inr vip
      else
        let vip = (case li_f5_policy li of
                     None \<Rightarrow> vip
                   | Some fp \<Rightarrow> if fp_rules fp = [] then vip
                       else vip\<lparr>vs_policies := [(''wrapper_policy_'' @ li_id li, get_folder_name A (li_tenant_id li))]\<rparr>)
        in bindE (esd_composite A (sort_key (\<lambda>p. - l7p_position p) policies) []) (\<lambda>e.
           bindE (subE (li_protocol li)) (\<lambda>protocol.
             if protocol = ''TCP'' then apply_fastl4_esd vip e else apply_esd vip e)))"

section \<open>The whole virtual server\<close>

definition vip_ip :: "string \<Rightarrow> string" where
  "vip_ip ip = (if endswith ''%0'' ip then take (length ip - 2) ip else ip)"

text \<open>
  \<open>_map_virtual\<close>. Without an address or a port there is no destination, and without an address the
  mask line raises (\<open>None.split\<close>).
\<close>

definition map_virtual ::
  "(string \<Rightarrow> exn + nat) \<Rightarrow> adapter \<Rightarrow> loadbalancer \<Rightarrow> listener \<Rightarrow> pool option \<Rightarrow> l7policy list
     \<Rightarrow> exn + virtual" where
  "map_virtual ip_version A lb li po policies =
     (let nm = init_virtual_name A lb li;
          limit = get_or 0 (li_connection_limit li);
          addr = (case lb_vip_address lb of Some a \<Rightarrow> if a = '''' then None else Some a | None \<Rightarrow> None);
          port = (case li_protocol_port li of Some p \<Rightarrow> if p = 0 then None else Some p | None \<Rightarrow> None);
          ip = (case (addr, port) of (Some a, Some _) \<Rightarrow> Some (vip_ip a) | _ \<Rightarrow> lb_vip_address lb);
          dest = (case (addr, port) of (Some a, Some p) \<Rightarrow> Some (addr_port (vip_ip a) p) | _ \<Rightarrow> None)
      in
      bindE (case ip of None \<Rightarrow> Inl AttributeError | Some a \<Rightarrow> ip_version (before_percent a)) (\<lambda>v.
      let vip0 =
        \<lparr>bn_name = bn_name nm, bn_partition = bn_partition nm,
         vs_description = get_resource_description (li_name li) (li_description li),
         vs_pool = (case po of None \<Rightarrow> '''' | Some p \<Rightarrow> bn_name (init_pool_name A lb (Some p))),
         vs_connectionLimit = (if limit < 0 then 0 else limit),
         vs_destination = dest,
         vs_mask = (if v = 4 then Some ''255.255.255.255''
                    else if v = 6 then Some ''ffff:ffff:ffff:ffff:ffff:ffff:ffff:ffff'' else None),
         vs_enabled = (li_admin_state_up li = Some True),
         vs_disabled = (li_admin_state_up li = Some False),
         vs_sourceAddressTranslation = None, vs_vlansDisabled = False, vs_vlansEnabled = False,
         vs_vlans = [], vs_ipProtocol = '''', vs_profiles = [], vs_fallbackPersistence = '''',
         vs_persist = [], vs_rules = [], vs_policies = []\<rparr>
      in bindE (add_profiles_session_persistence li po (add_vlan_and_snat li vip0)) (\<lambda>vip.
         apply_l7_and_esd_policies A li policies (vip\<lparr>vs_rules := [], vs_policies := []\<rparr>))))"

text \<open>\<open>get_virtual\<close>: the virtual server and the listener with the keys it sets.\<close>

definition virtual_listener :: "adapter \<Rightarrow> loadbalancer \<Rightarrow> pool option \<Rightarrow> listener \<Rightarrow> listener" where
  "virtual_listener A lb po li =
     li\<lparr>li_use_snat := Some (snat_mode A),
        li_snat_pool_name := (if snat_mode A \<and> snat_count A > 0
                              then Some (get_folder_name A (lb_tenant_id lb)) else li_snat_pool_name li),
        li_session_persistence :=
          (case Option.bind po po_session_persistence of
             Some v \<Rightarrow> v | None \<Rightarrow> li_session_persistence li)\<rparr>"

definition get_virtual ::
  "(string \<Rightarrow> exn + nat) \<Rightarrow> adapter \<Rightarrow> service \<Rightarrow> loadbalancer \<Rightarrow> listener \<Rightarrow> exn + virtual \<times> listener" where
  "get_virtual ip_version A svc lb li =
     (let po = get_vip_default_pool li (get_all (sv_pools svc));
          li' = virtual_listener A lb po li
      in bindE (get_listener_policies A svc li') (\<lambda>policies.
         bindE (map_virtual ip_version A lb li' po (map fst policies)) (\<lambda>vip. Inr (vip, li'))))"

section \<open>VLANs and TLS\<close>

text \<open>\<open>get_vlan\<close>: pin the virtual server to the VLAN of the load balancer's network.\<close>

definition get_vlan ::
  "adapter \<Rightarrow> (string \<times> string) list \<Rightarrow> string \<Rightarrow> virtual \<Rightarrow> virtual" where
  "get_vlan A assured_networks network_id vip =
     (case map_of assured_networks network_id of
        Some v \<Rightarrow> vip\<lparr>vs_vlans := vs_vlans vip @ [v], vs_vlansEnabled := True, vs_vlansDisabled := False\<rparr>
      | None \<Rightarrow>
          (case map_of (common_network_ids (ad_conf A)) network_id of
             Some v \<Rightarrow> vip\<lparr>vs_vlans := vs_vlans vip @ [v], vs_vlansEnabled := True, vs_vlansDisabled := False\<rparr>
           | None \<Rightarrow> vip))"

record tls =
  tls_default :: "string option"
  tls_sni :: "string list"

definition get_tls :: "listener \<Rightarrow> exn + tls" where
  "get_tls li =
     bindE (subE (li_protocol li)) (\<lambda>protocol. Inr
       (if protocol = ''TERMINATED_HTTPS''
        then \<lparr>tls_default = (case li_default_tls_container_id li of
                Some c \<Rightarrow> if c = '''' then None else Some c | None \<Rightarrow> None),
              tls_sni = get_all (li_sni_containers li)\<rparr>
        else \<lparr>tls_default = None, tls_sni = []\<rparr>))"

definition tls_true :: "tls \<Rightarrow> bool" where
  "tls_true t \<longleftrightarrow> tls_default t \<noteq> None \<or> tls_sni t \<noteq> []"

end
