(* ===== verification/L7Adapter.thy ===== *)
theory L7Adapter
  imports Adapter
begin

text \<open>
  \<open>l7policy_adapter.py\<close>, and \<open>build_policy\<close> of \<open>l7policy_service.py\<close> that collects its input: the
  LBaaS policies of a listener become the rules of one BIG-IP policy, their L7 rules its
  conditions. Unknown types raise \<open>KeyError\<close>; \<open>PolicyHasNoRules\<close> and \<open>NoActionFoundForPolicy\<close> are
  caught by \<open>translate\<close>, which then leaves the policy without rules.
\<close>

section \<open>Actions and conditions\<close>

definition get_pool_name :: "string \<Rightarrow> string \<Rightarrow> string option \<Rightarrow> string" where
  "get_pool_name part env_prefix v = ''/'' @ part @ ''/'' @ env_prefix @ get_or ''None'' v"

definition mk_action :: "string \<Rightarrow> string \<Rightarrow> string \<Rightarrow> string \<Rightarrow> string option \<Rightarrow> exn + f5_action" where
  "mk_action action action_name part env_prefix action_val =
     (if action = ''REDIRECT_TO_POOL'' then Inr (ForwardPool action_name (get_pool_name part env_prefix action_val))
      else if action = ''REDIRECT_TO_URL'' then Inr (Redirect action_name action_val)
      else if action = ''REJECT'' then Inr (Reset action_name)
      else Inl KeyError)"

definition cond_comp_type_map :: "(string \<times> string) list" where
  "cond_comp_type_map =
     [(''STARTS_WITH'', ''startsWith''), (''ENDS_WITH'', ''endsWith''),
      (''CONTAINS'', ''contains''), (''EQUAL_TO'', ''equals'')]"

text \<open>The operand, the selector and whether the key names a header or cookie.\<close>

definition cond_type_map :: "(string \<times> (string \<times> string option \<times> bool)) list" where
  "cond_type_map =
     [(''HOST_NAME'', (''httpHost'', Some ''host'', False)),
      (''PATH'', (''httpUri'', Some ''path'', False)),
      (''FILE_TYPE'', (''httpUri'', Some ''extension'', False)),
      (''HEADER'', (''httpHeader'', None, True)),
      (''COOKIE'', (''httpCookie'', None, True))]"

definition mk_condition :: "l7rule \<Rightarrow> string \<Rightarrow> exn + f5_condition" where
  "mk_condition r cond_name =
     bindE (subE (map_of cond_type_map (l7r_type r))) (\<lambda>(operand, selector, keyed).
     bindE (subE (map_of cond_comp_type_map (l7r_compare_type r))) (\<lambda>compare. Inr
       \<lparr>c_name = cond_name, c_operand = operand, c_selector = selector,
        c_tmName = (if keyed then l7r_key r else None), c_values = [l7r_value r],
        c_not = l7r_invert r, c_compare = compare\<rparr>))"

section \<open>Rules\<close>

text \<open>The dictionary \<open>os_policies\<close> given to \<open>translate\<close>.\<close>

record os_policies =
  os_l7rules :: "l7rule list"
  os_l7policies :: "l7policy list"
  os_f5_policy :: "f5_policy option" \<comment> \<open>\<open>None\<close> is \<open>{}\<close>\<close>

definition rule_name :: "l7policy \<Rightarrow> string" where
  "rule_name p =
     (let n = get_or '''' (l7p_name p) in
      if n = '''' then lower (l7p_action p) @ ''_'' @ str_int (l7p_position p) else n)"

definition rule_active :: "l7rule \<Rightarrow> bool" where
  "rule_active r \<longleftrightarrow> l7r_status r \<noteq> PENDING_DELETE \<and> l7r_admin_state_up r"

text \<open>\<open>enumerate(policy['rules'])\<close>; a rule not in the service is \<open>None\<close>, subscripted.\<close>

fun rule_conditions :: "l7rule list \<Rightarrow> nat \<Rightarrow> string list \<Rightarrow> exn + f5_condition list" where
  "rule_conditions l7rules idx [] = Inr []"
| "rule_conditions l7rules idx (i # is) =
     (case get_obj l7r_id l7rules i of
        None \<Rightarrow> Inl TypeError
      | Some r \<Rightarrow>
          if rule_active r
          then bindE (mk_condition r (str_nat idx)) (\<lambda>c.
               bindE (rule_conditions l7rules (Suc idx) is) (\<lambda>cs. Inr (c # cs)))
          else rule_conditions l7rules (Suc idx) is)"

definition get_action_and_value :: "l7policy list \<Rightarrow> string \<Rightarrow> exn + string \<times> string option" where
  "get_action_and_value policies policy_id =
     (case get_obj l7p_id policies policy_id of
        None \<Rightarrow> Inl (F5 NoActionFoundForPolicy)
      | Some pol \<Rightarrow> Inr (l7p_action pol,
          if l7p_action pol = ''REDIRECT_TO_POOL'' then l7p_redirect_pool_id pol
          else if l7p_action pol = ''REDIRECT_TO_URL'' then l7p_redirect_url pol else None))"

definition mk_rule :: "string \<Rightarrow> string \<Rightarrow> os_policies \<Rightarrow> l7policy \<Rightarrow> exn + f5_rule" where
  "mk_rule part env_prefix os p =
     bindE (rule_conditions (os_l7rules os) 0 (l7p_rules p)) (\<lambda>conds.
     bindE (get_action_and_value (os_l7policies os) (l7p_id p)) (\<lambda>(act_type, act_val).
     bindE (mk_action act_type ''0'' part env_prefix act_val) (\<lambda>act. Inr
       \<lparr>fr_name = rule_name p, fr_ordinal = l7p_position p, fr_actions = [act],
        fr_conditions = conds\<rparr>)))"

section \<open>Policies\<close>

definition policy_active :: "l7policy \<Rightarrow> bool" where
  "policy_active p \<longleftrightarrow> l7p_status p \<noteq> PENDING_DELETE \<and> l7p_admin_state_up p"

definition adapt_policies_to_rules :: "string \<Rightarrow> string \<Rightarrow> os_policies \<Rightarrow> exn + f5_rule list" where
  "adapt_policies_to_rules part env_prefix os =
     bindE (mapE (mk_rule part env_prefix os) (filter policy_active (os_l7policies os))) (\<lambda>rules.
       if rules = [] then Inl (F5 PolicyHasNoRules)
       else if list_all (\<lambda>r. fr_conditions r = []) rules then Inl (F5 PolicyHasNoRules)
       else Inr rules)"

definition adapt_policy :: "string \<Rightarrow> string \<Rightarrow> os_policies \<Rightarrow> exn + f5_rule list" where
  "adapt_policy part env_prefix os =
     (if os_l7rules os = [] then Inl (F5 PolicyHasNoRules)
      else adapt_policies_to_rules part env_prefix os)"

definition translate :: "adapter \<Rightarrow> os_policies \<Rightarrow> exn + f5_policy" where
  "translate A os =
     (case os_l7policies os of
        [] \<Rightarrow> Inl IndexError
      | p0 # _ \<Rightarrow>
          bindE (subE (l7p_listener_id p0)) (\<lambda>listener.
            let folder = get_folder_name A (l7p_tenant_id p0);
                dict = \<lparr>fp_name = ''wrapper_policy_'' @ listener, fp_partition = folder,
                        fp_strategy = ''first-match'', fp_rules = [], fp_legacy = True,
                        fp_requires = [''http''], fp_controls = [''forwarding'']\<rparr>
            in (case adapt_policy folder (ad_prefix A) os of
                  Inr rules \<Rightarrow> Inr (dict\<lparr>fp_rules := rules\<rparr>)
                | Inl e \<Rightarrow>
                    if e = F5 PolicyHasNoRules \<or> e = F5 NoActionFoundForPolicy then Inr dict
                    else Inl e)))"

section \<open>Collecting the policies of a listener\<close>

definition policy_l7rules :: "service \<Rightarrow> l7policy \<Rightarrow> l7rule list" where
  "policy_l7rules svc p = concat (map (\<lambda>i. case get_l7rule svc i of None \<Rightarrow> [] | Some r \<Rightarrow> [r]) (l7p_rules p))"

definition build_policy :: "adapter \<Rightarrow> l7policy \<Rightarrow> service \<Rightarrow> exn + os_policies" where
  "build_policy A l7p svc =
     bindE (subE (l7p_listener_id l7p)) (\<lambda>lid.
     case get_listener svc lid of
       None \<Rightarrow> Inl TypeError
     | Some li \<Rightarrow>
         bindE (subE (li_l7_policies li)) (\<lambda>refs.
           let policies = concat (map (\<lambda>r. case get_l7policy svc (ref_id r) of None \<Rightarrow> [] | Some p \<Rightarrow> [p]) refs);
               os = \<lparr>os_l7rules = concat (map (policy_l7rules svc) policies),
                     os_l7policies = policies, os_f5_policy = None\<rparr>
           in if policies = [] then Inr os
              else bindE (translate A os) (\<lambda>fp. Inr (os\<lparr>os_f5_policy := Some fp\<rparr>))))"

section \<open>Lemmas\<close>

lemma rule_conditions_count:
  "rule_conditions l7rules idx is = Inr cs \<Longrightarrow>
     length cs = length (filter (\<lambda>i. \<exists>r. get_obj l7r_id l7rules i = Some r \<and> rule_active r) is)"
proof (induction l7rules idx "is" arbitrary: cs rule: rule_conditions.induct)
  case (2 l7rules idx i "is")
  then show ?case by (auto simp: bindE_eq_Inr split: option.splits if_splits)
qed auto

lemma mk_rule_fields:
  "mk_rule part pre os p = Inr r \<Longrightarrow>
     fr_ordinal r = l7p_position p \<and> fr_name r = rule_name p \<and> length (fr_actions r) = 1"
  by (auto simp: mk_rule_def bindE_eq_Inr split: prod.splits)

lemma adapt_rules:
  assumes "adapt_policies_to_rules part pre os = Inr rules"
  shows "list_all2 (\<lambda>p r. mk_rule part pre os p = Inr r) (filter policy_active (os_l7policies os)) rules"
    and "\<exists>r \<in> set rules. fr_conditions r \<noteq> []"
  using assms
  by (auto simp: adapt_policies_to_rules_def bindE_eq_Inr mapE_eq_Inr list_all_iff split: if_splits)

text \<open>What \<open>translate\<close> returns always names the listener's wrapper policy in the tenant's folder.\<close>

lemma translate_cases:
  assumes "translate A os = Inr fp"
  obtains p0 rest lid where "os_l7policies os = p0 # rest" and "l7p_listener_id p0 = Some lid"
    and "fp_name fp = ''wrapper_policy_'' @ lid" and "fp_partition fp = get_folder_name A (l7p_tenant_id p0)"
    and "fp_rules fp = [] \<or>
         adapt_policy (get_folder_name A (l7p_tenant_id p0)) (ad_prefix A) os = Inr (fp_rules fp)"
proof (cases "os_l7policies os")
  case Nil
  with assms show ?thesis by (simp add: translate_def)
next
  case (Cons p0 rest)
  with assms obtain lid where lid: "l7p_listener_id p0 = Some lid"
    by (auto simp: translate_def bindE_eq_Inr)
  show ?thesis
  proof (cases "adapt_policy (get_folder_name A (l7p_tenant_id p0)) (ad_prefix A) os")
    case (Inl e)
    with assms Cons lid show ?thesis
      by (intro that [OF Cons lid]) (auto simp: translate_def Let_def split: if_splits)
  next
    case (Inr rules)
    with assms Cons lid show ?thesis
      by (intro that [OF Cons lid]) (auto simp: translate_def Let_def)
  qed
qed

end
