(* ===== verification/Translation_Properties.thy ===== *)
theory Translation_Properties
  imports AdapterVirtual L7Adapter
begin

text \<open>
  The properties of the translation of LBaaS objects to BIG-IP objects: enhanced service
  definitions, pools and members, virtual servers, L7 policies, health monitors.
\<close>

section \<open>Enhanced service definitions\<close>

text \<open>C25
  What \<open>verify_esd_dict\<close> keeps is sound: an ESD in the result was in the files, keeps some tag on
  every device, and each tag it keeps is a known one whose value has the declared type and exists
  on the device checked last.
\<close>

theorem esd_dict_sound:
  assumes "verify_esd_dict coll bigips files = Inr table" and "(name, EsdDict tags) \<in> set table"
    and "bigips \<noteq> []"
  shows "\<exists>e. (name, e) \<in> set files \<and> set tags \<subseteq> set e \<and>
    (\<forall>d \<in> set bigips. verify_esd coll d e \<noteq> Inr []) \<and>
    (\<forall>(tag, v) \<in> set tags. \<exists>rt vt. map_of valid_esd_tags tag = Some (rt, vt) \<and> has_type v vt \<and>
       (\<exists>rt'. value_exists coll (last bigips) v rt' = Inr True))"
proof -
  from verify_esd_dict_sound [OF assms] obtain e where e: "(name, e) \<in> set files"
    "tags = filter (tag_ok coll (last bigips)) e" "\<forall>d \<in> set bigips. filter (tag_ok coll d) e \<noteq> []" by blast
  have "verify_esd coll d e \<noteq> Inr []" if "d \<in> set bigips" for d
    using e(3) that verify_esd_filter [of coll d e "[]"] by auto
  moreover have "(\<exists>rt vt. map_of valid_esd_tags tag = Some (rt, vt) \<and> has_type v vt) \<and>
      (\<exists>rt'. value_exists coll (last bigips) v rt' = Inr True)" if "(tag, v) \<in> set tags" for tag v
    using that e(2) tag_okD [of coll "last bigips" tag v] tag_ok_value [of coll "last bigips" tag v] by auto
  ultimately show ?thesis using e(1,2) by (intro exI [of _ e]) fastforce
qed

text \<open>A device with one iRule \<open>r\<close> and no other object.\<close>

definition one_rule :: "unit coll" where
  "one_rule d rt = (if rt = rule_rt then Inr [''r''] else Inr [])"

lemma esd_dict_sound_witness:
  "\<exists>e. (''gold'', e) \<in> set [(''gold'', [(''lbaas_irule'', EList [''r'']), (''lbaas_foo'', EOther)])] \<and>
    set [(''lbaas_irule'', EList [''r''])] \<subseteq> set e \<and>
    (\<forall>d \<in> set [()]. verify_esd one_rule d e \<noteq> Inr []) \<and>
    (\<forall>(tag, v) \<in> set [(''lbaas_irule'', EList [''r''])].
       \<exists>rt vt. map_of valid_esd_tags tag = Some (rt, vt) \<and> has_type v vt \<and>
       (\<exists>rt'. value_exists one_rule (last [()]) v rt' = Inr True))"
  by (rule esd_dict_sound
      [of _ _ _ "[(''gold'', EsdDict [(''lbaas_irule'', EList [''r''])])]"])
    (simp_all add: verify_tag_def is_valid_tag_def valid_esd_tags_def verify_value_def get_resource_type_def
      value_exists_def resource_exists_def one_rule_def entry_true_def Let_def)

text \<open>
  The tags stored for an ESD are those of the last device only: a tag the first device rejects is
  stored when the last one accepts it (the comment in \<open>verify_esd_dict\<close> promises validity on
  every device).
\<close>

theorem esd_dict_last_device_only:
  "\<exists>(coll :: bool coll) e table.
     verify_esd_dict coll [False, True] [(''gold'', e)] = Inr table \<and>
     (\<exists>tags. table = [(''gold'', EsdDict tags)] \<and>
       (\<exists>tv \<in> set tags. verify_value coll False (fst tv) (snd tv) \<noteq> Inr ()))"
proof -
  let ?coll = "\<lambda>d rt. if rt = rule_rt then Inr (if d then [''r'', ''q''] else [''q'']) else Inr [] :: exn + string list"
  let ?e = "[(''lbaas_irule'', EList [''r'']), (''lbaas_policy'', EList [])]"
  have "verify_esd_dict ?coll [False, True] [(''gold'', ?e)] = Inr [(''gold'', EsdDict ?e)]"
    by (simp add: verify_tag_def is_valid_tag_def valid_esd_tags_def verify_value_def get_resource_type_def
        value_exists_def resource_exists_def entry_true_def Let_def)
  moreover have "verify_value ?coll False ''lbaas_irule'' (EList [''r'']) \<noteq> Inr ()"
    by (simp add: valid_esd_tags_def verify_value_def get_resource_type_def
        value_exists_def resource_exists_def Let_def)
  ultimately show ?thesis by (intro exI conjI) (assumption, rule refl, auto)
qed

text \<open>
  An ESD with an HTTP profile tag cannot be applied to the virtual server of an HTTPS listener:
  its profile list is \<open>fastL4\<close> alone, and removing \<open>/Common/http\<close> from it raises.
\<close>

theorem esd_http_profile_on_https_raises:
  "apply_esd (vip\<lparr>vs_profiles := base_profiles ''HTTPS''\<rparr>) [(''lbaas_http_profile'', EStr n)] = Inl ValueError"
  by (simp add: apply_esd_def esd_profiles_def str_tag_def base_profiles_def py_remove_def Let_def)

section \<open>Pools and members\<close>

lemma map_member_spec:
  "map_member A lb m = Inr b \<longleftrightarrow>
     (\<exists>w. me_weight m = Some w \<and>
       b = \<lparr>bn_name = addr_port (me_address m) (me_protocol_port m),
            bn_partition = get_folder_name A (lb_tenant_id lb), bmem_address = me_address m,
            bmem_session = (if w \<noteq> 0 \<and> me_admin_state_up m then ''user-enabled'' else ''user-disabled''),
            bmem_ratio = (if w = 0 then 1 else w)\<rparr>)"
  by (auto simp: map_member_def bindE_eq_Inr)

text \<open>C24
  A pool carries exactly the members that are not being deleted, in order, each under its address
  and port; a member of weight 0 is disabled with ratio 1, any other keeps its weight and is
  enabled exactly when its admin state is up.
\<close>

theorem pool_members_mapped:
  assumes "get_pool A lb p members monitors = (Inr bp, p')"
  shows "list_all2 (\<lambda>m b. \<exists>w. me_weight m = Some w \<and>
      bn_name b = addr_port (me_address m) (me_protocol_port m) \<and>
      bn_partition b = bn_partition bp \<and> bmem_ratio b = (if w = 0 then 1 else w) \<and>
      (bmem_session b = ''user-enabled'' \<longleftrightarrow> w \<noteq> 0 \<and> me_admin_state_up m))
    (filter (\<lambda>m. me_status m \<noteq> Some PENDING_DELETE) members) (bp_members bp)"
proof -
  obtain mode where "pool_model A lb mode (get_pool_monitor p monitors) members p = Inr bp"
    using assms by (auto simp: get_pool_def map_pool_def split: option.splits sum.splits)
  then have "list_all2 (\<lambda>m b. map_member A lb m = Inr b)
      (filter (\<lambda>m. me_status m \<noteq> Some PENDING_DELETE) members) (bp_members bp)"
    and "bn_partition bp = get_folder_name A (lb_tenant_id lb)"
    by (auto simp: pool_model_def Let_def bindE_eq_Inr mapE_eq_Inr init_pool_name_def)
  then show ?thesis by (auto simp: map_member_spec elim!: list_all2_mono)
qed

text \<open>Sample objects for the witnesses.\<close>

definition ex_conf :: conf where
  "ex_conf =
     \<lparr>environment_prefix = ''Project'', f5_snat_mode = True, f5_snat_addresses_per_subnet = 1,
      common_network_ids = [], f5_common_networks = False, f5_common_external_networks = True,
      f5_global_routed_mode = False, use_namespaces = True, max_namespaces_per_tenant = 1,
      f5_route_domain_strictness = False, external_gateway_mode = False,
      f5_network_segment_physical_network = None, f5_ha_type = ''standalone'',
      f5_populate_static_arp = False, f5_pending_services_timeout = 60, service_resync_interval = 300,
      unlegacy_setting_placeholder = False, l2_population = True, advertised_tunnel_types = [''vxlan''],
      f5_external_physical_mappings = [''default:1.1:True''], f5_vtep_folder = Some ''Common'',
      f5_vtep_selfip_name = Some ''vtep''\<rparr>"

definition ex_adapter :: adapter where
  "ex_adapter = new_adapter ex_conf"

definition ex_lb :: loadbalancer where
  "ex_lb =
     \<lparr>lb_id = ''lb1'', lb_tenant_id = Some ''t1'', lb_name = Some ''web'', lb_description = None,
      lb_status = PENDING_CREATE, lb_vip_address = Some ''10.0.0.5'', lb_vip_subnet_id = ''s1'',
      lb_vip_port_id = None, lb_network_id = Some ''n1'', lb_admin_state_up = Some True,
      lb_traffic_group = None, lb_vteps = []\<rparr>"

definition ex_pool :: pool where
  "ex_pool =
     \<lparr>po_id = ''p1'', po_name = Some ''pool'', po_description = None, po_status = PENDING_CREATE,
      po_operating_status = None, po_admin_state_up = True, po_lb_algorithm = Some ''ROUND_ROBIN'',
      po_session_persistence = None, po_healthmonitor_id = None, po_members = []\<rparr>"

definition ex_member :: member where
  "ex_member =
     \<lparr>me_id = ''m1'', me_address = ''10.0.0.7'', me_protocol_port = 80, me_weight = Some 0,
      me_admin_state_up = True, me_status = Some PENDING_CREATE, me_operating_status = None,
      me_pool_id = Some ''p1'', me_subnet_id = ''s1'', me_network_id = Some ''n1'', me_port_mac = None,
      me_missing = False, me_parent_pool_deleted = False, me_vteps = []\<rparr>"

definition ex_bigip_pool :: bigip_pool where
  "ex_bigip_pool =
     \<lparr>bn_name = ''Project_p1'', bn_partition = ''Project_t1'', bp_description = ''Project_p1:'',
      bp_loadBalancingMode = Some ''round-robin'', bp_monitor = '''',
      bp_members = [\<lparr>bn_name = addr_port ''10.0.0.7'' 80, bn_partition = ''Project_t1'',
         bmem_address = ''10.0.0.7'', bmem_session = ''user-disabled'', bmem_ratio = 1\<rparr>]\<rparr>"

lemma ex_get_pool: "get_pool ex_adapter ex_lb ex_pool [ex_member] [] = (Inr ex_bigip_pool, ex_pool)"
  by (simp add: get_pool_def map_pool_def get_pool_monitor_def pool_model_def source_ip_persistence_def
      set_lb_method_def get_lb_method_def upper_def upper_char_def map_member_def init_pool_name_def
      get_folder_name_def get_resource_description_def ex_adapter_def new_adapter_def ex_conf_def
      ex_lb_def ex_pool_def ex_member_def ex_bigip_pool_def Let_def)

lemma pool_members_mapped_witness:
  "list_all2 (\<lambda>m b. \<exists>w. me_weight m = Some w \<and>
      bn_name b = addr_port (me_address m) (me_protocol_port m) \<and>
      bn_partition b = bn_partition ex_bigip_pool \<and> bmem_ratio b = (if w = 0 then 1 else w) \<and>
      (bmem_session b = ''user-enabled'' \<longleftrightarrow> w \<noteq> 0 \<and> me_admin_state_up m))
    (filter (\<lambda>m. me_status m \<noteq> Some PENDING_DELETE) [ex_member]) (bp_members ex_bigip_pool)"
  by (rule pool_members_mapped [OF ex_get_pool])

lemma member_has_weight_spec:
  assumes "\<forall>m \<in> set ms. me_status m \<noteq> None"
  shows "member_has_weight ms =
    Inr (\<exists>m \<in> set ms. (\<exists>w. me_weight m = Some w \<and> w > 1) \<and> me_status m \<noteq> Some PENDING_DELETE)"
  using assms
proof (induction ms)
  case (Cons m ms)
  then show ?case by (cases "me_status m") (auto split: option.splits)
qed simp

text \<open>
  The load balancing method becomes a weighted one exactly when some member that is not being
  deleted has a weight above 1, and the method is not source IP; otherwise it is the method the
  pool asks for.
\<close>

theorem lb_method_weighted:
  assumes "\<forall>m \<in> set members. me_status m \<noteq> None"
  shows "set_lb_method meth members = Inr
    (if meth \<noteq> ''SOURCE_IP'' \<and>
        (\<exists>m \<in> set members. (\<exists>w. me_weight m = Some w \<and> w > 1) \<and> me_status m \<noteq> Some PENDING_DELETE)
     then (if meth = ''LEAST_CONNECTIONS'' then ''ratio-least-connections-member'' else ''ratio-member'')
     else get_lb_method meth)"
proof -
  have "get_lb_method ''RATIO_LEAST_CONNECTIONS'' = ''ratio-least-connections-member''"
    and "get_lb_method ''RATIO'' = ''ratio-member''"
    by (simp_all add: get_lb_method_def upper_def upper_char_def)
  then show ?thesis
    by (cases "\<exists>m \<in> set members. (\<exists>w. me_weight m = Some w \<and> w > 1) \<and> me_status m \<noteq> Some PENDING_DELETE")
      (auto simp only: set_lb_method_def member_has_weight_spec [OF assms] bindE_simps if_True if_False
        simp_thms refl split: if_split)
qed

lemma lb_method_weighted_witness:
  "set_lb_method ''LEAST_CONNECTIONS'' [ex_member\<lparr>me_weight := Some 3\<rparr>] = Inr ''ratio-least-connections-member''"
  using lb_method_weighted [of "[ex_member\<lparr>me_weight := Some 3\<rparr>]" "''LEAST_CONNECTIONS''"]
  by (simp add: ex_member_def)

section \<open>Virtual servers\<close>

text \<open>The part of a virtual server that ESDs and policies never touch.\<close>

definition vs_core :: "virtual \<Rightarrow> virtual" where
  "vs_core v = v\<lparr>vs_profiles := [], vs_persist := [], vs_fallbackPersistence := '''', vs_rules := [],
                 vs_policies := []\<rparr>"

lemma esd_part_core:
  assumes "esd_persist_rules_policies v e = Inr v'"
  shows "vs_core v' = vs_core v"
proof -
  obtain persist fallback irules policies where
    "Inr v' = (let vip = (case persist of None \<Rightarrow> v | Some p \<Rightarrow> v\<lparr>vs_persist := [p]\<rparr>);
           vip = (case fallback of
                    None \<Rightarrow> vip
                  | Some f \<Rightarrow> if vs_persist vip \<noteq> [] then vip\<lparr>vs_fallbackPersistence := f\<rparr> else vip);
           vip = vip\<lparr>vs_rules := map (\<lambda>r. ''/Common/'' @ r) (get_or [] irules)\<rparr>;
           vip = (case policies of
                    None \<Rightarrow> vip
                  | Some ps \<Rightarrow> vip\<lparr>vs_policies := map (\<lambda>p. (p, ''Common'')) ps\<rparr>)
       in Inr vip :: exn + virtual)"
    using assms unfolding esd_persist_rules_policies_def bindE_eq_Inr by metis
  then show ?thesis
    by (cases persist; cases fallback; cases policies; simp add: Let_def vs_core_def split: if_splits)
qed

lemma core_profiles [simp]: "vs_core (v\<lparr>vs_profiles := ps\<rparr>) = vs_core v"
  by (simp add: vs_core_def)

lemma core_policies [simp]: "vs_core (v\<lparr>vs_policies := ps\<rparr>) = vs_core v"
  by (simp add: vs_core_def)

lemma apply_fastl4_core: "apply_fastl4_esd v e = Inr v' \<Longrightarrow> vs_core v' = vs_core v"
  by (auto simp: apply_fastl4_esd_def bindE_eq_Inr dest: esd_part_core split: if_splits)

lemma apply_esd_core: "apply_esd v e = Inr v' \<Longrightarrow> vs_core v' = vs_core v"
  by (auto simp: apply_esd_def bindE_eq_Inr dest: esd_part_core split: if_splits)

lemma apply_policies_core: "apply_l7_and_esd_policies A li ps v = Inr v' \<Longrightarrow> vs_core v' = vs_core v"
  by (auto simp: apply_l7_and_esd_policies_def bindE_eq_Inr Let_def
      dest!: apply_fastl4_core apply_esd_core split: if_splits option.splits)

lemma add_profiles_core:
  "add_profiles_session_persistence li po v = Inr v' \<Longrightarrow> vs_core v' = vs_core (v\<lparr>vs_ipProtocol := ''tcp''\<rparr>)"
  by (auto simp: add_profiles_session_persistence_def bindE_eq_Inr Let_def vs_core_def split: if_splits option.splits)

lemma get_virtual_core:
  assumes "get_virtual ip_version A svc lb li = Inr (vip, li')"
  shows "bn_name vip = ad_prefix A @ li_id li \<and> bn_partition vip = get_folder_name A (lb_tenant_id lb) \<and>
    vs_pool vip = (case get_vip_default_pool li (get_all (sv_pools svc)) of
                     None \<Rightarrow> '''' | Some p \<Rightarrow> ad_prefix A @ po_id p) \<and>
    vs_connectionLimit vip \<ge> 0 \<and>
    vs_enabled vip = (li_admin_state_up li = Some True) \<and> vs_disabled vip = (li_admin_state_up li = Some False) \<and>
    (vs_sourceAddressTranslation vip \<noteq> None \<longleftrightarrow> snat_mode A) \<and>
    (\<forall>a p. lb_vip_address lb = Some a \<longrightarrow> a \<noteq> '''' \<longrightarrow> li_protocol_port li = Some p \<longrightarrow> p \<noteq> 0 \<longrightarrow>
       vs_destination vip = Some (addr_port (vip_ip a) p))"
proof -
  let ?po = "get_vip_default_pool li (get_all (sv_pools svc))"
  obtain ps where m: "map_virtual ip_version A lb (virtual_listener A lb ?po li) ?po ps = Inr vip"
    using assms by (auto simp: get_virtual_def Let_def bindE_eq_Inr)
  obtain v0 v1 where v: "apply_l7_and_esd_policies A (virtual_listener A lb ?po li) ps
        (v1\<lparr>vs_rules := [], vs_policies := []\<rparr>) = Inr vip"
    "add_profiles_session_persistence (virtual_listener A lb ?po li) ?po
       (add_vlan_and_snat (virtual_listener A lb ?po li) v0) = Inr v1"
    and v0: "bn_name v0 = ad_prefix A @ li_id li" "bn_partition v0 = get_folder_name A (lb_tenant_id lb)"
    "vs_pool v0 = (case ?po of None \<Rightarrow> '''' | Some p \<Rightarrow> ad_prefix A @ po_id p)" "vs_connectionLimit v0 \<ge> 0"
    "vs_enabled v0 = (li_admin_state_up li = Some True)" "vs_disabled v0 = (li_admin_state_up li = Some False)"
    "vs_sourceAddressTranslation v0 = None"
    "\<forall>a p. lb_vip_address lb = Some a \<longrightarrow> a \<noteq> '''' \<longrightarrow> li_protocol_port li = Some p \<longrightarrow> p \<noteq> 0 \<longrightarrow>
       vs_destination v0 = Some (addr_port (vip_ip a) p)"
    using m unfolding map_virtual_def Let_def bindE_eq_Inr
    by (fastforce simp: init_virtual_name_def virtual_listener_def init_pool_name_def split: option.splits)
  have core: "vs_core vip = vs_core (add_vlan_and_snat (virtual_listener A lb ?po li) v0\<lparr>vs_ipProtocol := ''tcp''\<rparr>)"
    using apply_policies_core [OF v(1)] add_profiles_core [OF v(2)] by (simp add: vs_core_def)
  have "bn_name vip = bn_name v0 \<and> bn_partition vip = bn_partition v0 \<and> vs_pool vip = vs_pool v0 \<and>
      vs_connectionLimit vip = vs_connectionLimit v0 \<and> vs_enabled vip = vs_enabled v0 \<and>
      vs_disabled vip = vs_disabled v0 \<and> vs_destination vip = vs_destination v0 \<and>
      (vs_sourceAddressTranslation vip \<noteq> None \<longleftrightarrow> snat_mode A)"
    using arg_cong [OF core, of bn_name] arg_cong [OF core, of bn_partition] arg_cong [OF core, of vs_pool]
      arg_cong [OF core, of vs_connectionLimit] arg_cong [OF core, of vs_enabled]
      arg_cong [OF core, of vs_disabled] arg_cong [OF core, of vs_destination]
      arg_cong [OF core, of vs_sourceAddressTranslation] v0(7)
    by (auto simp: vs_core_def add_vlan_and_snat_def virtual_listener_def)
  with v0 show ?thesis by simp
qed

text \<open>C22
  The virtual server of a listener: its name and tenant folder, the default pool unless that pool
  is being deleted, a connection limit that is never negative, enabled and disabled as the admin
  state says, source address translation exactly in SNAT mode, and, with an address and a port,
  the destination made of them. No ESD changes any of it.
\<close>

theorem virtual_core:
  assumes "get_virtual ip_version A svc lb li = Inr (vip, li')"
  shows "bn_name vip = ad_prefix A @ li_id li \<and> bn_partition vip = get_folder_name A (lb_tenant_id lb) \<and>
    vs_pool vip = (case get_vip_default_pool li (get_all (sv_pools svc)) of
                     None \<Rightarrow> '''' | Some p \<Rightarrow> ad_prefix A @ po_id p) \<and>
    vs_connectionLimit vip \<ge> 0 \<and>
    vs_enabled vip = (li_admin_state_up li = Some True) \<and> vs_disabled vip = (li_admin_state_up li = Some False) \<and>
    (vs_sourceAddressTranslation vip \<noteq> None \<longleftrightarrow> snat_mode A) \<and>
    (\<forall>a p. lb_vip_address lb = Some a \<longrightarrow> a \<noteq> '''' \<longrightarrow> li_protocol_port li = Some p \<longrightarrow> p \<noteq> 0 \<longrightarrow>
       vs_destination vip = Some (addr_port (vip_ip a) p))"
  by (rule get_virtual_core [OF assms])

definition ex_listener :: listener where
  "ex_listener =
     \<lparr>li_id = ''l1'', li_tenant_id = Some ''t1'', li_name = Some ''http'', li_description = None,
      li_status = PENDING_CREATE, li_operating_status = None, li_protocol = Some ''HTTP'',
      li_protocol_port = Some 80, li_connection_limit = Some (- 1), li_admin_state_up = Some True,
      li_default_pool_id = Some ''p1'', li_session_persistence = None, li_use_snat = None,
      li_snat_pool_name = None, li_l7_policies = None, li_default_tls_container_id = None,
      li_sni_containers = None, li_f5_policy = None\<rparr>"

definition ex_service :: service where
  "ex_service =
     \<lparr>sv_loadbalancer = Some ex_lb, sv_listeners = Some [ex_listener], sv_pools = Some [ex_pool],
      sv_members = Some [ex_member], sv_healthmonitors = None, sv_l7policies = None,
      sv_l7policy_rules = None, sv_networks = None, sv_subnets = None\<rparr>"

definition ex_virtual :: virtual where
  "ex_virtual =
     (case get_virtual (\<lambda>_. Inr 4) ex_adapter ex_service ex_lb ex_listener of
        Inr (v, _) \<Rightarrow> v | Inl _ \<Rightarrow> undefined)"

lemma ex_get_virtual:
  "\<exists>li'. get_virtual (\<lambda>_. Inr 4) ex_adapter ex_service ex_lb ex_listener = Inr (ex_virtual, li')"
  by (simp add: ex_virtual_def get_virtual_def get_listener_policies_def map_virtual_def get_vip_default_pool_def
      virtual_listener_def add_profiles_session_persistence_def apply_l7_and_esd_policies_def
      po_persistence_def ex_service_def ex_listener_def ex_pool_def ex_lb_def Let_def)

lemma virtual_core_witness:
  "bn_name ex_virtual = ''Project_l1'' \<and> vs_pool ex_virtual = ''Project_p1'' \<and> vs_connectionLimit ex_virtual \<ge> 0 \<and>
   vs_destination ex_virtual = Some (addr_port ''10.0.0.5'' 80)"
proof -
  obtain li' where "get_virtual (\<lambda>_. Inr 4) ex_adapter ex_service ex_lb ex_listener = Inr (ex_virtual, li')"
    using ex_get_virtual by blast
  from virtual_core [OF this] show ?thesis
    by (simp add: ex_adapter_def new_adapter_def ex_conf_def ex_lb_def ex_listener_def ex_service_def
        ex_pool_def get_vip_default_pool_def vip_ip_def endswith_def)
qed

section \<open>L7 policies\<close>

text \<open>C23
  \<open>translate\<close> gives the policy of the listener of the first LBaaS policy, in its tenant's folder,
  and the rules of either nothing or exactly the active policies, in order: each rule has the
  policy's position and name, one action, and one condition per active L7 rule.
\<close>

theorem l7_translation:
  assumes "translate A os = Inr fp"
  shows "\<exists>p0 rest lid. os_l7policies os = p0 # rest \<and> l7p_listener_id p0 = Some lid \<and>
    fp_name fp = ''wrapper_policy_'' @ lid \<and> fp_partition fp = get_folder_name A (l7p_tenant_id p0) \<and>
    (fp_rules fp = [] \<or>
     (list_all2 (\<lambda>p r. fr_ordinal r = l7p_position p \<and> fr_name r = rule_name p \<and> length (fr_actions r) = 1 \<and>
        length (fr_conditions r) = length (filter (\<lambda>i. \<exists>x. get_obj l7r_id (os_l7rules os) i = Some x \<and>
          rule_active x) (l7p_rules p)))
       (filter policy_active (os_l7policies os)) (fp_rules fp) \<and>
      (\<exists>r \<in> set (fp_rules fp). fr_conditions r \<noteq> [])))"
proof -
  obtain p0 rest lid where t: "os_l7policies os = p0 # rest" "l7p_listener_id p0 = Some lid"
    "fp_name fp = ''wrapper_policy_'' @ lid" "fp_partition fp = get_folder_name A (l7p_tenant_id p0)"
    "fp_rules fp = [] \<or>
     adapt_policy (get_folder_name A (l7p_tenant_id p0)) (ad_prefix A) os = Inr (fp_rules fp)"
    by (rule translate_cases [OF assms])
  have "list_all2 (\<lambda>p r. fr_ordinal r = l7p_position p \<and> fr_name r = rule_name p \<and> length (fr_actions r) = 1 \<and>
        length (fr_conditions r) = length (filter (\<lambda>i. \<exists>x. get_obj l7r_id (os_l7rules os) i = Some x \<and>
          rule_active x) (l7p_rules p)))
       (filter policy_active (os_l7policies os)) (fp_rules fp) \<and> (\<exists>r \<in> set (fp_rules fp). fr_conditions r \<noteq> [])"
    if "fp_rules fp \<noteq> []"
  proof -
    have a: "adapt_policies_to_rules (get_folder_name A (l7p_tenant_id p0)) (ad_prefix A) os = Inr (fp_rules fp)"
      using t(5) that by (auto simp: adapt_policy_def split: if_splits)
    show ?thesis
      using adapt_rules(1) [OF a] adapt_rules(2) [OF a] mk_rule_fields
      by (auto elim!: list_all2_mono simp: mk_rule_def bindE_eq_Inr dest!: rule_conditions_count split: prod.splits)
  qed
  with t show ?thesis by blast
qed

definition ex_l7rule :: l7rule where
  "ex_l7rule =
     \<lparr>l7r_id = ''r1'', l7r_policy_id = ''q1'', l7r_type = ''PATH'', l7r_compare_type = ''STARTS_WITH'',
      l7r_key = None, l7r_value = ''/api'', l7r_invert = False, l7r_status = ACTIVE, l7r_admin_state_up = True\<rparr>"

definition ex_l7policy :: l7policy where
  "ex_l7policy =
     \<lparr>l7p_id = ''q1'', l7p_name = None, l7p_tenant_id = Some ''t1'', l7p_listener_id = Some ''l1'',
      l7p_position = 1, l7p_action = ''REJECT'', l7p_redirect_pool_id = None, l7p_redirect_url = None,
      l7p_status = PENDING_CREATE, l7p_admin_state_up = True, l7p_rules = [''r1'']\<rparr>"

lemma l7_translation_witness:
  "\<exists>fp. translate ex_adapter \<lparr>os_l7rules = [ex_l7rule], os_l7policies = [ex_l7policy], os_f5_policy = None\<rparr> = Inr fp
     \<and> fp_name fp = ''wrapper_policy_l1'' \<and> length (fp_rules fp) = 1"
proof -
  let ?os = "\<lparr>os_l7rules = [ex_l7rule], os_l7policies = [ex_l7policy], os_f5_policy = None\<rparr>"
  obtain fp where fp: "translate ex_adapter ?os = Inr fp" "fp_rules fp \<noteq> []"
    by (simp add: translate_def adapt_policy_def adapt_policies_to_rules_def policy_active_def mk_rule_def
        rule_active_def mk_condition_def cond_type_map_def cond_comp_type_map_def get_action_and_value_def
        mk_action_def ex_l7rule_def ex_l7policy_def Let_def)
  from l7_translation [OF fp(1)] fp show ?thesis
    by (auto simp: ex_l7policy_def policy_active_def dest!: list_all2_lengthD)
qed

section \<open>Health monitors\<close>

lemma recv_list_ok:
  "(\<And>c. c \<in> set codes \<Longrightarrow> \<exists>i. py_int c = Inr i) \<Longrightarrow>
     recv_list codes acc = Inr (acc @ concat (map (\<lambda>c. c @ ''|'') codes))"
proof (induction codes arbitrary: acc)
  case (Cons c codes)
  from Cons.prems [of c] obtain i where "py_int c = Inr i" by auto
  with Cons show ?case by simp
qed simp

lemma concat_joined: "codes \<noteq> [] \<Longrightarrow> concat (map (\<lambda>c. c @ s) codes) = joined s codes @ s"
  by (induction s codes rule: joined.induct) auto

lemma str_nat_comma: "CHR '','' \<notin> set (str_nat n)"
  using str_nat_digits [of "CHR '',''" n] by (auto simp: is_digit_def)

text \<open>
  Expected codes given as a list of two or more numbers become the alternation of those numbers in
  the text the monitor waits for.
\<close>

theorem recv_text_of_list:
  "get_recv_text (hm\<lparr>hm_expected_codes := Some (joined '','' (map str_nat (a # b # ns)))\<rparr>) =
     ''HTTP/1.(0|1) ('' @ joined ''|'' (map str_nat (a # b # ns)) @ '')''"
proof -
  let ?cs = "map str_nat (a # b # ns)"
  have split: "split_on CHR '','' (joined '','' ?cs) = ?cs"
    by (rule split_on_joined) (auto simp: str_nat_comma)
  have "find_str '','' (str_nat a @ CHR '','' # joined '','' (map str_nat (b # ns))) = int (length (str_nat a))"
    by (rule find_str_char) (rule str_nat_comma)
  then have pos: "find_str '','' (joined '','' ?cs) > 0" by simp
  have list: "recv_list ?cs x = Inr (x @ joined ''|'' ?cs @ ''|'')" for x
  proof -
    have "recv_list ?cs x = Inr (x @ concat (map (\<lambda>c. c @ ''|'') ?cs))"
      by (rule recv_list_ok) (auto simp: py_int_str_nat)
    also have "concat (map (\<lambda>c. c @ ''|'') ?cs) = joined ''|'' ?cs @ ''|''"
      by (rule concat_joined) simp
    finally show ?thesis .
  qed
  have "recv_parse (joined '','' ?cs) = Inr (butlast (''HTTP/1.(0|1) ('' @ joined ''|'' ?cs @ ''|'') @ '')'')"
    unfolding recv_parse_def split list using pos by (simp only: if_True bindE_simps)
  also have "butlast (''HTTP/1.(0|1) ('' @ joined ''|'' ?cs @ ''|'') = ''HTTP/1.(0|1) ('' @ joined ''|'' ?cs"
    by (simp only: append_assoc [symmetric] butlast_snoc)
  finally show ?thesis by (simp add: get_recv_text_def)
qed

end
