(* ===== verification/Devices.thy ===== *)
theory Devices
  imports AdapterVirtual L7Adapter
begin

text \<open>
  What the service builders see of a device. \<open>bigip\<close> is the object the driver keeps per device: the
  attributes the agent itself sets on it (\<open>assured_networks\<close> and the like) and the device \<open>'d\<close>
  behind it. \<open>sdk\<close> collects the f5-sdk endpoints the builders use; it is a parameter of every
  operation. \<open>bkey\<close> is the name and partition every resource dictionary carries.

  \<open>device_attempt\<close> is the contract of the try/except blocks the builders run on every device: an
  attempt either reports an error of a known kind or leaves the device as it should be.
  \<open>run_attempts\<close> is the loop \<open>for bigip in bigips\<close> that remembers the last error.
\<close>

section \<open>Resources\<close>

definition bkey :: "'a bigip_name_scheme \<Rightarrow> string \<times> string" where
  "bkey m = (bn_name m, bn_partition m)"

definition fp_key :: "f5_policy \<Rightarrow> string \<times> string" where
  "fp_key p = (fp_name p, fp_partition p)"

record virtual_address = bigip_name +
  va_address :: "string option"
  va_description :: string
  va_trafficGroup :: string
  va_autoDelete :: bool
  va_enabled :: string

text \<open>An iRule (its text) or a universal persistence profile (its rule).\<close>

record named_text = bigip_name +
  nt_text :: string

record client_ssl = bigip_name +
  cs_cert :: string
  cs_chain :: "string option"
  cs_key :: string
  cs_passphrase :: "string option"
  cs_sniDefault :: bool
  cs_defaultsFrom :: "string option"

record 'd sdk =
  sdk_pool :: "('d, bigip_pool) endpoint"
  sdk_node :: "('d, bigip_name) endpoint"
  sdk_monitor :: "resource_type \<Rightarrow> ('d, bigip_monitor) endpoint"
  sdk_virtual :: "('d, virtual) endpoint"
  sdk_va :: "('d, virtual_address) endpoint"
  sdk_l7policy :: "('d, f5_policy) endpoint"
  sdk_rule :: "('d, named_text) endpoint"
  sdk_universal :: "('d, named_text) endpoint"
  sdk_client_ssl :: "('d, client_ssl) endpoint"
  sdk_upload :: "string \<Rightarrow> string \<Rightarrow> ('d, unit) py" \<comment> \<open>bytes, file name\<close>
  sdk_install_cert :: "string \<Rightarrow> string \<Rightarrow> ('d, unit) py" \<comment> \<open>name, local file\<close>
  sdk_install_key :: "string \<Rightarrow> string \<Rightarrow> ('d, unit) py"
  sdk_member_exists :: "bigip_pool \<Rightarrow> string \<Rightarrow> string \<Rightarrow> ('d, bool) py"
  sdk_member_stats :: "bigip_pool \<Rightarrow> string \<Rightarrow> string \<Rightarrow> ('d, (string \<times> stat_entry) list) py"
  sdk_virtual_stats :: "virtual \<Rightarrow> (string \<times> stat_entry) list"

record 'd bigip =
  b_hostname :: string
  b_device_name :: string
  b_local_ip :: "string option"
  b_assured_networks :: "(string \<times> string) list"
  b_assured_tenant_snat_subnets :: "(string \<times> string list) list"
  b_assured_gateway_subnets :: "string list"
  b_dev :: 'd

definition on_dev :: "('d, 'a) py \<Rightarrow> ('d bigip, 'a) py" where
  [py_simps]: "on_dev m b = (case m (b_dev b) of (r, d) \<Rightarrow> (r, b\<lparr>b_dev := d\<rparr>))"

section \<open>Attempts\<close>

type_synonym 'd attempt = "'d \<Rightarrow> f5exn option \<times> 'd"

definition keep_error :: "'d attempt \<Rightarrow> f5exn option \<Rightarrow> ('d, f5exn option) py" where
  "keep_error attempt error d =
     (case attempt d of (None, d') \<Rightarrow> (Inr error, d') | (Some e, d') \<Rightarrow> (Inr (Some e), d'))"

definition run_attempts :: "'d attempt \<Rightarrow> 'd list \<Rightarrow> f5exn option \<times> 'd list" where
  "run_attempts attempt ds =
     (case for_bigips (keep_error attempt) None ds of (Inr error, ds') \<Rightarrow> (error, ds') | (Inl _, ds') \<Rightarrow> (None, ds'))"

text \<open>create; on 409 update instead.\<close>

definition create_attempt ::
  "('d, 'm) endpoint \<Rightarrow> ('m \<Rightarrow> string \<times> string) \<Rightarrow> f5exn \<Rightarrow> f5exn \<Rightarrow> 'm \<Rightarrow> 'd attempt" where
  "create_attempt ep key create_exn update_exn m d =
     (case rh_create ep m d of
        (Inr _, d') \<Rightarrow> (None, d')
      | (Inl e, d') \<Rightarrow>
          if http_status e = Some 409
          then (case rh_update ep key m d' of
                  (Inr _, d'') \<Rightarrow> (None, d'')
                | (Inl _, d'') \<Rightarrow> (Some update_exn, d''))
          else (Some create_exn, d'))"

text \<open>delete; 404 is no error.\<close>

definition delete_attempt ::
  "('d, 'm) endpoint \<Rightarrow> f5exn \<Rightarrow> string \<Rightarrow> string \<Rightarrow> 'd attempt" where
  "delete_attempt ep delete_exn n p d =
     (case rh_delete ep n p d of
        (Inr _, d') \<Rightarrow> (None, d')
      | (Inl e, d') \<Rightarrow> (if http_status e = Some 404 then None else Some delete_exn, d'))"

definition update_attempt ::
  "('d, 'm) endpoint \<Rightarrow> ('m \<Rightarrow> string \<times> string) \<Rightarrow> f5exn \<Rightarrow> 'm \<Rightarrow> 'd attempt" where
  "update_attempt ep key update_exn m d =
     (case rh_update ep key m d of
        (Inr _, d') \<Rightarrow> (None, d')
      | (Inl _, d') \<Rightarrow> (Some update_exn, d'))"

section \<open>The contract\<close>

locale device_attempt =
  fixes attempt :: "'d attempt" and kinds :: "f5exn set" and good :: "'d \<Rightarrow> 'd \<Rightarrow> bool"
  assumes kinds: "attempt d = (Some e, d') \<Longrightarrow> e \<in> kinds"
    and good: "attempt d = (None, d') \<Longrightarrow> good d d'"
begin

lemma loop_run:
  "\<exists>err'. for_bigips (keep_error attempt) err ds = (Inr err', map (snd \<circ> attempt) ds) \<and>
     (err' = None \<longleftrightarrow> err = None \<and> (\<forall>d \<in> set ds. fst (attempt d) = None)) \<and>
     (\<forall>e. err' = Some e \<longrightarrow> e \<in> kinds \<or> err = Some e)"
proof (induction ds arbitrary: err)
  case Nil
  then show ?case by simp
next
  case (Cons d ds)
  obtain r d' where a: "attempt d = (r, d')" by (cases "attempt d") auto
  show ?case
  proof (cases r)
    case None
    with a Cons.IH [of err] show ?thesis by (auto simp: keep_error_def)
  next
    case (Some e)
    with a Cons.IH [of "Some e"] kinds [of d e d'] show ?thesis by (auto simp: keep_error_def)
  qed
qed

lemma run_run:
  obtains err where "run_attempts attempt ds = (err, map (snd \<circ> attempt) ds)"
    and "err = None \<longleftrightarrow> (\<forall>d \<in> set ds. fst (attempt d) = None)"
    and "\<And>e. err = Some e \<Longrightarrow> e \<in> kinds"
proof -
  obtain err where 1: "for_bigips (keep_error attempt) None ds = (Inr err, map (snd \<circ> attempt) ds)"
    and 2: "err = None \<longleftrightarrow> (\<forall>d \<in> set ds. fst (attempt d) = None)"
    and 3: "\<forall>e. err = Some e \<longrightarrow> e \<in> kinds"
    using loop_run [of None ds] by auto
  from 1 have "run_attempts attempt ds = (err, map (snd \<circ> attempt) ds)" by (simp add: run_attempts_def)
  from that [OF this 2] 3 show thesis by blast
qed

lemma run_devices: "snd (run_attempts attempt ds) = map (snd \<circ> attempt) ds"
  by (rule run_run [of ds]) simp

lemma run_ok: "fst (run_attempts attempt ds) = None \<longleftrightarrow> (\<forall>d \<in> set ds. fst (attempt d) = None)"
  by (rule run_run [of ds]) simp

lemma run_kinds: "fst (run_attempts attempt ds) = Some e \<Longrightarrow> e \<in> kinds"
  by (rule run_run [of ds]) simp

lemma run_good:
  assumes "run_attempts attempt ds = (None, ds')"
  shows "list_all2 good ds ds'"
proof -
  have "\<forall>d \<in> set ds. good d (snd (attempt d))"
    using run_ok [of ds] assms good by (metis fst_conv prod.collapse)
  moreover have "ds' = map (snd \<circ> attempt) ds" using run_devices [of ds] assms by simp
  ultimately show ?thesis by (simp add: list_all2_conv_all_nth)
qed

end

text \<open>An attempt that cannot fail where the device answers as documented.\<close>

locale sure_attempt = device_attempt +
  fixes answers :: bool
  assumes sure: "answers \<Longrightarrow> fst (attempt d) = None"
begin

lemma run_sure:
  assumes answers
  shows "\<exists>ds'. run_attempts attempt ds = (None, ds') \<and> list_all2 good ds ds'"
proof -
  have "fst (run_attempts attempt ds) = None" using run_ok sure [OF assms] by simp
  then obtain ds' where "run_attempts attempt ds = (None, ds')"
    by (cases "run_attempts attempt ds") auto
  with run_good show ?thesis by blast
qed

end

lemma create_attempt_cases:
  "create_attempt ep key ce ue m d = (Some e, d') \<Longrightarrow> e \<in> {ce, ue}"
  by (auto simp: create_attempt_def split: prod.splits sum.splits if_splits)

lemma create_attempt_ok:
  assumes "endpoint_ok ep key view"
  shows "\<exists>d'. create_attempt ep key ce ue m d = (None, d') \<and> view d' = (view d)(key m \<mapsto> m)"
proof (cases "view d (key m)")
  case None
  with endpoint_ok_create_new [OF assms None] show ?thesis
    by (auto simp: create_attempt_def rh_create_def)
next
  case (Some x)
  from rh_update_ok [OF assms Some] endpoint_ok_create_dup [OF assms Some] show ?thesis
    by (auto simp: create_attempt_def rh_create_def)
qed

lemma delete_attempt_cases: "delete_attempt ep de n p d = (Some e, d') \<Longrightarrow> e \<in> {de}"
  by (auto simp: delete_attempt_def split: prod.splits sum.splits if_splits)

lemma delete_attempt_ok:
  assumes "endpoint_ok ep key view"
  shows "\<exists>d'. delete_attempt ep de n p d = (None, d') \<and> view d' = (view d)((n, p) := None)"
  using rh_delete_ok [OF assms, of n p d] by (auto simp: delete_attempt_def)

lemma update_attempt_cases: "update_attempt ep key ue m d = (Some e, d') \<Longrightarrow> e \<in> {ue}"
  by (auto simp: update_attempt_def split: prod.splits sum.splits)

interpretation creating: sure_attempt "create_attempt ep key ce ue m" "{ce, ue}"
  "\<lambda>d d'. endpoint_ok ep key view \<longrightarrow> view d' = (view d)(key m \<mapsto> m)" "endpoint_ok ep key view"
  for ep key ce ue m view
proof
  show "e \<in> {ce, ue}" if "create_attempt ep key ce ue m d = (Some e, d')" for d e d'
    using that by (rule create_attempt_cases)
  show "endpoint_ok ep key view \<longrightarrow> view d' = (view d)(key m \<mapsto> m)"
    if "create_attempt ep key ce ue m d = (None, d')" for d d'
    using that create_attempt_ok [of ep key view ce ue m d] by auto
  show "fst (create_attempt ep key ce ue m d) = None" if "endpoint_ok ep key view" for d
    using create_attempt_ok [OF that, of ce ue m d] by auto
qed

interpretation deleting: sure_attempt "delete_attempt ep de n p" "{de}"
  "\<lambda>d d'. endpoint_ok ep key view \<longrightarrow> view d' = (view d)((n, p) := None)" "endpoint_ok ep key view"
  for ep de n p key view
proof
  show "e \<in> {de}" if "delete_attempt ep de n p d = (Some e, d')" for d e d'
    using that by (rule delete_attempt_cases)
  show "endpoint_ok ep key view \<longrightarrow> view d' = (view d)((n, p) := None)"
    if "delete_attempt ep de n p d = (None, d')" for d d'
    using that delete_attempt_ok [of ep key view de n p d] by auto
  show "fst (delete_attempt ep de n p d) = None" if "endpoint_ok ep key view" for d
    using delete_attempt_ok [OF that, of de n p d] by auto
qed

interpretation updating: device_attempt "update_attempt ep key ue m" "{ue}" "\<lambda>d d'. True"
  for ep key ue m
  by unfold_locales (auto dest: update_attempt_cases)

end
