(* ===== verification/PoolService.thy ===== *)
theory PoolService
  imports Devices
begin

text \<open>
  \<open>pool_service.py\<close>: pools, members and health monitors on a set of devices. The service dictionary
  of the Python is passed as its parts; an operation returns what it raises or the error it
  reports, the pool (\<open>_map_pool\<close> may set its persistence), and the devices.

  The lemmas at the end: what creation leaves on devices that answer, and exactly which members
  \<open>assure_pool_members\<close> marks missing.
\<close>

section \<open>Pools\<close>

definition create_pool ::
  "adapter \<Rightarrow> 'd sdk \<Rightarrow> loadbalancer \<Rightarrow> pool \<Rightarrow> member list \<Rightarrow> healthmonitor list \<Rightarrow> 'd list
     \<Rightarrow> (exn + f5exn option) \<times> pool \<times> 'd list" where
  "create_pool A S lb p members monitors bigips =
     (case get_pool A lb p members monitors of
        (Inl e, p') \<Rightarrow> (Inl e, p', bigips)
      | (Inr bp, p') \<Rightarrow>
          (case run_attempts (create_attempt (sdk_pool S) bkey PoolCreationException PoolUpdateException bp) bigips of
             (error, bigips') \<Rightarrow> (Inr error, p', bigips')))"

definition delete_member_node :: "adapter \<Rightarrow> 'd sdk \<Rightarrow> loadbalancer \<Rightarrow> member \<Rightarrow> ('d, f5exn option) py" where
  "delete_member_node A S lb m d =
     (case rh_delete (sdk_node S) (quote (bn_name (map_node A lb m))) (bn_partition (map_node A lb m)) d of
        (Inr _, d') \<Rightarrow> (Inr None, d')
      | (Inl e, d') \<Rightarrow>
          (case http_status e of
             None \<Rightarrow> (Inl e, d')
           | Some code \<Rightarrow>
               if code = 400 then (Inr None, d')
               else if code = 404 then (Inr None, d')
               else (Inr (Some NodeDeleteException), d')))"

definition delete_pool_on ::
  "adapter \<Rightarrow> 'd sdk \<Rightarrow> loadbalancer \<Rightarrow> bigip_pool \<Rightarrow> member list \<Rightarrow> f5exn option \<Rightarrow> ('d, f5exn option) py" where
  "delete_pool_on A S lb bp members error =
     bindM (keep_error (delete_attempt (sdk_pool S) PoolDeleteException (bn_name bp) (bn_partition bp)) error)
       (\<lambda>error'. bindM (forM members (\<lambda>m. bindM (delete_member_node A S lb m) (\<lambda>_. retM ())))
         (\<lambda>_. retM error'))"

definition delete_pool ::
  "adapter \<Rightarrow> 'd sdk \<Rightarrow> loadbalancer \<Rightarrow> pool \<Rightarrow> member list \<Rightarrow> 'd list
     \<Rightarrow> (exn + f5exn option) \<times> pool \<times> 'd list" where
  "delete_pool A S lb p members bigips =
     (case get_pool A lb p members [] of
        (Inl e, p') \<Rightarrow> (Inl e, p', bigips)
      | (Inr bp, p') \<Rightarrow>
          (case for_bigips (delete_pool_on A S lb bp members) None bigips of
             (r, bigips') \<Rightarrow> (r, p', bigips')))"

definition update_pool ::
  "adapter \<Rightarrow> 'd sdk \<Rightarrow> loadbalancer \<Rightarrow> pool \<Rightarrow> member list \<Rightarrow> healthmonitor list \<Rightarrow> 'd list
     \<Rightarrow> (exn + f5exn option) \<times> pool \<times> 'd list" where
  "update_pool A S lb p members monitors bigips =
     (case get_pool A lb p members monitors of
        (Inl e, p') \<Rightarrow> (Inl e, p', bigips)
      | (Inr bp, p') \<Rightarrow>
          (case run_attempts (update_attempt (sdk_pool S) bkey PoolUpdateException bp) bigips of
             (error, bigips') \<Rightarrow> (Inr error, p', bigips')))"

section \<open>Health monitors\<close>

definition get_monitor_helper :: "healthmonitor \<Rightarrow> resource_type" where
  "get_monitor_helper hm =
     (if get_monitor_type hm = Some ''HTTPS'' then https_monitor_rt
      else if get_monitor_type hm = Some ''TCP'' then tcp_monitor_rt
      else if get_monitor_type hm = Some ''PING'' then ping_monitor_rt
      else http_monitor_rt)"

definition create_healthmonitor ::
  "adapter \<Rightarrow> 'd sdk \<Rightarrow> loadbalancer \<Rightarrow> healthmonitor \<Rightarrow> 'd list \<Rightarrow> (exn + f5exn option) \<times> 'd list" where
  "create_healthmonitor A S lb hm bigips =
     (case map_healthmonitor A lb hm of
        Inl e \<Rightarrow> (Inl e, bigips)
      | Inr bm \<Rightarrow>
          (case run_attempts (create_attempt (sdk_monitor S (get_monitor_helper hm)) bkey
                                MonitorCreationException MonitorUpdateException bm) bigips of
             (error, bigips') \<Rightarrow> (Inr error, bigips')))"

definition delete_healthmonitor ::
  "adapter \<Rightarrow> 'd sdk \<Rightarrow> loadbalancer \<Rightarrow> healthmonitor \<Rightarrow> 'd list \<Rightarrow> (exn + f5exn option) \<times> 'd list" where
  "delete_healthmonitor A S lb hm bigips =
     (case map_healthmonitor A lb hm of
        Inl e \<Rightarrow> (Inl e, bigips)
      | Inr bm \<Rightarrow>
          (case run_attempts (delete_attempt (sdk_monitor S (get_monitor_helper hm))
                                MonitorDeleteException (bn_name bm) (bn_partition bm)) bigips of
             (error, bigips') \<Rightarrow> (Inr error, bigips')))"

section \<open>Members\<close>

text \<open>
  One member on one device; \<open>p\<close> is the loaded pool, \<open>None\<close> when loading it failed (\<open>pool_loaded\<close> is
  false).
\<close>

definition assure_member ::
  "adapter \<Rightarrow> 'd sdk \<Rightarrow> loadbalancer \<Rightarrow> string \<Rightarrow> bigip_pool option \<Rightarrow> member \<Rightarrow> 'd
     \<Rightarrow> (exn + unit) \<times> member \<times> 'd" where
  "assure_member A S lb part p m d =
     (if me_status m = Some PENDING_DELETE
      then (case delete_member_node A S lb m d of
              (Inl e, d') \<Rightarrow> (Inl e, m, d')
            | (Inr _, d') \<Rightarrow> (Inr (), m, d'))
      else (case map_member A lb m of
              Inl e \<Rightarrow> (Inl e, m, d)
            | Inr bm \<Rightarrow>
                (case p of
                   None \<Rightarrow> (Inr (), m\<lparr>me_missing := True\<rparr>, d)
                 | Some bp \<Rightarrow>
                     (case sdk_member_exists S bp (quote (bn_name bm)) part d of
                        (Inl e, d') \<Rightarrow> (Inl e, m, d')
                      | (Inr ex, d') \<Rightarrow> (Inr (), if ex then m else m\<lparr>me_missing := True\<rparr>, d')))))"

definition assure_pool_members_on ::
  "adapter \<Rightarrow> 'd sdk \<Rightarrow> loadbalancer \<Rightarrow> bigip_pool \<Rightarrow> 'd \<Rightarrow> member list
     \<Rightarrow> (exn + unit) \<times> 'd \<times> member list" where
  "assure_pool_members_on A S lb bp d members =
     (case rh_load (sdk_pool S) (bn_name bp) (bn_partition bp) d of
        (Inl e, d') \<Rightarrow>
          if http_status e = None then (Inl e, d', members)
          else (case inplace (assure_member A S lb (bn_partition bp) None) members d' of
                  (r, members', d'') \<Rightarrow> (r, d'', members'))
      | (Inr p, d') \<Rightarrow>
          (case inplace (assure_member A S lb (bn_partition bp) (Some p)) members d' of
             (r, members', d'') \<Rightarrow> (r, d'', members')))"

definition assure_pool_members ::
  "adapter \<Rightarrow> 'd sdk \<Rightarrow> loadbalancer \<Rightarrow> pool \<Rightarrow> member list \<Rightarrow> 'd list
     \<Rightarrow> (exn + unit) \<times> pool \<times> member list \<times> 'd list" where
  "assure_pool_members A S lb p members bigips =
     (case get_pool A lb p members [] of
        (Inl e, p') \<Rightarrow> (Inl e, p', members, bigips)
      | (Inr bp, p') \<Rightarrow>
          (case inplace (assure_pool_members_on A S lb bp) bigips members of
             (r, bigips', members') \<Rightarrow> (r, p', members', bigips')))"

text \<open>Any exception while talking to the device counts as \<open>False\<close> or no status.\<close>

definition member_exists ::
  "adapter \<Rightarrow> 'd sdk \<Rightarrow> loadbalancer \<Rightarrow> pool \<Rightarrow> member list \<Rightarrow> member \<Rightarrow> ('d, bool) py" where
  "member_exists A S lb p members m =
     bindM (liftM (fst (get_pool A lb p members []))) (\<lambda>bp.
     bindM (liftM (map_member A lb m)) (\<lambda>bm.
       tryM (bindM (rh_load (sdk_pool S) (bn_name bp) (bn_partition bp)) (\<lambda>lp.
               sdk_member_exists S lp (quote (bn_name bm)) (bn_partition bp)))
         (\<lambda>_. retM False)))"

definition get_member_status ::
  "adapter \<Rightarrow> 'd sdk \<Rightarrow> loadbalancer \<Rightarrow> pool \<Rightarrow> member list \<Rightarrow> member \<Rightarrow> string list
     \<Rightarrow> ('d, (string \<times> stat_value) list) py" where
  "get_member_status A S lb p members m status_keys =
     bindM (liftM (fst (get_pool A lb p members []))) (\<lambda>bp.
     bindM (liftM (map_member A lb m)) (\<lambda>bm.
       tryM (bindM (rh_load (sdk_pool S) (bn_name bp) (bn_partition bp)) (\<lambda>lp.
             bindM (sdk_member_exists S lp (quote (bn_name bm)) (bn_partition bp)) (\<lambda>ex.
               if ex then bindM (sdk_member_stats S lp (quote (bn_name bm)) (bn_partition bp))
                            (\<lambda>entries. liftM (collect_stats entries status_keys))
               else retM [])))
         (\<lambda>_. retM [])))"

section \<open>Lemmas\<close>

lemma create_pool_run:
  assumes "endpoint_ok (sdk_pool S) bkey view" and "get_pool A lb p members monitors = (Inr bp, p')"
  shows "\<exists>ds'. create_pool A S lb p members monitors ds = (Inr None, p', ds') \<and>
           list_all2 (\<lambda>d d'. view d' = (view d)(bkey bp \<mapsto> bp)) ds ds'"
proof -
  obtain ds' where
    "run_attempts (create_attempt (sdk_pool S) bkey PoolCreationException PoolUpdateException bp) ds = (None, ds')"
    "list_all2 (\<lambda>d d'. view d' = (view d)(bkey bp \<mapsto> bp)) ds ds'"
    using creating.run_sure [OF assms(1), of PoolCreationException PoolUpdateException bp ds] assms(1)
    by auto
  with assms(2) show ?thesis by (simp add: create_pool_def)
qed

lemma create_healthmonitor_run:
  assumes "endpoint_ok (sdk_monitor S (get_monitor_helper hm)) bkey view" and "map_healthmonitor A lb hm = Inr bm"
  shows "\<exists>ds'. create_healthmonitor A S lb hm ds = (Inr None, ds') \<and>
           list_all2 (\<lambda>d d'. view d' = (view d)(bkey bm \<mapsto> bm)) ds ds'"
proof -
  obtain ds' where
    "run_attempts (create_attempt (sdk_monitor S (get_monitor_helper hm)) bkey
        MonitorCreationException MonitorUpdateException bm) ds = (None, ds')"
    "list_all2 (\<lambda>d d'. view d' = (view d)(bkey bm \<mapsto> bm)) ds ds'"
    using creating.run_sure [OF assms(1), of MonitorCreationException MonitorUpdateException bm ds] assms(1)
    by auto
  with assms(2) show ?thesis by (simp add: create_healthmonitor_def)
qed

text \<open>
  The devices as \<open>assure_pool_members\<close> sees them: \<open>has d p\<close> that the pool is there and
  \<open>member_on d n\<close> that it has the member; deleting nodes changes neither.
\<close>

definition members_ok ::
  "'d sdk \<Rightarrow> ('d \<Rightarrow> (string \<times> string) \<Rightarrow> bigip_pool option) \<Rightarrow> ('d \<Rightarrow> string \<Rightarrow> bool) \<Rightarrow> bool" where
  "members_ok S view mem \<longleftrightarrow>
     endpoint_ok (sdk_pool S) bkey view \<and>
     (\<forall>bp n p d. sdk_member_exists S bp n p d = (Inr (mem d n), d)) \<and>
     (\<forall>n p d r d'. rh_delete (sdk_node S) n p d = (r, d') \<longrightarrow>
        view d' = view d \<and> mem d' = mem d \<and> (\<forall>e. r = Inl e \<longrightarrow> http_status e \<noteq> None))"

definition weighted :: "member \<Rightarrow> bool" where
  "weighted m \<longleftrightarrow> me_weight m \<noteq> None"

definition lacks ::
  "('d \<Rightarrow> (string \<times> string) \<Rightarrow> bigip_pool option) \<Rightarrow> ('d \<Rightarrow> string \<Rightarrow> bool) \<Rightarrow> string \<times> string \<Rightarrow> member \<Rightarrow> 'd \<Rightarrow> bool" where
  "lacks view mem key m d \<longleftrightarrow>
     view d key = None \<or> \<not> mem d (quote (addr_port (me_address m) (me_protocol_port m)))"

definition mark_missing :: "(member \<Rightarrow> bool) \<Rightarrow> member \<Rightarrow> member" where
  "mark_missing P m =
     (if me_status m \<noteq> Some PENDING_DELETE \<and> P m then m\<lparr>me_missing := True\<rparr> else m)"

lemma delete_member_node_ok:
  assumes "members_ok S view mem"
  shows "\<exists>r d'. delete_member_node A S lb m d = (Inr r, d') \<and> view d' = view d \<and> mem d' = mem d"
proof -
  obtain r d' where del: "rh_delete (sdk_node S) (quote (bn_name (map_node A lb m)))
      (bn_partition (map_node A lb m)) d = (r, d')" by (cases "rh_delete (sdk_node S) (quote (bn_name (map_node A lb m)))
      (bn_partition (map_node A lb m)) d") auto
  with assms have f: "view d' = view d \<and> mem d' = mem d" "\<forall>e. r = Inl e \<longrightarrow> http_status e \<noteq> None"
    unfolding members_ok_def by blast+
  then show ?thesis using del
    by (cases r) (auto simp: delete_member_node_def)
qed

lemma assure_member_ok:
  assumes "members_ok S view mem" and "weighted m" and "view d key = p" and "snd key = part"
  shows "\<exists>d'. assure_member A S lb part p m d = (Inr (), mark_missing (\<lambda>m. lacks view mem key m d) m, d')
           \<and> view d' = view d \<and> mem d' = mem d"
proof (cases "me_status m = Some PENDING_DELETE")
  case True
  with delete_member_node_ok [OF assms(1), of A lb m d] show ?thesis
    by (auto simp: assure_member_def mark_missing_def)
next
  case False
  with assms show ?thesis
    by (auto simp: assure_member_def mark_missing_def lacks_def members_ok_def map_member_def weighted_def
        split: option.splits)
qed

lemma inplace_members_ok:
  assumes "members_ok S view mem" and "\<forall>m \<in> set ms. weighted m" and "view d key = p" and "snd key = part"
  shows "\<exists>d'. inplace (assure_member A S lb part p) ms d
           = (Inr (), map (mark_missing (\<lambda>m. lacks view mem key m d)) ms, d') \<and> view d' = view d \<and> mem d' = mem d"
  using assms(2,3)
proof (induction ms arbitrary: d)
  case Nil
  then show ?case by simp
next
  case (Cons m ms)
  from assure_member_ok [OF assms(1) _ Cons.prems(2) assms(4), of m A lb] Cons.prems(1)
  obtain d1 where d1: "assure_member A S lb part p m d = (Inr (), mark_missing (\<lambda>m. lacks view mem key m d) m, d1)"
    "view d1 = view d" "mem d1 = mem d" by auto
  from Cons.IH [of d1] Cons.prems d1 obtain d2 where
    "inplace (assure_member A S lb part p) ms d1 = (Inr (), map (mark_missing (\<lambda>m. lacks view mem key m d1)) ms, d2)"
    "view d2 = view d1" "mem d2 = mem d1" by auto
  with d1 show ?case by (auto simp: lacks_def)
qed

lemma assure_on_ok:
  assumes "members_ok S view mem" and "\<forall>m \<in> set ms. weighted m"
  shows "\<exists>d'. assure_pool_members_on A S lb bp d ms
           = (Inr (), d', map (mark_missing (\<lambda>m. lacks view mem (bkey bp) m d)) ms)"
proof -
  have ld: "rh_load (sdk_pool S) (bn_name bp) (bn_partition bp) d =
      (case view d (bkey bp) of None \<Rightarrow> Inl (HTTPError 404 '''') | Some m \<Rightarrow> Inr m, d)"
    using endpoint_ok_load [of "sdk_pool S" bkey view] assms(1)
    unfolding members_ok_def rh_load_def bkey_def by blast
  have k: "snd (bkey bp) = bn_partition bp" by (simp add: bkey_def)
  from inplace_members_ok [OF assms refl k, where A = A and lb = lb and d = d] ld show ?thesis
    by (cases "view d (bkey bp)") (auto simp: assure_pool_members_on_def)
qed

lemma lacks_missing [simp]: "lacks view mem key (m\<lparr>me_missing := b\<rparr>) d = lacks view mem key m d"
  by (simp add: lacks_def)

lemma weighted_mark [simp]: "weighted (mark_missing P m) = weighted m"
  by (simp add: weighted_def mark_missing_def)

lemma assure_pool_members_run:
  assumes "members_ok S view mem" and "\<forall>m \<in> set ms. weighted m"
  shows "\<exists>ds'. inplace (assure_pool_members_on A S lb bp) ds ms
           = (Inr (), ds', map (mark_missing (\<lambda>m. \<exists>d \<in> set ds. lacks view mem (bkey bp) m d)) ms)"
  using assms(2)
proof (induction ds arbitrary: ms)
  case Nil
  then show ?case by (simp add: mark_missing_def)
next
  case (Cons d ds)
  from assure_on_ok [OF assms(1) Cons.prems, of A lb bp d]
  obtain d1 where d1: "assure_pool_members_on A S lb bp d ms
      = (Inr (), d1, map (mark_missing (\<lambda>m. lacks view mem (bkey bp) m d)) ms)" by blast
  have "\<forall>m \<in> set (map (mark_missing (\<lambda>m. lacks view mem (bkey bp) m d)) ms). weighted m"
    using Cons.prems by auto
  from Cons.IH [OF this] d1 show ?case
    by (auto simp: mark_missing_def)
qed

end
