(* ===== verification/Certs.thy ===== *)
theory Certs
  imports Devices
begin

text \<open>
  Certificates: \<open>barbican_cert.py\<close> (the container accessors and the retry loop that opens the
  client), \<open>utils/cert_parser.py\<close> (cutting a PEM bundle into blocks) and \<open>ssl_profile.py\<close> (a client
  SSL profile from a certificate and key).

  Barbican is the parameter \<open>containers\<close>; what the cryptography and ASN.1 libraries compute is the
  record \<open>cert_lib\<close>. The Python generators are consumed whole by their caller, so they are lists.
\<close>

section \<open>Barbican\<close>

record container =
  ct_certificate :: string
  ct_intermediates :: "string option"
  ct_private_key :: string
  ct_passphrase :: "string option"

type_synonym containers = "string \<Rightarrow> exn + container"

text \<open>
  The retry loop of \<open>_init_barbican_client\<close>: \<open>try_open k\<close> is the outcome of attempt \<open>k\<close>. The result
  is the outcome and the number of sleeps.
\<close>

definition max_attempts :: nat where
  "max_attempts = 5"

function init_client :: "(nat \<Rightarrow> exn + 'c) \<Rightarrow> nat \<Rightarrow> nat \<Rightarrow> (exn + 'c option) \<times> nat" where
  "init_client try_open n_attempts sleeps =
     (if n_attempts \<le> max_attempts then
        (case try_open (Suc n_attempts) of
           Inr c \<Rightarrow> (Inr (Some c), sleeps)
         | Inl e \<Rightarrow>
             if Suc n_attempts < max_attempts then init_client try_open (Suc n_attempts) (Suc sleeps)
             else (Inl (F5 InvalidBarbicanConfig), sleeps))
      else (Inr None, sleeps))"
  by pat_completeness auto

termination
  by (relation "measure (\<lambda>(_, n, _). Suc max_attempts - n)") auto

declare init_client.simps [simp del]

definition get_certificate :: "containers \<Rightarrow> string \<Rightarrow> exn + string" where
  "get_certificate cts ref = bindE (cts ref) (\<lambda>c. Inr (ct_certificate c))"

definition get_private_key :: "containers \<Rightarrow> string \<Rightarrow> exn + string" where
  "get_private_key cts ref = bindE (cts ref) (\<lambda>c. Inr (ct_private_key c))"

definition get_private_key_passphrase :: "containers \<Rightarrow> string \<Rightarrow> exn + string option" where
  "get_private_key_passphrase cts ref = bindE (cts ref) (\<lambda>c. Inr (ct_passphrase c))"

text \<open>\<open>get_name\<close>: the prefix and what follows the last slash; \<open>rindex\<close> raises without one.\<close>

definition cert_name :: "string \<Rightarrow> string \<Rightarrow> exn + string" where
  "cert_name container_ref prefix =
     (case rindex_after CHR ''/'' container_ref of None \<Rightarrow> Inl ValueError | Some u \<Rightarrow> Inr (prefix @ u))"

section \<open>Certificate bundles\<close>

definition X509_BEG :: string where "X509_BEG = ''-----BEGIN CERTIFICATE-----''"
definition X509_END :: string where "X509_END = ''-----END CERTIFICATE-----''"
definition PKCS7_BEG :: string where "PKCS7_BEG = ''-----BEGIN PKCS7-----''"
definition PKCS7_END :: string where "PKCS7_END = ''-----END PKCS7-----''"

record cert_lib =
  cl_pem_x509 :: "string \<Rightarrow> exn + string" \<comment> \<open>load a PEM block, print it as PEM\<close>
  cl_der_x509 :: "string \<Rightarrow> exn + string"
  cl_b64decode :: "string \<Rightarrow> exn + string"
  cl_content_info :: "string \<Rightarrow> exn + bool \<times> string" \<comment> \<open>is it signed data, its content\<close>
  cl_signed_data :: "string \<Rightarrow> exn + string list" \<comment> \<open>the DER certificates\<close>

definition lines_of :: "string \<Rightarrow> string list" where
  "lines_of s = split_on (CHR 0x0A) (filter (\<lambda>c. c \<noteq> CHR 0x0D) s)"

text \<open>The loop of \<open>_split_x509s\<close>: \<open>Some b\<close> is a block that has begun, its lines so far.\<close>

fun split_blocks :: "string list \<Rightarrow> string list option \<Rightarrow> string list list" where
  "split_blocks [] cur = []"
| "split_blocks (line # rest) (Some b) =
     (if line = X509_END then (b @ [line]) # split_blocks rest None
      else split_blocks rest (Some (b @ [line])))"
| "split_blocks (line # rest) None =
     (if line = X509_BEG then split_blocks rest (Some [line]) else split_blocks rest None)"

definition split_x509s :: "string \<Rightarrow> string list" where
  "split_x509s xstr = map (joined [CHR 0x0A]) (split_blocks (lines_of xstr) None)"

text \<open>The loop of \<open>_read_pem_blocks\<close>: \<open>stSpam\<close> is \<open>None\<close>, \<open>stHam\<close> the collected lines.\<close>

fun read_pem_lines :: "string list \<Rightarrow> string list option \<Rightarrow> string list list" where
  "read_pem_lines [] cur = []"
| "read_pem_lines (line # rest) cur =
     (if line = [] then read_pem_lines rest cur
      else let l = strip line in
        (case cur of
           None \<Rightarrow> if l = PKCS7_BEG then read_pem_lines rest (Some []) else read_pem_lines rest None
         | Some ls \<Rightarrow>
             if l = PKCS7_END then ls # read_pem_lines rest None
             else read_pem_lines rest (Some (ls @ [l]))))"

definition read_pem_blocks :: "cert_lib \<Rightarrow> string \<Rightarrow> exn + string list" where
  "read_pem_blocks L data =
     mapE (\<lambda>ls. bindE (mapE (cl_b64decode L) ls) (\<lambda>ds. Inr (concat ds))) (read_pem_lines (lines_of data) None)"

definition unreadable :: "exn + 'a \<Rightarrow> exn + 'a" where
  "unreadable r = (case r of Inl e \<Rightarrow> Inl (F5 UnreadableCert) | Inr x \<Rightarrow> Inr x)"

definition certs_from_pkcs7_substrate :: "cert_lib \<Rightarrow> string \<Rightarrow> exn + string list" where
  "certs_from_pkcs7_substrate L substrate =
     bindE (unreadable (cl_content_info L substrate)) (\<lambda>(signed, content).
       if \<not> signed then Inl (F5 UnreadableCert)
       else unreadable (cl_signed_data L content))"

definition parse_pkcs7_bundle :: "cert_lib \<Rightarrow> string \<Rightarrow> exn + string list" where
  "parse_pkcs7_bundle L pkcs7 =
     (if contains_str PKCS7_BEG pkcs7
      then unreadable (bindE (read_pem_blocks L pkcs7) (\<lambda>subs.
             bindE (mapE (certs_from_pkcs7_substrate L) subs) (\<lambda>cs. Inr (concat cs))))
      else certs_from_pkcs7_substrate L pkcs7)"

definition get_intermediates_pems :: "cert_lib \<Rightarrow> string \<Rightarrow> exn + string list" where
  "get_intermediates_pems L intermediates =
     (if contains_str X509_BEG intermediates
      then mapE (\<lambda>x. bindE (unreadable (cl_pem_x509 L x)) (\<lambda>t. Inr (strip t))) (split_x509s intermediates)
      else bindE (parse_pkcs7_bundle L intermediates)
             (mapE (\<lambda>x. bindE (unreadable (cl_der_x509 L x)) (\<lambda>t. Inr (strip t)))))"

definition get_intermediates :: "cert_lib \<Rightarrow> containers \<Rightarrow> string \<Rightarrow> exn + string list option" where
  "get_intermediates L cts ref =
     bindE (cts ref) (\<lambda>c.
       case ct_intermediates c of
         None \<Rightarrow> Inr None
       | Some payload \<Rightarrow> bindE (get_intermediates_pems L payload) (\<lambda>ps. Inr (Some ps)))"

section \<open>Client SSL profiles\<close>

definition DOWNLOADS :: string where
  "DOWNLOADS = ''/var/config/rest/downloads/''"

text \<open>
  \<open>create_client_ssl_profile\<close>. An existing profile is left alone; whatever fails between the first
  upload and the creation is raised as \<open>SSLProfileError\<close>.
\<close>

definition create_client_ssl_profile ::
  "'d sdk \<Rightarrow> string \<Rightarrow> string \<Rightarrow> string \<Rightarrow> string option \<Rightarrow> bool \<Rightarrow> string option \<Rightarrow> string option \<Rightarrow> ('d, unit) py" where
  "create_client_ssl_profile S name cert key key_passphrase sni_default intermediates parent_profile =
     bindM (ep_exists (sdk_client_ssl S) name ''Common'') (\<lambda>ex.
     if ex then retM ()
     else
       bindM (case parent_profile of
                None \<Rightarrow> retM None
              | Some pp \<Rightarrow>
                  if pp = '''' then retM parent_profile
                  else bindM (ep_exists (sdk_client_ssl S) pp ''Common'') (\<lambda>pex.
                         retM (if pex then parent_profile else None))) (\<lambda>parent.
       let certfilename = name @ ''.crt''; keyfilename = name @ ''.key'';
           interfilename = (case intermediates of
                              Some i \<Rightarrow> if i = '''' then None else Some (name @ ''_inter'' @ ''.crt'')
                            | None \<Rightarrow> None)
       in tryM
            (bindM (case interfilename of
                      None \<Rightarrow> retM None
                    | Some f \<Rightarrow>
                        bindM (sdk_upload S (get_or '''' intermediates) f) (\<lambda>_.
                        bindM (sdk_install_cert S f (DOWNLOADS @ f)) (\<lambda>_.
                          retM (Some (''/Common/'' @ f))))) (\<lambda>chain_path.
             bindM (sdk_upload S cert certfilename) (\<lambda>_.
             bindM (sdk_upload S key keyfilename) (\<lambda>_.
             bindM (sdk_install_cert S certfilename (DOWNLOADS @ certfilename)) (\<lambda>_.
             bindM (sdk_install_key S keyfilename (DOWNLOADS @ keyfilename)) (\<lambda>_.
               ep_create (sdk_client_ssl S)
                 \<lparr>bn_name = name, bn_partition = ''Common'',
                  cs_cert = ''/Common/'' @ certfilename, cs_chain = chain_path,
                  cs_key = ''/Common/'' @ keyfilename, cs_passphrase = key_passphrase,
                  cs_sniDefault = sni_default, cs_defaultsFrom = parent\<rparr>))))))
            (\<lambda>_. raiseM (F5 SSLProfileError))))"

definition get_client_ssl_profile_count :: "'d sdk \<Rightarrow> ('d, int) py" where
  "get_client_ssl_profile_count S =
     bindM (ep_collection (sdk_client_ssl S) (in_partition ''Common'')) (\<lambda>ps. retM (int (length ps)))"

section \<open>Lemmas\<close>

text \<open>The client is opened at the first success among the first five attempts, or it is an error.\<close>

lemma init_client_raises:
  assumes "\<And>k. k < 5 \<Longrightarrow> n \<le> k \<Longrightarrow> \<exists>e. try_open (Suc k) = Inl e" and "n < 5"
  shows "init_client try_open n s = (Inl (F5 InvalidBarbicanConfig), s + (4 - n))"
  using assms
proof (induction "4 - n" arbitrary: n s)
  case 0
  then have "n = 4" by simp
  with "0.prems"(1) [of 4] show ?case by (auto simp: init_client.simps [of _ 4] max_attempts_def)
next
  case (Suc x)
  then have n: "n < 4" by simp
  from Suc.prems(1) [of n] n obtain e where e: "try_open (Suc n) = Inl e" by auto
  have "init_client try_open (Suc n) (Suc s) = (Inl (F5 InvalidBarbicanConfig), Suc s + (4 - Suc n))"
    using Suc.hyps(2) Suc.prems(1) n by (intro Suc.hyps(1)) auto
  with e n show ?case by (simp add: init_client.simps [of _ n] max_attempts_def)
qed

lemma init_client_opens:
  assumes "\<And>j. n \<le> j \<Longrightarrow> j < k \<Longrightarrow> \<exists>e. try_open (Suc j) = Inl e" and "try_open (Suc k) = Inr c"
    and "n \<le> k" and "k < 5"
  shows "init_client try_open n s = (Inr (Some c), s + (k - n))"
  using assms
proof (induction "k - n" arbitrary: n s)
  case 0
  then show ?case by (auto simp: init_client.simps [of _ n] max_attempts_def)
next
  case (Suc x)
  then have n: "n < k" by simp
  from Suc.prems(1) [of n] n obtain e where e: "try_open (Suc n) = Inl e" by auto
  have "init_client try_open (Suc n) (Suc s) = (Inr (Some c), Suc s + (k - Suc n))"
    using Suc.hyps(2) Suc.prems n by (intro Suc.hyps(1)) auto
  with e n Suc.prems(4) show ?case by (simp add: init_client.simps [of _ n] max_attempts_def)
qed

text \<open>A block of a bundle, and a line between blocks.\<close>

definition block_ok :: "string list \<Rightarrow> bool" where
  "block_ok b \<longleftrightarrow> X509_END \<notin> set b"

definition wrap_block :: "string list \<Rightarrow> string list" where
  "wrap_block b = X509_BEG # b @ [X509_END]"

lemma split_blocks_body:
  "X509_END \<notin> set b \<Longrightarrow>
     split_blocks (b @ X509_END # rest) (Some a) = (a @ b @ [X509_END]) # split_blocks rest None"
  by (induction b arbitrary: a) auto

lemma split_blocks_junk:
  "X509_BEG \<notin> set junk \<Longrightarrow> split_blocks (junk @ rest) None = split_blocks rest None"
  by (induction junk) auto

lemma split_blocks_bundle:
  assumes "\<And>j b. (j, b) \<in> set parts \<Longrightarrow> X509_BEG \<notin> set j \<and> block_ok b" and "X509_BEG \<notin> set tail"
  shows "split_blocks (concat (map (\<lambda>(j, b). j @ wrap_block b) parts) @ tail) None = map (wrap_block \<circ> snd) parts"
  using assms
proof (induction parts)
  case Nil
  then show ?case using split_blocks_junk [of tail "[]"] by simp
next
  case (Cons p parts)
  obtain j b where p: "p = (j, b)" by force
  with Cons.prems have jb: "X509_BEG \<notin> set j" "block_ok b" by auto
  have "split_blocks (wrap_block b @ rest) None = wrap_block b # split_blocks rest None" for rest
    using split_blocks_body [of b rest "[X509_BEG]"] jb by (simp add: wrap_block_def block_ok_def)
  moreover have "split_blocks (concat (map (\<lambda>(j, b). j @ wrap_block b) parts) @ tail) None
      = map (wrap_block \<circ> snd) parts"
  proof (rule Cons.IH)
    show "X509_BEG \<notin> set j \<and> block_ok b" if "(j, b) \<in> set parts" for j b
      using that by (intro Cons.prems(1)) simp
  qed (rule Cons.prems(2))
  ultimately show ?case using p jb by (simp add: split_blocks_junk)
qed

end
