(* ===== verification/ListenerService.thy ===== *)
theory ListenerService
  imports Certs
begin

text \<open>
  \<open>listener_service.py\<close>: a virtual server per listener, with its client SSL profiles and the iRule of
  application cookie persistence. The virtual server dictionary \<open>vip\<close> is shared by all passes of
  the loop over the devices, so it is part of the loop's accumulator. The devices are \<open>bigip\<close>
  objects: \<open>get_vlan\<close> reads their \<open>assured_networks\<close>.
\<close>

section \<open>SSL profiles\<close>

text \<open>What the listener builder holds: the certificates and the parent profile.\<close>

record ssl_env =
  se_containers :: containers
  se_lib :: cert_lib
  se_parent :: "string option"

text \<open>\<open>'\n'.join(list(intermediates))\<close> behind the truth test of the generator.\<close>

definition chain_text :: "string list option \<Rightarrow> string option" where
  "chain_text pems = map_option (joined [CHR 0x0A]) pems"

definition create_ssl_profile ::
  "adapter \<Rightarrow> 'd sdk \<Rightarrow> ssl_env \<Rightarrow> string \<Rightarrow> bool \<Rightarrow> virtual \<Rightarrow> ('d, virtual) py" where
  "create_ssl_profile A S E container_ref sni_default vip =
     bindM (liftM (get_certificate (se_containers E) container_ref)) (\<lambda>cert.
     bindM (liftM (get_intermediates (se_lib E) (se_containers E) container_ref)) (\<lambda>pems.
     bindM (liftM (get_private_key (se_containers E) container_ref)) (\<lambda>key.
     bindM (liftM (get_private_key_passphrase (se_containers E) container_ref)) (\<lambda>passphrase.
     bindM (liftM (cert_name container_ref (ad_prefix A))) (\<lambda>name.
     bindM (tryM (create_client_ssl_profile S name cert key passphrase sni_default (chain_text pems) (se_parent E))
              (\<lambda>e. if http_status e = None then raiseM e else retM ())) (\<lambda>_.
       let prof = PRef name None ''clientside'' in
       retM (if prof \<in> set (vs_profiles vip) then vip
             else vip\<lparr>vs_profiles := vs_profiles vip @ [prof]\<rparr>)))))))"

fun add_sni_profiles ::
  "adapter \<Rightarrow> 'd sdk \<Rightarrow> ssl_env \<Rightarrow> string list \<Rightarrow> virtual \<Rightarrow> ('d, virtual) py" where
  "add_sni_profiles A S E [] vip = retM vip"
| "add_sni_profiles A S E (ref # refs) vip =
     bindM (create_ssl_profile A S E ref False vip) (add_sni_profiles A S E refs)"

definition add_ssl_profile :: "adapter \<Rightarrow> 'd sdk \<Rightarrow> ssl_env \<Rightarrow> tls \<Rightarrow> virtual \<Rightarrow> ('d, virtual) py" where
  "add_ssl_profile A S E t vip =
     bindM (case tls_default t of
              None \<Rightarrow> retM vip
            | Some ref \<Rightarrow> create_ssl_profile A S E ref True vip)
       (add_sni_profiles A S E (tls_sni t))"

text \<open>\<open>_remove_ssl_profile\<close> logs whatever goes wrong.\<close>

definition remove_ssl_profile :: "'d sdk \<Rightarrow> string \<Rightarrow> ('d, unit) py" where
  "remove_ssl_profile S name =
     tryM (rh_delete (sdk_client_ssl S) name ''Common'') (\<lambda>_. retM ())"

definition remove_ref_profile :: "adapter \<Rightarrow> 'd sdk \<Rightarrow> string \<Rightarrow> ('d, unit) py" where
  "remove_ref_profile A S container_ref =
     (case rindex_after CHR ''/'' container_ref of
        None \<Rightarrow> retM ()
      | Some u \<Rightarrow> remove_ssl_profile S (ad_prefix A @ u))"

definition remove_ssl_profiles :: "adapter \<Rightarrow> 'd sdk \<Rightarrow> tls \<Rightarrow> ('d, unit) py" where
  "remove_ssl_profiles A S t =
     bindM (case tls_default t of
              None \<Rightarrow> retM ()
            | Some ref \<Rightarrow> if ref = '''' then retM () else remove_ref_profile A S ref) (\<lambda>_.
       forM (tls_sni t) (remove_ref_profile A S))"

section \<open>Application cookie persistence\<close>

definition app_cookie_rule :: "string \<Rightarrow> string" where
  "app_cookie_rule c =
     (let nl = [CHR 0x0A]; dq = [CHR 0x22] in
      ''when HTTP_REQUEST {'' @ nl @
      '' if { [HTTP::cookie '' @ c @
      ''] ne '' @ dq @ dq @ '' }{'' @ nl @
      ''     persist uie [string tolower [HTTP::cookie '' @ dq @
      c @ dq @ '']] 3600'' @ nl @
      '' }'' @ nl @
      ''}'' @ nl @ nl @
      ''when HTTP_RESPONSE {'' @ nl @
      '' if { [HTTP::cookie '' @ dq @ c @
      dq @ ''] ne '' @ dq @ dq @ '' }{'' @ nl @
      ''     persist add uie [string tolower [HTTP::cookie '' @ dq @
      c @ dq @ '']] 3600'' @ nl @
      '' }'' @ nl @
      ''}'' @ nl @ nl)"

definition cookie_rule_name :: "'a bigip_name_scheme \<Rightarrow> string" where
  "cookie_rule_name vip = ''app_cookie_'' @ bn_name vip"

definition ensure_text :: "('d, named_text) endpoint \<Rightarrow> named_text \<Rightarrow> ('d, unit) py" where
  "ensure_text ep nt =
     bindM (ep_exists ep (bn_name nt) (bn_partition nt)) (\<lambda>ex.
       if ex then retM () else tryM (ep_create ep nt) (\<lambda>_. retM ()))"

definition add_cookie_persist_rule :: "'d sdk \<Rightarrow> virtual \<Rightarrow> session_persistence \<Rightarrow> ('d, unit) py" where
  "add_cookie_persist_rule S vip persistence =
     (case sp_cookie_name persistence of
        None \<Rightarrow> retM ()
      | Some c \<Rightarrow>
          if c = '''' then retM ()
          else
            let rule_name = cookie_rule_name vip in
            bindM (ensure_text (sdk_rule S)
                     \<lparr>bn_name = rule_name, bn_partition = bn_partition vip, nt_text = app_cookie_rule c\<rparr>) (\<lambda>_.
              ensure_text (sdk_universal S)
                \<lparr>bn_name = rule_name, bn_partition = bn_partition vip, nt_text = rule_name\<rparr>))"

definition remove_cookie_persist_rule :: "'d sdk \<Rightarrow> 'a bigip_name_scheme \<Rightarrow> ('d, unit) py" where
  "remove_cookie_persist_rule S vip =
     bindM (rh_delete (sdk_universal S) (cookie_rule_name vip) (bn_partition vip)) (\<lambda>_.
       rh_delete (sdk_rule S) (cookie_rule_name vip) (bn_partition vip))"

definition log_http_error :: "('d, unit) py \<Rightarrow> ('d, unit) py" where
  "log_http_error m = tryM m (\<lambda>e. if http_status e = None then raiseM e else retM ())"

section \<open>Listeners\<close>

text \<open>Truth value of \<open>listener.get('session_persistence', None)\<close>.\<close>

definition has_persist :: "listener \<Rightarrow> bool" where
  "has_persist li \<longleftrightarrow> (case li_session_persistence li of None \<Rightarrow> False | Some sp \<Rightarrow> sp_true sp)"

definition create_listener_on ::
  "adapter \<Rightarrow> 'x bigip sdk \<Rightarrow> ssl_env \<Rightarrow> string \<Rightarrow> tls \<Rightarrow> listener \<Rightarrow> f5exn option \<times> virtual
     \<Rightarrow> ('x bigip, f5exn option \<times> virtual) py" where
  "create_listener_on A S E network_id t li acc =
     bindM (getsM (\<lambda>b. get_vlan A (b_assured_networks b) network_id (snd acc))) (\<lambda>vip0.
     bindM (if tls_true t then add_ssl_profile A S E t vip0 else retM vip0) (\<lambda>vip.
     bindM (case li_session_persistence li of
              Some sp \<Rightarrow> if sp_true sp \<and> sp_type sp = Some ''APP_COOKIE''
                         then add_cookie_persist_rule S vip sp else retM ()
            | None \<Rightarrow> retM ()) (\<lambda>_.
     bindM (keep_error (create_attempt (sdk_virtual S) bkey
                          VirtualServerCreationException VirtualServerUpdateException vip) (fst acc)) (\<lambda>error.
     bindM (if has_persist li then retM () else log_http_error (remove_cookie_persist_rule S vip)) (\<lambda>_.
       retM (error, vip))))))"

text \<open>The listener is mutated by \<open>get_virtual\<close> before anything can raise.\<close>

definition create_listener ::
  "(string \<Rightarrow> exn + nat) \<Rightarrow> adapter \<Rightarrow> 'x bigip sdk \<Rightarrow> ssl_env \<Rightarrow> service \<Rightarrow> loadbalancer \<Rightarrow> listener
     \<Rightarrow> 'x bigip list \<Rightarrow> (exn + f5exn option) \<times> listener \<times> 'x bigip list" where
  "create_listener ip_version A S E svc lb li bigips =
     (let li0 = virtual_listener A lb (get_vip_default_pool li (get_all (sv_pools svc))) li in
      case get_virtual ip_version A svc lb li of
        Inl e \<Rightarrow> (Inl e, li0, bigips)
      | Inr (vip, li') \<Rightarrow>
          (case get_tls li' of
             Inl e \<Rightarrow> (Inl e, li', bigips)
           | Inr t \<Rightarrow>
               (case for_bigips (create_listener_on A S E (get_or '''' (lb_network_id lb)) t li') (None, vip) bigips of
                  (Inl e, bigips') \<Rightarrow> (Inl e, li', bigips')
                | (Inr acc, bigips') \<Rightarrow> (Inr (fst acc), li', bigips'))))"

definition get_listener_virtual :: "adapter \<Rightarrow> 'd sdk \<Rightarrow> loadbalancer \<Rightarrow> listener \<Rightarrow> ('d, virtual) py" where
  "get_listener_virtual A S lb li =
     rh_load (sdk_virtual S) (bn_name (init_virtual_name A lb li)) (bn_partition (init_virtual_name A lb li))"

definition delete_listener_on ::
  "adapter \<Rightarrow> 'd sdk \<Rightarrow> tls \<Rightarrow> bigip_name \<Rightarrow> f5exn option \<Rightarrow> ('d, f5exn option) py" where
  "delete_listener_on A S t nm error =
     bindM (keep_error (delete_attempt (sdk_virtual S) VirtualServerDeleteException
                          (bn_name nm) (bn_partition nm)) error) (\<lambda>error'.
     bindM (remove_ssl_profiles A S t) (\<lambda>_.
     bindM (log_http_error (remove_cookie_persist_rule S nm)) (\<lambda>_. retM error')))"

definition delete_listener ::
  "adapter \<Rightarrow> 'd sdk \<Rightarrow> loadbalancer \<Rightarrow> listener \<Rightarrow> ('d list, f5exn option) py" where
  "delete_listener A S lb li bigips =
     (case get_tls li of
        Inl e \<Rightarrow> (Inl e, bigips)
      | Inr t \<Rightarrow> for_bigips (delete_listener_on A S t (init_virtual_name A lb li)) None bigips)"

section \<open>Orphaned virtual servers\<close>

definition delete_where :: "'d sdk \<Rightarrow> (virtual \<Rightarrow> bool) \<Rightarrow> virtual list \<Rightarrow> ('d, unit) py" where
  "delete_where S P vses =
     forM (filter P vses) (\<lambda>vs. ep_delete (sdk_virtual S) (bn_name vs) (bn_partition vs))"

text \<open>The loop over the virtual servers that computes \<open>orphaned\<close>.\<close>

fun orphaned_scan :: "virtual \<Rightarrow> virtual list \<Rightarrow> bool \<Rightarrow> bool" where
  "orphaned_scan vip [] orphaned = orphaned"
| "orphaned_scan vip (vs # vses) orphaned =
     orphaned_scan vip vses
       (if vs_destination vip = vs_destination vs
        then (if bn_name vip = bn_name vs then False else orphaned)
        else False)"

definition delete_orphans_of_vip :: "'d sdk \<Rightarrow> virtual \<Rightarrow> ('d, unit) py" where
  "delete_orphans_of_vip S vip =
     bindM (ep_collection (sdk_virtual S) None) (\<lambda>vses.
       if orphaned_scan vip vses True then delete_where S (\<lambda>vs. bn_name vip = bn_name vs) vses
       else retM ())"

definition delete_orphans_of_address :: "'d sdk \<Rightarrow> string \<Rightarrow> ('d, unit) py" where
  "delete_orphans_of_address S ip_address =
     bindM (ep_collection (sdk_virtual S) None)
       (delete_where S (\<lambda>vs. startswith ip_address (get_or ''None'' (vs_destination vs))))"

definition delete_orphaned_listeners ::
  "(string \<Rightarrow> exn + nat) \<Rightarrow> adapter \<Rightarrow> 'd sdk \<Rightarrow> service \<Rightarrow> loadbalancer \<Rightarrow> ('d list, unit) py" where
  "delete_orphaned_listeners ip_version A S svc lb =
     (case sv_listeners svc of
        None \<Rightarrow>
          (case lb_vip_address lb of
             None \<Rightarrow> raiseM TypeError
           | Some ip \<Rightarrow> for_bigips (\<lambda>_. delete_orphans_of_address S (vip_ip ip)) ())
      | Some listeners \<Rightarrow>
          forM listeners (\<lambda>li.
            bindM (liftM (get_virtual ip_version A (svc\<lparr>sv_pools := None, sv_l7policies := None\<rparr>) lb li))
              (\<lambda>(vip, _). for_bigips (\<lambda>_. delete_orphans_of_vip S vip) ())))"

section \<open>Statistics\<close>

fun bump :: "string \<Rightarrow> int \<Rightarrow> (string \<times> int) list \<Rightarrow> (string \<times> int) list" where
  "bump k i [] = []"
| "bump k i ((k', j) # rest) = (if k = k' then (k', j + i) # rest else (k', j) # bump k i rest)"

text \<open>The inner loop of \<open>get_stats\<close>: adding a text to a number raises, which ends the device's turn.\<close>

fun add_stats :: "string list \<Rightarrow> (string \<times> stat_value) list \<Rightarrow> (string \<times> int) list \<Rightarrow> (string \<times> int) list" where
  "add_stats [] vs acc = acc"
| "add_stats (k # ks) vs acc =
     (case map_of vs k of
        None \<Rightarrow> add_stats ks vs acc
      | Some (StatInt i) \<Rightarrow> add_stats ks vs (bump k i acc)
      | Some (StatText _) \<Rightarrow> acc)"

definition get_stats_on ::
  "'d sdk \<Rightarrow> virtual \<Rightarrow> string list \<Rightarrow> (string \<times> int) list \<Rightarrow> ('d, (string \<times> int) list) py" where
  "get_stats_on S vip stat_keys acc d =
     (case rh_get_stats (sdk_virtual S) (sdk_virtual_stats S) (bn_name vip) (bn_partition vip) stat_keys d of
        (Inl _, d') \<Rightarrow> (Inr acc, d')
      | (Inr vs, d') \<Rightarrow> (Inr (add_stats stat_keys vs acc), d'))"

definition get_listener_stats ::
  "(string \<Rightarrow> exn + nat) \<Rightarrow> adapter \<Rightarrow> 'd sdk \<Rightarrow> service \<Rightarrow> loadbalancer \<Rightarrow> listener \<Rightarrow> string list
     \<Rightarrow> ('d list, (string \<times> int) list) py" where
  "get_listener_stats ip_version A S svc lb li stat_keys =
     bindM (liftM (get_virtual ip_version A svc lb li)) (\<lambda>(vip, _).
       for_bigips (get_stats_on S vip stat_keys) (map (\<lambda>k. (k, 0)) (remdups stat_keys)))"

section \<open>Lemmas\<close>

lemma orphaned_scan_False [simp]: "orphaned_scan vip vses False = False"
  by (induction vses) auto

lemma orphaned_scan_True:
  "orphaned_scan vip vses True \<longleftrightarrow>
     (\<forall>vs \<in> set vses. vs_destination vs = vs_destination vip \<and> bn_name vs \<noteq> bn_name vip)"
  by (induction vses) auto

text \<open>The virtual servers called orphaned never include the one the deletion looks for.\<close>

lemma orphans_of_vip_idle:
  assumes "ep_collection (sdk_virtual S) None d = (Inr vses, d')"
  shows "delete_orphans_of_vip S vip d = (Inr (), d')"
proof (cases "orphaned_scan vip vses True")
  case True
  then have "filter (\<lambda>vs. bn_name vip = bn_name vs) vses = []"
    by (auto simp: orphaned_scan_True filter_empty_conv)
  with True assms show ?thesis
    by (simp add: delete_orphans_of_vip_def delete_where_def py_simps)
next
  case False
  with assms show ?thesis by (simp add: delete_orphans_of_vip_def py_simps)
qed

lemma bump_keys [simp]: "map fst (bump k i acc) = map fst acc"
  by (induction k i acc rule: bump.induct) auto

lemma add_stats_keys [simp]: "map fst (add_stats ks vs acc) = map fst acc"
  by (induction ks vs acc rule: add_stats.induct) (auto split: option.splits stat_value.splits)

text \<open>The name a profile gets at creation is the one removal looks for.\<close>

lemma cert_name_removed:
  assumes "cert_name ref (ad_prefix A) = Inr name"
  shows "remove_ref_profile A S ref = remove_ssl_profile S name"
  using assms by (auto simp: cert_name_def remove_ref_profile_def split: option.splits)

lemma remove_ref_profile_ok:
  assumes "endpoint_ok (sdk_client_ssl S) bkey view" and "cert_name ref (ad_prefix A) = Inr name"
  shows "\<exists>d'. remove_ref_profile A S ref d = (Inr (), d') \<and> view d' = (view d)((name, ''Common'') := None)"
  using rh_delete_ok [OF assms(1), of name "''Common''" d]
  by (auto simp: cert_name_removed [OF assms(2)] remove_ssl_profile_def py_simps)

end
