(* ===== verification/VirtualAddress.thy ===== *)
theory VirtualAddress
  imports Devices
begin

text \<open>
  \<open>virtual_address.py\<close>: the virtual address of a load balancer. The object's attributes are the
  dictionary \<open>model()\<close> returns, the record \<open>virtual_address\<close>. The lemmas state what \<open>assure\<close> leaves
  on a device that answers, and that \<open>create\<close> swallows the other HTTP errors.
\<close>

definition va_init :: "adapter \<Rightarrow> loadbalancer \<Rightarrow> virtual_address" where
  "va_init A lb =
     \<lparr>bn_name = ad_prefix A @ lb_id lb, bn_partition = get_folder_name A (lb_tenant_id lb),
      va_address = (case lb_vip_address lb of None \<Rightarrow> Some '''' | Some a \<Rightarrow> Some a),
      va_description = get_resource_description (lb_name lb) (lb_description lb),
      va_trafficGroup = get_or '''' (lb_traffic_group lb),
      va_autoDelete = False,
      va_enabled = (if get_or True (lb_admin_state_up lb) then ''yes'' else ''no'')\<rparr>"

definition va_load :: "'d sdk \<Rightarrow> virtual_address \<Rightarrow> ('d, virtual_address) py" where
  "va_load S va = rh_load (sdk_va S) (bn_name va) (bn_partition va)"

definition va_exists :: "'d sdk \<Rightarrow> virtual_address \<Rightarrow> ('d, bool) py" where
  "va_exists S va = rh_exists (sdk_va S) (bn_name va) (bn_partition va)"

definition va_delete :: "'d sdk \<Rightarrow> virtual_address \<Rightarrow> ('d, unit) py" where
  "va_delete S va = rh_delete (sdk_va S) (bn_name va) (bn_partition va)"

text \<open>An \<open>HTTPError\<close> other than 409 leaves \<open>va = None\<close> and is not raised.\<close>

definition va_create :: "'d sdk \<Rightarrow> virtual_address \<Rightarrow> ('d, unit) py" where
  "va_create S va =
     tryM (rh_create (sdk_va S) va) (\<lambda>e.
       case http_status e of
         None \<Rightarrow> raiseM e
       | Some code \<Rightarrow> if code = 409 then bindM (va_load S va) (\<lambda>_. retM ()) else retM ())"

text \<open>
  The address is immutable: when it changed, the object is deleted (a failure is only logged) and
  created anew; else the other attributes are updated (the address the update leaves out is the
  one already there).
\<close>

definition va_update :: "'d sdk \<Rightarrow> virtual_address \<Rightarrow> ('d, unit) py" where
  "va_update S va =
     bindM (va_load S va) (\<lambda>remote.
       if va_address remote \<noteq> va_address va
       then bindM (tryM (va_delete S va) (\<lambda>_. retM ())) (\<lambda>_. va_create S va)
       else rh_update (sdk_va S) bkey va)"

definition va_assure :: "'d sdk \<Rightarrow> virtual_address \<Rightarrow> bool \<Rightarrow> ('d, unit) py" where
  "va_assure S va del =
     (if del then va_delete S va
      else bindM (va_exists S va) (\<lambda>ex. if ex then va_update S va else va_create S va))"

section \<open>Lemmas\<close>

lemma va_create_ok:
  assumes "endpoint_ok (sdk_va S) bkey view" and "view d (bkey va) = None"
  shows "\<exists>d'. va_create S va d = (Inr (), d') \<and> view d' = (view d)(bkey va \<mapsto> va)"
  using endpoint_ok_create_new [OF assms] by (auto simp: va_create_def rh_create_def py_simps)

lemma va_update_ok:
  assumes ok: "endpoint_ok (sdk_va S) bkey view" and "view d (bkey va) = Some old"
  shows "\<exists>d'. va_update S va d = (Inr (), d') \<and> view d' = (view d)(bkey va \<mapsto> va)"
proof -
  have ld: "va_load S va d = (Inr old, d)"
    using assms by (simp add: va_load_def rh_load_def endpoint_ok_load [OF ok] bkey_def)
  show ?thesis
  proof (cases "va_address old = va_address va")
    case True
    with ld rh_update_ok [OF ok assms(2)] show ?thesis by (auto simp: va_update_def py_simps)
  next
    case False
    from rh_delete_ok [OF ok, of "bn_name va" "bn_partition va" d] obtain d1
      where d1: "va_delete S va d = (Inr (), d1)" "view d1 = (view d)(bkey va := None)"
      by (auto simp: va_delete_def bkey_def)
    from va_create_ok [OF ok, of d1 va] d1 obtain d2
      where "va_create S va d1 = (Inr (), d2)" "view d2 = (view d1)(bkey va \<mapsto> va)" by auto
    with False ld d1 show ?thesis by (auto simp: va_update_def py_simps)
  qed
qed

lemma va_assure_ok:
  assumes "endpoint_ok (sdk_va S) bkey view"
  shows "\<exists>d'. va_assure S va del d = (Inr (), d') \<and>
           view d' = (view d)(bkey va := (if del then None else Some va))"
proof (cases del)
  case True
  with rh_delete_ok [OF assms, of "bn_name va" "bn_partition va" d] show ?thesis
    by (auto simp: va_assure_def va_delete_def bkey_def)
next
  case False
  have ex: "va_exists S va d = (Inr (view d (bkey va) \<noteq> None), d)"
    by (simp add: va_exists_def rh_exists_def endpoint_ok_exists [OF assms] bkey_def)
  from False ex va_update_ok [OF assms, of d va] va_create_ok [OF assms, of d va] show ?thesis
    by (cases "view d (bkey va)") (auto simp: va_assure_def py_simps)
qed

end
