(* ===== verification/L7Service.thy ===== *)
theory L7Service
  imports Devices
begin

text \<open>
  \<open>l7policy_service.py\<close>: the BIG-IP policy of a listener on a set of devices (\<open>build_policy\<close> is in
  \<open>L7Adapter\<close>). Creation resets the remembered error whenever a device succeeds; deletion keeps it.
\<close>

definition create_l7policy_on :: "'d sdk \<Rightarrow> f5_policy \<Rightarrow> f5exn option \<Rightarrow> ('d, f5exn option) py" where
  "create_l7policy_on S pol error d =
     (case rh_create (sdk_l7policy S) pol d of
        (Inr _, d') \<Rightarrow> (Inr None, d')
      | (Inl e, d') \<Rightarrow>
          if http_status e = Some 409
          then (case rh_update (sdk_l7policy S) fp_key pol d' of
                  (Inr _, d'') \<Rightarrow> (Inr error, d'')
                | (Inl _, d'') \<Rightarrow> (Inr (Some L7PolicyUpdateException), d''))
          else (Inr (Some L7PolicyCreationException), d'))"

definition create_l7policy :: "'d sdk \<Rightarrow> f5_policy \<Rightarrow> ('d list, f5exn option) py" where
  "create_l7policy S pol = for_bigips (create_l7policy_on S pol) None"

text \<open>404 is only logged; 400 and any other failure is an error.\<close>

definition delete_l7policy :: "'d sdk \<Rightarrow> string \<Rightarrow> string \<Rightarrow> 'd list \<Rightarrow> f5exn option \<times> 'd list" where
  "delete_l7policy S name part =
     run_attempts (delete_attempt (sdk_l7policy S) L7PolicyDeleteException name part)"

section \<open>Lemmas\<close>

lemma create_l7policy_on_ok:
  assumes "endpoint_ok (sdk_l7policy S) fp_key view"
  shows "\<exists>d'. create_l7policy_on S pol None d = (Inr None, d') \<and> view d' = (view d)(fp_key pol \<mapsto> pol)"
proof (cases "view d (fp_key pol)")
  case None
  with endpoint_ok_create_new [OF assms None] show ?thesis
    by (auto simp: create_l7policy_on_def rh_create_def)
next
  case (Some x)
  from rh_update_ok [OF assms Some] endpoint_ok_create_dup [OF assms Some] show ?thesis
    by (auto simp: create_l7policy_on_def rh_create_def)
qed

lemma create_l7policy_run:
  assumes "endpoint_ok (sdk_l7policy S) fp_key view"
  shows "\<exists>ds'. create_l7policy S pol ds = (Inr None, ds') \<and>
           list_all2 (\<lambda>d d'. view d' = (view d)(fp_key pol \<mapsto> pol)) ds ds'"
  unfolding create_l7policy_def
proof (induction ds)
  case (Cons d ds)
  with create_l7policy_on_ok [OF assms, of pol d] show ?case by auto
qed simp

text \<open>A later device that creates the policy hides an earlier device's error.\<close>

lemma create_l7policy_last:
  assumes "for_bigips (create_l7policy_on S pol) err ds = (Inr err1, ds')"
    and "rh_create (sdk_l7policy S) pol d = (Inr (), d')"
  shows "for_bigips (create_l7policy_on S pol) err (ds @ [d]) = (Inr None, ds' @ [d'])"
  using assms(1)
proof (induction ds arbitrary: err ds')
  case Nil
  with assms(2) show ?case by (simp add: create_l7policy_on_def)
next
  case (Cons x ds)
  from Cons.prems obtain e2 x' ds2 where "create_l7policy_on S pol err x = (Inr e2, x')"
    "for_bigips (create_l7policy_on S pol) e2 ds = (Inr err1, ds2)" "ds' = x' # ds2"
    by (auto split: prod.splits sum.splits)
  with Cons.IH [of e2 ds2] show ?case by simp
qed

end
