(* ===== verification/SubnetHints.thy ===== *)
theory SubnetHints
  imports Service
begin

text \<open>
  The subnet hints of \<open>lbaas_builder.py\<close> (\<open>_update_subnet_hints\<close>): per device, the subnets whose self
  IPs and SNATs may be deleted after the service was configured and those that must stay.
  \<open>subnet_hints_ok\<close> is the invariant, \<open>hint_spec\<close> the specification that does not depend on the
  order of the updates.
\<close>

section \<open>Data\<close>

record subnet_hint =
  h_network_id :: string
  h_subnet_id :: string
  h_is_for_member :: bool

record subnet_hints =
  check_for_delete_subnets :: "(string \<times> subnet_hint) list"
  do_not_delete_subnets :: "string list"

definition empty_hints :: subnet_hints where
  "empty_hints = \<lparr>check_for_delete_subnets = [], do_not_delete_subnets = []\<rparr>"

type_synonym all_hints = "(string \<times> subnet_hints) list"

section \<open>The update\<close>

definition update_hints :: "pstatus \<Rightarrow> string \<Rightarrow> string \<Rightarrow> bool \<Rightarrow> subnet_hints \<Rightarrow> subnet_hints" where
  "update_hints status subnet_id network_id is_member h =
     (if status \<noteq> PENDING_DELETE then
        \<lparr>check_for_delete_subnets = AList.delete subnet_id (check_for_delete_subnets h),
         do_not_delete_subnets =
           (if subnet_id \<in> set (do_not_delete_subnets h) then do_not_delete_subnets h
            else do_not_delete_subnets h @ [subnet_id])\<rparr>
      else if subnet_id \<notin> set (do_not_delete_subnets h) then
        h\<lparr>check_for_delete_subnets := AList.update subnet_id
            \<lparr>h_network_id = network_id, h_subnet_id = subnet_id, h_is_for_member = is_member\<rparr>
            (check_for_delete_subnets h)\<rparr>
      else h)"

text \<open>The loop over the devices, by device name; a device without hints is a \<open>KeyError\<close>.\<close>

fun update_all_hints ::
  "string list \<Rightarrow> pstatus \<Rightarrow> string \<Rightarrow> string \<Rightarrow> bool \<Rightarrow> all_hints \<Rightarrow> (exn + unit) \<times> all_hints" where
  "update_all_hints [] status subnet_id network_id is_member hs = (Inr (), hs)"
| "update_all_hints (name # names) status subnet_id network_id is_member hs =
     (case map_of hs name of
        None \<Rightarrow> (Inl KeyError, hs)
      | Some h \<Rightarrow> update_all_hints names status subnet_id network_id is_member
                    (AList.update name (update_hints status subnet_id network_id is_member h) hs))"

section \<open>Invariant and specification\<close>

definition subnet_hints_ok :: "subnet_hints \<Rightarrow> bool" where
  "subnet_hints_ok h \<longleftrightarrow>
     fst ` set (check_for_delete_subnets h) \<inter> set (do_not_delete_subnets h) = {} \<and>
     distinct (do_not_delete_subnets h) \<and> distinct (map fst (check_for_delete_subnets h)) \<and>
     (\<forall>k v. map_of (check_for_delete_subnets h) k = Some v \<longrightarrow> h_subnet_id v = k)"

lemma subnet_hints_ok_empty [simp]: "subnet_hints_ok empty_hints"
  by (simp add: subnet_hints_ok_def empty_hints_def)

lemma keys_delete: "fst ` set (AList.delete k al) = fst ` set al - {k}"
  by (metis delete_keys set_map set_removeAll)

lemma hints_ok_keep:
  assumes "subnet_hints_ok h" and "st \<noteq> PENDING_DELETE"
  shows "subnet_hints_ok (update_hints st s n m h)"
  using assms by (auto simp: subnet_hints_ok_def update_hints_def keys_delete distinct_delete delete_conv'
      simp del: map_of_eq_Some_iff split: if_splits)

lemma hints_ok_delete:
  assumes "subnet_hints_ok h"
  shows "subnet_hints_ok (update_hints PENDING_DELETE s n m h)"
  using assms by (auto simp: subnet_hints_ok_def update_hints_def dom_update distinct_update update_conv'
      simp del: map_of_eq_Some_iff split: if_splits)

lemma update_hints_ok: "subnet_hints_ok h \<Longrightarrow> subnet_hints_ok (update_hints st s n m h)"
  using hints_ok_keep hints_ok_delete by (cases "st = PENDING_DELETE") auto

lemma update_hints_keys:
  "set (do_not_delete_subnets (update_hints st s n m h)) =
     set (do_not_delete_subnets h) \<union> (if st \<noteq> PENDING_DELETE then {s} else {})"
  "fst ` set (check_for_delete_subnets (update_hints st s n m h)) =
     (if st \<noteq> PENDING_DELETE then fst ` set (check_for_delete_subnets h) - {s}
      else if s \<in> set (do_not_delete_subnets h) then fst ` set (check_for_delete_subnets h)
      else insert s (fst ` set (check_for_delete_subnets h)))"
  by (auto simp: update_hints_def keys_delete dom_update)

text \<open>The updates of one device, as the phases of the builder issue them.\<close>

record hint_update =
  hu_status :: pstatus
  hu_subnet :: string
  hu_network :: string
  hu_member :: bool

definition run_hints :: "hint_update list \<Rightarrow> subnet_hints \<Rightarrow> subnet_hints" where
  "run_hints us h = fold (\<lambda>u. update_hints (hu_status u) (hu_subnet u) (hu_network u) (hu_member u)) us h"

text \<open>The specification: what some object still needs stays, what all objects give up may go.\<close>

definition kept_subnets :: "hint_update list \<Rightarrow> string set" where
  "kept_subnets us = hu_subnet ` {u \<in> set us. hu_status u \<noteq> PENDING_DELETE}"

definition freed_subnets :: "hint_update list \<Rightarrow> string set" where
  "freed_subnets us = hu_subnet ` set us - kept_subnets us"

lemma run_hints_invariant: "subnet_hints_ok h \<Longrightarrow> subnet_hints_ok (run_hints us h)"
  unfolding run_hints_def by (induction us arbitrary: h) (auto intro: update_hints_ok)

lemma run_hints_append: "run_hints (us @ [u]) h =
    update_hints (hu_status u) (hu_subnet u) (hu_network u) (hu_member u) (run_hints us h)"
  by (simp add: run_hints_def)

lemma run_hints_sets:
  "set (do_not_delete_subnets (run_hints us empty_hints)) = kept_subnets us \<and>
   fst ` set (check_for_delete_subnets (run_hints us empty_hints)) = freed_subnets us"
proof (induction us rule: rev_induct)
  case Nil
  then show ?case by (simp add: run_hints_def empty_hints_def kept_subnets_def freed_subnets_def)
next
  case (snoc u us)
  then show ?case
    by (auto simp: run_hints_append update_hints_keys kept_subnets_def freed_subnets_def)
qed

text \<open>On all devices: every device of the loop gets the update, the others keep theirs.\<close>

lemma update_all_hints_invariant:
  assumes "update_all_hints names st s n m hs = (r, hs')" and "\<forall>h \<in> ran (map_of hs). subnet_hints_ok h"
  shows "\<forall>h \<in> ran (map_of hs'). subnet_hints_ok h"
  using assms
proof (induction names st s n m hs arbitrary: r rule: update_all_hints.induct)
  case (2 name names st s n m hs)
  show ?case
  proof (cases "map_of hs name")
    case None
    with 2 show ?thesis by simp
  next
    case (Some h)
    with 2(3) have "subnet_hints_ok h" by (auto simp: ran_def)
    then have "\<forall>h' \<in> ran (map_of (AList.update name (update_hints st s n m h) hs)). subnet_hints_ok h'"
      using 2(3) by (auto simp: update_conv' ran_def update_hints_ok split: if_splits)
    with Some 2 show ?thesis by simp
  qed
qed simp

lemma update_all_hints_value:
  assumes "distinct names" and "\<forall>x \<in> set names. map_of hs x \<noteq> None"
  shows "\<exists>hs'. update_all_hints names st s n m hs = (Inr (), hs') \<and>
           (\<forall>x. map_of hs' x = (if x \<in> set names then map_option (update_hints st s n m) (map_of hs x) else map_of hs x))"
  using assms
proof (induction names st s n m hs rule: update_all_hints.induct)
  case (2 name names st s n m hs)
  then obtain h where h: "map_of hs name = Some h" by auto
  from 2 h have "\<exists>hs'. update_all_hints names st s n m (AList.update name (update_hints st s n m h) hs) = (Inr (), hs') \<and>
     (\<forall>x. map_of hs' x = (if x \<in> set names
        then map_option (update_hints st s n m) (map_of (AList.update name (update_hints st s n m h) hs) x)
        else map_of (AList.update name (update_hints st s n m h) hs) x))"
    by (auto simp: update_conv')
  with 2(2) h show ?case by (auto simp: update_conv')
qed simp

end
