(* ===== verification/Builder.thy ===== *)
theory Builder
  imports PoolService ListenerService VirtualAddress L7Service SubnetHints
begin

text \<open>
  \<open>lbaas_builder.py\<close>: the phases that configure one service on the devices. The state of a phase is
  the service (whose dictionaries the code mutates), the devices and the subnet hints; a phase
  returns the exception it raises, or none, with the state as it then is.

  Dictionaries the code iterates (\<open>pool_to_member_map\<close>, \<open>listener_policy_map\<close>) are taken in the
  order of insertion; Python 2 leaves the order open.
\<close>

section \<open>State and environment\<close>

record 'x bstate =
  bs_service :: service
  bs_bigips :: "'x bigip list"
  bs_hints :: all_hints

text \<open>\<open>be_const_status\<close> is \<open>const_status\<close>; the L3 binding is \<open>None\<close> when the driver has none.\<close>

record 'x benv =
  be_adapter :: adapter
  be_sdk :: "'x bigip sdk"
  be_ssl :: ssl_env
  be_ip_version :: "string \<Rightarrow> exn + nat"
  be_bind :: "(string \<Rightarrow> string option \<Rightarrow> exn + unit) option"
  be_unbind :: "(string \<Rightarrow> string option \<Rightarrow> exn + unit) option"
  be_const_status :: "pstatus list"

type_synonym 'x phase = "'x bstate \<Rightarrow> (exn + unit) \<times> 'x bstate"

definition sync_status :: "pstatus list" where
  "sync_status = [PENDING_CREATE, PENDING_UPDATE, ERROR, ACTIVE]"

definition normal_status :: "pstatus list" where
  "normal_status = [PENDING_CREATE, PENDING_UPDATE]"

definition set_status_as_active :: "bool \<Rightarrow> pstatus \<Rightarrow> pstatus" where
  "set_status_as_active force ps = (if ps \<notin> {ERROR, PENDING_DELETE} \<or> force then ACTIVE else ps)"

definition mod_service :: "(service \<Rightarrow> service) \<Rightarrow> 'x bstate \<Rightarrow> 'x bstate" where
  "mod_service f s = s\<lparr>bs_service := f (bs_service s)\<rparr>"

definition lb_error :: "service \<Rightarrow> service" where
  "lb_error svc = svc\<lparr>sv_loadbalancer := map_option (set_lb_status ERROR) (sv_loadbalancer svc)\<rparr>"

text \<open>\<open>_update_subnet_hints\<close>.\<close>

definition update_subnet_hints :: "pstatus \<Rightarrow> string \<Rightarrow> string \<Rightarrow> bool \<Rightarrow> 'x phase" where
  "update_subnet_hints status subnet_id network_id is_member s =
     (case update_all_hints (map b_device_name (bs_bigips s)) status subnet_id network_id is_member (bs_hints s) of
        (r, hs) \<Rightarrow> (r, s\<lparr>bs_hints := hs\<rparr>))"

section \<open>Load balancers\<close>

definition assure_va_on :: "'x benv \<Rightarrow> virtual_address \<Rightarrow> bool \<Rightarrow> ('x bigip, bool) py" where
  "assure_va_on E va failed b =
     (case va_assure (be_sdk E) va False b of
        (Inl _, b') \<Rightarrow> (Inr True, b')
      | (Inr _, b') \<Rightarrow> (Inr failed, b'))"

definition assure_va_all :: "'x benv \<Rightarrow> virtual_address \<Rightarrow> 'x bigip list \<Rightarrow> bool \<times> 'x bigip list" where
  "assure_va_all E va bs =
     (case for_bigips (assure_va_on E va) False bs of
        (Inr failed, bs') \<Rightarrow> (failed, bs') | (Inl _, bs') \<Rightarrow> (True, bs'))"

definition assure_lb_address :: "'x benv \<Rightarrow> loadbalancer \<Rightarrow> 'x bstate \<Rightarrow> 'x bstate" where
  "assure_lb_address E lb s =
     (if lb_status lb \<in> set (be_const_status E) then
        (case assure_va_all E (va_init (be_adapter E) lb) (bs_bigips s) of
           (failed, bs) \<Rightarrow> mod_service (\<lambda>svc. if failed then lb_error svc else svc) (s\<lparr>bs_bigips := bs\<rparr>))
      else s)"

definition assure_loadbalancer_created :: "'x benv \<Rightarrow> 'x phase" where
  "assure_loadbalancer_created E s =
     (case sv_loadbalancer (bs_service s) of
        None \<Rightarrow> (Inr (), s)
      | Some lb0 \<Rightarrow>
          (let s1 = assure_lb_address E lb0 s;
               lb = get_or lb0 (sv_loadbalancer (bs_service s1)) in
           case (case be_bind E of
                   None \<Rightarrow> Inr () | Some bind \<Rightarrow> bind (lb_vip_subnet_id lb) (lb_vip_address lb)) of
             Inl e \<Rightarrow> (Inl e, s1)
           | Inr _ \<Rightarrow>
               (case lb_network_id lb of
                  None \<Rightarrow> (Inl KeyError, s1)
                | Some n \<Rightarrow> update_subnet_hints (lb_status lb) (lb_vip_subnet_id lb) n False s1)))"

definition assure_loadbalancer_deleted :: "'x benv \<Rightarrow> 'x phase" where
  "assure_loadbalancer_deleted E s =
     (case sv_loadbalancer (bs_service s) of
        None \<Rightarrow> (Inl KeyError, s)
      | Some lb \<Rightarrow>
          if lb_status lb \<noteq> PENDING_DELETE then (Inr (), s)
          else
            (case (case be_unbind E of
                     None \<Rightarrow> Inr () | Some unbind \<Rightarrow> unbind (lb_vip_subnet_id lb) (lb_vip_address lb)) of
               Inl e \<Rightarrow> (Inl e, s)
             | Inr _ \<Rightarrow>
                 (case for_bigips (\<lambda>_. va_assure (be_sdk E) (va_init (be_adapter E) lb) True) () (bs_bigips s) of
                    (Inl e, bs) \<Rightarrow> (Inl e, s\<lparr>bs_bigips := bs\<rparr>)
                  | (Inr _, bs) \<Rightarrow> (Inr (), s\<lparr>bs_bigips := bs\<rparr>))))"

section \<open>Listeners\<close>

text \<open>One listener; the shared state of the loop is the load balancer's error flag and the devices.\<close>

definition assure_listener_created ::
  "'x benv \<Rightarrow> service \<Rightarrow> loadbalancer \<Rightarrow> listener \<Rightarrow> bool \<times> 'x bigip list
     \<Rightarrow> (exn + unit) \<times> listener \<times> (bool \<times> 'x bigip list)" where
  "assure_listener_created E svc lb li st =
     (if li_status li \<in> set (be_const_status E) then
        (case create_listener (be_ip_version E) (be_adapter E) (be_sdk E) (be_ssl E) svc lb li (snd st) of
           (Inl e, li', bs) \<Rightarrow> (Inl e, li', (fst st, bs))
         | (Inr (Some _), li', bs) \<Rightarrow> (Inr (), set_li_status ERROR li', (True, bs))
         | (Inr None, li', bs) \<Rightarrow>
             (case li_admin_state_up li' of
                None \<Rightarrow> (Inl KeyError, li', (fst st, bs))
              | Some up \<Rightarrow>
                  (Inr (), if up then li'\<lparr>li_operating_status := Some ONLINE\<rparr> else li', (fst st, bs))))
      else (Inr (), li, st))"

definition assure_listeners_created :: "'x benv \<Rightarrow> 'x phase" where
  "assure_listeners_created E s =
     (case sv_listeners (bs_service s) of
        None \<Rightarrow> (Inr (), s)
      | Some lis \<Rightarrow>
          (case sv_loadbalancer (bs_service s) of
             None \<Rightarrow> (Inl KeyError, s)
           | Some lb \<Rightarrow>
               (case inplace (assure_listener_created E (bs_service s) lb) lis (False, bs_bigips s) of
                  (r, lis', (err, bs)) \<Rightarrow>
                    (r, mod_service (\<lambda>svc. (if err then lb_error svc else svc)\<lparr>sv_listeners := Some lis'\<rparr>)
                          (s\<lparr>bs_bigips := bs\<rparr>)))))"

definition assure_listener_deleted ::
  "'x benv \<Rightarrow> loadbalancer \<Rightarrow> listener \<Rightarrow> 'x bigip list \<Rightarrow> (exn + unit) \<times> listener \<times> 'x bigip list" where
  "assure_listener_deleted E lb li bs =
     (if li_status li = PENDING_DELETE then
        (case delete_listener (be_adapter E) (be_sdk E) lb li bs of
           (Inl e, bs') \<Rightarrow> (Inl e, li, bs')
         | (Inr None, bs') \<Rightarrow> (Inr (), li, bs')
         | (Inr (Some _), bs') \<Rightarrow> (Inr (), set_li_status ERROR li, bs'))
      else (Inr (), li, bs))"

definition assure_listeners_deleted :: "'x benv \<Rightarrow> 'x phase" where
  "assure_listeners_deleted E s =
     (case sv_listeners (bs_service s) of
        None \<Rightarrow> (Inr (), s)
      | Some lis \<Rightarrow>
          (case sv_loadbalancer (bs_service s) of
             None \<Rightarrow> (Inl KeyError, s)
           | Some lb \<Rightarrow>
               (case inplace (assure_listener_deleted E lb) lis (bs_bigips s) of
                  (r, lis', bs) \<Rightarrow>
                    (r, mod_service (\<lambda>svc. svc\<lparr>sv_listeners := Some lis'\<rparr>) (s\<lparr>bs_bigips := bs\<rparr>)))))"

section \<open>Pools\<close>

text \<open>\<open>get_pool_by_id\<close> and \<open>_get_pool_members\<close>; a member without \<open>pool_id\<close> is a \<open>KeyError\<close>.\<close>

definition get_pool_by_id :: "service \<Rightarrow> string option \<Rightarrow> pool option" where
  "get_pool_by_id svc pool_id =
     (case pool_id of
        None \<Rightarrow> None
      | Some i \<Rightarrow> if i = '''' then None else get_obj po_id (get_all (sv_pools svc)) i)"

fun get_pool_members :: "member list \<Rightarrow> string \<Rightarrow> exn + member list" where
  "get_pool_members [] pool_id = Inr []"
| "get_pool_members (m # ms) pool_id =
     (case me_pool_id m of
        None \<Rightarrow> Inl KeyError
      | Some i \<Rightarrow>
          bindE (get_pool_members ms pool_id) (\<lambda>rest. Inr (if i = pool_id then m # rest else rest)))"

definition assure_pool_created ::
  "'x benv \<Rightarrow> service \<Rightarrow> pool \<Rightarrow> bool \<times> 'x bigip list \<Rightarrow> (exn + unit) \<times> pool \<times> (bool \<times> 'x bigip list)" where
  "assure_pool_created E svc p st =
     (if po_status p \<in> set (be_const_status E) then
        (case get_pool_members (get_all (sv_members svc)) (po_id p) of
           Inl e \<Rightarrow> (Inl e, p, st)
         | Inr ms \<Rightarrow>
             (case sv_loadbalancer svc of
                None \<Rightarrow> (Inl KeyError, p, st)
              | Some lb \<Rightarrow>
                  (case create_pool (be_adapter E) (be_sdk E) lb p ms
                          (filter (\<lambda>h. hm_status h \<noteq> PENDING_DELETE) (get_all (sv_healthmonitors svc))) (snd st) of
                     (Inl e, p', bs) \<Rightarrow> (Inl e, p', (fst st, bs))
                   | (Inr (Some _), p', bs) \<Rightarrow> (Inr (), set_po_status ERROR p', (True, bs))
                   | (Inr None, p', bs) \<Rightarrow>
                       (Inr (), if po_admin_state_up p' then p'\<lparr>po_operating_status := Some ONLINE\<rparr> else p',
                        (fst st, bs)))))
      else (Inr (), p, st))"

definition assure_pools_created :: "'x benv \<Rightarrow> 'x phase" where
  "assure_pools_created E s =
     (case sv_pools (bs_service s) of
        None \<Rightarrow> (Inr (), s)
      | Some ps \<Rightarrow>
          (case inplace (assure_pool_created E (bs_service s)) ps (False, bs_bigips s) of
             (r, ps', (err, bs)) \<Rightarrow>
               (r, mod_service (\<lambda>svc. (if err then lb_error svc else svc)\<lparr>sv_pools := Some ps'\<rparr>)
                     (s\<lparr>bs_bigips := bs\<rparr>))))"

definition assure_pool_deleted ::
  "'x benv \<Rightarrow> service \<Rightarrow> loadbalancer \<Rightarrow> pool \<Rightarrow> 'x bigip list \<Rightarrow> (exn + unit) \<times> pool \<times> 'x bigip list" where
  "assure_pool_deleted E svc lb p bs =
     (if po_status p = PENDING_DELETE then
        (case delete_pool (be_adapter E) (be_sdk E) lb p
                (filter (\<lambda>m. me_pool_id m = Some (po_id p)) (get_all (sv_members svc))) bs of
           (Inl e, p', bs') \<Rightarrow> (Inl e, p', bs')
         | (Inr None, p', bs') \<Rightarrow> (Inr (), p', bs')
         | (Inr (Some _), p', bs') \<Rightarrow> (Inr (), set_po_status ERROR p', bs'))
      else (Inr (), p, bs))"

definition assure_pools_deleted :: "'x benv \<Rightarrow> 'x phase" where
  "assure_pools_deleted E s =
     (case sv_pools (bs_service s) of
        None \<Rightarrow> (Inr (), s)
      | Some ps \<Rightarrow>
          (case sv_loadbalancer (bs_service s) of
             None \<Rightarrow> (Inl KeyError, s)
           | Some lb \<Rightarrow>
               (case inplace (assure_pool_deleted E (bs_service s) lb) ps (bs_bigips s) of
                  (r, ps', bs) \<Rightarrow>
                    (r, mod_service (\<lambda>svc. svc\<lparr>sv_pools := Some ps'\<rparr>) (s\<lparr>bs_bigips := bs\<rparr>)))))"

section \<open>Health monitors\<close>

definition assure_monitor_created ::
  "'x benv \<Rightarrow> service \<Rightarrow> healthmonitor \<Rightarrow> 'x bigip list \<Rightarrow> (exn + unit) \<times> healthmonitor \<times> 'x bigip list" where
  "assure_monitor_created E svc hm bs =
     (if hm_status hm \<in> set (be_const_status E) then
        (case sv_loadbalancer svc of
           None \<Rightarrow> (Inl KeyError, hm, bs)
         | Some lb \<Rightarrow>
             (case create_healthmonitor (be_adapter E) (be_sdk E) lb hm bs of
                (Inl e, bs') \<Rightarrow> (Inl e, hm, bs')
              | (Inr None, bs') \<Rightarrow> (Inr (), hm, bs')
              | (Inr (Some _), bs') \<Rightarrow> (Inr (), set_hm_status ERROR hm, bs')))
      else (Inr (), hm, bs))"

definition assure_monitor_deleted ::
  "'x benv \<Rightarrow> loadbalancer \<Rightarrow> healthmonitor \<Rightarrow> 'x bigip list \<Rightarrow> (exn + unit) \<times> healthmonitor \<times> 'x bigip list" where
  "assure_monitor_deleted E lb hm bs =
     (if hm_status hm = PENDING_DELETE then
        (case delete_healthmonitor (be_adapter E) (be_sdk E) lb hm bs of
           (Inl e, bs') \<Rightarrow> (Inl e, hm, bs')
         | (Inr None, bs') \<Rightarrow> (Inr (), hm, bs')
         | (Inr (Some _), bs') \<Rightarrow> (Inr (), set_hm_status ERROR hm, bs'))
      else (Inr (), hm, bs))"

definition set_monitors :: "healthmonitor list \<Rightarrow> service \<Rightarrow> service" where
  "set_monitors hms svc = svc\<lparr>sv_healthmonitors := map_option (\<lambda>_. hms) (sv_healthmonitors svc)\<rparr>"

definition assure_monitors_created :: "'x benv \<Rightarrow> 'x phase" where
  "assure_monitors_created E s =
     (case inplace (assure_monitor_created E (bs_service s)) (get_all (sv_healthmonitors (bs_service s))) (bs_bigips s) of
        (r, hms, bs) \<Rightarrow> (r, mod_service (set_monitors hms) (s\<lparr>bs_bigips := bs\<rparr>)))"

definition assure_monitors_deleted :: "'x benv \<Rightarrow> 'x phase" where
  "assure_monitors_deleted E s =
     (case sv_loadbalancer (bs_service s) of
        None \<Rightarrow> (Inl KeyError, s)
      | Some lb \<Rightarrow>
          (case inplace (assure_monitor_deleted E lb) (get_all (sv_healthmonitors (bs_service s))) (bs_bigips s) of
             (r, hms, bs) \<Rightarrow> (r, mod_service (set_monitors hms) (s\<lparr>bs_bigips := bs\<rparr>))))"

section \<open>Members\<close>

text \<open>The members grouped by pool: those of a configured status whose pool id is not empty.\<close>

definition member_grouped :: "'x benv \<Rightarrow> string \<Rightarrow> member \<Rightarrow> bool" where
  "member_grouped E i m \<longleftrightarrow>
     (case me_status m of None \<Rightarrow> False | Some st \<Rightarrow> st \<in> set (be_const_status E) \<or> st = ACTIVE) \<and>
     me_pool_id m = Some i \<and> i \<noteq> ''''"

definition grouped_pools :: "'x benv \<Rightarrow> member list \<Rightarrow> string list" where
  "grouped_pools E ms =
     rev (remdups (rev (concat (map (\<lambda>m. case me_pool_id m of
       None \<Rightarrow> [] | Some i \<Rightarrow> if member_grouped E i m then [i] else []) ms))))"

text \<open>Writing the changed members of a group back to the list they were taken from.\<close>

fun replace_where :: "('a \<Rightarrow> bool) \<Rightarrow> 'a list \<Rightarrow> 'a list \<Rightarrow> 'a list" where
  "replace_where P [] ns = []"
| "replace_where P (x # xs) ns =
     (if P x then (case ns of [] \<Rightarrow> x # replace_where P xs [] | n # ns' \<Rightarrow> n # replace_where P xs ns')
      else x # replace_where P xs ns)"

definition settle_member :: "bool \<Rightarrow> member \<Rightarrow> member" where
  "settle_member pool_deleted m =
     (let m1 = (if pool_deleted then m\<lparr>me_status := Some PENDING_DELETE, me_parent_pool_deleted := True\<rparr> else m)
      in if me_missing m1 then m1\<lparr>me_status := Some ERROR\<rparr> else m1)"

definition settle_members ::
  "string list \<Rightarrow> bool \<Rightarrow> member \<Rightarrow> all_hints \<Rightarrow> (exn + unit) \<times> member \<times> all_hints" where
  "settle_members names pool_deleted m hs =
     (let m' = settle_member pool_deleted m in
      case me_status m' of
        None \<Rightarrow> (Inl KeyError, m', hs)
      | Some st \<Rightarrow>
          (case me_network_id m' of
             None \<Rightarrow> (Inl KeyError, m', hs)
           | Some n \<Rightarrow> (case update_all_hints names st (me_subnet_id m') n True hs of (r, hs') \<Rightarrow> (r, m', hs'))))"

definition put_members :: "'x benv \<Rightarrow> string \<Rightarrow> member list \<Rightarrow> service \<Rightarrow> service" where
  "put_members E i ms svc =
     svc\<lparr>sv_members := map_option (\<lambda>all. replace_where (member_grouped E i) all ms) (sv_members svc)\<rparr>"

definition assure_pool_group :: "'x benv \<Rightarrow> loadbalancer \<Rightarrow> string \<Rightarrow> 'x phase" where
  "assure_pool_group E lb i s =
     (let svc = bs_service s; ms = filter (member_grouped E i) (get_all (sv_members svc)) in
      case get_pool_by_id svc (Some i) of
        None \<Rightarrow> (Inl AttributeError, s)
      | Some p \<Rightarrow>
          (case assure_pool_members (be_adapter E) (be_sdk E) lb p ms (bs_bigips s) of
             (r, p', ms', bs) \<Rightarrow>
               (let s1 = mod_service (\<lambda>svc. svc\<lparr>sv_pools := map_option (upd_obj po_id i (\<lambda>_. p')) (sv_pools svc)\<rparr>)
                           (s\<lparr>bs_bigips := bs\<rparr>) in
                case r of
                  Inl e \<Rightarrow> (Inl e, mod_service (put_members E i ms') s1)
                | Inr _ \<Rightarrow>
                    (case inplace (settle_members (map b_device_name bs) (po_status p' = PENDING_DELETE)) ms' (bs_hints s1) of
                       (r', ms'', hs) \<Rightarrow> (r', mod_service (put_members E i ms'') (s1\<lparr>bs_hints := hs\<rparr>))))))"

fun run_phases :: "('x bstate \<Rightarrow> (exn + unit) \<times> 'x bstate) list \<Rightarrow> 'x phase" where
  "run_phases [] s = (Inr (), s)"
| "run_phases (p # ps) s =
     (case p s of (Inl e, s') \<Rightarrow> (Inl e, s') | (Inr _, s') \<Rightarrow> run_phases ps s')"

definition assure_members :: "'x benv \<Rightarrow> 'x phase" where
  "assure_members E s =
     (case (sv_pools (bs_service s), sv_members (bs_service s)) of
        (Some _, Some ms) \<Rightarrow>
          (case sv_loadbalancer (bs_service s) of
             None \<Rightarrow> (Inl KeyError, s)
           | Some lb \<Rightarrow>
               if \<exists>m \<in> set ms. me_status m = None then (Inl KeyError, s)
               else run_phases (map (assure_pool_group E lb) (grouped_pools E ms)) s)
      | _ \<Rightarrow> (Inr (), s))"

section \<open>L7 policies\<close>

text \<open>\<open>listener_policy_map\<close>: the first policy of a listener that is no ESD builds the entry.\<close>

fun listener_policy_map ::
  "adapter \<Rightarrow> service \<Rightarrow> l7policy list \<Rightarrow> (string \<times> os_policies) list \<Rightarrow> exn + (string \<times> os_policies) list" where
  "listener_policy_map A svc [] acc = Inr acc"
| "listener_policy_map A svc (p # ps) acc =
     bindE (adapter_is_esd A (l7p_name p)) (\<lambda>esd.
       if esd then listener_policy_map A svc ps acc
       else (case l7p_listener_id p of
               None \<Rightarrow> listener_policy_map A svc ps acc
             | Some lid \<Rightarrow>
                 if lid = '''' \<or> map_of acc lid \<noteq> None then listener_policy_map A svc ps acc
                 else bindE (build_policy A p svc) (\<lambda>os. listener_policy_map A svc ps (acc @ [(lid, os)]))))"

definition os_rules :: "os_policies \<Rightarrow> f5_rule list" where
  "os_rules os = (case os_f5_policy os of None \<Rightarrow> [] | Some fp \<Rightarrow> fp_rules fp)"

definition set_l7policies :: "(l7policy \<Rightarrow> l7policy) \<Rightarrow> service \<Rightarrow> service" where
  "set_l7policies f svc = svc\<lparr>sv_l7policies := map_option (map f) (sv_l7policies svc)\<rparr>"

definition create_l7_entry ::
  "'x benv \<Rightarrow> os_policies \<Rightarrow> 'x bigip list \<Rightarrow> (exn + f5exn option) \<times> 'x bigip list" where
  "create_l7_entry E os bs =
     (case os_f5_policy os of
        None \<Rightarrow> (Inr None, bs)
      | Some fp \<Rightarrow> if fp_rules fp = [] then (Inr None, bs) else create_l7policy (be_sdk E) fp bs)"

definition assure_l7_listener :: "'x benv \<Rightarrow> string \<times> os_policies \<Rightarrow> 'x phase" where
  "assure_l7_listener E entry s =
     (case create_l7_entry E (snd entry) (bs_bigips s) of
        (Inl e, bs) \<Rightarrow> (Inl e, s\<lparr>bs_bigips := bs\<rparr>)
      | (Inr (Some _), bs) \<Rightarrow>
          (Inr (), mod_service (\<lambda>svc. lb_error (set_l7policies (set_l7p_status ERROR) svc)) (s\<lparr>bs_bigips := bs\<rparr>))
      | (Inr None, bs) \<Rightarrow>
          (Inr (), mod_service (\<lambda>svc. svc\<lparr>sv_listeners :=
             map_option (upd_obj li_id (fst entry) (\<lambda>li. li\<lparr>li_f5_policy := os_f5_policy (snd entry)\<rparr>))
               (sv_listeners svc)\<rparr>) (s\<lparr>bs_bigips := bs\<rparr>)))"

definition assure_l7policies_created :: "'x benv \<Rightarrow> 'x phase" where
  "assure_l7policies_created E s =
     (case sv_l7policies (bs_service s) of
        None \<Rightarrow> (Inr (), s)
      | Some ps \<Rightarrow>
          (case listener_policy_map (be_adapter E) (bs_service s) ps [] of
             Inl e \<Rightarrow> (Inl e, s)
           | Inr entries \<Rightarrow> run_phases (map (assure_l7_listener E) entries) s))"

text \<open>A policy without rules is deleted; \<open>{}['name']\<close> counts as a failed deletion on each device.\<close>

definition delete_l7_listener :: "'x benv \<Rightarrow> string \<times> os_policies \<Rightarrow> 'x phase" where
  "delete_l7_listener E entry s =
     (let os = snd entry;
          (err, bs) = (if os_rules os = []
                       then (case os_f5_policy os of
                               None \<Rightarrow> (if bs_bigips s = [] then None else Some L7PolicyDeleteException, bs_bigips s)
                             | Some fp \<Rightarrow> delete_l7policy (be_sdk E) (fp_name fp) (fp_partition fp) (bs_bigips s))
                       else (None, bs_bigips s))
      in (Inr (), mod_service (set_l7policies (\<lambda>p.
            if err \<noteq> None \<and> l7p_id p \<in> l7p_id ` set (os_l7policies os) then set_l7p_status ERROR p else p))
            (s\<lparr>bs_bigips := bs\<rparr>)))"

definition assure_l7policies_deleted :: "'x benv \<Rightarrow> 'x phase" where
  "assure_l7policies_deleted E s =
     (case sv_l7policies (bs_service s) of
        None \<Rightarrow> (Inr (), s)
      | Some ps \<Rightarrow>
          (case listener_policy_map (be_adapter E) (bs_service s) ps [] of
             Inl e \<Rightarrow> (Inl e, s)
           | Inr entries \<Rightarrow>
               (let tenant = (case sv_loadbalancer (bs_service s) of None \<Rightarrow> Some '''' | Some lb \<Rightarrow> lb_tenant_id lb);
                    (err, bs) = delete_l7policy (be_sdk E) ''wrapper_policy''
                                  (get_folder_name (be_adapter E) tenant) (bs_bigips s)
                in run_phases (map (delete_l7_listener E) entries) (s\<lparr>bs_bigips := bs\<rparr>))))"

section \<open>The whole service\<close>

text \<open>\<open>assure_service\<close>: the phases in the order of the code; creations before deletions.\<close>

definition assure_service :: "'x benv \<Rightarrow> 'x phase" where
  "assure_service E = run_phases
     [assure_loadbalancer_created E, assure_monitors_created E, assure_pools_created E,
      assure_members E, assure_l7policies_created E, assure_listeners_created E,
      assure_listeners_deleted E, assure_l7policies_deleted E, assure_pools_deleted E,
      assure_monitors_deleted E, assure_loadbalancer_deleted E]"

section \<open>Operating status and statistics\<close>

definition text_of :: "(string \<times> stat_value) list \<Rightarrow> string \<Rightarrow> string" where
  "text_of status k = (case map_of status k of Some (StatText t) \<Rightarrow> t | _ \<Rightarrow> '''')"

definition convert_operating_status :: "(string \<times> stat_value) list \<Rightarrow> ostatus option" where
  "convert_operating_status status =
     (let available = text_of status ''status.availabilityState'' in
      if available = ''available'' then
        (let enabled = text_of status ''status.enabledState'' in
         if enabled = ''enabled'' then Some ONLINE
         else if enabled = ''disabled'' then Some DISABLED
         else None)
      else if available = ''offline'' then Some OFFLINE
      else if available = ''unknown'' then Some NO_MONITOR
      else None)"

definition status_keys :: "string list" where
  "status_keys = [''status.availabilityState'', ''status.enabledState'']"

definition update_member_status ::
  "'x benv \<Rightarrow> service \<Rightarrow> loadbalancer \<Rightarrow> member \<Rightarrow> 'x bigip \<Rightarrow> (exn + unit) \<times> member \<times> 'x bigip" where
  "update_member_status E svc lb m b =
     (case me_status m of
        None \<Rightarrow> (Inl KeyError, m, b)
      | Some st \<Rightarrow>
          if st \<noteq> ACTIVE then (Inr (), m, b)
          else (case me_pool_id m of
                  None \<Rightarrow> (Inl KeyError, m, b)
                | Some i \<Rightarrow>
                    (case get_pool_by_id svc (Some i) of
                       None \<Rightarrow> (Inl AttributeError, m, b)
                     | Some p \<Rightarrow>
                         (case get_member_status (be_adapter E) (be_sdk E) lb p [] m status_keys b of
                            (Inl e, b') \<Rightarrow> (Inl e, m, b')
                          | (Inr status, b') \<Rightarrow>
                              (Inr (), m\<lparr>me_operating_status := convert_operating_status status\<rparr>, b')))))"

text \<open>\<open>update_operating_status\<close> on the active device.\<close>

definition update_operating_status ::
  "'x benv \<Rightarrow> service \<Rightarrow> 'x bigip \<Rightarrow> (exn + unit) \<times> service \<times> 'x bigip" where
  "update_operating_status E svc b =
     (case sv_loadbalancer svc of
        None \<Rightarrow> (Inl KeyError, svc, b)
      | Some lb \<Rightarrow>
          (case sv_members svc of
             None \<Rightarrow> (Inl KeyError, svc, b)
           | Some ms \<Rightarrow>
               (case inplace (update_member_status E svc lb) ms b of
                  (r, ms', b') \<Rightarrow> (r, svc\<lparr>sv_members := Some ms'\<rparr>, b'))))"

fun sum_stats :: "(string \<times> int) list \<Rightarrow> (string \<times> int) list \<Rightarrow> exn + (string \<times> int) list" where
  "sum_stats [] vs = Inr []"
| "sum_stats ((k, i) # rest) vs =
     bindE (subE (map_of vs k)) (\<lambda>j. bindE (sum_stats rest vs) (\<lambda>r. Inr ((k, i + j) # r)))"

fun collect_listener_stats ::
  "'x benv \<Rightarrow> loadbalancer \<Rightarrow> string list \<Rightarrow> listener list \<Rightarrow> (string \<times> int) list \<Rightarrow> ('x bigip list, (string \<times> int) list) py" where
  "collect_listener_stats E lb stats [] acc = retM acc"
| "collect_listener_stats E lb stats (li # lis) acc =
     bindM (ListenerService.get_listener_stats (be_ip_version E) (be_adapter E) (be_sdk E)
              \<lparr>sv_loadbalancer = Some lb, sv_listeners = None, sv_pools = None, sv_members = None,
               sv_healthmonitors = None, sv_l7policies = None, sv_l7policy_rules = None,
               sv_networks = None, sv_subnets = None\<rparr> lb li stats) (\<lambda>vs.
     bindM (liftM (sum_stats acc vs)) (collect_listener_stats E lb stats lis))"

definition get_service_stats :: "'x benv \<Rightarrow> service \<Rightarrow> string list \<Rightarrow> ('x bigip list, (string \<times> int) list) py" where
  "get_service_stats E svc stats =
     bindM (liftM (subE (sv_listeners svc))) (\<lambda>lis.
     bindM (liftM (subE (sv_loadbalancer svc))) (\<lambda>lb.
       collect_listener_stats E lb stats lis (map (\<lambda>k. (k, 0)) (remdups stats))))"

end
