(* ===== verification/BuilderFrame.thy ===== *)
theory BuilderFrame
  imports Builder
begin

text \<open>
  What every phase of the builder keeps. \<open>svc_frame\<close>: no object of the service disappears or changes
  its id, and a provisioning status changes to \<open>ERROR\<close> or not at all (members aside, whose status
  follows their pool's). \<open>hints_inv\<close>: the subnet hints of each device keep their invariant. A phase
  with both is \<open>phase_ok\<close>; the composition of such phases is one, so \<open>assure_service\<close> is one.
\<close>

section \<open>The frame\<close>

definition status_step :: "pstatus \<Rightarrow> pstatus \<Rightarrow> bool" where
  "status_step a b \<longleftrightarrow> b = a \<or> b = ERROR"

definition same_objs :: "('o \<Rightarrow> string) \<Rightarrow> ('o \<Rightarrow> pstatus) \<Rightarrow> 'o list option \<Rightarrow> 'o list option \<Rightarrow> bool" where
  "same_objs oid st = rel_option (list_all2 (\<lambda>a b. oid b = oid a \<and> status_step (st a) (st b)))"

definition svc_frame :: "service \<Rightarrow> service \<Rightarrow> bool" where
  "svc_frame a b \<longleftrightarrow>
     rel_option (\<lambda>x y. lb_id y = lb_id x \<and> status_step (lb_status x) (lb_status y))
       (sv_loadbalancer a) (sv_loadbalancer b) \<and>
     same_objs li_id li_status (sv_listeners a) (sv_listeners b) \<and>
     same_objs po_id po_status (sv_pools a) (sv_pools b) \<and>
     same_objs hm_id hm_status (sv_healthmonitors a) (sv_healthmonitors b) \<and>
     same_objs l7p_id l7p_status (sv_l7policies a) (sv_l7policies b) \<and>
     rel_option (list_all2 (\<lambda>x y. me_id y = me_id x)) (sv_members a) (sv_members b)"

definition hints_inv :: "all_hints \<Rightarrow> bool" where
  "hints_inv hs \<longleftrightarrow> (\<forall>h \<in> ran (map_of hs). subnet_hints_ok h)"

definition phase_ok :: "('x bstate \<Rightarrow> (exn + unit) \<times> 'x bstate) \<Rightarrow> bool" where
  "phase_ok ph \<longleftrightarrow>
     (\<forall>s r s'. ph s = (r, s') \<longrightarrow>
        svc_frame (bs_service s) (bs_service s') \<and> (hints_inv (bs_hints s) \<longrightarrow> hints_inv (bs_hints s')))"

lemma phase_okI:
  "(\<And>s r s'. ph s = (r, s') \<Longrightarrow> svc_frame (bs_service s) (bs_service s') \<and>
     (hints_inv (bs_hints s) \<longrightarrow> hints_inv (bs_hints s'))) \<Longrightarrow> phase_ok ph"
  by (auto simp: phase_ok_def)

lemma status_step_refl [simp]: "status_step a a"
  by (simp add: status_step_def)

lemma status_step_error [simp]: "status_step a ERROR"
  by (simp add: status_step_def)

lemma status_step_trans: "status_step a b \<Longrightarrow> status_step b c \<Longrightarrow> status_step a c"
  by (auto simp: status_step_def)

lemma same_objs_Some [simp]:
  "same_objs oid st (Some xs) (Some ys) = list_all2 (\<lambda>a b. oid b = oid a \<and> status_step (st a) (st b)) xs ys"
  by (simp add: same_objs_def)

lemma same_objs_refl [simp]: "same_objs oid st xs xs"
  unfolding same_objs_def by (rule option.rel_refl, rule list.rel_refl) simp

lemma rel_option_trans:
  "(\<And>x y z. R x y \<Longrightarrow> R y z \<Longrightarrow> R x z) \<Longrightarrow> rel_option R a b \<Longrightarrow> rel_option R b c \<Longrightarrow> rel_option R a c"
  by (cases a; cases b; cases c) auto

lemma same_objs_trans:
  assumes "same_objs oid st a b" and "same_objs oid st b c"
  shows "same_objs oid st a c"
proof -
  let ?R = "list_all2 (\<lambda>a b. oid b = oid a \<and> status_step (st a) (st b))"
  have "?R x z" if "?R x y" "?R y z" for x y z
    by (rule list_all2_trans [OF _ that]) (auto intro: status_step_trans)
  then show ?thesis
    using assms unfolding same_objs_def by (rule rel_option_trans)
qed

lemma svc_frame_refl [simp]: "svc_frame a a"
  by (auto simp: svc_frame_def intro: option.rel_refl list_all2_refl)

lemma svc_frame_trans:
  assumes "svc_frame a b" and "svc_frame b c"
  shows "svc_frame a c"
proof -
  have "rel_option (\<lambda>x y. lb_id y = lb_id x \<and> status_step (lb_status x) (lb_status y))
       (sv_loadbalancer a) (sv_loadbalancer c)"
    using assms unfolding svc_frame_def
    by (elim conjE) (rule rel_option_trans, auto intro: status_step_trans)
  moreover have "rel_option (list_all2 (\<lambda>x y. me_id y = me_id x)) (sv_members a) (sv_members c)"
    using assms unfolding svc_frame_def
    by (elim conjE) (rule rel_option_trans, auto elim: list_all2_trans [rotated])
  ultimately show ?thesis
    using assms unfolding svc_frame_def by (blast intro: same_objs_trans)
qed

lemma phase_ok_run: "(\<And>ph. ph \<in> set phs \<Longrightarrow> phase_ok ph) \<Longrightarrow> phase_ok (run_phases phs)"
proof (induction phs)
  case Nil
  then show ?case by (auto simp: phase_ok_def)
next
  case (Cons ph phs)
  have 1: "phase_ok ph" and 2: "phase_ok (run_phases phs)" using Cons by auto
  show ?case
  proof (rule phase_okI)
    fix s r s'
    assume run: "run_phases (ph # phs) s = (r, s')"
    obtain r1 s1 where p: "ph s = (r1, s1)" by (cases "ph s") auto
    with 1 have f1: "svc_frame (bs_service s) (bs_service s1)" "hints_inv (bs_hints s) \<longrightarrow> hints_inv (bs_hints s1)"
      unfolding phase_ok_def by blast+
    show "svc_frame (bs_service s) (bs_service s') \<and> (hints_inv (bs_hints s) \<longrightarrow> hints_inv (bs_hints s'))"
    proof (cases r1)
      case (Inl e)
      with run p f1 show ?thesis by simp
    next
      case (Inr u)
      with run p have "run_phases phs s1 = (r, s')" by simp
      with 2 have "svc_frame (bs_service s1) (bs_service s')" "hints_inv (bs_hints s1) \<longrightarrow> hints_inv (bs_hints s')"
        unfolding phase_ok_def by blast+
      with f1 show ?thesis by (blast intro: svc_frame_trans)
    qed
  qed
qed

section \<open>The loops\<close>

text \<open>A loop whose step only touches the status of its object, as an update of one service field.\<close>

lemma inplace_same_objs:
  assumes "inplace step xs s = (r, xs', s')"
    and "\<And>x s r x' s'. step x s = (r, x', s') \<Longrightarrow> oid x' = oid x \<and> status_step (st x) (st x')"
  shows "same_objs oid st (Some xs) (Some xs')"
proof -
  have "list_all2 (\<lambda>a b. oid b = oid a \<and> status_step (st a) (st b)) xs xs' \<and> True"
    by (rule inplace_rel [OF assms(1), where Q = "\<lambda>_ _. True"]) (auto dest: assms(2))
  then show ?thesis by (simp add: same_objs_def)
qed

lemma lb_error_fields [simp]:
  "sv_listeners (lb_error svc) = sv_listeners svc" "sv_pools (lb_error svc) = sv_pools svc"
  "sv_members (lb_error svc) = sv_members svc" "sv_healthmonitors (lb_error svc) = sv_healthmonitors svc"
  "sv_l7policies (lb_error svc) = sv_l7policies svc"
  by (simp_all add: lb_error_def)

lemma svc_frame_parts:
  assumes "sv_loadbalancer b = sv_loadbalancer a \<or> sv_loadbalancer b = map_option (set_lb_status ERROR) (sv_loadbalancer a)"
    and "same_objs li_id li_status (sv_listeners a) (sv_listeners b)"
    and "same_objs po_id po_status (sv_pools a) (sv_pools b)"
    and "same_objs hm_id hm_status (sv_healthmonitors a) (sv_healthmonitors b)"
    and "same_objs l7p_id l7p_status (sv_l7policies a) (sv_l7policies b)"
    and "rel_option (list_all2 (\<lambda>x y. me_id y = me_id x)) (sv_members a) (sv_members b)"
  shows "svc_frame a b"
proof -
  have "rel_option (\<lambda>x y. lb_id y = lb_id x \<and> status_step (lb_status x) (lb_status y))
       (sv_loadbalancer a) (sv_loadbalancer b)"
    using assms(1) by (cases "sv_loadbalancer a") (auto simp: svc_simps)
  with assms show ?thesis by (simp add: svc_frame_def)
qed

lemma members_refl [simp]: "rel_option (list_all2 (\<lambda>x y. me_id y = me_id x)) ms ms"
  by (intro option.rel_refl list_all2_refl) simp

lemma svc_frame_lb_error [simp]: "svc_frame svc (lb_error svc)"
  by (rule svc_frame_parts) (auto simp: lb_error_def)

lemma update_subnet_hints_ok: "phase_ok (update_subnet_hints st sn n m)"
proof (rule phase_okI)
  fix s r s'
  assume run: "update_subnet_hints st sn n m s = (r, s')"
  obtain hs where u: "update_all_hints (map b_device_name (bs_bigips s)) st sn n m (bs_hints s) = (r, hs)"
    and s': "s' = s\<lparr>bs_hints := hs\<rparr>"
    using run by (auto simp: update_subnet_hints_def split: prod.splits)
  from update_all_hints_invariant [OF u] s'
  show "svc_frame (bs_service s) (bs_service s') \<and> (hints_inv (bs_hints s) \<longrightarrow> hints_inv (bs_hints s'))"
    by (auto simp: hints_inv_def)
qed

section \<open>The phases\<close>

lemma mod_service_fields [simp]:
  "bs_service (mod_service f s) = f (bs_service s)" "bs_hints (mod_service f s) = bs_hints s"
  by (simp_all add: mod_service_def)

lemma assure_lb_address_frame:
  "svc_frame (bs_service s) (bs_service (assure_lb_address E lb s)) \<and> bs_hints (assure_lb_address E lb s) = bs_hints s"
  by (auto simp: assure_lb_address_def split: prod.splits)

lemma loadbalancer_created_ok: "phase_ok (assure_loadbalancer_created E)"
proof (rule phase_okI)
  fix s r s'
  assume run: "assure_loadbalancer_created E s = (r, s')"
  show "svc_frame (bs_service s) (bs_service s') \<and> (hints_inv (bs_hints s) \<longrightarrow> hints_inv (bs_hints s'))"
  proof (cases "sv_loadbalancer (bs_service s)")
    case None
    with run show ?thesis by (simp add: assure_loadbalancer_created_def)
  next
    case (Some lb0)
    let ?s1 = "assure_lb_address E lb0 s"
    have "s' = ?s1 \<or> (\<exists>st sn n. update_subnet_hints st sn n False ?s1 = (r, s'))"
      using run Some by (auto simp: assure_loadbalancer_created_def Let_def split: option.splits sum.splits)
    then show ?thesis
    proof
      assume "s' = ?s1"
      with assure_lb_address_frame [of s E lb0] show ?thesis by simp
    next
      assume "\<exists>st sn n. update_subnet_hints st sn n False ?s1 = (r, s')"
      then have "svc_frame (bs_service ?s1) (bs_service s') \<and> (hints_inv (bs_hints ?s1) \<longrightarrow> hints_inv (bs_hints s'))"
        using update_subnet_hints_ok unfolding phase_ok_def by blast
      with assure_lb_address_frame [of s E lb0] show ?thesis by (auto intro: svc_frame_trans)
    qed
  qed
qed

lemma loadbalancer_deleted_ok: "phase_ok (assure_loadbalancer_deleted E)"
  by (rule phase_okI)
    (auto simp: assure_loadbalancer_deleted_def split: option.splits sum.splits prod.splits if_splits)

lemma create_listener_listener:
  "create_listener ipv A S E svc lb li bs = (r, li', bs') \<Longrightarrow> \<exists>po. li' = virtual_listener A lb po li"
  by (auto simp: create_listener_def get_virtual_def Let_def bindE_eq_Inr split: sum.splits prod.splits)

lemma assure_listener_created_status:
  assumes "assure_listener_created E svc lb li st = (r, li', st')"
  shows "li_id li' = li_id li \<and> status_step (li_status li) (li_status li')"
  using assms
  by (auto simp: assure_listener_created_def set_li_status_def virtual_listener_def
      dest!: create_listener_listener split: if_splits prod.splits sum.splits option.splits)

lemma listeners_created_ok: "phase_ok (assure_listeners_created E)"
proof (rule phase_okI)
  fix s r s'
  assume run: "assure_listeners_created E s = (r, s')"
  show "svc_frame (bs_service s) (bs_service s') \<and> (hints_inv (bs_hints s) \<longrightarrow> hints_inv (bs_hints s'))"
  proof (cases "sv_listeners (bs_service s) = None \<or> sv_loadbalancer (bs_service s) = None")
    case True
    with run show ?thesis by (auto simp: assure_listeners_created_def split: option.splits)
  next
    case False
    then obtain lis lb where l: "sv_listeners (bs_service s) = Some lis" "sv_loadbalancer (bs_service s) = Some lb"
      by auto
    obtain lis' err bs where ip: "inplace (assure_listener_created E (bs_service s) lb) lis (False, bs_bigips s)
        = (r, lis', (err, bs))"
      and s': "s' = mod_service (\<lambda>svc. (if err then lb_error svc else svc)\<lparr>sv_listeners := Some lis'\<rparr>) (s\<lparr>bs_bigips := bs\<rparr>)"
      using run l by (auto simp: assure_listeners_created_def split: prod.splits)
    have "same_objs li_id li_status (Some lis) (Some lis')"
      by (rule inplace_same_objs [OF ip]) (rule assure_listener_created_status)
    with l s' show ?thesis by (auto intro!: svc_frame_parts simp: lb_error_def)
  qed
qed

lemma listeners_deleted_ok: "phase_ok (assure_listeners_deleted E)"
proof (rule phase_okI)
  fix s r s'
  assume run: "assure_listeners_deleted E s = (r, s')"
  show "svc_frame (bs_service s) (bs_service s') \<and> (hints_inv (bs_hints s) \<longrightarrow> hints_inv (bs_hints s'))"
  proof (cases "sv_listeners (bs_service s) = None \<or> sv_loadbalancer (bs_service s) = None")
    case True
    with run show ?thesis by (auto simp: assure_listeners_deleted_def split: option.splits)
  next
    case False
    then obtain lis lb where l: "sv_listeners (bs_service s) = Some lis" "sv_loadbalancer (bs_service s) = Some lb"
      by auto
    obtain lis' bs where ip: "inplace (assure_listener_deleted E lb) lis (bs_bigips s) = (r, lis', bs)"
      and s': "s' = mod_service (\<lambda>svc. svc\<lparr>sv_listeners := Some lis'\<rparr>) (s\<lparr>bs_bigips := bs\<rparr>)"
      using run l by (auto simp: assure_listeners_deleted_def split: prod.splits)
    have "same_objs li_id li_status (Some lis) (Some lis')"
      by (rule inplace_same_objs [OF ip])
        (auto simp: assure_listener_deleted_def set_li_status_def split: if_splits prod.splits sum.splits option.splits)
    with l s' show ?thesis by (auto intro!: svc_frame_parts)
  qed
qed

lemma create_pool_pool:
  "create_pool A S lb p ms hms bs = (r, p', bs') \<Longrightarrow> p' = snd (get_pool A lb p ms hms)"
  by (auto simp: create_pool_def split: prod.splits sum.splits)

lemma delete_pool_pool:
  "delete_pool A S lb p ms bs = (r, p', bs') \<Longrightarrow> p' = snd (get_pool A lb p ms [])"
  by (auto simp: delete_pool_def split: prod.splits sum.splits)

lemma assure_pool_members_pool:
  "assure_pool_members A S lb p ms bs = (r, p', ms', bs') \<Longrightarrow> p' = snd (get_pool A lb p ms [])"
  by (auto simp: assure_pool_members_def split: prod.splits sum.splits)

lemma get_pool_status [simp]: "po_status (snd (get_pool A lb p ms hms)) = po_status p"
  by (auto simp: get_pool_def map_pool_def source_ip_persistence_def split: option.splits sum.splits)

lemma assure_pool_created_status:
  assumes "assure_pool_created E svc p st = (r, p', st')"
  shows "po_id p' = po_id p \<and> status_step (po_status p) (po_status p')"
  using assms
  by (auto simp: assure_pool_created_def set_po_status_def
      dest!: create_pool_pool split: if_splits prod.splits sum.splits option.splits)

lemma pools_created_ok: "phase_ok (assure_pools_created E)"
proof (rule phase_okI)
  fix s r s'
  assume run: "assure_pools_created E s = (r, s')"
  show "svc_frame (bs_service s) (bs_service s') \<and> (hints_inv (bs_hints s) \<longrightarrow> hints_inv (bs_hints s'))"
  proof (cases "sv_pools (bs_service s)")
    case None
    with run show ?thesis by (simp add: assure_pools_created_def)
  next
    case (Some ps)
    obtain ps' err bs where ip: "inplace (assure_pool_created E (bs_service s)) ps (False, bs_bigips s) = (r, ps', (err, bs))"
      and s': "s' = mod_service (\<lambda>svc. (if err then lb_error svc else svc)\<lparr>sv_pools := Some ps'\<rparr>) (s\<lparr>bs_bigips := bs\<rparr>)"
      using run Some by (auto simp: assure_pools_created_def split: prod.splits)
    have "same_objs po_id po_status (Some ps) (Some ps')"
      by (rule inplace_same_objs [OF ip]) (rule assure_pool_created_status)
    with Some s' show ?thesis by (auto intro!: svc_frame_parts simp: lb_error_def)
  qed
qed

lemma pools_deleted_ok: "phase_ok (assure_pools_deleted E)"
proof (rule phase_okI)
  fix s r s'
  assume run: "assure_pools_deleted E s = (r, s')"
  show "svc_frame (bs_service s) (bs_service s') \<and> (hints_inv (bs_hints s) \<longrightarrow> hints_inv (bs_hints s'))"
  proof (cases "sv_pools (bs_service s) = None \<or> sv_loadbalancer (bs_service s) = None")
    case True
    with run show ?thesis by (auto simp: assure_pools_deleted_def split: option.splits)
  next
    case False
    then obtain ps lb where l: "sv_pools (bs_service s) = Some ps" "sv_loadbalancer (bs_service s) = Some lb" by auto
    obtain ps' bs where ip: "inplace (assure_pool_deleted E (bs_service s) lb) ps (bs_bigips s) = (r, ps', bs)"
      and s': "s' = mod_service (\<lambda>svc. svc\<lparr>sv_pools := Some ps'\<rparr>) (s\<lparr>bs_bigips := bs\<rparr>)"
      using run l by (auto simp: assure_pools_deleted_def split: prod.splits)
    have "same_objs po_id po_status (Some ps) (Some ps')"
      by (rule inplace_same_objs [OF ip])
        (auto simp: assure_pool_deleted_def set_po_status_def dest!: delete_pool_pool
          split: if_splits prod.splits sum.splits option.splits)
    with l s' show ?thesis by (auto intro!: svc_frame_parts)
  qed
qed

lemma set_monitors_frame:
  assumes "same_objs hm_id hm_status (Some (get_all (sv_healthmonitors svc))) (Some hms)"
  shows "svc_frame svc (set_monitors hms svc)"
  using assms by (cases "sv_healthmonitors svc") (auto intro!: svc_frame_parts simp: set_monitors_def)

lemma monitors_created_ok: "phase_ok (assure_monitors_created E)"
proof (rule phase_okI)
  fix s r s'
  assume run: "assure_monitors_created E s = (r, s')"
  obtain hms bs where ip: "inplace (assure_monitor_created E (bs_service s))
      (get_all (sv_healthmonitors (bs_service s))) (bs_bigips s) = (r, hms, bs)"
    and s': "s' = mod_service (set_monitors hms) (s\<lparr>bs_bigips := bs\<rparr>)"
    using run by (auto simp: assure_monitors_created_def split: prod.splits)
  have "same_objs hm_id hm_status (Some (get_all (sv_healthmonitors (bs_service s)))) (Some hms)"
    by (rule inplace_same_objs [OF ip])
      (auto simp: assure_monitor_created_def set_hm_status_def split: if_splits prod.splits sum.splits option.splits)
  with s' show "svc_frame (bs_service s) (bs_service s') \<and> (hints_inv (bs_hints s) \<longrightarrow> hints_inv (bs_hints s'))"
    by (simp add: set_monitors_frame)
qed

lemma monitors_deleted_ok: "phase_ok (assure_monitors_deleted E)"
proof (rule phase_okI)
  fix s r s'
  assume run: "assure_monitors_deleted E s = (r, s')"
  show "svc_frame (bs_service s) (bs_service s') \<and> (hints_inv (bs_hints s) \<longrightarrow> hints_inv (bs_hints s'))"
  proof (cases "sv_loadbalancer (bs_service s)")
    case None
    with run show ?thesis by (simp add: assure_monitors_deleted_def)
  next
    case (Some lb)
    obtain hms bs where ip: "inplace (assure_monitor_deleted E lb)
        (get_all (sv_healthmonitors (bs_service s))) (bs_bigips s) = (r, hms, bs)"
      and s': "s' = mod_service (set_monitors hms) (s\<lparr>bs_bigips := bs\<rparr>)"
      using run Some by (auto simp: assure_monitors_deleted_def split: prod.splits)
    have "same_objs hm_id hm_status (Some (get_all (sv_healthmonitors (bs_service s)))) (Some hms)"
      by (rule inplace_same_objs [OF ip])
        (auto simp: assure_monitor_deleted_def set_hm_status_def split: if_splits prod.splits sum.splits option.splits)
    with s' show ?thesis by (simp add: set_monitors_frame)
  qed
qed

section \<open>Members\<close>

lemma inplace_members_ids:
  assumes "inplace (assure_member A S lb part p) ms d = (r, ms', d')"
  shows "map me_id ms' = map me_id ms"
  by (rule inplace_ids [OF assms])
    (auto simp: assure_member_def split: if_splits prod.splits sum.splits option.splits)

lemma assure_on_ids:
  assumes "assure_pool_members_on A S lb bp d ms = (r, d', ms')"
  shows "map me_id ms' = map me_id ms"
  using assms
  by (auto simp: assure_pool_members_on_def dest!: inplace_members_ids split: prod.splits sum.splits if_splits)

lemma assure_pool_members_ids:
  assumes "assure_pool_members A S lb p ms bs = (r, p', ms', bs')"
  shows "map me_id ms' = map me_id ms"
proof -
  have "map me_id y = map me_id ms" if "inplace (assure_pool_members_on A S lb bp) ds ms = (x, ds', y)" for bp ds x ds' y
  proof -
    have "list_all2 (\<lambda>_ _. True) ds ds' \<and> map me_id y = map me_id ms"
      by (rule inplace_rel [OF that, where Q = "\<lambda>a b. map me_id b = map me_id a"])
        (auto dest: assure_on_ids)
    then show ?thesis ..
  qed
  with assms show ?thesis
    by (auto simp: assure_pool_members_def split: prod.splits sum.splits)
qed

lemma settle_ids:
  assumes "inplace (settle_members names pd) ms hs = (r, ms', hs')"
  shows "map me_id ms' = map me_id ms \<and> (hints_inv hs \<longrightarrow> hints_inv hs')"
proof -
  have "list_all2 (\<lambda>a b. me_id b = me_id a) ms ms' \<and> (hints_inv hs \<longrightarrow> hints_inv hs')"
    by (rule inplace_rel [OF assms, where Q = "\<lambda>a b. hints_inv a \<longrightarrow> hints_inv b"])
      (auto simp: settle_members_def settle_member_def Let_def hints_inv_def
        dest: update_all_hints_invariant split: option.splits prod.splits if_splits)
  then show ?thesis by (auto simp: list_all2_conv_all_nth intro!: nth_equalityI)
qed

lemma replace_where_ids:
  "map f ns = map f (filter P xs) \<Longrightarrow> list_all2 (\<lambda>x y. f y = f x) xs (replace_where P xs ns)"
  by (induction P xs ns rule: replace_where.induct) (auto intro: list_all2_refl split: list.splits)

lemma put_members_frame:
  assumes "map me_id ms = map me_id (filter (member_grouped E i) (get_all (sv_members svc)))"
  shows "svc_frame svc (put_members E i ms svc)"
  using replace_where_ids [OF assms]
  by (intro svc_frame_parts) (cases "sv_members svc"; simp add: put_members_def)+

lemma upd_pool_same:
  assumes "\<And>p. get_obj po_id ps i = Some p \<Longrightarrow> po_id p' = po_id p \<and> po_status p' = po_status p"
  shows "list_all2 (\<lambda>a b. po_id b = po_id a \<and> status_step (po_status a) (po_status b)) ps (upd_obj po_id i (\<lambda>_. p') ps)"
  using assms by (induction ps) (auto intro: list_all2_refl)

lemma pool_group_ok: "phase_ok (assure_pool_group E lb i)"
proof (rule phase_okI)
  fix s r s'
  assume run: "assure_pool_group E lb i s = (r, s')"
  let ?svc = "bs_service s"
  let ?ms = "filter (member_grouped E i) (get_all (sv_members ?svc))"
  show "svc_frame ?svc (bs_service s') \<and> (hints_inv (bs_hints s) \<longrightarrow> hints_inv (bs_hints s'))"
  proof (cases "get_pool_by_id ?svc (Some i)")
    case None
    with run show ?thesis by (simp add: assure_pool_group_def Let_def)
  next
    case (Some p)
    obtain r1 p' ms' bs where a: "assure_pool_members (be_adapter E) (be_sdk E) lb p ?ms (bs_bigips s) = (r1, p', ms', bs)"
      by (cases "assure_pool_members (be_adapter E) (be_sdk E) lb p ?ms (bs_bigips s)") auto
    define s1 where "s1 = mod_service (\<lambda>svc. svc\<lparr>sv_pools := map_option (upd_obj po_id i (\<lambda>_. p')) (sv_pools svc)\<rparr>)
      (s\<lparr>bs_bigips := bs\<rparr>)"
    have pool: "po_id p' = po_id p \<and> po_status p' = po_status p"
      using assure_pool_members_pool [OF a] by simp
    have "get_obj po_id (get_all (sv_pools ?svc)) i = Some p"
      using Some by (auto simp: get_pool_by_id_def split: if_splits)
    with pool have "same_objs po_id po_status (sv_pools ?svc) (map_option (upd_obj po_id i (\<lambda>_. p')) (sv_pools ?svc))"
      by (cases "sv_pools ?svc") (auto simp: same_objs_def intro!: upd_pool_same)
    then have f1: "svc_frame ?svc (bs_service s1)" and mem1: "sv_members (bs_service s1) = sv_members ?svc"
      and h1: "bs_hints s1 = bs_hints s"
      by (auto simp: s1_def intro!: svc_frame_parts)
    have ids: "map me_id ms' = map me_id ?ms" by (rule assure_pool_members_ids [OF a])
    have put: "svc_frame ?svc (put_members E i xs (bs_service s1))" if "map me_id xs = map me_id ?ms" for xs
      using f1 put_members_frame [of xs E i "bs_service s1"] that mem1 by (auto intro: svc_frame_trans)
    show ?thesis
    proof (cases r1)
      case (Inl e)
      with run Some a have "s' = mod_service (put_members E i ms') s1"
        by (auto simp: assure_pool_group_def Let_def s1_def)
      with put [OF ids] h1 show ?thesis by simp
    next
      case (Inr u)
      obtain ms'' hs where st: "inplace (settle_members (map b_device_name bs) (po_status p' = PENDING_DELETE)) ms'
          (bs_hints s1) = (r, ms'', hs)" and s': "s' = mod_service (put_members E i ms'') (s1\<lparr>bs_hints := hs\<rparr>)"
        using run Some a Inr by (auto simp: assure_pool_group_def Let_def s1_def split: prod.splits)
      from settle_ids [OF st] ids put [of ms''] s' h1 show ?thesis by simp
    qed
  qed
qed

lemma members_ok_phase: "phase_ok (assure_members E)"
proof (rule phase_okI)
  fix s r s'
  assume run: "assure_members E s = (r, s')"
  have "s' = s \<or> (\<exists>lb ms. run_phases (map (assure_pool_group E lb) (grouped_pools E ms)) s = (r, s'))"
    using run by (auto simp: assure_members_def split: option.splits if_splits)
  moreover have "phase_ok (run_phases (map (assure_pool_group E lb) (grouped_pools E ms)))" for lb ms
    by (rule phase_ok_run) (auto intro: pool_group_ok)
  ultimately show "svc_frame (bs_service s) (bs_service s') \<and> (hints_inv (bs_hints s) \<longrightarrow> hints_inv (bs_hints s'))"
    unfolding phase_ok_def by (elim disjE exE) (simp, blast)
qed

section \<open>L7 policies\<close>

lemma set_l7_frame:
  assumes "\<And>p. l7p_id (f p) = l7p_id p \<and> status_step (l7p_status p) (l7p_status (f p))"
  shows "svc_frame svc (set_l7policies f svc)"
proof -
  have "list_all2 (\<lambda>a b. l7p_id b = l7p_id a \<and> status_step (l7p_status a) (l7p_status b)) ps (map f ps)" for ps
    by (induction ps) (simp_all add: assms)
  then show ?thesis
    by (cases "sv_l7policies svc") (auto intro!: svc_frame_parts simp: set_l7policies_def)
qed

lemma l7_error [simp]: "l7p_id (set_l7p_status ERROR p) = l7p_id p" "l7p_status (set_l7p_status ERROR p) = ERROR"
  by (simp_all add: set_l7p_status_def)

lemma upd_listener_same:
  "list_all2 (\<lambda>a b. li_id b = li_id a \<and> status_step (li_status a) (li_status b)) ls
     (upd_obj li_id i (\<lambda>li. li\<lparr>li_f5_policy := p\<rparr>) ls)"
  by (induction ls) (auto intro: list_all2_refl)

lemma upd_listener_frame:
  "svc_frame svc (svc\<lparr>sv_listeners := map_option (upd_obj li_id i (\<lambda>li. li\<lparr>li_f5_policy := p\<rparr>)) (sv_listeners svc)\<rparr>)"
  by (intro svc_frame_parts; cases "sv_listeners svc") (simp_all add: upd_listener_same)

lemma l7_listener_ok: "phase_ok (assure_l7_listener E entry)"
proof (rule phase_okI)
  fix s r s'
  assume run: "assure_l7_listener E entry s = (r, s')"
  have 1: "svc_frame svc (lb_error (set_l7policies (set_l7p_status ERROR) svc))" for svc
    by (rule svc_frame_trans [OF set_l7_frame svc_frame_lb_error]) simp
  obtain lid os where en: "entry = (lid, os)" by force
  obtain r1 bs where c: "create_l7_entry E os (bs_bigips s) = (r1, bs)"
    by (cases "create_l7_entry E os (bs_bigips s)") auto
  consider (raised) e where "r1 = Inl e" | (err) e where "r1 = Inr (Some e)" | (ok) "r1 = Inr None"
    by (cases r1) auto
  then show "svc_frame (bs_service s) (bs_service s') \<and> (hints_inv (bs_hints s) \<longrightarrow> hints_inv (bs_hints s'))"
    by cases (use run en c 1 upd_listener_frame in \<open>auto simp: assure_l7_listener_def\<close>)
qed

lemma l7policies_created_ok: "phase_ok (assure_l7policies_created E)"
proof (rule phase_okI)
  fix s r s'
  assume run: "assure_l7policies_created E s = (r, s')"
  have "s' = s \<or> (\<exists>en. run_phases (map (assure_l7_listener E) en) s = (r, s'))"
    using run by (auto simp: assure_l7policies_created_def split: option.splits sum.splits)
  moreover have "phase_ok (run_phases (map (assure_l7_listener E) en))" for en
    by (rule phase_ok_run) (auto intro: l7_listener_ok)
  ultimately show "svc_frame (bs_service s) (bs_service s') \<and> (hints_inv (bs_hints s) \<longrightarrow> hints_inv (bs_hints s'))"
    unfolding phase_ok_def by (elim disjE exE) (simp, blast)
qed

lemma delete_l7_listener_ok: "phase_ok (delete_l7_listener E entry)"
  by (rule phase_okI) (auto simp: delete_l7_listener_def Let_def intro!: set_l7_frame split: prod.splits)

lemma l7policies_deleted_ok: "phase_ok (assure_l7policies_deleted E)"
proof (rule phase_okI)
  fix s r s'
  assume run: "assure_l7policies_deleted E s = (r, s')"
  have "s' = s \<or> (\<exists>en bs. run_phases (map (delete_l7_listener E) en) (s\<lparr>bs_bigips := bs\<rparr>) = (r, s'))"
    using run by (auto simp: assure_l7policies_deleted_def Let_def split: option.splits sum.splits prod.splits)
  moreover have "phase_ok (run_phases (map (delete_l7_listener E) en))" for en
    by (rule phase_ok_run) (auto intro: delete_l7_listener_ok)
  ultimately show "svc_frame (bs_service s) (bs_service s') \<and> (hints_inv (bs_hints s) \<longrightarrow> hints_inv (bs_hints s'))"
    unfolding phase_ok_def by (elim disjE exE) (simp, fastforce)
qed

section \<open>The whole service\<close>

lemmas phases_ok =
  loadbalancer_created_ok monitors_created_ok pools_created_ok members_ok_phase
  l7policies_created_ok listeners_created_ok listeners_deleted_ok l7policies_deleted_ok
  pools_deleted_ok monitors_deleted_ok loadbalancer_deleted_ok

lemma assure_service_phase: "phase_ok (assure_service E)"
  unfolding assure_service_def by (rule phase_ok_run) (auto intro: phases_ok)

end
