(* ===== verification/ServiceQueue.thy ===== *)
theory ServiceQueue
  imports PyStrings
begin

text \<open>
  \<open>utils.py\<close>: the address helpers, and the decorator \<open>serialized\<close> that queues the calls which
  configure the devices. A call appends its request, waits until it is the first of the queue,
  runs, and pops the first request in a \<open>finally\<close>. \<open>qstep\<close> is one step of one green thread; a
  thread is not preempted between the append and its first look at the queue, which the relation
  allows as well.

  \<open>request_queue\<close> states what the wrapper needs of the queue; its lemmas carry the invariant: at
  most one call runs, calls run in the order they came, and the first request can always move.
\<close>

section \<open>Addresses\<close>

text \<open>\<open>strip_domain_address\<close>: drop a route domain, keep a mask.\<close>

definition strip_domain_address :: "string \<Rightarrow> string" where
  "strip_domain_address ip_address =
     (let mask_index = find_str ''/'' ip_address in
      if mask_index > 0
      then before_percent (take (nat mask_index) ip_address) @ drop (nat mask_index) ip_address
      else before_percent ip_address)"

definition strip_cidr_netmask :: "string \<Rightarrow> exn + string" where
  "strip_cidr_netmask ip_address =
     (case split_on CHR ''/'' ip_address of
        [a, _] \<Rightarrow> Inr a
      | _ \<Rightarrow> Inl (OtherError ''IpNotInCidrNotation''))"

definition get_device_info :: "('m \<Rightarrow> bool) \<Rightarrow> 'm list \<Rightarrow> exn + 'm" where
  "get_device_info self_device coll =
     (case filter self_device coll of [] \<Rightarrow> Inl IndexError | d # _ \<Rightarrow> Inr d)"

lemma strip_domain_plain:
  assumes "CHR ''%'' \<notin> set a" and "CHR ''/'' \<notin> set a" and "CHR ''/'' \<notin> set rd"
  shows "strip_domain_address (a @ CHR ''%'' # rd) = a"
proof -
  have "CHR ''/'' \<notin> set (a @ CHR ''%'' # rd)" using assms by auto
  then have "find_str ''/'' (a @ CHR ''%'' # rd) = - 1" by (rule find_str_char_absent)
  with assms show ?thesis by (simp add: strip_domain_address_def)
qed

lemma strip_domain_masked:
  assumes "CHR ''/'' \<notin> set b" and "b \<noteq> []"
  shows "strip_domain_address (b @ CHR ''/'' # msk) = before_percent b @ CHR ''/'' # msk"
  using assms by (simp add: strip_domain_address_def Let_def)

section \<open>The queue\<close>

record 'v request =
  rq_id :: nat
  rq_method :: string
  rq_service :: 'v

text \<open>\<open>queue.index(request)\<close>: the first position with an equal tuple; \<open>ValueError\<close> cannot occur here.\<close>

fun index_of :: "'a \<Rightarrow> 'a list \<Rightarrow> nat" where
  "index_of x [] = 0"
| "index_of x (y # ys) = (if x = y then 0 else Suc (index_of x ys))"

definition request_index :: "'v request list \<Rightarrow> nat \<Rightarrow> nat" where
  "request_index queue request_id =
     (case filter (\<lambda>r. rq_id r = request_id) queue of
        [] \<Rightarrow> length queue
      | request # _ \<Rightarrow> index_of request queue)"

definition enqueue :: "'v request list \<Rightarrow> 'v request \<Rightarrow> 'v request list" where
  "enqueue queue r = queue @ [r]"

definition dequeue :: "'v request list \<Rightarrow> 'v request list" where
  "dequeue queue = tl queue"

locale request_queue =
  fixes ids :: "'q \<Rightarrow> nat list" and idx :: "'q \<Rightarrow> nat \<Rightarrow> nat" and enq :: "'q \<Rightarrow> 'r \<Rightarrow> 'q"
    and deq :: "'q \<Rightarrow> 'q" and rid :: "'r \<Rightarrow> nat"
  assumes ids_enq: "ids (enq q r) = ids q @ [rid r]"
    and ids_deq: "ids (deq q) = tl (ids q)"
    and idx_nth: "distinct (ids q) \<Longrightarrow> k < length (ids q) \<Longrightarrow> idx q (ids q ! k) = k"
begin

lemma idx_first: "distinct (ids q) \<Longrightarrow> i \<in> set (ids q) \<Longrightarrow> idx q i = 0 \<longleftrightarrow> i = hd (ids q)"
  by (metis hd_conv_nth idx_nth in_set_conv_nth length_greater_0_conv list.size(3) not_less_zero)

lemma idx_enq_old:
  assumes "distinct (ids q)" "rid r \<notin> set (ids q)" "i \<in> set (ids q)"
  shows "idx (enq q r) i = idx q i"
proof -
  obtain k where k: "k < length (ids q)" "ids q ! k = i" using assms(3) by (auto simp: in_set_conv_nth)
  have "distinct (ids (enq q r))" using assms by (simp add: ids_enq)
  from idx_nth [OF this, of k] idx_nth [OF assms(1) k(1)] k show ?thesis
    by (simp add: ids_enq nth_append)
qed

lemma idx_deq:
  assumes "distinct (ids q)" "i \<in> set (ids q)" "i \<noteq> hd (ids q)"
  shows "Suc (idx (deq q) i) = idx q i"
proof -
  obtain k where k: "k < length (ids q)" "ids q ! k = i" using assms(2) by (auto simp: in_set_conv_nth)
  with assms(3) have "k \<noteq> 0" by (metis hd_conv_nth length_greater_0_conv less_nat_zero_code list.size(3))
  then obtain j where j: "k = Suc j" by (cases k) auto
  have "distinct (ids (deq q))" using assms(1) by (simp add: ids_deq distinct_tl)
  from idx_nth [OF this, of j] idx_nth [OF assms(1) k(1)] k j show ?thesis
    by (simp add: ids_deq nth_tl)
qed

end

lemma index_of_nth: "distinct (map f xs) \<Longrightarrow> k < length xs \<Longrightarrow> index_of (xs ! k) xs = k"
  by (induction xs arbitrary: k) (auto simp: nth_Cons split: nat.splits)

lemma request_index_nth:
  assumes "distinct (map rq_id q)" and "k < length q"
  shows "request_index q (rq_id (q ! k)) = k"
proof -
  have "filter (\<lambda>r. rq_id r = rq_id (q ! k)) q = [q ! k]"
    using assms
  proof (induction q arbitrary: k)
    case (Cons a q)
    show ?case
    proof (cases k)
      case 0
      have "filter (\<lambda>r. rq_id r = rq_id a) q = []"
        using Cons.prems(1) by (auto simp: filter_empty_conv dest: rev_image_eqI [of _ _ _ rq_id, OF _ sym])
      with 0 show ?thesis by simp
    next
      case (Suc j)
      with Cons show ?thesis by (auto dest: nth_mem)
    qed
  qed simp
  then show ?thesis using index_of_nth [OF assms] by (simp add: request_index_def)
qed

interpretation sq: request_queue "map rq_id" request_index enqueue dequeue rq_id
  by unfold_locales (simp_all add: enqueue_def dequeue_def map_tl request_index_nth)

lemma request_index_absent: "i \<notin> rq_id ` set q \<Longrightarrow> request_index q i = length q"
proof -
  assume "i \<notin> rq_id ` set q"
  then have "filter (\<lambda>r. rq_id r = i) q = []" by (auto simp: filter_empty_conv)
  then show ?thesis by (simp add: request_index_def)
qed

section \<open>The serialized calls\<close>

datatype pc = Waiting | Running | Returned | Raised

text \<open>The queue, where each call is, and the calls in the order they came and ended.\<close>

record 'v qstate =
  q_queue :: "'v request list"
  q_pc :: "nat \<Rightarrow> pc option"
  q_entered :: "nat list"
  q_done :: "nat list"

definition q_init :: "'v qstate" where
  "q_init = \<lparr>q_queue = [], q_pc = (\<lambda>_. None), q_entered = [], q_done = []\<rparr>"

text \<open>
  \<open>enter\<close>: \<open>service_queue.append(req)\<close> under a fresh id. \<open>wait\<close>: the sleep of the loop. \<open>start\<close>: the
  loop ends. \<open>finish\<close>: the method returned or raised, and \<open>service_queue.pop(0)\<close>.
\<close>

inductive qstep :: "'v qstate \<Rightarrow> 'v qstate \<Rightarrow> bool" where
  enter: "q_pc s (rq_id r) = None \<Longrightarrow>
     qstep s (s\<lparr>q_queue := enqueue (q_queue s) r, q_pc := (q_pc s)(rq_id r \<mapsto> Waiting),
                q_entered := q_entered s @ [rq_id r]\<rparr>)"
| wait: "q_pc s i = Some Waiting \<Longrightarrow> request_index (q_queue s) i \<noteq> 0 \<Longrightarrow> qstep s s"
| start: "q_pc s i = Some Waiting \<Longrightarrow> request_index (q_queue s) i = 0 \<Longrightarrow>
     qstep s (s\<lparr>q_pc := (q_pc s)(i \<mapsto> Running)\<rparr>)"
| finish: "q_pc s i = Some Running \<Longrightarrow> out \<in> {Returned, Raised} \<Longrightarrow>
     qstep s (s\<lparr>q_queue := dequeue (q_queue s), q_pc := (q_pc s)(i \<mapsto> out), q_done := q_done s @ [i]\<rparr>)"

inductive_simps qstep_simps: "qstep s s'"

inductive q_reachable :: "'v qstate \<Rightarrow> bool" where
  init: "q_reachable q_init"
| step: "q_reachable s \<Longrightarrow> qstep s s' \<Longrightarrow> q_reachable s'"

section \<open>The invariant\<close>

definition q_ids :: "'v qstate \<Rightarrow> nat list" where
  "q_ids s = map rq_id (q_queue s)"

definition q_inv :: "'v qstate \<Rightarrow> bool" where
  "q_inv s \<longleftrightarrow>
     distinct (q_ids s) \<and>
     set (q_ids s) = {i. q_pc s i \<in> {Some Waiting, Some Running}} \<and>
     (\<forall>i. q_pc s i = Some Running \<longrightarrow> i = hd (q_ids s)) \<and>
     q_entered s = q_done s @ q_ids s \<and>
     (\<forall>i \<in> set (q_done s). q_pc s i \<in> {Some Returned, Some Raised})"

lemma q_inv_init: "q_inv q_init"
  by (simp add: q_inv_def q_init_def q_ids_def)

lemma q_inv_enter:
  assumes "q_inv s" and "q_pc s (rq_id r) = None"
  shows "q_inv (s\<lparr>q_queue := enqueue (q_queue s) r, q_pc := (q_pc s)(rq_id r \<mapsto> Waiting),
                q_entered := q_entered s @ [rq_id r]\<rparr>)"
proof -
  have "rq_id r \<notin> set (q_ids s)" "rq_id r \<notin> set (q_done s)" using assms unfolding q_inv_def by force+
  moreover have "\<forall>i. q_pc s i = Some Running \<longrightarrow> q_ids s \<noteq> []" using assms unfolding q_inv_def by force
  ultimately show ?thesis
    using assms unfolding q_inv_def q_ids_def by (auto simp: enqueue_def hd_append)
qed

lemma q_invD:
  assumes "q_inv s"
  shows "distinct (q_ids s)" and "set (q_ids s) = {i. q_pc s i \<in> {Some Waiting, Some Running}}"
    and "q_pc s i = Some Running \<Longrightarrow> i = hd (q_ids s)" and "q_entered s = q_done s @ q_ids s"
    and "i \<in> set (q_done s) \<Longrightarrow> q_pc s i \<in> {Some Returned, Some Raised}"
  using assms unfolding q_inv_def by blast+

lemma q_inv_start:
  assumes "q_inv s" and "q_pc s i = Some Waiting" and "request_index (q_queue s) i = 0"
  shows "q_inv (s\<lparr>q_pc := (q_pc s)(i \<mapsto> Running)\<rparr>)" (is "q_inv ?t")
proof -
  note inv = q_invD [OF assms(1)]
  have i: "i \<in> set (q_ids s)" using inv(2) assms(2) by simp
  then have hd: "hd (q_ids s) = i" using sq.idx_first [of "q_queue s" i] inv(1) assms(3) by (simp add: q_ids_def)
  have nd: "i \<notin> set (q_done s)" using inv(5) [of i] assms(2) by auto
  have t: "q_ids ?t = q_ids s" by (simp add: q_ids_def)
  have "set (q_ids s) = {j. q_pc ?t j \<in> {Some Waiting, Some Running}}" using inv(2) assms(2) by auto
  moreover have "\<forall>j. q_pc ?t j = Some Running \<longrightarrow> j = hd (q_ids s)" using inv(3) hd by auto
  moreover have "\<forall>j \<in> set (q_done s). q_pc ?t j \<in> {Some Returned, Some Raised}" using inv(5) nd by auto
  ultimately show ?thesis using inv(1,4) unfolding q_inv_def t by simp
qed

lemma q_inv_finish:
  assumes "q_inv s" and "q_pc s i = Some Running" and "out \<in> {Returned, Raised}"
  shows "q_inv (s\<lparr>q_queue := dequeue (q_queue s), q_pc := (q_pc s)(i \<mapsto> out), q_done := q_done s @ [i]\<rparr>)"
    (is "q_inv ?t")
proof -
  note inv = q_invD [OF assms(1)]
  have "i \<in> set (q_ids s)" "i = hd (q_ids s)" using inv(2) inv(3) assms(2) by blast+
  then obtain rest where q: "q_ids s = i # rest" by (cases "q_ids s") auto
  with inv(1) have rest: "i \<notin> set rest" "distinct rest" by auto
  have t: "q_ids ?t = rest" using q by (auto simp: q_ids_def dequeue_def map_tl)
  have other: "j = i" if "q_pc s j = Some Running" for j using inv(3) [OF that] q by simp
  have "set rest = {j. q_pc ?t j \<in> {Some Waiting, Some Running}}"
    using inv(2) q rest assms(3) by auto
  moreover have "\<forall>j. q_pc ?t j = Some Running \<longrightarrow> j = hd rest" using other assms(3) by auto
  moreover have "\<forall>j \<in> set (q_done s @ [i]). q_pc ?t j \<in> {Some Returned, Some Raised}"
    using inv(5) assms(3) by auto
  moreover have "q_entered s = (q_done s @ [i]) @ rest" using inv(4) q by simp
  ultimately show ?thesis using rest unfolding q_inv_def t by simp
qed

lemma q_inv_step: "qstep s s' \<Longrightarrow> q_inv s \<Longrightarrow> q_inv s'"
  by (induction rule: qstep.induct) (auto intro: q_inv_enter q_inv_start q_inv_finish)

lemma q_inv_reachable: "q_reachable s \<Longrightarrow> q_inv s"
  by (induction rule: q_reachable.induct) (auto intro: q_inv_init q_inv_step)

text \<open>How far a waiting call is: its place never grows, and shrinks when a call ends.\<close>

lemma q_place_step:
  assumes "qstep s s'" and "q_inv s" and "q_pc s i = Some Waiting"
  shows "q_pc s' i = Some Running \<or>
    (q_pc s' i = Some Waiting \<and>
     request_index (q_queue s') i + length (q_done s') = request_index (q_queue s) i + length (q_done s))"
  using assms
proof (induction rule: qstep.induct)
  case (enter s r)
  then have "i \<in> set (map rq_id (q_queue s))" "distinct (map rq_id (q_queue s))" "rq_id r \<noteq> i"
    "rq_id r \<notin> set (map rq_id (q_queue s))"
    unfolding q_inv_def q_ids_def by force+
  with enter sq.idx_enq_old [of "q_queue s" r i] show ?case by simp
next
  case (finish s j out)
  then have "i \<in> set (map rq_id (q_queue s))" "distinct (map rq_id (q_queue s))" "i \<noteq> j"
    "j = hd (map rq_id (q_queue s))"
    unfolding q_inv_def q_ids_def by force+
  with finish sq.idx_deq [of "q_queue s" i] show ?case by simp
qed auto

lemma q_progress:
  assumes "q_inv s" and "q_queue s \<noteq> []"
  shows "q_pc s (hd (q_ids s)) = Some Running \<or>
     (q_pc s (hd (q_ids s)) = Some Waiting \<and> request_index (q_queue s) (hd (q_ids s)) = 0)"
proof -
  note inv = q_invD [OF assms(1)]
  have "hd (q_ids s) \<in> set (q_ids s)" using assms(2) by (intro hd_in_set) (simp add: q_ids_def)
  then have "q_pc s (hd (q_ids s)) \<in> {Some Waiting, Some Running}" using inv(2) by blast
  moreover have "request_index (q_queue s) (hd (q_ids s)) = 0"
    using sq.idx_first [of "q_queue s" "hd (q_ids s)"] inv(1) \<open>hd (q_ids s) \<in> set (q_ids s)\<close>
    by (simp add: q_ids_def)
  ultimately show ?thesis by blast
qed

end
