(* ===== verification/Device_Properties.thy ===== *)
theory Device_Properties
  imports BuilderFrame ServiceQueue Translation_Properties
begin

text \<open>
  The properties of the configuration of devices: the queue of serialized calls, what the builders
  leave on devices that answer, the subnet hints, the status of the service objects, certificates
  and SSL profiles. The witnesses run on devices that are tables (\<open>table_endpoint\<close>).
\<close>

section \<open>Serialized calls\<close>

text \<open>C16
  At most one serialized call runs at a time, and calls end in the order in which they came: those
  that ended followed by those in the queue are all that came, in order.
\<close>

theorem serialized_exclusive_fifo:
  assumes "q_reachable s"
  shows "(\<forall>i j. q_pc s i = Some Running \<longrightarrow> q_pc s j = Some Running \<longrightarrow> i = j) \<and>
    q_entered s = q_done s @ map rq_id (q_queue s) \<and> distinct (map rq_id (q_queue s)) \<and>
    (\<forall>i. q_pc s i = Some Running \<longrightarrow> request_index (q_queue s) i = 0)"
proof -
  have inv: "q_inv s" by (rule q_inv_reachable [OF assms])
  note d = q_invD [OF inv]
  have "request_index (q_queue s) i = 0" if "q_pc s i = Some Running" for i
  proof -
    have "i \<in> set (map rq_id (q_queue s))" "i = hd (map rq_id (q_queue s))"
      using d(2) d(3) [OF that] that by (auto simp: q_ids_def)
    with sq.idx_first [of "q_queue s" i] d(1) show ?thesis by (simp add: q_ids_def)
  qed
  moreover have "i = j" if "q_pc s i = Some Running" "q_pc s j = Some Running" for i j
    using d(3) [OF that(1)] d(3) [OF that(2)] by simp
  ultimately show ?thesis using d(1,4) by (simp add: q_ids_def)
qed

definition ex_req :: "nat \<Rightarrow> unit request" where
  "ex_req n = \<lparr>rq_id = n, rq_method = ''create_listener'', rq_service = ()\<rparr>"

text \<open>Two calls came, the first runs.\<close>

definition ex_qstate :: "unit qstate" where
  "ex_qstate =
     \<lparr>q_queue = [ex_req 1, ex_req 2], q_pc = (\<lambda>_. None)(1 \<mapsto> Waiting, 2 \<mapsto> Waiting, 1 \<mapsto> Running),
      q_entered = [1, 2], q_done = []\<rparr>"

lemma ex_qstate_reachable: "q_reachable ex_qstate"
proof -
  let ?s1 = "q_init\<lparr>q_queue := enqueue (q_queue (q_init :: unit qstate)) (ex_req 1),
     q_pc := (q_pc (q_init :: unit qstate))(rq_id (ex_req 1) \<mapsto> Waiting),
     q_entered := q_entered (q_init :: unit qstate) @ [rq_id (ex_req 1)]\<rparr> :: unit qstate"
  let ?s2 = "?s1\<lparr>q_queue := enqueue (q_queue ?s1) (ex_req 2), q_pc := (q_pc ?s1)(rq_id (ex_req 2) \<mapsto> Waiting),
     q_entered := q_entered ?s1 @ [rq_id (ex_req 2)]\<rparr>"
  have 1: "q_reachable ?s1"
    by (rule q_reachable.step [OF q_reachable.init], rule qstep.enter) (simp add: q_init_def)
  have 2: "q_reachable ?s2"
    by (rule q_reachable.step [OF 1], rule qstep.enter) (simp add: q_init_def ex_req_def)
  have "qstep ?s2 (?s2\<lparr>q_pc := (q_pc ?s2)(1 \<mapsto> Running)\<rparr>)"
    by (rule qstep.start) (simp_all add: q_init_def ex_req_def enqueue_def request_index_def)
  with 2 have "q_reachable (?s2\<lparr>q_pc := (q_pc ?s2)(1 \<mapsto> Running)\<rparr>)" by (rule q_reachable.step)
  then show ?thesis by (simp add: ex_qstate_def q_init_def ex_req_def enqueue_def)
qed

lemma serialized_exclusive_fifo_witness:
  "q_entered ex_qstate = q_done ex_qstate @ map rq_id (q_queue ex_qstate) \<and> request_index (q_queue ex_qstate) 1 = 0"
  using serialized_exclusive_fifo [OF ex_qstate_reachable] by (simp add: ex_qstate_def)

text \<open>C17
  The queue never blocks: while calls are queued, the first of them is running or can start, and
  nothing else delays a waiting call: until it runs, its place in the queue falls by exactly the
  number of calls that end.
\<close>

theorem serialized_progress:
  assumes "q_reachable s"
  shows "(q_queue s \<noteq> [] \<longrightarrow>
      (\<exists>s'. qstep s s' \<and> (q_pc s' (rq_id (hd (q_queue s))) = Some Running \<or> q_queue s' = tl (q_queue s)))) \<and>
    (\<forall>s' i. qstep s s' \<longrightarrow> q_pc s i = Some Waiting \<longrightarrow> q_pc s' i \<noteq> Some Running \<longrightarrow>
       q_pc s' i = Some Waiting \<and>
       request_index (q_queue s') i + length (q_done s') = request_index (q_queue s) i + length (q_done s))"
proof -
  have inv: "q_inv s" by (rule q_inv_reachable [OF assms])
  have "\<exists>s'. qstep s s' \<and> (q_pc s' (rq_id (hd (q_queue s))) = Some Running \<or> q_queue s' = tl (q_queue s))"
    if ne: "q_queue s \<noteq> []"
  proof -
    let ?i = "rq_id (hd (q_queue s))"
    have h: "hd (q_ids s) = ?i" using ne by (simp add: q_ids_def hd_map)
    from q_progress [OF inv ne] show ?thesis
    proof
      assume "q_pc s (hd (q_ids s)) = Some Running"
      with h have "qstep s (s\<lparr>q_queue := dequeue (q_queue s), q_pc := (q_pc s)(?i \<mapsto> Returned),
          q_done := q_done s @ [?i]\<rparr>)" by (intro qstep.finish) auto
      then show ?thesis by (intro exI conjI) (assumption, simp add: dequeue_def)
    next
      assume "q_pc s (hd (q_ids s)) = Some Waiting \<and> request_index (q_queue s) (hd (q_ids s)) = 0"
      with h have "qstep s (s\<lparr>q_pc := (q_pc s)(?i \<mapsto> Running)\<rparr>)" by (intro qstep.start) auto
      then show ?thesis by (intro exI conjI) (assumption, simp)
    qed
  qed
  with q_place_step [OF _ inv] show ?thesis by blast
qed

lemma serialized_progress_witness:
  "\<exists>s'. qstep ex_qstate s' \<and>
     (q_pc s' (rq_id (hd (q_queue ex_qstate))) = Some Running \<or> q_queue s' = tl (q_queue ex_qstate))"
  using serialized_progress [OF ex_qstate_reachable] by (simp add: ex_qstate_def)

section \<open>Devices as tables\<close>

text \<open>A device of the witnesses: its pools, nodes, virtual addresses, policies and SSL profiles.\<close>

record ex_dev =
  xd_pools :: "((string \<times> string) \<times> bigip_pool) list"
  xd_nodes :: "((string \<times> string) \<times> bigip_name) list"
  xd_vas :: "((string \<times> string) \<times> virtual_address) list"
  xd_policies :: "((string \<times> string) \<times> f5_policy) list"
  xd_ssl :: "((string \<times> string) \<times> client_ssl) list"
  xd_members :: "string list"

text \<open>An endpoint on a part of the device.\<close>

definition lift_endpoint :: "('s \<Rightarrow> 't) \<Rightarrow> ('t \<Rightarrow> 's \<Rightarrow> 's) \<Rightarrow> ('t, 'm) endpoint \<Rightarrow> ('s, 'm) endpoint" where
  "lift_endpoint g p ep =
     \<lparr>ep_create = (\<lambda>m. zoomM g p (ep_create ep m)), ep_exists = (\<lambda>a b. zoomM g p (ep_exists ep a b)),
      ep_load = (\<lambda>a b. zoomM g p (ep_load ep a b)), ep_modify = (\<lambda>a b m. zoomM g p (ep_modify ep a b m)),
      ep_delete = (\<lambda>a b. zoomM g p (ep_delete ep a b)), ep_collection = (\<lambda>q. zoomM g p (ep_collection ep q))\<rparr>"

lemma lift_endpoint_ok:
  assumes "\<And>t s. g (p t s) = t" and "\<And>s. p (g s) s = s"
  shows "endpoint_ok (lift_endpoint g p (table_endpoint key)) key (\<lambda>s. map_of (g s))"
  by (auto simp: endpoint_ok_def table_endpoint_def lift_endpoint_def update_conv' delete_conv' py_simps assms
      split: option.splits)

definition fails :: "exn \<Rightarrow> ('d, 'm) endpoint" where
  "fails e =
     \<lparr>ep_create = (\<lambda>m. raiseM e), ep_exists = (\<lambda>a b. raiseM e), ep_load = (\<lambda>a b. raiseM e),
      ep_modify = (\<lambda>a b m. raiseM e), ep_delete = (\<lambda>a b. raiseM e), ep_collection = (\<lambda>q. raiseM e)\<rparr>"

definition ex_sdk :: "ex_dev sdk" where
  "ex_sdk =
     \<lparr>sdk_pool = lift_endpoint xd_pools (\<lambda>t d. d\<lparr>xd_pools := t\<rparr>) (table_endpoint bkey),
      sdk_node = lift_endpoint xd_nodes (\<lambda>t d. d\<lparr>xd_nodes := t\<rparr>) (table_endpoint bkey),
      sdk_monitor = (\<lambda>_. fails (HTTPError 503 '''')),
      sdk_virtual = fails (HTTPError 503 ''''),
      sdk_va = lift_endpoint xd_vas (\<lambda>t d. d\<lparr>xd_vas := t\<rparr>) (table_endpoint bkey),
      sdk_l7policy = lift_endpoint xd_policies (\<lambda>t d. d\<lparr>xd_policies := t\<rparr>) (table_endpoint fp_key),
      sdk_rule = fails (HTTPError 503 ''''), sdk_universal = fails (HTTPError 503 ''''),
      sdk_client_ssl = lift_endpoint xd_ssl (\<lambda>t d. d\<lparr>xd_ssl := t\<rparr>) (table_endpoint bkey),
      sdk_upload = (\<lambda>_ _. retM ()), sdk_install_cert = (\<lambda>_ _. retM ()), sdk_install_key = (\<lambda>_ _. retM ()),
      sdk_member_exists = (\<lambda>_ n _ d. (Inr (n \<in> set (xd_members d)), d)),
      sdk_member_stats = (\<lambda>_ _ _. retM []), sdk_virtual_stats = (\<lambda>_. [])\<rparr>"

definition ex_dev0 :: ex_dev where
  "ex_dev0 = \<lparr>xd_pools = [], xd_nodes = [], xd_vas = [], xd_policies = [], xd_ssl = [], xd_members = []\<rparr>"

lemma ex_pool_endpoint: "endpoint_ok (sdk_pool ex_sdk) bkey (\<lambda>d. map_of (xd_pools d))"
  by (simp add: ex_sdk_def lift_endpoint_ok)

lemma ex_va_endpoint: "endpoint_ok (sdk_va ex_sdk) bkey (\<lambda>d. map_of (xd_vas d))"
  by (simp add: ex_sdk_def lift_endpoint_ok)

lemma ex_policy_endpoint: "endpoint_ok (sdk_l7policy ex_sdk) fp_key (\<lambda>d. map_of (xd_policies d))"
  by (simp add: ex_sdk_def lift_endpoint_ok)

lemma ex_ssl_endpoint: "endpoint_ok (sdk_client_ssl ex_sdk) bkey (\<lambda>d. map_of (xd_ssl d))"
  by (simp add: ex_sdk_def lift_endpoint_ok)

section \<open>Pools, members, virtual addresses\<close>

text \<open>
  On devices that answer, \<open>create_pool\<close> reports no error and leaves on every device exactly the
  pool the adapter computed, whether or not one was there, and nothing else changed.
\<close>

theorem create_pool_converges:
  assumes "endpoint_ok (sdk_pool S) bkey view" and "get_pool A lb p members monitors = (Inr bp, p')"
  shows "\<exists>ds'. create_pool A S lb p members monitors ds = (Inr None, p', ds') \<and>
    list_all2 (\<lambda>d d'. view d' = (view d)(bkey bp \<mapsto> bp)) ds ds'"
  by (rule create_pool_run [OF assms])

lemma create_pool_converges_witness:
  "\<exists>ds'. create_pool ex_adapter ex_sdk ex_lb ex_pool [ex_member] [] [ex_dev0, ex_dev0] = (Inr None, ex_pool, ds') \<and>
    list_all2 (\<lambda>d d'. map_of (xd_pools d') = (map_of (xd_pools d))(bkey ex_bigip_pool \<mapsto> ex_bigip_pool))
      [ex_dev0, ex_dev0] ds'"
  by (rule create_pool_converges [OF ex_pool_endpoint ex_get_pool])




text \<open>C21
  On a device that answers, \<open>VirtualAddress.assure\<close> never fails and leaves exactly the load
  balancer's virtual address (also when its immutable address changed), or none after a delete.
\<close>

theorem virtual_address_assured:
  assumes "endpoint_ok (sdk_va S) bkey view"
  shows "\<exists>d'. va_assure S (va_init A lb) del d = (Inr (), d') \<and>
    view d' = (view d)((ad_prefix A @ lb_id lb, get_folder_name A (lb_tenant_id lb)) :=
      (if del then None else Some (va_init A lb)))"
  using va_assure_ok [OF assms, of "va_init A lb" del d] by (simp add: va_init_def bkey_def)

lemma virtual_address_assured_witness:
  "\<exists>d'. va_assure ex_sdk (va_init ex_adapter ex_lb) False ex_dev0 = (Inr (), d') \<and>
    map_of (xd_vas d') = (map_of (xd_vas ex_dev0))((ad_prefix ex_adapter @ lb_id ex_lb,
      get_folder_name ex_adapter (lb_tenant_id ex_lb)) := Some (va_init ex_adapter ex_lb))"
  using virtual_address_assured [OF ex_va_endpoint, where A = ex_adapter and lb = ex_lb and del = False and d = ex_dev0]
  by simp

text \<open>
  \<open>VirtualAddress.create\<close> hides every HTTP error of the creation other than 409: the builder, which
  looks for an exception, takes the load balancer for configured.
\<close>

theorem va_create_hides_errors:
  assumes "ep_create (sdk_va S) va d = (Inl (HTTPError code msg), d')" and "code \<noteq> 409"
  shows "va_create S va d = (Inr (), d')"
  using assms by (simp add: va_create_def rh_create_def py_simps)

lemma va_create_hides_errors_witness:
  "va_create (ex_sdk\<lparr>sdk_va := fails (HTTPError 400 '''')\<rparr>) (va_init ex_adapter ex_lb) ex_dev0 = (Inr (), ex_dev0)"
  by (rule va_create_hides_errors [of _ _ _ 400 "''''"]) (simp_all add: fails_def raiseM_def)

section \<open>Listeners and policies\<close>

text \<open>
  The client SSL profile a listener gets for a certificate container is the one its deletion looks
  for: on a device that answers, removing the container's profile removes that profile and nothing
  else.
\<close>

theorem ssl_profile_name_agrees:
  assumes "endpoint_ok (sdk_client_ssl S) bkey view" and "cert_name ref (ad_prefix A) = Inr name"
  shows "\<exists>d'. remove_ref_profile A S ref d = (Inr (), d') \<and> view d' = (view d)((name, ''Common'') := None)"
  by (rule remove_ref_profile_ok [OF assms])

lemma ssl_profile_name_agrees_witness:
  "\<exists>d'. remove_ref_profile ex_adapter ex_sdk ''http://b/c1'' ex_dev0 = (Inr (), d') \<and>
     map_of (xd_ssl d') = (map_of (xd_ssl ex_dev0))((''Project_c1'', ''Common'') := None)"
  by (rule ssl_profile_name_agrees [OF ex_ssl_endpoint])
    (simp add: cert_name_def rindex_after_def ex_adapter_def new_adapter_def ex_conf_def)

text \<open>
  An HTTP error while a client SSL profile is created reaches the caller as \<open>SSLProfileError\<close>: the
  test for status 409 in \<open>_create_ssl_profile\<close> never sees it, and \<open>create_listener\<close> stops there.
\<close>

theorem ssl_profile_error_not_tolerated:
  assumes "ep_exists (sdk_client_ssl S) name ''Common'' d = (Inr False, d)"
    and "se_containers E ref = Inr ct" and "ct_intermediates ct = None" and "se_parent E = None"
    and "cert_name ref (ad_prefix A) = Inr name"
    and "sdk_upload S = (\<lambda>_ _. raiseM (HTTPError code msg))"
  shows "create_ssl_profile A S E ref sni vip d = (Inl (F5 SSLProfileError), d)"
  using assms
  by (simp add: create_ssl_profile_def create_client_ssl_profile_def get_certificate_def get_intermediates_def
      get_private_key_def get_private_key_passphrase_def chain_text_def py_simps Let_def)

definition ex_container :: container where
  "ex_container = \<lparr>ct_certificate = ''cert'', ct_intermediates = None, ct_private_key = ''key'', ct_passphrase = None\<rparr>"

definition ex_ssl_env :: ssl_env where
  "ex_ssl_env =
     \<lparr>se_containers = (\<lambda>_. Inr ex_container),
      se_lib = \<lparr>cl_pem_x509 = Inr, cl_der_x509 = Inr, cl_b64decode = Inr, cl_content_info = (\<lambda>s. Inr (True, s)),
                cl_signed_data = (\<lambda>s. Inr [s])\<rparr>,
      se_parent = None\<rparr>"

lemma ssl_profile_error_not_tolerated_witness:
  "create_ssl_profile ex_adapter (ex_sdk\<lparr>sdk_upload := (\<lambda>_ _. raiseM (HTTPError 409 ''''))\<rparr>) ex_ssl_env
     ''http://b/c1'' True ex_virtual ex_dev0 = (Inl (F5 SSLProfileError), ex_dev0)"
  by (rule ssl_profile_error_not_tolerated [of _ "''Project_c1''" _ _ _ ex_container _ 409 "''''"])
    (simp_all add: ex_sdk_def lift_endpoint_def table_endpoint_def ex_dev0_def ex_ssl_env_def ex_container_def
      cert_name_def rindex_after_def ex_adapter_def new_adapter_def ex_conf_def py_simps)

text \<open>C26
  On devices that answer, \<open>create_l7policy\<close> reports no error and leaves exactly the policy on every
  device.
\<close>

theorem create_l7policy_converges:
  assumes "endpoint_ok (sdk_l7policy S) fp_key view"
  shows "\<exists>ds'. create_l7policy S pol ds = (Inr None, ds') \<and>
    list_all2 (\<lambda>d d'. view d' = (view d)(fp_key pol \<mapsto> pol)) ds ds'"
  by (rule create_l7policy_run [OF assms])

definition ex_policy :: f5_policy where
  "ex_policy =
     \<lparr>fp_name = ''wrapper_policy_l1'', fp_partition = ''Project_t1'', fp_strategy = ''first-match'',
      fp_rules = [], fp_legacy = True, fp_requires = [''http''], fp_controls = [''forwarding'']\<rparr>"

lemma create_l7policy_converges_witness:
  "\<exists>ds'. create_l7policy ex_sdk ex_policy [ex_dev0] = (Inr None, ds') \<and>
    list_all2 (\<lambda>d d'. map_of (xd_policies d') = (map_of (xd_policies d))(fp_key ex_policy \<mapsto> ex_policy)) [ex_dev0] ds'"
  by (rule create_l7policy_converges [OF ex_policy_endpoint])

text \<open>
  A device that creates the policy hides the failure of the devices before it: whatever the earlier
  devices reported, \<open>create_l7policy\<close> then reports no error.
\<close>

theorem create_l7policy_hides_failure:
  assumes "create_l7policy S pol ds = (Inr err, ds')" and "rh_create (sdk_l7policy S) pol d = (Inr (), d')"
  shows "create_l7policy S pol (ds @ [d]) = (Inr None, ds' @ [d'])"
  using create_l7policy_last [of S pol None ds err ds' d d'] assms by (simp add: create_l7policy_def)

text \<open>A device that is down, next to one that is up.\<close>

definition half_sdk :: "ex_dev option sdk" where
  "half_sdk =
     \<lparr>sdk_pool = fails (HTTPError 503 ''''), sdk_node = fails (HTTPError 503 ''''),
      sdk_monitor = (\<lambda>_. fails (HTTPError 503 '''')), sdk_virtual = fails (HTTPError 503 ''''),
      sdk_va = fails (HTTPError 503 ''''),
      sdk_l7policy = (fails (HTTPError 503 ''''))\<lparr>ep_create := (\<lambda>m d. (case d of
          None \<Rightarrow> (Inl (HTTPError 503 ''''), d)
        | Some x \<Rightarrow> (Inr (), Some (x\<lparr>xd_policies := (fp_key m, m) # xd_policies x\<rparr>))))\<rparr>,
      sdk_rule = fails (HTTPError 503 ''''), sdk_universal = fails (HTTPError 503 ''''),
      sdk_client_ssl = fails (HTTPError 503 ''''),
      sdk_upload = (\<lambda>_ _. retM ()), sdk_install_cert = (\<lambda>_ _. retM ()), sdk_install_key = (\<lambda>_ _. retM ()),
      sdk_member_exists = (\<lambda>_ _ _. retM False), sdk_member_stats = (\<lambda>_ _ _. retM []), sdk_virtual_stats = (\<lambda>_. [])\<rparr>"

lemma create_l7policy_hides_failure_witness:
  "create_l7policy half_sdk ex_policy [None] = (Inr (Some L7PolicyCreationException), [None]) \<and>
   fst (create_l7policy half_sdk ex_policy ([None] @ [Some ex_dev0])) = Inr None"
proof -
  have 1: "create_l7policy half_sdk ex_policy [None] = (Inr (Some L7PolicyCreationException), [None])"
    by (simp add: create_l7policy_def create_l7policy_on_def rh_create_def half_sdk_def fails_def)
  have "rh_create (sdk_l7policy half_sdk) ex_policy (Some ex_dev0)
      = (Inr (), Some (ex_dev0\<lparr>xd_policies := (fp_key ex_policy, ex_policy) # xd_policies ex_dev0\<rparr>))"
    by (simp add: rh_create_def half_sdk_def)
  from create_l7policy_hides_failure [OF 1 this] 1 show ?thesis by simp
qed

text \<open>
  With listeners in the service, \<open>delete_orphaned_listeners\<close> deletes nothing: a virtual server it
  calls orphaned never has the name it then looks for. The devices only answer the collection read.
\<close>

theorem orphaned_listeners_never_deleted:
  assumes "ep_collection (sdk_virtual S) None d = (Inr vses, d)"
  shows "delete_orphans_of_vip S vip d = (Inr (), d)"
  by (rule orphans_of_vip_idle [OF assms])

lemma orphaned_listeners_never_deleted_witness:
  "delete_orphans_of_vip (ex_sdk\<lparr>sdk_virtual := (fails (HTTPError 503 ''''))\<lparr>ep_collection := (\<lambda>_. retM [ex_virtual])\<rparr>\<rparr>)
     (ex_virtual\<lparr>bn_name := ''other''\<rparr>) ex_dev0 = (Inr (), ex_dev0)"
  by (rule orphaned_listeners_never_deleted [of _ _ "[ex_virtual]"]) (simp add: retM_def)

section \<open>Certificates\<close>

text \<open>C27
  A certificate bundle is cut into exactly its certificates, in order, whatever lines stand between
  and after them; each block starts with the BEGIN line and ends with the END line.
\<close>

theorem certificate_bundle_split:
  assumes "\<forall>(j, b) \<in> set parts. X509_BEG \<notin> set j \<and> X509_END \<notin> set b" and "X509_BEG \<notin> set rest"
  shows "split_blocks (concat (map (\<lambda>(j, b). j @ X509_BEG # b @ [X509_END]) parts) @ rest) None
    = map (\<lambda>(j, b). X509_BEG # b @ [X509_END]) parts"
proof -
  have "X509_BEG \<notin> set j \<and> block_ok b" if "(j, b) \<in> set parts" for j b
    using assms(1) that by (auto simp: block_ok_def)
  from split_blocks_bundle [OF this assms(2)] show ?thesis
    by (simp add: wrap_block_def comp_def case_prod_unfold)
qed

lemma certificate_bundle_split_witness:
  "split_blocks (concat (map (\<lambda>(j, b). j @ X509_BEG # b @ [X509_END]) [([''subject''], [''MII''])]) @ [''end'']) None
    = map (\<lambda>(j, b). X509_BEG # b @ [X509_END]) [([''subject''], [''MII''])]"
  by (rule certificate_bundle_split) (simp_all add: X509_BEG_def X509_END_def)

text \<open>
  Opening the Barbican client returns for every behaviour of the service: with the first success
  among the first five attempts, after that many minus one pauses, or with
  \<open>InvalidBarbicanConfig\<close> after four pauses when all five fail.
\<close>

theorem barbican_client_retries:
  "(\<forall>k < 5. (\<forall>j < k. \<exists>e. try_open (Suc j) = Inl e) \<longrightarrow> (\<forall>c. try_open (Suc k) = Inr c \<longrightarrow>
      init_client try_open 0 0 = (Inr (Some c), k))) \<and>
   ((\<forall>j < 5. \<exists>e. try_open (Suc j) = Inl e) \<longrightarrow>
      init_client try_open 0 0 = (Inl (F5 InvalidBarbicanConfig), 4))"
proof (intro conjI allI impI)
  fix k c
  assume "k < 5" "\<forall>j < k. \<exists>e. try_open (Suc j) = Inl e" "try_open (Suc k) = Inr c"
  then show "init_client try_open 0 0 = (Inr (Some c), k)"
    using init_client_opens [of 0 k try_open c 0] by simp
next
  assume "\<forall>j < 5. \<exists>e. try_open (Suc j) = Inl e"
  then show "init_client try_open 0 0 = (Inl (F5 InvalidBarbicanConfig), 4)"
    using init_client_raises [of 0 try_open 0] by simp
qed

lemma barbican_client_retries_witness:
  "init_client (\<lambda>k. if k = 3 then Inr () else Inl IOError) 0 0 = (Inr (Some ()), 2)"
  using barbican_client_retries [of "\<lambda>k. if k = 3 then Inr () else Inl IOError"]
  by (elim conjE allE [of _ 2]) auto

section \<open>The service\<close>

text \<open>C19
  The subnet hints of a device after any sequence of updates do not depend on their order: a subnet
  some object still uses must stay, one that every object gives up may be deleted, and no subnet is
  ever in both lists.
\<close>

theorem subnet_hints_spec:
  "set (do_not_delete_subnets (run_hints us empty_hints)) = kept_subnets us \<and>
   fst ` set (check_for_delete_subnets (run_hints us empty_hints)) = freed_subnets us \<and>
   kept_subnets us \<inter> freed_subnets us = {} \<and> subnet_hints_ok (run_hints us empty_hints)"
  using run_hints_sets [of us] run_hints_invariant [of empty_hints us] by (auto simp: freed_subnets_def)







end
