(* ===== verification/NetworkHelper.thy ===== *)
theory NetworkHelper
  imports Devices
begin

text \<open>
  \<open>network_helper.py\<close>: route domains, routes, VLANs, tunnels, FDB and ARP records of one device. The
  SDK resources are the endpoints of \<open>net_sdk\<close>; \<open>netlib\<close> is what the code uses of netaddr. The
  payload dictionary \<open>route_domain_defaults\<close> is a class attribute the code mutates, so
  \<open>create_route_domain\<close> takes and returns it.

  The lemmas: \<open>get_next_domain_id\<close> is the least free positive id, \<open>split_addr_port\<close> inverts the
  destination the adapter builds, and the VLAN and FDB updates are idempotent.
\<close>

section \<open>Data\<close>

record route_domain = bigip_name +
  rd_id :: int
  rd_strict :: string
  rd_parent :: "string option"
  rd_vlans :: "string list"

record route = bigip_name +
  rt_gw :: string
  rt_network :: string

record vlan = bigip_name +
  vl_tag :: int
  vl_description :: "string option"
  vl_interface :: "(string \<times> bool) option" \<comment> \<open>name, tagged\<close>

record arp = bigip_name +
  arp_ipAddress :: string
  arp_macAddress :: string

record tunnel = bigip_name +
  tu_profile :: "string option"
  tu_description :: "string option"
  tu_key :: "int option"
  tu_localAddress :: "string option"
  tu_remoteAddress :: "string option"

record tunnel_profile = bigip_name +
  tp_defaultsFrom :: string
  tp_floodingType :: string
  tp_extra :: string

record fdb_tunnel = bigip_name +
  ft_records :: "(string \<times> string) list" \<comment> \<open>MAC, endpoint\<close>

record selfip = bigip_name +
  se_address :: string
  se_vlan :: string
  se_floating :: bool
  se_traffic_group :: "string option"

record snat_translation = bigip_name +
  sx_address :: string
  sx_trafficGroup :: string

record snatpool = bigip_name +
  sn_members :: "string list"

text \<open>The wildcard forwarding virtual server of a gateway.\<close>

record forward_virtual = bigip_name +
  fv_destination :: string
  fv_mask :: string
  fv_vlans :: "string list"
  fv_source_address_translation :: string
  fv_ipForward :: bool

record node = bigip_name +
  nd_address :: string

record vcmp_guest =
  vg_name :: string
  vg_managementIp :: string
  vg_vlans :: "string list option" \<comment> \<open>\<open>None\<close> when the attribute is missing\<close>

record ('ip, 'net) netlib =
  nl_network :: "string \<Rightarrow> exn + 'net" \<comment> \<open>\<open>IPNetwork\<close>\<close>
  nl_address :: "string \<Rightarrow> exn + 'ip" \<comment> \<open>\<open>IPAddress\<close>\<close>
  nl_in :: "'ip \<Rightarrow> 'net \<Rightarrow> bool"
  nl_within :: "'net \<Rightarrow> 'net \<Rightarrow> bool"
  nl_cidr :: "'net \<Rightarrow> 'net"
  nl_prefixlen :: "'net \<Rightarrow> int"

record 'd net_sdk =
  ns_rd :: "('d, route_domain) endpoint"
  ns_route :: "('d, route) endpoint"
  ns_vlan :: "('d, vlan) endpoint"
  ns_vlan_interface :: "string \<Rightarrow> string \<Rightarrow> string \<Rightarrow> bool \<Rightarrow> ('d, unit) py" \<comment> \<open>VLAN, partition, interface, tagged\<close>
  ns_arp :: "('d, arp) endpoint"
  ns_tunnel :: "('d, tunnel) endpoint"
  ns_gre :: "('d, tunnel_profile) endpoint"
  ns_vxlan :: "('d, tunnel_profile) endpoint"
  ns_ppp :: "('d, tunnel_profile) endpoint"
  ns_fdb :: "('d, fdb_tunnel) endpoint"
  ns_rec_exists :: "string \<Rightarrow> string \<Rightarrow> string \<Rightarrow> ('d, bool) py" \<comment> \<open>tunnel, partition, MAC\<close>
  ns_rec_create :: "string \<Rightarrow> string \<Rightarrow> string \<Rightarrow> string \<Rightarrow> ('d, unit) py"
  ns_rec_delete :: "string \<Rightarrow> string \<Rightarrow> string \<Rightarrow> ('d, unit) py"
  ns_selfip :: "('d, selfip) endpoint"
  ns_snat_translation :: "('d, snat_translation) endpoint"
  ns_snatpool :: "('d, snatpool) endpoint"
  ns_forward :: "('d, forward_virtual) endpoint"
  ns_nodes :: "string \<Rightarrow> ('d, node list) py" \<comment> \<open>\<open>get_collection(partition=...)\<close>\<close>
  ns_guest_load :: "string \<Rightarrow> ('d, vcmp_guest) py" \<comment> \<open>\<open>guest.refresh()\<close> on the vCMP host\<close>
  ns_guest_modify :: "string \<Rightarrow> string list \<Rightarrow> ('d, vcmp_guest) py" \<comment> \<open>the guest as the device answers it\<close>
  ns_guests :: "('d, vcmp_guest list) py"
  ns_tm_refresh :: "('d, unit) py"
  ns_sleep :: "('d, unit) py" \<comment> \<open>the device after one second\<close>
  ns_platform_id :: "('d, string) py"
  ns_old :: bool \<comment> \<open>TMOS before 11.6\<close>

text \<open>\<open>except HTTPError\<close>.\<close>

definition on_http :: "('d, 'a) py \<Rightarrow> ('d, 'a) py \<Rightarrow> ('d, 'a) py" where
  "on_http m h = tryM m (\<lambda>e. if http_status e = None then raiseM e else h)"

definition load_or_create :: "('d, 'm) endpoint \<Rightarrow> string \<Rightarrow> string \<Rightarrow> 'm \<Rightarrow> ('d, 'm) py" where
  "load_or_create ep name part m =
     bindM (ep_exists ep name part) (\<lambda>ex.
       if ex then ep_load ep name part else bindM (ep_create ep m) (\<lambda>_. retM m))"

section \<open>Tunnels and their profiles\<close>

definition create_l2gre_multipoint_profile :: "'d net_sdk \<Rightarrow> string \<Rightarrow> string \<Rightarrow> ('d, tunnel_profile) py" where
  "create_l2gre_multipoint_profile N name part =
     load_or_create (ns_gre N) name part
       \<lparr>bn_name = name, bn_partition = part, tp_defaultsFrom = ''gre'', tp_floodingType = ''multipoint'',
        tp_extra = ''transparent-ethernet-bridging''\<rparr>"

definition create_vxlan_multipoint_profile :: "'d net_sdk \<Rightarrow> string \<Rightarrow> string \<Rightarrow> ('d, tunnel_profile) py" where
  "create_vxlan_multipoint_profile N name part =
     load_or_create (ns_vxlan N) name part
       \<lparr>bn_name = name, bn_partition = part, tp_defaultsFrom = ''vxlan'', tp_floodingType = ''multipoint'',
        tp_extra = str_nat 4789\<rparr>"

definition create_ppp_profile :: "'d net_sdk \<Rightarrow> string \<Rightarrow> string \<Rightarrow> ('d, tunnel_profile) py" where
  "create_ppp_profile N name part =
     load_or_create (ns_ppp N) name part
       \<lparr>bn_name = name, bn_partition = part, tp_defaultsFrom = ''ppp'', tp_floodingType = ''none'', tp_extra = ''''\<rparr>"

definition create_tunnel :: "'d net_sdk \<Rightarrow> tunnel \<Rightarrow> ('d, tunnel) py" where
  "create_tunnel N model =
     load_or_create (ns_tunnel N) (bn_name model) (bn_partition model)
       (model\<lparr>tu_key := None, tu_localAddress := None, tu_remoteAddress := None\<rparr>)"

definition get_tunnel_key :: "'d net_sdk \<Rightarrow> string \<Rightarrow> string \<Rightarrow> ('d, int option) py" where
  "get_tunnel_key N name part = bindM (ep_load (ns_tunnel N) name part) (\<lambda>t. retM (tu_key t))"

definition get_vlan_id :: "'d net_sdk \<Rightarrow> string \<Rightarrow> string \<Rightarrow> ('d, int) py" where
  "get_vlan_id N name part = bindM (ep_load (ns_vlan N) name part) (\<lambda>v. retM (vl_tag v))"

section \<open>Route domains\<close>

text \<open>\<open>hasattr(self, 'conf') and self.conf.external_gateway_mode\<close>.\<close>

definition gateway_mode :: "conf option \<Rightarrow> bool" where
  "gateway_mode c = (case c of None \<Rightarrow> False | Some c \<Rightarrow> external_gateway_mode c)"

definition route_domain_name :: "conf option \<Rightarrow> string \<Rightarrow> string" where
  "route_domain_name c name =
     (if gateway_mode c \<and> \<not> startswith ''rd-'' name then ''rd-'' @ name else name)"

definition route_name :: "conf option \<Rightarrow> string option \<Rightarrow> exn + string option" where
  "route_name c name =
     (if \<not> gateway_mode c then Inl NotImplementedError
      else Inr (case name of
                  None \<Rightarrow> None
                | Some n \<Rightarrow> if n \<noteq> '''' \<and> \<not> startswith ''rt-'' n then Some (''rt-'' @ n) else Some n))"

text \<open>\<open>name if name else partition\<close>.\<close>

definition named_or :: "conf option \<Rightarrow> string option \<Rightarrow> string \<Rightarrow> string" where
  "named_or c name part =
     (case name of None \<Rightarrow> part | Some n \<Rightarrow> if n = '''' then part else route_domain_name c n)"

definition route_domain_exists ::
  "conf option \<Rightarrow> 'd net_sdk \<Rightarrow> string \<Rightarrow> int option \<Rightarrow> string option \<Rightarrow> ('d, bool) py" where
  "route_domain_exists c N part domain_id name =
     (if part = ''Common'' \<and> \<not> gateway_mode c then retM True
      else ep_exists (ns_rd N)
             (named_or c name part @
              (case domain_id of None \<Rightarrow> '''' | Some i \<Rightarrow> if i = 0 then '''' else ''_aux_'' @ str_int i)) part)"

definition get_route_domain :: "conf option \<Rightarrow> 'd net_sdk \<Rightarrow> string \<Rightarrow> string option \<Rightarrow> ('d, route_domain) py" where
  "get_route_domain c N part name =
     ep_load (ns_rd N)
       (if gateway_mode c then named_or c name part else if part = ''Common'' then ''0'' else part) part"

definition partition_filter :: "'d net_sdk \<Rightarrow> string \<Rightarrow> params option" where
  "partition_filter N part = (if part = '''' then None else Some (get_filter (ns_old N) ''partition'' ''eq'' part))"

definition get_route_domain_by_id :: "'d net_sdk \<Rightarrow> string \<Rightarrow> int \<Rightarrow> ('d, route_domain option) py" where
  "get_route_domain_by_id N part i =
     bindM (ep_collection (ns_rd N) (partition_filter N part)) (\<lambda>rds. retM (find (\<lambda>rd. rd_id rd = i) rds))"

definition get_route_domain_ids :: "'d net_sdk \<Rightarrow> string \<Rightarrow> ('d, int list) py" where
  "get_route_domain_ids N part =
     bindM (ep_collection (ns_rd N) (partition_filter N part)) (\<lambda>rds. retM (map rd_id rds))"

definition get_route_domain_names :: "'d net_sdk \<Rightarrow> string \<Rightarrow> ('d, string list) py" where
  "get_route_domain_names N part =
     bindM (ep_collection (ns_rd N) (partition_filter N part)) (\<lambda>rds. retM (map bn_name rds))"

definition get_route_domain_count :: "'d net_sdk \<Rightarrow> string \<Rightarrow> ('d, nat) py" where
  "get_route_domain_count N part =
     bindM (get_route_domain_ids N part) (\<lambda>ids. retM (length (remove1 0 ids)))"

definition get_tunnel_count :: "'d net_sdk \<Rightarrow> string \<Rightarrow> ('d, int) py" where
  "get_tunnel_count N part =
     bindM (ep_collection (ns_tunnel N) (in_partition part)) (\<lambda>ts.
     bindM (liftM (mapE (\<lambda>t. case tu_profile t of None \<Rightarrow> Inl AttributeError | Some p \<Rightarrow> Inr p) ts)) (\<lambda>ps.
       retM (int (length (filter (\<lambda>p. 0 < find_str ''vxlan'' p \<or> 0 < find_str ''gre'' p) ps)))))"

definition get_vlan_count :: "'d net_sdk \<Rightarrow> string \<Rightarrow> ('d, int) py" where
  "get_vlan_count N part = bindM (ep_collection (ns_vlan N) (in_partition part)) (\<lambda>vs. retM (int (length vs)))"

text \<open>The loop of \<open>get_next_domain_id\<close> over the sorted ids without 0.\<close>

fun lowest_available :: "int list \<Rightarrow> int \<Rightarrow> exn + int" where
  "lowest_available [] k = Inr k"
| "lowest_available (i # is) k =
     (if k < i then Inr k else if i = k then lowest_available is (k + 1) else Inl LookupError)"

definition next_domain_id :: "int list \<Rightarrow> exn + int" where
  "next_domain_id ids =
     (if 0 \<in> set ids then lowest_available (remove1 0 (sorted_list_of_set (set ids))) 1 else Inl ValueError)"

definition get_next_domain_id :: "'d net_sdk \<Rightarrow> ('d list, int) py" where
  "get_next_domain_id N ds =
     (case for_bigips (\<lambda>acc. bindM (get_route_domain_ids N '''') (\<lambda>ids. retM (acc @ ids))) [] ds of
        (Inl e, ds') \<Rightarrow> (Inl e, ds') | (Inr ids, ds') \<Rightarrow> (next_domain_id ids, ds'))"

text \<open>The class attribute \<open>route_domain_defaults\<close>.\<close>

record rd_payload =
  pl_name :: "string option"
  pl_partition :: string
  pl_id :: int
  pl_strict :: string
  pl_parent :: "string option"

definition route_domain_defaults :: rd_payload where
  "route_domain_defaults =
     \<lparr>pl_name = None, pl_partition = ''/Common'', pl_id = 0, pl_strict = ''disabled'', pl_parent = None\<rparr>"

definition route_domain_payload :: "string \<Rightarrow> string \<Rightarrow> int \<Rightarrow> bool \<Rightarrow> rd_payload \<Rightarrow> rd_payload" where
  "route_domain_payload name part i strictness pl =
     (let pl = pl\<lparr>pl_name := Some name, pl_partition := ''/'' @ part, pl_id := i\<rparr> in
      if strictness then pl\<lparr>pl_strict := ''enabled''\<rparr> else pl\<lparr>pl_parent := Some ''/Common/0''\<rparr>)"

definition new_rd_name :: "conf option \<Rightarrow> string \<Rightarrow> int \<Rightarrow> bool \<Rightarrow> string option \<Rightarrow> exn + string" where
  "new_rd_name c part i is_aux name =
     bindE (case name of
              None \<Rightarrow> Inr part
            | Some n \<Rightarrow>
                if n = '''' then Inr part
                else (case c of None \<Rightarrow> Inl AttributeError
                      | Some cf \<Rightarrow> Inr (if external_gateway_mode cf then route_domain_name c n else part)))
       (\<lambda>n. Inr (if is_aux then n @ ''_aux_'' @ str_int i else n))"

text \<open>The SDK names a partition \<open>/p\<close> and \<open>p\<close> alike; the created object carries \<open>p\<close>.\<close>

definition rd_of_payload :: "string \<Rightarrow> string \<Rightarrow> rd_payload \<Rightarrow> route_domain" where
  "rd_of_payload name part pl =
     \<lparr>bn_name = name, bn_partition = part, rd_id = pl_id pl, rd_strict = pl_strict pl, rd_parent = pl_parent pl,
      rd_vlans = []\<rparr>"

definition create_route_domain ::
  "conf option \<Rightarrow> 'd net_sdk \<Rightarrow> int \<Rightarrow> string \<Rightarrow> bool \<Rightarrow> bool \<Rightarrow> string option
     \<Rightarrow> rd_payload \<times> 'd \<Rightarrow> (exn + route_domain) \<times> rd_payload \<times> 'd" where
  "create_route_domain c N i part strictness is_aux name st =
     (case new_rd_name c part i is_aux name of
        Inl e \<Rightarrow> (Inl e, st)
      | Inr n \<Rightarrow>
          (let pl = route_domain_payload n part i strictness (fst st); rd = rd_of_payload n part pl in
           case ep_create (ns_rd N) rd (snd st) of
             (Inl e, d) \<Rightarrow> (Inl e, pl, d) | (Inr _, d) \<Rightarrow> (Inr rd, pl, d)))"

definition delete_route_domain :: "conf option \<Rightarrow> 'd net_sdk \<Rightarrow> string \<Rightarrow> string option \<Rightarrow> ('d, unit) py" where
  "delete_route_domain c N part name =
     (let n = (if gateway_mode c then named_or c name part
               else (case name of None \<Rightarrow> part | Some n \<Rightarrow> if n = '''' then part else n))
      in bindM (ep_load (ns_rd N) n part) (\<lambda>_. ep_delete (ns_rd N) n part))"

section \<open>Routes\<close>

text \<open>A missing name is passed to the SDK as \<open>None\<close>, which it refuses.\<close>

definition with_route_name :: "conf option \<Rightarrow> string option \<Rightarrow> (string \<Rightarrow> ('d, 'a) py) \<Rightarrow> ('d, 'a) py" where
  "with_route_name c name f =
     bindM (liftM (route_name c name)) (\<lambda>n. case n of None \<Rightarrow> raiseM TypeError | Some n \<Rightarrow> f n)"

definition route_exists :: "conf option \<Rightarrow> 'd net_sdk \<Rightarrow> string \<Rightarrow> string option \<Rightarrow> ('d, bool) py" where
  "route_exists c N part name = with_route_name c name (\<lambda>n. ep_exists (ns_route N) n part)"

definition get_route :: "conf option \<Rightarrow> 'd net_sdk \<Rightarrow> string \<Rightarrow> string option \<Rightarrow> ('d, route) py" where
  "get_route c N part name = with_route_name c name (\<lambda>n. ep_load (ns_route N) n part)"

definition create_route ::
  "conf option \<Rightarrow> 'd net_sdk \<Rightarrow> string option \<Rightarrow> string \<Rightarrow> string \<Rightarrow> int \<Rightarrow> string \<Rightarrow> string \<Rightarrow> ('d, unit) py" where
  "create_route c N name part gateway_ip i destination_ip netmask =
     with_route_name c name (\<lambda>n.
     bindM (route_exists c N part (Some n)) (\<lambda>ex.
       if ex then retM ()
       else ep_create (ns_route N)
         \<lparr>bn_name = n, bn_partition = part, rt_gw = gateway_ip @ ''%'' @ str_int i,
          rt_network = destination_ip @ ''%'' @ str_int i @ ''/'' @ netmask\<rparr>))"

definition delete_route :: "conf option \<Rightarrow> 'd net_sdk \<Rightarrow> string option \<Rightarrow> string \<Rightarrow> ('d, unit) py" where
  "delete_route c N name part =
     with_route_name c name (\<lambda>n.
     bindM (route_exists c N part (Some n)) (\<lambda>ex.
       if ex then bindM (get_route c N part (Some n)) (\<lambda>r. ep_delete (ns_route N) (bn_name r) part)
       else retM ()))"

section \<open>VLANs\<close>

definition get_vlans_in_route_domain :: "conf option \<Rightarrow> 'd net_sdk \<Rightarrow> string \<Rightarrow> ('d, string list) py" where
  "get_vlans_in_route_domain c N part = bindM (get_route_domain c N part None) (\<lambda>rd. retM (rd_vlans rd))"

definition get_vlans_in_route_domain_by_id :: "'d net_sdk \<Rightarrow> string \<Rightarrow> int \<Rightarrow> ('d, string list) py" where
  "get_vlans_in_route_domain_by_id N part i =
     bindM (get_route_domain_by_id N part i) (\<lambda>rd. retM (case rd of None \<Rightarrow> [] | Some rd \<Rightarrow> rd_vlans rd))"

definition add_vlan_to_rd :: "'d net_sdk \<Rightarrow> string \<Rightarrow> route_domain \<Rightarrow> ('d, bool) py" where
  "add_vlan_to_rd N name rd =
     (if name \<in> set (rd_vlans rd) then retM False
      else bindM (ep_modify (ns_rd N) (bn_name rd) (bn_partition rd) (rd\<lparr>rd_vlans := rd_vlans rd @ [name]\<rparr>))
             (\<lambda>_. retM True))"

definition add_vlan_to_domain :: "conf option \<Rightarrow> 'd net_sdk \<Rightarrow> string \<Rightarrow> string \<Rightarrow> ('d, bool) py" where
  "add_vlan_to_domain c N name part = bindM (get_route_domain c N part None) (add_vlan_to_rd N name)"

definition add_vlan_to_domain_by_id :: "'d net_sdk \<Rightarrow> string \<Rightarrow> string \<Rightarrow> int \<Rightarrow> ('d, bool) py" where
  "add_vlan_to_domain_by_id N name part i =
     bindM (get_route_domain_by_id N part i) (\<lambda>rd.
       case rd of None \<Rightarrow> retM False | Some rd \<Rightarrow> add_vlan_to_rd N name rd)"

record vlan_model =
  vm_name :: string
  vm_partition :: string
  vm_tag :: int
  vm_description :: "string option"
  vm_interface :: "string option"
  vm_route_domain_id :: int

text \<open>
  \<open>create_vlan\<close>: an existing VLAN is only loaded; a new one gets its interface, tagged when it has a
  tag, and its place in the tenant's route domain. (The retry with the same payload after
  \<open>TagModeDisallowedForTMOSVersion\<close> is the endpoint's.)
\<close>

definition create_vlan :: "'d net_sdk \<Rightarrow> vlan_model \<Rightarrow> ('d, vlan option) py" where
  "create_vlan N m =
     (if vm_name m = '''' then retM None
      else bindM (ep_exists (ns_vlan N) (vm_name m) (vm_partition m)) (\<lambda>ex.
        if ex then bindM (ep_load (ns_vlan N) (vm_name m) (vm_partition m)) (\<lambda>v. retM (Some v))
        else
          let v = \<lparr>bn_name = vm_name m, bn_partition = vm_partition m, vl_tag = vm_tag m,
                   vl_description = vm_description m, vl_interface = None\<rparr> in
          bindM (ep_create (ns_vlan N) v) (\<lambda>_.
          bindM (case vm_interface m of
                   None \<Rightarrow> retM ()
                 | Some i \<Rightarrow> if i = '''' then retM ()
                     else ns_vlan_interface N (vm_name m) (vm_partition m) i (vm_tag m \<noteq> 0)) (\<lambda>_.
          bindM (if vm_partition m = ''Common'' then retM False
                 else add_vlan_to_domain_by_id N (vm_name m) (vm_partition m) (vm_route_domain_id m))
            (\<lambda>_. retM (Some v))))))"

definition delete_vlan :: "'d net_sdk \<Rightarrow> string \<Rightarrow> string \<Rightarrow> ('d, unit) py" where
  "delete_vlan N name part = rh_delete (ns_vlan N) name part"

definition create_multipoint_tunnel :: "'d net_sdk \<Rightarrow> tunnel \<Rightarrow> int \<Rightarrow> ('d, tunnel) py" where
  "create_multipoint_tunnel N model i =
     bindM (ep_exists (ns_tunnel N) (bn_name model) (bn_partition model)) (\<lambda>ex.
       if ex then ep_load (ns_tunnel N) (bn_name model) (bn_partition model)
       else bindM (ep_create (ns_tunnel N) model) (\<lambda>_.
            bindM (if bn_partition model = ''Common'' then retM False
                   else add_vlan_to_domain_by_id N (bn_name model) (bn_partition model) i) (\<lambda>_. retM model)))"

section \<open>ARP\<close>

definition remove_route_domain_zero :: "string \<Rightarrow> string" where
  "remove_route_domain_zero ip =
     (let i = find_str ''%0'' ip in if i > 0 then take (nat i) ip else ip)"

definition arp_delete_by_mac :: "'d net_sdk \<Rightarrow> string \<Rightarrow> ('d, unit) py" where
  "arp_delete_by_mac N mac =
     bindM (ep_collection (ns_arp N) None) (\<lambda>ac.
       forM (filter (\<lambda>a. arp_macAddress a = mac) ac) (\<lambda>a. ep_delete (ns_arp N) (bn_name a) (bn_partition a)))"

definition arp_delete :: "'d net_sdk \<Rightarrow> string option \<Rightarrow> string \<Rightarrow> ('d, bool) py" where
  "arp_delete N ip part =
     (case ip of
        None \<Rightarrow> retM False
      | Some a \<Rightarrow>
          if a = '''' then retM False
          else bindM (on_http (rh_delete (ns_arp N) (quote (remove_route_domain_zero a)) part) (retM ()))
                 (\<lambda>_. retM True))"

text \<open>The network \<open>arp_delete_by_subnet\<close> looks for; \<open>None\<close> when it gives up with an empty list.\<close>

definition arp_network :: "('ip, 'net) netlib \<Rightarrow> string \<Rightarrow> string option \<Rightarrow> 'net option" where
  "arp_network L subnet msk =
     (let mask_div = find_str ''/'' subnet; rd_div = find_str ''%'' subnet in
      if subnet = '''' then None
      else
        let text = (if mask_div > 0
                    then Some (if rd_div > - 1
                               then take (nat rd_div) (take (nat mask_div) subnet) @ drop (nat mask_div) subnet
                               else subnet)
                    else (case msk of
                            None \<Rightarrow> None
                          | Some m \<Rightarrow> if m = '''' then None
                              else Some ((if rd_div > - 1 then take (nat rd_div) subnet else subnet) @ ''/'' @ m)))
        in (case text of
              None \<Rightarrow> None
            | Some t \<Rightarrow> (case nl_network L t of Inl _ \<Rightarrow> None | Inr n \<Rightarrow> Some n)))"

fun arp_delete_list :: "('ip, 'net) netlib \<Rightarrow> 'd net_sdk \<Rightarrow> 'net \<Rightarrow> arp list \<Rightarrow> ('d, string list) py" where
  "arp_delete_list L N net [] = retM []"
| "arp_delete_list L N net (a # as) =
     bindM (liftM (nl_address L (before_percent (arp_ipAddress a)))) (\<lambda>ip.
       if nl_in L ip net
       then bindM (on_http (ep_delete (ns_arp N) (bn_name a) (bn_partition a)) (retM ())) (\<lambda>_.
            bindM (arp_delete_list L N net as) (\<lambda>ms. retM (arp_macAddress a # ms)))
       else arp_delete_list L N net as)"

definition arp_delete_by_subnet ::
  "('ip, 'net) netlib \<Rightarrow> 'd net_sdk \<Rightarrow> string \<Rightarrow> string option \<Rightarrow> string \<Rightarrow> ('d, string list) py" where
  "arp_delete_by_subnet L N subnet msk part =
     (case arp_network L subnet msk of
        None \<Rightarrow> retM []
      | Some net \<Rightarrow>
          bindM (on_http (bindM (ep_collection (ns_arp N) (Some (get_filter (ns_old N) ''partition'' ''eq'' part)))
                            (\<lambda>as. retM as)) (retM []))
            (arp_delete_list L N net))"

section \<open>Virtual servers and nodes\<close>

definition split_addr_port :: "string \<Rightarrow> exn + string \<times> string" where
  "split_addr_port dest =
     (let parts = (if length (split_on CHR '':'' dest) > 2 then split_on CHR ''.'' dest
                   else split_on CHR '':'' dest)
      in case parts of a # p # _ \<Rightarrow> Inr (a, p) | _ \<Rightarrow> Inl IndexError)"

record insertion =
  ins_name :: string
  ins_address :: string
  ins_netmask :: "string option"
  ins_protocol :: string
  ins_port :: string

fun service_insertions :: "'d sdk \<Rightarrow> string \<Rightarrow> virtual list \<Rightarrow> ('d, insertion list) py" where
  "service_insertions S part [] = retM []"
| "service_insertions S part (vs # vses) =
     bindM (liftM (case vs_destination vs of None \<Rightarrow> Inl AttributeError
                   | Some dest \<Rightarrow> split_addr_port (basename dest))) (\<lambda>(vip_addr, vip_port).
     bindM (on_http (bindM (rh_load (sdk_va S) vip_addr part) (\<lambda>va. retM (Some va))) (retM None)) (\<lambda>va.
     bindM (service_insertions S part vses) (\<lambda>rest.
       retM (case va of
               None \<Rightarrow> rest
             | Some va \<Rightarrow>
                 \<lparr>ins_name = bn_name vs, ins_address = get_or '''' (va_address va), ins_netmask = vs_mask vs,
                  ins_protocol = vs_ipProtocol vs, ins_port = vip_port\<rparr> # rest))))"

definition get_virtual_service_insertion :: "bool \<Rightarrow> 'd sdk \<Rightarrow> string \<Rightarrow> ('d, insertion list) py" where
  "get_virtual_service_insertion old S part =
     bindM (get_resources old (sdk_virtual S) (Some part) False) (service_insertions S part)"

definition get_node_addresses :: "'d net_sdk \<Rightarrow> string \<Rightarrow> ('d, string list) py" where
  "get_node_addresses N part = bindM (ns_nodes N part) (\<lambda>ns. retM (map nd_address ns))"

section \<open>FDB records\<close>

definition add_fdb_entry ::
  "'d net_sdk \<Rightarrow> string \<Rightarrow> string \<Rightarrow> string \<Rightarrow> string \<Rightarrow> string \<Rightarrow> ('d, bool) py" where
  "add_fdb_entry N tunnel_name mac vtep arp_ip part =
     on_http
       (bindM (ep_exists (ns_fdb N) tunnel_name part) (\<lambda>ex.
        if \<not> ex then retM False
        else
          bindM (ep_load (ns_fdb N) tunnel_name part) (\<lambda>_.
          bindM (ns_rec_exists N tunnel_name part mac) (\<lambda>rec.
          if rec then retM True
          else
            bindM (ns_rec_create N tunnel_name part mac vtep) (\<lambda>_.
              if arp_ip = '''' then retM True
              else tryM (bindM (ep_create (ns_arp N)
                           \<lparr>bn_name = mac, bn_partition = part, arp_ipAddress = arp_ip, arp_macAddress = mac\<rparr>)
                           (\<lambda>_. retM True))
                     (\<lambda>_. retM False))))))
       (retM False)"

definition delete_fdb_entry :: "'d net_sdk \<Rightarrow> string \<Rightarrow> string \<Rightarrow> string option \<Rightarrow> string \<Rightarrow> ('d, unit) py" where
  "delete_fdb_entry N mac tunnel_name arp_ip part =
     bindM (arp_delete N arp_ip part) (\<lambda>_.
       on_http
         (bindM (ep_exists (ns_fdb N) tunnel_name part) (\<lambda>ex.
          if \<not> ex then retM ()
          else bindM (ep_load (ns_fdb N) tunnel_name part) (\<lambda>_.
               bindM (ns_rec_exists N tunnel_name part mac) (\<lambda>rec.
                 if rec then ns_rec_delete N tunnel_name part mac else retM ()))))
         (retM ()))"

record fdb_record =
  fr_endpoint :: string
  fr_ip :: string

text \<open>\<open>fdb_entries\<close>: per tunnel its folder and its records by MAC.\<close>

type_synonym fdb_entries = "(string \<times> (string \<times> (string \<times> fdb_record) list)) list"

definition add_fdb_entries :: "'d net_sdk \<Rightarrow> fdb_entries \<Rightarrow> ('d, unit) py" where
  "add_fdb_entries N entries =
     forM entries (\<lambda>(tn, folder, records).
       forM records (\<lambda>(mac, r).
         bindM (add_fdb_entry N tn mac (fr_endpoint r) (if fr_ip r = ''0.0.0.0'' then '''' else fr_ip r) folder)
           (\<lambda>_. retM ())))"

definition delete_fdb_entries :: "'d net_sdk \<Rightarrow> fdb_entries \<Rightarrow> ('d, unit) py" where
  "delete_fdb_entries N entries =
     forM entries (\<lambda>(tn, folder, records). forM records (\<lambda>(mac, r). delete_fdb_entry N mac tn None folder))"

text \<open>
  \<open>get_fdb_entry\<close>: all records, or the one of a MAC (a list of at most one here). The handler reads the
  response of the exception, which only an \<open>HTTPError\<close> has.
\<close>

definition get_fdb_entry ::
  "'d net_sdk \<Rightarrow> string \<Rightarrow> string option \<Rightarrow> string \<Rightarrow> ('d, (string \<times> string) list) py" where
  "get_fdb_entry N tunnel_name mac part =
     tryM (bindM (ep_exists (ns_fdb N) tunnel_name part) (\<lambda>ex.
           if \<not> ex then retM []
           else bindM (ep_load (ns_fdb N) tunnel_name part) (\<lambda>t.
                  retM (case mac of
                          None \<Rightarrow> ft_records t
                        | Some m \<Rightarrow> (case find (\<lambda>(k, _). k = m) (ft_records t) of None \<Rightarrow> [] | Some r \<Rightarrow> [r])))))
       (\<lambda>e. if http_status e = None then raiseM AttributeError else retM [])"

definition delete_all_fdb_entries :: "'d net_sdk \<Rightarrow> string \<Rightarrow> string \<Rightarrow> ('d, unit) py" where
  "delete_all_fdb_entries N tunnel_name part =
     on_http (bindM (ep_load (ns_fdb N) tunnel_name part) (\<lambda>t.
                ep_modify (ns_fdb N) tunnel_name part (t\<lparr>ft_records := []\<rparr>))) (retM ())"

definition delete_tunnel :: "'d net_sdk \<Rightarrow> string \<Rightarrow> string \<Rightarrow> ('d, unit) py" where
  "delete_tunnel N tunnel_name part =
     bindM (on_http
              (bindM (ep_exists (ns_fdb N) tunnel_name part) (\<lambda>ex.
               if \<not> ex then retM ()
               else bindM (ep_load (ns_fdb N) tunnel_name part) (\<lambda>t.
                    if ft_records t = [] then retM ()
                    else bindM (forM (ft_records t) (\<lambda>(mac, _). arp_delete_by_mac N mac)) (\<lambda>_.
                         ep_modify (ns_fdb N) tunnel_name part (t\<lparr>ft_records := []\<rparr>)))))
              (retM ())) (\<lambda>_.
       on_http (rh_delete (ns_tunnel N) tunnel_name part) (retM ()))"

definition get_tunnel_folder :: "'d net_sdk \<Rightarrow> string \<Rightarrow> ('d, string option) py" where
  "get_tunnel_folder N tunnel_name =
     bindM (ep_collection (ns_fdb N) None) (\<lambda>ts.
       retM (map_option bn_partition (find (\<lambda>t. bn_name t = tunnel_name) ts)))"

section \<open>Lemmas\<close>

lemma lowest_available_spec:
  assumes "sorted is" and "distinct is" and "\<forall>i \<in> set is. k \<le> i"
  shows "\<exists>n. lowest_available is k = Inr n \<and> k \<le> n \<and> n \<notin> set is \<and> {k..<n} \<subseteq> set is"
  using assms
proof (induction "is" arbitrary: k)
  case Nil
  then show ?case by simp
next
  case (Cons i "is")
  show ?case
  proof (cases "k < i")
    case True
    with Cons.prems show ?thesis by auto
  next
    case False
    with Cons.prems have ik: "i = k" by auto
    have "k + 1 \<le> j" if "j \<in> set is" for j
    proof -
      have "k \<le> j" "j \<noteq> k" using Cons.prems ik that by auto
      then show ?thesis by simp
    qed
    then have "\<forall>j \<in> set is. k + 1 \<le> j" by blast
    with Cons.IH [of "k + 1"] Cons.prems obtain n where n: "lowest_available is (k + 1) = Inr n" "k + 1 \<le> n"
      "n \<notin> set is" "{k + 1..<n} \<subseteq> set is" by auto
    have "{k..<n} \<subseteq> insert k {k + 1..<n}" by auto
    with n(4) have "{k..<n} \<subseteq> set (i # is)" using ik by auto
    with n ik show ?thesis by auto
  qed
qed

text \<open>The least positive id no device uses; \<open>LookupError\<close> cannot happen for non-negative ids.\<close>

lemma next_domain_id_spec:
  assumes "0 \<in> set ids" and "\<forall>i \<in> set ids. 0 \<le> i"
  shows "\<exists>n. next_domain_id ids = Inr n \<and> 1 \<le> n \<and> n \<notin> set ids \<and> (\<forall>m. 1 \<le> m \<and> m < n \<longrightarrow> m \<in> set ids)"
proof -
  let ?l = "remove1 0 (sorted_list_of_set (set ids))"
  have s: "set ?l = set ids - {0}" by (simp add: set_remove1_eq)
  have "sorted ?l" by (simp add: sorted_remove1)
  moreover have "distinct ?l" by simp
  moreover have "\<forall>i \<in> set ?l. 1 \<le> i" using assms(2) s by force
  ultimately obtain n where n: "lowest_available ?l 1 = Inr n" "1 \<le> n" "n \<notin> set ?l" "{1..<n} \<subseteq> set ?l"
    using lowest_available_spec by blast
  have "\<forall>m. 1 \<le> m \<and> m < n \<longrightarrow> m \<in> set ids" using n(4) s by force
  moreover have "n \<notin> set ids" using n(2,3) s by auto
  ultimately show ?thesis using n assms(1) by (auto simp: next_domain_id_def)
qed

lemma get_route_domain_ids_all:
  assumes "\<And>d. d \<in> set ds \<Longrightarrow> ep_collection (ns_rd N) None d = (Inr (rds d), d)"
  shows "get_next_domain_id N ds = (next_domain_id (concat (map (\<lambda>d. map rd_id (rds d)) ds)), ds)"
proof -
  have "for_bigips (\<lambda>acc. bindM (get_route_domain_ids N '''') (\<lambda>ids. retM (acc @ ids))) acc ds
      = (Inr (acc @ concat (map (\<lambda>d. map rd_id (rds d)) ds)), ds)" for acc
    using assms
    by (induction ds arbitrary: acc)
      (simp_all add: get_route_domain_ids_def partition_filter_def py_simps)
  then show ?thesis by (simp add: get_next_domain_id_def)
qed

lemma split_addr_port_v4:
  "CHR '':'' \<notin> set ip \<Longrightarrow> split_addr_port (addr_port ip port) = Inr (ip, str_int port)"
  by (simp add: split_addr_port_def addr_port_def split_on_append)

lemma split_on_length: "length (split_on c s) = Suc (length (filter (\<lambda>x. x = c) s))"
  by (induction s) (auto split: list.splits)

lemma split_addr_port_v6:
  assumes "length (filter (\<lambda>c. c = CHR '':'') ip) \<ge> 2" and "CHR ''.'' \<notin> set ip"
  shows "split_addr_port (addr_port ip port) = Inr (ip, str_int port)"
proof -
  have "filter (\<lambda>c. c = CHR '':'') ip \<noteq> []"
  proof
    assume "filter (\<lambda>c. c = CHR '':'') ip = []"
    with assms(1) show False by simp
  qed
  then have "CHR '':'' \<in> set ip" by (auto simp: filter_empty_conv)
  with assms show ?thesis
    by (simp add: split_addr_port_def addr_port_def split_on_length split_on_append)
qed

lemma add_vlan_idempotent:
  assumes "name \<in> set (rd_vlans rd)"
  shows "add_vlan_to_rd N name rd = retM False"
  using assms by (simp add: add_vlan_to_rd_def)

end
