(* ===== verification/Vcmp.thy ===== *)
theory Vcmp
  imports NetworkHelper ServiceQueue
begin

text \<open>
  \<open>vcmp.py\<close>: the vCMP hosts of the devices that are vCMP guests, and the association of a VLAN of the
  host with a guest. A host keeps the guest objects it loaded; \<open>get_vcmp_guest\<close> refreshes one, the use
  count reads all as they are kept. References to hosts and guests are their positions.

  The lemmas: a found host has the device as a guest, and a VLAN another guest still uses is not
  deleted from the host.
\<close>

section \<open>Data\<close>

record 'd vcmp_host =
  vh_bigip :: "'d bigip"
  vh_guests :: "vcmp_guest list"

record 'd vcmp_state =
  vc_hosts :: "'d vcmp_host list"
  vc_bigip :: "'d bigip" \<comment> \<open>the device the call is about\<close>

definition common_vlan :: "string \<Rightarrow> string" where
  "common_vlan name = ''/Common/'' @ name"

definition on_host :: "nat \<Rightarrow> ('d, 'a) py \<Rightarrow> (('d, 'z) vcmp_state_scheme, 'a) py" where
  "on_host k m s =
     (let h = vc_hosts s ! k in
      case on_dev m (vh_bigip h) of
        (r, b) \<Rightarrow> (r, s\<lparr>vc_hosts := (vc_hosts s)[k := h\<lparr>vh_bigip := b\<rparr>]\<rparr>))"

definition on_guest_device :: "('d, 'a) py \<Rightarrow> (('d, 'z) vcmp_state_scheme, 'a) py" where
  "on_guest_device m s = (case on_dev m (vc_bigip s) of (r, b) \<Rightarrow> (r, s\<lparr>vc_bigip := b\<rparr>))"

definition put_guest :: "nat \<Rightarrow> nat \<Rightarrow> vcmp_guest \<Rightarrow> ('d, 'z) vcmp_state_scheme \<Rightarrow> ('d, 'z) vcmp_state_scheme" where
  "put_guest k j g s =
     (let h = vc_hosts s ! k in s\<lparr>vc_hosts := (vc_hosts s)[k := h\<lparr>vh_guests := (vh_guests h)[j := g]\<rparr>]\<rparr>)"

definition guest_at :: "nat \<Rightarrow> nat \<Rightarrow> ('d, 'z) vcmp_state_scheme \<Rightarrow> vcmp_guest" where
  "guest_at k j s = vh_guests (vc_hosts s ! k) ! j"

section \<open>Finding hosts and guests\<close>

fun find_guest :: "string \<Rightarrow> vcmp_guest list \<Rightarrow> exn + nat option" where
  "find_guest hostname [] = Inr None"
| "find_guest hostname (g # gs) =
     bindE (strip_cidr_netmask (vg_managementIp g)) (\<lambda>ip.
       if ip = hostname then Inr (Some 0)
       else bindE (find_guest hostname gs) (\<lambda>j. Inr (map_option Suc j)))"

fun find_host :: "string \<Rightarrow> 'd vcmp_host list \<Rightarrow> exn + nat option" where
  "find_host hostname [] = Inr None"
| "find_host hostname (h # hs) =
     bindE (find_guest hostname (vh_guests h)) (\<lambda>j.
       case j of Some _ \<Rightarrow> Inr (Some 0)
       | None \<Rightarrow> bindE (find_host hostname hs) (\<lambda>k. Inr (map_option Suc k)))"

definition get_vcmp_guest :: "'d net_sdk \<Rightarrow> nat \<Rightarrow> (('d, 'z) vcmp_state_scheme, nat option) py" where
  "get_vcmp_guest N k =
     bindM (\<lambda>s. (find_guest (b_hostname (vc_bigip s)) (vh_guests (vc_hosts s ! k)), s)) (\<lambda>j.
       case j of
         None \<Rightarrow> retM None
       | Some j \<Rightarrow>
           bindM (getsM (guest_at k j)) (\<lambda>g.
           bindM (on_host k (ns_guest_load N (vg_name g))) (\<lambda>g'.
           bindM (modifyM (put_guest k j g')) (\<lambda>_. retM (Some j)))))"

definition get_vcmp_host :: "'d net_sdk \<Rightarrow> (('d, 'z) vcmp_state_scheme, nat option) py" where
  "get_vcmp_host N =
     bindM (\<lambda>s. (find_host (b_hostname (vc_bigip s)) (vc_hosts s), s)) (\<lambda>k.
       case k of
         None \<Rightarrow> retM None
       | Some k \<Rightarrow> bindM (on_host k (ns_tm_refresh N)) (\<lambda>_. retM (Some k)))"

section \<open>Start\<close>

definition licence_text :: string where
  "licence_text = ''One of the following features must be licensed/provisioned for the URI vcmp : vcmp''"

text \<open>One host of \<open>icontrol_vcmp_hostname\<close>; \<open>connect\<close> is \<open>ManagementRoot\<close>.\<close>

definition init_vcmp_host ::
  "'d net_sdk \<Rightarrow> (string \<Rightarrow> exn + 'd bigip) \<Rightarrow> string list \<Rightarrow> string \<Rightarrow> exn + 'd vcmp_host" where
  "init_vcmp_host N connect bigip_hosts hostname =
     bindE (connect hostname) (\<lambda>b.
     case on_dev (ns_guests N) b of
       (Inl (HTTPError n t), _) \<Rightarrow>
         Inl (if n = 400 \<and> contains_str licence_text t then F5 BigIPNotLicensedForVcmp else HTTPError n t)
     | (Inl e, _) \<Rightarrow> Inl e
     | (Inr gs, b') \<Rightarrow>
         bindE (mapE (\<lambda>g. bindE (strip_cidr_netmask (vg_managementIp g)) (\<lambda>ip. Inr (ip, g))) gs) (\<lambda>igs.
           Inr \<lparr>vh_bigip = b', vh_guests = map snd (filter (\<lambda>(ip, g). ip \<in> set bigip_hosts) igs)\<rparr>))"

definition init_vcmp_hosts ::
  "'d net_sdk \<Rightarrow> (string \<Rightarrow> exn + 'd bigip) \<Rightarrow> string list \<Rightarrow> string \<Rightarrow> exn + 'd vcmp_host list" where
  "init_vcmp_hosts N connect bigip_hosts hostnames =
     (if hostnames = '''' then Inr []
      else mapE (init_vcmp_host N connect bigip_hosts) (split_on CHR '','' hostnames))"

text \<open>\<open>_check_vcmp_host_assignments\<close> for one device: it only logs, but its lookups may raise.\<close>

definition check_vcmp_host_assignment :: "'d net_sdk \<Rightarrow> (('d, 'z) vcmp_state_scheme, unit) py" where
  "check_vcmp_host_assignment N =
     bindM (on_guest_device (ns_platform_id N)) (\<lambda>p.
       if p = ''Z101'' then bindM (get_vcmp_host N) (\<lambda>_. retM ()) else retM ())"

section \<open>VLANs of guests\<close>

definition check_guest_vlans :: "vcmp_guest \<Rightarrow> string \<Rightarrow> bool" where
  "check_guest_vlans g full_path = (case vg_vlans g of None \<Rightarrow> False | Some vs \<Rightarrow> full_path \<in> set vs)"

definition get_vlan_use_count :: "'d vcmp_host \<Rightarrow> string \<Rightarrow> nat" where
  "get_vlan_use_count h name = length (filter (\<lambda>g. check_guest_vlans g (common_vlan name)) (vh_guests h))"

definition is_vlan_assoc_with_vcmp_guest :: "'d net_sdk \<Rightarrow> string \<Rightarrow> (('d, 'z) vcmp_state_scheme, bool) py" where
  "is_vlan_assoc_with_vcmp_guest N name =
     tryM (bindM (get_vcmp_host N) (\<lambda>k.
           case k of
             None \<Rightarrow> raiseM TypeError
           | Some k \<Rightarrow> bindM (get_vcmp_guest N k) (\<lambda>j.
               case j of
                 None \<Rightarrow> raiseM AttributeError
               | Some j \<Rightarrow> getsM (\<lambda>s. check_guest_vlans (guest_at k j s) (common_vlan name)))))
       (\<lambda>_. retM False)"

text \<open>At most thirty looks, one second apart, for the VLAN to appear in /Common of the guest.\<close>

fun wait_vlan :: "'d net_sdk \<Rightarrow> string \<Rightarrow> nat \<Rightarrow> ('d, bool) py" where
  "wait_vlan N name 0 = retM False"
| "wait_vlan N name (Suc n) =
     bindM (ns_sleep N) (\<lambda>_.
     bindM (ep_exists (ns_vlan N) name ''Common'') (\<lambda>ex.
       if ex then bindM (ep_load (ns_vlan N) name ''Common'') (\<lambda>_. retM True) else wait_vlan N name n))"

text \<open>The \<open>append\<close> changes the list the guest object keeps, when it has one, even if \<open>modify\<close> fails.\<close>

definition append_guest_vlan :: "'d net_sdk \<Rightarrow> nat \<Rightarrow> nat \<Rightarrow> string \<Rightarrow> (('d, 'z) vcmp_state_scheme, unit) py" where
  "append_guest_vlan N k j name =
     bindM (getsM (guest_at k j)) (\<lambda>g.
     bindM (case vg_vlans g of
              None \<Rightarrow> retM () | Some vs \<Rightarrow> modifyM (put_guest k j (g\<lparr>vg_vlans := Some (vs @ [name])\<rparr>))) (\<lambda>_.
       tryM (bindM (on_host k (ns_guest_modify N (vg_name g) (get_or [] (vg_vlans g) @ [name])))
               (\<lambda>g'. modifyM (put_guest k j g')))
         (\<lambda>_. retM ())))"

definition assoc_vlan_with_vcmp_guest :: "'d net_sdk \<Rightarrow> string \<Rightarrow> (('d, 'z) vcmp_state_scheme, unit) py" where
  "assoc_vlan_with_vcmp_guest N name =
     bindM (is_vlan_assoc_with_vcmp_guest N name) (\<lambda>assoc.
     if assoc then retM ()
     else bindM (get_vcmp_host N) (\<lambda>k.
       case k of
         None \<Rightarrow> raiseM TypeError
       | Some k \<Rightarrow> bindM (get_vcmp_guest N k) (\<lambda>j.
           case j of
             None \<Rightarrow> raiseM AttributeError
           | Some j \<Rightarrow>
               bindM (append_guest_vlan N k j name) (\<lambda>_.
               bindM (tryM (on_guest_device (wait_vlan N name 30)) (\<lambda>_. retM False)) (\<lambda>created.
                 if created
                 then tryM (on_guest_device (ep_delete (ns_vlan N) name ''Common'')) (\<lambda>_. retM ())
                 else retM ())))))"

text \<open>As for \<open>append\<close>: \<open>remove\<close> changes the kept list before \<open>modify\<close> is tried.\<close>

definition remove_guest_vlan :: "'d net_sdk \<Rightarrow> nat \<Rightarrow> nat \<Rightarrow> string \<Rightarrow> (('d, 'z) vcmp_state_scheme, unit) py" where
  "remove_guest_vlan N k j name =
     bindM (getsM (guest_at k j)) (\<lambda>g.
       case vg_vlans g of
         None \<Rightarrow> retM ()
       | Some vs \<Rightarrow>
           if common_vlan name \<notin> set vs then retM ()
           else
             let vs' = remove1 (common_vlan name) vs in
             bindM (modifyM (put_guest k j (g\<lparr>vg_vlans := Some vs'\<rparr>))) (\<lambda>_.
               tryM (bindM (on_host k (ns_guest_modify N (vg_name g) vs')) (\<lambda>g'. modifyM (put_guest k j g')))
                 (\<lambda>_. retM ())))"

definition disassoc_vlan_with_vcmp_guest :: "'d net_sdk \<Rightarrow> string \<Rightarrow> (('d, 'z) vcmp_state_scheme, unit) py" where
  "disassoc_vlan_with_vcmp_guest N name =
     bindM (get_vcmp_host N) (\<lambda>k.
       case k of
         None \<Rightarrow> raiseM TypeError
       | Some k \<Rightarrow> bindM (get_vcmp_guest N k) (\<lambda>j.
           case j of
             None \<Rightarrow> raiseM AttributeError
           | Some j \<Rightarrow>
               bindM (remove_guest_vlan N k j name) (\<lambda>_.
               bindM (getsM (\<lambda>s. get_vlan_use_count (vc_hosts s ! k) name)) (\<lambda>count.
                 if count > 0 then retM ()
                 else tryM (on_host k (bindM (ep_load (ns_vlan N) name ''Common'')
                                         (\<lambda>_. ep_delete (ns_vlan N) name ''Common'')))
                        (\<lambda>_. retM ())))))"

section \<open>Lemmas\<close>

lemma find_guest_Some:
  "find_guest hn gs = Inr (Some j) \<Longrightarrow>
     j < length gs \<and> strip_cidr_netmask (vg_managementIp (gs ! j)) = Inr hn"
  by (induction gs arbitrary: j) (auto simp: bindE_eq_Inr split: if_splits)

lemma find_host_Some:
  "find_host hn hs = Inr (Some k) \<Longrightarrow>
     k < length hs \<and> (\<exists>g \<in> set (vh_guests (hs ! k)). strip_cidr_netmask (vg_managementIp g) = Inr hn)"
proof (induction hs arbitrary: k)
  case (Cons h hs)
  then show ?case
    by (auto simp: bindE_eq_Inr split: option.splits dest!: find_guest_Some)
qed simp

lemma get_vlan_use_count_pos:
  "get_vlan_use_count h name > 0 \<longleftrightarrow> (\<exists>g \<in> set (vh_guests h). check_guest_vlans g (common_vlan name))"
  by (auto simp: get_vlan_use_count_def filter_empty_conv)

text \<open>What a guest other than the one concerned keeps is not touched.\<close>

definition guest_has :: "nat \<Rightarrow> nat \<Rightarrow> string \<Rightarrow> ('d, 'z) vcmp_state_scheme \<Rightarrow> bool" where
  "guest_has k i name s \<longleftrightarrow> k < length (vc_hosts s) \<and> i < length (vh_guests (vc_hosts s ! k)) \<and>
     check_guest_vlans (guest_at k i s) (common_vlan name)"

lemma guest_has_put: "i \<noteq> j \<Longrightarrow> guest_has k i name (put_guest k j g s) \<longleftrightarrow> guest_has k i name s"
  by (auto simp: guest_has_def put_guest_def guest_at_def Let_def)

lemma guest_has_on_host: "on_host k m s = (r, s') \<Longrightarrow> guest_has k i name s' \<longleftrightarrow> guest_has k i name s"
  by (auto simp: guest_has_def on_host_def guest_at_def Let_def split: prod.splits)

lemma guest_has_modify:
  assumes "i \<noteq> j"
    and "tryM (bindM (on_host k m) (\<lambda>g. modifyM (put_guest k j g))) (\<lambda>_. retM ()) s = (r, s')"
  shows "guest_has k i name s' \<longleftrightarrow> guest_has k i name s"
proof -
  obtain r1 s1 where m: "on_host k m s = (r1, s1)" by (cases "on_host k m s") auto
  with guest_has_on_host [OF m, of i name] assms show ?thesis
    by (cases r1) (auto simp: py_simps guest_has_put)
qed

lemma guest_has_remove:
  assumes "i \<noteq> j" and "remove_guest_vlan N k j name s = (r, s')"
  shows "guest_has k i name s' \<longleftrightarrow> guest_has k i name s"
proof (cases "vg_vlans (guest_at k j s)")
  case None
  with assms show ?thesis by (simp add: remove_guest_vlan_def py_simps)
next
  case (Some vs)
  show ?thesis
  proof (cases "common_vlan name \<in> set vs")
    case False
    with Some assms show ?thesis by (simp add: remove_guest_vlan_def py_simps)
  next
    case True
    let ?g = "guest_at k j s" and ?vs = "remove1 (common_vlan name) vs"
    let ?s = "put_guest k j (?g\<lparr>vg_vlans := Some ?vs\<rparr>) s"
    from True Some assms(2)
    have "tryM (bindM (on_host k (ns_guest_modify N (vg_name ?g) ?vs)) (\<lambda>g. modifyM (put_guest k j g)))
        (\<lambda>_. retM ()) ?s = (r, s')"
      by (simp add: remove_guest_vlan_def bindM_def getsM_def modifyM_def Let_def)
    from guest_has_modify [OF assms(1) this] show ?thesis by (simp add: guest_has_put [OF assms(1)])
  qed
qed

lemma guest_has_count: "guest_has k i name s \<Longrightarrow> get_vlan_use_count (vc_hosts s ! k) name > 0"
  by (auto simp: guest_has_def get_vlan_use_count_pos guest_at_def)

end
