(* ===== verification/L2Service.thy ===== *)
theory L2Service
  imports Vcmp
begin

text \<open>
  \<open>l2_service.py\<close>, with \<open>fdb_connector_ml2.py\<close>: VLANs and tunnels of the Neutron networks on a device,
  the FDB records of the VTEPs behind load balancers and members, and those of the L2 population
  messages. \<open>net_env\<close> holds what the network components share: the configuration, the SDK, Neutron
  (\<open>rpc\<close>, over the state \<open>'w\<close> outside the agent) and the interface mappings. \<open>l2\<close> is the state of an
  operation on one device.

  The lemmas: the mapping of a network, the name of its VLAN, \<open>fdb_table\<close> as the specification of
  the records of a message.
\<close>

section \<open>The environment\<close>

record port =
  pt_id :: string
  pt_mac :: string
  pt_device_id :: string
  pt_fixed_ips :: "(string \<times> string) list option" \<comment> \<open>subnet, address\<close>

record vtep_notice =
  vn_network :: string
  vn_vtep :: "string option"
  vn_entry :: "string \<times> string"
  vn_type :: "string option"
  vn_segment :: "int option"

record 'w rpc =
  rpc_get_port_by_name :: "string \<Rightarrow> ('w, port list) py"
  rpc_create_port_on_subnet :: "string \<Rightarrow> string \<Rightarrow> string \<Rightarrow> string \<Rightarrow> ('w, port option) py"
    \<comment> \<open>subnet, name, device id, vnic type\<close>
  rpc_create_port_with_ip :: "string \<Rightarrow> string \<Rightarrow> string \<Rightarrow> ('w, port) py" \<comment> \<open>subnet, name, address\<close>
  rpc_create_port_on_network :: "string \<Rightarrow> string \<Rightarrow> ('w, unit) py"
  rpc_delete_port_by_name :: "string \<Rightarrow> ('w, unit) py"
  rpc_add_allowed_address :: "string \<Rightarrow> string \<Rightarrow> ('w, unit) py" \<comment> \<open>port, address\<close>
  rpc_remove_allowed_address :: "string \<Rightarrow> string \<Rightarrow> ('w, unit) py"
  rpc_get_ports_for_macs :: "string list \<Rightarrow> ('w, port list) py"
  rpc_vtep_added :: "(vtep_notice \<Rightarrow> ('w, unit) py) option" \<comment> \<open>\<open>None\<close> without an L2 population RPC\<close>
  rpc_vtep_removed :: "(vtep_notice \<Rightarrow> ('w, unit) py) option"
  rpc_tunnel_sync :: "(string \<Rightarrow> string \<Rightarrow> ('w, unit) py) option" \<comment> \<open>tunnel address, type\<close>

text \<open>A configured VLAN binding driver.\<close>

record 'w vlan_binding =
  vb_allow :: "string \<Rightarrow> string option \<Rightarrow> int option \<Rightarrow> ('w, unit) py" \<comment> \<open>device, interface, VLAN\<close>
  vb_prune :: "string \<Rightarrow> string option \<Rightarrow> int option \<Rightarrow> ('w, unit) py"

record ('ip, 'net, 'd, 'w) net_env =
  ne_conf :: conf
  ne_adapter :: adapter
  ne_net :: "'d net_sdk"
  ne_ltm :: "'d sdk"
  ne_lib :: "('ip, 'net) netlib"
  ne_rpc :: "'w rpc"
  ne_mapping :: "(string \<times> string \<times> string) list" \<comment> \<open>\<open>interface_mapping\<close> and \<open>tagging_mapping\<close>, set together\<close>
  ne_vlan_binding :: "'w vlan_binding option"
  ne_random_mac :: "int list"
  ne_traffic_group :: "string option \<Rightarrow> exn + string" \<comment> \<open>\<open>tenant_to_traffic_group\<close> of the driver\<close>

record ('d, 'w) l2 = "'d vcmp_state" +
  l2_world :: 'w

definition on_world :: "('w, 'a) py \<Rightarrow> (('d, 'w, 'z) l2_scheme, 'a) py" where
  [py_simps]: "on_world m s = (case m (l2_world s) of (r, w) \<Rightarrow> (r, s\<lparr>l2_world := w\<rparr>))"

definition fdb_connector :: "('ip, 'net, 'd, 'w) net_env \<Rightarrow> bool" where
  "fdb_connector E \<longleftrightarrow> \<not> f5_global_routed_mode (ne_conf E)"

section \<open>Interface mappings\<close>

definition read_mapping :: "string \<Rightarrow> exn + string \<times> string \<times> string" where
  "read_mapping maps =
     (case split_on CHR '':'' maps of
        k # i # t # rest \<Rightarrow>
          Inr (case rest of [] \<Rightarrow> strip k | h # _ \<Rightarrow> strip k @ '':'' @ strip h, strip i, strip t)
      | _ \<Rightarrow> Inl IndexError)"

fun read_mappings ::
  "string list \<Rightarrow> (string \<times> string \<times> string) list \<Rightarrow> exn + (string \<times> string \<times> string) list" where
  "read_mappings [] m = Inr m"
| "read_mappings (maps # rest) m =
     bindE (read_mapping maps) (\<lambda>(k, v). read_mappings rest (AList.update k v m))"

text \<open>Host specific, then the network's own, then the default mapping; no default raises \<open>KeyError\<close>.\<close>

definition find_mapping ::
  "(string \<times> string \<times> string) list \<Rightarrow> string option \<Rightarrow> string \<Rightarrow> exn + string \<times> string" where
  "find_mapping m net_key hostname =
     (case net_key of
        None \<Rightarrow> subE (map_of m ''default'')
      | Some k \<Rightarrow>
          if k = '''' then subE (map_of m ''default'')
          else (case map_of m (k @ '':'' @ hostname) of
                  Some v \<Rightarrow> Inr v
                | None \<Rightarrow> (case map_of m k of Some v \<Rightarrow> Inr v | None \<Rightarrow> subE (map_of m ''default''))))"

text \<open>\<open>_assure_device_network_*\<close> read the default mapping before they look for a better one.\<close>

definition device_mapping ::
  "(string \<times> string \<times> string) list \<Rightarrow> string option \<Rightarrow> string \<Rightarrow> exn + string \<times> string" where
  "device_mapping m net_key hostname =
     bindE (subE (map_of m ''default'')) (\<lambda>_. find_mapping m net_key hostname)"

text \<open>The tag of a mapping is its text; every text but the empty one is true.\<close>

definition vlan_tag_of :: "string \<Rightarrow> network \<Rightarrow> int option" where
  "vlan_tag_of tagged net = (if tagged \<noteq> '''' then net_segmentation_id net else Some 0)"

definition get_vlan_name :: "('ip, 'net, 'd, 'w) net_env \<Rightarrow> network \<Rightarrow> string \<Rightarrow> exn + string" where
  "get_vlan_name E net hostname =
     bindE (find_mapping (ne_mapping E) (net_physical net) hostname) (\<lambda>(interface, tagged).
       if net_type net = Some ''flat''
       then Inr (''flat-'' @ map (\<lambda>c. if c = CHR ''.'' then CHR ''-'' else c) interface)
       else (case vlan_tag_of tagged net of None \<Rightarrow> Inl TypeError | Some i \<Rightarrow> Inr (''vlan-'' @ str_int i)))"

section \<open>Networks\<close>

definition is_common_network :: "conf \<Rightarrow> network \<Rightarrow> bool" where
  "is_common_network c net \<longleftrightarrow>
     net_shared net \<or> f5_common_networks c \<or> net_id net \<in> fst ` set (common_network_ids c) \<or>
     (net_external net = Some True \<and> f5_common_external_networks c)"

definition str_opt :: "('a \<Rightarrow> string) \<Rightarrow> 'a option \<Rightarrow> string" where
  "str_opt f v = (case v of None \<Rightarrow> ''None'' | Some x \<Rightarrow> f x)"

definition get_tunnel_name :: "string option \<Rightarrow> int option \<Rightarrow> string" where
  "get_tunnel_name ty seg = ''tunnel-'' @ str_opt id ty @ ''-'' @ str_opt str_int seg"

definition tunnel_name_of :: "network \<Rightarrow> string" where
  "tunnel_name_of net = get_tunnel_name (net_type net) (net_segmentation_id net)"

definition get_network_folder :: "('ip, 'net, 'd, 'w) net_env \<Rightarrow> network \<Rightarrow> string" where
  "get_network_folder E net =
     (if is_common_network (ne_conf E) net then ''Common'' else get_folder_name (ne_adapter E) (net_tenant_id net))"

definition get_network_name ::
  "('ip, 'net, 'd, 'w) net_env \<Rightarrow> string \<Rightarrow> network \<Rightarrow> exn + string \<times> bool" where
  "get_network_name E hostname net =
     (case map_of (common_network_ids (ne_conf E)) (net_id net) of
        Some n \<Rightarrow> Inr (n, True)
      | None \<Rightarrow>
          if net_type net = Some ''vlan'' \<or> net_type net = Some ''flat''
          then bindE (get_vlan_name E net hostname) (\<lambda>n. Inr (n, False))
          else if net_type net = Some ''vxlan'' \<or> net_type net = Some ''gre'' then Inr (tunnel_name_of net, False)
          else Inl (F5 InvalidNetworkType))"

section \<open>Notices of \<open>fdb_connector_ml2.py\<close>\<close>

definition flooding_entry :: "string \<times> string" where
  "flooding_entry = (''00:00:00:00:00:00'', ''0.0.0.0'')"

definition notice_of :: "network \<Rightarrow> string option \<Rightarrow> vtep_notice" where
  "notice_of net vtep =
     \<lparr>vn_network = net_id net, vn_vtep = vtep, vn_entry = flooding_entry, vn_type = net_type net,
      vn_segment = net_segmentation_id net\<rparr>"

definition notify_vtep_added ::
  "('ip, 'net, 'd, 'w) net_env \<Rightarrow> network \<Rightarrow> string option \<Rightarrow> ('w, unit) py" where
  "notify_vtep_added E net vtep =
     (case rpc_vtep_added (ne_rpc E) of
        None \<Rightarrow> retM () | Some f \<Rightarrow> if l2_population (ne_conf E) then f (notice_of net vtep) else retM ())"

definition notify_vtep_removed ::
  "('ip, 'net, 'd, 'w) net_env \<Rightarrow> network \<Rightarrow> string option \<Rightarrow> ('w, unit) py" where
  "notify_vtep_removed E net vtep =
     (case rpc_vtep_removed (ne_rpc E) of
        None \<Rightarrow> retM () | Some f \<Rightarrow> if l2_population (ne_conf E) then f (notice_of net vtep) else retM ())"

definition advertise_tunnel_ip :: "('ip, 'net, 'd, 'w) net_env \<Rightarrow> (string \<Rightarrow> string \<Rightarrow> ('w, unit) py) \<Rightarrow> string \<Rightarrow> ('w, unit) py" where
  "advertise_tunnel_ip E f ip =
     tryM (forM (advertised_tunnel_types (ne_conf E)) (\<lambda>ty. f ip ty)) (\<lambda>_. retM ())"

definition tunnel_sync :: "('ip, 'net, 'd, 'w) net_env \<Rightarrow> string list \<Rightarrow> ('w, unit) py" where
  "tunnel_sync E ips =
     (if \<not> fdb_connector E then retM ()
      else case rpc_tunnel_sync (ne_rpc E) of None \<Rightarrow> retM () | Some f \<Rightarrow> forM ips (advertise_tunnel_ip E f))"

section \<open>Assuring a network on a device\<close>

text \<open>The VLAN on the vCMP host, whose failure is only logged, and its association with the guest.\<close>

definition network_vlan_model ::
  "string \<Rightarrow> string \<Rightarrow> int \<Rightarrow> string option \<Rightarrow> network \<Rightarrow> exn + vlan_model" where
  "network_vlan_model name part tag interface net =
     bindE (subE (net_route_domain_id net)) (\<lambda>rd.
       Inr \<lparr>vm_name = name, vm_partition = part, vm_tag = tag, vm_description = Some (net_id net),
            vm_interface = interface, vm_route_domain_id = rd\<rparr>)"

definition assure_vcmp_device_network ::
  "('ip, 'net, 'd, 'w) net_env \<Rightarrow> string \<Rightarrow> int \<Rightarrow> string \<Rightarrow> network \<Rightarrow> (('d, 'z) vcmp_state_scheme, unit) py" where
  "assure_vcmp_device_network E name vlanid interface net =
     bindM (get_vcmp_host (ne_net E)) (\<lambda>k.
       case k of
         None \<Rightarrow> retM ()
       | Some k \<Rightarrow>
           bindM (liftM (network_vlan_model name ''Common'' vlanid (Some interface) net)) (\<lambda>m.
           bindM (tryM (bindM (on_host k (create_vlan (ne_net E) m)) (\<lambda>_. retM ())) (\<lambda>_. retM ())) (\<lambda>_.
             assoc_vlan_with_vcmp_guest (ne_net E) name)))"

text \<open>A guest gets its VLANs from the host, without an interface.\<close>

definition guest_interface ::
  "('ip, 'net, 'd, 'w) net_env \<Rightarrow> string \<Rightarrow> (('d, 'z) vcmp_state_scheme, string option) py" where
  "guest_interface E interface =
     bindM (get_vcmp_host (ne_net E)) (\<lambda>k. retM (if k = None then Some interface else None))"

definition create_network_vlan ::
  "('ip, 'net, 'd, 'w) net_env \<Rightarrow> string \<Rightarrow> string \<Rightarrow> int \<Rightarrow> string option \<Rightarrow> network
     \<Rightarrow> (('d, 'z) vcmp_state_scheme, unit) py" where
  "create_network_vlan E name folder tag interface net =
     tryM (bindM (liftM (network_vlan_model name folder tag interface net)) (\<lambda>m.
           bindM (on_guest_device (create_vlan (ne_net E) m)) (\<lambda>_. retM ())))
       (\<lambda>_. raiseM (F5 VLANCreationException))"

definition assure_device_network_flat ::
  "('ip, 'net, 'd, 'w) net_env \<Rightarrow> network \<Rightarrow> string \<Rightarrow> (('d, 'w, 'z) l2_scheme, string) py" where
  "assure_device_network_flat E net folder =
     bindM (getsM (\<lambda>s. b_hostname (vc_bigip s))) (\<lambda>hostname.
     bindM (liftM (device_mapping (ne_mapping E) (net_physical net) hostname)) (\<lambda>(interface, _).
     bindM (liftM (get_vlan_name E net hostname)) (\<lambda>name.
     bindM (assure_vcmp_device_network E name 0 interface net) (\<lambda>_.
     bindM (guest_interface E interface) (\<lambda>interface'.
     bindM (create_network_vlan E name folder 0 interface' net) (\<lambda>_. retM name))))))"

text \<open>A tagged network without a segmentation id fails in \<open>get_vlan_name\<close>.\<close>

definition assure_device_network_vlan ::
  "('ip, 'net, 'd, 'w) net_env \<Rightarrow> network \<Rightarrow> string \<Rightarrow> (('d, 'w, 'z) l2_scheme, string) py" where
  "assure_device_network_vlan E net folder =
     bindM (getsM (\<lambda>s. b_hostname (vc_bigip s))) (\<lambda>hostname.
     bindM (liftM (device_mapping (ne_mapping E) (net_physical net) hostname)) (\<lambda>(interface, tagged).
     bindM (liftM (get_vlan_name E net hostname)) (\<lambda>name.
     bindM (liftM (case vlan_tag_of tagged net of None \<Rightarrow> Inl TypeError | Some i \<Rightarrow> Inr i)) (\<lambda>vlanid.
     bindM (assure_vcmp_device_network E name vlanid interface net) (\<lambda>_.
     bindM (guest_interface E interface) (\<lambda>interface'.
     bindM (create_network_vlan E name folder vlanid interface' net) (\<lambda>_.
     bindM (case ne_vlan_binding E of
              None \<Rightarrow> retM ()
            | Some vb \<Rightarrow>
                bindM (getsM (\<lambda>s. b_device_name (vc_bigip s))) (\<lambda>dev.
                  on_world (vb_allow vb dev interface' (Some vlanid))))
       (\<lambda>_. retM name))))))))"

definition assure_device_tunnel ::
  "('ip, 'net, 'd, 'w) net_env \<Rightarrow> string \<Rightarrow> network \<Rightarrow> string \<Rightarrow> (('d, 'w, 'z) l2_scheme, string) py" where
  "assure_device_tunnel E profile net folder =
     bindM (getsM (\<lambda>s. b_local_ip (vc_bigip s))) (\<lambda>local_ip.
     if local_ip = None \<or> local_ip = Some '''' then raiseM (F5 MissingVTEPAddress)
     else
       bindM (liftM (subE (net_route_domain_id net))) (\<lambda>rd.
       let name = tunnel_name_of net;
           payload = \<lparr>bn_name = name, bn_partition = folder, tu_profile = Some profile,
                      tu_description = Some (net_id net), tu_key = net_segmentation_id net,
                      tu_localAddress = local_ip, tu_remoteAddress = None\<rparr> in
       bindM (tryM (bindM (on_guest_device (create_multipoint_tunnel (ne_net E) payload rd)) (\<lambda>_. retM ()))
                (\<lambda>_. raiseM (F5 VXLANCreationException))) (\<lambda>_.
       bindM (if fdb_connector E then on_world (notify_vtep_added E net local_ip) else retM ())
         (\<lambda>_. retM name))))"

definition assure_device_network_vxlan ::
  "('ip, 'net, 'd, 'w) net_env \<Rightarrow> network \<Rightarrow> string \<Rightarrow> (('d, 'w, 'z) l2_scheme, string) py" where
  "assure_device_network_vxlan E = assure_device_tunnel E ''vxlan_ovs''"

definition assure_device_network_gre ::
  "('ip, 'net, 'd, 'w) net_env \<Rightarrow> network \<Rightarrow> string \<Rightarrow> (('d, 'w, 'z) l2_scheme, string) py" where
  "assure_device_network_gre E = assure_device_tunnel E ''gre_ovs''"

definition assure_network_type ::
  "('ip, 'net, 'd, 'w) net_env \<Rightarrow> network \<Rightarrow> string \<Rightarrow> (('d, 'w, 'z) l2_scheme, string) py" where
  "assure_network_type E net folder =
     (if net_type net = Some ''flat'' then assure_device_network_flat E net folder
      else if net_type net = Some ''vlan'' then assure_device_network_vlan E net folder
      else if net_type net = Some ''vxlan'' then assure_device_network_vxlan E net folder
      else if net_type net = Some ''gre'' then assure_device_network_gre E net folder
      else if net_type net = Some ''opflex'' then raiseM (F5 NetworkNotReady)
      else raiseM (F5 InvalidNetworkType))"

definition assured_network :: "string \<Rightarrow> string \<Rightarrow> ('d, 'z) vcmp_state_scheme \<Rightarrow> ('d, 'z) vcmp_state_scheme" where
  "assured_network i name s =
     s\<lparr>vc_bigip := (vc_bigip s)\<lparr>b_assured_networks := AList.update i name (b_assured_networks (vc_bigip s))\<rparr>\<rparr>"

definition assure_bigip_network ::
  "('ip, 'net, 'd, 'w) net_env \<Rightarrow> network option \<Rightarrow> (('d, 'w, 'z) l2_scheme, unit) py" where
  "assure_bigip_network E network =
     (case network of
        None \<Rightarrow> retM ()
      | Some net \<Rightarrow>
          bindM (getsM (\<lambda>s. b_assured_networks (vc_bigip s))) (\<lambda>assured.
          if map_of assured (net_id net) \<noteq> None then retM ()
          else if net_id net \<in> fst ` set (common_network_ids (ne_conf E)) then retM ()
          else bindM (assure_network_type E net (get_network_folder E net))
                 (\<lambda>name. modifyM (assured_network (net_id net) name))))"

section \<open>Deleting a network from a device\<close>

definition delete_vcmp_device_network ::
  "('ip, 'net, 'd, 'w) net_env \<Rightarrow> string \<Rightarrow> (('d, 'z) vcmp_state_scheme, unit) py" where
  "delete_vcmp_device_network E name =
     bindM (get_vcmp_host (ne_net E)) (\<lambda>k.
       if k = None then retM () else disassoc_vlan_with_vcmp_guest (ne_net E) name)"

definition try_delete_vlan ::
  "('ip, 'net, 'd, 'w) net_env \<Rightarrow> string \<Rightarrow> string \<Rightarrow> (('d, 'z) vcmp_state_scheme, unit) py" where
  "try_delete_vlan E name folder =
     tryM (on_guest_device (delete_vlan (ne_net E) name folder)) (\<lambda>_. retM ())"

definition delete_device_vlan ::
  "('ip, 'net, 'd, 'w) net_env \<Rightarrow> network \<Rightarrow> string \<Rightarrow> (('d, 'w, 'z) l2_scheme, unit) py" where
  "delete_device_vlan E net folder =
     bindM (getsM (\<lambda>s. vc_bigip s)) (\<lambda>b.
     bindM (liftM (get_vlan_name E net (b_hostname b))) (\<lambda>name.
     bindM (try_delete_vlan E name folder) (\<lambda>_.
     bindM (case ne_vlan_binding E of
              None \<Rightarrow> retM ()
            | Some vb \<Rightarrow>
                bindM (liftM (device_mapping (ne_mapping E) (net_physical net) (b_hostname b))) (\<lambda>(interface, tagged).
                  on_world (vb_prune vb (b_device_name b) (Some interface) (vlan_tag_of tagged net))))
       (\<lambda>_. delete_vcmp_device_network E name))))"

definition delete_device_flat ::
  "('ip, 'net, 'd, 'w) net_env \<Rightarrow> network \<Rightarrow> string \<Rightarrow> (('d, 'w, 'z) l2_scheme, unit) py" where
  "delete_device_flat E net folder =
     bindM (getsM (\<lambda>s. vc_bigip s)) (\<lambda>b.
     bindM (liftM (get_vlan_name E net (b_hostname b))) (\<lambda>name.
     bindM (try_delete_vlan E name folder) (\<lambda>_. delete_vcmp_device_network E name)))"

definition delete_device_tunnel ::
  "('ip, 'net, 'd, 'w) net_env \<Rightarrow> network \<Rightarrow> string \<Rightarrow> (('d, 'w, 'z) l2_scheme, unit) py" where
  "delete_device_tunnel E net folder =
     (let name = tunnel_name_of net in
      bindM (tryM (on_guest_device (bindM (delete_all_fdb_entries (ne_net E) name folder)
                     (\<lambda>_. delete_tunnel (ne_net E) name folder))) (\<lambda>_. retM ())) (\<lambda>_.
        if fdb_connector E
        then bindM (getsM (\<lambda>s. b_local_ip (vc_bigip s))) (\<lambda>ip. on_world (notify_vtep_removed E net ip))
        else retM ()))"

definition delete_network_type ::
  "('ip, 'net, 'd, 'w) net_env \<Rightarrow> network \<Rightarrow> string \<Rightarrow> (('d, 'w, 'z) l2_scheme, unit) py" where
  "delete_network_type E net folder =
     (if net_type net = Some ''vlan'' then delete_device_vlan E net folder
      else if net_type net = Some ''flat'' then delete_device_flat E net folder
      else if net_type net = Some ''vxlan'' \<or> net_type net = Some ''gre'' then delete_device_tunnel E net folder
      else if net_type net = Some ''opflex'' then raiseM (F5 NetworkNotReady)
      else retM ())"

definition forget_network :: "string \<Rightarrow> ('d, 'z) vcmp_state_scheme \<Rightarrow> ('d, 'z) vcmp_state_scheme" where
  "forget_network i s =
     s\<lparr>vc_bigip := (vc_bigip s)\<lparr>b_assured_networks := AList.delete i (b_assured_networks (vc_bigip s))\<rparr>\<rparr>"

definition delete_bigip_network ::
  "('ip, 'net, 'd, 'w) net_env \<Rightarrow> network \<Rightarrow> (('d, 'w, 'z) l2_scheme, unit) py" where
  "delete_bigip_network E net =
     (if net_id net \<in> fst ` set (common_network_ids (ne_conf E)) then retM ()
      else bindM (delete_network_type E net (get_network_folder E net)) (\<lambda>_. modifyM (forget_network (net_id net))))"

section \<open>L2 population messages\<close>

record fdb_net =
  fn_type :: string
  fn_segment :: int
  fn_ports :: "(string \<times> (string \<times> string) list) list" \<comment> \<open>VTEP: MAC, address\<close>

type_synonym fdb_message = "(string \<times> fdb_net) list"

text \<open>One VTEP: the entries are added to the tunnel's records; flooding entries are left out.\<close>

fun merge_vtep_fdbs ::
  "string \<Rightarrow> string \<Rightarrow> string \<Rightarrow> (string \<times> string) list \<Rightarrow> fdb_entries \<Rightarrow> fdb_entries" where
  "merge_vtep_fdbs folder tunnel vtep [] fdbs = fdbs"
| "merge_vtep_fdbs folder tunnel vtep ((mac, ip) # es) fdbs =
     merge_vtep_fdbs folder tunnel vtep es
       (if mac = fst flooding_entry then fdbs
        else
          let records = (case map_of fdbs tunnel of None \<Rightarrow> [] | Some (_, rs) \<Rightarrow> rs) in
          AList.update tunnel (folder, AList.update mac \<lparr>fr_endpoint = vtep, fr_ip = ip\<rparr> records) fdbs)"

fun merge_vteps ::
  "string \<Rightarrow> string \<Rightarrow> string option \<Rightarrow> (string \<times> (string \<times> string) list) list \<Rightarrow> fdb_entries \<Rightarrow> fdb_entries" where
  "merge_vteps folder tunnel local_ip [] fdbs = fdbs"
| "merge_vteps folder tunnel local_ip ((vtep, es) # vs) fdbs =
     merge_vteps folder tunnel local_ip vs
       (if Some vtep = local_ip then fdbs else merge_vtep_fdbs folder tunnel vtep es fdbs)"

definition get_bigip_network_fdbs :: "string option \<Rightarrow> string option \<Rightarrow> string \<Rightarrow> fdb_net \<Rightarrow> fdb_entries" where
  "get_bigip_network_fdbs local_ip folder tunnel net_fdb =
     (case folder of
        None \<Rightarrow> []
      | Some f \<Rightarrow> if f = '''' then [] else merge_vteps f tunnel local_ip (fn_ports net_fdb) [])"

definition operate_bigip_fdb ::
  "'d net_sdk \<Rightarrow> string option \<Rightarrow> string \<Rightarrow> (fdb_entries \<Rightarrow> ('d, unit) py) \<Rightarrow> fdb_message \<Rightarrow> ('d, unit) py" where
  "operate_bigip_fdb N local_ip ty fdb_method fdb =
     forM fdb (\<lambda>(network, net_fdb).
       if fn_type net_fdb \<noteq> ty then retM ()
       else
         let tunnel = get_tunnel_name (Some (fn_type net_fdb)) (Some (fn_segment net_fdb)) in
         bindM (get_tunnel_folder N tunnel) (\<lambda>folder.
           let fdbs = get_bigip_network_fdbs local_ip folder tunnel net_fdb in
           if fdbs = [] then retM () else fdb_method fdbs))"

definition add_bigip_fdb :: "'d net_sdk \<Rightarrow> string option \<Rightarrow> fdb_message \<Rightarrow> ('d, unit) py" where
  "add_bigip_fdb N local_ip fdb =
     bindM (operate_bigip_fdb N local_ip ''vxlan'' (add_fdb_entries N) fdb)
       (\<lambda>_. operate_bigip_fdb N local_ip ''gre'' (add_fdb_entries N) fdb)"

definition update_bigip_fdb :: "'d net_sdk \<Rightarrow> string option \<Rightarrow> fdb_message \<Rightarrow> ('d, unit) py" where
  "update_bigip_fdb = add_bigip_fdb"

definition remove_bigip_fdb :: "'d net_sdk \<Rightarrow> string option \<Rightarrow> fdb_message \<Rightarrow> ('d, unit) py" where
  "remove_bigip_fdb N local_ip fdb =
     bindM (operate_bigip_fdb N local_ip ''vxlan'' (delete_fdb_entries N) fdb)
       (\<lambda>_. operate_bigip_fdb N local_ip ''gre'' (delete_fdb_entries N) fdb)"

section \<open>FDB records of a service\<close>

definition rjust4 :: "string \<Rightarrow> string" where
  "rjust4 s = replicate (4 - length s) CHR ''0'' @ s"

fun hex_str :: "nat \<Rightarrow> string" where
  "hex_str n = (if n < 16 then [hex_char n] else hex_str (n div 16) @ [hex_char (n mod 16)])"

declare hex_str.simps [simp del]

text \<open>\<open>"%02x" % n\<close>.\<close>

definition hex2 :: "int \<Rightarrow> string" where
  "hex2 i = (let h = hex_str (nat i) in if length h < 2 then CHR ''0'' # h else h)"

definition hex_digit_val :: "char \<Rightarrow> nat option" where
  "hex_digit_val c =
     (if is_digit c then Some (digit_val c)
      else let l = of_char (lower_char c) :: nat in if 97 \<le> l \<and> l \<le> 102 then Some (l - 87) else None)"

fun parse_hex :: "nat \<Rightarrow> string \<Rightarrow> nat option" where
  "parse_hex n [] = Some n"
| "parse_hex n (c # cs) = (case hex_digit_val c of None \<Rightarrow> None | Some v \<Rightarrow> parse_hex (n * 16 + v) cs)"

text \<open>\<open>int('0x' + s, 16)\<close>.\<close>

definition py_hex :: "string \<Rightarrow> exn + int" where
  "py_hex s = (if s = '''' then Inl ValueError
               else case parse_hex 0 s of None \<Rightarrow> Inl ValueError | Some n \<Rightarrow> Inr (int n))"

definition last3 :: "'a list \<Rightarrow> 'a list" where
  "last3 xs = drop (length xs - 3) xs"

definition mac_octets :: "int list \<Rightarrow> string \<Rightarrow> exn + int list" where
  "mac_octets rnd ip =
     (let v4 = split_on CHR ''.'' ip; v6 = split_on CHR '':'' ip in
      if length v4 > 3 then mapE py_int (last3 v4)
      else if length v6 > 3 then mapE py_hex (last3 v6)
      else Inr rnd)"

definition get_tunnel_fake_mac :: "int list \<Rightarrow> int option \<Rightarrow> string \<Rightarrow> exn + string" where
  "get_tunnel_fake_mac rnd seg ip =
     (let network_id = rjust4 (str_opt str_int seg) in
      bindE (mac_octets rnd ip) (\<lambda>mac.
        Inr (''02:'' @ take 2 network_id @ '':'' @ take 2 (drop 2 network_id) @ '':'' @
             joined '':'' (map hex2 mac))))"

definition get_vteps :: "network \<Rightarrow> (string \<times> string list) list \<Rightarrow> exn + string list" where
  "get_vteps net source =
     (case net_type net of None \<Rightarrow> Inl TypeError | Some ty \<Rightarrow> Inr (get_or [] (map_of source (ty @ ''_vteps''))))"

fun lb_records ::
  "int list \<Rightarrow> network \<Rightarrow> string list \<Rightarrow> (string \<times> fdb_record) list \<Rightarrow> exn + (string \<times> fdb_record) list" where
  "lb_records rnd net [] rs = Inr rs"
| "lb_records rnd net (v # vs) rs =
     bindE (get_tunnel_fake_mac rnd (net_segmentation_id net) v) (\<lambda>mac.
       lb_records rnd net vs (AList.update mac \<lparr>fr_endpoint = v, fr_ip = ''''\<rparr> rs))"

definition append_member_fdb_records ::
  "network \<Rightarrow> member \<Rightarrow> string \<Rightarrow> (string \<times> fdb_record) list \<Rightarrow> exn + (string \<times> fdb_record) list" where
  "append_member_fdb_records net m mac rs =
     bindE (get_vteps net (me_vteps m)) (\<lambda>vs.
       Inr (fold (\<lambda>v. AList.update mac \<lparr>fr_endpoint = v, fr_ip = me_address m\<rparr>) vs rs))"

text \<open>The network of a load balancer or member may be \<open>None\<close> when the service has no networks.\<close>

definition the_network :: "network option \<Rightarrow> exn + network" where
  "the_network n = (case n of None \<Rightarrow> Inl TypeError | Some n \<Rightarrow> Inr n)"

definition lb_fdb_records ::
  "('ip, 'net, 'd, 'w) net_env \<Rightarrow> (loadbalancer \<times> network option) option \<Rightarrow> exn + fdb_entries" where
  "lb_fdb_records E lbn =
     (case lbn of
        None \<Rightarrow> Inr []
      | Some (lb, n) \<Rightarrow>
          bindE (the_network n) (\<lambda>net.
          bindE (bindE (get_vteps net (lb_vteps lb)) (\<lambda>vs. lb_records (ne_random_mac E) net vs [])) (\<lambda>rs.
            Inr [(tunnel_name_of net, get_network_folder E net, rs)])))"

fun member_fdb_records ::
  "('ip, 'net, 'd, 'w) net_env \<Rightarrow> (member \<times> network option) list \<Rightarrow> fdb_entries \<Rightarrow> exn + fdb_entries" where
  "member_fdb_records E [] fdbs = Inr fdbs"
| "member_fdb_records E ((m, n) # ms) fdbs =
     bindE (the_network n) (\<lambda>net.
       let tunnel = tunnel_name_of net;
           (folder, rs) = get_or (get_network_folder E net, []) (map_of fdbs tunnel) in
       bindE (case me_port_mac m of None \<Rightarrow> Inr rs | Some mac \<Rightarrow> append_member_fdb_records net m mac rs) (\<lambda>rs'.
         member_fdb_records E ms (AList.update tunnel (folder, rs') fdbs)))"

definition create_fdb_records ::
  "('ip, 'net, 'd, 'w) net_env \<Rightarrow> (loadbalancer \<times> network option) option
     \<Rightarrow> (member \<times> network option) list \<Rightarrow> exn + fdb_entries" where
  "create_fdb_records E lbn ms = bindE (lb_fdb_records E lbn) (member_fdb_records E ms)"

text \<open>The records of one service on every device.\<close>

definition service_fdb_entries ::
  "('ip, 'net, 'd, 'w) net_env \<Rightarrow> (fdb_entries \<Rightarrow> ('d, unit) py) \<Rightarrow> (loadbalancer \<times> network option) option
     \<Rightarrow> (member \<times> network option) list \<Rightarrow> ('d bigip list, unit) py" where
  "service_fdb_entries E operation lbn ms =
     bindM (liftM (create_fdb_records E lbn ms)) (\<lambda>records.
       if records = [] then retM () else for_bigips (\<lambda>_. on_dev (operation records)) ())"

definition l2_add_fdb_entries ::
  "('ip, 'net, 'd, 'w) net_env \<Rightarrow> (loadbalancer \<times> network option) option
     \<Rightarrow> (member \<times> network option) list \<Rightarrow> ('d bigip list, unit) py" where
  "l2_add_fdb_entries E = service_fdb_entries E (add_fdb_entries (ne_net E))"

definition l2_delete_fdb_entries ::
  "('ip, 'net, 'd, 'w) net_env \<Rightarrow> (loadbalancer \<times> network option) option
     \<Rightarrow> (member \<times> network option) list \<Rightarrow> ('d bigip list, unit) py" where
  "l2_delete_fdb_entries E = service_fdb_entries E (delete_fdb_entries (ne_net E))"

section \<open>Lemmas\<close>

lemma assure_bigip_network_again:
  assumes "map_of (b_assured_networks (vc_bigip s)) (net_id net) \<noteq> None"
  shows "assure_bigip_network E (Some net) s = (Inr (), s)"
  using assms by (simp add: assure_bigip_network_def py_simps)

text \<open>The records of a message, as a function of the MAC: the last remote VTEP that lists it.\<close>

definition fdb_remote :: "string option \<Rightarrow> (string \<times> (string \<times> string) list) list \<Rightarrow> (string \<times> fdb_record) list" where
  "fdb_remote local_ip ports =
     concat (map (\<lambda>(vtep, es). map (\<lambda>(mac, ip). (mac, \<lparr>fr_endpoint = vtep, fr_ip = ip\<rparr>))
                                 (filter (\<lambda>(mac, ip). mac \<noteq> fst flooding_entry) es))
               (filter (\<lambda>(vtep, es). Some vtep \<noteq> local_ip) ports))"

definition fdb_step :: "string \<Rightarrow> string \<Rightarrow> string \<times> fdb_record \<Rightarrow> fdb_entries \<Rightarrow> fdb_entries" where
  "fdb_step folder tunnel r fdbs =
     AList.update tunnel
       (folder, AList.update (fst r) (snd r) (case map_of fdbs tunnel of None \<Rightarrow> [] | Some (_, rs) \<Rightarrow> rs)) fdbs"

lemma merge_vtep_fold:
  "merge_vtep_fdbs folder tunnel vtep es fdbs =
     fold (fdb_step folder tunnel)
       (map (\<lambda>(mac, ip). (mac, \<lparr>fr_endpoint = vtep, fr_ip = ip\<rparr>))
          (filter (\<lambda>(mac, ip). mac \<noteq> fst flooding_entry) es)) fdbs"
  by (induction folder tunnel vtep es fdbs rule: merge_vtep_fdbs.induct)
    (simp_all add: fdb_step_def Let_def)

lemma merge_vteps_fold:
  "merge_vteps folder tunnel local_ip ports fdbs = fold (fdb_step folder tunnel) (fdb_remote local_ip ports) fdbs"
  by (induction folder tunnel local_ip ports fdbs rule: merge_vteps.induct)
    (auto simp: fdb_remote_def merge_vtep_fold)

lemma fdb_steps_one:
  "fold (fdb_step folder tunnel) rs [(tunnel, folder, acc)] =
     [(tunnel, folder, fold (\<lambda>r. AList.update (fst r) (snd r)) rs acc)]"
  by (induction rs arbitrary: acc) (simp_all add: fdb_step_def)

lemma fold_update_map:
  "map_of (fold (\<lambda>r. AList.update (fst r) (snd r)) rs acc) k =
     (case map_of (rev rs) k of None \<Rightarrow> map_of acc k | Some v \<Rightarrow> Some v)"
  by (induction rs arbitrary: acc) (auto simp: update_conv' map_add_def split: option.splits)

lemma get_bigip_network_fdbs_spec:
  assumes "folder \<noteq> ''''"
  shows "get_bigip_network_fdbs local_ip (Some folder) tunnel net =
    (let rs = fdb_remote local_ip (fn_ports net) in
     if rs = [] then [] else [(tunnel, folder, fold (\<lambda>r. AList.update (fst r) (snd r)) rs [])])"
proof (cases "fdb_remote local_ip (fn_ports net)")
  case Nil
  with assms show ?thesis by (simp add: get_bigip_network_fdbs_def merge_vteps_fold)
next
  case (Cons r rs)
  have "fdb_step folder tunnel r [] = [(tunnel, folder, AList.update (fst r) (snd r) [])]"
    by (simp add: fdb_step_def)
  with assms Cons show ?thesis
    by (simp add: get_bigip_network_fdbs_def merge_vteps_fold fdb_steps_one)
qed

end
