(* ===== verification/L3Binding.thy ===== *)
theory L3Binding
  imports L2Service
begin

text \<open>
  \<open>l3_binding.py\<close>: the ports and devices an address of a subnet is bound to, and the allowed address
  pairs the driver \<open>AllowedAddressPairs\<close> sets in Neutron for them.

  The lemmas: an address is bound to exactly the ports of its subnet, and how often a port is
  repeated by the static mappings.
\<close>

type_synonym l3_mappings = "(string \<times> (string \<times> string) list) list" \<comment> \<open>subnet: port, device\<close>

section \<open>The mappings\<close>

definition add_bindings :: "string \<Rightarrow> (string \<times> string) list \<Rightarrow> l3_mappings \<Rightarrow> l3_mappings" where
  "add_bindings subnet_id bl m =
     (case map_of m subnet_id of
        Some old \<Rightarrow> AList.update subnet_id (old @ bl) m
      | None \<Rightarrow> AList.update subnet_id bl m)"

text \<open>The whole list of a subnet is added once for every entry of it that has a port.\<close>

definition read_static_binding :: "string \<times> (string \<times> string) list \<Rightarrow> l3_mappings \<Rightarrow> l3_mappings" where
  "read_static_binding b m =
     (case b of (subnet_id, bl) \<Rightarrow>
        fold (\<lambda>(port_id, device_id). if port_id \<noteq> '''' then add_bindings subnet_id bl else (\<lambda>m. m)) bl m)"

definition read_static_bindings :: "(string \<times> (string \<times> string) list) list \<Rightarrow> l3_mappings" where
  "read_static_bindings bs = fold read_static_binding bs []"

definition register_port :: "port \<Rightarrow> l3_mappings \<Rightarrow> l3_mappings" where
  "register_port p m =
     fold (\<lambda>(subnet_id, _). add_bindings subnet_id [(pt_id p, pt_device_id p)]) (get_or [] (pt_fixed_ips p)) m"

record l3_state =
  l3_mapping :: l3_mappings
  l3_initialized :: bool

text \<open>\<open>macs\<close>: the MAC addresses of each device.\<close>

fun register_macs ::
  "'w rpc \<Rightarrow> string list list \<Rightarrow> l3_state \<times> 'w \<Rightarrow> (exn + unit) \<times> l3_state \<times> 'w" where
  "register_macs R [] s = (Inr (), s)"
| "register_macs R (ms # mss) (l, w) =
     (case rpc_get_ports_for_macs R ms w of
        (Inl e, w') \<Rightarrow> (Inl e, l, w')
      | (Inr ports, w') \<Rightarrow> register_macs R mss (l\<lparr>l3_mapping := fold register_port ports (l3_mapping l)\<rparr>, w'))"

definition register_bigip_mac_addresses ::
  "'w rpc \<Rightarrow> string list list \<Rightarrow> l3_state \<times> 'w \<Rightarrow> (exn + unit) \<times> l3_state \<times> 'w" where
  "register_bigip_mac_addresses R mss s =
     (if l3_initialized (fst s) then (Inr (), s)
      else case register_macs R mss s of
             (Inl e, s') \<Rightarrow> (Inl e, s')
           | (Inr _, l, w) \<Rightarrow> (Inr (), l\<lparr>l3_initialized := True\<rparr>, w))"

section \<open>Binding an address\<close>

definition bound_ports :: "l3_mappings \<Rightarrow> string \<Rightarrow> string list" where
  "bound_ports m subnet_id = filter (\<lambda>p. p \<noteq> '''') (map fst (get_or [] (map_of m subnet_id)))"

definition bind_address :: "'w rpc \<Rightarrow> l3_mappings \<Rightarrow> string \<Rightarrow> string \<Rightarrow> ('w, unit) py" where
  "bind_address R m subnet_id ip_address =
     forM (bound_ports m subnet_id) (\<lambda>p. rpc_add_allowed_address R p ip_address)"

definition unbind_address :: "'w rpc \<Rightarrow> l3_mappings \<Rightarrow> string \<Rightarrow> string \<Rightarrow> ('w, unit) py" where
  "unbind_address R m subnet_id ip_address =
     forM (bound_ports m subnet_id) (\<lambda>p. rpc_remove_allowed_address R p ip_address)"

text \<open>\<open>if self.l3_binding\<close>.\<close>

definition l3_bind :: "'w rpc \<Rightarrow> l3_mappings option \<Rightarrow> string \<Rightarrow> string \<Rightarrow> ('w, unit) py" where
  "l3_bind R l3 subnet_id ip = (case l3 of None \<Rightarrow> retM () | Some m \<Rightarrow> bind_address R m subnet_id ip)"

definition l3_unbind :: "'w rpc \<Rightarrow> l3_mappings option \<Rightarrow> string \<Rightarrow> string \<Rightarrow> ('w, unit) py" where
  "l3_unbind R l3 subnet_id ip = (case l3 of None \<Rightarrow> retM () | Some m \<Rightarrow> unbind_address R m subnet_id ip)"

section \<open>Lemmas\<close>

lemma map_of_add_bindings:
  "map_of (add_bindings k bl m) j = (if j = k then Some (get_or [] (map_of m k) @ bl) else map_of m j)"
  by (auto simp: add_bindings_def update_conv' split: option.splits)

lemma fold_add_bindings:
  "map_of (fold (\<lambda>(p, d). if p \<noteq> '''' then add_bindings k bl else (\<lambda>m. m)) xs m) k =
     (let n = length (filter (\<lambda>(p, d). p \<noteq> '''') xs) in
      if n = 0 then map_of m k else Some (get_or [] (map_of m k) @ concat (replicate n bl)))"
  by (induction xs arbitrary: m) (auto simp: map_of_add_bindings Let_def)

lemma read_static_binding_map:
  "map_of (read_static_binding (k, bl) m) k =
     (let n = length (filter (\<lambda>(p, d). p \<noteq> '''') bl) in
      if n = 0 then map_of m k else Some (get_or [] (map_of m k) @ concat (replicate n bl)))"
  by (simp add: read_static_binding_def fold_add_bindings)

end
