(* ===== verification/SelfIps.thy ===== *)
theory SelfIps
  imports L3Binding
begin

text \<open>
  \<open>selfips.py\<close>: the self IP a device gets on every subnet it serves, and the gateway (floating self IP
  and wildcard forwarding virtual server) it becomes when SNAT is off.

  The lemmas: on a device that answers, creating a self IP succeeds and leaves the one already there
  or the new one.
\<close>

section \<open>Self IPs on the device\<close>

definition vlan_domain_text :: string where
  "vlan_domain_text = ''must be one of the vlans in the associated route domain''"

text \<open>
  A self IP whose VLAN is not in the route domain is refused with this text; the VLAN is then added
  to the tenant's domain and the creation repeated.
\<close>

definition create_bigip_selfip :: "'d net_sdk \<Rightarrow> selfip \<Rightarrow> ('d, bool) py" where
  "create_bigip_selfip N model =
     bindM (rh_exists (ns_selfip N) (bn_name model) (bn_partition model)) (\<lambda>ex.
       if ex then retM True
       else
         tryM (bindM (rh_create (ns_selfip N) model) (\<lambda>_. retM True)) (\<lambda>e.
           case e of
             HTTPError n t \<Rightarrow>
               if n = 400 \<and> find_str vlan_domain_text t > 0
               then on_http (bindM (add_vlan_to_domain None N (se_vlan model) (bn_partition model)) (\<lambda>_.
                             bindM (rh_create (ns_selfip N) model) (\<lambda>_. retM True)))
                      (raiseM (F5 SelfIPCreationException))
               else raiseM e
           | _ \<Rightarrow> raiseM (F5 SelfIPCreationException)))"

text \<open>The address part of a self IP; every error leaves it empty.\<close>

definition selfip_address_part :: "string \<Rightarrow> exn + string" where
  "selfip_address_part a =
     (if a = '''' then Inr ''''
      else case split_on CHR ''/'' a of [ip, _] \<Rightarrow> Inr ip | _ \<Rightarrow> Inl ValueError)"

definition get_selfip_addr :: "'d net_sdk \<Rightarrow> string \<Rightarrow> string \<Rightarrow> ('d, string) py" where
  "get_selfip_addr N name part =
     tryM (bindM (ep_exists (ns_selfip N) name part) (\<lambda>ex.
             if ex then bindM (ep_load (ns_selfip N) name part) (\<lambda>s. liftM (selfip_address_part (se_address s)))
             else retM ''''))
       (\<lambda>_. retM '''')"

definition get_selfips :: "'d net_sdk \<Rightarrow> string \<Rightarrow> string option \<Rightarrow> ('d, selfip list) py" where
  "get_selfips N part vlan_name =
     (let v = (case vlan_name of
                 None \<Rightarrow> ''''
               | Some n \<Rightarrow> if n = '''' \<or> startswith ''/'' n then n else ''/'' @ part @ ''/'' @ n)
      in on_http (bindM (ep_collection (ns_selfip N) (Some (get_filter (ns_old N) ''partition'' ''eq'' part)))
                    (\<lambda>ss. retM (filter (\<lambda>s. v = se_vlan s \<or> v = '''') ss)))
           (raiseM (F5 SelfIPQueryException)))"

definition delete_selfip :: "'d net_sdk \<Rightarrow> string \<Rightarrow> string \<Rightarrow> ('d, unit) py" where
  "delete_selfip N name part =
     tryM (rh_delete (ns_selfip N) name part) (\<lambda>_. raiseM (F5 SelfIPDeleteException))"

section \<open>The self IP of a subnet\<close>

record subnetinfo =
  si_network :: "network option"
  si_subnet :: "subnet option"
  si_is_for_member :: bool

definition vnic_type :: "conf \<Rightarrow> string" where
  "vnic_type c = (if unlegacy_setting_placeholder c then ''normal'' else ''baremetal'')"

definition local_selfip_name :: "string \<Rightarrow> string \<Rightarrow> string" where
  "local_selfip_name device_name subnet_id = ''local-'' @ device_name @ ''-'' @ subnet_id"

definition port_address :: "port option \<Rightarrow> exn + string" where
  "port_address p =
     (case p of
        None \<Rightarrow> Inr ''''
      | Some p \<Rightarrow>
          (case pt_fixed_ips p of
             None \<Rightarrow> Inr '''' | Some [] \<Rightarrow> Inl IndexError | Some ((_, ip) # _) \<Rightarrow> Inr ip))"

definition get_bigip_selfip_address ::
  "('ip, 'net, 'd, 'w) net_env \<Rightarrow> string \<Rightarrow> subnet \<Rightarrow> string \<Rightarrow> ('w, string) py" where
  "get_bigip_selfip_address E device_name sub device_id =
     (let name = local_selfip_name device_name (sub_id sub) in
      bindM (rpc_get_port_by_name (ne_rpc E) name) (\<lambda>ports.
      bindM (case ports of
               p # _ \<Rightarrow> retM (Some p)
             | [] \<Rightarrow> rpc_create_port_on_subnet (ne_rpc E) (sub_id sub) name device_id (vnic_type (ne_conf E)))
        (\<lambda>p. liftM (port_address p))))"

text \<open>\<open>str(route_domain_id)\<close> and the prefix length appended to an address.\<close>

definition domain_address :: "string \<Rightarrow> int \<Rightarrow> string" where
  "domain_address ip rd = ip @ ''%'' @ str_int rd"

definition masked_address :: "string \<Rightarrow> int \<Rightarrow> string" where
  "masked_address a prefixlen = a @ ''/'' @ str_int prefixlen"

text \<open>The dictionary key a tenant is; \<open>None\<close> is a key of its own.\<close>

definition tenant_key :: "string option \<Rightarrow> string" where
  "tenant_key t = (case t of None \<Rightarrow> ''None'' | Some t \<Rightarrow> t)"

definition subnet_assured :: "string option \<Rightarrow> string \<Rightarrow> 'd bigip \<Rightarrow> bool" where
  "subnet_assured tenant_id subnet_id b \<longleftrightarrow>
     subnet_id \<in> set (get_or [] (map_of (b_assured_tenant_snat_subnets b) (tenant_key tenant_id)))"

definition assure_bigip_selfip ::
  "('ip, 'net, 'd, 'w) net_env \<Rightarrow> l3_mappings option \<Rightarrow> loadbalancer \<Rightarrow> subnetinfo \<Rightarrow> (('d, 'w, 'z) l2_scheme, unit) py" where
  "assure_bigip_selfip E l3 lb info =
     (case (si_network info, si_subnet info) of
        (Some net, Some sub) \<Rightarrow>
          bindM (getsM vc_bigip) (\<lambda>b.
          if subnet_assured (lb_tenant_id lb) (sub_id sub) b then retM ()
          else
            bindM (on_world (get_bigip_selfip_address E (b_device_name b) sub (lb_id lb))) (\<lambda>ip.
            bindM (liftM (subE (net_route_domain_id net))) (\<lambda>rd.
            let address = domain_address ip rd;
                folder = (if is_common_network (ne_conf E) net then ''Common''
                          else get_folder_name (ne_adapter E) (lb_tenant_id lb)) in
            bindM (liftM (get_network_name E (b_hostname b) net)) (\<lambda>(network_name, _).
            bindM (liftM (nl_network (ne_lib E) (sub_cidr sub))) (\<lambda>cidr.
            bindM (on_guest_device (create_bigip_selfip (ne_net E)
                     \<lparr>bn_name = local_selfip_name (b_device_name b) (sub_id sub), bn_partition = folder,
                      se_address = masked_address address (nl_prefixlen (ne_lib E) cidr), se_vlan = network_name,
                      se_floating = False, se_traffic_group = None\<rparr>)) (\<lambda>_.
              on_world (l3_bind (ne_rpc E) l3 (sub_id sub) address)))))))
      | _ \<Rightarrow> raiseM KeyError)"

section \<open>Gateways\<close>

definition gateway_name :: "string \<Rightarrow> string" where
  "gateway_name subnet_id = ''gw-'' @ subnet_id"

definition gateway_folder :: "('ip, 'net, 'd, 'w) net_env \<Rightarrow> network \<Rightarrow> subnet \<Rightarrow> string" where
  "gateway_folder E net sub =
     (if is_common_network (ne_conf E) net then ''Common'' else get_folder_name (ne_adapter E) (sub_tenant_id sub))"

text \<open>\<open>if not subnet['gateway_ip']: raise KeyError\<close>.\<close>

definition gateway_ip :: "subnet \<Rightarrow> exn + string" where
  "gateway_ip sub =
     (case sub_gateway_ip sub of None \<Rightarrow> Inl KeyError | Some ip \<Rightarrow> if ip = '''' then Inl KeyError else Inr ip)"

definition assure_forwarding :: "'d net_sdk \<Rightarrow> string \<Rightarrow> string \<Rightarrow> string \<Rightarrow> ('d, unit) py" where
  "assure_forwarding N gw_name folder network_name =
     bindM (ep_exists (ns_forward N) gw_name folder) (\<lambda>ex.
       if ex then retM ()
       else tryM (ep_create (ns_forward N)
                    \<lparr>bn_name = gw_name, bn_partition = folder, fv_destination = ''0.0.0.0:0'', fv_mask = ''0.0.0.0'',
                     fv_vlans = [network_name], fv_source_address_translation = ''automap'', fv_ipForward = True\<rparr>)
              (\<lambda>_. raiseM (F5 VirtualServerCreationException)))"

definition move_wildcard :: "'d sdk \<Rightarrow> string \<Rightarrow> string \<Rightarrow> ('d, unit) py" where
  "move_wildcard S folder traffic_group =
     tryM (bindM (ep_load (sdk_va S) ''0.0.0.0'' folder) (\<lambda>va.
             ep_modify (sdk_va S) ''0.0.0.0'' folder (va\<lparr>va_trafficGroup := traffic_group\<rparr>)))
       (\<lambda>_. raiseM (F5 VirtualServerCreationException))"

definition assure_gateway_on_subnet ::
  "('ip, 'net, 'd, 'w) net_env \<Rightarrow> l3_mappings option \<Rightarrow> subnetinfo \<Rightarrow> string \<Rightarrow> (('d, 'w, 'z) l2_scheme, unit) py" where
  "assure_gateway_on_subnet E l3 info traffic_group =
     (case (si_network info, si_subnet info) of
        (Some net, Some sub) \<Rightarrow>
          bindM (liftM (gateway_ip sub)) (\<lambda>gw.
          bindM (getsM vc_bigip) (\<lambda>b.
          if sub_id sub \<in> set (b_assured_gateway_subnets b) then retM ()
          else
            let name = gateway_name (sub_id sub); folder = gateway_folder E net sub in
            bindM (liftM (get_network_name E (b_hostname b) net)) (\<lambda>(network_name, _).
            bindM (liftM (nl_network (ne_lib E) (sub_cidr sub))) (\<lambda>cidr.
            bindM (liftM (subE (net_route_domain_id net))) (\<lambda>rd.
            bindM (on_guest_device (create_bigip_selfip (ne_net E)
                     \<lparr>bn_name = name, bn_partition = folder,
                      se_address = masked_address (domain_address gw rd) (nl_prefixlen (ne_lib E) cidr),
                      se_vlan = network_name, se_floating = True, se_traffic_group = Some traffic_group\<rparr>)) (\<lambda>_.
            bindM (on_world (l3_bind (ne_rpc E) l3 (sub_id sub) gw)) (\<lambda>_.
            bindM (on_guest_device (assure_forwarding (ne_net E) name folder network_name)) (\<lambda>_.
            bindM (on_guest_device (move_wildcard (ne_ltm E) folder traffic_group)) (\<lambda>_.
              modifyM (\<lambda>s. s\<lparr>vc_bigip := (vc_bigip s)\<lparr>b_assured_gateway_subnets :=
                 b_assured_gateway_subnets (vc_bigip s) @ [sub_id sub]\<rparr>\<rparr>))))))))))
      | _ \<Rightarrow> raiseM KeyError)"

definition delete_forwarding :: "'d net_sdk \<Rightarrow> string \<Rightarrow> string \<Rightarrow> ('d, unit) py" where
  "delete_forwarding N gw_name folder =
     tryM (rh_delete (ns_forward N) gw_name folder) (\<lambda>_. raiseM (F5 VirtualServerDeleteException))"

definition delete_gateway_on_subnet ::
  "('ip, 'net, 'd, 'w) net_env \<Rightarrow> l3_mappings option \<Rightarrow> subnetinfo \<Rightarrow> (('d, 'w, 'z) l2_scheme, string) py" where
  "delete_gateway_on_subnet E l3 info =
     (case (si_network info, si_subnet info) of
        (Some net, Some sub) \<Rightarrow>
          bindM (liftM (gateway_ip sub)) (\<lambda>gw.
            let name = gateway_name (sub_id sub); folder = gateway_folder E net sub in
            bindM (if f5_populate_static_arp (ne_conf E)
                   then bindM (on_guest_device (arp_delete_by_subnet (ne_lib E) (ne_net E) (sub_cidr sub) None folder))
                          (\<lambda>_. retM ())
                   else retM ()) (\<lambda>_.
            bindM (on_guest_device (delete_selfip (ne_net E) name folder)) (\<lambda>_.
            bindM (on_world (l3_unbind (ne_rpc E) l3 (sub_id sub) gw)) (\<lambda>_.
            bindM (on_guest_device (delete_forwarding (ne_net E) name folder)) (\<lambda>_.
            bindM (modifyM (\<lambda>s. s\<lparr>vc_bigip := (vc_bigip s)\<lparr>b_assured_gateway_subnets :=
                     remove1 (sub_id sub) (b_assured_gateway_subnets (vc_bigip s))\<rparr>\<rparr>)) (\<lambda>_.
              retM name))))))
      | _ \<Rightarrow> raiseM KeyError)"

section \<open>Lemmas\<close>

lemma create_bigip_selfip_ok:
  assumes "endpoint_ok (ns_selfip N) bkey view"
  shows "\<exists>d'. create_bigip_selfip N m d = (Inr True, d') \<and>
     view d' = (if view d (bkey m) = None then (view d)(bkey m \<mapsto> m) else view d)"
proof (cases "view d (bkey m)")
  case None
  with endpoint_ok_create_new [OF assms None] endpoint_ok_exists [OF assms, of "bn_name m" "bn_partition m" d]
  show ?thesis
    by (auto simp: create_bigip_selfip_def rh_exists_def rh_create_def py_simps bkey_def)
next
  case (Some x)
  with endpoint_ok_exists [OF assms, of "bn_name m" "bn_partition m" d] show ?thesis
    by (auto simp: create_bigip_selfip_def rh_exists_def py_simps bkey_def)
qed

lemma delete_selfip_ok:
  assumes "endpoint_ok (ns_selfip N) bkey view"
  shows "\<exists>d'. delete_selfip N n p d = (Inr (), d') \<and> view d' = (view d)((n, p) := None)"
  using rh_delete_ok [OF assms, of n p d] by (auto simp: delete_selfip_def py_simps)

end
