(* ===== verification/Snats.thy ===== *)
theory Snats
  imports SelfIps
begin

text \<open>
  \<open>snats.py\<close>: the SNAT translations of a tenant on a subnet, their addresses in Neutron, the tenant's
  SNAT pool on the device, and the check whether a subnet or a translation is still in use before
  its port is given back.

  The lemmas: the names of translations, and what the use counts see of the pools this code builds.
\<close>

section \<open>Names\<close>

definition snat_traffic_group :: "('ip, 'net, 'd, 'w) net_env \<Rightarrow> string option \<Rightarrow> exn + string option" where
  "snat_traffic_group E tenant_id =
     (let ha = f5_ha_type (ne_conf E) in
      if ha = ''standalone'' then Inr (Some ''traffic-group-local-only'')
      else if ha = ''pair'' then Inr (Some ''traffic-group-1'')
      else if ha = ''scalen'' then bindE (ne_traffic_group E tenant_id) (\<lambda>tg. Inr (Some (basename tg)))
      else Inr None)"

definition get_snat_traffic_group :: "('ip, 'net, 'd, 'w) net_env \<Rightarrow> string option \<Rightarrow> exn + string" where
  "get_snat_traffic_group E tenant_id = bindE (snat_traffic_group E tenant_id) (\<lambda>tg. Inr (get_or '''' tg))"

definition get_snat_name :: "('ip, 'net, 'd, 'w) net_env \<Rightarrow> subnet \<Rightarrow> string option \<Rightarrow> exn + string" where
  "get_snat_name E sub tenant_id =
     bindE (snat_traffic_group E tenant_id) (\<lambda>tg.
       Inr (case tg of None \<Rightarrow> '''' | Some tg \<Rightarrow> ''snat-'' @ tg @ ''-'' @ sub_id sub))"

definition index_snat_name :: "string \<Rightarrow> nat \<Rightarrow> string" where
  "index_snat_name snat_name i = snat_name @ ''_'' @ str_nat i"

section \<open>Addresses from Neutron\<close>

definition snat_port_address :: "port option \<Rightarrow> exn + string" where
  "snat_port_address p =
     (case p of
        None \<Rightarrow> Inr ''''
      | Some p \<Rightarrow>
          (case pt_fixed_ips p of
             None \<Rightarrow> Inl KeyError | Some [] \<Rightarrow> Inl IndexError | Some ((_, ip) # _) \<Rightarrow> Inr ip))"

definition snat_addr ::
  "('ip, 'net, 'd, 'w) net_env \<Rightarrow> subnet \<Rightarrow> string \<Rightarrow> string \<Rightarrow> ('w, string) py" where
  "snat_addr E sub device_id name =
     bindM (rpc_get_port_by_name (ne_rpc E) name) (\<lambda>ports.
     bindM (case ports of
              p # _ \<Rightarrow> retM (Some p)
            | [] \<Rightarrow> rpc_create_port_on_subnet (ne_rpc E) (sub_id sub) name device_id (vnic_type (ne_conf E)))
       (\<lambda>p. liftM (snat_port_address p)))"

text \<open>An address that could not be had is left out.\<close>

fun snat_addrs :: "('ip, 'net, 'd, 'w) net_env \<Rightarrow> subnet \<Rightarrow> string \<Rightarrow> string list \<Rightarrow> ('w, string list) py" where
  "snat_addrs E sub device_id [] = retM []"
| "snat_addrs E sub device_id (name # names) =
     bindM (snat_addr E sub device_id name) (\<lambda>ip.
     bindM (snat_addrs E sub device_id names) (\<lambda>ips. retM (if ip = '''' then ips else ip # ips)))"

definition get_snat_addrs ::
  "('ip, 'net, 'd, 'w) net_env \<Rightarrow> subnet \<Rightarrow> string option \<Rightarrow> int \<Rightarrow> string \<Rightarrow> ('w, string list) py" where
  "get_snat_addrs E sub tenant_id count device_id =
     bindM (liftM (get_snat_name E sub tenant_id)) (\<lambda>snat_name.
       snat_addrs E sub device_id (map (index_snat_name snat_name) [0..<nat count]))"

section \<open>Translations and pools on the device\<close>

definition snat_folder :: "('ip, 'net, 'd, 'w) net_env \<Rightarrow> network \<Rightarrow> string option \<Rightarrow> string" where
  "snat_folder E net tenant_id =
     (if is_common_network (ne_conf E) net then ''Common'' else get_folder_name (ne_adapter E) tenant_id)"

definition assure_translation :: "'d net_sdk \<Rightarrow> snat_translation \<Rightarrow> ('d, unit) py" where
  "assure_translation N m =
     tryM (bindM (rh_exists (ns_snat_translation N) (bn_name m) (bn_partition m)) (\<lambda>ex.
             if ex then retM () else rh_create (ns_snat_translation N) m))
       (\<lambda>_. raiseM (F5 SNATCreationException))"

definition assure_pool_member :: "'d net_sdk \<Rightarrow> string \<Rightarrow> string \<Rightarrow> ('d, unit) py" where
  "assure_pool_member N pool_name snat_member =
     tryM (bindM (rh_exists (ns_snatpool N) pool_name pool_name) (\<lambda>ex.
             if \<not> ex
             then rh_create (ns_snatpool N)
                    \<lparr>bn_name = pool_name, bn_partition = pool_name, sn_members = [snat_member]\<rparr>
             else bindM (rh_load (ns_snatpool N) pool_name pool_name) (\<lambda>p.
                    ep_modify (ns_snatpool N) pool_name pool_name (p\<lparr>sn_members := sn_members p @ [snat_member]\<rparr>))))
       (\<lambda>_. raiseM (F5 SNATCreationException))"

text \<open>One pass of the loop over the addresses.\<close>

definition assure_snat ::
  "('ip, 'net, 'd, 'w) net_env \<Rightarrow> l3_mappings option \<Rightarrow> network \<Rightarrow> subnet \<Rightarrow> string option \<Rightarrow> string
     \<Rightarrow> nat \<times> string \<Rightarrow> (('d, 'w, 'z) l2_scheme, unit) py" where
  "assure_snat E l3 net sub tenant_id snat_name ia =
     bindM (liftM (subE (net_route_domain_id net))) (\<lambda>rd.
     let ip_address = domain_address (snd ia) rd; name = index_snat_name snat_name (fst ia);
         folder = snat_folder E net tenant_id; pool_name = get_folder_name (ne_adapter E) tenant_id in
     bindM (liftM (get_snat_traffic_group E tenant_id)) (\<lambda>tg.
     bindM (on_guest_device (assure_translation (ne_net E)
              \<lparr>bn_name = name, bn_partition = folder, sx_address = ip_address, sx_trafficGroup = tg\<rparr>)) (\<lambda>_.
     bindM (on_guest_device (assure_pool_member (ne_net E) pool_name (''/'' @ folder @ ''/'' @ name))) (\<lambda>_.
       on_world (l3_bind (ne_rpc E) l3 (sub_id sub) ip_address)))))"

definition set_assured ::
  "(string list \<Rightarrow> string list) \<Rightarrow> string \<Rightarrow> ('d, 'z) vcmp_state_scheme \<Rightarrow> ('d, 'z) vcmp_state_scheme" where
  "set_assured f t s =
     s\<lparr>vc_bigip := (vc_bigip s)\<lparr>b_assured_tenant_snat_subnets :=
        AList.update t (f (get_or [] (map_of (b_assured_tenant_snat_subnets (vc_bigip s)) t)))
          (b_assured_tenant_snat_subnets (vc_bigip s))\<rparr>\<rparr>"

definition assure_bigip_snats ::
  "('ip, 'net, 'd, 'w) net_env \<Rightarrow> l3_mappings option \<Rightarrow> network \<Rightarrow> subnet \<Rightarrow> string list \<Rightarrow> string option
     \<Rightarrow> (('d, 'w, 'z) l2_scheme, unit) py" where
  "assure_bigip_snats E l3 net sub addrs tenant_id =
     bindM (modifyM (set_assured (\<lambda>l. l) (tenant_key tenant_id))) (\<lambda>_.
     bindM (getsM vc_bigip) (\<lambda>b.
     if sub_id sub \<in> set (get_or [] (map_of (b_assured_tenant_snat_subnets b) (tenant_key tenant_id))) then retM ()
     else
       bindM (liftM (get_snat_name E sub tenant_id)) (\<lambda>snat_name.
       bindM (forM (zip [0..<length addrs] addrs) (assure_snat E l3 net sub tenant_id snat_name)) (\<lambda>_.
         modifyM (set_assured (\<lambda>l. l @ [sub_id sub]) (tenant_key tenant_id))))))"

section \<open>Giving SNATs back\<close>

text \<open>\<open>get_snatpool_member_use_count\<close>: members by the last part of their path.\<close>

definition snatpool_member_use_count :: "string \<Rightarrow> snatpool list \<Rightarrow> nat" where
  "snatpool_member_use_count member_name pools =
     length (filter (\<lambda>m. member_name = basename m) (concat (map sn_members pools)))"

definition get_snatpool_member_use_count :: "'d net_sdk \<Rightarrow> string \<Rightarrow> ('d, nat) py" where
  "get_snatpool_member_use_count N member_name =
     bindM (ep_collection (ns_snatpool N) None) (\<lambda>pools. retM (snatpool_member_use_count member_name pools))"

definition remove_from_pool :: "'d net_sdk \<Rightarrow> string \<Rightarrow> string \<Rightarrow> ('d, unit) py" where
  "remove_from_pool N pool_name name =
     on_http (bindM (rh_load (ns_snatpool N) pool_name pool_name) (\<lambda>p.
       let ms = filter (\<lambda>m. basename m \<noteq> name) (sn_members p) in
       if ms = [] then on_http (ep_delete (ns_snatpool N) pool_name pool_name) (retM ())
       else on_http (ep_modify (ns_snatpool N) pool_name pool_name (p\<lparr>sn_members := ms\<rparr>)) (retM ())))
       (retM ())"

definition unbind_translation ::
  "('ip, 'net, 'd, 'w) net_env \<Rightarrow> l3_mappings option \<Rightarrow> subnet \<Rightarrow> string \<Rightarrow> string \<Rightarrow> (('d, 'w, 'z) l2_scheme, unit) py" where
  "unbind_translation E l3 sub name part =
     (case l3 of
        None \<Rightarrow> retM ()
      | Some m \<Rightarrow>
          bindM (tryM (bindM (on_guest_device (rh_load (ns_snat_translation (ne_net E)) name part))
                         (\<lambda>x. retM (Some (sx_address x)))) (\<lambda>_. retM None)) (\<lambda>a.
            case a of None \<Rightarrow> retM () | Some a \<Rightarrow> on_world (unbind_address (ne_rpc E) m (sub_id sub) a)))"

definition remove_assured_tenant_snat_subnet ::
  "string option \<Rightarrow> string \<Rightarrow> ('d, 'z) vcmp_state_scheme \<Rightarrow> ('d, 'z) vcmp_state_scheme" where
  "remove_assured_tenant_snat_subnet tenant_id subnet_id s =
     (case map_of (b_assured_tenant_snat_subnets (vc_bigip s)) (tenant_key tenant_id) of
        None \<Rightarrow> s | Some _ \<Rightarrow> set_assured (remove1 subnet_id) (tenant_key tenant_id) s)"

definition assured_use_count :: "string \<Rightarrow> 'd bigip \<Rightarrow> nat" where
  "assured_use_count subnet_id b =
     length (filter (\<lambda>(t, subs). subnet_id \<in> set subs) (b_assured_tenant_snat_subnets b))"

text \<open>One pass: the deleted name and the subnet found in use, each added to its set.\<close>

definition delete_snat ::
  "('ip, 'net, 'd, 'w) net_env \<Rightarrow> l3_mappings option \<Rightarrow> network \<Rightarrow> subnet \<Rightarrow> string option \<Rightarrow> string \<Rightarrow> nat
     \<Rightarrow> (('d, 'w, 'z) l2_scheme, bool \<times> bool) py" where
  "delete_snat E l3 net sub tenant_id snat_name i =
     (let name = index_snat_name snat_name i; pool_name = get_folder_name (ne_adapter E) tenant_id in
      bindM (unbind_translation E l3 sub name (snat_folder E net tenant_id)) (\<lambda>_.
      bindM (on_guest_device (remove_from_pool (ne_net E) pool_name name)) (\<lambda>_.
      bindM (modifyM (remove_assured_tenant_snat_subnet tenant_id (sub_id sub))) (\<lambda>_.
      bindM (getsM vc_bigip) (\<lambda>b.
      bindM (if assured_use_count (sub_id sub) b > 0 then retM 1
             else on_guest_device (get_snatpool_member_use_count (ne_net E) (sub_id sub))) (\<lambda>use.
      bindM (on_guest_device (get_snatpool_member_use_count (ne_net E) name)) (\<lambda>count.
        retM (count = 0, use > 0))))))))"

fun delete_snats ::
  "('ip, 'net, 'd, 'w) net_env \<Rightarrow> l3_mappings option \<Rightarrow> network \<Rightarrow> subnet \<Rightarrow> string option \<Rightarrow> string \<Rightarrow> nat list
     \<Rightarrow> (('d, 'w, 'z) l2_scheme, string list \<times> string list) py" where
  "delete_snats E l3 net sub tenant_id snat_name [] = retM ([], [])"
| "delete_snats E l3 net sub tenant_id snat_name (i # is) =
     bindM (delete_snat E l3 net sub tenant_id snat_name i) (\<lambda>(gone, used).
     bindM (delete_snats E l3 net sub tenant_id snat_name is) (\<lambda>(names, subs).
       retM ((if gone then index_snat_name snat_name i # names else names),
             (if used then [sub_id sub] else subs))))"

text \<open>Without a network the code returns one empty set, which the caller cannot unpack.\<close>

definition delete_bigip_snats ::
  "('ip, 'net, 'd, 'w) net_env \<Rightarrow> l3_mappings option \<Rightarrow> network option \<Rightarrow> subnet \<Rightarrow> string option
     \<Rightarrow> (('d, 'w, 'z) l2_scheme, string list \<times> string list) py" where
  "delete_bigip_snats E l3 network sub tenant_id =
     (case network of
        None \<Rightarrow> raiseM ValueError
      | Some net \<Rightarrow>
          bindM (liftM (get_snat_name E sub tenant_id)) (\<lambda>snat_name.
            delete_snats E l3 net sub tenant_id snat_name [0..<nat (f5_snat_addresses_per_subnet (ne_conf E))]))"

section \<open>Lemmas\<close>

lemma index_snat_name_inj [simp]: "index_snat_name n i = index_snat_name n j \<longleftrightarrow> i = j"
proof
  assume "index_snat_name n i = index_snat_name n j"
  then have "parse_digits 0 (str_nat i) = parse_digits 0 (str_nat j)" by (simp add: index_snat_name_def)
  then show "i = j" by simp
qed simp

lemma snat_addrs_le: "snat_addrs E sub lb names w = (Inr ips, w') \<Longrightarrow> length ips \<le> length names"
  by (induction names arbitrary: w ips w')
    (fastforce simp: py_simps split: prod.splits sum.splits if_splits)+

text \<open>A member this code made for a subnet never has the subnet's id as its base name.\<close>

lemma member_basename:
  assumes "CHR ''/'' \<notin> set (index_snat_name n i)"
  shows "basename (''/'' @ folder @ ''/'' @ index_snat_name n i) = index_snat_name n i"
  using basename_append [OF assms, of "''/'' @ folder"] by simp

lemma snat_name_longer:
  "get_snat_name E sub t = Inr n \<Longrightarrow> snat_traffic_group E t = Inr (Some tg) \<Longrightarrow>
     length (index_snat_name n i) > length (sub_id sub)"
  by (auto simp: get_snat_name_def index_snat_name_def)

end
