(* ===== verification/RouteDomains.thy ===== *)
theory RouteDomains
  imports Snats "HOL-Library.List_Lexorder" "HOL-Library.Char_ord"
begin

text \<open>
  The route domains of \<open>network_service.py\<close>: the cache \<open>rds_cache\<close> of the subnets per tenant, route
  domain and network, how it is read from the devices, how a network is placed in a route domain so
  that the subnets of one domain do not overlap, and how addresses get their domain. A network entry
  of the cache is the dictionary \<open>subnets\<close> (the code removes an entry together with its last subnet).

  \<open>cache_disjoint\<close> is the invariant: two different subnets of one route domain do not overlap.
\<close>

section \<open>The state\<close>

type_synonym 'net net_entry = "(string \<times> 'net) list"
type_synonym 'net rd_entry = "(string \<times> 'net net_entry) list"
type_synonym 'net tenant_entry = "(int \<times> 'net rd_entry) list"
type_synonym 'net rds_cache = "(string \<times> 'net tenant_entry) list"

record ('net, 'd, 'w) site =
  st_bigips :: "'d bigip list" \<comment> \<open>the active devices\<close>
  st_rds_cache :: "'net rds_cache"
  st_payload :: rd_payload
  st_hosts :: "'d vcmp_host list"
  st_world :: 'w
  st_service :: service

definition get_network_from_service :: "service \<Rightarrow> string \<Rightarrow> exn + network option" where
  "get_network_from_service svc i =
     (case sv_networks svc of None \<Rightarrow> Inr None | Some ns \<Rightarrow> bindE (subE (map_of ns i)) (\<lambda>n. Inr (Some n)))"

definition get_subnet_from_service :: "service \<Rightarrow> string \<Rightarrow> exn + subnet option" where
  "get_subnet_from_service svc i =
     (case sv_subnets svc of None \<Rightarrow> Inr None | Some ss \<Rightarrow> bindE (subE (map_of ss i)) (\<lambda>s. Inr (Some s)))"

text \<open>\<open>get_bigip\<close>: the active device that is first by name; without one the code fails on \<open>None\<close>.\<close>

definition on_first :: "('d, 'a) py \<Rightarrow> (('net, 'd, 'w) site, 'a) py" where
  "on_first m s =
     (case sort_key b_hostname (st_bigips s) of
        [] \<Rightarrow> (Inl AttributeError, s)
      | b # _ \<Rightarrow>
          (case on_dev m b of
             (r, b') \<Rightarrow>
               (r, s\<lparr>st_bigips := map (\<lambda>x. if b_hostname x = b_hostname b then b' else x) (st_bigips s)\<rparr>)))"

section \<open>The cache\<close>

definition upd_key :: "'k \<Rightarrow> ('v option \<Rightarrow> 'v) \<Rightarrow> ('k \<times> 'v) list \<Rightarrow> ('k \<times> 'v) list" where
  "upd_key k f m = AList.update k (f (map_of m k)) m"

definition upd_rd :: "string \<Rightarrow> int \<Rightarrow> ('net rd_entry \<Rightarrow> 'net rd_entry) \<Rightarrow> 'net rds_cache \<Rightarrow> 'net rds_cache" where
  "upd_rd tenant rd f = upd_key tenant (\<lambda>te. upd_key rd (\<lambda>re. f (get_or [] re)) (get_or [] te))"

definition add_net :: "string \<Rightarrow> 'net rd_entry \<Rightarrow> 'net rd_entry" where
  "add_net name = upd_key name (get_or [])"

definition add_subnet :: "string \<Rightarrow> string \<Rightarrow> 'net \<Rightarrow> 'net rd_entry \<Rightarrow> 'net rd_entry" where
  "add_subnet name sid cidr = upd_key name (\<lambda>ne. AList.update sid cidr (get_or [] ne))"

definition get_neutron_net_short_name :: "network \<Rightarrow> exn + string" where
  "get_neutron_net_short_name net =
     (case (net_type net, net_segmentation_id net) of
        (Some ty, Some seg) \<Rightarrow>
          if ty = '''' \<or> seg = 0 then Inl (F5 InvalidNetworkType) else Inr (ty @ ''-'' @ str_int seg)
      | _ \<Rightarrow> Inl (F5 InvalidNetworkType))"

text \<open>The domains, of all tenants, that know a network.\<close>

definition cached_domains :: "string \<Rightarrow> 'net rds_cache \<Rightarrow> int list" where
  "cached_domains name cache =
     concat (map (\<lambda>(t, te). map fst (filter (\<lambda>(rd, re). name \<in> fst ` set re) te)) cache)"

definition get_route_domain_from_cache :: "network \<Rightarrow> 'net rds_cache \<Rightarrow> exn + int" where
  "get_route_domain_from_cache net cache =
     bindE (get_neutron_net_short_name net) (\<lambda>name.
       case cached_domains name cache of [] \<Rightarrow> Inl (F5 RouteDomainCacheMiss) | rd # _ \<Rightarrow> Inr rd)"

text \<open>A subnet leaves the network; a network without subnets leaves its domain, an empty domain the tenant.\<close>

definition remove_subnet :: "string \<Rightarrow> string \<Rightarrow> 'net rd_entry \<Rightarrow> 'net rd_entry" where
  "remove_subnet name sid re =
     (case map_of re name of
        None \<Rightarrow> re
      | Some ne \<Rightarrow>
          if map_of ne sid = None then re
          else let ne' = AList.delete sid ne in
               if ne' = [] then AList.delete name re else AList.update name ne' re)"

definition remove_from_rds_cache :: "network \<Rightarrow> string \<Rightarrow> 'net rds_cache \<Rightarrow> exn + 'net rds_cache" where
  "remove_from_rds_cache net sid cache =
     bindE (get_neutron_net_short_name net) (\<lambda>name.
       Inr (map (\<lambda>(t, te). (t, filter (\<lambda>(rd, re). re \<noteq> [])
              (map (\<lambda>(rd, re). (rd, remove_subnet name sid re)) te))) cache))"

section \<open>Reading the cache from a device\<close>

text \<open>\<open>s.split(sep)[1]\<close>.\<close>

definition split_second :: "string \<Rightarrow> string \<Rightarrow> exn + string" where
  "split_second sep s =
     (let i = find_str sep s in
      if i < 0 then Inl IndexError
      else let t = drop (nat i + length sep) s; j = find_str sep t in
           Inr (if j < 0 then t else take (nat j) t))"

text \<open>The subnet and network of a self IP; \<open>None\<close> for one that is not the device's own.\<close>

definition read_selfip :: "('ip, 'net) netlib \<Rightarrow> string \<Rightarrow> selfip \<Rightarrow> exn + (string \<times> 'net) option" where
  "read_selfip L device_name s =
     (if \<not> contains_str device_name (bn_name s) then Inr None
      else bindE (split_second (device_name @ ''-'') (bn_name s)) (\<lambda>sid.
           case split_on CHR ''/'' (se_address s) of
             [addr, bits] \<Rightarrow>
               bindE (nl_network L (before_percent addr @ ''/'' @ bits)) (\<lambda>n. Inr (Some (sid, nl_cidr L n)))
           | _ \<Rightarrow> Inl ValueError))"

definition get_bigip_net_short_name ::
  "('ip, 'net, 'd, 'w) net_env \<Rightarrow> string \<Rightarrow> string \<Rightarrow> ('d, string) py" where
  "get_bigip_net_short_name E part network_name =
     (let name = basename network_name in
      if contains_str ''tunnel-gre-'' name
      then bindM (get_tunnel_key (ne_net E) name part) (\<lambda>k. retM (''gre-'' @ str_opt str_int k))
      else if contains_str ''tunnel-vxlan-'' name
      then bindM (get_tunnel_key (ne_net E) name part) (\<lambda>k. retM (''vxlan-'' @ str_opt str_int k))
      else bindM (get_vlan_id (ne_net E) name part) (\<lambda>i. retM (''vlan-'' @ str_int i)))"

text \<open>The cache and the device being read.\<close>

type_synonym ('net, 'd) reading = "'net rds_cache \<times> 'd bigip"

definition dev_read :: "('d, 'a) py \<Rightarrow> (('net, 'd) reading, 'a) py" where
  [py_simps]: "dev_read m s = (case on_dev m (snd s) of (r, b) \<Rightarrow> (r, (fst s, b)))"

definition cache_mod :: "('net rds_cache \<Rightarrow> 'net rds_cache) \<Rightarrow> (('net, 'd) reading, unit) py" where
  [py_simps]: "cache_mod f = modifyM (\<lambda>s. (f (fst s), snd s))"

definition update_rds_cache_bigip_vlan ::
  "('ip, 'net, 'd, 'w) net_env \<Rightarrow> string option \<Rightarrow> int \<Rightarrow> string \<Rightarrow> (('net, 'd) reading, unit) py" where
  "update_rds_cache_bigip_vlan E tenant rd rd_vlan =
     (let part = get_folder_name (ne_adapter E) tenant in
      bindM (dev_read (get_bigip_net_short_name E part rd_vlan)) (\<lambda>name.
      bindM (cache_mod (upd_rd (tenant_key tenant) rd (add_net name))) (\<lambda>_.
      bindM (dev_read (get_selfips (ne_net E) part (Some rd_vlan))) (\<lambda>selfips.
        forM selfips (\<lambda>s.
          bindM (getsM (\<lambda>s. b_device_name (snd s))) (\<lambda>dev.
          bindM (liftM (read_selfip (ne_lib E) dev s)) (\<lambda>sn.
            case sn of
              None \<Rightarrow> retM ()
            | Some (sid, cidr) \<Rightarrow> cache_mod (upd_rd (tenant_key tenant) rd (add_subnet name sid cidr)))))))))"

definition update_rds_cache_bigip_rd_vlans ::
  "('ip, 'net, 'd, 'w) net_env \<Rightarrow> string option \<Rightarrow> int \<Rightarrow> (('net, 'd) reading, unit) py" where
  "update_rds_cache_bigip_rd_vlans E tenant rd =
     bindM (dev_read (get_vlans_in_route_domain_by_id (ne_net E) (get_folder_name (ne_adapter E) tenant) rd)) (\<lambda>vlans.
       if vlans = [] then retM ()
       else bindM (cache_mod (upd_rd (tenant_key tenant) rd (\<lambda>re. re))) (\<lambda>_.
              forM vlans (update_rds_cache_bigip_vlan E tenant rd)))"

definition update_rds_cache_bigip ::
  "('ip, 'net, 'd, 'w) net_env \<Rightarrow> string option \<Rightarrow> (('net, 'd) reading, unit) py" where
  "update_rds_cache_bigip E tenant =
     bindM (dev_read (get_route_domain_ids (ne_net E) (get_folder_name (ne_adapter E) tenant))) (\<lambda>ids.
       forM ids (update_rds_cache_bigip_rd_vlans E tenant))"

definition each_reading ::
  "(('net, 'd) reading, unit) py \<Rightarrow> 'd bigip \<Rightarrow> 'net rds_cache \<Rightarrow> (exn + unit) \<times> 'd bigip \<times> 'net rds_cache" where
  "each_reading m b c = (case m (c, b) of (r, c', b') \<Rightarrow> (r, b', c'))"

text \<open>A tenant is read once: the key is set before the devices are read.\<close>

definition update_rds_cache ::
  "('ip, 'net, 'd, 'w) net_env \<Rightarrow> string option \<Rightarrow> (('net, 'd, 'w) site, unit) py" where
  "update_rds_cache E tenant s =
     (if map_of (st_rds_cache s) (tenant_key tenant) \<noteq> None then (Inr (), s)
      else
        case inplace (each_reading (update_rds_cache_bigip E tenant)) (st_bigips s)
               (AList.update (tenant_key tenant) [] (st_rds_cache s)) of
          (r, bs, c) \<Rightarrow> (r, s\<lparr>st_bigips := bs, st_rds_cache := c\<rparr>))"

section \<open>Placing a network\<close>

definition overlaps :: "('ip, 'net) netlib \<Rightarrow> 'net \<Rightarrow> 'net \<Rightarrow> bool" where
  "overlaps L a b \<longleftrightarrow> nl_within L a b \<or> nl_within L b a"

definition rd_overlaps :: "('ip, 'net) netlib \<Rightarrow> string \<Rightarrow> 'net \<Rightarrow> 'net rd_entry \<Rightarrow> bool" where
  "rd_overlaps L sid cidr re =
     list_ex (\<lambda>(name, ne). list_ex (\<lambda>(i, c). i \<noteq> sid \<and> overlaps L cidr c) ne) re"

text \<open>One device of \<open>_create_aux_rd\<close>: the first device's id counts.\<close>

definition create_aux_step ::
  "('ip, 'net, 'd, 'w) net_env \<Rightarrow> string \<Rightarrow> int \<Rightarrow> 'd bigip \<Rightarrow> rd_payload \<times> int option
     \<Rightarrow> (exn + unit) \<times> 'd bigip \<times> rd_payload \<times> int option" where
  "create_aux_step E part i b st =
     (case create_route_domain (Some (ne_conf E)) (ne_net E) i part (f5_route_domain_strictness (ne_conf E)) True None
             (fst st, b_dev b) of
        (Inl e, pl, d) \<Rightarrow> (Inl e, b\<lparr>b_dev := d\<rparr>, pl, snd st)
      | (Inr rd, pl, d) \<Rightarrow>
          (Inr (), b\<lparr>b_dev := d\<rparr>, pl, if snd st = None then Some (rd_id rd) else snd st))"

definition on_all_devices :: "('d list, 'a) py \<Rightarrow> (('net, 'd, 'w) site, 'a) py" where
  "on_all_devices m s =
     (case m (map b_dev (st_bigips s)) of
        (r, ds) \<Rightarrow> (r, s\<lparr>st_bigips := map2 (\<lambda>b d. b\<lparr>b_dev := d\<rparr>) (st_bigips s) ds\<rparr>))"

definition create_aux_rd ::
  "('ip, 'net, 'd, 'w) net_env \<Rightarrow> string option \<Rightarrow> (('net, 'd, 'w) site, int) py" where
  "create_aux_rd E tenant =
     bindM (on_all_devices (get_next_domain_id (ne_net E))) (\<lambda>i s.
       case inplace (create_aux_step E (get_folder_name (ne_adapter E) tenant) i) (st_bigips s) (st_payload s, None) of
         (r, bs, pl, rd) \<Rightarrow>
           (case r of Inl e \<Rightarrow> Inl e | Inr _ \<Rightarrow> (case rd of None \<Rightarrow> Inl TypeError | Some rd \<Rightarrow> Inr rd),
            s\<lparr>st_bigips := bs, st_payload := pl\<rparr>))"

definition mod_cache :: "('net rds_cache \<Rightarrow> 'net rds_cache) \<Rightarrow> (('net, 'd, 'w) site, unit) py" where
  [py_simps]: "mod_cache f = modifyM (\<lambda>s. s\<lparr>st_rds_cache := f (st_rds_cache s)\<rparr>)"

text \<open>The domain the subnet goes to: the first without an overlap, or a new one while there may be more.\<close>

definition place_subnet ::
  "('ip, 'net, 'd, 'w) net_env \<Rightarrow> string option \<Rightarrow> string \<Rightarrow> 'net \<Rightarrow> (('net, 'd, 'w) site, int) py" where
  "place_subnet E tenant sid cidr =
     bindM (\<lambda>s. (subE (map_of (st_rds_cache s) (tenant_key tenant)), s)) (\<lambda>te.
       case find (\<lambda>(rd, re). \<not> rd_overlaps (ne_lib E) sid cidr re) te of
         Some (rd, _) \<Rightarrow> retM rd
       | None \<Rightarrow>
           if int (length te) < max_namespaces_per_tenant (ne_conf E)
           then bindM (create_aux_rd E tenant) (\<lambda>rd.
                bindM (mod_cache (upd_rd (tenant_key tenant) rd (\<lambda>_. []))) (\<lambda>_. retM rd))
           else raiseM (OtherError ''Cannot allocate route domain''))"

definition cache_missed :: "exn \<Rightarrow> bool" where
  "cache_missed e \<longleftrightarrow> e = F5 RouteDomainCacheMiss"

definition the_subnet :: "subnet option \<Rightarrow> exn + subnet" where
  "the_subnet s = (case s of None \<Rightarrow> Inl TypeError | Some s \<Rightarrow> Inr s)"

definition assign_new_domain ::
  "('ip, 'net, 'd, 'w) net_env \<Rightarrow> string option \<Rightarrow> network \<Rightarrow> subnet option \<Rightarrow> (('net, 'd, 'w) site, int) py" where
  "assign_new_domain E tenant net subnet =
     bindM (liftM (the_subnet subnet)) (\<lambda>sub.
     bindM (liftM (nl_network (ne_lib E) (sub_cidr sub))) (\<lambda>cidr.
     bindM (place_subnet E tenant (sub_id sub) cidr) (\<lambda>rd.
     bindM (liftM (get_neutron_net_short_name net)) (\<lambda>name.
     bindM (mod_cache (upd_rd (tenant_key tenant) rd (add_subnet name (sub_id sub) cidr))) (\<lambda>_. retM rd)))))"

text \<open>\<open>assign_route_domain\<close>; the result is what it stores in \<open>network['route_domain_id']\<close>.\<close>

definition assign_route_domain ::
  "('ip, 'net, 'd, 'w) net_env \<Rightarrow> string option \<Rightarrow> network \<Rightarrow> subnet option \<Rightarrow> (('net, 'd, 'w) site, int) py" where
  "assign_route_domain E tenant net subnet =
     (if is_common_network (ne_conf E) net then retM 0
      else bindM (getsM (\<lambda>s. get_route_domain_from_cache net (st_rds_cache s))) (\<lambda>cached.
        case cached of
          Inr rd \<Rightarrow> retM rd
        | Inl e \<Rightarrow>
            if \<not> cache_missed e then raiseM e
            else if max_namespaces_per_tenant (ne_conf E) = 1
            then bindM (on_first (get_route_domain (Some (ne_conf E)) (ne_net E)
                          (get_folder_name (ne_adapter E) tenant) None)) (\<lambda>rd. retM (rd_id rd))
            else assign_new_domain E tenant net subnet))"

definition find_subnet_route_domain ::
  "('ip, 'net, 'd, 'w) net_env \<Rightarrow> string option \<Rightarrow> (('net, 'd, 'w) site, int) py" where
  "find_subnet_route_domain E tenant =
     tryM (bindM (on_first (get_route_domain (Some (ne_conf E)) (ne_net E) (get_folder_name (ne_adapter E) tenant) None))
             (\<lambda>rd. retM (rd_id rd)))
       (\<lambda>e. if http_status e = None then raiseM e else retM 0)"

section \<open>Lemmas on the cache\<close>

lemma set_update_subset: "set (AList.update k v m) \<subseteq> insert (k, v) (set m)"
  by (induction m) auto

lemma update_mem: "(k, v) \<in> set (AList.update k v m)"
  by (meson map_of_SomeD update_Some_unfold)

definition entry_subnets :: "'net rd_entry \<Rightarrow> (string \<times> 'net) list" where
  "entry_subnets re = concat (map snd re)"

definition rd_disjoint :: "('ip, 'net) netlib \<Rightarrow> 'net rd_entry \<Rightarrow> bool" where
  "rd_disjoint L re \<longleftrightarrow>
     (\<forall>(i, c) \<in> set (entry_subnets re). \<forall>(j, d) \<in> set (entry_subnets re). i \<noteq> j \<longrightarrow> \<not> overlaps L c d)"

definition cache_wf :: "'net rds_cache \<Rightarrow> bool" where
  "cache_wf cache \<longleftrightarrow> distinct (map fst cache) \<and> (\<forall>(t, te) \<in> set cache. distinct (map fst te))"

definition cache_disjoint :: "('ip, 'net) netlib \<Rightarrow> 'net rds_cache \<Rightarrow> bool" where
  "cache_disjoint L cache \<longleftrightarrow>
     cache_wf cache \<and> (\<forall>(t, te) \<in> set cache. \<forall>(rd, re) \<in> set te. rd_disjoint L re)"

lemma overlaps_sym: "overlaps L a b \<longleftrightarrow> overlaps L b a"
  by (auto simp: overlaps_def)

lemma rd_overlaps_iff:
  "rd_overlaps L sid cidr re \<longleftrightarrow> (\<exists>(i, c) \<in> set (entry_subnets re). i \<noteq> sid \<and> overlaps L cidr c)"
  by (simp add: rd_overlaps_def entry_subnets_def list_ex_iff split_beta)

lemma rd_disjoint_Nil [simp]: "rd_disjoint L []"
  by (simp add: rd_disjoint_def entry_subnets_def)

lemma entry_subnets_add:
  "set (entry_subnets (add_subnet n sid c re)) \<subseteq> insert (sid, c) (set (entry_subnets re))"
proof
  fix x assume "x \<in> set (entry_subnets (add_subnet n sid c re))"
  then obtain m ne where *: "(m, ne) \<in> set (add_subnet n sid c re)" "x \<in> set ne"
    by (auto simp: entry_subnets_def)
  show "x \<in> insert (sid, c) (set (entry_subnets re))"
  proof (cases "(m, ne) \<in> set re")
    case True
    with * show ?thesis by (force simp: entry_subnets_def)
  next
    case False
    with * set_update_subset [of n _ re] have "ne = AList.update sid c (get_or [] (map_of re n))"
      by (fastforce simp: add_subnet_def upd_key_def)
    with *(2) set_update_subset [of sid c "get_or [] (map_of re n)"]
    have "x = (sid, c) \<or> x \<in> set (get_or [] (map_of re n))" by auto
    then show ?thesis
      by (cases "map_of re n") (force simp: entry_subnets_def dest: map_of_SomeD)+
  qed
qed

lemma rd_disjointI:
  assumes "\<And>i a j b. (i, a) \<in> set (entry_subnets re) \<Longrightarrow> (j, b) \<in> set (entry_subnets re) \<Longrightarrow> i \<noteq> j \<Longrightarrow>
    \<not> overlaps L a b"
  shows "rd_disjoint L re"
  unfolding rd_disjoint_def using assms by blast

lemma add_subnet_disjoint:
  assumes "rd_disjoint L re" and "\<not> rd_overlaps L sid c re"
  shows "rd_disjoint L (add_subnet n sid c re)"
proof (rule rd_disjointI)
  fix i a j b
  assume "(i, a) \<in> set (entry_subnets (add_subnet n sid c re))"
    and "(j, b) \<in> set (entry_subnets (add_subnet n sid c re))" and ij: "i \<noteq> j"
  with subsetD [OF entry_subnets_add [of n sid c re]] have
    ab: "(i, a) = (sid, c) \<or> (i, a) \<in> set (entry_subnets re)" "(j, b) = (sid, c) \<or> (j, b) \<in> set (entry_subnets re)"
    by (simp_all only: insert_iff)
  have old: "\<not> overlaps L c x" if "(k, x) \<in> set (entry_subnets re)" "k \<noteq> sid" for k x
    using assms(2) that by (auto simp: rd_overlaps_iff)
  have both: "\<not> overlaps L a b" if "(i, a) \<in> set (entry_subnets re)" "(j, b) \<in> set (entry_subnets re)"
    using assms(1) that ij by (auto simp: rd_disjoint_def)
  have sym: "overlaps L a b = overlaps L b a" by (rule overlaps_sym)
  from ab(1) show "\<not> overlaps L a b"
  proof
    assume a: "(i, a) = (sid, c)"
    with ab(2) ij have "(j, b) \<in> set (entry_subnets re)" by auto
    with a ij old [of j b] show ?thesis by simp
  next
    assume a: "(i, a) \<in> set (entry_subnets re)"
    from ab(2) show ?thesis
    proof
      assume "(j, b) = (sid, c)"
      with a ij old [of i a] sym show ?thesis by simp
    qed (rule both [OF a])
  qed
qed

lemma upd_rd_wf:
  assumes "cache_wf cache"
  shows "cache_wf (upd_rd t rd f cache)"
proof -
  let ?te = "upd_key rd (\<lambda>re. f (get_or [] re)) (get_or [] (map_of cache t))"
  have "distinct (map fst (get_or [] (map_of cache t)))"
    using assms by (cases "map_of cache t") (auto simp: cache_wf_def dest: map_of_SomeD)
  then have "distinct (map fst ?te)" by (simp add: upd_key_def distinct_update)
  with assms set_update_subset [of t ?te cache] show ?thesis
    by (auto simp: cache_wf_def upd_rd_def upd_key_def [of t] distinct_update)
qed

lemma upd_rd_entries:
  assumes "(t', te') \<in> set (upd_rd t rd f cache)" and "(rd', re') \<in> set te'"
  shows "(\<exists>te. (t', te) \<in> set cache \<and> (rd', re') \<in> set te) \<or>
    (t' = t \<and> rd' = rd \<and> re' = f (get_or [] (map_of (get_or [] (map_of cache t)) rd)))"
proof -
  let ?old = "get_or [] (map_of cache t)"
  let ?te = "upd_key rd (\<lambda>re. f (get_or [] re)) ?old"
  from assms(1) set_update_subset [of t ?te cache] consider "(t', te') \<in> set cache" | "t' = t" "te' = ?te"
    by (auto simp: upd_rd_def upd_key_def [of t])
  then show ?thesis
  proof cases
    case 1
    with assms(2) show ?thesis by blast
  next
    case 2
    with assms(2) set_update_subset [of rd _ ?old]
    have "(rd', re') \<in> set ?old \<or> (rd' = rd \<and> re' = f (get_or [] (map_of ?old rd)))"
      by (fastforce simp: upd_key_def)
    with 2 show ?thesis by (cases "map_of cache t") (auto dest: map_of_SomeD)
  qed
qed

lemma upd_rd_disjoint:
  assumes "cache_disjoint L cache"
    and "rd_disjoint L (f (get_or [] (map_of (get_or [] (map_of cache t)) rd)))"
  shows "cache_disjoint L (upd_rd t rd f cache)"
proof -
  have "rd_disjoint L re'" if "(t', te') \<in> set (upd_rd t rd f cache)" "(rd', re') \<in> set te'" for t' te' rd' re'
    using upd_rd_entries [OF that] assms by (auto simp: cache_disjoint_def)
  with assms(1) upd_rd_wf [of cache t rd f] show ?thesis
    unfolding cache_disjoint_def by blast
qed

lemma cached_domains_iff:
  "rd \<in> set (cached_domains name cache) \<longleftrightarrow>
     (\<exists>t te re. (t, te) \<in> set cache \<and> (rd, re) \<in> set te \<and> name \<in> fst ` set re)"
  by (force simp: cached_domains_def)

lemma upd_rd_mem:
  "\<exists>te. (t, te) \<in> set (upd_rd t rd f cache) \<and>
     (rd, f (get_or [] (map_of (get_or [] (map_of cache t)) rd))) \<in> set te"
  unfolding upd_rd_def upd_key_def by (blast intro: update_mem)

lemma add_subnet_key: "name \<in> fst ` set (add_subnet name sid c re)"
  by (simp add: add_subnet_def upd_key_def dom_update)

text \<open>A network that no domain knew is known to exactly the domain it was added to.\<close>

lemma cached_domains_add:
  assumes "cached_domains name cache = []"
  shows "cached_domains name (upd_rd t rd (add_subnet name sid c) cache) \<noteq> [] \<and>
    set (cached_domains name (upd_rd t rd (add_subnet name sid c) cache)) \<subseteq> {rd}"
proof -
  let ?new = "upd_rd t rd (add_subnet name sid c) cache"
  have "rd \<in> set (cached_domains name ?new)"
    using upd_rd_mem [of t rd "add_subnet name sid c" cache] add_subnet_key cached_domains_iff by fast
  moreover have "r = rd" if "r \<in> set (cached_domains name ?new)" for r
  proof -
    from that obtain t' te' re' where "(t', te') \<in> set ?new" "(r, re') \<in> set te'" "name \<in> fst ` set re'"
      by (auto simp: cached_domains_iff)
    with upd_rd_entries [of t' te' t rd _ cache r re'] assms cached_domains_iff [of r name cache]
    show ?thesis by (metis emptyE list.set(1))
  qed
  ultimately show ?thesis by (metis empty_iff empty_set singletonI subsetI)
qed

section \<open>Lemmas on the operations\<close>

lemma bindM_getsM: "bindM (getsM f) g s = g (f s) s"
  by (simp add: py_simps)

lemma on_first_cache: "on_first m s = (r, s') \<Longrightarrow> st_rds_cache s' = st_rds_cache s"
  by (auto simp: on_first_def split: list.splits prod.splits)

lemma create_aux_rd_cache:
  assumes "create_aux_rd E t s = (r, s')"
  shows "st_rds_cache s' = st_rds_cache s"
proof -
  obtain r1 s1 where 1: "on_all_devices (get_next_domain_id (ne_net E)) s = (r1, s1)"
    by (cases "on_all_devices (get_next_domain_id (ne_net E)) s") auto
  then have "st_rds_cache s1 = st_rds_cache s" by (auto simp: on_all_devices_def split: prod.splits)
  with 1 assms show ?thesis
    by (cases r1) (auto simp: create_aux_rd_def bindM_def split: prod.splits)
qed

definition rd_entry_of :: "'net rds_cache \<Rightarrow> string \<Rightarrow> int \<Rightarrow> 'net rd_entry" where
  "rd_entry_of cache t rd = get_or [] (map_of (get_or [] (map_of cache t)) rd)"

lemma rd_entry_of_upd: "rd_entry_of (upd_rd t rd f cache) t rd = f (rd_entry_of cache t rd)"
  by (simp add: rd_entry_of_def upd_rd_def upd_key_def update_conv')

text \<open>Where a subnet may go: the cache may have grown by an empty domain.\<close>

lemma place_subnet_cases:
  assumes "place_subnet E tenant sid cidr s = (r, s')" and "cache_wf (st_rds_cache s)"
  shows "st_rds_cache s' = st_rds_cache s \<and>
      (\<forall>rd. r = Inr rd \<longrightarrow> rd \<in> fst ` set (get_or [] (map_of (st_rds_cache s) (tenant_key tenant))) \<and>
         \<not> rd_overlaps (ne_lib E) sid cidr (rd_entry_of (st_rds_cache s) (tenant_key tenant) rd)) \<or>
    (\<exists>rd. r = Inr rd \<and> st_rds_cache s' = upd_rd (tenant_key tenant) rd (\<lambda>_. []) (st_rds_cache s) \<and>
       int (length (get_or [] (map_of (st_rds_cache s) (tenant_key tenant)))) < max_namespaces_per_tenant (ne_conf E))"
proof (cases "map_of (st_rds_cache s) (tenant_key tenant)")
  case None
  with assms(1) show ?thesis by (auto simp: place_subnet_def py_simps)
next
  case (Some te)
  show ?thesis
  proof (cases "find (\<lambda>(rd, re). \<not> rd_overlaps (ne_lib E) sid cidr re) te")
    case None
    show ?thesis
    proof (cases "int (length te) < max_namespaces_per_tenant (ne_conf E)")
      case True
      obtain r1 s1 where 1: "create_aux_rd E tenant s = (r1, s1)" by (cases "create_aux_rd E tenant s") auto
      with create_aux_rd_cache [OF 1] Some None True assms(1) show ?thesis
        by (cases r1) (auto simp: place_subnet_def py_simps)
    qed (use Some None assms(1) in \<open>auto simp: place_subnet_def py_simps\<close>)
  next
    case (Some x)
    obtain rd re where x: "x = (rd, re)" by (cases x)
    have in_te: "(rd, re) \<in> set te" and free: "\<not> rd_overlaps (ne_lib E) sid cidr re"
      using Some x by (auto simp: find_Some_iff in_set_conv_nth)
    have "distinct (map fst te)"
      using assms(2) \<open>map_of (st_rds_cache s) _ = Some te\<close> by (auto simp: cache_wf_def dest: map_of_SomeD)
    with in_te have "map_of te rd = Some re" by simp
    with Some x in_te free assms(1) \<open>map_of (st_rds_cache s) _ = Some te\<close> show ?thesis
      by (force simp: place_subnet_def py_simps rd_entry_of_def)
  qed
qed

text \<open>What every branch of \<open>assign_route_domain\<close> does to the cache.\<close>

lemma assign_route_domain_cases:
  assumes "assign_route_domain E tenant net subnet s = (r, s')"
  obtains (same) "st_rds_cache s' = st_rds_cache s"
  | (new) sub cidr where "subnet = Some sub" "nl_network (ne_lib E) (sub_cidr sub) = Inr cidr"
      "get_route_domain_from_cache net (st_rds_cache s) = Inl (F5 RouteDomainCacheMiss)"
      "\<not> is_common_network (ne_conf E) net" "max_namespaces_per_tenant (ne_conf E) \<noteq> 1"
      "assign_new_domain E tenant net (Some sub) s = (r, s')"
proof -
  let ?c = "get_route_domain_from_cache net (st_rds_cache s)"
  consider "is_common_network (ne_conf E) net" | rd where "\<not> is_common_network (ne_conf E) net" "?c = Inr rd"
    | e where "\<not> is_common_network (ne_conf E) net" "?c = Inl e" "\<not> cache_missed e"
    | "\<not> is_common_network (ne_conf E) net" "?c = Inl (F5 RouteDomainCacheMiss)"
    by (cases ?c) (auto simp: cache_missed_def)
  then show thesis
  proof cases
    case 4
    show thesis
    proof (cases "max_namespaces_per_tenant (ne_conf E) = 1")
      case True
      have b: "st_rds_cache s' = st_rds_cache s"
        if "bindM (on_first m) (\<lambda>rd. retM (rd_id rd)) s = (r, s')" for m :: "('b, route_domain) py"
      proof -
        obtain r1 s1 where 1: "on_first m s = (r1, s1)" by (cases "on_first m s") auto
        with on_first_cache [OF 1] that show ?thesis by (cases r1) (auto simp: py_simps)
      qed
      from 4 True assms show thesis
        by (intro same b) (simp add: assign_route_domain_def cache_missed_def bindM_getsM)
    next
      case False
      with 4 assms have n: "assign_new_domain E tenant net subnet s = (r, s')"
        by (simp add: assign_route_domain_def cache_missed_def py_simps)
      show thesis
      proof (cases "subnet = None \<or> (\<exists>e. nl_network (ne_lib E) (sub_cidr (the subnet)) = Inl e)")
        case True
        with n show thesis by (intro same) (cases subnet; auto simp: assign_new_domain_def the_subnet_def py_simps)
      next
        case sub: False
        with 4 False n show thesis
          by (cases subnet; cases "nl_network (ne_lib E) (sub_cidr (the subnet))") (auto intro: new)
      qed
    qed
  qed (use assms in \<open>auto simp: assign_route_domain_def py_simps intro: same\<close>)
qed

text \<open>The placing branch, taken apart.\<close>

lemma assign_new_domain_cases:
  assumes "assign_new_domain E tenant net (Some sub) s = (r, s')"
    and "nl_network (ne_lib E) (sub_cidr sub) = Inr cidr"
  obtains (place) r1 s1 where "place_subnet E tenant (sub_id sub) cidr s = (r1, s1)"
    "st_rds_cache s' = st_rds_cache s1" "\<And>rd. r \<noteq> Inr rd"
  | (placed) rd s1 name where "place_subnet E tenant (sub_id sub) cidr s = (Inr rd, s1)" "r = Inr rd"
    "get_neutron_net_short_name net = Inr name"
    "s' = s1\<lparr>st_rds_cache := upd_rd (tenant_key tenant) rd (add_subnet name (sub_id sub) cidr) (st_rds_cache s1)\<rparr>"
proof -
  obtain r1 s1 where 1: "place_subnet E tenant (sub_id sub) cidr s = (r1, s1)"
    by (cases "place_subnet E tenant (sub_id sub) cidr s") auto
  show thesis
  proof (cases r1)
    case (Inl e)
    with 1 assms show thesis by (intro place [OF 1]) (auto simp: assign_new_domain_def the_subnet_def py_simps)
  next
    case (Inr rd)
    show thesis
    proof (cases "get_neutron_net_short_name net")
      case (Inl e)
      with 1 assms \<open>r1 = Inr rd\<close> show thesis
        by (intro place [OF 1]) (auto simp: assign_new_domain_def the_subnet_def py_simps)
    next
      case name: (Inr name)
      from 1 assms name Inr show thesis
        by (intro placed [OF _ _ name]) (auto simp: assign_new_domain_def the_subnet_def py_simps)
    qed
  qed
qed

lemma placed_disjoint:
  assumes "place_subnet E tenant sid cidr s = (r, s')" and "cache_disjoint L (st_rds_cache s)"
    and "L = ne_lib E"
  shows "cache_disjoint L (st_rds_cache s')"
    and "\<And>rd. r = Inr rd \<Longrightarrow> \<not> rd_overlaps L sid cidr (rd_entry_of (st_rds_cache s') (tenant_key tenant) rd)"
proof -
  have wf: "cache_wf (st_rds_cache s)" using assms(2) by (simp add: cache_disjoint_def)
  note c = place_subnet_cases [OF assms(1) wf]
  have "cache_disjoint L (upd_rd t rd (\<lambda>_. []) (st_rds_cache s))" for t rd
    by (rule upd_rd_disjoint [OF assms(2)]) simp
  with c assms(2) show "cache_disjoint L (st_rds_cache s')" by auto
  show "\<not> rd_overlaps L sid cidr (rd_entry_of (st_rds_cache s') (tenant_key tenant) rd)" if "r = Inr rd" for rd
    using c that assms(3) by (auto simp: rd_entry_of_upd rd_overlaps_def)
qed

lemma assign_keeps_disjoint:
  assumes "assign_route_domain E tenant net subnet s = (r, s')" and "cache_disjoint (ne_lib E) (st_rds_cache s)"
  shows "cache_disjoint (ne_lib E) (st_rds_cache s')"
  using assms(1)
proof (cases rule: assign_route_domain_cases)
  case same
  with assms(2) show ?thesis by simp
next
  case (new sub cidr)
  from new(6,2) show ?thesis
  proof (cases rule: assign_new_domain_cases)
    case (place r1 s1)
    with placed_disjoint(1) [OF place(1) assms(2) refl] show ?thesis by simp
  next
    case (placed rd s1 name)
    note p = placed_disjoint [OF placed(1) assms(2) refl]
    from p(1) have "rd_disjoint (ne_lib E) (rd_entry_of (st_rds_cache s1) (tenant_key tenant) rd)"
      by (force simp: cache_disjoint_def rd_entry_of_def get_or_def dest: map_of_SomeD split: option.splits)
    from add_subnet_disjoint [OF this p(2) [OF refl]] placed(4) p(1) show ?thesis
      by (simp add: upd_rd_disjoint rd_entry_of_def)
  qed
qed

text \<open>How many route domains the tenants have.\<close>

definition domains_bounded :: "int \<Rightarrow> 'net rds_cache \<Rightarrow> bool" where
  "domains_bounded n cache \<longleftrightarrow> (\<forall>(t, te) \<in> set cache. int (length te) \<le> n)"

lemma length_upd_key: "length (upd_key k f m) = (if k \<in> fst ` set m then length m else Suc (length m))"
proof -
  have "length (AList.update k v m) = (if k \<in> fst ` set m then length m else Suc (length m))" for v
    by (induction m) auto
  then show ?thesis by (simp add: upd_key_def)
qed

lemma upd_rd_bounded:
  assumes "domains_bounded n cache"
    and "rd \<in> fst ` set (get_or [] (map_of cache t)) \<or> int (length (get_or [] (map_of cache t))) < n"
  shows "domains_bounded n (upd_rd t rd f cache)"
proof -
  let ?te = "upd_key rd (\<lambda>re. f (get_or [] re)) (get_or [] (map_of cache t))"
  have "int (length ?te) \<le> n"
    using assms by (cases "map_of cache t") (auto simp: domains_bounded_def length_upd_key dest!: map_of_SomeD)
  with assms(1) set_update_subset [of t ?te cache] show ?thesis
    by (fastforce simp: domains_bounded_def upd_rd_def upd_key_def [of t])
qed

lemma upd_rd_key: "rd \<in> fst ` set (get_or [] (map_of (upd_rd t rd f cache) t))"
  by (simp add: upd_rd_def upd_key_def update_conv' dom_update)

lemma placed_bounded:
  assumes "place_subnet E tenant sid cidr s = (r, s')" and "cache_wf (st_rds_cache s)"
    and "domains_bounded (max_namespaces_per_tenant (ne_conf E)) (st_rds_cache s)"
  shows "domains_bounded (max_namespaces_per_tenant (ne_conf E)) (st_rds_cache s')"
    and "\<And>rd. r = Inr rd \<Longrightarrow> rd \<in> fst ` set (get_or [] (map_of (st_rds_cache s') (tenant_key tenant)))"
  using place_subnet_cases [OF assms(1,2)] assms(3) by (auto intro: upd_rd_bounded simp: upd_rd_key)

lemma assign_keeps_bound:
  assumes "assign_route_domain E tenant net subnet s = (r, s')" and "cache_wf (st_rds_cache s)"
    and "domains_bounded (max_namespaces_per_tenant (ne_conf E)) (st_rds_cache s)"
  shows "domains_bounded (max_namespaces_per_tenant (ne_conf E)) (st_rds_cache s')"
  using assms(1)
proof (cases rule: assign_route_domain_cases)
  case same
  with assms(3) show ?thesis by simp
next
  case (new sub cidr)
  from new(6,2) show ?thesis
  proof (cases rule: assign_new_domain_cases)
    case (place r1 s1)
    with placed_bounded(1) [OF place(1) assms(2,3)] show ?thesis by simp
  next
    case (placed rd s1 name)
    note p = placed_bounded [OF placed(1) assms(2,3)]
    from p(1) p(2) [OF refl] placed(4) show ?thesis by (auto intro: upd_rd_bounded)
  qed
qed

text \<open>A domain once given to a network is what later calls give it, without touching anything.\<close>

lemma placed_unknown:
  assumes "place_subnet E tenant sid cidr s = (r, s')" and "cache_wf (st_rds_cache s)"
    and "cached_domains name (st_rds_cache s) = []"
  shows "cached_domains name (st_rds_cache s') = []"
proof -
  have "cached_domains name (upd_rd t rd (\<lambda>_. []) (st_rds_cache s)) = []" for t rd
  proof -
    have "x \<notin> set (cached_domains name (upd_rd t rd (\<lambda>_. []) (st_rds_cache s)))" for x
      using assms(3) cached_domains_iff [of x name "st_rds_cache s"]
      by (auto simp: cached_domains_iff [of x name "upd_rd t rd _ _"] dest!: upd_rd_entries)
    then show ?thesis by (metis list.set_intros(1) neq_Nil_conv)
  qed
  with place_subnet_cases [OF assms(1,2)] assms(3) show ?thesis by auto
qed

lemma assign_then_cached:
  assumes "assign_route_domain E tenant net subnet s = (Inr rd, s')" and "cache_wf (st_rds_cache s)"
    and "\<not> is_common_network (ne_conf E) net" and "max_namespaces_per_tenant (ne_conf E) \<noteq> 1"
  shows "get_route_domain_from_cache net (st_rds_cache s') = Inr rd"
proof (cases "get_route_domain_from_cache net (st_rds_cache s)")
  case (Inr rd0)
  with assms(1,3) show ?thesis by (auto simp: assign_route_domain_def bindM_getsM retM_def)
next
  case (Inl e)
  then have n: "assign_new_domain E tenant net subnet s = (Inr rd, s')"
    using assms(1,3,4) by (auto simp: assign_route_domain_def bindM_getsM raiseM_def cache_missed_def split: if_splits)
  then obtain sub cidr where sub: "subnet = Some sub" "nl_network (ne_lib E) (sub_cidr sub) = Inr cidr"
    by (cases subnet; cases "nl_network (ne_lib E) (sub_cidr (the subnet))")
      (auto simp: assign_new_domain_def the_subnet_def py_simps)
  from n sub have "assign_new_domain E tenant net (Some sub) s = (Inr rd, s')" by simp
  from this sub(2) show ?thesis
  proof (cases rule: assign_new_domain_cases)
    case (placed rd1 s1 name)
    have "cached_domains name (st_rds_cache s) = []"
      using Inl placed(3) by (auto simp: get_route_domain_from_cache_def split: list.splits)
    from cached_domains_add [OF placed_unknown [OF placed(1) assms(2) this], of "tenant_key tenant" rd1 "sub_id sub" cidr]
    have "\<exists>xs. cached_domains name (st_rds_cache s') = rd1 # xs"
      using placed(4) by (cases "cached_domains name (st_rds_cache s')") auto
    with placed(2,3) show ?thesis by (auto simp: get_route_domain_from_cache_def)
  qed blast
qed

lemma assign_cached:
  assumes "get_route_domain_from_cache net (st_rds_cache s) = Inr rd" and "\<not> is_common_network (ne_conf E) net"
  shows "assign_route_domain E tenant net subnet s = (Inr rd, s)"
  using assms by (simp add: assign_route_domain_def bindM_getsM retM_def)

section \<open>Removal\<close>

definition cached_subnet :: "'net rds_cache \<Rightarrow> string \<Rightarrow> int \<Rightarrow> string \<Rightarrow> string \<Rightarrow> 'net option" where
  "cached_subnet cache t rd name sid =
     Option.bind (map_of cache t) (\<lambda>te. Option.bind (map_of te rd) (\<lambda>re.
       Option.bind (map_of re name) (\<lambda>ne. map_of ne sid)))"

lemma map_of_filter_distinct:
  assumes "distinct (map fst es)"
  shows "map_of (filter Q es) j = Option.bind (map_of es j) (\<lambda>v. if Q (j, v) then Some v else None)"
  using assms by (induction es) (auto split: Option.bind_splits dest: map_of_SomeD simp: rev_image_eqI)

lemma remove_subnet_lookup:
  "Option.bind (map_of (remove_subnet name sid re) n) (\<lambda>ne. map_of ne i) =
     (if n = name \<and> i = sid then None else Option.bind (map_of re n) (\<lambda>ne. map_of ne i))"
proof (cases "map_of re name")
  case (Some ne)
  show ?thesis
  proof (cases "map_of ne sid")
    case None
    with Some show ?thesis by (auto simp: remove_subnet_def)
  next
    case (Some c)
    have "map_of ne i = None" if "AList.delete sid ne = []" "i \<noteq> sid" for i
      using that delete_conv' [of sid ne] by (metis fun_upd_other map_of.simps(1))
    with Some \<open>map_of re name = Some ne\<close> show ?thesis
      by (auto simp: remove_subnet_def Let_def delete_conv' update_conv')
  qed
qed (auto simp: remove_subnet_def)

lemma remove_from_rds_cache_lookup:
  assumes "remove_from_rds_cache net sid cache = Inr cache'" and "get_neutron_net_short_name net = Inr name"
    and "cache_wf cache"
  shows "cached_subnet cache' t rd n i = (if n = name \<and> i = sid then None else cached_subnet cache t rd n i)"
proof (cases "map_of cache t")
  case None
  with assms(1,2) show ?thesis by (auto simp: remove_from_rds_cache_def cached_subnet_def map_of_map)
next
  case (Some te)
  let ?F = "\<lambda>te. filter (\<lambda>(rd, re). re \<noteq> []) (map (\<lambda>(rd, re). (rd, remove_subnet name sid re)) te)"
  have "cache' = map (\<lambda>(t, te). (t, ?F te)) cache"
    using assms(1,2) by (auto simp: remove_from_rds_cache_def)
  with Some have c: "map_of cache' t = Some (?F te)" by (simp add: map_of_map)
  have "distinct (map fst te)" using Some assms(3) by (auto simp: cache_wf_def dest: map_of_SomeD)
  then have "distinct (map fst (map (\<lambda>(rd, re). (rd, remove_subnet name sid re)) te))"
    by (simp add: comp_def split_beta)
  from map_of_filter_distinct [OF this] have
    "Option.bind (map_of (?F te) rd) (\<lambda>re. Option.bind (map_of re n) (\<lambda>ne. map_of ne i)) =
       Option.bind (map_of te rd) (\<lambda>re. Option.bind (map_of (remove_subnet name sid re) n) (\<lambda>ne. map_of ne i))"
    by (cases "map_of te rd") (auto simp: map_of_map)
  with c Some show ?thesis
    by (cases "map_of te rd") (auto simp: cached_subnet_def remove_subnet_lookup)
qed

lemma remove_from_rds_cache_nonempty:
  assumes "remove_from_rds_cache net sid cache = Inr cache'" and "(t, te) \<in> set cache'" and "(rd, re) \<in> set te"
  shows "re \<noteq> []"
  using assms by (auto simp: remove_from_rds_cache_def bindE_eq_Inr)

section \<open>Annotating a service\<close>

definition set_network_rd :: "string \<Rightarrow> int \<Rightarrow> service \<Rightarrow> service" where
  "set_network_rd i rd svc =
     svc\<lparr>sv_networks := map_option (map (\<lambda>(k, n). (k, if k = i then n\<lparr>net_route_domain_id := Some rd\<rparr> else n)))
            (sv_networks svc)\<rparr>"

definition mod_site_service :: "(service \<Rightarrow> service) \<Rightarrow> (('net, 'd, 'w) site, unit) py" where
  [py_simps]: "mod_site_service f = modifyM (\<lambda>s. s\<lparr>st_service := f (st_service s)\<rparr>)"

text \<open>The route domain of a network of the service; \<open>None\<close> when the service has no networks.\<close>

definition assign_network ::
  "('ip, 'net, 'd, 'w) net_env \<Rightarrow> string option \<Rightarrow> string \<Rightarrow> string \<Rightarrow> (('net, 'd, 'w) site, int option) py" where
  "assign_network E tenant network_id subnet_id =
     bindM (getsM st_service) (\<lambda>svc.
     bindM (liftM (get_network_from_service svc network_id)) (\<lambda>net.
     bindM (liftM (get_subnet_from_service svc subnet_id)) (\<lambda>sub.
     case net of
       None \<Rightarrow> retM None
     | Some net \<Rightarrow>
         bindM (assign_route_domain E tenant net sub) (\<lambda>rd.
         bindM (mod_site_service (set_network_rd network_id rd)) (\<lambda>_. retM (Some rd))))))"

definition annotate_member ::
  "('ip, 'net, 'd, 'w) net_env \<Rightarrow> string option \<Rightarrow> member \<Rightarrow> ('net, 'd, 'w) site
     \<Rightarrow> (exn + unit) \<times> member \<times> ('net, 'd, 'w) site" where
  "annotate_member E tenant m s =
     (case me_network_id m of
        None \<Rightarrow> (Inr (), m\<lparr>me_address := me_address m @ ''%0''\<rparr>, s)
      | Some i \<Rightarrow>
          if i = '''' then (Inr (), m\<lparr>me_address := me_address m @ ''%0''\<rparr>, s)
          else case assign_network E tenant i (me_subnet_id m) s of
                 (Inl e, s') \<Rightarrow> (Inl e, m, s')
               | (Inr None, s') \<Rightarrow> (Inr (), m, s')
               | (Inr (Some rd), s') \<Rightarrow> (Inr (), m\<lparr>me_address := domain_address (me_address m) rd\<rparr>, s'))"

definition annotate_members ::
  "('ip, 'net, 'd, 'w) net_env \<Rightarrow> string option \<Rightarrow> (('net, 'd, 'w) site, unit) py" where
  "annotate_members E tenant s =
     (case inplace (annotate_member E tenant) (get_all (sv_members (st_service s))) s of
        (r, ms, s') \<Rightarrow>
          (r, s'\<lparr>st_service := (st_service s')\<lparr>sv_members := map_option (\<lambda>_. ms) (sv_members (st_service s'))\<rparr>\<rparr>))"

definition set_vip_address :: "string \<Rightarrow> (('net, 'd, 'w) site, unit) py" where
  "set_vip_address a =
     mod_site_service (\<lambda>svc. svc\<lparr>sv_loadbalancer := map_option (\<lambda>lb. lb\<lparr>lb_vip_address := Some a\<rparr>) (sv_loadbalancer svc)\<rparr>)"

definition annotate_vip ::
  "('ip, 'net, 'd, 'w) net_env \<Rightarrow> loadbalancer \<Rightarrow> (('net, 'd, 'w) site, unit) py" where
  "annotate_vip E lb =
     (case lb_vip_address lb of
        None \<Rightarrow> retM ()
      | Some vip \<Rightarrow>
          (case lb_network_id lb of
             None \<Rightarrow> set_vip_address (vip @ ''%0'')
           | Some i \<Rightarrow>
               bindM (assign_network E (lb_tenant_id lb) i (lb_vip_subnet_id lb)) (\<lambda>rd.
                 case rd of None \<Rightarrow> raiseM TypeError | Some rd \<Rightarrow> set_vip_address (domain_address vip rd))))"

definition annotate_service_route_domains ::
  "('ip, 'net, 'd, 'w) net_env \<Rightarrow> (('net, 'd, 'w) site, unit) py" where
  "annotate_service_route_domains E =
     bindM (\<lambda>s. (subE (sv_loadbalancer (st_service s)), s)) (\<lambda>lb.
     bindM (update_rds_cache E (lb_tenant_id lb)) (\<lambda>_.
     bindM (annotate_members E (lb_tenant_id lb)) (\<lambda>_. annotate_vip E lb)))"

end
