(* ===== verification/NetworkService.thy ===== *)
theory NetworkService
  imports RouteDomains SubnetHints
begin

text \<open>
  \<open>network_service.py\<close>: what is done on the devices before and after a service is configured. Before:
  the networks must be complete, addresses get their route domain, every device gets the networks and
  self IPs of the live subnets, then the SNATs or the gateways. After: the FDB records follow the
  members, and the subnets the service gave up and no address uses are taken from the devices.

  The lemmas: the subnets to assure are those of the live objects; a subnet is only given up when no
  virtual address or node of the folder lies on it.
\<close>

section \<open>Tunnelling\<close>

definition vtep_folder :: "conf \<Rightarrow> string" where
  "vtep_folder c =
     (case f5_vtep_folder c of None \<Rightarrow> ''Common'' | Some f \<Rightarrow> if f = '''' \<or> lower f = ''none'' then ''Common'' else f)"

definition initialize_tunneling :: "('ip, 'net, 'd, 'w) net_env \<Rightarrow> ('d bigip, unit) py" where
  "initialize_tunneling E =
     bindM (modifyM (\<lambda>b. b\<lparr>b_local_ip := None\<rparr>)) (\<lambda>_.
       case f5_vtep_selfip_name (ne_conf E) of
         None \<Rightarrow> retM ()
       | Some n \<Rightarrow>
           if n = '''' \<or> lower n = ''none'' then retM ()
           else
             bindM (on_dev (create_vxlan_multipoint_profile (ne_net E) ''vxlan_ovs'' ''Common'')) (\<lambda>_.
             bindM (on_dev (create_l2gre_multipoint_profile (ne_net E) ''gre_ovs'' ''Common'')) (\<lambda>_.
             bindM (on_dev (get_selfip_addr (ne_net E) n (vtep_folder (ne_conf E)))) (\<lambda>ip.
               if ip = '''' then raiseM (F5 MissingVTEPAddress)
               else modifyM (\<lambda>b. b\<lparr>b_local_ip := Some ip\<rparr>)))))"

section \<open>Before a service\<close>

definition supported_net_types :: "string list" where
  "supported_net_types = [''vlan'', ''vxlan'', ''gre'', ''opflex'']"

definition opflex_port_name :: "string \<Rightarrow> string" where
  "opflex_port_name network_id = ''bigip-opflex-'' @ network_id"

text \<open>The first network without a segment decides; \<open>opflex\<close> networks get a port.\<close>

fun service_connected :: "('ip, 'net, 'd, 'w) net_env \<Rightarrow> (string \<times> network) list \<Rightarrow> ('w, bool) py" where
  "service_connected E [] = retM True"
| "service_connected E ((i, net) # nets) =
     (let ty = get_or '''' (net_type net) in
      if i \<in> fst ` set (common_network_ids (ne_conf E)) \<or> ty = ''flat'' then service_connected E nets
      else if net_segmentation_id net \<noteq> None \<and> net_segmentation_id net \<noteq> Some 0 then service_connected E nets
      else if ty \<in> set supported_net_types \<and>
              get_or '''' (f5_network_segment_physical_network (ne_conf E)) \<noteq> ''''
      then bindM (if ty = ''opflex'' then rpc_create_port_on_network (ne_rpc E) i (opflex_port_name i) else retM ())
             (\<lambda>_. retM False)
      else raiseM (F5 InvalidNetworkDefinition))"

definition is_service_connected :: "('ip, 'net, 'd, 'w) net_env \<Rightarrow> service \<Rightarrow> ('w, bool) py" where
  "is_service_connected E svc = service_connected E (get_or [] (sv_networks svc))"

text \<open>The subnets of the live objects, by subnet id; an object later in the service replaces an earlier one.\<close>

definition subnet_to_assure ::
  "service \<Rightarrow> string \<Rightarrow> string \<Rightarrow> bool \<Rightarrow> (string \<times> subnetinfo) list \<Rightarrow> exn + (string \<times> subnetinfo) list" where
  "subnet_to_assure svc network_id subnet_id for_member m =
     bindE (get_network_from_service svc network_id) (\<lambda>net.
     bindE (get_subnet_from_service svc subnet_id) (\<lambda>sub.
     bindE (the_subnet sub) (\<lambda>s.
       Inr (AList.update (sub_id s) \<lparr>si_network = net, si_subnet = Some s, si_is_for_member = for_member\<rparr> m))))"

fun member_subnets_to_assure ::
  "service \<Rightarrow> member list \<Rightarrow> (string \<times> subnetinfo) list \<Rightarrow> exn + (string \<times> subnetinfo) list" where
  "member_subnets_to_assure svc [] m = Inr m"
| "member_subnets_to_assure svc (x # xs) m =
     bindE (subE (me_status x)) (\<lambda>st.
     bindE (if st = PENDING_DELETE then Inr m
            else case me_network_id x of
                   None \<Rightarrow> Inr m | Some i \<Rightarrow> subnet_to_assure svc i (me_subnet_id x) True m)
       (member_subnets_to_assure svc xs))"

definition get_subnets_to_assure :: "service \<Rightarrow> exn + subnetinfo list" where
  "get_subnets_to_assure svc =
     bindE (subE (sv_loadbalancer svc)) (\<lambda>lb.
     bindE (if lb_status lb = PENDING_DELETE then Inr []
            else case lb_network_id lb of
                   None \<Rightarrow> Inr [] | Some i \<Rightarrow> subnet_to_assure svc i (lb_vip_subnet_id lb) False []) (\<lambda>m.
     bindE (member_subnets_to_assure svc (get_all (sv_members svc)) m) (\<lambda>m. Inr (map snd m))))"

text \<open>One pass over the devices, each with the vCMP hosts and Neutron.\<close>

definition l2_of :: "'d bigip \<Rightarrow> 'd vcmp_host list \<times> 'w \<Rightarrow> ('d, 'w) l2" where
  "l2_of b hw = \<lparr>vc_hosts = fst hw, vc_bigip = b, l2_world = snd hw\<rparr>"

definition run_l2 ::
  "(('d, 'w) l2, unit) py \<Rightarrow> 'd bigip \<Rightarrow> 'd vcmp_host list \<times> 'w \<Rightarrow> (exn + unit) \<times> 'd bigip \<times> 'd vcmp_host list \<times> 'w" where
  "run_l2 m b hw = (case m (l2_of b hw) of (r, s) \<Rightarrow> (r, vc_bigip s, vc_hosts s, l2_world s))"

definition each_bigip :: "(('d, 'w) l2, unit) py \<Rightarrow> (('net, 'd, 'w) site, unit) py" where
  "each_bigip m s =
     (case inplace (run_l2 m) (st_bigips s) (st_hosts s, st_world s) of
        (r, bs, hs, w) \<Rightarrow> (r, s\<lparr>st_bigips := bs, st_hosts := hs, st_world := w\<rparr>))"

definition on_site_world :: "('w, 'a) py \<Rightarrow> (('net, 'd, 'w) site, 'a) py" where
  [py_simps]: "on_site_world m s = (case m (st_world s) of (r, w) \<Rightarrow> (r, s\<lparr>st_world := w\<rparr>))"

definition assure_connectivity ::
  "('ip, 'net, 'd, 'w) net_env \<Rightarrow> l3_mappings option \<Rightarrow> loadbalancer \<Rightarrow> subnetinfo list \<Rightarrow> (('d, 'w) l2, unit) py" where
  "assure_connectivity E l3 lb infos =
     forM infos (\<lambda>info.
       bindM (assure_bigip_network E (si_network info)) (\<lambda>_. assure_bigip_selfip E l3 lb info))"

definition assure_subnet_snats ::
  "('ip, 'net, 'd, 'w) net_env \<Rightarrow> l3_mappings option \<Rightarrow> loadbalancer \<Rightarrow> subnetinfo \<Rightarrow> (('net, 'd, 'w) site, unit) py" where
  "assure_subnet_snats E l3 lb info =
     bindM (liftM (the_subnet (si_subnet info))) (\<lambda>sub.
     bindM (getsM (\<lambda>s. filter (\<lambda>b. \<not> subnet_assured (lb_tenant_id lb) (sub_id sub) b) (st_bigips s))) (\<lambda>todo.
     if todo = [] then retM ()
     else
       let count = f5_snat_addresses_per_subnet (ne_conf E) in
       bindM (on_site_world (get_snat_addrs E sub (lb_tenant_id lb) count (lb_id lb))) (\<lambda>addrs.
       if int (length addrs) \<noteq> count then raiseM (F5 SNATCreationException)
       else
         bindM (liftM (the_network (si_network info))) (\<lambda>net.
           each_bigip (bindM (getsM vc_bigip) (\<lambda>b.
             if subnet_assured (lb_tenant_id lb) (sub_id sub) b then retM ()
             else assure_bigip_snats E l3 net sub addrs (lb_tenant_id lb)))))))"

text \<open>\<open>_allocate_gw_addr\<close>: a port that cannot be had is only logged.\<close>

definition allocate_gw_addr :: "('ip, 'net, 'd, 'w) net_env \<Rightarrow> subnetinfo \<Rightarrow> ('w, unit) py" where
  "allocate_gw_addr E info =
     (case (si_network info, si_subnet info) of
        (Some net, Some sub) \<Rightarrow>
          bindM (liftM (gateway_ip sub)) (\<lambda>gw.
          bindM (rpc_get_port_by_name (ne_rpc E) (gateway_name (sub_id sub))) (\<lambda>ports.
            if ports \<noteq> [] then retM ()
            else tryM (bindM (rpc_create_port_with_ip (ne_rpc E) (sub_id sub) (gateway_name (sub_id sub)) gw) (\<lambda>_. retM ()))
                   (\<lambda>_. retM ())))
      | _ \<Rightarrow> retM ())"

definition gateway_error :: "exn \<Rightarrow> exn" where
  "gateway_error e = (if e = KeyError then F5 VirtualServerCreationException else e)"

definition assure_l3_config ::
  "('ip, 'net, 'd, 'w) net_env \<Rightarrow> l3_mappings option \<Rightarrow> loadbalancer \<Rightarrow> string \<Rightarrow> subnetinfo
     \<Rightarrow> (('net, 'd, 'w) site, unit) py" where
  "assure_l3_config E l3 lb traffic_group info =
     bindM (if f5_snat_addresses_per_subnet (ne_conf E) > 0 then assure_subnet_snats E l3 lb info else retM ()) (\<lambda>_.
       if si_is_for_member info \<and> \<not> f5_snat_mode (ne_conf E)
       then bindM (tryM (on_site_world (allocate_gw_addr E info)) (\<lambda>e. raiseM (gateway_error e))) (\<lambda>_.
              each_bigip (assure_gateway_on_subnet E l3 info traffic_group))
       else retM ())"

text \<open>
  The handler of \<open>InvalidNetworkType\<close> reads \<open>exc.msg\<close>, an attribute the exception does not have.
\<close>

definition annotation_error :: "exn \<Rightarrow> exn" where
  "annotation_error e = (if e = F5 InvalidNetworkType then AttributeError else F5 RouteDomainCreationException)"

definition prep_service_networking ::
  "('ip, 'net, 'd, 'w) net_env \<Rightarrow> l3_mappings option \<Rightarrow> string \<Rightarrow> (('net, 'd, 'w) site, unit) py" where
  "prep_service_networking E l3 traffic_group =
     (if f5_global_routed_mode (ne_conf E) then retM ()
      else
        bindM (getsM st_service) (\<lambda>svc.
        bindM (on_site_world (is_service_connected E svc)) (\<lambda>connected.
        if \<not> connected then raiseM (F5 NetworkNotReady)
        else
          bindM (if use_namespaces (ne_conf E)
                 then tryM (annotate_service_route_domains E) (\<lambda>e. raiseM (annotation_error e)) else retM ()) (\<lambda>_.
          bindM (\<lambda>s. (get_subnets_to_assure (st_service s), s)) (\<lambda>infos.
          bindM (\<lambda>s. (subE (sv_loadbalancer (st_service s)), s)) (\<lambda>lb.
          bindM (each_bigip (assure_connectivity E l3 lb infos)) (\<lambda>_.
            forM infos (assure_l3_config E l3 lb traffic_group))))))))"

section \<open>FDB records of the service\<close>

definition on_site_bigips :: "('d bigip list, 'a) py \<Rightarrow> (('net, 'd, 'w) site, 'a) py" where
  [py_simps]: "on_site_bigips m s = (case m (st_bigips s) of (r, bs) \<Rightarrow> (r, s\<lparr>st_bigips := bs\<rparr>))"

definition with_network :: "service \<Rightarrow> member \<Rightarrow> exn + member \<times> network option" where
  "with_network svc m =
     bindE (subE (me_network_id m)) (\<lambda>i. bindE (get_network_from_service svc i) (\<lambda>n. Inr (m, n)))"

definition is_deleted_member :: "member \<times> network option \<Rightarrow> bool" where
  "is_deleted_member mn \<longleftrightarrow> me_status (fst mn) = Some PENDING_DELETE"

definition update_bigip_l2 :: "('ip, 'net, 'd, 'w) net_env \<Rightarrow> (('net, 'd, 'w) site, unit) py" where
  "update_bigip_l2 E =
     bindM (getsM st_service) (\<lambda>svc.
     bindM (liftM (subE (sv_loadbalancer svc))) (\<lambda>lb.
     case lb_network_id lb of
       None \<Rightarrow> retM ()
     | Some i \<Rightarrow>
         bindM (liftM (mapE (with_network svc) (get_all (sv_members svc)))) (\<lambda>ms.
         bindM (liftM (get_network_from_service svc i)) (\<lambda>net.
         let gone = filter is_deleted_member ms; live = filter (\<lambda>m. \<not> is_deleted_member m) ms;
             lb_gone = (lb_status lb = PENDING_DELETE) in
         bindM (if lb_gone \<or> gone \<noteq> []
                then on_site_bigips (l2_delete_fdb_entries E (if lb_gone then Some (lb, net) else None) gone)
                else retM ()) (\<lambda>_.
           if \<not> lb_gone \<or> live \<noteq> []
           then on_site_bigips (l2_add_fdb_entries E (if lb_gone then None else Some (lb, net)) live)
           else retM ())))))"

section \<open>Subnets to give up\<close>

definition address_domain :: "string \<Rightarrow> string" where
  "address_domain a = (case split_on CHR ''%'' a of _ # rd # _ \<Rightarrow> rd | _ \<Rightarrow> ''0'')"

fun any_on_subnet :: "('ip, 'net) netlib \<Rightarrow> 'net \<Rightarrow> string \<Rightarrow> string list \<Rightarrow> exn + bool" where
  "any_on_subnet L net rd [] = Inr False"
| "any_on_subnet L net rd (a # as) =
     (if address_domain a \<noteq> rd then any_on_subnet L net rd as
      else bindE (nl_address L (strip_domain_address a)) (\<lambda>ip.
             if nl_in L ip net then Inr True else any_on_subnet L net rd as))"

definition ips_exist_on_subnet ::
  "('ip, 'net, 'd, 'w) net_env \<Rightarrow> loadbalancer \<Rightarrow> subnet \<Rightarrow> int option \<Rightarrow> ('d, bool) py" where
  "ips_exist_on_subnet E lb sub route_domain =
     (let rd = str_opt str_int route_domain; folder = get_folder_name (ne_adapter E) (lb_tenant_id lb) in
      bindM (liftM (nl_network (ne_lib E) (sub_cidr sub))) (\<lambda>net.
      bindM (get_virtual_service_insertion (ns_old (ne_net E)) (ne_ltm E) folder) (\<lambda>virtuals.
      bindM (liftM (any_on_subnet (ne_lib E) net rd (map ins_address virtuals))) (\<lambda>found.
        if found then retM True
        else
          bindM (get_node_addresses (ne_net E) folder) (\<lambda>nodes.
            liftM (any_on_subnet (ne_lib E) net rd nodes))))))"

fun subnets_to_delete ::
  "('ip, 'net, 'd, 'w) net_env \<Rightarrow> service \<Rightarrow> loadbalancer \<Rightarrow> subnet_hint list \<Rightarrow> ('d, subnetinfo list) py" where
  "subnets_to_delete E svc lb [] = retM []"
| "subnets_to_delete E svc lb (h # hs) =
     bindM (liftM (get_subnet_from_service svc (h_subnet_id h))) (\<lambda>sub.
     bindM (liftM (get_network_from_service svc (h_network_id h))) (\<lambda>net.
     case net of
       None \<Rightarrow> raiseM AttributeError
     | Some n \<Rightarrow>
         (case sub of
            None \<Rightarrow> subnets_to_delete E svc lb hs
          | Some s \<Rightarrow>
              bindM (ips_exist_on_subnet E lb s (net_route_domain_id n)) (\<lambda>used.
              bindM (subnets_to_delete E svc lb hs) (\<lambda>rest.
                retM (if used then rest
                      else \<lparr>si_network = net, si_subnet = sub, si_is_for_member = h_is_for_member h\<rparr> # rest))))))"

definition get_subnets_to_delete ::
  "('ip, 'net, 'd, 'w) net_env \<Rightarrow> service \<Rightarrow> loadbalancer \<Rightarrow> subnet_hints \<Rightarrow> ('d, subnetinfo list) py" where
  "get_subnets_to_delete E svc lb h = subnets_to_delete E svc lb (map snd (check_for_delete_subnets h))"

section \<open>Cleaning the devices\<close>

record ('d, 'w, 'net) cleanup = "('d, 'w) l2" +
  cl_cache :: "'net rds_cache"
  cl_hints :: subnet_hints
  cl_deleted :: "string list" \<comment> \<open>names of ports to delete, a set\<close>

definition add_deleted :: "string list \<Rightarrow> (('d, 'w, 'net) cleanup, unit) py" where
  [py_simps]: "add_deleted names = modifyM (\<lambda>s. s\<lparr>cl_deleted := fold List.insert names (cl_deleted s)\<rparr>)"

definition mod_hints :: "(subnet_hints \<Rightarrow> subnet_hints) \<Rightarrow> (('d, 'w, 'net) cleanup, unit) py" where
  [py_simps]: "mod_hints f = modifyM (\<lambda>s. s\<lparr>cl_hints := f (cl_hints s)\<rparr>)"

definition pop_hint :: "string \<Rightarrow> subnet_hints \<Rightarrow> subnet_hints" where
  "pop_hint k h = h\<lparr>check_for_delete_subnets := AList.delete k (check_for_delete_subnets h)\<rparr>"

definition keep_subnet :: "string \<Rightarrow> subnet_hints \<Rightarrow> subnet_hints" where
  "keep_subnet k h =
     (if k \<in> set (do_not_delete_subnets h) then h
      else h\<lparr>do_not_delete_subnets := do_not_delete_subnets h @ [k]\<rparr>)"

text \<open>Every error of the clean-up of one subnet is only logged.\<close>

definition logged :: "('s, unit) py \<Rightarrow> ('s, unit) py" where
  "logged m = tryM m (\<lambda>_. retM ())"

definition delete_net_shared ::
  "('ip, 'net, 'd, 'w) net_env \<Rightarrow> l3_mappings option \<Rightarrow> loadbalancer \<Rightarrow> subnetinfo
     \<Rightarrow> (('d, 'w, 'net) cleanup, unit) py" where
  "delete_net_shared E l3 lb info =
     bindM (liftM (the_subnet (si_subnet info))) (\<lambda>sub.
     bindM (if f5_snat_mode (ne_conf E) then retM ()
            else bindM (delete_gateway_on_subnet E l3 info) (\<lambda>gw. add_deleted [gw])) (\<lambda>_.
     bindM (delete_bigip_snats E l3 (si_network info) sub (lb_tenant_id lb)) (\<lambda>(names, used).
     bindM (add_deleted names) (\<lambda>_. mod_hints (fold pop_hint used)))))"

definition assure_delete_nets_shared ::
  "('ip, 'net, 'd, 'w) net_env \<Rightarrow> l3_mappings option \<Rightarrow> service \<Rightarrow> loadbalancer \<Rightarrow> (('d, 'w, 'net) cleanup, unit) py" where
  "assure_delete_nets_shared E l3 svc lb =
     bindM (getsM cl_hints) (\<lambda>h.
     bindM (on_guest_device (get_subnets_to_delete E svc lb h)) (\<lambda>infos.
       forM infos (\<lambda>info. logged (delete_net_shared E l3 lb info))))"

definition delete_local_selfip ::
  "('ip, 'net, 'd, 'w) net_env \<Rightarrow> l3_mappings option \<Rightarrow> string \<Rightarrow> subnet \<Rightarrow> string
     \<Rightarrow> (('d, 'w, 'net) cleanup, unit) py" where
  "delete_local_selfip E l3 folder sub name =
     bindM (on_guest_device (get_selfip_addr (ne_net E) name folder)) (\<lambda>ip.
     bindM (on_guest_device (delete_selfip (ne_net E) name folder)) (\<lambda>_.
     bindM (if ip = '''' then retM () else on_world (l3_unbind (ne_rpc E) l3 (sub_id sub) ip)) (\<lambda>_.
       add_deleted [name])))"

definition forget_cached :: "network \<Rightarrow> string \<Rightarrow> (('d, 'w, 'net) cleanup, unit) py" where
  "forget_cached net sid s =
     (case remove_from_rds_cache net sid (cl_cache s) of
        Inl e \<Rightarrow> (Inl e, s) | Inr c \<Rightarrow> (Inr (), s\<lparr>cl_cache := c\<rparr>))"

definition delete_net_nonshared ::
  "('ip, 'net, 'd, 'w) net_env \<Rightarrow> l3_mappings option \<Rightarrow> loadbalancer \<Rightarrow> network \<Rightarrow> subnet
     \<Rightarrow> (('d, 'w, 'net) cleanup, unit) py" where
  "delete_net_nonshared E l3 lb net sub =
     (let folder = snat_folder E net (lb_tenant_id lb) in
      bindM (if f5_populate_static_arp (ne_conf E)
             then bindM (on_guest_device (arp_delete_by_subnet (ne_lib E) (ne_net E) (sub_cidr sub) None folder))
                    (\<lambda>_. retM ())
             else retM ()) (\<lambda>_.
      bindM (getsM (\<lambda>s. b_device_name (vc_bigip s))) (\<lambda>dev.
      bindM (delete_local_selfip E l3 folder sub (local_selfip_name dev (sub_id sub))) (\<lambda>_.
      bindM (if get_or '''' (f5_network_segment_physical_network (ne_conf E)) \<noteq> '''' \<and> net_id net \<noteq> ''''
             then add_deleted [opflex_port_name (net_id net)] else retM ()) (\<lambda>_.
      bindM (delete_bigip_network E net) (\<lambda>_.
      bindM (mod_hints (keep_subnet (sub_id sub))) (\<lambda>_.
      bindM (forget_cached net (sub_id sub)) (\<lambda>_.
        modifyM (remove_assured_tenant_snat_subnet (lb_tenant_id lb) (sub_id sub))))))))))"

definition assure_delete_nets_nonshared ::
  "('ip, 'net, 'd, 'w) net_env \<Rightarrow> l3_mappings option \<Rightarrow> service \<Rightarrow> loadbalancer \<Rightarrow> (('d, 'w, 'net) cleanup, unit) py" where
  "assure_delete_nets_nonshared E l3 svc lb =
     bindM (getsM cl_hints) (\<lambda>h.
     bindM (on_guest_device (get_subnets_to_delete E svc lb h)) (\<lambda>infos.
       forM infos (\<lambda>info.
         case (si_network info, si_subnet info) of
           (Some net, Some sub) \<Rightarrow> logged (delete_net_nonshared E l3 lb net sub)
         | _ \<Rightarrow> retM ())))"

section \<open>After a service\<close>

text \<open>The state of the clean-up loops: the site, the hints of every device, the ports to delete.\<close>

type_synonym ('net, 'd, 'w) post_state = "('net, 'd, 'w) site \<times> all_hints \<times> string list"

definition clean_bigip ::
  "(('d, 'w, 'net) cleanup, unit) py \<Rightarrow> 'd bigip
     \<Rightarrow> 'd vcmp_host list \<times> 'w \<times> 'net rds_cache \<times> all_hints \<times> string list
     \<Rightarrow> (exn + unit) \<times> 'd bigip \<times> 'd vcmp_host list \<times> 'w \<times> 'net rds_cache \<times> all_hints \<times> string list" where
  "clean_bigip m b st =
     (case st of (hs, w, c, hints, del) \<Rightarrow>
        case map_of hints (b_device_name b) of
          None \<Rightarrow> (Inl KeyError, b, st)
        | Some h \<Rightarrow>
            (case m \<lparr>vc_hosts = hs, vc_bigip = b, l2_world = w, cl_cache = c, cl_hints = h, cl_deleted = del\<rparr> of
               (r, s) \<Rightarrow>
                 (r, vc_bigip s, vc_hosts s, l2_world s, cl_cache s,
                  AList.update (b_device_name b) (cl_hints s) hints, cl_deleted s)))"

definition clean_each :: "(('d, 'w, 'net) cleanup, unit) py \<Rightarrow> (('net, 'd, 'w) post_state, unit) py" where
  "clean_each m st =
     (case st of (s, hints, del) \<Rightarrow>
        case inplace (clean_bigip m) (st_bigips s) (st_hosts s, st_world s, st_rds_cache s, hints, del) of
          (r, bs, hs, w, c, hints', del') \<Rightarrow>
            (r, s\<lparr>st_bigips := bs, st_hosts := hs, st_world := w, st_rds_cache := c\<rparr>, hints', del'))"

definition on_post_site :: "(('net, 'd, 'w) site, 'a) py \<Rightarrow> (('net, 'd, 'w) post_state, 'a) py" where
  "on_post_site m st = (case st of (s, rest) \<Rightarrow> case m s of (r, s') \<Rightarrow> (r, s', rest))"

definition post_service_networking ::
  "('ip, 'net, 'd, 'w) net_env \<Rightarrow> l3_mappings option \<Rightarrow> (('net, 'd, 'w) post_state, unit) py" where
  "post_service_networking E l3 =
     (if f5_global_routed_mode (ne_conf E) then retM ()
      else
        bindM (on_post_site (update_bigip_l2 E)) (\<lambda>_.
        bindM (getsM (\<lambda>st. st_service (fst st))) (\<lambda>svc.
        bindM (liftM (subE (sv_loadbalancer svc))) (\<lambda>lb.
        bindM (clean_each (assure_delete_nets_shared E l3 svc lb)) (\<lambda>_.
        bindM (clean_each (assure_delete_nets_nonshared E l3 svc lb)) (\<lambda>_.
        bindM (getsM (\<lambda>st. snd (snd st))) (\<lambda>names.
          on_post_site (on_site_world (forM names (rpc_delete_port_by_name (ne_rpc E))))))))))) "

section \<open>Lemmas\<close>

lemma any_on_subnet_False:
  "any_on_subnet L net rd as = Inr False \<longleftrightarrow>
     (\<forall>a \<in> set as. address_domain a = rd \<longrightarrow>
        (\<exists>ip. nl_address L (strip_domain_address a) = Inr ip \<and> \<not> nl_in L ip net))"
  by (induction as) (auto simp: bindE_eq_Inr)

lemma any_on_subnet_True:
  "any_on_subnet L net rd as = Inr True \<Longrightarrow>
     \<exists>a \<in> set as. address_domain a = rd \<and> (\<exists>ip. nl_address L (strip_domain_address a) = Inr ip \<and> nl_in L ip net)"
  by (induction as) (auto simp: bindE_eq_Inr split: if_splits)

text \<open>Reading a device that does not change under the reads.\<close>

lemma ips_exist_reads:
  assumes "get_virtual_service_insertion (ns_old (ne_net E)) (ne_ltm E) (get_folder_name (ne_adapter E) (lb_tenant_id lb)) d
      = (Inr vs, d)"
    and "ns_nodes (ne_net E) (get_folder_name (ne_adapter E) (lb_tenant_id lb)) d = (Inr ns, d)"
    and "ips_exist_on_subnet E lb sub rd d = (r, d')"
  shows "d' = d \<and> (r = Inr False \<longrightarrow> (\<exists>net. nl_network (ne_lib E) (sub_cidr sub) = Inr net \<and>
      any_on_subnet (ne_lib E) net (str_opt str_int rd) (map ins_address vs) = Inr False \<and>
      any_on_subnet (ne_lib E) net (str_opt str_int rd) (map nd_address ns) = Inr False))"
  using assms
  by (auto simp: ips_exist_on_subnet_def Let_def py_simps get_node_addresses_def
      split: sum.splits if_splits)

lemma subnets_to_delete_reads:
  assumes "get_virtual_service_insertion (ns_old (ne_net E)) (ne_ltm E) (get_folder_name (ne_adapter E) (lb_tenant_id lb)) d
      = (Inr vs, d)"
    and "ns_nodes (ne_net E) (get_folder_name (ne_adapter E) (lb_tenant_id lb)) d = (Inr ns, d)"
    and "subnets_to_delete E svc lb hs d = (Inr infos, d')"
  shows "d' = d \<and> (\<forall>info \<in> set infos. \<exists>net sub cidr. si_network info = Some net \<and> si_subnet info = Some sub \<and>
      nl_network (ne_lib E) (sub_cidr sub) = Inr cidr \<and>
      any_on_subnet (ne_lib E) cidr (str_opt str_int (net_route_domain_id net)) (map ins_address vs) = Inr False \<and>
      any_on_subnet (ne_lib E) cidr (str_opt str_int (net_route_domain_id net)) (map nd_address ns) = Inr False)"
  using assms(3)
proof (induction hs arbitrary: infos d')
  case Nil
  then show ?case by (simp add: py_simps)
next
  case (Cons h hs)
  obtain sub where sub: "get_subnet_from_service svc (h_subnet_id h) = Inr sub"
    using Cons.prems by (cases "get_subnet_from_service svc (h_subnet_id h)") (auto simp: py_simps)
  obtain net where net: "get_network_from_service svc (h_network_id h) = Inr (Some net)"
    using Cons.prems sub
    by (cases "get_network_from_service svc (h_network_id h)") (auto simp: py_simps split: option.splits)
  show ?case
  proof (cases sub)
    case None
    with Cons.prems sub net have "subnets_to_delete E svc lb hs d = (Inr infos, d')" by (simp add: py_simps)
    from Cons.IH [OF this] show ?thesis .
  next
    case (Some s)
    obtain r d1 where ips: "ips_exist_on_subnet E lb s (net_route_domain_id net) d = (r, d1)"
      by (cases "ips_exist_on_subnet E lb s (net_route_domain_id net) d") auto
    note reads = ips_exist_reads [OF assms(1,2) ips]
    obtain used where used: "r = Inr used"
      using Cons.prems sub net Some ips by (cases r) (auto simp: py_simps)
    obtain rest d2 where rest: "subnets_to_delete E svc lb hs d = (Inr rest, d2)"
      using Cons.prems sub net Some ips used reads
      by (cases "subnets_to_delete E svc lb hs d"; cases "fst (subnets_to_delete E svc lb hs d)") (auto simp: py_simps)
    have "d' = d2" and "infos = (if used then rest else \<lparr>si_network = Some net, si_subnet = Some s,
        si_is_for_member = h_is_for_member h\<rparr> # rest)"
      using Cons.prems sub net Some ips used reads rest by (auto simp: py_simps)
    with Cons.IH [OF rest] reads used show ?thesis by auto
  qed
qed

text \<open>The subnets of live objects.\<close>

definition live_subnets :: "service \<Rightarrow> loadbalancer \<Rightarrow> string set" where
  "live_subnets svc lb =
     (if lb_status lb \<noteq> PENDING_DELETE \<and> lb_network_id lb \<noteq> None then {lb_vip_subnet_id lb} else {}) \<union>
     {me_subnet_id m | m. m \<in> set (get_all (sv_members svc)) \<and> me_status m \<noteq> Some PENDING_DELETE \<and> me_network_id m \<noteq> None}"

definition subnets_by_id :: "service \<Rightarrow> bool" where
  "subnets_by_id svc \<longleftrightarrow> (\<forall>k s. map_of (get_or [] (sv_subnets svc)) k = Some s \<longrightarrow> sub_id s = k)"

definition infos_ok :: "(string \<times> subnetinfo) list \<Rightarrow> bool" where
  "infos_ok m \<longleftrightarrow> (\<forall>(k, i) \<in> set m. \<exists>s. si_subnet i = Some s \<and> sub_id s = k)"

lemma subnet_to_assure_keys:
  assumes "subnet_to_assure svc n k f m = Inr m'" and "subnets_by_id svc" and "infos_ok m"
  shows "fst ` set m' = insert k (fst ` set m) \<and> infos_ok m'"
proof -
  obtain net s where s: "get_subnet_from_service svc k = Inr (Some s)"
    and m': "m' = AList.update (sub_id s) \<lparr>si_network = net, si_subnet = Some s, si_is_for_member = f\<rparr> m"
    using assms(1) by (auto simp: subnet_to_assure_def the_subnet_def bindE_eq_Inr split: option.splits)
  from s assms(2) have "sub_id s = k"
    by (auto simp: get_subnet_from_service_def subnets_by_id_def bindE_eq_Inr split: option.splits)
  moreover have "infos_ok m'"
    unfolding infos_ok_def
  proof
    fix x assume "x \<in> set m'"
    with m' set_update_subset [of "sub_id s" _ m]
    have "x = (sub_id s, \<lparr>si_network = net, si_subnet = Some s, si_is_for_member = f\<rparr>) \<or> x \<in> set m" by blast
    with assms(3) show "case x of (k, i) \<Rightarrow> \<exists>s. si_subnet i = Some s \<and> sub_id s = k"
      by (auto simp: infos_ok_def)
  qed
  ultimately show ?thesis using m' by (simp add: dom_update)
qed

lemma member_subnets_keys:
  assumes "member_subnets_to_assure svc ms m = Inr m'" and "subnets_by_id svc" and "infos_ok m"
  shows "fst ` set m' = fst ` set m \<union>
      {me_subnet_id x | x. x \<in> set ms \<and> me_status x \<noteq> Some PENDING_DELETE \<and> me_network_id x \<noteq> None} \<and> infos_ok m'"
  using assms(1,3)
proof (induction ms arbitrary: m)
  case Nil
  then show ?case by simp
next
  case (Cons x xs)
  from Cons.prems obtain st m1 where st: "me_status x = Some st"
    and m1: "(if st = PENDING_DELETE then Inr m else case me_network_id x of
        None \<Rightarrow> Inr m | Some i \<Rightarrow> subnet_to_assure svc i (me_subnet_id x) True m) = Inr m1"
    and rest: "member_subnets_to_assure svc xs m1 = Inr m'"
    by (auto simp: bindE_eq_Inr)
  have "fst ` set m1 = fst ` set m \<union> (if st \<noteq> PENDING_DELETE \<and> me_network_id x \<noteq> None then {me_subnet_id x} else {})
      \<and> infos_ok m1"
    using m1 Cons.prems(2) subnet_to_assure_keys [OF _ assms(2) Cons.prems(2)]
    by (auto split: if_splits option.splits)
  with Cons.IH [OF rest] st show ?case by (auto split: if_splits)
qed

lemma get_subnets_to_assure_keys:
  assumes "get_subnets_to_assure svc = Inr infos" and "sv_loadbalancer svc = Some lb" and "subnets_by_id svc"
  shows "(\<lambda>i. map_option sub_id (si_subnet i)) ` set infos = Some ` live_subnets svc lb"
proof -
  obtain m0 m where m0: "(if lb_status lb = PENDING_DELETE then Inr [] else case lb_network_id lb of
        None \<Rightarrow> Inr [] | Some i \<Rightarrow> subnet_to_assure svc i (lb_vip_subnet_id lb) False []) = Inr m0"
    and m: "member_subnets_to_assure svc (get_all (sv_members svc)) m0 = Inr m" and infos: "infos = map snd m"
    using assms(1,2) by (auto simp: get_subnets_to_assure_def bindE_eq_Inr)
  have nil: "infos_ok []" by (simp add: infos_ok_def)
  have "fst ` set m0 = (if lb_status lb \<noteq> PENDING_DELETE \<and> lb_network_id lb \<noteq> None then {lb_vip_subnet_id lb} else {})
      \<and> infos_ok m0"
    using m0 nil subnet_to_assure_keys [OF _ assms(3) nil] by (auto split: if_splits option.splits)
  with member_subnets_keys [OF m assms(3)] have k: "fst ` set m = live_subnets svc lb" and ok: "infos_ok m"
    by (auto simp: live_subnets_def)
  have each: "map_option sub_id (si_subnet (snd x)) = Some (fst x)" if "x \<in> set m" for x
    using ok that by (cases x) (auto simp: infos_ok_def)
  have "(\<lambda>i. map_option sub_id (si_subnet i)) ` set infos = (\<lambda>x. map_option sub_id (si_subnet (snd x))) ` set m"
    by (simp add: infos image_image)
  also have "\<dots> = (\<lambda>x. Some (fst x)) ` set m" using each by (intro image_cong refl) simp
  also have "\<dots> = Some ` live_subnets svc lb" using k by (metis image_image)
  finally show ?thesis .
qed

end
