(* ===== verification/VlanBinding.thy ===== *)
theory VlanBinding
  imports L2Service
begin

text \<open>
  \<open>vlan_binding.py\<close>: which Neutron port the interface of a device is. A binding driver is one of this
  module. Its static mappings are read and dropped: the test \<open>isinstance(device, dict)\<close> is made of the
  keys, which are texts.

  The lemmas: of the ports of a device only the last match is kept. \<open>Network_Properties\<close> draws the
  conclusions for the registration.
\<close>

section \<open>The mappings\<close>

type_synonym port_mappings = "(string \<times> (string \<times> string) list) list" \<comment> \<open>device: interface, port\<close>

record vlan_state =
  vi_mappings :: port_mappings
  vi_initialized :: bool

record vlan_device =
  vd_name :: string
  vd_macs :: "string list"
  vd_interfaces :: "(string \<times> string) list" \<comment> \<open>name, MAC address\<close>

text \<open>The constructor; \<open>parse\<close> is \<open>json.loads\<close>.\<close>

definition new_vlan_binding :: "(string \<Rightarrow> exn + 'j) \<Rightarrow> string option \<Rightarrow> exn + vlan_state" where
  "new_vlan_binding parse static_mappings =
     (if get_or '''' static_mappings = '''' then Inr \<lparr>vi_mappings = [], vi_initialized = False\<rparr>
      else bindE (parse (get_or '''' static_mappings)) (\<lambda>_. Inr \<lparr>vi_mappings = [], vi_initialized = False\<rparr>))"

section \<open>Registering the interfaces\<close>

text \<open>Each match replaces the mapping of the device.\<close>

definition map_port :: "vlan_device \<Rightarrow> port \<Rightarrow> port_mappings \<Rightarrow> port_mappings" where
  "map_port dev p m =
     fold (\<lambda>(i, mac) m. if i \<noteq> ''mgmt'' \<and> mac = pt_mac p then AList.update (vd_name dev) [(i, pt_id p)] m else m)
       (vd_interfaces dev) m"

text \<open>\<open>ports\<close> asks Neutron for the ports of some MAC addresses; \<open>None\<close> without the RPC interface.\<close>

fun map_ports ::
  "(string list \<Rightarrow> ('w, port list) py) option \<Rightarrow> vlan_device list \<Rightarrow> port_mappings \<times> 'w \<Rightarrow> (exn + unit) \<times> port_mappings \<times> 'w" where
  "map_ports ports [] s = (Inr (), s)"
| "map_ports ports (dev # devs) (m, w) =
     (case ports of
        None \<Rightarrow> map_ports ports devs (m, w)
      | Some ask \<Rightarrow>
          (case ask (vd_macs dev) w of
             (Inl e, w') \<Rightarrow> (Inl e, m, w')
           | (Inr ps, w') \<Rightarrow> map_ports ports devs (fold (map_port dev) ps m, w')))"

text \<open>A device without mapping is to be reported with an example, but \<open>json.loads\<close> takes no dictionary.\<close>

definition check_mapped :: "vlan_device list \<Rightarrow> port_mappings \<Rightarrow> exn + unit" where
  "check_mapped devs m = (if list_all (\<lambda>d. vd_name d \<in> fst ` set m) devs then Inr () else Inl TypeError)"

definition register_bigip_interfaces ::
  "(string list \<Rightarrow> ('w, port list) py) option \<Rightarrow> vlan_device list \<Rightarrow> vlan_state \<times> 'w \<Rightarrow> (exn + unit) \<times> vlan_state \<times> 'w" where
  "register_bigip_interfaces ports devs s =
     (case s of (v, w) \<Rightarrow>
        if vi_initialized v then (Inr (), s)
        else case map_ports ports devs (vi_mappings v, w) of
               (Inl e, m, w') \<Rightarrow> (Inl e, v\<lparr>vi_mappings := m\<rparr>, w')
             | (Inr _, m, w') \<Rightarrow> (check_mapped devs m, \<lparr>vi_mappings = m, vi_initialized = True\<rparr>, w'))"

section \<open>The binding that changes nothing\<close>

text \<open>The port \<open>allow_vlan\<close> and \<open>prune_vlan\<close> of \<open>NullBinding\<close> name in the log, if any.\<close>

definition bound_port :: "port_mappings \<Rightarrow> string \<Rightarrow> string option \<Rightarrow> int option \<Rightarrow> string option" where
  "bound_port m device_name interface vlanid =
     (if device_name = '''' \<or> get_or '''' interface = '''' \<or> vlanid = Some 0 then None
      else Option.bind (map_of m device_name) (\<lambda>is. map_of is (get_or '''' interface)))"

definition null_binding :: "'w vlan_binding" where
  "null_binding = \<lparr>vb_allow = (\<lambda>_ _ _. retM ()), vb_prune = (\<lambda>_ _ _. retM ())\<rparr>"

section \<open>Lemmas\<close>

text \<open>The interfaces of a device that are Neutron ports, in the order in which the code finds them.\<close>

definition matches :: "vlan_device \<Rightarrow> port list \<Rightarrow> (string \<times> string) list" where
  "matches dev ps =
     concat (map (\<lambda>p. map (\<lambda>(i, mac). (i, pt_id p))
       (filter (\<lambda>(i, mac). i \<noteq> ''mgmt'' \<and> mac = pt_mac p) (vd_interfaces dev))) ps)"

text \<open>What becomes of the entry \<open>old\<close> of the device: the last match is kept.\<close>

definition last_match :: "(string \<times> string) list option \<Rightarrow> (string \<times> string) list \<Rightarrow> (string \<times> string) list option" where
  "last_match old ms = (if ms = [] then old else Some [last ms])"

lemma last_match_append: "last_match (last_match old ms) ms' = last_match old (ms @ ms')"
  by (simp add: last_match_def)

lemma map_port_other: "k \<noteq> vd_name dev \<Longrightarrow> map_of (map_port dev p m) k = map_of m k"
proof -
  assume "k \<noteq> vd_name dev"
  then have "map_of (fold (\<lambda>(i, mac) m. if i \<noteq> ''mgmt'' \<and> mac = pt_mac p
      then AList.update (vd_name dev) [(i, pt_id p)] m else m) is m) k = map_of m k" for "is"
    by (induction "is" arbitrary: m) (auto simp: update_conv')
  then show ?thesis by (simp add: map_port_def)
qed

lemma map_port_device:
  "map_of (map_port dev p m) (vd_name dev) = last_match (map_of m (vd_name dev)) (matches dev [p])"
proof -
  have "map_of (fold (\<lambda>(i, mac) m. if i \<noteq> ''mgmt'' \<and> mac = pt_mac p
      then AList.update (vd_name dev) [(i, pt_id p)] m else m) is m) (vd_name dev) =
    last_match (map_of m (vd_name dev)) (map (\<lambda>(i, mac). (i, pt_id p)) (filter (\<lambda>(i, mac). i \<noteq> ''mgmt'' \<and> mac = pt_mac p) is))"
    for "is"
  proof (induction "is" arbitrary: m)
    case (Cons x "is")
    obtain i mac where "x = (i, mac)" by (rule prod.exhaust)
    with Cons show ?case by (cases "i \<noteq> ''mgmt'' \<and> mac = pt_mac p") (auto simp: last_match_def update_conv')
  qed (simp add: last_match_def)
  then show ?thesis by (simp add: map_port_def matches_def)
qed

lemma map_ports_of_device:
  "map_of (fold (map_port dev) ps m) k =
     (if k = vd_name dev then last_match (map_of m k) (matches dev ps) else map_of m k)"
proof (induction ps arbitrary: m)
  case (Cons p ps)
  have "matches dev (p # ps) = matches dev [p] @ matches dev ps" by (simp add: matches_def)
  with Cons show ?case by (simp add: map_port_other map_port_device last_match_append)
qed (simp add: matches_def last_match_def)

text \<open>All devices, when Neutron answers the ports \<open>ps\<close> for the addresses of a device.\<close>

lemma map_ports_run:
  assumes "\<And>macs w. ask macs w = (Inr (ps macs), w)" and "distinct (map vd_name devs)"
  shows "\<exists>m'. map_ports (Some ask) devs (m, w) = (Inr (), m', w) \<and>
    (\<forall>k. k \<notin> vd_name ` set devs \<longrightarrow> map_of m' k = map_of m k) \<and>
    (\<forall>d \<in> set devs. map_of m' (vd_name d) = last_match (map_of m (vd_name d)) (matches d (ps (vd_macs d))))"
  using assms(2)
proof (induction devs arbitrary: m)
  case (Cons d devs)
  let ?m = "fold (map_port d) (ps (vd_macs d)) m"
  from Cons.prems have new: "vd_name d \<notin> vd_name ` set devs" and "distinct (map vd_name devs)" by simp_all
  from Cons.IH [OF this(2), of ?m] obtain m' where run: "map_ports (Some ask) devs (?m, w) = (Inr (), m', w)"
    and other: "\<And>k. k \<notin> vd_name ` set devs \<Longrightarrow> map_of m' k = map_of ?m k"
    and dev: "\<And>x. x \<in> set devs \<Longrightarrow> map_of m' (vd_name x) = last_match (map_of ?m (vd_name x)) (matches x (ps (vd_macs x)))"
    by blast
  have "map_of m' (vd_name x) = last_match (map_of m (vd_name x)) (matches x (ps (vd_macs x)))" if "x \<in> set devs" for x
  proof -
    from that new have "vd_name x \<noteq> vd_name d" by (metis imageI)
    with dev [OF that] show ?thesis by (simp add: map_ports_of_device)
  qed
  moreover have "map_of m' (vd_name d) = last_match (map_of m (vd_name d)) (matches d (ps (vd_macs d)))"
    using other [OF new] by (simp add: map_ports_of_device)
  moreover have "map_of m' k = map_of m k" if "k \<notin> vd_name ` set (d # devs)" for k
    using other [of k] that by (simp add: map_ports_of_device)
  moreover have "map_ports (Some ask) (d # devs) (m, w) = (Inr (), m', w)" using run by (simp add: assms(1))
  ultimately show ?case by auto
qed simp

end
