(* ===== verification/Network_Properties.thy ===== *)
theory Network_Properties
  imports NetworkService VlanBinding Device_Properties
begin

text \<open>
  The properties of the network side: route domains, self IPs, FDB records, vCMP hosts, and which
  subnets are assured on the devices and given up again.
\<close>

section \<open>Networks and devices of the witnesses\<close>

text \<open>IPv4 addresses as numbers; a network is an address and a prefix length.\<close>

definition ip_number :: "string \<Rightarrow> exn + int" where
  "ip_number s = bindE (mapE py_int (split_on CHR ''.'' s)) (\<lambda>os. Inr (foldl (\<lambda>n i. n * 256 + i) 0 os))"

definition ip_block :: "int \<times> nat \<Rightarrow> int" where
  "ip_block n = fst n div 2 ^ (32 - snd n)"

definition ex_netlib :: "(int, int \<times> nat) netlib" where
  "ex_netlib =
     \<lparr>nl_network = (\<lambda>s. case split_on CHR ''/'' s of
                         [a, b] \<Rightarrow> bindE (ip_number a) (\<lambda>n. bindE (py_int b) (\<lambda>p. Inr (n, nat p)))
                       | _ \<Rightarrow> Inl ValueError),
      nl_address = ip_number,
      nl_in = (\<lambda>ip n. ip div 2 ^ (32 - snd n) = ip_block n),
      nl_within = (\<lambda>a b. snd b \<le> snd a \<and> fst a div 2 ^ (32 - snd b) = ip_block b),
      nl_cidr = (\<lambda>n. (ip_block n * 2 ^ (32 - snd n), snd n)), nl_prefixlen = (\<lambda>n. int (snd n))\<rparr>"

record ex_nd =
  xn_rds :: "((string \<times> string) \<times> route_domain) list"
  xn_vlans :: "((string \<times> string) \<times> vlan) list"
  xn_selfips :: "((string \<times> string) \<times> selfip) list"
  xn_vas :: "((string \<times> string) \<times> virtual_address) list"
  xn_nodes :: "node list"

definition ex_net :: "ex_nd net_sdk" where
  "ex_net =
     \<lparr>ns_rd = lift_endpoint xn_rds (\<lambda>t d. d\<lparr>xn_rds := t\<rparr>) (table_endpoint bkey),
      ns_route = fails (HTTPError 503 ''''),
      ns_vlan = lift_endpoint xn_vlans (\<lambda>t d. d\<lparr>xn_vlans := t\<rparr>) (table_endpoint bkey),
      ns_vlan_interface = (\<lambda>_ _ _ _. retM ()), ns_arp = fails (HTTPError 503 ''''),
      ns_tunnel = fails (HTTPError 503 ''''), ns_gre = fails (HTTPError 503 ''''),
      ns_vxlan = fails (HTTPError 503 ''''), ns_ppp = fails (HTTPError 503 ''''), ns_fdb = fails (HTTPError 503 ''''),
      ns_rec_exists = (\<lambda>_ _ _. retM False), ns_rec_create = (\<lambda>_ _ _ _. retM ()), ns_rec_delete = (\<lambda>_ _ _. retM ()),
      ns_selfip = lift_endpoint xn_selfips (\<lambda>t d. d\<lparr>xn_selfips := t\<rparr>) (table_endpoint bkey),
      ns_snat_translation = fails (HTTPError 503 ''''), ns_snatpool = fails (HTTPError 503 ''''),
      ns_forward = fails (HTTPError 503 ''''), ns_nodes = (\<lambda>_ d. (Inr (xn_nodes d), d)),
      ns_guest_load = (\<lambda>n. retM \<lparr>vg_name = n, vg_managementIp = ''192.0.2.1/24'', vg_vlans = Some [''/Common/vlan-7'']\<rparr>),
      ns_guest_modify = (\<lambda>n vs. retM \<lparr>vg_name = n, vg_managementIp = ''192.0.2.1/24'', vg_vlans = Some vs\<rparr>),
      ns_guests = retM [], ns_tm_refresh = retM (), ns_sleep = retM (), ns_platform_id = retM ''Z101'', ns_old = False\<rparr>"

definition ex_ltm :: "ex_nd sdk" where
  "ex_ltm =
     \<lparr>sdk_pool = fails (HTTPError 503 ''''), sdk_node = fails (HTTPError 503 ''''),
      sdk_monitor = (\<lambda>_. fails (HTTPError 503 '''')),
      sdk_virtual = (fails (HTTPError 503 ''''))\<lparr>ep_collection := (\<lambda>_. retM [])\<rparr>,
      sdk_va = lift_endpoint xn_vas (\<lambda>t d. d\<lparr>xn_vas := t\<rparr>) (table_endpoint bkey),
      sdk_l7policy = fails (HTTPError 503 ''''), sdk_rule = fails (HTTPError 503 ''''),
      sdk_universal = fails (HTTPError 503 ''''), sdk_client_ssl = fails (HTTPError 503 ''''),
      sdk_upload = (\<lambda>_ _. retM ()), sdk_install_cert = (\<lambda>_ _. retM ()), sdk_install_key = (\<lambda>_ _. retM ()),
      sdk_member_exists = (\<lambda>_ _ _. retM False), sdk_member_stats = (\<lambda>_ _ _. retM []), sdk_virtual_stats = (\<lambda>_. [])\<rparr>"

text \<open>Neutron: the ports by name; new ports get the address the test set up.\<close>

definition ex_rpc :: "(string \<times> port) list rpc" where
  "ex_rpc =
     \<lparr>rpc_get_port_by_name = (\<lambda>n w. (Inr (case map_of w n of None \<Rightarrow> [] | Some p \<Rightarrow> [p]), w)),
      rpc_create_port_on_subnet = (\<lambda>sub n dev ty w.
        let p = \<lparr>pt_id = n, pt_mac = '''', pt_device_id = dev, pt_fixed_ips = Some [(sub, ''10.0.0.2'')]\<rparr>
        in (Inr (Some p), (n, p) # w)),
      rpc_create_port_with_ip = (\<lambda>sub n ip w.
        let p = \<lparr>pt_id = n, pt_mac = '''', pt_device_id = '''', pt_fixed_ips = Some [(sub, ip)]\<rparr> in (Inr p, (n, p) # w)),
      rpc_create_port_on_network = (\<lambda>_ _. retM ()), rpc_delete_port_by_name = (\<lambda>n. modifyM (AList.delete n)),
      rpc_add_allowed_address = (\<lambda>_ _. retM ()), rpc_remove_allowed_address = (\<lambda>_ _. retM ()),
      rpc_get_ports_for_macs = (\<lambda>_. retM []), rpc_vtep_added = None, rpc_vtep_removed = None, rpc_tunnel_sync = None\<rparr>"

definition ex_nenv :: "(int, int \<times> nat, ex_nd, (string \<times> port) list) net_env" where
  "ex_nenv =
     \<lparr>ne_conf = ex_conf\<lparr>max_namespaces_per_tenant := 2\<rparr>, ne_adapter = ex_adapter, ne_net = ex_net, ne_ltm = ex_ltm,
      ne_lib = ex_netlib, ne_rpc = ex_rpc, ne_mapping = [(''default'', ''1.1'', ''True'')], ne_vlan_binding = None,
      ne_random_mac = [1, 2, 3], ne_traffic_group = (\<lambda>_. Inl IndexError)\<rparr>"

definition ex_rd :: "string \<Rightarrow> int \<Rightarrow> route_domain" where
  "ex_rd name i =
     \<lparr>bn_name = name, bn_partition = ''Project_t1'', rd_id = i, rd_strict = ''disabled'', rd_parent = None, rd_vlans = []\<rparr>"

definition ex_nd0 :: ex_nd where
  "ex_nd0 =
     \<lparr>xn_rds = [((''0'', ''Common''), ex_rd ''0'' 0), ((''Project_t1'', ''Project_t1''), ex_rd ''Project_t1'' 1)],
      xn_vlans = [], xn_selfips = [], xn_vas = [], xn_nodes = []\<rparr>"

definition ex_bigip :: "ex_nd bigip" where
  "ex_bigip =
     \<lparr>b_hostname = ''192.0.2.1'', b_device_name = ''bigip1'', b_local_ip = Some ''10.30.0.1'', b_assured_networks = [],
      b_assured_tenant_snat_subnets = [], b_assured_gateway_subnets = [], b_dev = ex_nd0\<rparr>"

definition ex_network :: "string \<Rightarrow> string \<Rightarrow> int \<Rightarrow> network" where
  "ex_network i ty seg =
     \<lparr>net_id = i, net_tenant_id = Some ''t1'', net_shared = False, net_external = None, net_type = Some ty,
      net_segmentation_id = Some seg, net_physical = None, net_route_domain_id = None\<rparr>"

definition ex_subnet :: "string \<Rightarrow> string \<Rightarrow> subnet" where
  "ex_subnet i cidr = \<lparr>sub_id = i, sub_tenant_id = Some ''t1'', sub_cidr = cidr, sub_gateway_ip = Some ''10.0.0.1''\<rparr>"

text \<open>The tenant has one domain, with 10.0.0.0/24 in it.\<close>

definition ex_site :: "(int \<times> nat, ex_nd, (string \<times> port) list) site" where
  "ex_site =
     \<lparr>st_bigips = [ex_bigip],
      st_rds_cache = [(''t1'', [(1, [(''vlan-5'', [(''s1'', (167772160, 24))])])])],
      st_payload = route_domain_defaults, st_hosts = [], st_world = [],
      st_service = ex_service\<lparr>sv_networks := Some [(''n1'', ex_network ''n1'' ''vlan'' 5)],
                             sv_subnets := Some [(''s1'', ex_subnet ''s1'' ''10.0.0.0/24'')]\<rparr>\<rparr>"

section \<open>Route domains\<close>

text \<open>C29
  Placing a network never breaks the route domain cache: different subnets of one route domain do not
  overlap, and no tenant gets more route domains than the configuration allows.
\<close>

theorem route_domains_disjoint:
  assumes "cache_disjoint (ne_lib E) (st_rds_cache s)"
    and "domains_bounded (max_namespaces_per_tenant (ne_conf E)) (st_rds_cache s)"
  shows "cache_disjoint (ne_lib E) (st_rds_cache (snd (assign_route_domain E tenant net subnet s))) \<and>
    domains_bounded (max_namespaces_per_tenant (ne_conf E))
      (st_rds_cache (snd (assign_route_domain E tenant net subnet s)))"
proof -
  obtain r s' where r: "assign_route_domain E tenant net subnet s = (r, s')"
    by (cases "assign_route_domain E tenant net subnet s") auto
  have "cache_wf (st_rds_cache s)" using assms(1) by (simp add: cache_disjoint_def)
  with assign_keeps_disjoint [OF r assms(1)] assign_keeps_bound [OF r _ assms(2)] r show ?thesis by simp
qed

text \<open>A second network with a subnet inside the first one's: it gets a domain of its own.\<close>

lemma ex_assign:
  "fst (assign_route_domain ex_nenv (Some ''t1'') (ex_network ''n2'' ''vlan'' 6) (Some (ex_subnet ''s2'' ''10.0.0.0/25''))
      ex_site) = Inr 2"
  by code_simp

lemma ex_site_disjoint: "cache_disjoint (ne_lib ex_nenv) (st_rds_cache ex_site)"
  by code_simp

lemma ex_site_bounded: "domains_bounded (max_namespaces_per_tenant (ne_conf ex_nenv)) (st_rds_cache ex_site)"
  by code_simp

lemma route_domains_disjoint_witness:
  "cache_disjoint (ne_lib ex_nenv) (st_rds_cache (snd (assign_route_domain ex_nenv (Some ''t1'')
     (ex_network ''n2'' ''vlan'' 6) (Some (ex_subnet ''s2'' ''10.0.0.0/25'')) ex_site)))"
  by (rule conjunct1 [OF route_domains_disjoint [OF ex_site_disjoint ex_site_bounded]])

text \<open>
  A network keeps its route domain: once assigned, every later request for the network, by whatever
  tenant and with whatever subnet, gets the same domain and changes nothing.
\<close>

theorem route_domain_stable:
  assumes "assign_route_domain E tenant net subnet s = (Inr rd, s')" and "cache_wf (st_rds_cache s)"
    and "max_namespaces_per_tenant (ne_conf E) \<noteq> 1"
  shows "assign_route_domain E tenant' net subnet' s' = (Inr rd, s')"
proof (cases "is_common_network (ne_conf E) net")
  case True
  with assms(1) show ?thesis by (auto simp: assign_route_domain_def retM_def)
next
  case False
  from assign_cached [OF assign_then_cached [OF assms(1,2) False assms(3)] False] show ?thesis .
qed

lemma route_domain_stable_witness:
  "fst (assign_route_domain ex_nenv None (ex_network ''n2'' ''vlan'' 6) None
     (snd (assign_route_domain ex_nenv (Some ''t1'') (ex_network ''n2'' ''vlan'' 6)
             (Some (ex_subnet ''s2'' ''10.0.0.0/25'')) ex_site))) = Inr 2"
proof -
  let ?a = "assign_route_domain ex_nenv (Some ''t1'') (ex_network ''n2'' ''vlan'' 6)
     (Some (ex_subnet ''s2'' ''10.0.0.0/25'')) ex_site"
  have 1: "?a = (Inr 2, snd ?a)" using ex_assign by (metis prod.collapse)
  have 2: "cache_wf (st_rds_cache ex_site)" by code_simp
  have 3: "max_namespaces_per_tenant (ne_conf ex_nenv) \<noteq> 1" by code_simp
  from route_domain_stable [OF 1 2 3] show ?thesis by simp
qed

text \<open>
  Removing a subnet from the cache removes exactly that subnet of that network, from every route
  domain of every tenant, and leaves no route domain without networks.
\<close>

theorem route_domain_removal:
  assumes "get_neutron_net_short_name net = Inr name" and "cache_wf cache"
  shows "\<exists>cache'. remove_from_rds_cache net sid cache = Inr cache' \<and>
    (\<forall>t rd n i. cached_subnet cache' t rd n i = (if n = name \<and> i = sid then None else cached_subnet cache t rd n i)) \<and>
    (\<forall>(t, te) \<in> set cache'. \<forall>(rd, re) \<in> set te. re \<noteq> [])"
proof -
  obtain cache' where c: "remove_from_rds_cache net sid cache = Inr cache'"
    using assms(1) by (auto simp: remove_from_rds_cache_def)
  with remove_from_rds_cache_lookup [OF c assms] remove_from_rds_cache_nonempty [OF c] show ?thesis by blast
qed

lemma route_domain_removal_witness:
  "\<exists>cache'. remove_from_rds_cache (ex_network ''n1'' ''vlan'' 5) ''s1'' (st_rds_cache ex_site) = Inr cache' \<and>
     cached_subnet cache' ''t1'' 1 ''vlan-5'' ''s1'' = None"
proof -
  have 1: "get_neutron_net_short_name (ex_network ''n1'' ''vlan'' 5) = Inr ''vlan-5''" by code_simp
  have 2: "cache_wf (st_rds_cache ex_site)" by code_simp
  from route_domain_removal [OF 1 2, of "''s1''"] show ?thesis by auto
qed



section \<open>Subnets\<close>

text \<open>C31
  The subnets assured on the devices are exactly those of the load balancer and the members that are
  not being deleted.
\<close>

theorem subnets_assured_live:
  assumes "get_subnets_to_assure svc = Inr infos" and "sv_loadbalancer svc = Some lb" and "subnets_by_id svc"
  shows "(\<lambda>i. map_option sub_id (si_subnet i)) ` set infos = Some `
    ((if lb_status lb \<noteq> PENDING_DELETE \<and> lb_network_id lb \<noteq> None then {lb_vip_subnet_id lb} else {}) \<union>
     {me_subnet_id m | m. m \<in> set (get_all (sv_members svc)) \<and> me_status m \<noteq> Some PENDING_DELETE \<and> me_network_id m \<noteq> None})"
  using get_subnets_to_assure_keys [OF assms] by (simp add: live_subnets_def)

definition ex_net_service :: service where
  "ex_net_service =
     ex_service\<lparr>sv_loadbalancer := Some ex_lb, sv_members := Some [ex_member\<lparr>me_status := Some PENDING_DELETE\<rparr>],
       sv_networks := Some [(''n1'', ex_network ''n1'' ''vlan'' 5)],
       sv_subnets := Some [(''s1'', ex_subnet ''s1'' ''10.0.0.0/24'')]\<rparr>"

lemma subnets_assured_live_witness:
  "(\<lambda>i. map_option sub_id (si_subnet i)) ` set [\<lparr>si_network = Some (ex_network ''n1'' ''vlan'' 5),
     si_subnet = Some (ex_subnet ''s1'' ''10.0.0.0/24''), si_is_for_member = False\<rparr>] = {Some ''s1''}"
proof -
  have 1: "get_subnets_to_assure ex_net_service = Inr [\<lparr>si_network = Some (ex_network ''n1'' ''vlan'' 5),
     si_subnet = Some (ex_subnet ''s1'' ''10.0.0.0/24''), si_is_for_member = False\<rparr>]" by code_simp
  have 2: "sv_loadbalancer ex_net_service = Some ex_lb" by code_simp
  have 3: "subnets_by_id ex_net_service"
    by (simp add: subnets_by_id_def ex_net_service_def ex_subnet_def)
  from subnets_assured_live [OF 1 2 3] show ?thesis
    by (simp add: ex_net_service_def ex_lb_def ex_member_def)
qed




section \<open>FDB records\<close>

lemma fold_update_keys:
  "fst ` set (fold (\<lambda>r. AList.update (fst r) (snd r)) rs acc) = fst ` set rs \<union> fst ` set acc"
  by (induction rs arbitrary: acc) (auto simp: dom_update)

lemma fold_update_mem:
  "x \<in> set (fold (\<lambda>r. AList.update (fst r) (snd r)) rs acc) \<Longrightarrow> x \<in> set rs \<or> x \<in> set acc"
proof (induction rs arbitrary: acc)
  case (Cons r rs)
  from Cons.prems Cons.IH [of "AList.update (fst r) (snd r) acc"] set_update_subset [of "fst r" "snd r" acc]
  show ?case by auto
qed simp

text \<open>C33
  An L2 population message yields records for its tunnel only, each for a MAC some remote VTEP lists,
  with that VTEP and address; every such MAC has one, the flooding entry and the device's own VTEP
  have none.
\<close>

theorem fdb_message_records:
  assumes "folder \<noteq> ''''" and "get_bigip_network_fdbs local_ip (Some folder) tunnel net = fdbs"
  shows "(\<forall>(t, f, rs) \<in> set fdbs. t = tunnel \<and> f = folder \<and>
      (\<forall>(mac, r) \<in> set rs. mac \<noteq> fst flooding_entry \<and> Some (fr_endpoint r) \<noteq> local_ip \<and>
         (\<exists>es. (fr_endpoint r, es) \<in> set (fn_ports net) \<and> (mac, fr_ip r) \<in> set es))) \<and>
    (\<forall>(vtep, es) \<in> set (fn_ports net). \<forall>(mac, ip) \<in> set es. Some vtep \<noteq> local_ip \<longrightarrow> mac \<noteq> fst flooding_entry \<longrightarrow>
       (\<exists>(t, f, rs) \<in> set fdbs. mac \<in> fst ` set rs))"
proof -
  let ?rs = "fdb_remote local_ip (fn_ports net)"
  let ?out = "fold (\<lambda>r. AList.update (fst r) (snd r)) ?rs []"
  have fdbs: "fdbs = (if ?rs = [] then [] else [(tunnel, folder, ?out)])"
    using get_bigip_network_fdbs_spec [OF assms(1), of local_ip tunnel net] assms(2) by (simp add: Let_def)
  have mem: "(mac, r) \<in> set ?rs \<longleftrightarrow> mac \<noteq> fst flooding_entry \<and> Some (fr_endpoint r) \<noteq> local_ip \<and>
      (\<exists>es. (fr_endpoint r, es) \<in> set (fn_ports net) \<and> (mac, fr_ip r) \<in> set es)" for mac r
    by (cases r) (force simp: fdb_remote_def)
  have "(mac, r) \<in> set ?rs" if "(mac, r) \<in> set ?out" for mac r
    using fold_update_mem [OF that] by simp
  then have 1: "\<forall>(t, f, rs) \<in> set fdbs. t = tunnel \<and> f = folder \<and> (\<forall>(mac, r) \<in> set rs. (mac, r) \<in> set ?rs)"
    unfolding fdbs by auto
  have "\<exists>(t, f, rs) \<in> set fdbs. mac \<in> fst ` set rs"
    if "(vtep, es) \<in> set (fn_ports net)" "(mac, ip) \<in> set es" "Some vtep \<noteq> local_ip" "mac \<noteq> fst flooding_entry"
    for vtep es mac ip
  proof -
    from that have "(mac, \<lparr>fr_endpoint = vtep, fr_ip = ip\<rparr>) \<in> set ?rs" by (auto simp: mem)
    then have "mac \<in> fst ` set ?out" and "?rs \<noteq> []" by (auto simp: fold_update_keys rev_image_eqI)
    then show ?thesis by (simp add: fdbs)
  qed
  with 1 show ?thesis unfolding mem by blast
qed

definition ex_fdb :: fdb_net where
  "ex_fdb =
     \<lparr>fn_type = ''vxlan'', fn_segment = 1008,
      fn_ports = [(''10.30.30.2'', [flooding_entry, (''fa:16:3e:3d:7b:7f'', ''10.10.1.4'')]),
                  (''10.30.0.1'', [(''fa:16:3e:00:00:01'', ''10.10.1.5'')])]\<rparr>"

lemma fdb_message_records_witness:
  "\<exists>(t, f, rs) \<in> set [(''tunnel-vxlan-1008'', ''Project_t1'', [(''fa:16:3e:3d:7b:7f'',
     \<lparr>fr_endpoint = ''10.30.30.2'', fr_ip = ''10.10.1.4''\<rparr>)])]. ''fa:16:3e:3d:7b:7f'' \<in> fst ` set rs"
proof -
  have 1: "''Project_t1'' \<noteq> ''''" by simp
  have 2: "get_bigip_network_fdbs (Some ''10.30.0.1'') (Some ''Project_t1'') ''tunnel-vxlan-1008'' ex_fdb =
     [(''tunnel-vxlan-1008'', ''Project_t1'', [(''fa:16:3e:3d:7b:7f'',
       \<lparr>fr_endpoint = ''10.30.30.2'', fr_ip = ''10.10.1.4''\<rparr>)])]" by code_simp
  from conjunct2 [OF fdb_message_records [OF 1 2]] show ?thesis
    by (simp add: ex_fdb_def flooding_entry_def)
qed

section \<open>Self IPs\<close>

text \<open>C34
  On a device that answers, a subnet that was not assured gets the device's local self IP: the address
  of its Neutron port in the route domain of the network with the prefix of the subnet; one that is
  already there stays, and no other self IP changes.
\<close>

theorem local_selfip_assured:
  assumes "endpoint_ok (ns_selfip (ne_net E)) bkey view"
    and "si_network info = Some net" and "si_subnet info = Some sub" and "net_route_domain_id net = Some rd"
    and "\<not> subnet_assured (lb_tenant_id lb) (sub_id sub) (vc_bigip s)"
    and "rpc_get_port_by_name (ne_rpc E) (local_selfip_name (b_device_name (vc_bigip s)) (sub_id sub)) (l2_world s)
      = (Inr (p # ps), w)" and "pt_fixed_ips p = Some ((x, ip) # rest)"
    and "get_network_name E (b_hostname (vc_bigip s)) net = Inr (vlan, keep)"
    and "nl_network (ne_lib E) (sub_cidr sub) = Inr cidr"
  shows "\<exists>s'. assure_bigip_selfip E None lb info s = (Inr (), s') \<and>
    (let m = \<lparr>bn_name = local_selfip_name (b_device_name (vc_bigip s)) (sub_id sub),
              bn_partition = (if is_common_network (ne_conf E) net then ''Common''
                              else get_folder_name (ne_adapter E) (lb_tenant_id lb)),
              se_address = ip @ ''%'' @ str_int rd @ ''/'' @ str_int (nl_prefixlen (ne_lib E) cidr),
              se_vlan = vlan, se_floating = False, se_traffic_group = None\<rparr>;
         old = view (b_dev (vc_bigip s))
     in view (b_dev (vc_bigip s')) = (if old (bkey m) = None then old(bkey m \<mapsto> m) else old))"
proof -
  let ?m = "\<lparr>bn_name = local_selfip_name (b_device_name (vc_bigip s)) (sub_id sub),
      bn_partition = (if is_common_network (ne_conf E) net then ''Common''
                      else get_folder_name (ne_adapter E) (lb_tenant_id lb)),
      se_address = masked_address (domain_address ip rd) (nl_prefixlen (ne_lib E) cidr),
      se_vlan = vlan, se_floating = False, se_traffic_group = None\<rparr>"
  obtain d' where d': "create_bigip_selfip (ne_net E) ?m (b_dev (vc_bigip s)) = (Inr True, d')"
    and view: "view d' = (if view (b_dev (vc_bigip s)) (bkey ?m) = None
      then (view (b_dev (vc_bigip s)))(bkey ?m \<mapsto> ?m) else view (b_dev (vc_bigip s)))"
    using create_bigip_selfip_ok [OF assms(1), of ?m "b_dev (vc_bigip s)"] by blast
  have "get_bigip_selfip_address E (b_device_name (vc_bigip s)) sub (lb_id lb) (l2_world s) = (Inr ip, w)"
    using assms(6,7) by (simp add: get_bigip_selfip_address_def port_address_def py_simps Let_def)
  with assms(2-5,8,9) d' have "assure_bigip_selfip E None lb info s
      = (Inr (), s\<lparr>l2_world := w, vc_bigip := (vc_bigip s)\<lparr>b_dev := d'\<rparr>\<rparr>)"
    by (simp add: assure_bigip_selfip_def py_simps on_guest_device_def l3_bind_def Let_def)
  with view show ?thesis by (simp add: masked_address_def domain_address_def)
qed

lemma ex_selfip_endpoint: "endpoint_ok (ns_selfip (ne_net ex_nenv)) bkey (\<lambda>d. map_of (xn_selfips d))"
  by (simp add: ex_nenv_def ex_net_def lift_endpoint_ok)

definition ex_info :: subnetinfo where
  "ex_info =
     \<lparr>si_network = Some (ex_network ''n1'' ''vlan'' 5\<lparr>net_route_domain_id := Some 1\<rparr>),
      si_subnet = Some (ex_subnet ''s1'' ''10.0.0.0/24''), si_is_for_member = False\<rparr>"

definition ex_port :: port where
  "ex_port = \<lparr>pt_id = ''p'', pt_mac = '''', pt_device_id = ''lb1'', pt_fixed_ips = Some [(''s1'', ''10.0.0.2'')]\<rparr>"

definition ex_l2 :: "(ex_nd, (string \<times> port) list) l2" where
  "ex_l2 = \<lparr>vc_hosts = [], vc_bigip = ex_bigip, l2_world = [(''local-bigip1-s1'', ex_port)]\<rparr>"

lemma local_selfip_assured_witness:
  "\<exists>s'. assure_bigip_selfip ex_nenv None ex_lb ex_info ex_l2 = (Inr (), s') \<and>
     map_option se_address (map_of (xn_selfips (b_dev (vc_bigip s'))) (''local-bigip1-s1'', ''Project_t1''))
       = Some ''10.0.0.2%1/24''"
proof -
  let ?net = "ex_network ''n1'' ''vlan'' 5\<lparr>net_route_domain_id := Some 1\<rparr>" and ?sub = "ex_subnet ''s1'' ''10.0.0.0/24''"
  have 1: "si_network ex_info = Some ?net" "si_subnet ex_info = Some ?sub" "net_route_domain_id ?net = Some 1"
    by (simp_all add: ex_info_def)
  have 2: "\<not> subnet_assured (lb_tenant_id ex_lb) (sub_id ?sub) (vc_bigip ex_l2)" by code_simp
  have 3: "rpc_get_port_by_name (ne_rpc ex_nenv) (local_selfip_name (b_device_name (vc_bigip ex_l2)) (sub_id ?sub))
      (l2_world ex_l2) = (Inr [ex_port], l2_world ex_l2)" by code_simp
  have 4: "pt_fixed_ips ex_port = Some [(''s1'', ''10.0.0.2'')]" by (simp add: ex_port_def)
  have 5: "get_network_name ex_nenv (b_hostname (vc_bigip ex_l2)) ?net = Inr (''vlan-5'', False)" by code_simp
  have 6: "nl_network (ne_lib ex_nenv) (sub_cidr ?sub) = Inr (167772160, 24)" by code_simp
  have 7: "local_selfip_name (b_device_name (vc_bigip ex_l2)) (sub_id ?sub) = ''local-bigip1-s1''" by code_simp
  have 8: "is_common_network (ne_conf ex_nenv) ?net = False" by code_simp
  have 9: "get_folder_name (ne_adapter ex_nenv) (lb_tenant_id ex_lb) = ''Project_t1''" by code_simp
  have 10: "''10.0.0.2'' @ ''%'' @ str_int 1 @ ''/'' @ str_int (nl_prefixlen (ne_lib ex_nenv) (167772160, 24)) = ''10.0.0.2%1/24''"
    by code_simp
  from local_selfip_assured [OF ex_selfip_endpoint 1 2 3 4 5 6, unfolded 7 8 9 10 Let_def] show ?thesis
    by (elim exE conjE, intro exI conjI) (assumption, simp add: bkey_def ex_l2_def ex_bigip_def ex_nd0_def)
qed

section \<open>vCMP\<close>

lemma vcmp_lookups_vlan:
  "get_vcmp_host (N\<lparr>ns_vlan := v\<rparr>) = get_vcmp_host N" "get_vcmp_guest (N\<lparr>ns_vlan := v\<rparr>) = get_vcmp_guest N"
  "remove_guest_vlan (N\<lparr>ns_vlan := v\<rparr>) = remove_guest_vlan N"
  by (intro ext, simp add: get_vcmp_host_def get_vcmp_guest_def remove_guest_vlan_def Let_def cong: option.case_cong if_cong)+

text \<open>C35
  Taking a VLAN from a guest does not touch the VLANs of the vCMP host while another guest has the
  VLAN: whatever the VLAN endpoint does, the outcome is the same.
\<close>

theorem vcmp_vlan_kept_while_used:
  assumes "get_vcmp_host N s = (Inr (Some k), s1)" and "get_vcmp_guest N k s1 = (Inr (Some j), s2)"
    and "i \<noteq> j" and "guest_has k i name s2"
  shows "disassoc_vlan_with_vcmp_guest (N\<lparr>ns_vlan := v\<rparr>) name s = disassoc_vlan_with_vcmp_guest N name s"
proof -
  obtain r s3 where rm: "remove_guest_vlan N k j name s2 = (r, s3)" by (cases "remove_guest_vlan N k j name s2") auto
  have "get_vlan_use_count (vc_hosts s3 ! k) name > 0"
    by (rule guest_has_count [of k i]) (simp add: guest_has_remove [OF assms(3) rm] assms(4))
  with assms(1,2) rm show ?thesis
    by (cases r) (simp_all add: disassoc_vlan_with_vcmp_guest_def vcmp_lookups_vlan bindM_def getsM_def retM_def)
qed

definition ex_guest :: "string \<Rightarrow> string \<Rightarrow> vcmp_guest" where
  "ex_guest n ip = \<lparr>vg_name = n, vg_managementIp = ip, vg_vlans = Some [''/Common/vlan-7'']\<rparr>"

definition ex_vstate :: "ex_nd vcmp_state" where
  "ex_vstate =
     \<lparr>vc_hosts = [\<lparr>vh_bigip = ex_bigip, vh_guests = [ex_guest ''g1'' ''192.0.2.1/24'', ex_guest ''g2'' ''192.0.2.2/24'']\<rparr>],
      vc_bigip = ex_bigip\<rparr>"

lemma vcmp_vlan_kept_while_used_witness:
  "disassoc_vlan_with_vcmp_guest (ex_net\<lparr>ns_vlan := fails KeyError\<rparr>) ''vlan-7'' ex_vstate
     = disassoc_vlan_with_vcmp_guest ex_net ''vlan-7'' ex_vstate"
proof -
  let ?s1 = "snd (get_vcmp_host ex_net ex_vstate)"
  have h: "fst (get_vcmp_host ex_net ex_vstate) = Inr (Some 0)" by code_simp
  then have 1: "get_vcmp_host ex_net ex_vstate = (Inr (Some 0), ?s1)" by (metis prod.collapse)
  have g: "fst (get_vcmp_guest ex_net 0 ?s1) = Inr (Some 0)" by code_simp
  then have 2: "get_vcmp_guest ex_net 0 ?s1 = (Inr (Some 0), snd (get_vcmp_guest ex_net 0 ?s1))"
    by (metis prod.collapse)
  have 3: "guest_has 0 1 ''vlan-7'' (snd (get_vcmp_guest ex_net 0 ?s1))" by code_simp
  from vcmp_vlan_kept_while_used [OF 1 2 _ 3] show ?thesis by simp
qed

section \<open>Addresses with a port\<close>

text \<open>
  \<open>split_addr_port\<close> takes apart what the adapter puts together for the destination of a virtual
  server, for IPv4 addresses and for IPv6 addresses without an embedded IPv4 part.
\<close>

theorem addr_port_round_trip:
  assumes "CHR '':'' \<notin> set ip \<or> length (filter (\<lambda>c. c = CHR '':'') ip) \<ge> 2 \<and> CHR ''.'' \<notin> set ip"
  shows "split_addr_port (addr_port ip port) = Inr (ip, str_int port)"
  using assms split_addr_port_v4 split_addr_port_v6 by blast

lemma addr_port_round_trip_witness: "split_addr_port (addr_port ''2001:db8::1'' 443) = Inr (''2001:db8::1'', str_int 443)"
  by (rule addr_port_round_trip) simp

section \<open>Where the code errs\<close>

text \<open>
  The third part of a physical mapping is kept as text and tested for truth, so a VLAN mapped as
  untagged (\<open>False\<close>) is tagged all the same.
\<close>

theorem untagged_mapping_is_tagged:
  assumes "net_type net \<noteq> Some ''flat''" and "net_segmentation_id net = Some seg"
  shows "bindE (read_mappings [''default:1.1:False''] []) (\<lambda>m.
      get_vlan_name (E\<lparr>ne_mapping := m\<rparr>) (net\<lparr>net_physical := None\<rparr>) hostname) = Inr (''vlan-'' @ str_int seg)"
proof -
  have "read_mappings [''default:1.1:False''] [] = Inr [(''default'', ''1.1'', ''False'')]" by code_simp
  with assms show ?thesis by (simp add: get_vlan_name_def find_mapping_def vlan_tag_of_def)
qed

lemma untagged_mapping_is_tagged_witness:
  "bindE (read_mappings [''default:1.1:False''] []) (\<lambda>m.
     get_vlan_name (ex_nenv\<lparr>ne_mapping := m\<rparr>) (ex_network ''n1'' ''vlan'' 5\<lparr>net_physical := None\<rparr>) ''h'')
   = Inr (''vlan-'' @ str_int 5)"
  by (rule untagged_mapping_is_tagged) (simp_all add: ex_network_def)

text \<open>
  A further subnet of a network that already has a route domain is not recorded, so a network with
  an overlapping subnet is then placed in the same route domain.
\<close>

theorem second_subnet_not_recorded:
  "(let (r1, s1) = assign_route_domain ex_nenv (Some ''t1'') (ex_network ''n1'' ''vlan'' 5)
           (Some (ex_subnet ''s3'' ''10.1.0.0/24'')) ex_site;
        (r2, s2) = assign_route_domain ex_nenv (Some ''t1'') (ex_network ''n2'' ''vlan'' 6)
           (Some (ex_subnet ''s4'' ''10.1.0.0/25'')) s1
    in r1 = Inr 1 \<and> r2 = Inr 1 \<and> st_rds_cache s1 = st_rds_cache ex_site)"
  by code_simp

text \<open>
  A flat network, which has no segment, cannot be used with namespaces unless it is common: the
  handler of \<open>InvalidNetworkType\<close> itself fails, with an \<open>AttributeError\<close>.
\<close>

theorem flat_network_attribute_error:
  assumes "\<not> f5_global_routed_mode (ne_conf E)" and "use_namespaces (ne_conf E)"
    and "sv_loadbalancer (st_service s) = Some lb" and "get_all (sv_members (st_service s)) = []"
    and "lb_vip_address lb = Some vip" and "lb_network_id lb = Some i"
    and "sv_networks (st_service s) = Some [(i, net)]" and "net_type net = Some ''flat''"
    and "net_segmentation_id net = None" and "\<not> is_common_network (ne_conf E) net"
    and "get_subnet_from_service (st_service s) (lb_vip_subnet_id lb) = Inr sub"
    and "map_of (st_rds_cache s) (tenant_key (lb_tenant_id lb)) \<noteq> None"
  shows "fst (prep_service_networking E l3 tg s) = Inl AttributeError"
proof -
  have con: "is_service_connected E (st_service s) w = (Inr True, w)" for w
    using assms(7,8) by (simp add: is_service_connected_def Let_def py_simps)
  have c: "get_route_domain_from_cache net (st_rds_cache s) = Inl (F5 InvalidNetworkType)"
    using assms(8,9) by (simp add: get_route_domain_from_cache_def get_neutron_net_short_name_def)
  have a: "assign_route_domain E t net sub' s = (Inl (F5 InvalidNetworkType), s)" for t sub'
    using assms(10) c by (simp add: assign_route_domain_def bindM_getsM cache_missed_def raiseM_def)
  have n: "assign_network E t i (lb_vip_subnet_id lb) s = (Inl (F5 InvalidNetworkType), s)" for t
    using assms(7,11) a by (simp add: assign_network_def bindM_getsM get_network_from_service_def) (simp add: py_simps)
  have m: "annotate_members E t s = (Inr (), s)" for t
    using assms(4) by (cases "sv_members (st_service s)") (simp_all add: annotate_members_def)
  have u: "update_rds_cache E (lb_tenant_id lb) s = (Inr (), s)"
    using assms(12) by (simp add: update_rds_cache_def)
  have v: "annotate_vip E lb s = (Inl (F5 InvalidNetworkType), s)"
    using n assms(5,6) by (simp add: annotate_vip_def bindM_def)
  have "annotate_service_route_domains E s = (Inl (F5 InvalidNetworkType), s)"
    using assms(3) m u v by (simp add: annotate_service_route_domains_def bindM_def)
  with assms(1,2) con show ?thesis
    by (simp add: prep_service_networking_def bindM_def getsM_def on_site_world_def tryM_def raiseM_def annotation_error_def)
qed

definition ex_flat_site :: "(int \<times> nat, ex_nd, (string \<times> port) list) site" where
  "ex_flat_site =
     ex_site\<lparr>st_service := ex_service\<lparr>sv_loadbalancer := Some ex_lb, sv_members := None,
       sv_networks := Some [(''n1'', (ex_network ''n1'' ''flat'' 0)\<lparr>net_segmentation_id := None\<rparr>)],
       sv_subnets := Some [(''s1'', ex_subnet ''s1'' ''10.0.0.0/24'')]\<rparr>\<rparr>"

lemma flat_network_attribute_error_witness:
  "fst (prep_service_networking ex_nenv None ''traffic-group-1'' ex_flat_site) = Inl AttributeError"
  by (rule flat_network_attribute_error [where lb = ex_lb and vip = "''10.0.0.5''" and i = "''n1''"
        and net = "(ex_network ''n1'' ''flat'' 0)\<lparr>net_segmentation_id := None\<rparr>"
        and sub = "Some (ex_subnet ''s1'' ''10.0.0.0/24'')"])
    (simp_all add: ex_nenv_def ex_conf_def ex_flat_site_def ex_site_def ex_lb_def ex_network_def is_common_network_def
      get_subnet_from_service_def tenant_key_def)

text \<open>
  The check whether other tenants' SNAT pools still use a subnet never finds anything: it looks for
  the id of the subnet among the names of the translations, and these start with \<open>snat-\<close>.
\<close>

theorem snat_use_check_never_matches:
  assumes "\<forall>p \<in> set pools. \<forall>m \<in> set (sn_members p). \<exists>sub t n i folder.
      get_snat_name E sub t = Inr n \<and> n \<noteq> [] \<and> CHR 0x2F \<notin> set (index_snat_name n i) \<and>
      m = CHR 0x2F # folder @ CHR 0x2F # index_snat_name n i"
    and "\<not> startswith ''snat-'' (sub_id sub)"
  shows "snatpool_member_use_count (sub_id sub) pools = 0"
proof -
  have "sub_id sub \<noteq> basename m" if pm: "p \<in> set pools" "m \<in> set (sn_members p)" for p m
  proof
    assume s: "sub_id sub = basename m"
    from bspec [OF bspec [OF assms(1) pm(1)] pm(2)] obtain sub' t n i folder where n: "get_snat_name E sub' t = Inr n" "n \<noteq> []"
      "CHR 0x2F \<notin> set (index_snat_name n i)" "m = CHR 0x2F # folder @ CHR 0x2F # index_snat_name n i"
      by (elim exE conjE) (rule that)
    have "startswith ''snat-'' (index_snat_name n i)"
      using n(1,2) by (auto simp: get_snat_name_def bindE_eq_Inr index_snat_name_def startswith_iff split: option.splits)
    moreover have "basename m = index_snat_name n i"
      using n(3,4) member_basename [of n i folder] by simp
    ultimately show False using s assms(2) by simp
  qed
  then show ?thesis by (auto simp: snatpool_member_use_count_def filter_empty_conv)
qed

lemma snat_use_check_never_matches_witness:
  "snatpool_member_use_count ''s1''
     [\<lparr>bn_name = ''Project_t2'', bn_partition = ''Project_t2'',
       sn_members = [''/Common/snat-traffic-group-local-only-s1_0'']\<rparr>] = 0"
proof -
  let ?sub = "ex_subnet ''s1'' ''10.0.0.0/24''"
  have n: "get_snat_name ex_nenv ?sub None = Inr ''snat-traffic-group-local-only-s1''" by code_simp
  have i: "index_snat_name ''snat-traffic-group-local-only-s1'' 0 = ''snat-traffic-group-local-only-s1_0''"
    by code_simp
  have "\<exists>sub t n i folder. get_snat_name ex_nenv sub t = Inr n \<and> n \<noteq> [] \<and> CHR 0x2F \<notin> set (index_snat_name n i) \<and>
      ''/Common/snat-traffic-group-local-only-s1_0'' = CHR 0x2F # folder @ CHR 0x2F # index_snat_name n i"
    by (rule exI [of _ ?sub], rule exI [of _ None],
        rule exI [of _ "''snat-traffic-group-local-only-s1''"], rule exI [of _ 0], rule exI [of _ "''Common''"])
      (simp add: n i)
  then have "snatpool_member_use_count (sub_id ?sub)
     [\<lparr>bn_name = ''Project_t2'', bn_partition = ''Project_t2'',
       sn_members = [''/Common/snat-traffic-group-local-only-s1_0'']\<rparr>] = 0"
    by (intro snat_use_check_never_matches [where E = ex_nenv]) (auto simp: ex_subnet_def startswith_def)
  then show ?thesis by (simp add: ex_subnet_def)
qed

section \<open>VLAN binding\<close>

text \<open>C36
  Registering the interfaces of the devices keeps, for each of them, the last match between its interfaces
  and the ports of Neutron, and only that one. A device without match makes the registration raise
  \<open>TypeError\<close>, from the report it should give; and whether or not it raised, no later registration does
  anything.
\<close>

theorem vlan_registration:
  assumes "\<And>macs w. ask macs w = (Inr (ps macs), w)" and "distinct (map vd_name devs)"
    and "\<not> vi_initialized v" and "vi_mappings v = []"
  shows "\<exists>v'. register_bigip_interfaces (Some ask) devs (v, w) =
      (if \<exists>d \<in> set devs. matches d (ps (vd_macs d)) = [] then Inl TypeError else Inr (), v', w) \<and>
    (\<forall>d \<in> set devs. map_of (vi_mappings v') (vd_name d) =
      (if matches d (ps (vd_macs d)) = [] then None else Some [last (matches d (ps (vd_macs d)))])) \<and>
    (\<forall>ports later w'. register_bigip_interfaces ports later (v', w') = (Inr (), v', w'))"
proof -
  from map_ports_run [where m = "[]" and w = w and ask = ask and ps = ps, OF assms(1,2)] obtain m where
    m: "map_ports (Some ask) devs ([], w) = (Inr (), m, w)"
      "\<And>d. d \<in> set devs \<Longrightarrow> map_of m (vd_name d) = last_match None (matches d (ps (vd_macs d)))" by auto
  have "vd_name d \<in> fst ` set m \<longleftrightarrow> matches d (ps (vd_macs d)) \<noteq> []" if "d \<in> set devs" for d
    using m(2) [OF that] by (simp add: last_match_def dom_map_of_conv_image_fst [symmetric] domIff)
  then have "check_mapped devs m = (if \<exists>d \<in> set devs. matches d (ps (vd_macs d)) = [] then Inl TypeError else Inr ())"
    by (auto simp: check_mapped_def list_all_iff)
  with m assms(3,4) show ?thesis by (simp add: register_bigip_interfaces_def last_match_def)
qed

definition ex_ports :: "string list \<Rightarrow> port list" where
  "ex_ports macs =
     (if macs = [''m1'', ''m2'']
      then [\<lparr>pt_id = ''p1'', pt_mac = ''m1'', pt_device_id = '''', pt_fixed_ips = None\<rparr>,
            \<lparr>pt_id = ''p2'', pt_mac = ''m2'', pt_device_id = '''', pt_fixed_ips = None\<rparr>] else [])"

definition ex_vlan_devices :: "vlan_device list" where
  "ex_vlan_devices =
     [\<lparr>vd_name = ''b1'', vd_macs = [''m1'', ''m2''], vd_interfaces = [(''1.1'', ''m1''), (''1.2'', ''m2'')]\<rparr>,
      \<lparr>vd_name = ''b2'', vd_macs = [''m3''], vd_interfaces = [(''1.1'', ''m3'')]\<rparr>]"

lemma vlan_registration_witness:
  "\<exists>v'. register_bigip_interfaces (Some (\<lambda>macs w :: unit. (Inr (ex_ports macs), w))) ex_vlan_devices
      (\<lparr>vi_mappings = [], vi_initialized = False\<rparr>, ()) = (Inl TypeError, v', ()) \<and>
    map_of (vi_mappings v') ''b1'' = Some [(''1.2'', ''p2'')]"
proof -
  have 1: "(Inr (ex_ports macs) :: exn + port list, w :: unit) = (Inr (ex_ports macs), w)" for macs w by simp
  have 2: "distinct (map vd_name ex_vlan_devices)" by (simp add: ex_vlan_devices_def)
  have 3: "\<not> vi_initialized \<lparr>vi_mappings = [], vi_initialized = False\<rparr>" by simp
  have 4: "vi_mappings \<lparr>vi_mappings = [], vi_initialized = False\<rparr> = []" by simp
  have "matches \<lparr>vd_name = ''b1'', vd_macs = [''m1'', ''m2''], vd_interfaces = [(''1.1'', ''m1''), (''1.2'', ''m2'')]\<rparr>
      (ex_ports [''m1'', ''m2'']) = [(''1.1'', ''p1''), (''1.2'', ''p2'')]"
    and "matches \<lparr>vd_name = ''b2'', vd_macs = [''m3''], vd_interfaces = [(''1.1'', ''m3'')]\<rparr> (ex_ports [''m3'']) = []"
    by code_simp+
  with vlan_registration [where w = "()" and ask = "\<lambda>macs w. (Inr (ex_ports macs), w)" and ps = ex_ports, OF 1 2 3 4]
  show ?thesis by (auto simp: ex_vlan_devices_def)
qed

end
