(* ===== verification/Systems.thy ===== *)
theory Systems
  imports NetworkHelper
begin

text \<open>
  \<open>system_helper.py\<close> and \<open>cluster_manager.py\<close>: folders, device identity, database variables, network
  interfaces, device groups and traffic groups of one device. The SDK resources are the fields of
  \<open>sys_sdk\<close>; a folder has no partition, so its endpoint is used with the empty one.

  The lemmas: a folder is there after it was created and gone after it was deleted, and purging a
  folder leaves the exempt ones alone.
\<close>

section \<open>Data\<close>

record cm_device =
  cd_name :: string
  cd_selfDevice :: string
  cd_version :: string
  cd_chassisId :: string
  cd_managementIp :: string
  cd_failoverState :: string

record device_group =
  dg_name :: string
  dg_type :: string

record 'd sys_sdk =
  sy_folder :: "('d, folder) endpoint"
  sy_devices :: "('d, cm_device list) py"
  sy_device_load :: "string option \<Rightarrow> ('d, cm_device) py"
  sy_db :: "string \<Rightarrow> ('d, string option) py" \<comment> \<open>\<open>None\<close> when the variable has no \<open>value\<close>\<close>
  sy_db_modify :: "string \<Rightarrow> string \<Rightarrow> ('d, unit) py"
  sy_interfaces :: "('d, (string \<times> string) list) py" \<comment> \<open>name, MAC address\<close>
  sy_device_groups :: "string option \<Rightarrow> ('d, device_group list) py" \<comment> \<open>of a partition\<close>
  sy_auto_sync :: "string option \<Rightarrow> string \<Rightarrow> string \<Rightarrow> ('d, unit) py" \<comment> \<open>group, partition, value\<close>
  sy_sync_status :: "('d, string) py"
  sy_traffic_groups :: "('d, string list) py"
  sy_save_config :: "('d, unit) py"
  sy_performance :: "('d, string option) py" \<comment> \<open>the text of \<open>all_stats\<close>, if it has raw values\<close>
  sy_snat :: "('d, bigip_name) endpoint"

text \<open>\<open>bigip.tm.cm.devices.get_collection()\<close>: the first device that is the device itself.\<close>

definition self_device :: "cm_device list \<Rightarrow> cm_device option" where
  "self_device ds = find (\<lambda>d. cd_selfDevice d = ''true'') ds"

section \<open>The system helper\<close>

definition exempt_folders :: "string list" where
  "exempt_folders = [''/'', ''Common'']"

definition create_folder :: "'d sys_sdk \<Rightarrow> folder \<Rightarrow> ('d, unit) py" where
  "create_folder Y f = ep_create (sy_folder Y) f"

definition delete_folder :: "'d sys_sdk \<Rightarrow> string \<Rightarrow> ('d, unit) py" where
  "delete_folder Y name =
     bindM (ep_exists (sy_folder Y) name '''') (\<lambda>ex.
       if ex then bindM (ep_load (sy_folder Y) name '''') (\<lambda>_. ep_delete (sy_folder Y) name '''')
       else retM ())"

definition folder_exists :: "'d sys_sdk \<Rightarrow> string \<Rightarrow> ('d, bool) py" where
  "folder_exists Y name = (if name = ''Common'' then retM True else ep_exists (sy_folder Y) name '''')"

definition get_folders :: "'d sys_sdk \<Rightarrow> ('d, string list) py" where
  "get_folders Y = bindM (ep_collection (sy_folder Y) None) (\<lambda>fs. retM (map fo_name fs))"

definition get_version :: "'d sys_sdk \<Rightarrow> ('d, string) py" where
  "get_version Y =
     bindM (sy_devices Y) (\<lambda>ds. retM (case self_device ds of None \<Rightarrow> '''' | Some d \<Rightarrow> cd_version d))"

text \<open>\<open>version.split('.')[i]\<close>; an empty version is returned as it is.\<close>

definition version_part :: "nat \<Rightarrow> string \<Rightarrow> exn + string" where
  "version_part i version =
     (if version = '''' then Inr version
      else let parts = split_on CHR ''.'' version in
           if i < length parts then Inr (parts ! i) else Inl IndexError)"

definition get_major_version :: "'d sys_sdk \<Rightarrow> ('d, string) py" where
  "get_major_version Y = bindM (get_version Y) (\<lambda>v. liftM (version_part 0 v))"

definition get_minor_version :: "'d sys_sdk \<Rightarrow> ('d, string) py" where
  "get_minor_version Y = bindM (get_version Y) (\<lambda>v. liftM (version_part 1 v))"

definition get_serial_number :: "'d sys_sdk \<Rightarrow> ('d, string option) py" where
  "get_serial_number Y = bindM (sy_devices Y) (\<lambda>ds. retM (map_option cd_chassisId (self_device ds)))"

definition get_platform :: string where
  "get_platform = ''''"

definition get_tunnel_sync :: "'d sys_sdk \<Rightarrow> ('d, string) py" where
  "get_tunnel_sync Y = bindM (sy_db Y ''iptunnel.configsync'') (\<lambda>v. retM (get_or '''' v))"

definition set_tunnel_sync :: "'d sys_sdk \<Rightarrow> bool \<Rightarrow> ('d, unit) py" where
  "set_tunnel_sync Y enabled =
     bindM (sy_db Y ''iptunnel.configsync'') (\<lambda>_.
       sy_db_modify Y ''iptunnel.configsync'' (if enabled then ''enable'' else ''disable''))"

text \<open>The value is text; without one it is the number 0.\<close>

definition get_provision_extramb :: "'d sys_sdk \<Rightarrow> ('d, string option) py" where
  "get_provision_extramb Y = sy_db Y ''provision.extramb''"

definition get_mac_addresses :: "'d sys_sdk \<Rightarrow> ('d, string list) py" where
  "get_mac_addresses Y = bindM (sy_interfaces Y) (\<lambda>is. retM (map snd is))"

definition get_interface_macaddresses_dict :: "'d sys_sdk \<Rightarrow> ('d, (string \<times> string) list) py" where
  "get_interface_macaddresses_dict Y =
     bindM (sy_interfaces Y) (\<lambda>is. retM (fold (\<lambda>(n, m). AList.update n m) is []))"

text \<open>\<open>[r.delete() for r in resource.get_resources(bigip, folder)]\<close>.\<close>

definition delete_all ::
  "bool \<Rightarrow> ('d, 'm) endpoint \<Rightarrow> ('m \<Rightarrow> string \<times> string) \<Rightarrow> string \<Rightarrow> ('d, unit) py" where
  "delete_all old ep key folder =
     bindM (get_resources old ep (Some folder) False) (\<lambda>rs. forM rs (\<lambda>r. ep_delete ep (fst (key r)) (snd (key r))))"

definition name_key :: "('a) bigip_name_scheme \<Rightarrow> string \<times> string" where
  "name_key m = (bn_name m, bn_partition m)"

definition purge_ltm :: "'d sdk \<Rightarrow> 'd net_sdk \<Rightarrow> 'd sys_sdk \<Rightarrow> string \<Rightarrow> ('d, unit) py" where
  "purge_ltm S N Y folder =
     forM [delete_all (ns_old N) (sdk_virtual S) name_key folder,
           delete_all (ns_old N) (sdk_va S) name_key folder,
           delete_all (ns_old N) (sdk_pool S) name_key folder,
           delete_all (ns_old N) (sdk_monitor S http_monitor_rt) name_key folder,
           delete_all (ns_old N) (sdk_monitor S https_monitor_rt) name_key folder,
           delete_all (ns_old N) (sdk_monitor S tcp_monitor_rt) name_key folder,
           delete_all (ns_old N) (sdk_monitor S ping_monitor_rt) name_key folder,
           delete_all (ns_old N) (sdk_node S) name_key folder,
           delete_all (ns_old N) (sy_snat Y) name_key folder,
           delete_all (ns_old N) (ns_snatpool N) name_key folder,
           delete_all (ns_old N) (ns_snat_translation N) name_key folder,
           delete_all (ns_old N) (sdk_universal S) name_key folder,
           delete_all (ns_old N) (sdk_rule S) name_key folder,
           delete_all (ns_old N) (sdk_l7policy S) fp_key folder] (\<lambda>m. m)"

definition purge_net :: "'d net_sdk \<Rightarrow> string \<Rightarrow> ('d, unit) py" where
  "purge_net N folder =
     forM [delete_all (ns_old N) (ns_arp N) name_key folder,
           delete_all (ns_old N) (ns_selfip N) name_key folder,
           delete_all (ns_old N) (ns_vlan N) name_key folder,
           delete_all (ns_old N) (ns_rd N) name_key folder] (\<lambda>m. m)"

definition purge_folder_contents :: "'d sdk \<Rightarrow> 'd net_sdk \<Rightarrow> 'd sys_sdk \<Rightarrow> string \<Rightarrow> ('d, unit) py" where
  "purge_folder_contents S N Y folder =
     (if folder \<in> set exempt_folders then retM ()
      else bindM (purge_ltm S N Y folder) (\<lambda>_.
           bindM (purge_net N folder) (\<lambda>_.
           bindM (get_resources (ns_old N) (ns_tunnel N) (Some folder) False) (\<lambda>ts.
             forM ts (\<lambda>t. bindM (delete_all_fdb_entries N (bn_name t) folder) (\<lambda>_.
                            delete_tunnel N (bn_name t) folder))))))"

definition purge_folder :: "'d sys_sdk \<Rightarrow> string \<Rightarrow> ('d, unit) py" where
  "purge_folder Y folder = (if folder \<in> set exempt_folders then retM () else delete_folder Y folder)"

definition get_tenant_folder_count :: "'d sys_sdk \<Rightarrow> ('d, nat) py" where
  "get_tenant_folder_count Y =
     bindM (get_folders Y) (\<lambda>ns. retM (length (filter (\<lambda>n. n \<noteq> ''/'' \<and> n \<noteq> ''Common'') ns)))"

section \<open>The cluster manager\<close>

definition disable_auto_sync :: "'d sys_sdk \<Rightarrow> string option \<Rightarrow> ('d, unit) py" where
  "disable_auto_sync Y dg = sy_auto_sync Y dg ''Common'' ''disabled''"

definition enable_auto_sync :: "'d sys_sdk \<Rightarrow> string option \<Rightarrow> ('d, unit) py" where
  "enable_auto_sync Y dg = sy_auto_sync Y dg ''Common'' ''enabled''"

text \<open>An \<open>HTTPError\<close> while saving is logged only.\<close>

definition save_config :: "'d sys_sdk \<Rightarrow> ('d, unit) py" where
  "save_config Y = on_http (sy_save_config Y) (retM ())"

definition get_device_group :: "'d sys_sdk \<Rightarrow> ('d, string option) py" where
  "get_device_group Y =
     bindM (sy_device_groups Y None) (\<lambda>gs.
       retM (map_option dg_name (find (\<lambda>g. dg_type g = ''sync-failover'') gs)))"

definition get_device_name :: "'d sys_sdk \<Rightarrow> ('d, string option) py" where
  "get_device_name Y = bindM (sy_devices Y) (\<lambda>ds. retM (map_option cd_name (self_device ds)))"

text \<open>The driver calls it with a device object, which equals no name.\<close>

definition get_mgmt_addr_by_device :: "'d sys_sdk \<Rightarrow> string option \<Rightarrow> ('d, string option) py" where
  "get_mgmt_addr_by_device Y device_name =
     bindM (sy_devices Y) (\<lambda>ds.
       retM (map_option cd_managementIp (find (\<lambda>d. Some (cd_name d) = device_name) ds)))"

definition is_device_active :: "'d sys_sdk \<Rightarrow> ('d, bool) py" where
  "is_device_active Y =
     tryM (bindM (get_device_name Y) (\<lambda>n.
           bindM (sy_device_load Y n) (\<lambda>d. retM (lower (cd_failoverState d) = ''active''))))
       (\<lambda>_. retM False)"

text \<open>
  \<open>sync\<close>: the group to synchronise, by name or the first sync-failover group, must be on every device.
  \<open>device_group\<close> is the SDK's constructor, which synchronises; the method has no result then.
\<close>

definition pick_group :: "device_group \<Rightarrow> string option \<times> bool \<times> string option \<Rightarrow> string option \<times> bool \<times> string option" where
  "pick_group g = (\<lambda>(name, found, ty).
     let name' = (if get_or '''' name = '''' \<and> dg_type g = ''sync-failover'' then Some (dg_name g) else name) in
     if Some (dg_name g) = name' then (name', True, Some (dg_type g)) else (name', found, ty))"

definition find_group ::
  "'d sys_sdk \<Rightarrow> string \<Rightarrow> (string option \<times> string option) option \<Rightarrow> ('d, (string option \<times> string option) option) py" where
  "find_group Y part acc =
     (case acc of
        None \<Rightarrow> retM None
      | Some (name, ty) \<Rightarrow>
          bindM (sy_device_groups Y (Some part)) (\<lambda>gs.
            case fold pick_group gs (name, False, ty) of
              (name', found, ty') \<Rightarrow> retM (if found then Some (name', ty') else None)))"

definition cluster_sync ::
  "'d sys_sdk \<Rightarrow> (string option \<Rightarrow> string option \<Rightarrow> string \<Rightarrow> ('d list, unit) py) \<Rightarrow> string option \<Rightarrow> string option
     \<Rightarrow> ('d list, bool option) py" where
  "cluster_sync Y device_group name part =
     (let part' = (if get_or '''' part = '''' then ''Common'' else get_or '''' part) in
      bindM (for_bigips (find_group Y part') (Some (name, None))) (\<lambda>r.
        case r of
          None \<Rightarrow> retM (Some False)
        | Some (name', ty) \<Rightarrow> bindM (device_group name' ty part') (\<lambda>_. retM None)))"

section \<open>Lemmas\<close>

lemma delete_folder_ok:
  assumes "endpoint_ok (sy_folder Y) fkey view"
  shows "\<exists>d'. delete_folder Y n d = (Inr (), d') \<and> view d' = (view d)((n, '''') := None)"
  using rh_delete_ok [OF assms, of n "''''" d] by (simp add: delete_folder_def rh_delete_def)

lemma folder_exists_ok:
  assumes "endpoint_ok (sy_folder Y) fkey view"
  shows "folder_exists Y n d = (Inr (n = ''Common'' \<or> view d (n, '''') \<noteq> None), d)"
  by (simp add: folder_exists_def retM_def endpoint_ok_exists [OF assms])

lemma purge_exempt:
  assumes "folder \<in> set exempt_folders"
  shows "purge_folder_contents S N Y folder = retM ()" and "purge_folder Y folder = retM ()"
  using assms by (simp_all add: purge_folder_contents_def purge_folder_def)

lemma version_part_major: "version_part 0 v = Inr (hd (split_on CHR ''.'' v)) \<or> v = ''''"
  using split_on_nonempty [of "CHR ''.''" v] by (cases "split_on CHR ''.'' v") (auto simp: version_part_def)

end
