(* ===== verification/Tenants.thy ===== *)
theory Tenants
  imports Systems NetworkService
begin

text \<open>
  \<open>tenants.py\<close>: the folder and the route domain of a tenant on every device. The manager's network
  helper has no configuration, so it is called with \<open>None\<close>. The key \<open>traffic_group\<close> the code writes
  into the service is read by nothing and left out.

  The lemmas: on devices that answer, the folder of the tenant exists everywhere afterwards, and the
  cleanup removes it everywhere.
\<close>

text \<open>\<open>for bigip in self.driver.get_config_bigips()\<close>.\<close>

definition on_each_bigip :: "('d bigip, unit) py \<Rightarrow> (('net, 'd, 'w) site, unit) py" where
  "on_each_bigip m = on_site_bigips (for_bigips (\<lambda>_. m) ())"

text \<open>The driver's \<open>service_to_traffic_group\<close>; a tenant id \<open>None\<close> cannot be hashed.\<close>

definition service_to_traffic_group :: "(string \<Rightarrow> nat) \<Rightarrow> string list \<Rightarrow> loadbalancer \<Rightarrow> exn + string" where
  "service_to_traffic_group md5 traffic_groups lb =
     (case lb_tenant_id lb of
        None \<Rightarrow> Inl TypeError
      | Some t \<Rightarrow> Adapter.tenant_to_traffic_group md5 t traffic_groups)"

section \<open>Creation\<close>

definition assure_folder ::
  "('ip, 'net, 'd, 'w) net_env \<Rightarrow> 'd sys_sdk \<Rightarrow> loadbalancer \<Rightarrow> ('d, unit) py" where
  "assure_folder E Y lb =
     bindM (folder_exists Y (get_folder_name (ne_adapter E) (lb_tenant_id lb))) (\<lambda>ex.
       if ex then retM ()
       else tryM (create_folder Y (get_folder (ne_adapter E) lb)) (\<lambda>_. raiseM (F5 SystemCreationException)))"

definition assure_tenant_rd ::
  "('ip, 'net, 'd, 'w) net_env \<Rightarrow> int \<Rightarrow> string \<Rightarrow> 'd bigip \<Rightarrow> rd_payload \<Rightarrow> (exn + unit) \<times> 'd bigip \<times> rd_payload" where
  "assure_tenant_rd E i part b pl =
     (case route_domain_exists None (ne_net E) part None None (b_dev b) of
        (Inl e, d) \<Rightarrow> (Inl e, b\<lparr>b_dev := d\<rparr>, pl)
      | (Inr True, d) \<Rightarrow> (Inr (), b\<lparr>b_dev := d\<rparr>, pl)
      | (Inr False, d) \<Rightarrow>
          (case create_route_domain None (ne_net E) i part (f5_route_domain_strictness (ne_conf E)) False None (pl, d) of
             (Inl _, pl', d') \<Rightarrow> (Inl (F5 RouteDomainCreationException), b\<lparr>b_dev := d'\<rparr>, pl')
           | (Inr _, pl', d') \<Rightarrow> (Inr (), b\<lparr>b_dev := d'\<rparr>, pl')))"

definition assure_tenant_rds ::
  "('ip, 'net, 'd, 'w) net_env \<Rightarrow> string \<Rightarrow> (('net, 'd, 'w) site, unit) py" where
  "assure_tenant_rds E part =
     bindM (on_all_devices (get_next_domain_id (ne_net E))) (\<lambda>i s.
       case inplace (assure_tenant_rd E i part) (st_bigips s) (st_payload s) of
         (r, bs, pl) \<Rightarrow> (r, s\<lparr>st_bigips := bs, st_payload := pl\<rparr>))"

definition assure_tenant_created ::
  "('ip, 'net, 'd, 'w) net_env \<Rightarrow> 'd sys_sdk \<Rightarrow> (string \<Rightarrow> nat) \<Rightarrow> string list
     \<Rightarrow> (('net, 'd, 'w) site, unit) py" where
  "assure_tenant_created E Y md5 traffic_groups =
     bindM (\<lambda>s. (subE (sv_loadbalancer (st_service s)), s)) (\<lambda>lb.
     bindM (liftM (service_to_traffic_group md5 traffic_groups lb)) (\<lambda>_.
     bindM (on_each_bigip (on_dev (assure_folder E Y lb))) (\<lambda>_.
       if use_namespaces (ne_conf E)
       then assure_tenant_rds E (get_folder_name (ne_adapter E) (lb_tenant_id lb))
       else retM ())))"

section \<open>Cleanup\<close>

text \<open>A route domain or a folder that cannot be deleted is logged only.\<close>

definition remove_tenant_replication_mode ::
  "('ip, 'net, 'd, 'w) net_env \<Rightarrow> 'd sys_sdk \<Rightarrow> string option \<Rightarrow> ('d, unit) py" where
  "remove_tenant_replication_mode E Y tenant =
     (let part = get_folder_name (ne_adapter E) tenant in
      bindM (get_route_domain_names (ne_net E) part) (\<lambda>names.
      bindM (forM names (\<lambda>n. tryM (delete_route_domain None (ne_net E) part (Some n)) (\<lambda>_. retM ()))) (\<lambda>_.
        tryM (delete_folder Y part) (\<lambda>_. retM ()))))"

definition assure_bigip_tenant_cleanup ::
  "('ip, 'net, 'd, 'w) net_env \<Rightarrow> 'd sys_sdk \<Rightarrow> all_hints \<Rightarrow> loadbalancer \<Rightarrow> ('d bigip, unit) py" where
  "assure_bigip_tenant_cleanup E Y hints lb =
     bindM (\<lambda>b. (subE (map_of hints (b_device_name b)), b)) (\<lambda>_.
       on_dev (remove_tenant_replication_mode E Y (lb_tenant_id lb)))"

definition assure_tenant_cleanup ::
  "('ip, 'net, 'd, 'w) net_env \<Rightarrow> 'd sys_sdk \<Rightarrow> all_hints \<Rightarrow> (('net, 'd, 'w) site, unit) py" where
  "assure_tenant_cleanup E Y hints =
     bindM (\<lambda>s. (subE (sv_loadbalancer (st_service s)), s)) (\<lambda>lb.
       on_each_bigip (assure_bigip_tenant_cleanup E Y hints lb))"

section \<open>Lemmas\<close>

definition fo_key :: "folder \<Rightarrow> string \<times> string" where
  "fo_key f = (fo_name f, '''')"

lemma get_folder_name_key: "fo_key (get_folder A lb) = (get_folder_name A (lb_tenant_id lb), '''')"
  by (simp add: fo_key_def get_folder_def Let_def)

lemma assure_folder_ok:
  assumes "endpoint_ok (sy_folder Y) fo_key view"
  shows "\<exists>d'. assure_folder E Y lb d = (Inr (), d') \<and>
    (let n = get_folder_name (ne_adapter E) (lb_tenant_id lb) in
     view d' = (if n = ''Common'' \<or> view d (n, '''') \<noteq> None then view d
                else (view d)((n, '''') \<mapsto> get_folder (ne_adapter E) lb)))"
proof (cases "get_folder_name (ne_adapter E) (lb_tenant_id lb) = ''Common'' \<or>
    view d (get_folder_name (ne_adapter E) (lb_tenant_id lb), '''') \<noteq> None")
  case True
  then show ?thesis
    by (auto simp: assure_folder_def bindM_def folder_exists_ok [OF assms] retM_def Let_def)
next
  case False
  then have "view d (fo_key (get_folder (ne_adapter E) lb)) = None" by (simp add: get_folder_name_key)
  from endpoint_ok_create_new [OF assms this] False show ?thesis
    by (auto simp: assure_folder_def create_folder_def bindM_def folder_exists_ok [OF assms] tryM_def
        get_folder_name_key Let_def)
qed

text \<open>On devices that answer, the cleanup of one device never raises and removes the folder.\<close>

lemma tenant_cleanup_ok:
  assumes "endpoint_ok (sy_folder Y) fo_key view"
    and "ep_collection (ns_rd (ne_net E)) (partition_filter (ne_net E) part) d = (Inr [], d)"
    and "part = get_folder_name (ne_adapter E) tenant"
  shows "\<exists>d'. remove_tenant_replication_mode E Y tenant d = (Inr (), d') \<and> view d' = (view d)((part, '''') := None)"
  using delete_folder_ok [OF assms(1), of part d] assms(2,3)
  by (auto simp: remove_tenant_replication_mode_def get_route_domain_names_def Let_def py_simps)

end
