(* ===== verification/PluginRpc.thy ===== *)
theory PluginRpc
  imports L2Service
begin

text \<open>
  \<open>plugin_rpc.py\<close>: the calls of the agent to the Neutron driver. A message is the dictionary of
  \<open>_make_msg\<close> with the way it is sent. The messaging client is a parameter: \<open>client\<close> sends a message
  and gives the reply, whose type depends on the method. The state \<open>'w\<close> is what is outside the agent.

  A delivery failure is the exception \<open>MessageDeliveryFailure\<close> of oslo.messaging; the methods that
  catch it log it and return a default.
\<close>

section \<open>Messages\<close>

datatype rpc_value =
    RNone | RBool bool | RInt int | RStr string | RStatus pstatus | ROper ostatus | RStrs "string list"
  | RDict "(string \<times> int) list"

record rpc_msg =
  rm_method :: string
  rm_args :: "(string \<times> rpc_value) list"
  rm_call :: bool \<comment> \<open>\<open>call\<close> waits for the reply, \<open>cast\<close> does not\<close>
  rm_fanout :: bool
  rm_topic :: "string option"

record plugin =
  pg_topic :: string
  pg_env :: string
  pg_group :: int
  pg_host :: string

type_synonym rpc_body = "string \<times> (string \<times> rpc_value) list"

type_synonym ('w, 'r) client = "rpc_msg \<Rightarrow> ('w, 'r) py"

definition plugin_init :: "string \<Rightarrow> string \<Rightarrow> int \<Rightarrow> string \<Rightarrow> plugin" where
  "plugin_init topic env grp host =
     \<lparr>pg_topic = (if topic \<noteq> '''' then topic else ''f5-lbaasv2-process-on-controller''),
      pg_env = env, pg_group = grp, pg_host = host\<rparr>"

text \<open>\<open>MessageDeliveryFailure\<close> of oslo.messaging.\<close>

definition delivery_failure :: exn where
  "delivery_failure = OtherError ''MessageDeliveryFailure''"

definition make_msg :: "string \<Rightarrow> (string \<times> rpc_value) list \<Rightarrow> rpc_body" where
  "make_msg method args = (method, args)"

definition rpc_call :: "('w, 'r) client \<Rightarrow> string option \<Rightarrow> rpc_body \<Rightarrow> ('w, 'r) py" where
  "rpc_call client topic m =
     client \<lparr>rm_method = fst m, rm_args = snd m, rm_call = True, rm_fanout = False, rm_topic = topic\<rparr>"

definition rpc_cast ::
  "('w, unit) client \<Rightarrow> string option \<Rightarrow> rpc_body \<Rightarrow> ('w, unit) py" where
  "rpc_cast client topic m =
     client \<lparr>rm_method = fst m, rm_args = snd m, rm_call = False, rm_fanout = False, rm_topic = topic\<rparr>"

definition fanout_cast ::
  "('w, unit) client \<Rightarrow> string option \<Rightarrow> rpc_body \<Rightarrow> ('w, unit) py" where
  "fanout_cast client topic m =
     client \<lparr>rm_method = fst m, rm_args = snd m, rm_call = False, rm_fanout = True, rm_topic = topic\<rparr>"

text \<open>\<open>try: ... except messaging.MessageDeliveryFailure\<close>.\<close>

definition or_default :: "'r \<Rightarrow> ('w, 'r) py \<Rightarrow> ('w, 'r) py" where
  "or_default x m = tryM m (\<lambda>e. if e = delivery_failure then retM x else raiseM e)"

definition opt_str :: "string option \<Rightarrow> rpc_value" where
  "opt_str s = (case s of None \<Rightarrow> RNone | Some x \<Rightarrow> RStr x)"

definition opt_status :: "pstatus option \<Rightarrow> rpc_value" where
  "opt_status s = (case s of None \<Rightarrow> RNone | Some x \<Rightarrow> RStatus x)"

definition opt_oper :: "ostatus option \<Rightarrow> rpc_value" where
  "opt_oper s = (case s of None \<Rightarrow> RNone | Some x \<Rightarrow> ROper x)"

section \<open>Status updates\<close>

text \<open>The messages; a status argument left out has the default the Python signature gives.\<close>

definition msg_loadbalancer_status :: "string \<Rightarrow> pstatus option \<Rightarrow> ostatus option \<Rightarrow> rpc_body" where
  "msg_loadbalancer_status i ps os =
     make_msg ''update_loadbalancer_status''
       [(''loadbalancer_id'', RStr i), (''status'', opt_status ps), (''operating_status'', opt_oper os)]"

definition msg_loadbalancer_stats :: "string \<Rightarrow> (string \<times> int) list \<Rightarrow> rpc_body" where
  "msg_loadbalancer_stats i stats =
     make_msg ''update_loadbalancer_stats'' [(''loadbalancer_id'', RStr i), (''stats'', RDict stats)]"

definition msg_loadbalancer_destroyed :: "string \<Rightarrow> rpc_body" where
  "msg_loadbalancer_destroyed i = make_msg ''loadbalancer_destroyed'' [(''loadbalancer_id'', RStr i)]"

definition msg_status :: "string \<Rightarrow> string \<Rightarrow> string \<Rightarrow> rpc_value \<Rightarrow> rpc_value \<Rightarrow> rpc_body" where
  "msg_status method key i ps os =
     make_msg method [(key, RStr i), (''provisioning_status'', ps), (''operating_status'', os)]"

definition msg_listener_status :: "string \<Rightarrow> pstatus \<Rightarrow> ostatus option \<Rightarrow> rpc_body" where
  "msg_listener_status i ps os = msg_status ''update_listener_status'' ''listener_id'' i (RStatus ps) (opt_oper os)"

definition msg_listener_destroyed :: "string \<Rightarrow> rpc_body" where
  "msg_listener_destroyed i = make_msg ''listener_destroyed'' [(''listener_id'', RStr i)]"

definition msg_pool_status :: "string \<Rightarrow> pstatus \<Rightarrow> ostatus \<Rightarrow> rpc_body" where
  "msg_pool_status i ps os = msg_status ''update_pool_status'' ''pool_id'' i (RStatus ps) (ROper os)"

definition msg_pool_destroyed :: "string \<Rightarrow> rpc_body" where
  "msg_pool_destroyed i = make_msg ''pool_destroyed'' [(''pool_id'', RStr i)]"

definition msg_member_status :: "string \<Rightarrow> pstatus option \<Rightarrow> ostatus option \<Rightarrow> rpc_body" where
  "msg_member_status i ps os = msg_status ''update_member_status'' ''member_id'' i (opt_status ps) (opt_oper os)"

definition msg_member_destroyed :: "string \<Rightarrow> rpc_body" where
  "msg_member_destroyed i = make_msg ''member_destroyed'' [(''member_id'', RStr i)]"

definition msg_health_monitor_status :: "string \<Rightarrow> pstatus \<Rightarrow> ostatus \<Rightarrow> rpc_body" where
  "msg_health_monitor_status i ps os =
     msg_status ''update_health_monitor_status'' ''health_monitor_id'' i (RStatus ps) (ROper os)"

definition msg_health_monitor_destroyed :: "string \<Rightarrow> rpc_body" where
  "msg_health_monitor_destroyed i = make_msg ''healthmonitor_destroyed'' [(''healthmonitor_id'', RStr i)]"

definition msg_l7rule_status :: "string \<Rightarrow> string \<Rightarrow> pstatus \<Rightarrow> ostatus \<Rightarrow> rpc_body" where
  "msg_l7rule_status i p ps os =
     make_msg ''update_l7rule_status''
       [(''l7rule_id'', RStr i), (''l7policy_id'', RStr p), (''provisioning_status'', RStatus ps),
        (''operating_status'', ROper os)]"

definition msg_l7rule_destroyed :: "string \<Rightarrow> rpc_body" where
  "msg_l7rule_destroyed i = make_msg ''l7rule_destroyed'' [(''l7rule_id'', RStr i)]"

definition msg_l7policy_status :: "string \<Rightarrow> pstatus \<Rightarrow> ostatus \<Rightarrow> rpc_body" where
  "msg_l7policy_status i ps os = msg_status ''update_l7policy_status'' ''l7policy_id'' i (RStatus ps) (ROper os)"

definition msg_l7policy_destroyed :: "string \<Rightarrow> rpc_body" where
  "msg_l7policy_destroyed i = make_msg ''l7policy_destroyed'' [(''l7policy_id'', RStr i)]"

text \<open>All of them are cast to the topic of the plugin.\<close>

definition plugin_cast :: "plugin \<Rightarrow> ('w, unit) client \<Rightarrow> rpc_body \<Rightarrow> ('w, unit) py" where
  "plugin_cast P client m = rpc_cast client (Some (pg_topic P)) m"

definition plugin_call :: "plugin \<Rightarrow> ('w, 'r) client \<Rightarrow> rpc_body \<Rightarrow> ('w, 'r) py" where
  "plugin_call P client m = rpc_call client (Some (pg_topic P)) m"

section \<open>Ports\<close>

definition add_allowed_address :: "plugin \<Rightarrow> ('w, unit) client \<Rightarrow> string \<Rightarrow> string \<Rightarrow> ('w, unit) py" where
  "add_allowed_address P client port ip =
     plugin_call P client (make_msg ''add_allowed_address'' [(''port_id'', RStr port), (''ip_address'', RStr ip)])"

definition remove_allowed_address :: "plugin \<Rightarrow> ('w, unit) client \<Rightarrow> string \<Rightarrow> string \<Rightarrow> ('w, unit) py" where
  "remove_allowed_address P client port ip =
     plugin_call P client (make_msg ''remove_allowed_address'' [(''port_id'', RStr port), (''ip_address'', RStr ip)])"

definition get_ports_for_mac_addresses :: "plugin \<Rightarrow> ('w, port list) client \<Rightarrow> string list \<Rightarrow> ('w, port list) py" where
  "get_ports_for_mac_addresses P client macs =
     or_default [] (plugin_call P client (make_msg ''get_ports_for_mac_addresses'' [(''mac_addresses'', RStrs macs)]))"

definition get_ports_on_network :: "plugin \<Rightarrow> ('w, port list) client \<Rightarrow> string option \<Rightarrow> ('w, port list) py" where
  "get_ports_on_network P client net =
     plugin_call P client (make_msg ''get_ports_on_network'' [(''network_id'', opt_str net)])"

definition get_port_by_name :: "plugin \<Rightarrow> ('w, port list) client \<Rightarrow> string \<Rightarrow> ('w, port list) py" where
  "get_port_by_name P client name =
     or_default [] (plugin_call P client (make_msg ''get_port_by_name'' [(''port_name'', RStr name)]))"

definition create_port_on_subnet ::
  "plugin \<Rightarrow> ('w, port option) client \<Rightarrow> string \<Rightarrow> string option \<Rightarrow> string \<Rightarrow> int \<Rightarrow> string \<Rightarrow> string
     \<Rightarrow> ('w, port option) py" where
  "create_port_on_subnet P client sub mac name n device vnic =
     or_default None (plugin_call P client (make_msg ''create_port_on_subnet''
       [(''subnet_id'', RStr sub), (''mac_address'', opt_str mac), (''name'', RStr name),
        (''fixed_address_count'', RInt n), (''host'', RStr (pg_host P)), (''device_id'', RStr device),
        (''vnic_type'', RStr vnic), (''binding_profile'', RDict [])]))"

definition create_port_on_network ::
  "plugin \<Rightarrow> ('w, port option) client \<Rightarrow> string \<Rightarrow> string option \<Rightarrow> string \<Rightarrow> string option \<Rightarrow> string
     \<Rightarrow> ('w, port option) py" where
  "create_port_on_network P client net mac name device vnic =
     or_default None (plugin_call P client (make_msg ''create_port_on_network''
       [(''network_id'', RStr net), (''mac_address'', opt_str mac), (''name'', RStr name),
        (''host'', RStr (pg_host P)), (''device_id'', opt_str device), (''vnic_type'', RStr vnic),
        (''binding_profile'', RDict [])]))"

definition delete_port_by_name :: "plugin \<Rightarrow> ('w, unit) client \<Rightarrow> string \<Rightarrow> ('w, unit) py" where
  "delete_port_by_name P client name =
     or_default () (plugin_cast P client (make_msg ''delete_port_by_name'' [(''port_name'', RStr name)]))"

definition delete_port :: "plugin \<Rightarrow> ('w, unit) client \<Rightarrow> string option \<Rightarrow> string option \<Rightarrow> ('w, unit) py" where
  "delete_port P client port mac =
     plugin_cast P client (make_msg ''delete_port'' [(''port_id'', opt_str port), (''mac_address'', opt_str mac)])"

section \<open>Services and agents\<close>

definition empty_service :: service where
  "empty_service =
     \<lparr>sv_loadbalancer = None, sv_listeners = None, sv_pools = None, sv_members = None, sv_healthmonitors = None,
      sv_l7policies = None, sv_l7policy_rules = None, sv_networks = None, sv_subnets = None\<rparr>"

definition get_service_by_loadbalancer_id :: "plugin \<Rightarrow> ('w, service) client \<Rightarrow> string \<Rightarrow> ('w, service) py" where
  "get_service_by_loadbalancer_id P client i =
     or_default empty_service (plugin_call P client (make_msg ''get_service_by_loadbalancer_id''
       [(''loadbalancer_id'', RStr i), (''host'', RStr (pg_host P))]))"

record lb_row =
  lr_lb_id :: string
  lr_tenant_id :: string
  lr_agent_host :: string

definition query_loadbalancers ::
  "string \<Rightarrow> plugin \<Rightarrow> ('w, lb_row list) client \<Rightarrow> string option \<Rightarrow> int option \<Rightarrow> string option
     \<Rightarrow> ('w, lb_row list) py" where
  "query_loadbalancers method P client env grp host =
     or_default [] (plugin_call P client (make_msg method
       [(''env'', RStr (if get_or '''' env = '''' then pg_env P else get_or '''' env)),
        (''group'', case grp of None \<Rightarrow> RNone | Some g \<Rightarrow> RInt g), (''host'', opt_str host)]))"

definition get_all_loadbalancers ::
  "plugin \<Rightarrow> ('w, lb_row list) client \<Rightarrow> string option \<Rightarrow> int option \<Rightarrow> string option \<Rightarrow> ('w, lb_row list) py" where
  "get_all_loadbalancers = query_loadbalancers ''get_all_loadbalancers''"

definition get_active_loadbalancers ::
  "plugin \<Rightarrow> ('w, lb_row list) client \<Rightarrow> string option \<Rightarrow> int option \<Rightarrow> string option \<Rightarrow> ('w, lb_row list) py" where
  "get_active_loadbalancers = query_loadbalancers ''get_active_loadbalancers''"

definition get_pending_loadbalancers ::
  "plugin \<Rightarrow> ('w, lb_row list) client \<Rightarrow> string option \<Rightarrow> int option \<Rightarrow> string option \<Rightarrow> ('w, lb_row list) py" where
  "get_pending_loadbalancers = query_loadbalancers ''get_pending_loadbalancers''"

text \<open>The code asks for the pending ones.\<close>

definition get_errored_loadbalancers ::
  "plugin \<Rightarrow> ('w, lb_row list) client \<Rightarrow> string option \<Rightarrow> int option \<Rightarrow> string option \<Rightarrow> ('w, lb_row list) py" where
  "get_errored_loadbalancers = query_loadbalancers ''get_pending_loadbalancers''"

definition get_loadbalancers_by_network ::
  "plugin \<Rightarrow> ('w, lb_row list) client \<Rightarrow> string \<Rightarrow> string option \<Rightarrow> int option \<Rightarrow> string option \<Rightarrow> ('w, lb_row list) py" where
  "get_loadbalancers_by_network P client net env grp host =
     or_default [] (plugin_call P client (make_msg ''get_loadbalancers_by_network''
       [(''env'', RStr (if get_or '''' env = '''' then pg_env P else get_or '''' env)), (''network_id'', RStr net),
        (''group'', RInt (if get_or 0 grp = 0 then pg_group P else get_or 0 grp)),
        (''host'', RStr (if get_or '''' host = '''' then pg_host P else get_or '''' host))]))"

definition set_agent_admin_state :: "plugin \<Rightarrow> ('w, bool) client \<Rightarrow> bool \<Rightarrow> ('w, bool) py" where
  "set_agent_admin_state P client up =
     or_default False (plugin_call P client (make_msg ''set_agent_admin_state''
       [(''admin_state_up'', RBool up), (''host'', RStr (pg_host P))]))"

definition scrub_dead_agents :: "plugin \<Rightarrow> ('w, unit) client \<Rightarrow> string \<Rightarrow> int \<Rightarrow> ('w, unit) py" where
  "scrub_dead_agents P client env grp =
     or_default () (plugin_call P client (make_msg ''scrub_dead_agents''
       [(''env'', RStr env), (''group'', RInt grp), (''host'', RStr (pg_host P))]))"

text \<open>The value of \<open>host\<close> in the dictionary of the agent, if it has the key.\<close>

definition get_clusterwide_agent :: "plugin \<Rightarrow> ('w, string option) client \<Rightarrow> string \<Rightarrow> int \<Rightarrow> ('w, string option) py" where
  "get_clusterwide_agent P client env grp =
     or_default None (plugin_call P client (make_msg ''get_clusterwide_agent''
       [(''env'', RStr env), (''group'', RInt grp), (''host'', RStr (pg_host P))]))"

definition validate_loadbalancers_state ::
  "plugin \<Rightarrow> ('w, (string \<times> string) list) client \<Rightarrow> string list \<Rightarrow> ('w, (string \<times> string) list) py" where
  "validate_loadbalancers_state P client ids =
     or_default [] (plugin_call P client (make_msg ''validate_loadbalancers_state''
       [(''loadbalancers'', RStrs ids), (''host'', RStr (pg_host P))]))"

definition validate_listeners_state ::
  "plugin \<Rightarrow> ('w, (string \<times> string) list) client \<Rightarrow> string list \<Rightarrow> ('w, (string \<times> string) list) py" where
  "validate_listeners_state P client ids =
     or_default [] (plugin_call P client (make_msg ''validate_listeners_state''
       [(''listeners'', RStrs ids), (''host'', RStr (pg_host P))]))"

definition validate_pools_state ::
  "plugin \<Rightarrow> ('w, (string \<times> string) list) client \<Rightarrow> string list \<Rightarrow> ('w, (string \<times> string) list) py" where
  "validate_pools_state P client ids =
     or_default [] (plugin_call P client (make_msg ''validate_pools_state''
       [(''pools'', RStrs ids), (''host'', RStr (pg_host P))]))"

definition get_pools_members ::
  "plugin \<Rightarrow> ('w, (string \<times> member list) list) client \<Rightarrow> string list \<Rightarrow> ('w, (string \<times> member list) list) py" where
  "get_pools_members P client ids =
     or_default [] (plugin_call P client (make_msg ''get_pools_members''
       [(''pools'', RStrs ids), (''host'', RStr (pg_host P))]))"

definition validate_l7policys_state_by_listener ::
  "plugin \<Rightarrow> ('w, (string \<times> bool) list) client \<Rightarrow> string list \<Rightarrow> ('w, (string \<times> bool) list) py" where
  "validate_l7policys_state_by_listener P client ids =
     or_default [] (plugin_call P client (make_msg ''validate_l7policys_state_by_listener''
       [(''listeners'', RStrs ids)]))"

section \<open>The interface of the network components\<close>

text \<open>
  \<open>rpc\<close> as this class provides it. It has no method \<open>create_port_on_subnet_with_specific_ip\<close>, which
  \<open>_allocate_gw_addr\<close> calls: an \<open>AttributeError\<close>. The L2 population and tunnel interfaces are Neutron's.
\<close>

definition network_rpc ::
  "plugin \<Rightarrow> ('w, port list) client \<Rightarrow> ('w, port option) client \<Rightarrow> ('w, unit) client
     \<Rightarrow> (vtep_notice \<Rightarrow> ('w, unit) py) option \<Rightarrow> (vtep_notice \<Rightarrow> ('w, unit) py) option
     \<Rightarrow> (string \<Rightarrow> string \<Rightarrow> ('w, unit) py) option \<Rightarrow> 'w rpc" where
  "network_rpc P ports port_of plain added removed tunnel =
     \<lparr>rpc_get_port_by_name = get_port_by_name P ports,
      rpc_create_port_on_subnet = (\<lambda>sub name device vnic. create_port_on_subnet P port_of sub None name 1 device vnic),
      rpc_create_port_with_ip = (\<lambda>_ _ _. raiseM AttributeError),
      rpc_create_port_on_network =
        (\<lambda>net name. bindM (create_port_on_network P port_of net None name None ''normal'') (\<lambda>_. retM ())),
      rpc_delete_port_by_name = delete_port_by_name P plain,
      rpc_add_allowed_address = add_allowed_address P plain,
      rpc_remove_allowed_address = remove_allowed_address P plain,
      rpc_get_ports_for_macs = get_ports_for_mac_addresses P ports,
      rpc_vtep_added = added, rpc_vtep_removed = removed, rpc_tunnel_sync = tunnel\<rparr>"

section \<open>Lemmas\<close>

lemma or_default_total:
  assumes "\<And>e w'. m w = (Inl e, w') \<Longrightarrow> e = delivery_failure"
  shows "\<exists>r w'. or_default x m w = (Inr r, w')"
  using assms by (cases "m w"; cases "fst (m w)") (auto simp: or_default_def py_simps)

lemma or_default_reply: "m w = (Inr r, w') \<Longrightarrow> or_default x m w = (Inr r, w')"
  by (simp add: or_default_def py_simps)

end
