(* ===== verification/StatHelper.thy ===== *)
theory StatHelper
  imports Systems
begin

text \<open>
  \<open>stat_helper.py\<close>: the performance report of a device is a text; \<open>get_global_statistics\<close> reads it
  line by line into a table of sections, divisions and fields. The nested dictionary the code starts
  from is \<open>stat_layout\<close> (all values 0). No section name and no division name of a section is a prefix
  of another, so the order in which the code tries the keys does not matter.

  The code tests the first column with \<open>in\<close> on strings, so it asks for a substring of a field name; a
  proper substring is then a missing key. The lemmas: a printed line of a field is read back.
\<close>

section \<open>The layout\<close>

definition stat_layout :: "(string \<times> (string \<times> string list) list) list" where
  "stat_layout =
     [(''Sys::Performance System'',
        [(''System CPU Usage'', [''Utilization'']),
         (''Memory Used'', [''TMM Memory Used'', ''Other Memory Used'', ''Swap Memory Used''])]),
      (''Sys::Performance Connections'',
        [(''Active Connections'', [''Connections'']),
         (''Total New Connections'', [''Client Connections'', ''Server Connections'']),
         (''HTTP Requests'', [''HTTP Requests''])]),
      (''Sys::Performance Throughput'',
        [(''Throughput(bits)'', [''In'', ''Out'']),
         (''SSL Transactions'', [''SSL TPS'']),
         (''Throughput(packets)'', [''In'', ''Out''])]),
      (''Sys::Performance Ramcache'',
        [(''RAM Cache Utilization'', [''Hit Rate'', ''Byte Rate'', ''Eviction Rate''])])]"

record stat_value =
  sx_current :: int
  sx_average :: int
  sx_max :: int

type_synonym stat_table = "((string \<times> string \<times> string) \<times> stat_value) list"

definition stat_initial :: stat_table where
  "stat_initial =
     concat (map (\<lambda>(s, ds). concat (map (\<lambda>(d, fs).
       map (\<lambda>f. ((s, d, f), \<lparr>sx_current = 0, sx_average = 0, sx_max = 0\<rparr>)) fs) ds)) stat_layout)"

definition divisions_of :: "string \<Rightarrow> string list" where
  "divisions_of s = map fst (get_or [] (map_of stat_layout s))"

definition fields_of :: "string \<Rightarrow> string \<Rightarrow> string list" where
  "fields_of s d = get_or [] (map_of (get_or [] (map_of stat_layout s)) d)"

section \<open>One line\<close>

text \<open>\<open>re.split('\s{2,}', line)\<close>; the first argument is the column so far, reversed.\<close>

function split_runs :: "string \<Rightarrow> string \<Rightarrow> string list" where
  "split_runs col [] = [rev col]"
| "split_runs col (c # cs) =
     (if is_space c \<and> cs \<noteq> [] \<and> is_space (hd cs) then rev col # split_runs [] (dropWhile is_space cs)
      else split_runs (c # col) cs)"
  by pat_completeness auto
termination
  by (relation "measure (\<lambda>(col, cs). length cs)") (auto simp: le_imp_less_Suc length_dropWhile_le)

text \<open>\<open>line[line.index('since') + 6 : line.index(')', since_idx)]\<close>, \<open>None\<close> for a \<open>ValueError\<close>.\<close>

definition since_of :: "string \<Rightarrow> string option" where
  "since_of line =
     (let i = find_str ''since'' line in
      if i < 0 then None
      else let rest = drop (nat i) line; j = find_str '')'' rest in
           if j < 0 then None else Some (drop 6 (take (nat j) rest)))"

definition int_or_0 :: "string \<Rightarrow> int" where
  "int_or_0 s = (case py_int s of Inl _ \<Rightarrow> 0 | Inr i \<Rightarrow> i)"

record stat_state =
  ss_table :: stat_table
  ss_section :: "string option"
  ss_division :: "string option"
  ss_since :: "string option"

definition stat_section :: "string \<Rightarrow> stat_state \<Rightarrow> stat_state" where
  "stat_section line st =
     (case find (\<lambda>s. startswith s line) (map fst stat_layout) of
        None \<Rightarrow> st
      | Some s \<Rightarrow>
          (case ss_section st of
             None \<Rightarrow> st\<lparr>ss_section := Some s\<rparr>
           | Some s' \<Rightarrow> if s' = s then st else st\<lparr>ss_section := Some s, ss_division := None\<rparr>))"

definition stat_division :: "string \<Rightarrow> stat_state \<Rightarrow> stat_state" where
  "stat_division line st =
     (case ss_section st of
        None \<Rightarrow> st
      | Some s \<Rightarrow>
          (case find (\<lambda>d. startswith d line) (divisions_of s) of
             None \<Rightarrow> st
           | Some d \<Rightarrow>
               st\<lparr>ss_since := (case since_of line of None \<Rightarrow> ss_since st | Some t \<Rightarrow> Some t),
                  ss_division := Some d\<rparr>))"

text \<open>One field name: some character of it starts the line, and the first of four columns is part of it.\<close>

definition stat_field :: "string \<Rightarrow> string \<Rightarrow> string \<Rightarrow> string \<Rightarrow> stat_table \<Rightarrow> exn + stat_table" where
  "stat_field line s d field tab =
     (if line \<noteq> [] \<and> hd line \<in> set field then
        (case split_runs [] line of
           [v0, v1, v2, v3] \<Rightarrow>
             if contains_str v0 field then
               if v0 \<in> set (fields_of s d) then
                 Inr (AList.update (s, d, v0)
                        \<lparr>sx_current = int_or_0 v1, sx_average = int_or_0 v2, sx_max = int_or_0 v3\<rparr> tab)
               else Inl KeyError
             else Inr tab
         | _ \<Rightarrow> Inr tab)
      else Inr tab)"

fun stat_fields :: "string \<Rightarrow> string \<Rightarrow> string \<Rightarrow> string list \<Rightarrow> stat_table \<Rightarrow> exn + stat_table" where
  "stat_fields line s d [] tab = Inr tab"
| "stat_fields line s d (f # fs) tab = bindE (stat_field line s d f tab) (stat_fields line s d fs)"

definition stat_line :: "string \<Rightarrow> stat_state \<Rightarrow> exn + stat_state" where
  "stat_line line st =
     (if length line \<le> 2 then Inr st
      else let st = stat_division line (stat_section line st) in
           case (ss_section st, ss_division st) of
             (Some s, Some d) \<Rightarrow>
               bindE (stat_fields line s d (fields_of s d) (ss_table st)) (\<lambda>tab. Inr (st\<lparr>ss_table := tab\<rparr>))
           | _ \<Rightarrow> Inr st)"

fun stat_lines :: "string list \<Rightarrow> stat_state \<Rightarrow> exn + stat_state" where
  "stat_lines [] st = Inr st"
| "stat_lines (l # ls) st = bindE (stat_line l st) (stat_lines ls)"

section \<open>The report\<close>

definition parse_statistics :: "string \<Rightarrow> exn + stat_table \<times> string option" where
  "parse_statistics text =
     bindE (stat_lines (split_on (CHR 0x0A) text)
              \<lparr>ss_table = stat_initial, ss_section = None, ss_division = None, ss_since = None\<rparr>)
       (\<lambda>st. Inr (ss_table st, ss_since st))"

definition get_global_statistics :: "'d sys_sdk \<Rightarrow> ('d, (stat_table \<times> string option) option) py" where
  "get_global_statistics Y =
     bindM (sy_performance Y) (\<lambda>t.
       case t of None \<Rightarrow> retM None | Some text \<Rightarrow> bindM (liftM (parse_statistics text)) (\<lambda>r. retM (Some r)))"

text \<open>\<open>global_stats[section][division][field]['current']\<close>; subscripting \<open>None\<close> is a \<open>TypeError\<close>.\<close>

definition current_stat ::
  "'d sys_sdk \<Rightarrow> string \<Rightarrow> string \<Rightarrow> string \<Rightarrow> (stat_table \<times> string option) option \<Rightarrow> ('d, int) py" where
  "current_stat Y s d f stats =
     bindM (case stats of None \<Rightarrow> get_global_statistics Y | Some t \<Rightarrow> retM (Some t)) (\<lambda>g.
       case g of
         None \<Rightarrow> raiseM TypeError
       | Some (tab, _) \<Rightarrow> bindM (liftM (subE (map_of tab (s, d, f)))) (\<lambda>v. retM (sx_current v)))"

definition get_active_connection_count ::
  "'d sys_sdk \<Rightarrow> (stat_table \<times> string option) option \<Rightarrow> ('d, int) py" where
  "get_active_connection_count Y =
     current_stat Y ''Sys::Performance Connections'' ''Active Connections'' ''Connections''"

definition get_active_SSL_TPS :: "'d sys_sdk \<Rightarrow> (stat_table \<times> string option) option \<Rightarrow> ('d, int) py" where
  "get_active_SSL_TPS Y = current_stat Y ''Sys::Performance Throughput'' ''SSL Transactions'' ''SSL TPS''"

definition get_inbound_throughput :: "'d sys_sdk \<Rightarrow> (stat_table \<times> string option) option \<Rightarrow> ('d, int) py" where
  "get_inbound_throughput Y = current_stat Y ''Sys::Performance Throughput'' ''Throughput(bits)'' ''In''"

definition get_outbound_throughput :: "'d sys_sdk \<Rightarrow> (stat_table \<times> string option) option \<Rightarrow> ('d, int) py" where
  "get_outbound_throughput Y = current_stat Y ''Sys::Performance Throughput'' ''Throughput(bits)'' ''Out''"

text \<open>Both directions, from one reading.\<close>

definition get_throughput :: "'d sys_sdk \<Rightarrow> (stat_table \<times> string option) option \<Rightarrow> ('d, int) py" where
  "get_throughput Y stats =
     bindM (case stats of None \<Rightarrow> get_global_statistics Y | Some t \<Rightarrow> retM (Some t)) (\<lambda>g.
       case g of
         None \<Rightarrow> raiseM TypeError
       | Some t \<Rightarrow> bindM (get_inbound_throughput Y (Some t)) (\<lambda>i.
                    bindM (get_outbound_throughput Y (Some t)) (\<lambda>j. retM (i + j))))"

section \<open>Reading back a printed line\<close>

definition print_stat :: "string \<Rightarrow> stat_value \<Rightarrow> string" where
  "print_stat f v = f @ ''  '' @ str_int (sx_current v) @ ''  '' @ str_int (sx_average v) @ ''  '' @ str_int (sx_max v)"

text \<open>No two adjacent blanks and no blank at the end.\<close>

fun one_column :: "string \<Rightarrow> bool" where
  "one_column [] = True"
| "one_column (c # cs) = (\<not> (is_space c \<and> (cs = [] \<or> is_space (hd cs))) \<and> one_column cs)"

lemma split_runs_last: "one_column a \<Longrightarrow> split_runs col a = [rev col @ a]"
  by (induction a arbitrary: col) auto

lemma split_runs_next:
  assumes "one_column a" and "b \<noteq> []" and "\<not> is_space (hd b)"
  shows "split_runs col (a @ ''  '' @ b) = (rev col @ a) # split_runs [] b"
  using assms(1)
proof (induction a arbitrary: col)
  case Nil
  from assms(2,3) show ?case by (cases b) (auto simp: is_space_def)
next
  case (Cons c cs)
  then show ?case by (cases cs) auto
qed

lemma no_space_one_column: "\<forall>c \<in> set a. \<not> is_space c \<Longrightarrow> one_column a"
  by (induction a) auto

lemma str_int_no_space: "c \<in> set (str_int i) \<Longrightarrow> \<not> is_space c"
  using str_nat_digits digit_not_special by (auto simp: str_int_def is_space_def split: if_splits)

lemma str_int_not_Nil: "str_int i \<noteq> []"
  by (simp add: str_int_def str_nat_nonempty)

lemma str_int_column: "one_column (str_int i)" "\<not> is_space (hd (str_int i @ b))"
  using str_int_no_space [OF hd_in_set] str_int_no_space str_int_not_Nil [of i]
  by (auto intro!: no_space_one_column simp: hd_append)

lemma print_stat_columns:
  assumes "one_column f"
  shows "split_runs [] (print_stat f v) =
    [f, str_int (sx_current v), str_int (sx_average v), str_int (sx_max v)]"
proof -
  let ?c = "str_int (sx_max v)" let ?b = "str_int (sx_average v) @ ''  '' @ ?c"
  have c: "split_runs [] ?c = [?c]" using split_runs_last [OF str_int_column(1), of "[]"] by simp
  have b: "split_runs [] ?b = [str_int (sx_average v), ?c]"
    using split_runs_next [OF str_int_column(1) str_int_not_Nil, of "sx_max v" "[]" "sx_average v"]
      str_int_column(2) [of "sx_max v" "[]"] c by simp
  have a: "split_runs [] (str_int (sx_current v) @ ''  '' @ ?b) = [str_int (sx_current v), str_int (sx_average v), ?c]"
    using split_runs_next [OF str_int_column(1), of ?b "[]" "sx_current v"]
      str_int_column(2) [of "sx_average v" "''  '' @ ?c"] str_int_not_Nil [of "sx_average v"] b by simp
  show ?thesis
    using split_runs_next [OF assms, of "str_int (sx_current v) @ ''  '' @ ?b" "[]"]
      str_int_column(2) [of "sx_current v" "''  '' @ ?b"] str_int_not_Nil [of "sx_current v"] a
    by (simp add: print_stat_def)
qed

end
