(* ===== verification/Driver.thy ===== *)
theory Driver
  imports Tenants PluginRpc StatHelper Builder VlanBinding "HOL-Library.List_Lexorder" "HOL-Library.Char_ord"
    "HOL-Library.Option_ord"
begin

text \<open>
  The devices of \<open>icontrol_driver.py\<close>: the registry \<open>__bigips\<close> of host names with the status of each
  device, opening and initialising devices, the checks of the high availability setup, the recovery
  of devices in error, and the configuration the agent reports.

  A registry entry is a \<open>host\<close>; a placeholder object, made before a connection or after a failure, has
  no device. A host name is an \<open>option\<close> because \<open>_validate_ha\<close> can put \<open>None\<close> into \<open>hostnames\<close>. The
  connection (\<open>ManagementRoot\<close>), the text of an exception (\<open>str\<close>), the ESD files and the report
  callback of the agent are parameters in \<open>drv_env\<close>. Dictionaries are taken in insertion order.

  A device that does not find itself in its device list gets the empty device name.
\<close>

section \<open>State\<close>

datatype hstatus = HCreating | HConnecting | HConnected | HInitializing | HValidatingHA | HActive | HError

fun status_text :: "hstatus \<Rightarrow> string" where
  "status_text HCreating = ''creating''"
| "status_text HConnecting = ''connecting''"
| "status_text HConnected = ''connected''"
| "status_text HInitializing = ''initializing''"
| "status_text HValidatingHA = ''validating_HA''"
| "status_text HActive = ''active''"
| "status_text HError = ''error''"

record 'd host =
  ho_status :: hstatus
  ho_message :: string
  ho_device :: "'d bigip option"
  ho_group :: "string option"
  ho_macs :: "string list"
  ho_interfaces :: "(string \<times> string) list"
  ho_failover :: "string option"

record ep_identity =
  ei_version :: string
  ei_device_name :: string
  ei_platform :: string
  ei_serial :: "string option"
  ei_local_ip :: string

record ep_info =
  ei_failover :: string
  ei_status :: string
  ei_message :: string
  ei_identity :: "ep_identity option"

record ('net, 'd, 'w) drv =
  dv_hosts :: "(string option \<times> 'd host) list"
  dv_hostnames :: "string option list"
  dv_operational :: bool
  dv_ha_validated :: bool
  dv_tg_initialized :: bool
  dv_tgs :: "string list"
  dv_endpoints :: "(string option \<times> ep_info) list"
  dv_tunnel_types :: "string list"
  dv_nova :: "bool option"
  dv_reported_operational :: "bool option"
  dv_reported_esds :: "string list option"
  dv_esd :: "esd_table option"
  dv_esd_names :: "string list"
  dv_do_update :: bool
  dv_to_sync :: bool
  dv_rds_cache :: "'net rds_cache"
  dv_payload :: rd_payload
  dv_vcmp :: "'d vcmp_host list"
  dv_l3 :: "l3_state option"
  dv_vlan :: "vlan_state option"
  dv_world :: 'w

record ('ip, 'net, 'd, 'w) drv_env =
  dr_net :: "('ip, 'net, 'd, 'w) net_env"
  dr_builder :: "'d benv"
  dr_sys :: "'d sys_sdk"
  dr_md5 :: "string \<Rightarrow> nat"
  dr_plugin :: "plugin option"
  dr_cast :: "('w, unit) client"
  dr_ports :: "('w, port list) client"
  dr_services :: "('w, service) client"
  dr_lbs :: "('w, lb_row list) client"
  dr_str :: "exn \<Rightarrow> string"
  dr_connect :: "string option \<Rightarrow> ('w, 'd) py"
  dr_vcmp_connect :: "string \<Rightarrow> exn + 'd bigip"
  dr_vcmp_hostname :: string
  dr_esd_files :: "(exn + (string \<times> esd) list) list"
  dr_esd_coll :: "'d coll"
  dr_report_esds :: bool
  dr_report :: "(bool \<Rightarrow> (('net, 'd, 'w) drv, unit) py) option"

definition dr_conf :: "('ip, 'net, 'd, 'w) drv_env \<Rightarrow> conf" where
  [simp]: "dr_conf D = ne_conf (dr_net D)"

section \<open>The registry\<close>

definition upd_host ::
  "string option \<Rightarrow> ('d host \<Rightarrow> 'd host) \<Rightarrow> ('net, 'd, 'w) drv \<Rightarrow> ('net, 'd, 'w) drv" where
  "upd_host h f s = s\<lparr>dv_hosts := map (\<lambda>(k, x). (k, if k = h then f x else x)) (dv_hosts s)\<rparr>"

definition set_status :: "string option \<Rightarrow> hstatus \<Rightarrow> string \<Rightarrow> (('net, 'd, 'w) drv, unit) py" where
  [py_simps]: "set_status h st msg = modifyM (upd_host h (\<lambda>x. x\<lparr>ho_status := st, ho_message := msg\<rparr>))"

definition get_host :: "string option \<Rightarrow> (('net, 'd, 'w) drv, 'd host) py" where
  [py_simps]: "get_host h s = (subE (map_of (dv_hosts s) h), s)"

text \<open>An operation on the device of a host; a placeholder has no \<open>tm\<close>.\<close>

definition on_host_bigip :: "string option \<Rightarrow> ('d bigip, 'a) py \<Rightarrow> (('net, 'd, 'w) drv, 'a) py" where
  "on_host_bigip h m s =
     (case map_of (dv_hosts s) h of
        None \<Rightarrow> (Inl KeyError, s)
      | Some x \<Rightarrow>
          (case ho_device x of
             None \<Rightarrow> (Inl AttributeError, s)
           | Some b \<Rightarrow> (case m b of (r, b') \<Rightarrow> (r, upd_host h (\<lambda>x. x\<lparr>ho_device := Some b'\<rparr>) s))))"

definition on_host_dev :: "string option \<Rightarrow> ('d, 'a) py \<Rightarrow> (('net, 'd, 'w) drv, 'a) py" where
  "on_host_dev h m = on_host_bigip h (on_dev m)"

definition on_world :: "('w, 'a) py \<Rightarrow> (('net, 'd, 'w) drv, 'a) py" where
  [py_simps]: "on_world m s = (case m (dv_world s) of (r, w) \<Rightarrow> (r, s\<lparr>dv_world := w\<rparr>))"

definition active_hosts :: "(string option \<times> 'd host) list \<Rightarrow> string option list" where
  "active_hosts hs = map fst (filter (\<lambda>(k, x). ho_status x = HActive) hs)"

text \<open>\<open>get_all_bigips\<close>: only an opened device becomes active.\<close>

definition get_all_bigips :: "(string option \<times> 'd host) list \<Rightarrow> 'd bigip list" where
  "get_all_bigips hs = List.map_filter (\<lambda>(k, x). if ho_status x = HActive then ho_device x else None) hs"

text \<open>Python 2 orders \<open>None\<close> before every text.\<close>

definition get_bigip_hosts :: "(string option \<times> 'd host) list \<Rightarrow> string option list" where
  "get_bigip_hosts hs = sort (active_hosts hs)"

text \<open>\<open>get_bigip\<close>: the active device that comes first by name; \<open>None\<close> without one.\<close>

definition get_bigip :: "(string option \<times> 'd host) list \<Rightarrow> 'd bigip option" where
  "get_bigip hs = (case get_bigip_hosts hs of [] \<Rightarrow> None | h # _ \<Rightarrow> Option.bind (map_of hs h) ho_device)"

definition get_errored_bigips_hostnames :: "(string option \<times> 'd host) list \<Rightarrow> string option list" where
  "get_errored_bigips_hostnames hs = map fst (filter (\<lambda>(k, x). ho_status x = HError) hs)"

text \<open>\<open>get_active_bigip\<close>: the device whose failover state is active, else the first.\<close>

definition get_active_bigip :: "(string option \<times> 'd host) list \<Rightarrow> exn + string option" where
  "get_active_bigip hs =
     (let as = filter (\<lambda>(k, x). ho_status x = HActive) hs in
      case as of
        [] \<Rightarrow> Inl IndexError
      | a # rest \<Rightarrow>
          (if rest = [] then Inr (fst a)
           else case find (\<lambda>(k, x). ho_failover x = Some ''active'') as of
                  Some (k, x) \<Rightarrow> Inr k | None \<Rightarrow> Inr (fst a)))"

text \<open>The devices after an operation on the active ones.\<close>

fun put_active :: "(string option \<times> 'd host) list \<Rightarrow> 'd bigip list \<Rightarrow> (string option \<times> 'd host) list" where
  "put_active [] bs = []"
| "put_active ((k, x) # hs) bs =
     (if ho_status x = HActive \<and> ho_device x \<noteq> None
      then (case bs of [] \<Rightarrow> (k, x) # put_active hs []
            | b # bs' \<Rightarrow> (k, x\<lparr>ho_device := Some b\<rparr>) # put_active hs bs')
      else (k, x) # put_active hs bs)"

definition on_active :: "('d bigip list, 'a) py \<Rightarrow> (('net, 'd, 'w) drv, 'a) py" where
  "on_active m s =
     (case m (get_all_bigips (dv_hosts s)) of (r, bs) \<Rightarrow> (r, s\<lparr>dv_hosts := put_active (dv_hosts s) bs\<rparr>))"

text \<open>The network components' view of the driver, for one service.\<close>

definition site_of :: "service \<Rightarrow> ('net, 'd, 'w) drv \<Rightarrow> ('net, 'd, 'w) site" where
  "site_of svc s =
     \<lparr>st_bigips = get_all_bigips (dv_hosts s), st_rds_cache = dv_rds_cache s, st_payload = dv_payload s,
      st_hosts = dv_vcmp s, st_world = dv_world s, st_service = svc\<rparr>"

definition put_site :: "('net, 'd, 'w) site \<Rightarrow> ('net, 'd, 'w) drv \<Rightarrow> ('net, 'd, 'w) drv" where
  "put_site t s =
     s\<lparr>dv_hosts := put_active (dv_hosts s) (st_bigips t), dv_rds_cache := st_rds_cache t,
       dv_payload := st_payload t, dv_vcmp := st_hosts t, dv_world := st_world t\<rparr>"

text \<open>\<open>flush_cache\<close>.\<close>

definition flush_bigip :: "'d bigip \<Rightarrow> 'd bigip" where
  "flush_bigip b = b\<lparr>b_assured_networks := [], b_assured_tenant_snat_subnets := [], b_assured_gateway_subnets := []\<rparr>"

definition flush_cache :: "(('net, 'd, 'w) drv, unit) py" where
  "flush_cache = on_active (\<lambda>bs. (Inr (), map flush_bigip bs))"

definition backend_integrity :: "('net, 'd, 'w) drv \<Rightarrow> bool" where
  "backend_integrity s = dv_operational s"

section \<open>The reported configuration\<close>

definition put_endpoint ::
  "string option \<Rightarrow> (ep_info \<Rightarrow> ep_info) \<Rightarrow> (('net, 'd, 'w) drv, unit) py" where
  "put_endpoint h f s =
     (case map_of (dv_endpoints s) h of
        None \<Rightarrow> (Inl KeyError, s)
      | Some i \<Rightarrow> (Inr (), s\<lparr>dv_endpoints := AList.update h (f i) (dv_endpoints s)\<rparr>))"

text \<open>\<open>agent_configurations['icontrol_endpoints'][bigip.hostname]\<close> gets the status of the host.\<close>

definition put_status :: "string option \<Rightarrow> (('net, 'd, 'w) drv, unit) py" where
  "put_status h =
     bindM (get_host h) (\<lambda>x.
       put_endpoint h (\<lambda>i. i\<lparr>ei_status := status_text (ho_status x), ei_message := ho_message x\<rparr>))"

definition set_agent_status :: "('ip, 'net, 'd, 'w) drv_env \<Rightarrow> bool \<Rightarrow> (('net, 'd, 'w) drv, unit) py" where
  "set_agent_status D force =
     bindM (getsM (\<lambda>s. map fst (dv_hosts s))) (\<lambda>hs.
     bindM (forM hs (\<lambda>h.
              bindM (put_status h) (\<lambda>_.
                if dr_report_esds D then modifyM (\<lambda>s. s\<lparr>dv_reported_esds := Some (dv_esd_names s)\<rparr>)
                else retM ()))) (\<lambda>_.
     bindM (modifyM (\<lambda>s. s\<lparr>dv_operational := (get_all_bigips (dv_hosts s) \<noteq> [])\<rparr>)) (\<lambda>_.
       case dr_report D of None \<Rightarrow> retM () | Some report \<Rightarrow> report force)))"

definition get_failover_state :: "('ip, 'net, 'd, 'w) drv_env \<Rightarrow> string option \<Rightarrow> (('net, 'd, 'w) drv, string) py" where
  "get_failover_state D h =
     bindM (get_host h) (\<lambda>x.
       if ho_device x = None then retM ''error''
       else
         tryM (bindM (on_host_dev h (sy_db (dr_sys D) ''failover.state'')) (\<lambda>v.
                 case v of
                   None \<Rightarrow> raiseM AttributeError
                 | Some v \<Rightarrow> bindM (modifyM (upd_host h (\<lambda>x. x\<lparr>ho_failover := Some v\<rparr>))) (\<lambda>_. retM v)))
           (\<lambda>e. bindM (set_status h HError (take 80 (dr_str D e))) (\<lambda>_.
                bindM (set_agent_status D False) (\<lambda>_. retM ''error''))))"

definition endpoint_configuration :: "('ip, 'net, 'd, 'w) drv_env \<Rightarrow> string option \<Rightarrow> (('net, 'd, 'w) drv, unit) py" where
  "endpoint_configuration D h =
     bindM (get_host h) (\<lambda>x.
     bindM (if ho_status x = HActive then get_failover_state D h else retM ''unknown'') (\<lambda>fs.
     bindM (put_endpoint h (\<lambda>i. i\<lparr>ei_failover := fs\<rparr>)) (\<lambda>_.
     bindM (put_status h) (\<lambda>_.
       modifyM (\<lambda>s. s\<lparr>dv_reported_operational := Some (dv_operational s)\<rparr>)))))"

definition get_agent_configurations :: "('ip, 'net, 'd, 'w) drv_env \<Rightarrow> (('net, 'd, 'w) drv, unit) py" where
  "get_agent_configurations D =
     bindM (getsM (\<lambda>s. map fst (dv_hosts s))) (\<lambda>hs. forM hs (endpoint_configuration D))"

section \<open>Opening a device\<close>

text \<open>The placeholder that records a failure.\<close>

definition error_host :: "('ip, 'net, 'd, 'w) drv_env \<Rightarrow> exn \<Rightarrow> 'd host" where
  "error_host D e =
     \<lparr>ho_status = HError, ho_message = take 80 (dr_str D e), ho_device = None, ho_group = None, ho_macs = [],
      ho_interfaces = [], ho_failover = None\<rparr>"

definition new_bigip :: "string option \<Rightarrow> 'd \<Rightarrow> 'd bigip" where
  "new_bigip h d =
     \<lparr>b_hostname = get_or '''' h, b_device_name = '''', b_local_ip = None, b_assured_networks = [],
      b_assured_tenant_snat_subnets = [], b_assured_gateway_subnets = [], b_dev = d\<rparr>"

definition connected_host :: "string option \<Rightarrow> 'd \<Rightarrow> 'd host" where
  "connected_host h d =
     \<lparr>ho_status = HConnected, ho_message = ''connected to BIG-IP'', ho_device = Some (new_bigip h d), ho_group = None,
      ho_macs = [], ho_interfaces = [], ho_failover = None\<rparr>"

definition put_host :: "string option \<Rightarrow> 'd host \<Rightarrow> (('net, 'd, 'w) drv, unit) py" where
  [py_simps]: "put_host h x = modifyM (\<lambda>s. s\<lparr>dv_hosts := AList.update h x (dv_hosts s)\<rparr>)"

definition open_bigip :: "('ip, 'net, 'd, 'w) drv_env \<Rightarrow> string option \<Rightarrow> (('net, 'd, 'w) drv, unit) py" where
  "open_bigip D h =
     tryM (bindM (get_host h) (\<lambda>x.
             if ho_status x \<noteq> HCreating \<and> ho_status x \<noteq> HError then retM ()
             else
               bindM (set_status h HConnecting ''requesting iControl endpoint'') (\<lambda>_.
               bindM (on_world (dr_connect D h)) (\<lambda>d. put_host h (connected_host h d)))))
       (\<lambda>e. put_host h (error_host D e))"

section \<open>High availability\<close>

text \<open>
  The addresses of the trusted devices. The code passes the device object where the helper compares
  names, so no device is found.
\<close>

definition trusted_addresses :: "('ip, 'net, 'd, 'w) drv_env \<Rightarrow> string option \<Rightarrow> (('net, 'd, 'w) drv, string option list) py" where
  "trusted_addresses D h =
     bindM (on_host_dev h (sy_devices (dr_sys D))) (\<lambda>ds.
     bindM (forM ds (\<lambda>_. bindM (on_host_dev h (get_mgmt_addr_by_device (dr_sys D) None)) (\<lambda>_. retM ()))) (\<lambda>_.
       retM (map (\<lambda>_. None) ds)))"

definition bad_ha :: "string option \<Rightarrow> string \<Rightarrow> (('net, 'd, 'w) drv, 'a) py" where
  "bad_ha h msg = bindM (set_status h HError msg) (\<lambda>_. raiseM (F5 BigIPClusterInvalidHA))"

definition ensure_hosts ::
  "('ip, 'net, 'd, 'w) drv_env \<Rightarrow> string option \<Rightarrow> (nat \<Rightarrow> bool) \<Rightarrow> (nat \<Rightarrow> string) \<Rightarrow> (('net, 'd, 'w) drv, unit) py" where
  "ensure_hosts D h ok msg =
     bindM (getsM (\<lambda>s. length (dv_hostnames s))) (\<lambda>n.
     bindM (if ok n then retM ()
            else bindM (trusted_addresses D h) (\<lambda>as. modifyM (\<lambda>s. s\<lparr>dv_hostnames := as\<rparr>))) (\<lambda>_.
     bindM (getsM (\<lambda>s. length (dv_hostnames s))) (\<lambda>n. if ok n then retM () else bad_ha h (msg n))))"

definition validate_ha :: "('ip, 'net, 'd, 'w) drv_env \<Rightarrow> string option \<Rightarrow> (('net, 'd, 'w) drv, string option) py" where
  "validate_ha D h =
     (let ty = f5_ha_type (dr_conf D) in
      if ty = ''standalone'' then
        bindM (getsM (\<lambda>s. length (dv_hostnames s))) (\<lambda>n.
          if n \<noteq> 1 then bad_ha h (''HA mode is standalone and '' @ str_nat n @ '' hosts found.'')
          else retM (Some ''standalone''))
      else if ty = ''pair'' then
        bindM (on_host_dev h (get_device_group (dr_sys D))) (\<lambda>g.
        bindM (ensure_hosts D h (\<lambda>n. n = 2) (\<lambda>n. ''HA mode is pair and '' @ str_nat n @ '' hosts found.'')) (\<lambda>_.
          retM g))
      else if ty = ''scalen'' then
        bindM (on_host_dev h (get_device_group (dr_sys D))) (\<lambda>g.
        bindM (ensure_hosts D h (\<lambda>n. 2 \<le> n) (\<lambda>_. ''HA mode is scale and 1 hosts found.'')) (\<lambda>_.
          retM g))
      else retM None)"

text \<open>Whether all active devices are in the device group of the host, in order, up to the first that is not.\<close>

fun same_groups ::
  "('ip, 'net, 'd, 'w) drv_env \<Rightarrow> string option \<Rightarrow> string option list \<Rightarrow> (('net, 'd, 'w) drv, bool) py" where
  "same_groups D g [] = retM True"
| "same_groups D g (k # ks) =
     bindM (on_host_dev k (get_device_group (dr_sys D))) (\<lambda>g'. if g' = g then same_groups D g ks else retM False)"

definition validate_ha_operational ::
  "('ip, 'net, 'd, 'w) drv_env \<Rightarrow> string option \<Rightarrow> (('net, 'd, 'w) drv, bool) py" where
  "validate_ha_operational D h =
     (if f5_ha_type (dr_conf D) = ''standalone'' then retM True
      else
        bindM (getsM (\<lambda>s. active_hosts (dv_hosts s))) (\<lambda>as.
          if as = [] then retM True
          else
            bindM (on_host_dev h (sy_sync_status (dr_sys D))) (\<lambda>st.
              if st \<in> {''Disconnected'', ''Sync Failure''} \<and> 1 < length as then retM False
              else if 1 < length as
              then bindM (on_host_dev h (get_device_group (dr_sys D))) (\<lambda>g. same_groups D g as)
              else retM True)))"

section \<open>Initialising a device\<close>

definition init_traffic_groups :: "('ip, 'net, 'd, 'w) drv_env \<Rightarrow> string option \<Rightarrow> (('net, 'd, 'w) drv, unit) py" where
  "init_traffic_groups D h =
     tryM (bindM (on_host_dev h (sy_traffic_groups (dr_sys D))) (\<lambda>gs.
             modifyM (\<lambda>s. s\<lparr>dv_tgs := sort (remove1 ''traffic-group-local-only'' gs)\<rparr>)))
       (\<lambda>e. bindM (set_status h HError ''could not determine traffic groups for service placement'') (\<lambda>_. raiseM e))"

text \<open>Python 2 orders a number before any text, so a version is never below the minimum.\<close>

definition text_below :: "string \<Rightarrow> int \<Rightarrow> bool" where
  "text_below s n \<longleftrightarrow> False"

definition validate_bigip_version :: "('ip, 'net, 'd, 'w) drv_env \<Rightarrow> ('d, string \<times> string) py" where
  "validate_bigip_version D =
     bindM (get_major_version (dr_sys D)) (\<lambda>major.
       if text_below major 11 then raiseM (F5 MajorVersionValidateFailed)
       else bindM (get_minor_version (dr_sys D)) (\<lambda>minor.
         if text_below minor 0 then raiseM (F5 MinorVersionValidateFailed) else retM (major, minor)))"

definition check_extramb :: "string option \<Rightarrow> exn + unit" where
  "check_extramb v =
     bindE (case v of None \<Rightarrow> Inr 0 | Some t \<Rightarrow> py_int t) (\<lambda>mb.
       if mb < 0 then Inl (F5 ProvisioningExtraMBValidateFailed) else Inr ())"

definition check_standalone :: "('ip, 'net, 'd, 'w) drv_env \<Rightarrow> string option \<Rightarrow> (('net, 'd, 'w) drv, unit) py" where
  "check_standalone D h =
     (if f5_ha_type (dr_conf D) \<in> {''pair'', ''scalen''}
      then bindM (on_host_dev h (sy_sync_status (dr_sys D))) (\<lambda>st.
             if st = ''Standalone'' then raiseM (F5 BigIPClusterInvalidHA) else retM ())
      else retM ())"

definition check_device_group ::
  "('ip, 'net, 'd, 'w) drv_env \<Rightarrow> string option \<Rightarrow> string option \<Rightarrow> (('net, 'd, 'w) drv, string option) py" where
  "check_device_group D h check_group_name =
     (if f5_ha_type (dr_conf D) = ''standalone'' then retM None
      else
        bindM (on_host_dev h (get_device_group (dr_sys D))) (\<lambda>g.
          if get_or '''' g = '''' then raiseM (F5 BigIPClusterInvalidHA)
          else if get_or '''' check_group_name \<noteq> '''' \<and> g \<noteq> check_group_name then raiseM (F5 BigIPClusterInvalidHA)
          else bindM (modifyM (upd_host h (\<lambda>x. x\<lparr>ho_group := g\<rparr>))) (\<lambda>_. retM g)))"

definition check_common_networks :: "('ip, 'net, 'd, 'w) drv_env \<Rightarrow> string option \<Rightarrow> (('net, 'd, 'w) drv, unit) py" where
  "check_common_networks D h =
     (if f5_global_routed_mode (dr_conf D) then retM ()
      else forM (map snd (common_network_ids (dr_conf D))) (\<lambda>n.
             bindM (on_host_dev h (rh_exists (ns_vlan (ne_net (dr_net D))) n ''Common'')) (\<lambda>ex.
               if ex then retM () else raiseM (F5 MissingNetwork))))"

definition read_identity :: "('ip, 'net, 'd, 'w) drv_env \<Rightarrow> string option \<Rightarrow> (('net, 'd, 'w) drv, unit) py" where
  "read_identity D h =
     bindM (on_host_bigip h (bindM (on_dev (get_device_name (dr_sys D)))
              (\<lambda>n. modifyM (\<lambda>b. b\<lparr>b_device_name := get_or '''' n\<rparr>)))) (\<lambda>_.
     bindM (on_host_dev h (get_mac_addresses (dr_sys D))) (\<lambda>macs.
     bindM (modifyM (upd_host h (\<lambda>x. x\<lparr>ho_macs := macs\<rparr>))) (\<lambda>_.
     bindM (on_host_dev h (get_interface_macaddresses_dict (dr_sys D))) (\<lambda>is.
     bindM (modifyM (upd_host h (\<lambda>x. x\<lparr>ho_interfaces := is\<rparr>))) (\<lambda>_.
       on_host_bigip h (modifyM flush_bigip))))))"

definition disable_tunnel_sync :: "('ip, 'net, 'd, 'w) drv_env \<Rightarrow> string option \<Rightarrow> (('net, 'd, 'w) drv, unit) py" where
  "disable_tunnel_sync D h =
     bindM (on_host_dev h (get_tunnel_sync (dr_sys D))) (\<lambda>v.
       if v = ''enable'' then on_host_dev h (set_tunnel_sync (dr_sys D) False) else retM ())"

definition init_bigip ::
  "('ip, 'net, 'd, 'w) drv_env \<Rightarrow> string option \<Rightarrow> string option \<Rightarrow> (('net, 'd, 'w) drv, unit) py" where
  "init_bigip D h check_group_name =
     tryM (bindM (on_host_dev h (validate_bigip_version D)) (\<lambda>_.
           bindM (on_host_dev h (get_provision_extramb (dr_sys D))) (\<lambda>mb.
           bindM (liftM (check_extramb mb)) (\<lambda>_.
           bindM (check_standalone D h) (\<lambda>_.
           bindM (check_device_group D h check_group_name) (\<lambda>g.
           bindM (check_common_networks D h) (\<lambda>_.
           bindM (read_identity D h) (\<lambda>_.
           bindM (if f5_ha_type (dr_conf D) = ''standalone'' then retM ()
                  else on_host_dev h (disable_auto_sync (dr_sys D) g)) (\<lambda>_.
           bindM (if f5_global_routed_mode (dr_conf D) then retM ()
                  else on_host_bigip h (initialize_tunneling (dr_net D))) (\<lambda>_.
             disable_tunnel_sync D h))))))))))
       (\<lambda>e. bindM (set_status h HError (take 80 (dr_str D e))) (\<lambda>_. raiseM e))"

definition init_agent_config :: "('ip, 'net, 'd, 'w) drv_env \<Rightarrow> string option \<Rightarrow> (('net, 'd, 'w) drv, unit) py" where
  "init_agent_config D h =
     bindM (on_host_dev h (get_version (dr_sys D))) (\<lambda>v.
     bindM (on_host_dev h (get_serial_number (dr_sys D))) (\<lambda>sn.
     bindM (get_host h) (\<lambda>x.
     bindM (get_failover_state D h) (\<lambda>fs.
     bindM (on_host_bigip h (getsM (\<lambda>b. (b_device_name b, b_local_ip b)))) (\<lambda>(n, ip).
     bindM (if get_or '''' ip = '''' then modifyM (\<lambda>s. s\<lparr>dv_tunnel_types := []\<rparr>) else retM ()) (\<lambda>_.
       modifyM (\<lambda>s. s\<lparr>dv_endpoints := AList.update h
         \<lparr>ei_failover = fs, ei_status = status_text (ho_status x), ei_message = ho_message x,
          ei_identity = Some \<lparr>ei_version = v, ei_device_name = n, ei_platform = get_platform, ei_serial = sn,
            ei_local_ip = (if get_or '''' ip = '''' then ''VTEP disabled'' else get_or '''' ip)\<rparr>\<rparr>
         (dv_endpoints s)\<rparr>)))))))"

section \<open>After all devices are open\<close>

text \<open>\<open>get_ports_for_mac_addresses\<close> for the interfaces of a device other than \<open>mgmt\<close>.\<close>

definition nova_managed :: "('ip, 'net, 'd, 'w) drv_env \<Rightarrow> string option \<Rightarrow> (('net, 'd, 'w) drv, unit) py" where
  "nova_managed D h =
     bindM (get_host h) (\<lambda>x.
       case dr_plugin D of
         None \<Rightarrow> raiseM AttributeError
       | Some P \<Rightarrow>
           bindM (on_world (get_ports_for_mac_addresses P (dr_ports D)
                    (map snd (filter (\<lambda>(n, m). n \<noteq> ''mgmt'') (ho_interfaces x))))) (\<lambda>ports.
             modifyM (\<lambda>s. s\<lparr>dv_nova := Some (ports \<noteq> [])\<rparr>)))"

definition initialize_vcmp :: "('ip, 'net, 'd, 'w) drv_env \<Rightarrow> (('net, 'd, 'w) drv, unit) py" where
  "initialize_vcmp D =
     bindM (\<lambda>s. (init_vcmp_hosts (ne_net (dr_net D)) (dr_vcmp_connect D)
                   (map (get_or '''') (get_bigip_hosts (dv_hosts s))) (dr_vcmp_hostname D), s)) (\<lambda>vs.
       modifyM (\<lambda>s. s\<lparr>dv_vcmp := vs\<rparr>))"

definition register_l3 :: "('ip, 'net, 'd, 'w) drv_env \<Rightarrow> (('net, 'd, 'w) drv, unit) py" where
  "register_l3 D s =
     (case dv_l3 s of
        None \<Rightarrow> (Inr (), s)
      | Some l \<Rightarrow>
          (case register_bigip_mac_addresses (ne_rpc (dr_net D))
                  (map (\<lambda>(k, x). ho_macs x) (filter (\<lambda>(k, x). ho_status x = HActive) (dv_hosts s))) (l, dv_world s) of
             (r, l', w) \<Rightarrow> (r, s\<lparr>dv_l3 := Some l', dv_world := w\<rparr>)))"

text \<open>The VLAN binding of the driver, with what it reads of the active devices.\<close>

definition vlan_devices :: "(string option \<times> 'd host) list \<Rightarrow> vlan_device list" where
  "vlan_devices hs =
     List.map_filter (\<lambda>(k, x).
       if ho_status x = HActive
       then map_option (\<lambda>b. \<lparr>vd_name = b_device_name b, vd_macs = ho_macs x, vd_interfaces = ho_interfaces x\<rparr>) (ho_device x)
       else None) hs"

definition register_vlans :: "('ip, 'net, 'd, 'w) drv_env \<Rightarrow> (('net, 'd, 'w) drv, unit) py" where
  "register_vlans D s =
     (case dv_vlan s of
        None \<Rightarrow> (Inr (), s)
      | Some v \<Rightarrow>
          (case register_bigip_interfaces
                  (map_option (\<lambda>P. get_ports_for_mac_addresses P (dr_ports D)) (dr_plugin D))
                  (vlan_devices (dv_hosts s)) (v, dv_world s) of
             (r, v', w) \<Rightarrow> (r, s\<lparr>dv_vlan := Some v', dv_world := w\<rparr>)))"

text \<open>
  The binding of the L2 service was given that service for a driver, which lists no devices: its
  registration fails.
\<close>

definition l2_post_init :: "('ip, 'net, 'd, 'w) drv_env \<Rightarrow> (('net, 'd, 'w) drv, unit) py" where
  "l2_post_init D = (if ne_vlan_binding (dr_net D) = None then retM () else raiseM AttributeError)"

text \<open>Only an invalid ESD file is tolerated.\<close>

definition init_esds :: "('ip, 'net, 'd, 'w) drv_env \<Rightarrow> (('net, 'd, 'w) drv, unit) py" where
  "init_esds D s =
     (case process_esd (dr_esd_coll D) (map b_dev (get_all_bigips (dv_hosts s))) (dr_esd_files D) None of
        (Inr _, t) \<Rightarrow> (Inr (), s\<lparr>dv_esd := Some (get_or [] t), dv_esd_names := map fst (get_or [] t)\<rparr>)
      | (Inl e, _) \<Rightarrow> (if e = F5 EsdJSONFileInvalidException then Inr () else Inl e, s))"

definition post_init :: "('ip, 'net, 'd, 'w) drv_env \<Rightarrow> (('net, 'd, 'w) drv, unit) py" where
  "post_init D =
     bindM (if f5_global_routed_mode (dr_conf D) then retM () else initialize_vcmp D) (\<lambda>_.
     bindM (register_vlans D) (\<lambda>_.
     bindM (register_l3 D) (\<lambda>_.
     bindM (getsM (\<lambda>s. active_hosts (dv_hosts s))) (\<lambda>hs.
     bindM (forM hs (nova_managed D)) (\<lambda>_.
     bindM (if f5_global_routed_mode (dr_conf D) then retM () else l2_post_init D) (\<lambda>_.
     bindM (init_esds D) (\<lambda>_. set_agent_status D False)))))))"

section \<open>Connecting\<close>

text \<open>What follows the opening of one device, in \<open>_init_bigips\<close> and in \<open>_init_errored_bigips\<close>.\<close>

definition first_checks :: "('ip, 'net, 'd, 'w) drv_env \<Rightarrow> string option \<Rightarrow> (('net, 'd, 'w) drv, string option) py" where
  "first_checks D h =
     bindM (getsM dv_ha_validated) (\<lambda>done_ha.
     bindM (if done_ha then retM None
            else bindM (validate_ha D h) (\<lambda>g.
                 bindM (modifyM (\<lambda>s. s\<lparr>dv_ha_validated := True\<rparr>)) (\<lambda>_. retM g))) (\<lambda>g.
     bindM (getsM dv_tg_initialized) (\<lambda>done_tg.
     bindM (if done_tg then retM ()
            else bindM (init_traffic_groups D h) (\<lambda>_. modifyM (\<lambda>s. s\<lparr>dv_tg_initialized := True\<rparr>))) (\<lambda>_.
       retM g))))"

definition activate ::
  "('ip, 'net, 'd, 'w) drv_env \<Rightarrow> bool \<Rightarrow> string option \<Rightarrow> (('net, 'd, 'w) drv, unit) py" where
  "activate D recovering h =
     bindM (set_status h HInitializing ''initializing HA viability'') (\<lambda>_.
     bindM (first_checks D h) (\<lambda>g.
     bindM (init_bigip D h g) (\<lambda>_.
     bindM (init_agent_config D h) (\<lambda>_.
     bindM (set_status h HValidatingHA ''validating the current HA state'') (\<lambda>_.
     bindM (validate_ha_operational D h) (\<lambda>ok.
       if ok then
         bindM (set_status h HActive ''BIG-IP ready for provisioning'') (\<lambda>_.
         bindM (post_init D) (\<lambda>_. if recovering then set_agent_status D True else retM ()))
       else
         bindM (set_status h HError ''BIG-IP is not operational'') (\<lambda>_. set_agent_status D False)))))))"

definition init_one :: "('ip, 'net, 'd, 'w) drv_env \<Rightarrow> string option \<Rightarrow> (('net, 'd, 'w) drv, unit) py" where
  "init_one D h =
     bindM (open_bigip D h) (\<lambda>_.
     bindM (get_host h) (\<lambda>x.
       if ho_status x = HConnected then activate D False h else set_agent_status D False))"

text \<open>\<open>_init_bigips\<close>; the loop runs over the list of host names as it was.\<close>

definition init_bigips :: "('ip, 'net, 'd, 'w) drv_env \<Rightarrow> (('net, 'd, 'w) drv, unit) py" where
  "init_bigips D =
     bindM (getsM (\<lambda>s. (dv_operational s, dv_hostnames s))) (\<lambda>(up, hs).
       if up then retM ()
       else bindM (forM hs (init_one D)) (\<lambda>_. set_agent_status D True))"

definition recover_one :: "('ip, 'net, 'd, 'w) drv_env \<Rightarrow> string option \<Rightarrow> (('net, 'd, 'w) drv, unit) py" where
  "recover_one D h =
     bindM (open_bigip D h) (\<lambda>_.
     bindM (get_host h) (\<lambda>x. if ho_status x = HConnected then activate D True h else retM ()))"

definition init_errored_bigips :: "('ip, 'net, 'd, 'w) drv_env \<Rightarrow> (('net, 'd, 'w) drv, unit) py" where
  "init_errored_bigips D =
     bindM (getsM (\<lambda>s. get_errored_bigips_hostnames (dv_hosts s))) (\<lambda>hs. forM hs (recover_one D))"

definition connect :: "('ip, 'net, 'd, 'w) drv_env \<Rightarrow> (('net, 'd, 'w) drv, unit) py" where
  "connect D = tryM (init_bigips D) (\<lambda>_. set_agent_status D False)"

definition recover_errored_devices :: "('ip, 'net, 'd, 'w) drv_env \<Rightarrow> (('net, 'd, 'w) drv, unit) py" where
  "recover_errored_devices D = tryM (init_errored_bigips D) (\<lambda>_. retM ())"

text \<open>The decorator \<open>is_operational\<close>: a driver that is not operational connects and returns \<open>None\<close>.\<close>

definition is_operational ::
  "('ip, 'net, 'd, 'w) drv_env \<Rightarrow> (('net, 'd, 'w) drv, 'a) py \<Rightarrow> (('net, 'd, 'w) drv, 'a option) py" where
  "is_operational D m =
     bindM (getsM dv_operational) (\<lambda>up.
       if up then bindM m (\<lambda>x. retM (Some x)) else bindM (init_bigips D) (\<lambda>_. retM None))"

section \<open>The host names\<close>

definition initial_host :: "'d host" where
  "initial_host =
     \<lparr>ho_status = HCreating, ho_message = ''creating BIG-IP from iControl hostnames'', ho_device = None, ho_group = None,
      ho_macs = [], ho_interfaces = [], ho_failover = None\<rparr>"

definition initial_endpoint :: ep_info where
  "initial_endpoint =
     \<lparr>ei_failover = ''undiscovered'', ei_status = ''unknown'', ei_message = '''', ei_identity = None\<rparr>"

text \<open>\<open>_init_bigip_hostnames\<close> on the host names and the credentials; the exception class takes no keyword
  arguments, so that raising it is a \<open>TypeError\<close>.\<close>

definition init_bigip_hostnames ::
  "string \<Rightarrow> string \<Rightarrow> string \<Rightarrow> ('net, 'd, 'w) drv \<Rightarrow> (exn + unit) \<times> ('net, 'd, 'w) drv" where
  "init_bigip_hostnames hosts user password s =
     (if hosts = '''' \<or> user = '''' \<or> password = '''' then (Inl TypeError, s)
      else
        let hs = map Some (sort (map strip (split_on CHR '','' hosts))) in
        (Inr (), s\<lparr>dv_hostnames := hs,
                   dv_hosts := fold (\<lambda>h. AList.update h initial_host) hs (dv_hosts s),
                   dv_endpoints := fold (\<lambda>h. AList.update h initial_endpoint) hs (dv_endpoints s)\<rparr>))"

end
