(* ===== verification/Frames.thy ===== *)
theory Frames
  imports PyBase
begin

text \<open>
  Preservation: \<open>keeps P m\<close> says that \<open>m\<close> leaves \<open>P\<close> true whether or not it raises. The rules follow the
  combinators, so that an operation keeps what its parts keep; a component adds those of its operations
  to \<open>keeps_rules\<close>.
\<close>

definition keeps :: "('s \<Rightarrow> bool) \<Rightarrow> ('s, 'a) py \<Rightarrow> bool" where
  "keeps P m \<longleftrightarrow> (\<forall>s. P s \<longrightarrow> P (snd (m s)))"

named_theorems keeps_rules \<open>operations and the invariants they keep\<close>

lemma keepsI: "(\<And>s. P s \<Longrightarrow> P (snd (m s))) \<Longrightarrow> keeps P m"
  by (simp add: keeps_def)

lemma keepsD: "keeps P m \<Longrightarrow> P s \<Longrightarrow> P (snd (m s))"
  by (simp add: keeps_def)

lemma keepsE: "keeps P m \<Longrightarrow> P s \<Longrightarrow> m s = (r, s') \<Longrightarrow> P s'"
  using keepsD by fastforce

lemma keeps_ret [keeps_rules]: "keeps P (retM x)"
  by (simp add: keeps_def retM_def)

lemma keeps_raise [keeps_rules]: "keeps P (raiseM e)"
  by (simp add: keeps_def raiseM_def)

lemma keeps_lift [keeps_rules]: "keeps P (liftM r)"
  by (simp add: keeps_def liftM_def)

lemma keeps_gets [keeps_rules]: "keeps P (getsM f)"
  by (simp add: keeps_def getsM_def)

lemma keeps_bind [keeps_rules]: "keeps P m \<Longrightarrow> (\<And>x. keeps P (f x)) \<Longrightarrow> keeps P (bindM m f)"
  unfolding keeps_def bindM_def
  by (force split: prod.splits sum.splits)

lemma keeps_try [keeps_rules]: "keeps P m \<Longrightarrow> (\<And>e. keeps P (h e)) \<Longrightarrow> keeps P (tryM m h)"
  unfolding keeps_def tryM_def
  by (force split: prod.splits sum.splits)

lemma keeps_if [keeps_rules]: "(b \<Longrightarrow> keeps P m) \<Longrightarrow> (\<not> b \<Longrightarrow> keeps P n) \<Longrightarrow> keeps P (if b then m else n)"
  by simp

lemma keeps_option [keeps_rules]:
  "(v = None \<Longrightarrow> keeps P m) \<Longrightarrow> (\<And>x. v = Some x \<Longrightarrow> keeps P (f x)) \<Longrightarrow>
    keeps P (case v of None \<Rightarrow> m | Some x \<Rightarrow> f x)"
  by (cases v) simp_all

lemma keeps_pair [keeps_rules]: "(\<And>x y. keeps P (f x y)) \<Longrightarrow> keeps P (case p of (x, y) \<Rightarrow> f x y)"
  by (cases p) simp

lemma keeps_for [keeps_rules]: "(\<And>x. x \<in> set xs \<Longrightarrow> keeps P (body x)) \<Longrightarrow> keeps P (forM xs body)"
  by (induction xs) (auto intro!: keeps_bind keeps_ret)

lemma keeps_modify: "(\<And>s. P s \<Longrightarrow> P (f s)) \<Longrightarrow> keeps P (modifyM f)"
  by (simp add: keeps_def modifyM_def)

lemma bindM_run: "m s = (Inr x, s') \<Longrightarrow> bindM m f s = f x s'"
  by (simp add: bindM_def)

lemma bindM_Inr: "bindM m f s = (Inr y, s') \<Longrightarrow> \<exists>x s1. m s = (Inr x, s1) \<and> f x s1 = (Inr y, s')"
  by (auto simp: bindM_def split: prod.splits sum.splits)

end
