(* ===== verification/DriverFrame.thy ===== *)
theory DriverFrame
  imports Driver Frames
begin

text \<open>
  What the operations of the driver leave intact.

  \<open>registry H\<close> is the invariant of the device registry: a host name occurs once, and a host that is
  past its connection, or in \<open>H\<close>, has a device. \<open>agrees\<close> relates the flag \<open>operational\<close> to it.
\<close>

section \<open>The registry\<close>

fun needs_device :: "hstatus \<Rightarrow> bool" where
  "needs_device HCreating = False"
| "needs_device HConnecting = False"
| "needs_device HError = False"
| "needs_device HConnected = True"
| "needs_device HInitializing = True"
| "needs_device HValidatingHA = True"
| "needs_device HActive = True"

definition hosts_ok :: "string option set \<Rightarrow> (string option \<times> 'd host) list \<Rightarrow> bool" where
  "hosts_ok H hs \<longleftrightarrow>
     distinct (map fst hs) \<and> (\<forall>(k, x) \<in> set hs. needs_device (ho_status x) \<or> k \<in> H \<longrightarrow> ho_device x \<noteq> None)"

definition registry :: "string option set \<Rightarrow> ('net, 'd, 'w) drv \<Rightarrow> bool" where
  "registry H s \<longleftrightarrow> hosts_ok H (dv_hosts s)"

lemma upd_host_lookup:
  "map_of (dv_hosts (upd_host h f s)) k =
     (if k = h then map_option f (map_of (dv_hosts s) k) else map_of (dv_hosts s) k)"
proof -
  have "map_of (map (\<lambda>(k, x). (k, if k = h then f x else x)) hs) k =
      (if k = h then map_option f (map_of hs k) else map_of hs k)" for hs
    by (induction hs) auto
  then show ?thesis by (simp add: upd_host_def)
qed

lemma upd_host_frame [simp]:
  "map fst (dv_hosts (upd_host h f s)) = map fst (dv_hosts s)"
  "dv_ha_validated (upd_host h f s) = dv_ha_validated s"
  "dv_hostnames (upd_host h f s) = dv_hostnames s"
  "dv_operational (upd_host h f s) = dv_operational s"
  by (simp_all add: upd_host_def comp_def split_beta)

lemma hosts_ok_upd:
  assumes "hosts_ok H hs"
    and "\<And>x. (h, x) \<in> set hs \<Longrightarrow> needs_device (ho_status (f x)) \<or> h \<in> H \<Longrightarrow> ho_device (f x) \<noteq> None"
  shows "hosts_ok H (map (\<lambda>(k, x). (k, if k = h then f x else x)) hs)"
proof -
  have "map fst (map (\<lambda>(k, x). (k, if k = h then f x else x)) hs) = map fst hs" by (induction hs) auto
  moreover have "\<forall>(k, y) \<in> set (map (\<lambda>(k, x). (k, if k = h then f x else x)) hs).
      needs_device (ho_status y) \<or> k \<in> H \<longrightarrow> ho_device y \<noteq> None"
    using assms by (fastforce simp: hosts_ok_def split: if_splits)
  ultimately show ?thesis using assms(1) by (simp only: hosts_ok_def)
qed

lemma registry_upd_host:
  assumes "registry H s"
    and "\<And>x. (h, x) \<in> set (dv_hosts s) \<Longrightarrow> needs_device (ho_status (f x)) \<or> h \<in> H \<Longrightarrow> ho_device (f x) \<noteq> None"
  shows "registry H (upd_host h f s)"
  using assms hosts_ok_upd [of H "dv_hosts s" h f] by (simp add: registry_def upd_host_def)

lemma registry_device: "registry H s \<Longrightarrow> (h, x) \<in> set (dv_hosts s) \<Longrightarrow> needs_device (ho_status x) \<or> h \<in> H \<Longrightarrow>
    ho_device x \<noteq> None"
  by (auto simp: registry_def hosts_ok_def)

text \<open>A status that needs no device can be set on every host, the others on a host of \<open>H\<close>.\<close>

lemma keeps_set_status [keeps_rules]:
  assumes "\<not> needs_device st \<or> h \<in> H"
  shows "keeps (registry H) (set_status h st msg)"
  unfolding set_status_def
proof (rule keeps_modify, rule registry_upd_host, assumption)
  fix s x assume "registry H s" "(h, x) \<in> set (dv_hosts s)"
    and "needs_device (ho_status (x\<lparr>ho_status := st, ho_message := msg\<rparr>)) \<or> h \<in> H"
  with assms registry_device [of H s h x] show "ho_device (x\<lparr>ho_status := st, ho_message := msg\<rparr>) \<noteq> None" by auto
qed

text \<open>Changes of a host that leave its status and device.\<close>

lemma keeps_upd_host:
  assumes "\<And>x. ho_status (f x) = ho_status x" and "\<And>x. ho_device x \<noteq> None \<Longrightarrow> ho_device (f x) \<noteq> None"
  shows "keeps (registry H) (modifyM (upd_host h f))"
proof (rule keeps_modify, rule registry_upd_host, assumption)
  fix s x assume "registry H s" "(h, x) \<in> set (dv_hosts s)" "needs_device (ho_status (f x)) \<or> h \<in> H"
  with assms registry_device [of H s h x] show "ho_device (f x) \<noteq> None" by simp
qed

lemma keeps_get_host [keeps_rules]: "keeps P (get_host h)"
  by (simp add: keeps_def get_host_def)

lemma keeps_on_host_bigip [keeps_rules]: "keeps (registry H) (on_host_bigip h m)"
  by (rule keepsI)
    (auto simp: on_host_bigip_def split: option.splits prod.splits intro!: registry_upd_host)

lemma keeps_on_host_dev [keeps_rules]: "keeps (registry H) (on_host_dev h m)"
  unfolding on_host_dev_def by (rule keeps_on_host_bigip)

lemma keeps_on_world [keeps_rules]: "keeps (registry H) (on_world m)"
  by (rule keepsI) (simp add: on_world_def registry_def split: prod.splits)

text \<open>What \<open>hosts_ok\<close> looks at.\<close>

definition shape :: "(string option \<times> 'd host) list \<Rightarrow> (string option \<times> hstatus \<times> bool) list" where
  "shape hs = map (\<lambda>(k, x). (k, ho_status x, ho_device x \<noteq> None)) hs"

lemma hosts_ok_shape:
  "hosts_ok H hs \<longleftrightarrow>
     distinct (map fst (shape hs)) \<and> (\<forall>(k, st, dev) \<in> set (shape hs). needs_device st \<or> k \<in> H \<longrightarrow> dev)"
proof -
  have "map fst (shape hs) = map fst hs" by (simp add: shape_def comp_def split_beta)
  moreover have "(\<forall>(k, st, dev) \<in> set (shape hs). needs_device st \<or> k \<in> H \<longrightarrow> dev) \<longleftrightarrow>
      (\<forall>(k, x) \<in> set hs. needs_device (ho_status x) \<or> k \<in> H \<longrightarrow> ho_device x \<noteq> None)"
    by (auto simp: shape_def)
  ultimately show ?thesis by (simp only: hosts_ok_def)
qed

lemma put_active_shape: "shape (put_active hs bs) = shape hs"
  by (induction hs bs rule: put_active.induct) (auto simp: shape_def split: list.splits)

lemma keeps_on_active [keeps_rules]: "keeps (registry H) (on_active m)"
  by (rule keepsI)
    (simp add: on_active_def registry_def hosts_ok_shape put_active_shape split: prod.splits)

lemma keeps_put_endpoint [keeps_rules]: "keeps (registry H) (put_endpoint h f)"
  by (rule keepsI) (simp add: put_endpoint_def registry_def split: option.splits)

lemma update_host_set: "(k, y) \<in> set (AList.update h x hs) \<Longrightarrow> distinct (map fst hs) \<Longrightarrow> (k = h \<and> y = x) \<or> (k, y) \<in> set hs"
  by (induction hs) (auto split: if_splits)

lemma hosts_ok_update:
  assumes "hosts_ok H hs" and "needs_device (ho_status x) \<or> h \<in> H \<Longrightarrow> ho_device x \<noteq> None"
  shows "hosts_ok H (AList.update h x hs)"
  using assms unfolding hosts_ok_def by (fastforce simp: distinct_update dest!: update_host_set)

lemma keeps_put_host [keeps_rules]:
  assumes "needs_device (ho_status x) \<or> h \<in> H \<Longrightarrow> ho_device x \<noteq> None"
  shows "keeps (registry H) (put_host h x)"
  unfolding put_host_def
  by (rule keeps_modify) (simp add: registry_def hosts_ok_update assms)

lemma hosts_ok_initial: "hosts_ok {} xs \<Longrightarrow> hosts_ok {} (fold (\<lambda>h. AList.update h initial_host) hs xs)"
proof (induction hs arbitrary: xs)
  case (Cons h hs)
  have "hosts_ok {} (AList.update h initial_host xs)"
    by (rule hosts_ok_update [OF Cons.prems]) (simp add: initial_host_def)
  from Cons.IH [OF this] show ?case by simp
qed simp

lemma keeps_init_bigip_hostnames: "keeps (registry {}) (init_bigip_hostnames hosts user password)"
  by (rule keepsI) (simp add: init_bigip_hostnames_def registry_def Let_def hosts_ok_initial)

lemma keeps_fields [keeps_rules]:
  "keeps (registry H) (modifyM (\<lambda>s. s\<lparr>dv_hostnames := f1 s\<rparr>))"
  "keeps (registry H) (modifyM (\<lambda>s. s\<lparr>dv_operational := f2 s\<rparr>))"
  "keeps (registry H) (modifyM (\<lambda>s. s\<lparr>dv_ha_validated := f3 s\<rparr>))"
  "keeps (registry H) (modifyM (\<lambda>s. s\<lparr>dv_tg_initialized := f4 s\<rparr>))"
  "keeps (registry H) (modifyM (\<lambda>s. s\<lparr>dv_tgs := f5 s\<rparr>))"
  "keeps (registry H) (modifyM (\<lambda>s. s\<lparr>dv_endpoints := f6 s\<rparr>))"
  "keeps (registry H) (modifyM (\<lambda>s. s\<lparr>dv_tunnel_types := f7 s\<rparr>))"
  "keeps (registry H) (modifyM (\<lambda>s. s\<lparr>dv_nova := f8 s\<rparr>))"
  "keeps (registry H) (modifyM (\<lambda>s. s\<lparr>dv_reported_operational := f9 s\<rparr>))"
  "keeps (registry H) (modifyM (\<lambda>s. s\<lparr>dv_reported_esds := f10 s\<rparr>))"
  "keeps (registry H) (modifyM (\<lambda>s. s\<lparr>dv_vcmp := f11 s\<rparr>))"
  by (rule keeps_modify, simp add: registry_def)+

lemma keeps_host_fields [keeps_rules]:
  "keeps (registry H) (modifyM (upd_host h (\<lambda>x. x\<lparr>ho_failover := g1 x\<rparr>)))"
  "keeps (registry H) (modifyM (upd_host h (\<lambda>x. x\<lparr>ho_group := g2 x\<rparr>)))"
  "keeps (registry H) (modifyM (upd_host h (\<lambda>x. x\<lparr>ho_macs := g3 x\<rparr>)))"
  "keeps (registry H) (modifyM (upd_host h (\<lambda>x. x\<lparr>ho_interfaces := g4 x\<rparr>)))"
  by (rule keeps_upd_host; simp)+

section \<open>Every operation keeps the registry\<close>

text \<open>The report callback of the agent may call the driver again.\<close>

definition report_keeps :: "(('net, 'd, 'w) drv \<Rightarrow> bool) \<Rightarrow> ('ip, 'net, 'd, 'w) drv_env \<Rightarrow> bool" where
  "report_keeps P D \<longleftrightarrow> (\<forall>report force. dr_report D = Some report \<longrightarrow> keeps P (report force))"

lemma report_keepsD [keeps_rules]:
  "report_keeps P D \<Longrightarrow> keeps P (case dr_report D of None \<Rightarrow> retM () | Some report \<Rightarrow> report force)"
  by (simp add: report_keeps_def keeps_ret split: option.split)

lemma keeps_flush_cache [keeps_rules]: "keeps (registry H) flush_cache"
  unfolding flush_cache_def by (rule keeps_on_active)

lemma keeps_put_status [keeps_rules]: "keeps (registry H) (put_status h)"
  unfolding put_status_def by (intro keeps_rules)

lemma keeps_set_agent_status [keeps_rules]:
  "report_keeps (registry H) D \<Longrightarrow> keeps (registry H) (set_agent_status D force)"
  unfolding set_agent_status_def by (intro keeps_bind report_keepsD keeps_gets keeps_for keeps_if keeps_rules)

lemma keeps_get_failover_state [keeps_rules]:
  "report_keeps (registry H) D \<Longrightarrow> keeps (registry H) (get_failover_state D h)"
  unfolding get_failover_state_def by (intro keeps_rules) simp_all

lemma keeps_endpoint_configuration [keeps_rules]:
  "report_keeps (registry H) D \<Longrightarrow> keeps (registry H) (endpoint_configuration D h)"
  unfolding endpoint_configuration_def by (intro keeps_rules)

lemma keeps_get_agent_configurations [keeps_rules]:
  "report_keeps (registry H) D \<Longrightarrow> keeps (registry H) (get_agent_configurations D)"
  unfolding get_agent_configurations_def by (intro keeps_rules)

lemma keeps_open_bigip:
  "keeps (registry {}) (open_bigip D h)"
  unfolding open_bigip_def
  by (intro keeps_rules) (simp_all add: connected_host_def error_host_def)

lemma keeps_bad_ha [keeps_rules]: "keeps (registry H) (bad_ha h msg)"
  unfolding bad_ha_def by (intro keeps_rules) simp

lemma keeps_trusted_addresses [keeps_rules]: "keeps (registry H) (trusted_addresses D h)"
  unfolding trusted_addresses_def by (intro keeps_rules)

lemma keeps_ensure_hosts [keeps_rules]: "keeps (registry H) (ensure_hosts D h ok msg)"
  unfolding ensure_hosts_def by (intro keeps_rules)

lemma keeps_validate_ha [keeps_rules]: "keeps (registry H) (validate_ha D h)"
  unfolding validate_ha_def Let_def by (intro keeps_rules)

lemma keeps_same_groups [keeps_rules]: "keeps (registry H) (same_groups D g ks)"
  by (induction ks) (simp_all add: keeps_rules)

lemma keeps_validate_ha_operational [keeps_rules]: "keeps (registry H) (validate_ha_operational D h)"
  unfolding validate_ha_operational_def by (intro keeps_rules)

lemma keeps_init_traffic_groups [keeps_rules]: "keeps (registry H) (init_traffic_groups D h)"
  unfolding init_traffic_groups_def by (intro keeps_rules) simp

lemma keeps_init_bigip [keeps_rules]: "keeps (registry H) (init_bigip D h g)"
  unfolding init_bigip_def check_standalone_def check_device_group_def check_common_networks_def
    read_identity_def disable_tunnel_sync_def
  by (intro keeps_rules) simp

lemma keeps_init_agent_config [keeps_rules]:
  "report_keeps (registry H) D \<Longrightarrow> keeps (registry H) (init_agent_config D h)"
  unfolding init_agent_config_def by (intro keeps_rules)

lemma keeps_nova_managed [keeps_rules]: "keeps (registry H) (nova_managed D h)"
  unfolding nova_managed_def by (intro keeps_rules)

lemma keeps_initialize_vcmp [keeps_rules]: "keeps (registry H) (initialize_vcmp D)"
  unfolding initialize_vcmp_def by (intro keeps_rules) (simp add: keeps_def)

lemma keeps_register_l3 [keeps_rules]: "keeps (registry H) (register_l3 D)"
  by (rule keepsI) (simp add: register_l3_def registry_def split: option.splits prod.splits)

lemma keeps_register_vlans [keeps_rules]: "keeps (registry H) (register_vlans D)"
  by (rule keepsI) (simp add: register_vlans_def registry_def split: option.splits prod.splits)

lemma keeps_l2_post_init [keeps_rules]: "keeps P (l2_post_init D)"
  unfolding l2_post_init_def by (intro keeps_rules)

lemma keeps_init_esds [keeps_rules]: "keeps (registry H) (init_esds D)"
  by (rule keepsI) (simp add: init_esds_def registry_def split: prod.splits sum.splits)

lemma keeps_post_init [keeps_rules]:
  "report_keeps (registry H) D \<Longrightarrow> keeps (registry H) (post_init D)"
  unfolding post_init_def by (intro keeps_rules)

lemma keeps_activate:
  "report_keeps (registry H) D \<Longrightarrow> h \<in> H \<Longrightarrow> keeps (registry H) (activate D recovering h)"
  unfolding activate_def first_checks_def
  by (intro keeps_rules) simp_all

text \<open>A device is activated once it is connected.\<close>

lemma registry_weaken: "registry H s \<Longrightarrow> registry {} s"
  by (auto simp: registry_def hosts_ok_def)

lemma registry_connected:
  assumes "registry {} s" and "map_of (dv_hosts s) h = Some x" and "needs_device (ho_status x)"
  shows "registry {h} s"
proof -
  have "distinct (map fst (dv_hosts s))" using assms(1) by (simp add: registry_def hosts_ok_def)
  then have "y = x" if "(h, y) \<in> set (dv_hosts s)" for y using map_of_is_SomeI [OF _ that] assms(2) by simp
  moreover have "ho_device x \<noteq> None" using registry_device [OF assms(1) map_of_SomeD [OF assms(2)]] assms(3) by blast
  ultimately show ?thesis using assms(1) unfolding registry_def hosts_ok_def by fastforce
qed

lemma activate_if_connected:
  fixes D :: "('a, 'b, 'c, 'd) drv_env"
  assumes "report_keeps (registry {h}) D" and "keeps (registry {}) other"
  shows "keeps (registry {}) (bindM (get_host h) (\<lambda>x :: 'c host. if ho_status x = HConnected then activate D r h else other))"
proof (rule keepsI)
  fix s :: "('b, 'c, 'd) drv" assume s: "registry {} s"
  show "registry {} (snd (bindM (get_host h) (\<lambda>x. if ho_status x = HConnected then activate D r h else other) s))"
  proof (cases "map_of (dv_hosts s) h")
    case None
    with s show ?thesis by (simp add: bindM_def get_host_def)
  next
    case (Some x)
    show ?thesis
    proof (cases "ho_status x = HConnected")
      case True
      with registry_connected [OF s Some] have "registry {h} s" by simp
      from registry_weaken [OF keepsD [OF keeps_activate [OF assms(1)] this]] True Some show ?thesis
        by (simp add: bindM_def get_host_def)
    next
      case False
      with keepsD [OF assms(2) s] Some show ?thesis by (simp add: bindM_def get_host_def)
    qed
  qed
qed

lemma keeps_init_one [keeps_rules]:
  "report_keeps (registry {}) D \<Longrightarrow> report_keeps (registry {h}) D \<Longrightarrow> keeps (registry {}) (init_one D h)"
  unfolding init_one_def by (intro keeps_bind keeps_open_bigip activate_if_connected keeps_set_agent_status)

lemma keeps_recover_one [keeps_rules]:
  "report_keeps (registry {h}) D \<Longrightarrow> keeps (registry {}) (recover_one D h)"
  unfolding recover_one_def by (intro keeps_bind keeps_open_bigip activate_if_connected keeps_ret)

lemma keeps_init_bigips [keeps_rules]:
  "(\<And>H. report_keeps (registry H) D) \<Longrightarrow> keeps (registry {}) (init_bigips D)"
  unfolding init_bigips_def by (intro keeps_rules)

lemma keeps_init_errored_bigips [keeps_rules]:
  "(\<And>H. report_keeps (registry H) D) \<Longrightarrow> keeps (registry {}) (init_errored_bigips D)"
  unfolding init_errored_bigips_def by (intro keeps_rules)

section \<open>The operational flag\<close>

definition agrees :: "('net, 'd, 'w) drv \<Rightarrow> bool" where
  "agrees s \<longleftrightarrow> dv_operational s = (get_all_bigips (dv_hosts s) \<noteq> [])"

lemma set_agent_status_agrees:
  assumes "report_keeps agrees D" and "set_agent_status D force s = (Inr (), s')"
  shows "agrees s'"
proof -
  obtain s1 where *: "(case dr_report D of None \<Rightarrow> retM () | Some report \<Rightarrow> report force)
      (s1\<lparr>dv_operational := get_all_bigips (dv_hosts s1) \<noteq> []\<rparr>) = (Inr (), s')"
    using assms(2) unfolding set_agent_status_def
    by (auto simp: bindM_def getsM_def modifyM_def split: prod.splits sum.splits)
  have "agrees (s1\<lparr>dv_operational := get_all_bigips (dv_hosts s1) \<noteq> []\<rparr>)" by (simp add: agrees_def)
  from keepsE [OF report_keepsD [OF assms(1)] this *] show ?thesis .
qed

text \<open>Every active host of the registry has a device, so the lists of both are empty together.\<close>

lemma registry_active: "registry H s \<Longrightarrow> get_all_bigips (dv_hosts s) = [] \<longleftrightarrow> active_hosts (dv_hosts s) = []"
proof -
  assume "registry H s"
  then have "\<forall>(k, x) \<in> set (dv_hosts s). ho_status x = HActive \<longrightarrow> ho_device x \<noteq> None"
    by (auto simp: registry_def hosts_ok_def)
  moreover have "\<forall>(k, x) \<in> set hs. ho_status x = HActive \<longrightarrow> ho_device x \<noteq> None \<Longrightarrow>
      get_all_bigips hs = [] \<longleftrightarrow> active_hosts hs = []" for hs
    unfolding get_all_bigips_def active_hosts_def
    by (induction hs) (auto simp: List.map_filter_simps split: option.splits)
  ultimately show ?thesis by blast
qed

lemma keeps_connect:
  "(\<And>H. report_keeps (registry H) D) \<Longrightarrow> keeps (registry {}) (connect D)"
  unfolding connect_def by (intro keeps_try keeps_init_bigips keeps_set_agent_status)

text \<open>An operation that leaves the active devices as they are leaves the registry as it is.\<close>

lemma put_active_same: "put_active hs (get_all_bigips hs) = hs"
proof (induction hs)
  case (Cons p hs)
  obtain k x where p: "p = (k, x)" by (rule prod.exhaust)
  show ?case
  proof (cases "ho_status x = HActive \<and> ho_device x \<noteq> None")
    case True
    then obtain b where b: "ho_device x = Some b" by auto
    then have "x\<lparr>ho_device := Some b\<rparr> = x" by (cases x) simp
    with True b Cons p show ?thesis by (simp add: get_all_bigips_def List.map_filter_simps)
  next
    case False
    then have "get_all_bigips (p # hs) = get_all_bigips hs"
      using p by (auto simp: get_all_bigips_def List.map_filter_simps)
    with False p Cons show ?thesis by auto
  qed
qed (simp add: get_all_bigips_def)

end
