(* ===== verification/DriverService.thy ===== *)
theory DriverService
  imports Driver
begin

text \<open>
  The service handling of \<open>icontrol_driver.py\<close>: \<open>_common_service_handler\<close>, the status updates it sends
  to Neutron, the handlers of the events, \<open>sync\<close>, \<open>service_exists\<close>, statistics and forwarding
  messages. A handler works on the pair of the service, whose dictionaries it mutates, and the driver.

  The decorator \<open>serialized\<close> is the subject of \<open>ServiceQueue\<close>; tracing of requests to a file is left
  out. The handlers of one kind of object (create, update, delete) have the same body and are one
  definition.
\<close>

section \<open>Service and driver\<close>

type_synonym ('net, 'd, 'w) svc_drv = "service \<times> ('net, 'd, 'w) drv"

definition on_drv :: "(('net, 'd, 'w) drv, 'a) py \<Rightarrow> (('net, 'd, 'w) svc_drv, 'a) py" where
  [py_simps]: "on_drv m st = (case m (snd st) of (r, s) \<Rightarrow> (r, fst st, s))"

definition on_site :: "(('net, 'd, 'w) site, 'a) py \<Rightarrow> (('net, 'd, 'w) svc_drv, 'a) py" where
  "on_site m st = (case m (site_of (fst st) (snd st)) of (r, t) \<Rightarrow> (r, st_service t, put_site t (snd st)))"

definition mod_svc :: "(service \<Rightarrow> service) \<Rightarrow> (('net, 'd, 'w) svc_drv, unit) py" where
  [py_simps]: "mod_svc f = modifyM (\<lambda>(svc, s). (f svc, s))"

definition on_lb :: "(loadbalancer \<Rightarrow> loadbalancer) \<Rightarrow> service \<Rightarrow> service" where
  "on_lb f svc = svc\<lparr>sv_loadbalancer := map_option f (sv_loadbalancer svc)\<rparr>"

text \<open>The environment of the builder as the driver state has it.\<close>

definition builder_env :: "('ip, 'net, 'd, 'w) drv_env \<Rightarrow> ('net, 'd, 'w) drv \<Rightarrow> 'd benv" where
  "builder_env D s =
     (dr_builder D)\<lparr>be_adapter := (be_adapter (dr_builder D))\<lparr>ad_esd := dv_esd s\<rparr>,
       be_const_status := (if dv_to_sync s then sync_status else normal_status)\<rparr>"

definition l3_of :: "('net, 'd, 'w) drv \<Rightarrow> l3_mappings option" where
  "l3_of s = map_option l3_mapping (dv_l3 s)"

section \<open>Status updates\<close>

definition positive_state :: "pstatus \<Rightarrow> bool" where
  "positive_state st \<longleftrightarrow> st \<in> {PENDING_CREATE, PENDING_UPDATE}"

definition with_status :: "('w, unit) py \<Rightarrow> 'o \<Rightarrow> 'o \<Rightarrow> 'w \<Rightarrow> (exn + unit) \<times> 'o \<times> 'w" where
  "with_status m x y w = (case m w of (Inl e, w') \<Rightarrow> (Inl e, x, w') | (Inr _, w') \<Rightarrow> (Inr (), y, w'))"

definition update_member_provisioning ::
  "(rpc_body \<Rightarrow> ('w, unit) py) \<Rightarrow> bool \<Rightarrow> member \<Rightarrow> 'w \<Rightarrow> (exn + unit) \<times> member \<times> 'w" where
  "update_member_provisioning send timed_out m w =
     (case me_status m of
        None \<Rightarrow> (Inr (), m, w)
      | Some st \<Rightarrow>
          if positive_state st then
            (let ps = (if timed_out \<and> st \<noteq> ACTIVE then ERROR else ACTIVE);
                 os = (if timed_out \<and> st \<noteq> ACTIVE then OFFLINE else ONLINE);
                 m' = m\<lparr>me_status := Some ps\<rparr>
             in with_status (send (msg_member_status (me_id m) (Some ps) (Some os))) m' m' w)
          else if st = PENDING_DELETE then
            (if me_parent_pool_deleted m then (Inr (), m, w)
             else with_status (send (msg_member_destroyed (me_id m))) m m w)
          else if st = ERROR then with_status (send (msg_member_status (me_id m) (Some ERROR) (Some OFFLINE))) m m w
          else (Inr (), m, w))"

text \<open>The common shape: told Neutron first, the object becomes \<open>ACTIVE\<close> when that went well.\<close>

definition update_provisioning ::
  "(rpc_body \<Rightarrow> ('w, unit) py) \<Rightarrow> ('o \<Rightarrow> pstatus) \<Rightarrow> ('o \<Rightarrow> 'o) \<Rightarrow> ('o \<Rightarrow> exn + rpc_body) \<Rightarrow> ('o \<Rightarrow> rpc_body)
     \<Rightarrow> ('o \<Rightarrow> rpc_body) \<Rightarrow> 'o \<Rightarrow> 'w \<Rightarrow> (exn + unit) \<times> 'o \<times> 'w" where
  "update_provisioning send status act good destroyed bad x w =
     (if positive_state (status x) then
        (case good x of Inl e \<Rightarrow> (Inl e, x, w) | Inr body \<Rightarrow> with_status (send body) x (act x) w)
      else if status x = PENDING_DELETE then with_status (send (destroyed x)) x x w
      else if status x = ERROR then with_status (send (bad x)) x x w
      else (Inr (), x, w))"

definition update_health_monitor_provisioning ::
  "(rpc_body \<Rightarrow> ('w, unit) py) \<Rightarrow> healthmonitor \<Rightarrow> 'w \<Rightarrow> (exn + unit) \<times> healthmonitor \<times> 'w" where
  "update_health_monitor_provisioning send =
     update_provisioning send hm_status (set_hm_status ACTIVE)
       (\<lambda>x. Inr (msg_health_monitor_status (hm_id x) ACTIVE ONLINE)) (\<lambda>x. msg_health_monitor_destroyed (hm_id x))
       (\<lambda>x. msg_health_monitor_status (hm_id x) ERROR OFFLINE)"

definition update_pool_provisioning ::
  "(rpc_body \<Rightarrow> ('w, unit) py) \<Rightarrow> pool \<Rightarrow> 'w \<Rightarrow> (exn + unit) \<times> pool \<times> 'w" where
  "update_pool_provisioning send =
     update_provisioning send po_status (set_po_status ACTIVE)
       (\<lambda>x. Inr (msg_pool_status (po_id x) ACTIVE ONLINE)) (\<lambda>x. msg_pool_destroyed (po_id x))
       (\<lambda>x. msg_pool_status (po_id x) ERROR OFFLINE)"

definition update_listener_provisioning ::
  "(rpc_body \<Rightarrow> ('w, unit) py) \<Rightarrow> listener \<Rightarrow> 'w \<Rightarrow> (exn + unit) \<times> listener \<times> 'w" where
  "update_listener_provisioning send =
     update_provisioning send li_status (set_li_status ACTIVE)
       (\<lambda>x. bindE (subE (li_operating_status x)) (\<lambda>os. Inr (msg_listener_status (li_id x) ACTIVE (Some os))))
       (\<lambda>x. msg_listener_destroyed (li_id x)) (\<lambda>x. msg_listener_status (li_id x) ERROR (Some OFFLINE))"

text \<open>Rules and policies keep their status in the service.\<close>

definition update_l7rule_provisioning ::
  "(rpc_body \<Rightarrow> ('w, unit) py) \<Rightarrow> l7rule \<Rightarrow> 'w \<Rightarrow> (exn + unit) \<times> l7rule \<times> 'w" where
  "update_l7rule_provisioning send =
     update_provisioning send l7r_status (\<lambda>x. x)
       (\<lambda>x. Inr (msg_l7rule_status (l7r_id x) (l7r_policy_id x) ACTIVE ONLINE)) (\<lambda>x. msg_l7rule_destroyed (l7r_id x))
       (\<lambda>x. msg_l7rule_status (l7r_id x) (l7r_policy_id x) ERROR OFFLINE)"

definition update_l7policy_provisioning ::
  "(rpc_body \<Rightarrow> ('w, unit) py) \<Rightarrow> l7policy \<Rightarrow> 'w \<Rightarrow> (exn + unit) \<times> l7policy \<times> 'w" where
  "update_l7policy_provisioning send =
     update_provisioning send l7p_status (\<lambda>x. x)
       (\<lambda>x. Inr (msg_l7policy_status (l7p_id x) ACTIVE ONLINE)) (\<lambda>x. msg_l7policy_destroyed (l7p_id x))
       (\<lambda>x. msg_l7policy_status (l7p_id x) ERROR OFFLINE)"

definition update_loadbalancer_provisioning ::
  "(rpc_body \<Rightarrow> ('w, unit) py) \<Rightarrow> bool \<Rightarrow> loadbalancer \<Rightarrow> 'w \<Rightarrow> (exn + unit) \<times> loadbalancer \<times> 'w" where
  "update_loadbalancer_provisioning send timed_out lb w =
     (let st = lb_status lb in
      if positive_state st then
        (let ps = (if timed_out \<and> st = PENDING_CREATE then ERROR else ACTIVE);
             os = (if timed_out then OFFLINE else ONLINE); lb' = set_lb_status ps lb
         in with_status (send (msg_loadbalancer_status (lb_id lb) (Some ps) (Some os))) lb' lb' w)
      else if st = PENDING_DELETE then with_status (send (msg_loadbalancer_destroyed (lb_id lb))) lb lb w
      else if st = ERROR then with_status (send (msg_loadbalancer_status (lb_id lb) (Some ERROR) (Some OFFLINE))) lb lb w
      else (Inr (), lb, w))"

text \<open>\<open>_update_..._status\<close> on the list under a key of the service.\<close>

definition for_objs ::
  "(service \<Rightarrow> 'o list option) \<Rightarrow> ('o list \<Rightarrow> service \<Rightarrow> service)
     \<Rightarrow> ('o \<Rightarrow> 'w \<Rightarrow> (exn + unit) \<times> 'o \<times> 'w) \<Rightarrow> (service \<times> 'w, unit) py" where
  "for_objs get put step st =
     (case get (fst st) of
        None \<Rightarrow> (Inl KeyError, st)
      | Some xs \<Rightarrow> (case inplace step xs (snd st) of (r, xs', w) \<Rightarrow> (r, put xs' (fst st), w)))"

definition update_members_status :: "(rpc_body \<Rightarrow> ('w, unit) py) \<Rightarrow> bool \<Rightarrow> (service \<times> 'w, unit) py" where
  "update_members_status send timed_out =
     for_objs sv_members (\<lambda>xs svc. svc\<lparr>sv_members := Some xs\<rparr>) (update_member_provisioning send timed_out)"

definition update_health_monitors_status :: "(rpc_body \<Rightarrow> ('w, unit) py) \<Rightarrow> (service \<times> 'w, unit) py" where
  "update_health_monitors_status send =
     for_objs sv_healthmonitors (\<lambda>xs svc. svc\<lparr>sv_healthmonitors := Some xs\<rparr>) (update_health_monitor_provisioning send)"

definition update_pools_status :: "(rpc_body \<Rightarrow> ('w, unit) py) \<Rightarrow> (service \<times> 'w, unit) py" where
  "update_pools_status send =
     for_objs sv_pools (\<lambda>xs svc. svc\<lparr>sv_pools := Some xs\<rparr>) (update_pool_provisioning send)"

definition update_listeners_status :: "(rpc_body \<Rightarrow> ('w, unit) py) \<Rightarrow> (service \<times> 'w, unit) py" where
  "update_listeners_status send =
     for_objs sv_listeners (\<lambda>xs svc. svc\<lparr>sv_listeners := Some xs\<rparr>) (update_listener_provisioning send)"

definition update_l7rules_status :: "(rpc_body \<Rightarrow> ('w, unit) py) \<Rightarrow> (service \<times> 'w, unit) py" where
  "update_l7rules_status send =
     for_objs sv_l7policy_rules (\<lambda>xs svc. svc\<lparr>sv_l7policy_rules := Some xs\<rparr>) (update_l7rule_provisioning send)"

definition update_l7policies_status :: "(rpc_body \<Rightarrow> ('w, unit) py) \<Rightarrow> (service \<times> 'w, unit) py" where
  "update_l7policies_status send =
     for_objs sv_l7policies (\<lambda>xs svc. svc\<lparr>sv_l7policies := Some xs\<rparr>) (update_l7policy_provisioning send)"

definition update_loadbalancer_status :: "(rpc_body \<Rightarrow> ('w, unit) py) \<Rightarrow> bool \<Rightarrow> (service \<times> 'w, unit) py" where
  "update_loadbalancer_status send timed_out st =
     (case sv_loadbalancer (fst st) of
        None \<Rightarrow> (Inl KeyError, st)
      | Some lb \<Rightarrow>
          (case update_loadbalancer_provisioning send timed_out lb (snd st) of
             (r, lb', w) \<Rightarrow> (r, (fst st)\<lparr>sv_loadbalancer := Some lb'\<rparr>, w)))"

definition if_present :: "(service \<Rightarrow> 'o option) \<Rightarrow> (service \<times> 'w, unit) py \<Rightarrow> (service \<times> 'w, unit) py" where
  "if_present get m st = (if get (fst st) = None then (Inr (), st) else m st)"

definition service_status_updates :: "(rpc_body \<Rightarrow> ('w, unit) py) \<Rightarrow> bool \<Rightarrow> (service \<times> 'w, unit) py" where
  "service_status_updates send timed_out =
     bindM (if_present sv_members (update_members_status send timed_out)) (\<lambda>_.
     bindM (if_present sv_healthmonitors (update_health_monitors_status send)) (\<lambda>_.
     bindM (if_present sv_pools (update_pools_status send)) (\<lambda>_.
     bindM (if_present sv_listeners (update_listeners_status send)) (\<lambda>_.
     bindM (if_present sv_l7policy_rules (update_l7rules_status send)) (\<lambda>_.
     bindM (if_present sv_l7policies (update_l7policies_status send)) (\<lambda>_.
       update_loadbalancer_status send timed_out))))))"

text \<open>In the driver; without the RPC interface there is nobody to tell (\<open>None\<close> has no methods).\<close>

definition sending ::
  "('ip, 'net, 'd, 'w) drv_env \<Rightarrow> ((rpc_body \<Rightarrow> ('w, unit) py) \<Rightarrow> (service \<times> 'w, 'a) py)
     \<Rightarrow> (('net, 'd, 'w) svc_drv, 'a) py" where
  "sending D m st =
     (let send = (case dr_plugin D of None \<Rightarrow> (\<lambda>_. raiseM AttributeError) | Some P \<Rightarrow> plugin_cast P (dr_cast D)) in
      case m send (fst st, dv_world (snd st)) of (r, svc, w) \<Rightarrow> (r, svc, (snd st)\<lparr>dv_world := w\<rparr>))"

definition update_service_status :: "('ip, 'net, 'd, 'w) drv_env \<Rightarrow> bool \<Rightarrow> (('net, 'd, 'w) svc_drv, unit) py" where
  "update_service_status D timed_out =
     (if dr_plugin D = None then retM () else sending D (\<lambda>send. service_status_updates send timed_out))"

section \<open>The common handler\<close>

text \<open>\<open>all_subnet_hints\<close> is a local variable of the handler, unbound until the networking is prepared.\<close>

type_synonym ('net, 'd, 'w) handling = "('net, 'd, 'w) svc_drv \<times> all_hints option"

definition on_svc :: "(('net, 'd, 'w) svc_drv, 'a) py \<Rightarrow> (('net, 'd, 'w) handling, 'a) py" where
  [py_simps]: "on_svc m h = (case m (fst h) of (r, st) \<Rightarrow> (r, st, snd h))"

definition mark_error :: "pstatus \<Rightarrow> (('net, 'd, 'w) svc_drv, unit) py" where
  "mark_error ps0 = (if ps0 \<noteq> PENDING_DELETE then mod_svc lb_error else retM ())"

definition set_do_update :: "bool \<Rightarrow> (('net, 'd, 'w) svc_drv, unit) py" where
  [py_simps]: "set_do_update v = on_drv (modifyM (\<lambda>s. s\<lparr>dv_do_update := v\<rparr>))"

definition assure_tenant ::
  "('ip, 'net, 'd, 'w) drv_env \<Rightarrow> pstatus \<Rightarrow> (('net, 'd, 'w) svc_drv, unit) py" where
  "assure_tenant D ps0 =
     tryM (bindM (getsM (\<lambda>st. dv_tgs (snd st))) (\<lambda>tgs.
             on_site (assure_tenant_created (dr_net D) (dr_sys D) (dr_md5 D) tgs)))
       (\<lambda>e. bindM (mark_error ps0) (\<lambda>_. raiseM e))"

definition traffic_group_of_service :: "('ip, 'net, 'd, 'w) drv_env \<Rightarrow> (('net, 'd, 'w) svc_drv, string) py" where
  "traffic_group_of_service D =
     bindM (\<lambda>st. (bindE (subE (sv_loadbalancer (fst st))) (service_to_traffic_group (dr_md5 D) (dv_tgs (snd st))), st))
       (\<lambda>tg. bindM (mod_svc (on_lb (\<lambda>lb. lb\<lparr>lb_traffic_group := Some tg\<rparr>))) (\<lambda>_. retM tg))"

definition prep_networking ::
  "('ip, 'net, 'd, 'w) drv_env \<Rightarrow> pstatus \<Rightarrow> bool \<Rightarrow> string \<Rightarrow> (('net, 'd, 'w) svc_drv, unit) py" where
  "prep_networking D ps0 delete_event tg =
     (if f5_global_routed_mode (dr_conf D) then retM ()
      else
        tryM (\<lambda>st. on_site (prep_service_networking (dr_net D) (l3_of (snd st)) tg) st)
          (\<lambda>e. if e = F5 NetworkNotReady then
                  (if delete_event then retM () else bindM (set_do_update False) (\<lambda>_. raiseM e))
                else bindM (mark_error ps0) (\<lambda>_. if delete_event then retM () else raiseM e)))"

definition new_hints :: "'d bigip list \<Rightarrow> all_hints" where
  "new_hints bs = fold (\<lambda>b. AList.update (b_device_name b) empty_hints) bs []"

definition assure_on_bigips :: "('ip, 'net, 'd, 'w) drv_env \<Rightarrow> (('net, 'd, 'w) handling, unit) py" where
  "assure_on_bigips D h =
     (let svc = fst (fst h); s = snd (fst h); bs = get_all_bigips (dv_hosts s) in
      case assure_service (builder_env D s) \<lparr>bs_service = svc, bs_bigips = bs, bs_hints = get_or [] (snd h)\<rparr> of
        (r, b) \<Rightarrow> (r, (bs_service b, s\<lparr>dv_hosts := put_active (dv_hosts s) (bs_bigips b)\<rparr>), Some (bs_hints b)))"

text \<open>An error while the networking is cleaned up leaves the handler only for a service that stays.\<close>

definition post_networking :: "('ip, 'net, 'd, 'w) drv_env \<Rightarrow> pstatus \<Rightarrow> (('net, 'd, 'w) handling, unit) py" where
  "post_networking D ps0 =
     (if f5_global_routed_mode (dr_conf D) then retM ()
      else
        tryM (\<lambda>h.
                case post_service_networking (dr_net D) (l3_of (snd (fst h)))
                       (site_of (fst (fst h)) (snd (fst h)), get_or [] (snd h), []) of
                  (r, t, hints, _) \<Rightarrow> (r, (st_service t, put_site t (snd (fst h))), Some hints))
          (\<lambda>e. if ps0 \<noteq> PENDING_DELETE
                then bindM (on_svc (mark_error ps0)) (\<lambda>_. raiseM e) else retM ()))"

definition handle_service ::
  "('ip, 'net, 'd, 'w) drv_env \<Rightarrow> pstatus \<Rightarrow> bool \<Rightarrow> (('net, 'd, 'w) handling, unit) py" where
  "handle_service D ps0 delete_event =
     bindM (on_svc (assure_tenant D ps0)) (\<lambda>_.
     bindM (on_svc (traffic_group_of_service D)) (\<lambda>tg.
     bindM (on_svc (prep_networking D ps0 delete_event tg)) (\<lambda>_.
     bindM (modifyM (\<lambda>h. (fst h, Some (new_hints (get_all_bigips (dv_hosts (snd (fst h)))))))) (\<lambda>_.
     bindM (assure_on_bigips D) (\<lambda>_. post_networking D ps0)))))"

text \<open>
  \<open>_common_service_handler\<close>: every exception ends in the log, but the cleanup of a deleted load
  balancer runs in \<open>finally\<close> and its exceptions, the unbound hints among them, leave the handler.
\<close>

definition common_service_handler ::
  "('ip, 'net, 'd, 'w) drv_env \<Rightarrow> bool \<Rightarrow> (('net, 'd, 'w) svc_drv, unit) py" where
  "common_service_handler D delete_event =
     bindM (set_do_update True) (\<lambda>_ st.
       case sv_loadbalancer (fst st) of
         None \<Rightarrow> (Inr (), st)
       | Some lb \<Rightarrow>
           (case tryM (handle_service D (lb_status lb) delete_event) (\<lambda>_. retM ()) (st, None) of
              (r, st', hints) \<Rightarrow>
                if lb_status lb \<noteq> PENDING_DELETE then (r, st')
                else (case hints of
                        None \<Rightarrow> (Inl UnboundLocalError, st')
                      | Some hs \<Rightarrow> on_site (assure_tenant_cleanup (dr_net D) (dr_sys D) hs) st')))"

section \<open>The events\<close>

definition lb_pending :: "service \<Rightarrow> bool" where
  "lb_pending svc \<longleftrightarrow> (case sv_loadbalancer svc of None \<Rightarrow> False | Some lb \<Rightarrow> positive_state (lb_status lb))"

text \<open>\<open>_update_target\<close>: the update method, if there is one, before that of the load balancer.\<close>

definition update_target ::
  "('ip, 'net, 'd, 'w) drv_env \<Rightarrow> ((rpc_body \<Rightarrow> ('w, unit) py) \<Rightarrow> (service \<times> 'w, unit) py)
     \<Rightarrow> (('net, 'd, 'w) svc_drv, bool) py" where
  "update_target D update_method =
     bindM (getsM (\<lambda>st. dv_do_update (snd st))) (\<lambda>upd.
     bindM (if upd then bindM (sending D update_method) (\<lambda>_.
                          sending D (\<lambda>send. update_loadbalancer_status send False))
            else retM ()) (\<lambda>_.
       getsM (\<lambda>st. lb_pending (fst st))))"

definition operational_event ::
  "('ip, 'net, 'd, 'w) drv_env \<Rightarrow> (('net, 'd, 'w) svc_drv, 'a) py \<Rightarrow> (('net, 'd, 'w) svc_drv, 'a option) py" where
  "operational_event D m =
     bindM (getsM (\<lambda>st. dv_operational (snd st))) (\<lambda>up.
       if up then bindM m (\<lambda>x. retM (Some x)) else bindM (on_drv (init_bigips D)) (\<lambda>_. retM None))"

text \<open>\<open>service[key][0]['provisioning_status'] = 'PENDING_UPDATE'\<close>.\<close>

definition mark_first ::
  "(service \<Rightarrow> 'o list option) \<Rightarrow> ('o list \<Rightarrow> service \<Rightarrow> service) \<Rightarrow> (pstatus \<Rightarrow> 'o \<Rightarrow> 'o)
     \<Rightarrow> (('net, 'd, 'w) svc_drv, unit) py" where
  "mark_first get put set_st st =
     (case get (fst st) of
        None \<Rightarrow> (Inl KeyError, st)
      | Some [] \<Rightarrow> (Inl IndexError, st)
      | Some (x # xs) \<Rightarrow> (Inr (), put (set_st PENDING_UPDATE x # xs) (fst st), snd st))"

definition mark_first_listener :: "(('net, 'd, 'w) svc_drv, unit) py" where
  "mark_first_listener = mark_first sv_listeners (\<lambda>xs svc. svc\<lparr>sv_listeners := Some xs\<rparr>) set_li_status"

definition mark_first_pool :: "(('net, 'd, 'w) svc_drv, unit) py" where
  "mark_first_pool = mark_first sv_pools (\<lambda>xs svc. svc\<lparr>sv_pools := Some xs\<rparr>) set_po_status"

text \<open>\<open>service[key]\<close>, the target of the update, is looked up after the handler.\<close>

definition service_event ::
  "('ip, 'net, 'd, 'w) drv_env \<Rightarrow> (('net, 'd, 'w) svc_drv, unit) py \<Rightarrow> bool \<Rightarrow> (service \<Rightarrow> bool)
     \<Rightarrow> ((rpc_body \<Rightarrow> ('w, unit) py) \<Rightarrow> (service \<times> 'w, unit) py) \<Rightarrow> (('net, 'd, 'w) svc_drv, bool option) py" where
  "service_event D mark delete_event has_target update_method =
     operational_event D (bindM mark (\<lambda>_. bindM (common_service_handler D delete_event) (\<lambda>_.
       bindM (\<lambda>st. (if has_target (fst st) then Inr () else Inl KeyError, st)) (\<lambda>_. update_target D update_method))))"

text \<open>create, update and delete of each kind of object.\<close>

definition loadbalancer_event :: "('ip, 'net, 'd, 'w) drv_env \<Rightarrow> bool \<Rightarrow> (('net, 'd, 'w) svc_drv, bool option) py" where
  "loadbalancer_event D is_delete = service_event D (retM ()) is_delete (\<lambda>_. True) (\<lambda>_. retM ())"

definition listener_event :: "('ip, 'net, 'd, 'w) drv_env \<Rightarrow> (('net, 'd, 'w) svc_drv, bool option) py" where
  "listener_event D = service_event D (retM ()) False (\<lambda>_. True) update_listeners_status"

definition pool_event :: "('ip, 'net, 'd, 'w) drv_env \<Rightarrow> (('net, 'd, 'w) svc_drv, bool option) py" where
  "pool_event D =
     service_event D (\<lambda>st. if get_all (sv_listeners (fst st)) = [] then (Inr (), st) else mark_first_listener st) False
       (\<lambda>svc. sv_pools svc \<noteq> None) update_pools_status"

definition l7policy_event :: "('ip, 'net, 'd, 'w) drv_env \<Rightarrow> (('net, 'd, 'w) svc_drv, bool option) py" where
  "l7policy_event D = service_event D mark_first_listener False (\<lambda>svc. sv_l7policies svc \<noteq> None)
       update_l7policies_status"

definition l7rule_event :: "('ip, 'net, 'd, 'w) drv_env \<Rightarrow> (('net, 'd, 'w) svc_drv, bool option) py" where
  "l7rule_event D = service_event D mark_first_listener False (\<lambda>svc. sv_l7policy_rules svc \<noteq> None)
       update_l7rules_status"

definition member_event :: "('ip, 'net, 'd, 'w) drv_env \<Rightarrow> (('net, 'd, 'w) svc_drv, bool option) py" where
  "member_event D = service_event D mark_first_pool False (\<lambda>svc. sv_members svc \<noteq> None)
       (\<lambda>send. update_members_status send False)"

definition health_monitor_event :: "('ip, 'net, 'd, 'w) drv_env \<Rightarrow> (('net, 'd, 'w) svc_drv, bool option) py" where
  "health_monitor_event D = service_event D mark_first_pool False (\<lambda>svc. sv_healthmonitors svc \<noteq> None)
       update_health_monitors_status"

text \<open>
  \<open>sync\<close>, with the service as Neutron has it now. \<open>to_sync\<close> is reset only when the handler returns.
\<close>

definition latest_service :: "('ip, 'net, 'd, 'w) drv_env \<Rightarrow> service \<Rightarrow> (('net, 'd, 'w) drv, service) py" where
  "latest_service D svc =
     (case (dr_plugin D, sv_loadbalancer svc) of
        (Some P, Some lb) \<Rightarrow>
          if lb_id lb = '''' then retM svc
          else on_world (get_service_by_loadbalancer_id P (dr_services D) (lb_id lb))
      | _ \<Rightarrow> retM svc)"

definition set_to_sync :: "bool \<Rightarrow> (('net, 'd, 'w) svc_drv, unit) py" where
  [py_simps]: "set_to_sync v = on_drv (modifyM (\<lambda>s. s\<lparr>dv_to_sync := v\<rparr>))"

definition sync_service :: "('ip, 'net, 'd, 'w) drv_env \<Rightarrow> (('net, 'd, 'w) svc_drv, bool) py" where
  "sync_service D =
     bindM (set_to_sync True) (\<lambda>_.
     bindM (common_service_handler D False) (\<lambda>_.
     bindM (set_to_sync False) (\<lambda>_.
     bindM (getsM (\<lambda>st. dv_do_update (snd st))) (\<lambda>upd.
     bindM (if upd then update_service_status D False else retM ()) (\<lambda>_.
       getsM (\<lambda>st. lb_pending (fst st)))))))"

definition sync_latest :: "('ip, 'net, 'd, 'w) drv_env \<Rightarrow> service \<Rightarrow> (('net, 'd, 'w) drv, bool option) py" where
  "sync_latest D svc =
     bindM (latest_service D svc) (\<lambda>svc' s.
       if sv_loadbalancer svc' = None then (Inr None, s)
       else case sync_service D (svc', s) of (r, _, s') \<Rightarrow> (case r of Inl e \<Rightarrow> Inl e | Inr p \<Rightarrow> Inr (Some p), s'))"

text \<open>The result is \<open>None\<close> as well when the driver is not operational.\<close>

definition sync :: "('ip, 'net, 'd, 'w) drv_env \<Rightarrow> service \<Rightarrow> (('net, 'd, 'w) drv, bool option) py" where
  "sync D svc = bindM (is_operational D (sync_latest D svc)) (\<lambda>r. retM (Option.bind r (\<lambda>p. p)))"

section \<open>Is the service on the devices?\<close>

text \<open>A sequence of checks, left at the first that says no.\<close>

fun all_checks :: "('s, bool) py list \<Rightarrow> ('s, bool) py" where
  "all_checks [] = retM True"
| "all_checks (m # ms) = bindM m (\<lambda>ok. if ok then all_checks ms else retM False)"

fun on_every_bigip :: "('d bigip, bool) py \<Rightarrow> ('d bigip list, bool) py" where
  "on_every_bigip m [] = (Inr True, [])"
| "on_every_bigip m (b # bs) =
     (case m b of
        (Inl e, b') \<Rightarrow> (Inl e, b' # bs)
      | (Inr False, b') \<Rightarrow> (Inr False, b' # bs)
      | (Inr True, b') \<Rightarrow> (case on_every_bigip m bs of (r, bs') \<Rightarrow> (r, b' # bs')))"

text \<open>\<open>_get_monitor_endpoint\<close>.\<close>

definition get_monitor_endpoint :: "healthmonitor \<Rightarrow> resource_type" where
  "get_monitor_endpoint hm =
     (let ty = get_or '''' (get_monitor_type hm) in
      if ty = ''HTTPS'' then https_monitor_rt else if ty = ''TCP'' then tcp_monitor_rt
      else if ty = ''PING'' then ping_monitor_rt else http_monitor_rt)"

definition listener_deployed :: "adapter \<Rightarrow> 'd sdk \<Rightarrow> loadbalancer \<Rightarrow> string \<Rightarrow> listener \<Rightarrow> ('d, bool) py" where
  "listener_deployed A S lb folder li = rh_exists (sdk_virtual S) (bn_name (init_virtual_name A lb li)) folder"

definition member_deployed ::
  "adapter \<Rightarrow> 'd sdk \<Rightarrow> service \<Rightarrow> loadbalancer \<Rightarrow> pool \<Rightarrow> member \<Rightarrow> ('d, bool) py" where
  "member_deployed A S svc lb p m =
     bindM (liftM (subE (me_pool_id m))) (\<lambda>i.
       if i \<noteq> po_id p then retM True
       else case get_pool_by_id svc (Some i) of
              None \<Rightarrow> raiseM AttributeError
            | Some q \<Rightarrow> member_exists A S lb q [] m)"

text \<open>Name, number of members and members of a pool; \<open>collection\<close> is \<open>members_s.get_collection()\<close>.\<close>

definition pool_deployed ::
  "adapter \<Rightarrow> 'd sdk \<Rightarrow> (bigip_pool \<Rightarrow> ('d, string list) py) \<Rightarrow> service \<Rightarrow> loadbalancer \<Rightarrow> string \<Rightarrow> pool
     \<Rightarrow> ('d, bool) py" where
  "pool_deployed A S collection svc lb folder p =
     bindM (liftM (fst (get_pool A lb p [] []))) (\<lambda>bp.
     bindM (rh_exists (sdk_pool S) (bn_name bp) folder) (\<lambda>ex.
       if \<not> ex then retM False
       else
         bindM (rh_load (sdk_pool S) (bn_name bp) folder) (\<lambda>lp.
         bindM (collection lp) (\<lambda>deployed.
           if length deployed \<noteq> length (po_members p) then retM False
           else bindM (liftM (subE (sv_members svc))) (\<lambda>ms. all_checks (map (member_deployed A S svc lb p) ms))))))"

definition monitor_deployed :: "adapter \<Rightarrow> 'd sdk \<Rightarrow> loadbalancer \<Rightarrow> string \<Rightarrow> healthmonitor \<Rightarrow> ('d, bool) py" where
  "monitor_deployed A S lb folder hm =
     bindM (liftM (map_healthmonitor A lb hm)) (\<lambda>bm.
       rh_exists (sdk_monitor S (get_monitor_endpoint hm)) (bn_name bm) folder)"

definition service_on_device ::
  "adapter \<Rightarrow> 'd bigip sdk \<Rightarrow> 'd sys_sdk \<Rightarrow> (bigip_pool \<Rightarrow> ('d bigip, string list) py) \<Rightarrow> service \<Rightarrow> loadbalancer
     \<Rightarrow> ('d bigip, bool) py" where
  "service_on_device A S Y collection svc lb =
     (let folder = get_folder_name A (lb_tenant_id lb) in
      all_checks
        [on_dev (folder_exists Y folder), va_exists S (va_init A lb),
         bindM (liftM (subE (sv_listeners svc))) (\<lambda>lis. all_checks (map (listener_deployed A S lb folder) lis)),
         bindM (liftM (subE (sv_pools svc))) (\<lambda>ps. all_checks (map (pool_deployed A S collection svc lb folder) ps)),
         bindM (liftM (subE (sv_healthmonitors svc))) (\<lambda>hms. all_checks (map (monitor_deployed A S lb folder) hms))])"

text \<open>\<open>_service_exists\<close>; it writes route domains into the addresses of the service.\<close>

definition service_exists ::
  "('ip, 'net, 'd, 'w) drv_env \<Rightarrow> (bigip_pool \<Rightarrow> ('d bigip, string list) py) \<Rightarrow> (('net, 'd, 'w) svc_drv, bool) py" where
  "service_exists D collection st0 =
     (if sv_loadbalancer (fst st0) = None then (Inr False, st0)
      else
        bindM (if f5_global_routed_mode (dr_conf D) then retM ()
               else on_site (annotate_service_route_domains (dr_net D))) (\<lambda>_ st.
          case sv_loadbalancer (fst st) of
            None \<Rightarrow> (Inr False, st)
          | Some lb \<Rightarrow>
              on_drv (on_active (on_every_bigip
                (service_on_device (be_adapter (dr_builder D)) (be_sdk (dr_builder D)) (dr_sys D) collection (fst st) lb)))
                st) st0)"

text \<open>\<open>service_rename_required\<close>: some device lacks the virtual address.\<close>

definition service_rename_required :: "('ip, 'net, 'd, 'w) drv_env \<Rightarrow> (('net, 'd, 'w) svc_drv, bool) py" where
  "service_rename_required D st =
     (case sv_loadbalancer (fst st) of
        None \<Rightarrow> (Inr False, st)
      | Some lb \<Rightarrow>
          bindM (on_drv (on_active (on_every_bigip
                   (va_exists (be_sdk (dr_builder D)) (va_init (be_adapter (dr_builder D)) lb)))))
            (\<lambda>found. retM (\<not> found)) st)"

section \<open>Operating status and statistics\<close>

definition on_active_bigip :: "('d bigip \<Rightarrow> (exn + unit) \<times> service \<times> 'd bigip) \<Rightarrow> (('net, 'd, 'w) svc_drv, unit) py" where
  "on_active_bigip m st =
     (case get_active_bigip (dv_hosts (snd st)) of
        Inl e \<Rightarrow> (Inl e, st)
      | Inr h \<Rightarrow>
          (case Option.bind (map_of (dv_hosts (snd st)) h) ho_device of
             None \<Rightarrow> (Inl AttributeError, st)
           | Some b \<Rightarrow>
               (case m b of (r, svc, b') \<Rightarrow> (r, svc, upd_host h (\<lambda>x. x\<lparr>ho_device := Some b'\<rparr>) (snd st)))))"

definition report_member :: "(rpc_body \<Rightarrow> ('w, unit) py) \<Rightarrow> member \<Rightarrow> ('w, unit) py" where
  "report_member send m =
     bindM (liftM (subE (me_status m))) (\<lambda>ps.
       if ps = ACTIVE then send (msg_member_status (me_id m) None (me_operating_status m)) else retM ())"

definition update_operating_status_event :: "('ip, 'net, 'd, 'w) drv_env \<Rightarrow> (('net, 'd, 'w) svc_drv, unit option) py" where
  "update_operating_status_event D =
     operational_event D (\<lambda>st0.
       if sv_members (fst st0) = None then (Inr (), st0)
       else
         bindM (if f5_global_routed_mode (dr_conf D) then retM True
                else tryM (bindM (on_site (annotate_service_route_domains (dr_net D))) (\<lambda>_. retM True))
                       (\<lambda>e. if e = F5 InvalidNetworkType then raiseM AttributeError else raiseM e)) (\<lambda>go.
         bindM (\<lambda>st. on_active_bigip (update_operating_status (builder_env D (snd st)) (fst st)) st) (\<lambda>_.
         bindM (getsM (\<lambda>st. get_all (sv_members (fst st)))) (\<lambda>ms.
           sending D (\<lambda>send st. case forM ms (report_member send) (snd st) of (r, w) \<Rightarrow> (r, fst st, w))))) st0)"

definition stat_keys :: "string list" where
  "stat_keys = [''clientside.bitsIn'', ''clientside.bitsOut'', ''clientside.curConns'', ''clientside.totConns'']"

definition lb_stats_of :: "(string \<times> int) list \<Rightarrow> (string \<times> int) list" where
  "lb_stats_of vs =
     (let v = (\<lambda>k. get_or 0 (map_of vs k)) in
      [(''bytes_in'', v ''clientside.bitsIn'' div 8), (''bytes_out'', v ''clientside.bitsOut'' div 8),
       (''active_connections'', v ''clientside.curConns''), (''total_connections'', v ''clientside.totConns'')])"

text \<open>Every failure is logged; what was computed before it is returned.\<close>

definition get_stats :: "('ip, 'net, 'd, 'w) drv_env \<Rightarrow> (('net, 'd, 'w) svc_drv, (string \<times> int) list option) py" where
  "get_stats D =
     operational_event D (\<lambda>st.
       case sv_loadbalancer (fst st) of
         None \<Rightarrow> (Inl KeyError, st)
       | Some lb \<Rightarrow>
           (case on_drv (on_active (get_service_stats (builder_env D (snd st)) (fst st) stat_keys)) st of
              (Inl e, st') \<Rightarrow> (Inr [], st')
            | (Inr vs, st') \<Rightarrow>
                (case sending D (\<lambda>send ss. case send (msg_loadbalancer_stats (lb_id lb) (lb_stats_of vs)) (snd ss) of
                                            (r, w) \<Rightarrow> (r, fst ss, w)) st' of
                   (_, st'') \<Rightarrow> (Inr (lb_stats_of vs), st''))))"

section \<open>Forwarding messages\<close>

definition fdb_each ::
  "('ip, 'net, 'd, 'w) drv_env \<Rightarrow> ('d net_sdk \<Rightarrow> string option \<Rightarrow> fdb_message \<Rightarrow> ('d, unit) py) \<Rightarrow> fdb_message
     \<Rightarrow> (('net, 'd, 'w) drv, unit) py" where
  "fdb_each D f fdb =
     on_active (for_bigips (\<lambda>_ b. if f5_global_routed_mode (dr_conf D) then (Inl AttributeError, b)
                                  else on_dev (f (ne_net (dr_net D)) (b_local_ip b) fdb) b) ())"

definition fdb_add :: "('ip, 'net, 'd, 'w) drv_env \<Rightarrow> fdb_message \<Rightarrow> (('net, 'd, 'w) drv, unit) py" where
  "fdb_add D = fdb_each D add_bigip_fdb"

definition fdb_remove :: "('ip, 'net, 'd, 'w) drv_env \<Rightarrow> fdb_message \<Rightarrow> (('net, 'd, 'w) drv, unit) py" where
  "fdb_remove D = fdb_each D remove_bigip_fdb"

definition fdb_update :: "('ip, 'net, 'd, 'w) drv_env \<Rightarrow> fdb_message \<Rightarrow> (('net, 'd, 'w) drv, unit) py" where
  "fdb_update D = fdb_each D update_bigip_fdb"

text \<open>Nothing is done about a changed tunnel.\<close>

definition driver_tunnel_update :: "('s, unit) py" where
  "driver_tunnel_update = retM ()"

definition driver_tunnel_sync :: "('ip, 'net, 'd, 'w) drv_env \<Rightarrow> (('net, 'd, 'w) drv, bool) py" where
  "driver_tunnel_sync D =
     bindM (getsM dv_tunnel_types) (\<lambda>tys.
       if \<not> list_ex (\<lambda>t. t = ''gre'' \<or> t = ''vxlan'') tys then retM False
       else
         bindM (getsM (\<lambda>s. List.map_filter (\<lambda>b. if get_or '''' (b_local_ip b) = '''' then None else b_local_ip b)
                             (get_all_bigips (dv_hosts s)))) (\<lambda>ips.
         bindM (if f5_global_routed_mode (dr_conf D) then raiseM AttributeError
                else on_world (tunnel_sync (dr_net D) ips)) (\<lambda>_. retM False)))"

definition backup_configuration :: "('ip, 'net, 'd, 'w) drv_env \<Rightarrow> (('net, 'd, 'w) drv, unit option) py" where
  "backup_configuration D = is_operational D (on_active (for_bigips (\<lambda>_. on_dev (save_config (dr_sys D))) ()))"

definition get_loadbalancers_in_tenant ::
  "('ip, 'net, 'd, 'w) drv_env \<Rightarrow> string \<Rightarrow> (('net, 'd, 'w) drv, string list) py" where
  "get_loadbalancers_in_tenant D tenant =
     (case dr_plugin D of
        None \<Rightarrow> raiseM AttributeError
      | Some P \<Rightarrow>
          bindM (on_world (get_all_loadbalancers P (dr_lbs D) None None None)) (\<lambda>lbs.
            retM (map lr_lb_id (filter (\<lambda>r. lr_tenant_id r = tenant) lbs))))"

end
