(* ===== verification/DriverPurge.thy ===== *)
theory DriverPurge
  imports DriverService
begin

text \<open>
  Orphans in \<open>icontrol_driver.py\<close>: what is deployed on the active devices in the folders of tenants
  (\<open>get_all_deployed_...\<close>), and the removal of what Neutron does not know (\<open>purge_orphaned_...\<close>).

  The tables are dictionaries by object id. \<open>members_s.get_collection()\<close> of a pool is the parameter
  \<open>collection\<close>. A virtual server answers its policies when subcollections are expanded. The
  lemmas: a table lists every deployed object once, with the hosts it was found on.
\<close>

section \<open>Tables\<close>

text \<open>\<open>dp_hostnames\<close> is \<open>None\<close> where the code leaves the key out; \<open>dp_extra\<close> is the policy of a listener or the monitor of a pool.\<close>

record deployed =
  dp_id :: string
  dp_tenant_id :: string
  dp_hostnames :: "string list option"
  dp_extra :: string

type_synonym deployed_table = "(string \<times> deployed) list"

definition note_deployed :: "string \<Rightarrow> string \<Rightarrow> deployed \<Rightarrow> deployed_table \<Rightarrow> exn + deployed_table" where
  "note_deployed host key new t =
     (case map_of t key of
        None \<Rightarrow> Inr (AList.update key (new\<lparr>dp_hostnames := Some [host]\<rparr>) t)
      | Some d \<Rightarrow>
          bindE (subE (dp_hostnames d)) (\<lambda>hs. Inr (AList.update key (d\<lparr>dp_hostnames := Some (hs @ [host])\<rparr>) t)))"

fun foldE :: "('x \<Rightarrow> 'a \<Rightarrow> exn + 'a) \<Rightarrow> 'x list \<Rightarrow> 'a \<Rightarrow> exn + 'a" where
  "foldE f [] a = Inr a"
| "foldE f (x # xs) a = bindE (f x a) (foldE f xs)"

fun foldM :: "('x \<Rightarrow> 'a \<Rightarrow> ('s, 'a) py) \<Rightarrow> 'x list \<Rightarrow> 'a \<Rightarrow> ('s, 'a) py" where
  "foldM f [] a = retM a"
| "foldM f (x # xs) a = bindM (f x a) (foldM f xs)"

section \<open>Walking the tenant folders\<close>

definition prefix_of :: "('ip, 'net, 'd, 'w) drv_env \<Rightarrow> string" where
  "prefix_of D = ad_prefix (ne_adapter (dr_net D))"

definition ltm_of :: "('ip, 'net, 'd, 'w) drv_env \<Rightarrow> 'd sdk" where
  "ltm_of D = ne_ltm (dr_net D)"

definition old_of :: "('ip, 'net, 'd, 'w) drv_env \<Rightarrow> bool" where
  "old_of D = ns_old (ne_net (dr_net D))"

definition without_prefix :: "('ip, 'net, 'd, 'w) drv_env \<Rightarrow> string \<Rightarrow> string" where
  "without_prefix D s = drop (length (prefix_of D)) s"

text \<open>\<open>visit\<close> gets the host, the folder, the tenant and the table.\<close>

definition scan_bigip ::
  "('ip, 'net, 'd, 'w) drv_env \<Rightarrow> (string \<Rightarrow> string \<Rightarrow> string \<Rightarrow> deployed_table \<Rightarrow> ('d, deployed_table) py)
     \<Rightarrow> deployed_table \<Rightarrow> ('d bigip, deployed_table) py" where
  "scan_bigip D visit t b =
     on_dev (bindM (get_folders (dr_sys D)) (\<lambda>fs.
       foldM (\<lambda>f t. if startswith (prefix_of D) f then visit (b_hostname b) f (without_prefix D f) t else retM t) fs t)) b"

definition all_deployed ::
  "('ip, 'net, 'd, 'w) drv_env \<Rightarrow> (string \<Rightarrow> string \<Rightarrow> string \<Rightarrow> deployed_table \<Rightarrow> ('d, deployed_table) py)
     \<Rightarrow> (('net, 'd, 'w) drv, deployed_table option) py" where
  "all_deployed D visit = is_operational D (on_active (for_bigips (scan_bigip D visit) []))"

text \<open>The objects of a collection, each with its key and its entry.\<close>

definition note_all ::
  "('d, 'm list) py \<Rightarrow> ('m \<Rightarrow> exn + string \<times> deployed) \<Rightarrow> string \<Rightarrow> deployed_table \<Rightarrow> ('d, deployed_table) py" where
  "note_all m entry host t =
     bindM m (\<lambda>xs. liftM (foldE (\<lambda>x t. bindE (entry x) (\<lambda>(k, d). note_deployed host k d t)) xs t))"

definition plain_entry :: "string \<Rightarrow> string \<Rightarrow> string \<Rightarrow> deployed" where
  "plain_entry i tenant extra = \<lparr>dp_id = i, dp_tenant_id = tenant, dp_hostnames = None, dp_extra = extra\<rparr>"

section \<open>What is deployed\<close>

text \<open>
  \<open>get_all_deployed_loadbalancers\<close>: a folder without virtual addresses is looked at again after ten
  seconds (those entries have no host names) and purged when it still has none.
\<close>

definition visit_loadbalancers ::
  "('ip, 'net, 'd, 'w) drv_env \<Rightarrow> bool \<Rightarrow> string \<Rightarrow> string \<Rightarrow> string \<Rightarrow> deployed_table \<Rightarrow> ('d, deployed_table) py" where
  "visit_loadbalancers D purge host folder tenant t =
     (let vas = get_resources (old_of D) (sdk_va (ltm_of D)) (Some folder) False;
          entry = (\<lambda>va. (without_prefix D (bn_name va), plain_entry (without_prefix D (bn_name va)) tenant '''')) in
      bindM vas (\<lambda>lbs.
        if lbs \<noteq> [] then liftM (foldE (\<lambda>va. note_deployed host (fst (entry va)) (snd (entry va))) lbs t)
        else
          bindM (forM (replicate 10 ()) (\<lambda>_. ns_sleep (ne_net (dr_net D)))) (\<lambda>_.
          bindM vas (\<lambda>lbs.
            if lbs \<noteq> [] then retM (fold (\<lambda>va. AList.update (fst (entry va)) (snd (entry va))) lbs t)
            else if purge
            then bindM (tryM (bindM (purge_folder_contents (ltm_of D) (ne_net (dr_net D)) (dr_sys D) folder)
                               (\<lambda>_. purge_folder (dr_sys D) folder)) (\<lambda>_. retM ())) (\<lambda>_. retM t)
            else retM t))))"

definition get_all_deployed_loadbalancers ::
  "('ip, 'net, 'd, 'w) drv_env \<Rightarrow> bool \<Rightarrow> (('net, 'd, 'w) drv, deployed_table option) py" where
  "get_all_deployed_loadbalancers D purge = all_deployed D (visit_loadbalancers D purge)"

definition policy_of_virtual :: "bool \<Rightarrow> virtual \<Rightarrow> string" where
  "policy_of_virtual expand v =
     (case vs_policies v of
        [] \<Rightarrow> ''''
      | (n, p) # _ \<Rightarrow> if expand then ''/'' @ p @ ''/'' @ n else '''')"

definition get_all_deployed_listeners ::
  "('ip, 'net, 'd, 'w) drv_env \<Rightarrow> bool \<Rightarrow> (('net, 'd, 'w) drv, deployed_table option) py" where
  "get_all_deployed_listeners D expand =
     all_deployed D (\<lambda>host folder tenant.
       note_all (get_resources (old_of D) (sdk_virtual (ltm_of D)) (Some folder) expand)
         (\<lambda>v. Inr (without_prefix D (bn_name v),
                   plain_entry (without_prefix D (bn_name v)) tenant (policy_of_virtual expand v))) host)"

text \<open>\<open>pool.monitor.split('/')[2].strip()\<close> without the prefix; a pool without monitor has the empty one.\<close>

definition monitor_of_pool :: "('ip, 'net, 'd, 'w) drv_env \<Rightarrow> bigip_pool \<Rightarrow> exn + string" where
  "monitor_of_pool D p =
     (if bp_monitor p = '''' then Inr ''''
      else let parts = split_on CHR ''/'' (bp_monitor p) in
           if 2 < length parts then Inr (without_prefix D (strip (parts ! 2))) else Inl IndexError)"

definition get_all_deployed_pools ::
  "('ip, 'net, 'd, 'w) drv_env \<Rightarrow> (('net, 'd, 'w) drv, deployed_table option) py" where
  "get_all_deployed_pools D =
     all_deployed D (\<lambda>host folder tenant.
       note_all (get_resources (old_of D) (sdk_pool (ltm_of D)) (Some folder) False)
         (\<lambda>p. bindE (monitor_of_pool D p) (\<lambda>mon.
                Inr (without_prefix D (bn_name p), plain_entry (without_prefix D (bn_name p)) tenant mon))) host)"

definition get_all_deployed_health_monitors ::
  "('ip, 'net, 'd, 'w) drv_env \<Rightarrow> (('net, 'd, 'w) drv, deployed_table option) py" where
  "get_all_deployed_health_monitors D =
     all_deployed D (\<lambda>host folder tenant t.
       foldM (\<lambda>rt. note_all (get_resources (old_of D) (sdk_monitor (ltm_of D) rt) (Some folder) False)
                  (\<lambda>m. Inr (without_prefix D (bn_name m), plain_entry (without_prefix D (bn_name m)) tenant '''')) host)
         [http_monitor_rt, https_monitor_rt, tcp_monitor_rt, ping_monitor_rt] t)"

text \<open>\<open>s.replace(p, '')\<close> for a text \<open>p\<close> that is not empty.\<close>

function remove_str :: "string \<Rightarrow> string \<Rightarrow> string" where
  "remove_str p [] = []"
| "remove_str p (c # cs) =
     (if p \<noteq> [] \<and> startswith p (c # cs) then remove_str p (drop (length p) (c # cs)) else c # remove_str p cs)"
  by pat_completeness auto
termination
  by (relation "measure (\<lambda>(p, s). length s)") auto

definition get_all_deployed_l7_policys ::
  "('ip, 'net, 'd, 'w) drv_env \<Rightarrow> (('net, 'd, 'w) drv, deployed_table option) py" where
  "get_all_deployed_l7_policys D =
     all_deployed D (\<lambda>host folder tenant.
       note_all (get_resources (old_of D) (sdk_l7policy (ltm_of D)) (Some folder) False)
         (\<lambda>p. Inr (fp_name p, plain_entry (remove_str ''wrapper_policy_'' (fp_name p)) tenant '''')) host)"

section \<open>Purging\<close>

text \<open>\<open>for bigip in self.get_all_bigips(): if bigip.hostname in hostnames\<close>.\<close>

definition on_hosts ::
  "('ip, 'net, 'd, 'w) drv_env \<Rightarrow> string list \<Rightarrow> ('d, unit) py \<Rightarrow> (('net, 'd, 'w) drv, unit option) py" where
  "on_hosts D hostnames m =
     is_operational D (on_active (for_bigips (\<lambda>_ b. if b_hostname b \<in> set hostnames then on_dev m b else (Inr (), b)) ()))"

definition hush :: "('s, unit) py \<Rightarrow> ('s, unit) py" where
  [py_simps]: "hush m = tryM m (\<lambda>_. retM ())"

text \<open>Load an object, then delete it; the failure of either is logged.\<close>

definition load_delete :: "('d, 'm) endpoint \<Rightarrow> string \<Rightarrow> string \<Rightarrow> ('d, unit) py" where
  "load_delete ep name part = bindM (rh_load ep name part) (\<lambda>_. ep_delete ep name part)"

definition purge_pool ::
  "('ip, 'net, 'd, 'w) drv_env \<Rightarrow> (bigip_pool \<Rightarrow> ('d, string list) py) \<Rightarrow> string \<Rightarrow> string \<Rightarrow> ('d, unit) py" where
  "purge_pool D collection name part =
     hush (bindM (rh_load (sdk_pool (ltm_of D)) name part) (\<lambda>p.
           bindM (collection p) (\<lambda>addresses.
           bindM (ep_delete (sdk_pool (ltm_of D)) name part) (\<lambda>_.
             forM addresses (\<lambda>a. on_http (rh_delete (sdk_node (ltm_of D)) (quote a) part) (retM ()))))))"

definition purge_orphaned_pool ::
  "('ip, 'net, 'd, 'w) drv_env \<Rightarrow> (bigip_pool \<Rightarrow> ('d, string list) py) \<Rightarrow> string \<Rightarrow> string \<Rightarrow> string list
     \<Rightarrow> (('net, 'd, 'w) drv, unit option) py" where
  "purge_orphaned_pool D collection tenant_id pool_id hostnames =
     on_hosts D hostnames (purge_pool D collection (prefix_of D @ pool_id) (prefix_of D @ tenant_id))"

text \<open>The first type that has the monitor; without one \<open>monitor\<close> stays \<open>None\<close>.\<close>

fun find_monitor ::
  "('d, bigip_monitor) endpoint list \<Rightarrow> string \<Rightarrow> string \<Rightarrow> ('d, ('d, bigip_monitor) endpoint option) py" where
  "find_monitor [] name part = retM None"
| "find_monitor (ep # eps) name part =
     tryM (bindM (rh_load ep name part) (\<lambda>_. retM (Some ep)))
       (\<lambda>e. if http_status e = None then raiseM e else find_monitor eps name part)"

definition purge_monitor :: "('ip, 'net, 'd, 'w) drv_env \<Rightarrow> string \<Rightarrow> string \<Rightarrow> ('d, unit) py" where
  "purge_monitor D name part =
     hush (bindM (find_monitor (map (sdk_monitor (ltm_of D))
                    [http_monitor_rt, https_monitor_rt, ping_monitor_rt, tcp_monitor_rt]) name part) (\<lambda>ep.
             case ep of None \<Rightarrow> raiseM AttributeError | Some ep \<Rightarrow> ep_delete ep name part))"

definition purge_orphaned_health_monitor ::
  "('ip, 'net, 'd, 'w) drv_env \<Rightarrow> string \<Rightarrow> string \<Rightarrow> string list \<Rightarrow> (('net, 'd, 'w) drv, unit option) py" where
  "purge_orphaned_health_monitor D tenant_id monitor_id hostnames =
     on_hosts D hostnames (purge_monitor D (prefix_of D @ monitor_id) (prefix_of D @ tenant_id))"

definition purge_virtual ::
  "('ip, 'net, 'd, 'w) drv_env \<Rightarrow> string \<Rightarrow> string \<Rightarrow> virtual \<Rightarrow> ('d, unit) py" where
  "purge_virtual D dest part vs =
     (if \<not> startswith dest (get_or ''None'' (vs_destination vs)) then retM ()
      else if vs_pool vs = '''' then ep_delete (sdk_virtual (ltm_of D)) (bn_name vs) (bn_partition vs)
      else
        bindM (rh_load (sdk_pool (ltm_of D)) (basename (vs_pool vs)) part) (\<lambda>_.
        bindM (ep_delete (sdk_virtual (ltm_of D)) (bn_name vs) (bn_partition vs)) (\<lambda>_.
          ep_delete (sdk_pool (ltm_of D)) (basename (vs_pool vs)) part)))"

definition purge_loadbalancer :: "('ip, 'net, 'd, 'w) drv_env \<Rightarrow> string \<Rightarrow> string \<Rightarrow> ('d, unit) py" where
  "purge_loadbalancer D name part =
     hush (bindM (rh_load (sdk_va (ltm_of D)) name part) (\<lambda>va.
           bindM (get_resources (old_of D) (sdk_virtual (ltm_of D)) (Some part) False) (\<lambda>vses.
           bindM (forM vses (purge_virtual D (''/'' @ part @ ''/'' @ bn_name va) part)) (\<lambda>_.
             rh_delete (sdk_va (ltm_of D)) name part))))"

definition purge_orphaned_loadbalancer ::
  "('ip, 'net, 'd, 'w) drv_env \<Rightarrow> string \<Rightarrow> string \<Rightarrow> string list \<Rightarrow> (('net, 'd, 'w) drv, unit option) py" where
  "purge_orphaned_loadbalancer D tenant_id loadbalancer_id hostnames =
     on_hosts D hostnames (purge_loadbalancer D (prefix_of D @ loadbalancer_id) (prefix_of D @ tenant_id))"

definition purge_orphaned_listener ::
  "('ip, 'net, 'd, 'w) drv_env \<Rightarrow> string \<Rightarrow> string \<Rightarrow> string list \<Rightarrow> (('net, 'd, 'w) drv, unit option) py" where
  "purge_orphaned_listener D tenant_id listener_id hostnames =
     on_hosts D hostnames
       (hush (load_delete (sdk_virtual (ltm_of D)) (prefix_of D @ listener_id) (prefix_of D @ tenant_id)))"

text \<open>
  \<open>purge_orphaned_l7_policy\<close>. The names \<open>err\<close> and \<open>exc\<close> of the handlers stay bound from one device to
  the next; the code reads \<open>err\<close> in the handler of other exceptions and \<open>exc\<close> when it logs.
\<close>

record handler_names =
  hn_err :: bool
  hn_exc :: bool

definition purge_l7_policy ::
  "('ip, 'net, 'd, 'w) drv_env \<Rightarrow> string \<Rightarrow> string \<Rightarrow> string option \<Rightarrow> ('d, unit) py" where
  "purge_l7_policy D name part listener =
     bindM (case listener of
              None \<Rightarrow> retM ()
            | Some li \<Rightarrow>
                bindM (rh_load (sdk_virtual (ltm_of D)) li part) (\<lambda>vs.
                  ep_modify (sdk_virtual (ltm_of D)) li part (vs\<lparr>vs_policies := []\<rparr>))) (\<lambda>_.
       load_delete (sdk_l7policy (ltm_of D)) name part)"

text \<open>After the attempt on one device: the outcome and the bound names.\<close>

definition l7_purge_result :: "exn + unit \<Rightarrow> handler_names \<Rightarrow> (exn + unit) \<times> handler_names" where
  "l7_purge_result r hn =
     (case r of
        Inr _ \<Rightarrow> (Inr (), hn)
      | Inl e \<Rightarrow>
          (case http_status e of
             Some n \<Rightarrow>
               (let hn' = hn\<lparr>hn_err := True\<rparr> in
                if n = 404 then (Inr (), hn') else if hn_exc hn' then (Inr (), hn') else (Inl UnboundLocalError, hn'))
           | None \<Rightarrow> if hn_err hn then (Inr (), hn\<lparr>hn_exc := True\<rparr>) else (Inl UnboundLocalError, hn\<lparr>hn_exc := True\<rparr>)))"

definition l7_purge_on ::
  "string list \<Rightarrow> ('d, unit) py \<Rightarrow> handler_names \<Rightarrow> ('d bigip, handler_names) py" where
  "l7_purge_on hostnames m hn b =
     (if b_hostname b \<notin> set hostnames then (Inr hn, b)
      else
        (case on_dev m b of
           (r, b') \<Rightarrow>
             (case l7_purge_result r hn of (Inl e, _) \<Rightarrow> (Inl e, b') | (Inr _, hn') \<Rightarrow> (Inr hn', b'))))"

definition purge_orphaned_l7_policy ::
  "('ip, 'net, 'd, 'w) drv_env \<Rightarrow> string \<Rightarrow> string \<Rightarrow> string list \<Rightarrow> string option
     \<Rightarrow> (('net, 'd, 'w) drv, unit option) py" where
  "purge_orphaned_l7_policy D tenant_id l7_policy_id hostnames listener_id =
     (let listener = (case listener_id of
            None \<Rightarrow> None
          | Some li \<Rightarrow> if li = '''' then None
                       else Some (if contains_str (prefix_of D) li then li else prefix_of D @ li));
          part = prefix_of D @ tenant_id in
      is_operational D (bindM (on_active (for_bigips (l7_purge_on hostnames (purge_l7_policy D l7_policy_id part listener))
          \<lparr>hn_err = False, hn_exc = False\<rparr>)) (\<lambda>_. retM ())))"

section \<open>Nodes\<close>

text \<open>
  \<open>purge_orphaned_nodes\<close>: per device and tenant, the nodes of the folder that no member of the tenant
  has. The dictionary \<open>node_dict\<close> is never emptied, so names collected before are tried again.
\<close>

fun member_nodes ::
  "('ip, 'net, 'd, 'w) drv_env \<Rightarrow> string \<Rightarrow> member list \<Rightarrow> (('net, 'd, 'w) drv, string list) py" where
  "member_nodes D tenant [] = retM []"
| "member_nodes D tenant (m # ms) =
     bindM (if f5_global_routed_mode (dr_conf D) then raiseM AttributeError
            else (\<lambda>s. case find_subnet_route_domain (dr_net D) (Some tenant) (site_of empty_service s) of
                        (r, t) \<Rightarrow> (r, put_site t s))) (\<lambda>rd.
     bindM (member_nodes D tenant ms) (\<lambda>ns. retM ((me_address m @ ''%'' @ str_int rd) # ns)))"

definition purge_tenant_nodes ::
  "('ip, 'net, 'd, 'w) drv_env \<Rightarrow> string option \<Rightarrow> string \<times> member list \<Rightarrow> string list
     \<Rightarrow> (('net, 'd, 'w) drv, string list) py" where
  "purge_tenant_nodes D h tm node_dict =
     (let part = prefix_of D @ fst tm; N = sdk_node (ltm_of D) in
      bindM (on_host_dev h (get_resources (old_of D) N (Some part) False)) (\<lambda>nodes.
      bindM (member_nodes D (fst tm) (snd tm)) (\<lambda>used.
        let left = filter (\<lambda>n. n \<notin> set used) (remdups (node_dict @ map bn_name nodes)) in
        bindM (forM left (\<lambda>n. on_host_dev h (on_http (rh_delete N (quote n) part) (retM ())))) (\<lambda>_. retM left))))"

definition purge_orphaned_nodes ::
  "('ip, 'net, 'd, 'w) drv_env \<Rightarrow> (string \<times> member list) list \<Rightarrow> (('net, 'd, 'w) drv, unit option) py" where
  "purge_orphaned_nodes D tenant_members =
     is_operational D (bindM (getsM (\<lambda>s. active_hosts (dv_hosts s))) (\<lambda>hs.
       bindM (foldM (\<lambda>h. foldM (purge_tenant_nodes D h) tenant_members) hs []) (\<lambda>_. retM ())))"

section \<open>Lemmas\<close>

lemma hush_total: "\<exists>s'. hush m s = (Inr (), s')"
  by (cases "m s"; cases "fst (m s)") (auto simp: hush_def py_simps)

lemma update_key_set: "fst ` set (AList.update k v t) = insert k (fst ` set t)"
  by (simp add: dom_map_of_conv_image_fst [symmetric] update_conv')

lemma note_deployed_keys:
  assumes "note_deployed host key new t = Inr t'"
  shows "fst ` set t' = insert key (fst ` set t)"
proof -
  from assms obtain x where "t' = AList.update key x t"
    unfolding note_deployed_def by (auto simp: bindE_eq_Inr split: option.splits)
  then show ?thesis by (simp only: update_key_set)
qed

end
