(* ===== verification/DeployedTables.thy ===== *)
theory DeployedTables
  imports DriverPurge
begin

text \<open>
  What a table of deployed objects holds: for each object, the hosts it was found on, once for every time
  it was found. \<open>tallies\<close> states this for a part of the walk over the devices; its lemmas follow the loops.
\<close>

definition hosts_in :: "deployed_table \<Rightarrow> string \<Rightarrow> string list" where
  "hosts_in t k = (case map_of t k of None \<Rightarrow> [] | Some d \<Rightarrow> get_or [] (dp_hostnames d))"

text \<open>A table whose entries all have host names.\<close>

definition hosted :: "deployed_table \<Rightarrow> bool" where
  "hosted t \<longleftrightarrow> (\<forall>k d. map_of t k = Some d \<longrightarrow> dp_hostnames d \<noteq> None)"

lemma note_deployed_hosts:
  assumes "hosted t"
  shows "\<exists>t'. note_deployed host key new t = Inr t' \<and> hosted t' \<and>
    (\<forall>k. hosts_in t' k = hosts_in t k @ (if k = key then [host] else []))"
proof (cases "map_of t key")
  case None
  with assms show ?thesis by (auto simp: note_deployed_def hosted_def hosts_in_def update_conv')
next
  case (Some d)
  with assms obtain hs where "dp_hostnames d = Some hs" by (auto simp: hosted_def)
  with Some assms show ?thesis by (auto simp: note_deployed_def hosted_def hosts_in_def update_conv')
qed

definition tallies :: "(deployed_table \<Rightarrow> ('d, deployed_table) py) \<Rightarrow> 'd \<Rightarrow> (string \<Rightarrow> string list) \<Rightarrow> bool" where
  "tallies m d L \<longleftrightarrow> (\<forall>t. hosted t \<longrightarrow>
     (\<exists>t'. m t d = (Inr t', d) \<and> hosted t' \<and> (\<forall>k. hosts_in t' k = hosts_in t k @ L k)))"

lemma talliesE:
  assumes "tallies m d L" and "hosted t"
  obtains t' where "m t d = (Inr t', d)" and "hosted t'" and "\<And>k. hosts_in t' k = hosts_in t k @ L k"
  using assms unfolding tallies_def by blast

text \<open>The hosts of an object among the found ones.\<close>

definition found :: "string \<Rightarrow> ('m \<Rightarrow> string) \<Rightarrow> 'm list \<Rightarrow> string \<Rightarrow> string list" where
  "found host key xs k = map (\<lambda>_. host) (filter (\<lambda>x. key x = k) xs)"

lemma foldE_tallies:
  assumes "hosted t" and "\<And>x. x \<in> set xs \<Longrightarrow> \<exists>d. entry x = Inr (key x, d)"
  shows "\<exists>t'. foldE (\<lambda>x t. bindE (entry x) (\<lambda>(k, d). note_deployed host k d t)) xs t = Inr t' \<and> hosted t' \<and>
    (\<forall>k. hosts_in t' k = hosts_in t k @ found host key xs k)"
  using assms
proof (induction xs arbitrary: t)
  case (Cons x xs)
  from Cons.prems(2) obtain d where d: "entry x = Inr (key x, d)" by force
  from note_deployed_hosts [OF Cons.prems(1)] obtain t1
    where 1: "note_deployed host (key x) d t = Inr t1" "hosted t1"
      "\<forall>k. hosts_in t1 k = hosts_in t k @ (if k = key x then [host] else [])" by metis
  from Cons.IH [OF 1(2)] Cons.prems(2) obtain t2
    where 2: "foldE (\<lambda>x t. bindE (entry x) (\<lambda>(k, d). note_deployed host k d t)) xs t1 = Inr t2" "hosted t2"
      "\<forall>k. hosts_in t2 k = hosts_in t1 k @ found host key xs k" by (metis list.set_intros(2))
  with 1 d show ?case by (auto simp: found_def)
qed (simp add: found_def)

lemma note_all_tallies:
  assumes "m d = (Inr xs, d)" and "\<And>x. x \<in> set xs \<Longrightarrow> \<exists>e. entry x = Inr (key x, e)"
  shows "tallies (note_all m entry host) d (found host key xs)"
  unfolding tallies_def note_all_def
  using foldE_tallies [of _ xs entry key host] assms by (auto simp: bindM_def liftM_def)

lemma foldM_tallies:
  assumes "\<And>x. x \<in> set xs \<Longrightarrow> tallies (f x) d (L x)"
  shows "tallies (foldM f xs) d (\<lambda>k. concat (map (\<lambda>x. L x k) xs))"
  using assms
proof (induction xs)
  case Nil
  then show ?case by (simp add: tallies_def retM_def)
next
  case (Cons x xs)
  show ?case unfolding tallies_def
  proof (intro allI impI)
    fix t assume "hosted t"
    with Cons.prems [of x] obtain t1 where 1: "f x t d = (Inr t1, d)" "hosted t1"
      "\<forall>k. hosts_in t1 k = hosts_in t k @ L x k" by (auto simp: tallies_def)
    from Cons 1(2) obtain t2 where 2: "foldM f xs t1 d = (Inr t2, d)" "hosted t2"
      "\<forall>k. hosts_in t2 k = hosts_in t1 k @ concat (map (\<lambda>x. L x k) xs)"
      unfolding tallies_def by (meson list.set_intros(2))
    from 1 2 show "\<exists>t'. foldM f (x # xs) t d = (Inr t', d) \<and> hosted t' \<and>
        (\<forall>k. hosts_in t' k = hosts_in t k @ concat (map (\<lambda>x. L x k) (x # xs)))"
      by (simp add: bindM_def)
  qed
qed

lemma for_bigips_tallies:
  assumes "\<And>b. b \<in> set bs \<Longrightarrow> tallies (\<lambda>t. f t) b (L b)" and "hosted t"
  shows "\<exists>t'. for_bigips f t bs = (Inr t', bs) \<and> hosted t' \<and>
    (\<forall>k. hosts_in t' k = hosts_in t k @ concat (map (\<lambda>b. L b k) bs))"
  using assms
proof (induction bs arbitrary: t)
  case (Cons b bs)
  from Cons.prems have "tallies f b (L b)" by simp
  from talliesE [OF this Cons.prems(2)] obtain t1 where 1: "f t b = (Inr t1, b)" "hosted t1"
    "\<And>k. hosts_in t1 k = hosts_in t k @ L b k" by blast
  from Cons.IH [OF _ 1(2)] Cons.prems(1) obtain t2 where "for_bigips f t1 bs = (Inr t2, bs)" "hosted t2"
    "\<forall>k. hosts_in t2 k = hosts_in t1 k @ concat (map (\<lambda>b. L b k) bs)" by (meson list.set_intros(2))
  with 1 show ?case by auto
qed simp

text \<open>The walk over the tenant folders of one device.\<close>

lemma scan_bigip_tallies:
  assumes "get_folders (dr_sys D) (b_dev b) = (Inr fs, b_dev b)"
    and "\<And>f. f \<in> set fs \<Longrightarrow> startswith (prefix_of D) f \<Longrightarrow>
      tallies (visit (b_hostname b) f (without_prefix D f)) (b_dev b) (L f)"
  shows "tallies (scan_bigip D visit) b (\<lambda>k. concat (map (\<lambda>f. L f k) (filter (startswith (prefix_of D)) fs)))"
proof -
  have "tallies (foldM (\<lambda>f t. if startswith (prefix_of D) f then visit (b_hostname b) f (without_prefix D f) t else retM t) fs)
      (b_dev b) (\<lambda>k. concat (map (\<lambda>f. if startswith (prefix_of D) f then L f k else []) fs))"
    by (rule foldM_tallies) (use assms(2) in \<open>auto simp: tallies_def retM_def\<close>)
  moreover have "concat (map (\<lambda>f. if startswith (prefix_of D) f then L f k else []) fs)
      = concat (map (\<lambda>f. L f k) (filter (startswith (prefix_of D)) fs))" for k
    by (induction fs) auto
  ultimately have t: "tallies (foldM (\<lambda>f t. if startswith (prefix_of D) f
      then visit (b_hostname b) f (without_prefix D f) t else retM t) fs)
      (b_dev b) (\<lambda>k. concat (map (\<lambda>f. L f k) (filter (startswith (prefix_of D)) fs)))" by simp
  show ?thesis unfolding tallies_def
  proof (intro allI impI)
    fix t assume "hosted t"
    from talliesE [OF t this] obtain t' where t': "foldM (\<lambda>f t. if startswith (prefix_of D) f
        then visit (b_hostname b) f (without_prefix D f) t else retM t) fs t (b_dev b) = (Inr t', b_dev b)" "hosted t'"
      "\<And>k. hosts_in t' k = hosts_in t k @ concat (map (\<lambda>f. L f k) (filter (startswith (prefix_of D)) fs))" by blast
    from t' assms(1) show "\<exists>t'. scan_bigip D visit t b = (Inr t', b) \<and> hosted t' \<and>
        (\<forall>k. hosts_in t' k = hosts_in t k @ concat (map (\<lambda>f. L f k) (filter (startswith (prefix_of D)) fs)))"
      by (simp add: scan_bigip_def on_dev_def bindM_def)
  qed
qed

text \<open>All active devices.\<close>

lemma all_deployed_tallies:
  assumes "dv_operational s" and "\<And>b. b \<in> set (get_all_bigips (dv_hosts s)) \<Longrightarrow> tallies (scan_bigip D visit) b (L b)"
    and "put_active (dv_hosts s) (get_all_bigips (dv_hosts s)) = dv_hosts s"
  shows "\<exists>t. all_deployed D visit s = (Inr (Some t), s) \<and>
    (\<forall>k. hosts_in t k = concat (map (\<lambda>b. L b k) (get_all_bigips (dv_hosts s))))"
proof -
  have "hosted []" by (simp add: hosted_def)
  from for_bigips_tallies [OF assms(2) this] obtain t
    where "for_bigips (scan_bigip D visit) [] (get_all_bigips (dv_hosts s)) = (Inr t, get_all_bigips (dv_hosts s))"
      "\<forall>k. hosts_in t k = hosts_in [] k @ concat (map (\<lambda>b. L b k) (get_all_bigips (dv_hosts s)))" by blast
  with assms(1,3) show ?thesis
    by (simp add: all_deployed_def is_operational_def bindM_def getsM_def on_active_def retM_def hosts_in_def)
qed

end
