(* ===== verification/StatusReports.thy ===== *)
theory StatusReports
  imports DriverService
begin

text \<open>
  What the driver tells Neutron about a service, as a list: one message, or none, for each object. The
  update routines of \<open>DriverService\<close>, which send while they walk through the service, send this list
  and leave the objects as \<open>service_after\<close> says.
\<close>

section \<open>The messages of an object\<close>

definition object_report :: "pstatus \<Rightarrow> rpc_body \<Rightarrow> rpc_body \<Rightarrow> rpc_body \<Rightarrow> rpc_body list" where
  "object_report st good destroyed bad =
     (if positive_state st then [good] else if st = PENDING_DELETE then [destroyed]
      else if st = ERROR then [bad] else [])"

definition after_report :: "('o \<Rightarrow> pstatus) \<Rightarrow> ('o \<Rightarrow> 'o) \<Rightarrow> 'o \<Rightarrow> 'o" where
  "after_report status act x = (if positive_state (status x) then act x else x)"

definition member_report :: "bool \<Rightarrow> member \<Rightarrow> rpc_body list" where
  "member_report timed_out m =
     (case me_status m of
        None \<Rightarrow> []
      | Some st \<Rightarrow>
          if st = PENDING_DELETE \<and> me_parent_pool_deleted m then []
          else object_report st
                 (msg_member_status (me_id m) (Some (if timed_out then ERROR else ACTIVE))
                    (Some (if timed_out then OFFLINE else ONLINE)))
                 (msg_member_destroyed (me_id m)) (msg_member_status (me_id m) (Some ERROR) (Some OFFLINE)))"

definition member_after :: "bool \<Rightarrow> member \<Rightarrow> member" where
  "member_after timed_out m =
     (case me_status m of
        None \<Rightarrow> m
      | Some st \<Rightarrow> if positive_state st then m\<lparr>me_status := Some (if timed_out then ERROR else ACTIVE)\<rparr> else m)"

definition hm_report :: "healthmonitor \<Rightarrow> rpc_body list" where
  "hm_report x = object_report (hm_status x) (msg_health_monitor_status (hm_id x) ACTIVE ONLINE)
     (msg_health_monitor_destroyed (hm_id x)) (msg_health_monitor_status (hm_id x) ERROR OFFLINE)"

definition pool_report :: "pool \<Rightarrow> rpc_body list" where
  "pool_report x = object_report (po_status x) (msg_pool_status (po_id x) ACTIVE ONLINE)
     (msg_pool_destroyed (po_id x)) (msg_pool_status (po_id x) ERROR OFFLINE)"

definition listener_report :: "listener \<Rightarrow> rpc_body list" where
  "listener_report x = object_report (li_status x) (msg_listener_status (li_id x) ACTIVE (li_operating_status x))
     (msg_listener_destroyed (li_id x)) (msg_listener_status (li_id x) ERROR (Some OFFLINE))"

definition l7rule_report :: "l7rule \<Rightarrow> rpc_body list" where
  "l7rule_report x = object_report (l7r_status x) (msg_l7rule_status (l7r_id x) (l7r_policy_id x) ACTIVE ONLINE)
     (msg_l7rule_destroyed (l7r_id x)) (msg_l7rule_status (l7r_id x) (l7r_policy_id x) ERROR OFFLINE)"

definition l7policy_report :: "l7policy \<Rightarrow> rpc_body list" where
  "l7policy_report x = object_report (l7p_status x) (msg_l7policy_status (l7p_id x) ACTIVE ONLINE)
     (msg_l7policy_destroyed (l7p_id x)) (msg_l7policy_status (l7p_id x) ERROR OFFLINE)"

text \<open>A load balancer that times out while it is created is in error; while it is updated it is only offline.\<close>

definition lb_report :: "bool \<Rightarrow> loadbalancer \<Rightarrow> rpc_body list" where
  "lb_report timed_out lb =
     object_report (lb_status lb)
       (msg_loadbalancer_status (lb_id lb) (Some (if timed_out \<and> lb_status lb = PENDING_CREATE then ERROR else ACTIVE))
          (Some (if timed_out then OFFLINE else ONLINE)))
       (msg_loadbalancer_destroyed (lb_id lb)) (msg_loadbalancer_status (lb_id lb) (Some ERROR) (Some OFFLINE))"

definition lb_after :: "bool \<Rightarrow> loadbalancer \<Rightarrow> loadbalancer" where
  "lb_after timed_out lb =
     (if positive_state (lb_status lb)
      then set_lb_status (if timed_out \<and> lb_status lb = PENDING_CREATE then ERROR else ACTIVE) lb else lb)"

section \<open>The messages of a service\<close>

definition service_report :: "bool \<Rightarrow> service \<Rightarrow> rpc_body list" where
  "service_report timed_out svc =
     concat (map (member_report timed_out) (get_all (sv_members svc))) @
     concat (map hm_report (get_all (sv_healthmonitors svc))) @
     concat (map pool_report (get_all (sv_pools svc))) @
     concat (map listener_report (get_all (sv_listeners svc))) @
     concat (map l7rule_report (get_all (sv_l7policy_rules svc))) @
     concat (map l7policy_report (get_all (sv_l7policies svc))) @
     (case sv_loadbalancer svc of None \<Rightarrow> [] | Some lb \<Rightarrow> lb_report timed_out lb)"

definition service_after :: "bool \<Rightarrow> service \<Rightarrow> service" where
  "service_after timed_out svc =
     svc\<lparr>sv_members := map_option (map (member_after timed_out)) (sv_members svc),
         sv_healthmonitors := map_option (map (after_report hm_status (set_hm_status ACTIVE))) (sv_healthmonitors svc),
         sv_pools := map_option (map (after_report po_status (set_po_status ACTIVE))) (sv_pools svc),
         sv_listeners := map_option (map (after_report li_status (set_li_status ACTIVE))) (sv_listeners svc),
         sv_loadbalancer := map_option (lb_after timed_out) (sv_loadbalancer svc)\<rparr>"

section \<open>The update routines send exactly these\<close>

text \<open>A step that sends a list of messages with a client that does not fail.\<close>

definition sends :: "(rpc_body \<Rightarrow> 'w \<Rightarrow> 'w) \<Rightarrow> ('o \<Rightarrow> 'w \<Rightarrow> (exn + unit) \<times> 'o \<times> 'w) \<Rightarrow> ('o \<Rightarrow> rpc_body list) \<Rightarrow> ('o \<Rightarrow> 'o) \<Rightarrow> 'o \<Rightarrow> bool" where
  "sends f step report after x \<longleftrightarrow> (\<forall>w. step x w = (Inr (), after x, fold f (report x) w))"

lemma inplace_sends:
  assumes "\<And>x. x \<in> set xs \<Longrightarrow> sends f step report after x"
  shows "inplace step xs w = (Inr (), map after xs, fold f (concat (map report xs)) w)"
  using assms
proof (induction xs arbitrary: w)
  case (Cons x xs)
  have "step x w = (Inr (), after x, fold f (report x) w)" using Cons.prems by (simp add: sends_def)
  moreover have "inplace step xs (fold f (report x) w)
      = (Inr (), map after xs, fold f (concat (map report xs)) (fold f (report x) w))"
    using Cons by simp
  ultimately show ?case by simp
qed simp

lemma for_objs_sends:
  assumes "\<And>x. x \<in> set (get_all (get svc)) \<Longrightarrow> sends f step report after x"
  shows "if_present get (for_objs get put step) (svc, w) =
    (Inr (), (case get svc of None \<Rightarrow> svc | Some xs \<Rightarrow> put (map after xs) svc),
     fold f (concat (map report (get_all (get svc)))) w)"
  using inplace_sends [of "get_all (get svc)" f step report after w] assms
  by (auto simp: if_present_def for_objs_def get_all_def split: option.splits)

lemma update_provisioning_sends:
  assumes "send = (\<lambda>b w. (Inr (), f b w))"
    and "positive_state (status x) \<Longrightarrow> good x = Inr (g x)"
  shows "sends f (update_provisioning send status act good destroyed bad)
    (\<lambda>x. object_report (status x) (g x) (destroyed x) (bad x)) (after_report status act) x"
  using assms by (auto simp: sends_def update_provisioning_def with_status_def object_report_def after_report_def
      positive_state_def)

lemma member_sends:
  assumes "send = (\<lambda>b w. (Inr (), f b w))"
  shows "sends f (update_member_provisioning send timed_out) (member_report timed_out) (member_after timed_out) x"
  using assms by (auto simp: sends_def update_member_provisioning_def with_status_def member_report_def
      member_after_def object_report_def positive_state_def Let_def split: option.splits)

lemma lb_sends:
  assumes "send = (\<lambda>b w. (Inr (), f b w))"
  shows "sends f (update_loadbalancer_provisioning send timed_out) (lb_report timed_out) (lb_after timed_out) x"
  using assms by (auto simp: sends_def update_loadbalancer_provisioning_def with_status_def lb_report_def lb_after_def
      object_report_def positive_state_def Let_def)

lemma update_members_sends:
  assumes "send = (\<lambda>b w. (Inr (), f b w))"
  shows "if_present sv_members (update_members_status send timed_out) (svc, w) =
    (Inr (), svc\<lparr>sv_members := map_option (map (member_after timed_out)) (sv_members svc)\<rparr>,
     fold f (concat (map (member_report timed_out) (get_all (sv_members svc)))) w)"
  unfolding update_members_status_def
  by (subst for_objs_sends [OF member_sends [OF assms]]) (auto split: option.splits)

lemma update_health_monitors_sends:
  assumes "send = (\<lambda>b w. (Inr (), f b w))"
  shows "if_present sv_healthmonitors (update_health_monitors_status send) (svc, w) =
    (Inr (), svc\<lparr>sv_healthmonitors := map_option (map (after_report hm_status (set_hm_status ACTIVE))) (sv_healthmonitors svc)\<rparr>,
     fold f (concat (map hm_report (get_all (sv_healthmonitors svc)))) w)"
  unfolding update_health_monitors_status_def update_health_monitor_provisioning_def hm_report_def
  by (subst for_objs_sends, rule update_provisioning_sends [OF assms], rule refl) (auto split: option.splits)

lemma update_pools_sends:
  assumes "send = (\<lambda>b w. (Inr (), f b w))"
  shows "if_present sv_pools (update_pools_status send) (svc, w) =
    (Inr (), svc\<lparr>sv_pools := map_option (map (after_report po_status (set_po_status ACTIVE))) (sv_pools svc)\<rparr>,
     fold f (concat (map pool_report (get_all (sv_pools svc)))) w)"
  unfolding update_pools_status_def update_pool_provisioning_def pool_report_def
  by (subst for_objs_sends, rule update_provisioning_sends [OF assms], rule refl) (auto split: option.splits)

lemma listener_sends:
  assumes "send = (\<lambda>b w. (Inr (), f b w))" and "positive_state (li_status x) \<longrightarrow> li_operating_status x \<noteq> None"
  shows "sends f (update_listener_provisioning send) listener_report (after_report li_status (set_li_status ACTIVE)) x"
  using assms by (auto simp: sends_def update_listener_provisioning_def update_provisioning_def with_status_def
      listener_report_def object_report_def after_report_def positive_state_def)

lemma update_listeners_sends:
  assumes "send = (\<lambda>b w. (Inr (), f b w))"
    and "\<forall>x \<in> set (get_all (sv_listeners svc)). positive_state (li_status x) \<longrightarrow> li_operating_status x \<noteq> None"
  shows "if_present sv_listeners (update_listeners_status send) (svc, w) =
    (Inr (), svc\<lparr>sv_listeners := map_option (map (after_report li_status (set_li_status ACTIVE))) (sv_listeners svc)\<rparr>,
     fold f (concat (map listener_report (get_all (sv_listeners svc)))) w)"
  unfolding update_listeners_status_def
  by (subst for_objs_sends [OF listener_sends [OF assms(1)]]) (use assms(2) in \<open>auto split: option.splits\<close>)

text \<open>Rules and policies stay as they are.\<close>

lemma map_after_report_id: "map (after_report st (\<lambda>x. x)) xs = xs"
  by (simp add: after_report_def [abs_def])

lemma update_l7rules_sends:
  assumes "send = (\<lambda>b w. (Inr (), f b w))"
  shows "if_present sv_l7policy_rules (update_l7rules_status send) (svc, w) =
    (Inr (), svc, fold f (concat (map l7rule_report (get_all (sv_l7policy_rules svc)))) w)"
  unfolding update_l7rules_status_def update_l7rule_provisioning_def l7rule_report_def
  by (subst for_objs_sends, rule update_provisioning_sends [OF assms], rule refl)
    (auto simp: map_after_report_id split: option.splits)

lemma update_l7policies_sends:
  assumes "send = (\<lambda>b w. (Inr (), f b w))"
  shows "if_present sv_l7policies (update_l7policies_status send) (svc, w) =
    (Inr (), svc, fold f (concat (map l7policy_report (get_all (sv_l7policies svc)))) w)"
  unfolding update_l7policies_status_def update_l7policy_provisioning_def l7policy_report_def
  by (subst for_objs_sends, rule update_provisioning_sends [OF assms], rule refl)
    (auto simp: map_after_report_id split: option.splits)

lemma update_loadbalancer_sends:
  assumes "send = (\<lambda>b w. (Inr (), f b w))" and "sv_loadbalancer svc = Some lb"
  shows "update_loadbalancer_status send timed_out (svc, w) =
    (Inr (), svc\<lparr>sv_loadbalancer := Some (lb_after timed_out lb)\<rparr>, fold f (lb_report timed_out lb) w)"
  using lb_sends [OF assms(1), of timed_out lb] assms(2)
  by (simp add: update_loadbalancer_status_def sends_def)

lemma service_status_updates_sends:
  assumes "send = (\<lambda>b w. (Inr (), f b w))" and "sv_loadbalancer svc = Some lb"
    and "\<forall>x \<in> set (get_all (sv_listeners svc)). positive_state (li_status x) \<longrightarrow> li_operating_status x \<noteq> None"
  shows "service_status_updates send timed_out (svc, w)
    = (Inr (), service_after timed_out svc, fold f (service_report timed_out svc) w)"
  using assms(2,3)
  by (simp add: service_status_updates_def bindM_def update_members_sends [OF assms(1)]
      update_health_monitors_sends [OF assms(1)] update_pools_sends [OF assms(1)] update_listeners_sends [OF assms(1)]
      update_l7rules_sends [OF assms(1)] update_l7policies_sends [OF assms(1)] update_loadbalancer_sends [OF assms(1)]
      service_after_def service_report_def)

end
