(* ===== verification/Driver_Properties.thy ===== *)
theory Driver_Properties
  imports DriverFrame DeployedTables StatusReports Device_Properties
begin

text \<open>
  The properties of the iControl driver: its device registry, the services it handles and the statuses
  it reports, what is deployed and what is purged. The witnesses run one driver with one device.
\<close>

section \<open>A driver\<close>

record ex_unit =
  xu_folders :: "((string \<times> string) \<times> folder) list"
  xu_vas :: "((string \<times> string) \<times> virtual_address) list"
  xu_virtuals :: "((string \<times> string) \<times> virtual) list"

definition ex_unet :: "ex_unit net_sdk" where
  "ex_unet =
     \<lparr>ns_rd = fails (HTTPError 503 ''''), ns_route = fails (HTTPError 503 ''''), ns_vlan = fails (HTTPError 503 ''''),
      ns_vlan_interface = (\<lambda>_ _ _ _. retM ()), ns_arp = fails (HTTPError 503 ''''),
      ns_tunnel = fails (HTTPError 503 ''''), ns_gre = fails (HTTPError 503 ''''),
      ns_vxlan = fails (HTTPError 503 ''''), ns_ppp = fails (HTTPError 503 ''''), ns_fdb = fails (HTTPError 503 ''''),
      ns_rec_exists = (\<lambda>_ _ _. retM False), ns_rec_create = (\<lambda>_ _ _ _. retM ()), ns_rec_delete = (\<lambda>_ _ _. retM ()),
      ns_selfip = fails (HTTPError 503 ''''), ns_snat_translation = fails (HTTPError 503 ''''),
      ns_snatpool = fails (HTTPError 503 ''''), ns_forward = fails (HTTPError 503 ''''), ns_nodes = (\<lambda>_. retM []),
      ns_guest_load = (\<lambda>n. retM \<lparr>vg_name = n, vg_managementIp = ''192.0.2.1/24'', vg_vlans = None\<rparr>),
      ns_guest_modify = (\<lambda>n vs. retM \<lparr>vg_name = n, vg_managementIp = ''192.0.2.1/24'', vg_vlans = Some vs\<rparr>),
      ns_guests = retM [], ns_tm_refresh = retM (), ns_sleep = retM (), ns_platform_id = retM ''Z101'', ns_old = False\<rparr>"

definition unit_sdk :: "('s \<Rightarrow> ex_unit) \<Rightarrow> ((ex_unit \<Rightarrow> ex_unit) \<Rightarrow> 's \<Rightarrow> 's) \<Rightarrow> 's sdk" where
  "unit_sdk get upd =
     \<lparr>sdk_pool = fails (HTTPError 503 ''''), sdk_node = fails (HTTPError 503 ''''),
      sdk_monitor = (\<lambda>_. fails (HTTPError 503 '''')),
      sdk_virtual = lift_endpoint (\<lambda>s. xu_virtuals (get s)) (\<lambda>t. upd (\<lambda>d. d\<lparr>xu_virtuals := t\<rparr>)) (table_endpoint bkey),
      sdk_va = lift_endpoint (\<lambda>s. xu_vas (get s)) (\<lambda>t. upd (\<lambda>d. d\<lparr>xu_vas := t\<rparr>)) (table_endpoint bkey),
      sdk_l7policy = fails (HTTPError 503 ''''), sdk_rule = fails (HTTPError 503 ''''),
      sdk_universal = fails (HTTPError 503 ''''), sdk_client_ssl = fails (HTTPError 503 ''''),
      sdk_upload = (\<lambda>_ _. retM ()), sdk_install_cert = (\<lambda>_ _. retM ()), sdk_install_key = (\<lambda>_ _. retM ()),
      sdk_member_exists = (\<lambda>_ _ _. retM False), sdk_member_stats = (\<lambda>_ _ _. retM []), sdk_virtual_stats = (\<lambda>_. [])\<rparr>"

definition ex_sys :: "ex_unit sys_sdk" where
  "ex_sys =
     \<lparr>sy_folder = lift_endpoint xu_folders (\<lambda>t d. d\<lparr>xu_folders := t\<rparr>) (table_endpoint (\<lambda>f. (fo_name f, ''''))),
      sy_devices = retM [], sy_device_load = (\<lambda>_. raiseM (HTTPError 404 '''')), sy_db = (\<lambda>_. retM None),
      sy_db_modify = (\<lambda>_ _. retM ()), sy_interfaces = retM [], sy_device_groups = (\<lambda>_. raiseM (HTTPError 503 '''')),
      sy_auto_sync = (\<lambda>_ _ _. retM ()), sy_sync_status = retM ''Standalone'', sy_traffic_groups = retM [''tg1''],
      sy_save_config = retM (), sy_performance = retM None, sy_snat = fails (HTTPError 503 '''')\<rparr>"

definition ex_uconf :: conf where
  "ex_uconf = ex_conf\<lparr>f5_global_routed_mode := True\<rparr>"

definition ex_dnet :: "(unit, unit, ex_unit, 'w) net_env" where
  "ex_dnet =
     \<lparr>ne_conf = ex_uconf, ne_adapter = ex_adapter, ne_net = ex_unet, ne_ltm = unit_sdk (\<lambda>d. d) (\<lambda>f. f),
      ne_lib = \<lparr>nl_network = (\<lambda>_. Inl ValueError), nl_address = (\<lambda>_. Inl ValueError), nl_in = (\<lambda>_ _. False),
                nl_within = (\<lambda>_ _. False), nl_cidr = (\<lambda>n. n), nl_prefixlen = (\<lambda>_. 0)\<rparr>,
      ne_rpc = \<lparr>rpc_get_port_by_name = (\<lambda>_. retM []), rpc_create_port_on_subnet = (\<lambda>_ _ _ _. retM None),
                rpc_create_port_with_ip = (\<lambda>_ _ _. raiseM AttributeError), rpc_create_port_on_network = (\<lambda>_ _. retM ()),
                rpc_delete_port_by_name = (\<lambda>_. retM ()), rpc_add_allowed_address = (\<lambda>_ _. retM ()),
                rpc_remove_allowed_address = (\<lambda>_ _. retM ()), rpc_get_ports_for_macs = (\<lambda>_. retM []),
                rpc_vtep_added = None, rpc_vtep_removed = None, rpc_tunnel_sync = None\<rparr>,
      ne_mapping = [], ne_vlan_binding = None, ne_random_mac = [1, 2, 3], ne_traffic_group = (\<lambda>_. Inr ''tg1'')\<rparr>"

definition ex_env :: "('w, unit) client \<Rightarrow> (unit, unit, ex_unit, 'w) drv_env" where
  "ex_env cast =
     \<lparr>dr_net = ex_dnet,
      dr_builder = \<lparr>be_adapter = ex_adapter, be_sdk = unit_sdk b_dev (\<lambda>f b. b\<lparr>b_dev := f (b_dev b)\<rparr>), be_ssl = ex_ssl_env,
                    be_ip_version = (\<lambda>_. Inr 4), be_bind = None, be_unbind = None, be_const_status = normal_status\<rparr>,
      dr_sys = ex_sys, dr_md5 = (\<lambda>_. 0), dr_plugin = Some (plugin_init ''topic'' ''Project'' 1 ''host''),
      dr_cast = cast, dr_ports = (\<lambda>_. retM []), dr_services = (\<lambda>_. retM empty_service),
      dr_lbs = (\<lambda>_. retM []), dr_str = (\<lambda>_. ''failed''),
      dr_connect = (\<lambda>_. retM \<lparr>xu_folders = [], xu_vas = [], xu_virtuals = []\<rparr>),
      dr_vcmp_connect = (\<lambda>_. Inl IOError), dr_vcmp_hostname = '''', dr_esd_files = [], dr_esd_coll = (\<lambda>_ _. Inr []),
      dr_report_esds = True, dr_report = None\<rparr>"

text \<open>A world that is the list of the messages sent.\<close>

definition ex_drv_env :: "(unit, unit, ex_unit, rpc_msg list) drv_env" where
  "ex_drv_env = ex_env (\<lambda>m w. (Inr (), w @ [m]))"

definition ex_drv0 :: "(unit, ex_unit, rpc_msg list) drv" where
  "ex_drv0 =
     \<lparr>dv_hosts = [], dv_hostnames = [], dv_operational = False, dv_ha_validated = False, dv_tg_initialized = False,
      dv_tgs = [], dv_endpoints = [], dv_tunnel_types = [], dv_nova = None, dv_reported_operational = None,
      dv_reported_esds = None, dv_esd = None, dv_esd_names = [], dv_do_update = True, dv_to_sync = False,
      dv_rds_cache = [], dv_payload = route_domain_defaults, dv_vcmp = [], dv_l3 = None, dv_vlan = None, dv_world = []\<rparr>"

definition ex_drv :: "(unit, ex_unit, rpc_msg list) drv" where
  "ex_drv = snd (init_bigip_hostnames ''bigip1'' ''admin'' ''secret'' ex_drv0)"

section \<open>The device registry\<close>

text \<open>
  The registry of devices stays well formed: reading the settings gives a registry in which every host
  name occurs once, and connecting, recovering, reporting and flushing keep it so. A host that
  is connected, initializing, validating or active always has a device behind it. The report callback of
  the agent, which calls the driver again, must keep the registry too.
\<close>

theorem registry_kept:
  assumes "\<And>H. report_keeps (registry H) D"
  shows "keeps (registry {}) (init_bigip_hostnames hosts user password) \<and>
    keeps (registry {}) (connect D) \<and> keeps (registry {}) (recover_errored_devices D) \<and>
    keeps (registry {}) (get_agent_configurations D) \<and> keeps (registry {}) flush_cache"
  unfolding recover_errored_devices_def
  by (intro conjI keeps_init_bigip_hostnames keeps_connect keeps_try keeps_init_errored_bigips keeps_ret keeps_get_agent_configurations keeps_flush_cache assms)


lemma ex_no_report: "report_keeps P ex_drv_env"
  by (simp add: report_keeps_def ex_drv_env_def ex_env_def)

lemma ex_drv_registry: "registry {} ex_drv"
  unfolding ex_drv_def
  by (rule keepsD [OF keeps_init_bigip_hostnames]) (simp add: registry_def hosts_ok_def ex_drv0_def)

lemma registry_kept_witness: "registry {} (snd (connect ex_drv_env ex_drv))"
  using registry_kept [OF ex_no_report] ex_drv_registry by (blast intro: keepsD)




definition ex_bigip1 :: "ex_unit bigip" where
  "ex_bigip1 = new_bigip (Some ''bigip1'') \<lparr>xu_folders = [], xu_vas = [], xu_virtuals = []\<rparr>"


section \<open>Services\<close>

lemma on_site_frame: "on_site m st = (r, svc', s') \<Longrightarrow>
    dv_do_update s' = dv_do_update (snd st) \<and> dv_to_sync s' = dv_to_sync (snd st)"
  by (auto simp: on_site_def put_site_def split: prod.splits)

text \<open>C7
  No exception leaves the common handler while the load balancer is not being deleted; and when the
  folder and the route domain of its tenant cannot be set up, the load balancer is marked \<open>ERROR\<close>,
  and the update that tells Neutron stays switched on.
\<close>

theorem handler_contains_errors:
  assumes "sv_loadbalancer svc = Some lb" and "lb_status lb \<noteq> PENDING_DELETE"
  shows "\<exists>svc' s'. common_service_handler D delete_event (svc, s) = (Inr (), svc', s') \<and>
    (fst (assure_tenant D (lb_status lb) (svc, s\<lparr>dv_do_update := True\<rparr>)) \<noteq> Inr () \<longrightarrow>
       dv_do_update s' \<and> (\<forall>lb'. sv_loadbalancer svc' = Some lb' \<longrightarrow> lb_status lb' = ERROR))"
proof -
  let ?st = "(svc, s\<lparr>dv_do_update := True\<rparr>)"
  let ?h = "tryM (handle_service D (lb_status lb) delete_event) (\<lambda>_. retM ())"
  have c: "common_service_handler D delete_event (svc, s) = (case ?h (?st, None) of (r, st', _) \<Rightarrow> (r, st'))"
    using assms by (auto simp: common_service_handler_def set_do_update_def on_drv_def modifyM_def bindM_def
        split: prod.splits)
  have r: "fst (?h (?st, None)) = Inr ()"
    by (auto simp: tryM_def retM_def split: prod.splits sum.splits)
  obtain res st where p: "assure_tenant D (lb_status lb) ?st = (res, st)" by (rule prod.exhaust)
  show ?thesis
  proof (cases res)
    case (Inr u)
    with p c r show ?thesis by (cases "?h (?st, None)") auto
  next
    case (Inl e)
    with p assms(2) obtain r1 svc1 s1
      where 1: "on_site (assure_tenant_created (dr_net D) (dr_sys D) (dr_md5 D) (dv_tgs s)) ?st = (r1, svc1, s1)"
        and 2: "st = (lb_error svc1, s1)"
      by (auto simp: assure_tenant_def mark_error_def mod_svc_def modifyM_def tryM_def bindM_def getsM_def raiseM_def
          split: prod.splits sum.splits)
    have "dv_do_update s1" using on_site_frame [OF 1] by simp
    moreover from p Inl have "?h (?st, None) = (Inr (), st, None)"
      by (simp add: handle_service_def tryM_def bindM_def on_svc_def retM_def)
    ultimately show ?thesis using c p Inl 2 by (auto simp: lb_error_def)
  qed
qed


text \<open>A driver with one active device; a device whose folders cannot be read.\<close>

definition ex_up :: "(unit, ex_unit, rpc_msg list) drv" where
  "ex_up = ex_drv0\<lparr>dv_operational := True, dv_tgs := [''tg1''],
     dv_hosts := [(Some ''bigip1'', (connected_host (Some ''bigip1'') (b_dev ex_bigip1))\<lparr>ho_status := HActive\<rparr>)]\<rparr>"

definition ex_bad_env :: "(unit, unit, ex_unit, rpc_msg list) drv_env" where
  "ex_bad_env = ex_drv_env\<lparr>dr_sys := ex_sys\<lparr>sy_folder := fails (HTTPError 503 '''')\<rparr>\<rparr>"

lemma handler_contains_errors_witness:
  "\<exists>svc' s'. common_service_handler ex_bad_env False (ex_service, ex_up) = (Inr (), svc', s') \<and>
    (\<forall>lb'. sv_loadbalancer svc' = Some lb' \<longrightarrow> lb_status lb' = ERROR)"
proof -
  have 1: "sv_loadbalancer ex_service = Some ex_lb" by (simp add: ex_service_def)
  have 2: "lb_status ex_lb = PENDING_CREATE" by (simp add: ex_lb_def)
  have "fst (assure_tenant ex_bad_env PENDING_CREATE (ex_service, ex_up\<lparr>dv_do_update := True\<rparr>)) = Inl (HTTPError 503 '''')"
    by code_simp
  with handler_contains_errors [OF 1, of ex_bad_env False ex_up] 2 show ?thesis by auto
qed


text \<open>C8
  The status updates are equivalent to a list computed from the service: member, monitor, pool, listener,
  rule, policy by policy and at last the load balancer, each object causes the one message its status
  calls for, and the pending ones become active.
\<close>

theorem statuses_reported:
  assumes "dr_plugin D = Some P" and "dr_cast D = (\<lambda>m w. (Inr (), log m w))" and "sv_loadbalancer svc = Some lb"
    and "\<forall>x \<in> set (get_all (sv_listeners svc)). positive_state (li_status x) \<longrightarrow> li_operating_status x \<noteq> None"
  shows "update_service_status D timed_out (svc, s) = (Inr (), service_after timed_out svc,
    s\<lparr>dv_world := fold (\<lambda>b. log \<lparr>rm_method = fst b, rm_args = snd b, rm_call = False, rm_fanout = False,
        rm_topic = Some (pg_topic P)\<rparr>) (service_report timed_out svc) (dv_world s)\<rparr>)"
proof -
  have "plugin_cast P (dr_cast D) = (\<lambda>b w. (Inr (), log \<lparr>rm_method = fst b, rm_args = snd b, rm_call = False,
      rm_fanout = False, rm_topic = Some (pg_topic P)\<rparr> w))"
    by (intro ext) (simp add: plugin_cast_def rpc_cast_def assms(2))
  from service_status_updates_sends [OF this assms(3,4), of timed_out "dv_world s"] assms(1) show ?thesis
    by (simp add: update_service_status_def sending_def)
qed

lemma statuses_reported_witness:
  "map (\<lambda>m. (rm_method m, map snd (rm_args m)))
     (dv_world (snd (snd (update_service_status ex_drv_env False
        (ex_service\<lparr>sv_listeners := None, sv_members := Some [ex_member], sv_pools := Some [ex_pool]\<rparr>, ex_drv0)))))
   = [(''update_member_status'', [RStr ''m1'', RStatus ACTIVE, ROper ONLINE]),
      (''update_pool_status'', [RStr ''p1'', RStatus ACTIVE, ROper ONLINE]),
      (''update_loadbalancer_status'', [RStr ''lb1'', RStatus ACTIVE, ROper ONLINE])]"
proof -
  let ?svc = "ex_service\<lparr>sv_listeners := None, sv_members := Some [ex_member], sv_pools := Some [ex_pool]\<rparr>"
  have 1: "dr_plugin ex_drv_env = Some (plugin_init ''topic'' ''Project'' 1 ''host'')" by (simp add: ex_drv_env_def ex_env_def)
  have 2: "dr_cast ex_drv_env = (\<lambda>m w. (Inr (), w @ [m]))" by (simp add: ex_drv_env_def ex_env_def)
  have 3: "sv_loadbalancer ?svc = Some ex_lb" by (simp add: ex_service_def)
  have 4: "\<forall>x \<in> set (get_all (sv_listeners ?svc)). positive_state (li_status x) \<longrightarrow> li_operating_status x \<noteq> None"
    by simp
  have 5: "service_report False ?svc = [msg_member_status ''m1'' (Some ACTIVE) (Some ONLINE),
      msg_pool_status ''p1'' ACTIVE ONLINE, msg_loadbalancer_status ''lb1'' (Some ACTIVE) (Some ONLINE)]"
    by code_simp
  show ?thesis unfolding statuses_reported [OF 1 2 3 4] 5
    by (simp add: ex_drv0_def msg_member_status_def msg_pool_status_def msg_loadbalancer_status_def msg_status_def
        make_msg_def opt_status_def opt_oper_def)
qed

section \<open>Is a service on the devices?\<close>

text \<open>Queries of a device change nothing on it.\<close>

definition reads :: "('s, 'a) py \<Rightarrow> bool" where
  "reads m \<longleftrightarrow> (\<forall>s. snd (m s) = s)"

lemma reads_keeps: "reads m \<longleftrightarrow> (\<forall>s0. keeps (\<lambda>s. s = s0) m)"
  by (simp add: reads_def keeps_def)

lemma readsI: "(\<And>s0. keeps (\<lambda>s. s = s0) m) \<Longrightarrow> reads m"
  by (simp add: reads_keeps)

lemma readsD: "reads m \<Longrightarrow> keeps (\<lambda>s. s = s0) m"
  by (simp add: reads_keeps)

lemma reads_state: "reads m \<Longrightarrow> m s = (r, s') \<Longrightarrow> s' = s"
  by (metis reads_def snd_conv)

lemma reads_ret: "reads (retM x)" and reads_raise: "reads (raiseM e)" and reads_lift: "reads (liftM r)"
  by (simp_all add: reads_def retM_def raiseM_def liftM_def)

lemma reads_bind: "reads m \<Longrightarrow> (\<And>x. reads (f x)) \<Longrightarrow> reads (bindM m f)"
  by (simp add: reads_keeps keeps_bind)

lemma reads_try: "reads m \<Longrightarrow> (\<And>e. reads (h e)) \<Longrightarrow> reads (tryM m h)"
  by (simp add: reads_keeps keeps_try)

lemma reads_if: "reads m \<Longrightarrow> reads n \<Longrightarrow> reads (if b then m else n)"
  by simp

lemma reads_option: "reads m \<Longrightarrow> (\<And>x. reads (f x)) \<Longrightarrow> reads (case v of None \<Rightarrow> m | Some x \<Rightarrow> f x)"
  by (cases v) simp_all

lemma all_checks_reads: "\<forall>m \<in> set ms. reads m \<Longrightarrow> reads (all_checks ms)"
  by (induction ms) (auto intro!: reads_ret reads_bind)

lemmas reads_rules = reads_ret reads_raise reads_lift reads_bind reads_try reads_if reads_option all_checks_reads

lemma all_checks_True:
  assumes "\<forall>m \<in> set ms. reads m" and "fst (all_checks ms s) = Inr True"
  shows "\<forall>m \<in> set ms. m s = (Inr True, s)"
  using assms
proof (induction ms)
  case (Cons m ms)
  obtain r s1 where m: "m s = (r, s1)" by (rule prod.exhaust)
  from reads_state [of m s r s1] m Cons.prems(1) have "s1 = s" by simp
  with m Cons.prems(2) have "r = Inr True \<and> fst (all_checks ms s) = Inr True"
    by (auto simp: bindM_def retM_def split: sum.splits if_splits)
  with Cons m \<open>s1 = s\<close> show ?case by simp
qed simp

lemma on_every_bigip_True:
  assumes "reads m" and "on_every_bigip m bs = (Inr True, bs')"
  shows "bs' = bs \<and> (\<forall>b \<in> set bs. m b = (Inr True, b))"
  using assms(2)
proof (induction bs arbitrary: bs')
  case (Cons b bs)
  obtain r b1 where m: "m b = (r, b1)" by (rule prod.exhaust)
  from reads_state [OF assms(1) m] have "b1 = b" .
  with m Cons show ?case by (auto split: sum.splits bool.splits prod.splits)
qed simp

text \<open>The queries the check makes; what they must have answered for a service that is on a device.\<close>

definition checks_read :: "'d bigip sdk \<Rightarrow> 'd sys_sdk \<Rightarrow> (bigip_pool \<Rightarrow> ('d bigip, string list) py) \<Rightarrow> bool" where
  "checks_read S Y collection \<longleftrightarrow>
     (\<forall>n p. reads (ep_exists (sy_folder Y) n p) \<and> reads (ep_exists (sdk_va S) n p) \<and>
        reads (ep_exists (sdk_virtual S) n p) \<and> reads (ep_exists (sdk_pool S) n p) \<and> reads (ep_load (sdk_pool S) n p)) \<and>
     (\<forall>rt n p. reads (ep_exists (sdk_monitor S rt) n p)) \<and> (\<forall>p n f. reads (sdk_member_exists S p n f)) \<and>
     (\<forall>p. reads (collection p))"

definition member_on :: "adapter \<Rightarrow> 'd bigip sdk \<Rightarrow> service \<Rightarrow> loadbalancer \<Rightarrow> member \<Rightarrow> 'd bigip \<Rightarrow> bool" where
  "member_on A S svc lb m b \<longleftrightarrow>
     (\<exists>q. get_pool_by_id svc (me_pool_id m) = Some q \<and> fst (member_exists A S lb q [] m b) = Inr True)"

definition pool_on ::
  "adapter \<Rightarrow> 'd bigip sdk \<Rightarrow> (bigip_pool \<Rightarrow> ('d bigip, string list) py) \<Rightarrow> service \<Rightarrow> loadbalancer \<Rightarrow> pool
     \<Rightarrow> 'd bigip \<Rightarrow> bool" where
  "pool_on A S collection svc lb p b \<longleftrightarrow>
     (\<exists>bp lp ds. fst (get_pool A lb p [] []) = Inr bp \<and>
        fst (ep_exists (sdk_pool S) (bn_name bp) (get_folder_name A (lb_tenant_id lb)) b) = Inr True \<and>
        fst (ep_load (sdk_pool S) (bn_name bp) (get_folder_name A (lb_tenant_id lb)) b) = Inr lp \<and>
        fst (collection lp b) = Inr ds \<and> length ds = length (po_members p)) \<and>
     (\<forall>m \<in> set (get_all (sv_members svc)). me_pool_id m = Some (po_id p) \<longrightarrow> member_on A S svc lb m b)"

definition deployed_on ::
  "adapter \<Rightarrow> 'd bigip sdk \<Rightarrow> 'd sys_sdk \<Rightarrow> (bigip_pool \<Rightarrow> ('d bigip, string list) py) \<Rightarrow> service \<Rightarrow> loadbalancer
     \<Rightarrow> 'd bigip \<Rightarrow> bool" where
  "deployed_on A S Y collection svc lb b \<longleftrightarrow>
     (let folder = get_folder_name A (lb_tenant_id lb) in
      fst (folder_exists Y folder (b_dev b)) = Inr True \<and>
      fst (ep_exists (sdk_va S) (bn_name (va_init A lb)) folder b) = Inr True \<and>
      (\<forall>li \<in> set (get_all (sv_listeners svc)).
         fst (ep_exists (sdk_virtual S) (bn_name (init_virtual_name A lb li)) folder b) = Inr True) \<and>
      (\<forall>p \<in> set (get_all (sv_pools svc)). pool_on A S collection svc lb p b) \<and>
      (\<forall>hm \<in> set (get_all (sv_healthmonitors svc)). \<exists>bm. map_healthmonitor A lb hm = Inr bm \<and>
         fst (ep_exists (sdk_monitor S (get_monitor_endpoint hm)) (bn_name bm) folder b) = Inr True))"

lemma reads_on_dev: "reads m \<Longrightarrow> reads (on_dev m)"
  by (simp add: reads_def on_dev_def split: prod.splits) (metis bigip.surjective bigip.update_convs(7) snd_conv)

lemma member_deployed_reads:
  assumes "checks_read S Y collection"
  shows "reads (member_deployed A S svc lb p m)"
  unfolding member_deployed_def member_exists_def rh_load_def
  by (intro reads_rules) (use assms in \<open>simp_all add: checks_read_def\<close>)

lemma pool_deployed_reads:
  assumes "checks_read S Y collection"
  shows "reads (pool_deployed A S collection svc lb folder p)"
  unfolding pool_deployed_def rh_load_def rh_exists_def
  by (intro reads_rules) (use assms member_deployed_reads [OF assms] in \<open>auto simp: checks_read_def\<close>)

lemma all_checks_mapD:
  assumes "\<And>x. reads (f x)" and "all_checks (map f xs) s = (Inr True, s')" and "x \<in> set xs"
  shows "f x s = (Inr True, s)"
  using all_checks_True [of "map f xs" s] assms by simp

definition check_each :: "'o list option \<Rightarrow> ('o \<Rightarrow> ('s, bool) py) \<Rightarrow> ('s, bool) py" where
  "check_each v f = bindM (liftM (subE v)) (\<lambda>xs. all_checks (map f xs))"

lemma check_each_reads: "(\<And>x. reads (f x)) \<Longrightarrow> reads (check_each v f)"
  unfolding check_each_def by (intro reads_rules) simp

lemma check_eachD:
  assumes "check_each v f b = (Inr True, b)" and "\<And>x. reads (f x)" and "x \<in> set (get_all v)"
  shows "f x b = (Inr True, b)"
  using assms all_checks_mapD [of f _ b b x] by (cases v) (auto simp: check_each_def bindM_def liftM_def)

text \<open>The five checks of one device.\<close>

definition device_checks ::
  "adapter \<Rightarrow> 'd bigip sdk \<Rightarrow> 'd sys_sdk \<Rightarrow> (bigip_pool \<Rightarrow> ('d bigip, string list) py) \<Rightarrow> service \<Rightarrow> loadbalancer
     \<Rightarrow> ('d bigip, bool) py list" where
  "device_checks A S Y collection svc lb =
     (let folder = get_folder_name A (lb_tenant_id lb) in
      [on_dev (folder_exists Y folder), va_exists S (va_init A lb),
       check_each (sv_listeners svc) (listener_deployed A S lb folder),
       check_each (sv_pools svc) (pool_deployed A S collection svc lb folder),
       check_each (sv_healthmonitors svc) (monitor_deployed A S lb folder)])"

lemma service_on_device_checks: "service_on_device A S Y collection svc lb = all_checks (device_checks A S Y collection svc lb)"
  by (simp add: service_on_device_def device_checks_def check_each_def Let_def)

lemma listener_monitor_reads:
  assumes "checks_read S Y collection"
  shows "reads (listener_deployed A S lb folder li)" and "reads (monitor_deployed A S lb folder hm)"
  unfolding listener_deployed_def monitor_deployed_def rh_exists_def
  by (use assms in \<open>auto simp: checks_read_def intro!: reads_rules\<close>)

lemma device_checks_read:
  assumes "checks_read S Y collection"
  shows "\<forall>m \<in> set (device_checks A S Y collection svc lb). reads m"
proof -
  have "reads (on_dev (folder_exists Y n))" for n
    unfolding folder_exists_def using assms by (intro reads_on_dev reads_if reads_ret) (simp add: checks_read_def)
  moreover have "reads (va_exists S va)" for va using assms by (simp add: va_exists_def rh_exists_def checks_read_def)
  ultimately show ?thesis
    using assms by (simp add: device_checks_def Let_def check_each_reads listener_monitor_reads pool_deployed_reads)
qed

text \<open>A query is its answer.\<close>

lemma bindM_reads: "reads m \<Longrightarrow> bindM m f s = (case fst (m s) of Inl e \<Rightarrow> (Inl e, s) | Inr x \<Rightarrow> f x s)"
  using reads_state [of m s "fst (m s)" "snd (m s)"] by (auto simp: bindM_def split: prod.splits sum.splits)

lemma member_deployed_True:
  assumes "member_deployed A S svc lb p m b = (Inr True, b)" and "me_pool_id m = Some (po_id p)"
  shows "member_on A S svc lb m b"
  using assms by (auto simp: member_deployed_def member_on_def liftM_def bindM_def raiseM_def split: option.splits)

lemma pool_deployed_True:
  assumes r: "checks_read S Y collection"
    and d: "pool_deployed A S collection svc lb (get_folder_name A (lb_tenant_id lb)) p b = (Inr True, b)"
  shows "pool_on A S collection svc lb p b"
proof -
  let ?folder = "get_folder_name A (lb_tenant_id lb)"
  have q: "reads (ep_exists (sdk_pool S) n f)" "reads (ep_load (sdk_pool S) n f)" "reads (collection lp)" for n f lp
    using r by (simp_all add: checks_read_def)
  from d obtain bp lp ds ms
    where "fst (get_pool A lb p [] []) = Inr bp" "fst (ep_exists (sdk_pool S) (bn_name bp) ?folder b) = Inr True"
      "fst (ep_load (sdk_pool S) (bn_name bp) ?folder b) = Inr lp" "fst (collection lp b) = Inr ds"
      "length ds = length (po_members p)" and ms: "sv_members svc = Some ms"
      and c: "all_checks (map (member_deployed A S svc lb p) ms) b = (Inr True, b)"
    by (auto simp: pool_deployed_def rh_exists_def rh_load_def bindM_reads [OF reads_lift] bindM_reads [OF q(1)]
        bindM_reads [OF q(2)] bindM_reads [OF q(3)] liftM_def retM_def split: sum.splits if_splits)
  moreover have "member_on A S svc lb m b" if "m \<in> set (get_all (sv_members svc))" "me_pool_id m = Some (po_id p)" for m
    using member_deployed_True [OF all_checks_mapD [OF member_deployed_reads [OF r] c]] that ms by simp
  ultimately show ?thesis by (auto simp: pool_on_def)
qed

lemma service_on_device_True:
  assumes r: "checks_read S Y collection" and d: "fst (service_on_device A S Y collection svc lb b) = Inr True"
  shows "deployed_on A S Y collection svc lb b"
proof -
  let ?folder = "get_folder_name A (lb_tenant_id lb)"
  note c = all_checks_True [OF device_checks_read [OF r] d [unfolded service_on_device_checks],
      unfolded device_checks_def Let_def, simplified]
  from c have "fst (folder_exists Y ?folder (b_dev b)) = Inr True"
    and "fst (ep_exists (sdk_va S) (bn_name (va_init A lb)) ?folder b) = Inr True"
    by (auto simp: on_dev_def va_exists_def rh_exists_def va_init_def split: prod.splits)
  moreover have "fst (ep_exists (sdk_virtual S) (bn_name (init_virtual_name A lb li)) ?folder b) = Inr True"
    if "li \<in> set (get_all (sv_listeners svc))" for li
  proof -
    have "listener_deployed A S lb ?folder li b = (Inr True, b)"
      by (rule check_eachD [where v = "sv_listeners svc"]) (use c that listener_monitor_reads [OF r] in simp_all)
    then show ?thesis by (simp add: listener_deployed_def rh_exists_def)
  qed
  moreover have "pool_on A S collection svc lb p b" if "p \<in> set (get_all (sv_pools svc))" for p
    by (rule pool_deployed_True [OF r], rule check_eachD [where v = "sv_pools svc"])
      (use c that pool_deployed_reads [OF r] in simp_all)
  moreover have "\<exists>bm. map_healthmonitor A lb hm = Inr bm \<and>
      fst (ep_exists (sdk_monitor S (get_monitor_endpoint hm)) (bn_name bm) ?folder b) = Inr True"
    if "hm \<in> set (get_all (sv_healthmonitors svc))" for hm
  proof -
    have "monitor_deployed A S lb ?folder hm b = (Inr True, b)"
      by (rule check_eachD [where v = "sv_healthmonitors svc"]) (use c that listener_monitor_reads [OF r] in simp_all)
    then show ?thesis by (auto simp: monitor_deployed_def rh_exists_def bindM_def liftM_def split: sum.splits)
  qed
  ultimately show ?thesis by (auto simp: deployed_on_def Let_def)
qed

lemma on_drv_on_active:
  assumes "on_drv (on_active m) st = (r, svc', s')"
  obtains bs where "m (get_all_bigips (dv_hosts (snd st))) = (r, bs)" and "svc' = fst st"
    and "s' = (snd st)\<lparr>dv_hosts := put_active (dv_hosts (snd st)) bs\<rparr>"
  using assms by (auto simp: on_drv_def on_active_def split: prod.splits)

text \<open>C9
  When the driver says a service exists, then every active device answered that it has the folder of
  the tenant, the virtual address, the virtual server of each listener, each pool with the right number
  of members and the members of the service among them, and each health monitor.
\<close>

theorem service_exists_sound:
  fixes s :: "('net, 'd, 'w) drv"
  assumes "checks_read (be_sdk (dr_builder D)) (dr_sys D) collection"
    and "service_exists D collection (svc, s) = (Inr True, svc', s')"
  shows "\<exists>lb. sv_loadbalancer svc' = Some lb \<and> (\<forall>b \<in> set (get_all_bigips (dv_hosts s')).
    deployed_on (be_adapter (dr_builder D)) (be_sdk (dr_builder D)) (dr_sys D) collection svc' lb b)"
proof -
  define f where "f = (\<lambda>(_ :: unit) (st :: service \<times> ('net, 'd, 'w) drv). case sv_loadbalancer (fst st) of None \<Rightarrow> (Inr False, st)
      | Some lb \<Rightarrow> on_drv (on_active (on_every_bigip (service_on_device (be_adapter (dr_builder D)) (be_sdk (dr_builder D))
          (dr_sys D) collection (fst st) lb))) st)"
  have "bindM (if f5_global_routed_mode (dr_conf D) then retM () else on_site (annotate_service_route_domains (dr_net D)))
      f (svc, s) = (Inr True, svc', s')"
    using assms(2) by (cases "sv_loadbalancer svc") (simp_all add: service_exists_def f_def)
  from bindM_Inr [OF this] obtain st where "f () st = (Inr True, svc', s')" by auto
  then obtain lb where lb: "sv_loadbalancer (fst st) = Some lb"
    and c: "on_drv (on_active (on_every_bigip (service_on_device (be_adapter (dr_builder D)) (be_sdk (dr_builder D))
        (dr_sys D) collection (fst st) lb))) st = (Inr True, svc', s')"
    by (cases "sv_loadbalancer (fst st)") (simp_all add: f_def)
  let ?m = "service_on_device (be_adapter (dr_builder D)) (be_sdk (dr_builder D)) (dr_sys D) collection (fst st) lb"
  from on_drv_on_active [OF c] obtain bs where e: "on_every_bigip ?m (get_all_bigips (dv_hosts (snd st))) = (Inr True, bs)"
    and st: "svc' = fst st" "s' = (snd st)\<lparr>dv_hosts := put_active (dv_hosts (snd st)) bs\<rparr>" .
  have "reads ?m" unfolding service_on_device_checks by (rule all_checks_reads [OF device_checks_read [OF assms(1)]])
  from on_every_bigip_True [OF this e] have "bs = get_all_bigips (dv_hosts (snd st))"
    and m: "\<forall>b \<in> set bs. fst (?m b) = Inr True" by auto
  with st have "dv_hosts s' = dv_hosts (snd st)" by (simp add: put_active_same)
  with m \<open>bs = _\<close> have "\<forall>b \<in> set (get_all_bigips (dv_hosts s')). fst (?m b) = Inr True" by simp
  with service_on_device_True [OF assms(1)] lb st(1) show ?thesis by blast
qed

text \<open>A device that has the service.\<close>

definition ex_listener1 :: listener where
  "ex_listener1 = ex_listener\<lparr>li_id := ''li1''\<rparr>"

definition ex_has :: "(unit, ex_unit, rpc_msg list) drv" where
  "ex_has = ex_up\<lparr>dv_hosts := [(Some ''bigip1'',
     (connected_host (Some ''bigip1'')
        \<lparr>xu_folders = [((''Project_t1'', ''''), get_folder ex_adapter ex_lb)],
         xu_vas = [((''Project_lb1'', ''Project_t1''), va_init ex_adapter ex_lb)],
         xu_virtuals = [((''Project_li1'', ''Project_t1''), ex_virtual\<lparr>bn_name := ''Project_li1''\<rparr>)]\<rparr>)\<lparr>ho_status := HActive\<rparr>)]\<rparr>"

lemma service_exists_sound_witness:
  "\<exists>lb svc s. service_exists ex_drv_env (\<lambda>_. retM []) (ex_service\<lparr>sv_listeners := Some [ex_listener1],
       sv_pools := Some [], sv_healthmonitors := Some []\<rparr>, ex_has) = (Inr True, svc, s) \<and>
     (\<forall>b \<in> set (get_all_bigips (dv_hosts s)). deployed_on (be_adapter (dr_builder ex_drv_env))
        (be_sdk (dr_builder ex_drv_env)) (dr_sys ex_drv_env) (\<lambda>_. retM []) svc lb b)"
proof -
  let ?svc = "ex_service\<lparr>sv_listeners := Some [ex_listener1], sv_pools := Some [], sv_healthmonitors := Some []\<rparr>"
  let ?e = "service_exists ex_drv_env (\<lambda>_. retM []) (?svc, ex_has)"
  have "fst ?e = Inr True" by code_simp
  then have 1: "service_exists ex_drv_env (\<lambda>_. retM []) (?svc, ex_has) = (Inr True, fst (snd ?e), snd (snd ?e))"
    by (metis prod.collapse)
  have 2: "checks_read (be_sdk (dr_builder ex_drv_env)) (dr_sys ex_drv_env) (\<lambda>_. retM [])"
    by (simp add: checks_read_def reads_def ex_drv_env_def ex_env_def unit_sdk_def ex_sys_def lift_endpoint_def table_endpoint_def
        fails_def py_simps)
  from service_exists_sound [OF 2 1] 1 show ?thesis by blast
qed

section \<open>What is deployed\<close>

text \<open>C10
  The table of deployed listeners is exact: for every id it lists the host of each active device once for
  every virtual server of that id in a tenant folder of the device, and nothing else.
\<close>

theorem deployed_listeners_exact:
  assumes "dv_operational s"
    and "\<And>b. b \<in> set (get_all_bigips (dv_hosts s)) \<Longrightarrow> get_folders (dr_sys D) (b_dev b) = (Inr (fs b), b_dev b)"
    and "\<And>b f. b \<in> set (get_all_bigips (dv_hosts s)) \<Longrightarrow> f \<in> set (fs b) \<Longrightarrow>
      get_resources (old_of D) (sdk_virtual (ltm_of D)) (Some f) expand (b_dev b) = (Inr (vs b f), b_dev b)"
  shows "\<exists>t. get_all_deployed_listeners D expand s = (Inr (Some t), s) \<and>
    (\<forall>i. hosts_in t i = concat (map (\<lambda>b. concat (map (\<lambda>f. map (\<lambda>_. b_hostname b)
       (filter (\<lambda>v. without_prefix D (bn_name v) = i) (vs b f))) (filter (startswith (prefix_of D)) (fs b))))
       (get_all_bigips (dv_hosts s))))"
proof -
  let ?visit = "\<lambda>host folder tenant. note_all (get_resources (old_of D) (sdk_virtual (ltm_of D)) (Some folder) expand)
     (\<lambda>v. Inr (without_prefix D (bn_name v),
        plain_entry (without_prefix D (bn_name v)) tenant (policy_of_virtual expand v))) host"
  let ?L = "\<lambda>b k. concat (map (\<lambda>f. found (b_hostname b) (\<lambda>v. without_prefix D (bn_name v)) (vs b f) k)
      (filter (startswith (prefix_of D)) (fs b)))"
  have "tallies (scan_bigip D ?visit) b (?L b)" if b: "b \<in> set (get_all_bigips (dv_hosts s))" for b
    by (rule scan_bigip_tallies [OF assms(2) [OF b]], rule note_all_tallies, erule assms(3) [OF b]) simp
  from all_deployed_tallies [OF assms(1) this put_active_same] show ?thesis
    by (simp add: get_all_deployed_listeners_def found_def)
qed

lemma deployed_listeners_exact_witness:
  "\<exists>t. get_all_deployed_listeners ex_drv_env False ex_has = (Inr (Some t), ex_has) \<and> hosts_in t ''li1'' = [''bigip1'']"
proof -
  let ?d = "\<lparr>xu_folders = [((''Project_t1'', ''''), get_folder ex_adapter ex_lb)],
         xu_vas = [((''Project_lb1'', ''Project_t1''), va_init ex_adapter ex_lb)],
         xu_virtuals = [((''Project_li1'', ''Project_t1''), ex_virtual\<lparr>bn_name := ''Project_li1''\<rparr>)]\<rparr>"
  have b: "get_all_bigips (dv_hosts ex_has) = [new_bigip (Some ''bigip1'') ?d]"
    by (simp add: ex_has_def get_all_bigips_def List.map_filter_simps connected_host_def)
  have p: "prefix_of ex_drv_env = ''Project_''"
    by (simp add: prefix_of_def ex_drv_env_def ex_env_def ex_dnet_def ex_adapter_def new_adapter_def ex_conf_def)
  have f: "fo_name (get_folder ex_adapter ex_lb) = ''Project_t1''" by code_simp
  have up: "dv_operational ex_has" by (simp add: ex_has_def ex_up_def)
  have 1: "get_folders (dr_sys ex_drv_env) (b_dev x) = (Inr [''Project_t1''], b_dev x)"
    if "x \<in> set (get_all_bigips (dv_hosts ex_has))" for x
    using that f by (simp add: b new_bigip_def get_folders_def ex_drv_env_def ex_env_def ex_sys_def lift_endpoint_def
        table_endpoint_def py_simps)
  have 2: "get_resources (old_of ex_drv_env) (sdk_virtual (ltm_of ex_drv_env)) (Some g) False (b_dev x)
      = (Inr [ex_virtual\<lparr>bn_name := ''Project_li1''\<rparr>], b_dev x)"
    if "x \<in> set (get_all_bigips (dv_hosts ex_has))" for x g
    using that by (simp add: b new_bigip_def get_resources_def ltm_of_def ex_drv_env_def ex_env_def ex_dnet_def unit_sdk_def
        lift_endpoint_def table_endpoint_def py_simps Let_def)
  from deployed_listeners_exact [OF up 1 2] show ?thesis
    by (auto simp: b p new_bigip_def without_prefix_def startswith_def)
qed

end
