(* ===== verification/DriverSetup.thy ===== *)
theory DriverSetup
  imports Complex_Main DriverPurge
begin

text \<open>
  The rest of \<open>icontrol_driver.py\<close>: the settings its constructor makes from the configuration, the
  directory of the configuration files, the capacity score of the devices, and the removal of the
  objects of a service.

  A score is a rational number: the quotient the code computes in floating point, without its rounding.
\<close>

section \<open>Construction\<close>

text \<open>The configuration in global routed mode.\<close>

definition mode_settings :: "conf \<Rightarrow> conf" where
  "mode_settings c =
     (if f5_global_routed_mode c
      then c\<lparr>use_namespaces := False, f5_snat_mode := True, f5_snat_addresses_per_subnet := 0\<rparr> else c)"

text \<open>The state of a driver under construction.\<close>

definition blank_driver :: "rd_payload \<Rightarrow> 'w \<Rightarrow> ('net, 'd, 'w) drv" where
  "blank_driver payload w =
     \<lparr>dv_hosts = [], dv_hostnames = [], dv_operational = False, dv_ha_validated = False, dv_tg_initialized = False,
      dv_tgs = [], dv_endpoints = [], dv_tunnel_types = [], dv_nova = None, dv_reported_operational = None,
      dv_reported_esds = None, dv_esd = None, dv_esd_names = [], dv_do_update = True, dv_to_sync = False,
      dv_rds_cache = [], dv_payload = payload, dv_vcmp = [], dv_l3 = None, dv_vlan = None, dv_world = w\<rparr>"

text \<open>\<open>vlan\<close> and \<open>l3\<close> are the results of constructing the bindings; whatever fails is only reported.\<close>

definition new_driver ::
  "('ip, 'net, 'd, 'w) drv_env \<Rightarrow> string \<Rightarrow> string \<Rightarrow> string \<Rightarrow> exn + vlan_state option \<Rightarrow> exn + l3_state option
     \<Rightarrow> (('net, 'd, 'w) drv, unit) py" where
  "new_driver D hosts user password vlan l3 =
     tryM (bindM (modifyM (\<lambda>s. s\<lparr>dv_tunnel_types :=
                    (if f5_global_routed_mode (dr_conf D) then [] else advertised_tunnel_types (dr_conf D))\<rparr>)) (\<lambda>_.
           bindM (init_bigip_hostnames hosts user password) (\<lambda>_.
           bindM (bindM (liftM vlan) (\<lambda>v. modifyM (\<lambda>s. s\<lparr>dv_vlan := v\<rparr>))) (\<lambda>_.
             bindM (liftM l3) (\<lambda>l. modifyM (\<lambda>s. s\<lparr>dv_l3 := l\<rparr>))))))
       (\<lambda>_. set_agent_status D False)"

section \<open>The configuration directory\<close>

datatype config_files = NoFile | OneFile string | Files "string list"

text \<open>\<open>os.path.dirname\<close>.\<close>

definition dirname :: "string \<Rightarrow> string" where
  "dirname p =
     (let head = rev (dropWhile (\<lambda>c. c \<noteq> CHR ''/'') (rev p)) in
      if list_all (\<lambda>c. c = CHR ''/'') head then head else rev (dropWhile (\<lambda>c. c = CHR ''/'') (rev head)))"

text \<open>\<open>config_dir\<close> is \<open>None\<close> unless it is a single text.\<close>

definition get_config_dir :: "string option \<Rightarrow> config_files \<Rightarrow> string" where
  "get_config_dir config_dir files =
     (if get_or '''' config_dir \<noteq> '''' then get_or '''' config_dir
      else let fallback = ''/etc/neutron/services/f5'' in
        case files of
          NoFile \<Rightarrow> fallback
        | OneFile f \<Rightarrow> if f = '''' then fallback else dirname f
        | Files fs \<Rightarrow>
            (case find (contains_str ''f5-openstack-agent.ini'') fs of Some f \<Rightarrow> dirname f | None \<Rightarrow> fallback))"

section \<open>The capacity score\<close>

definition get_node_count :: "'d sdk \<Rightarrow> ('d, int) py" where
  "get_node_count S = bindM (ep_collection (sdk_node S) None) (\<lambda>ns. retM (int (length ns)))"

type_synonym global_stats = "(stat_table \<times> string option) option"

text \<open>The metrics, by the name of the method without \<open>get_\<close>.\<close>

definition metrics :: "('ip, 'net, 'd, 'w) drv_env \<Rightarrow> (string \<times> (global_stats \<Rightarrow> ('d, int) py)) list" where
  "metrics D =
     (let count = (\<lambda>m. bindM m (\<lambda>n. retM (int n))) in
      [(''inbound_throughput'', get_inbound_throughput (dr_sys D)),
       (''outbound_throughput'', get_outbound_throughput (dr_sys D)),
       (''throughput'', get_throughput (dr_sys D)),
       (''active_connections'', get_active_connection_count (dr_sys D)),
       (''ssltps'', get_active_SSL_TPS (dr_sys D)),
       (''node_count'', \<lambda>_. get_node_count (ltm_of D)),
       (''clientssl_profile_count'', \<lambda>_. get_client_ssl_profile_count (ltm_of D)),
       (''tenant_count'', \<lambda>_. count (get_tenant_folder_count (dr_sys D))),
       (''tunnel_count'', \<lambda>_. get_tunnel_count (ne_net (dr_net D)) ''/''),
       (''vlan_count'', \<lambda>_. get_vlan_count (ne_net (dr_net D)) ''/''),
       (''route_domain_count'', \<lambda>_. count (get_route_domain_count (ne_net (dr_net D)) '''')) ])"

text \<open>Other methods whose name starts so do not take the arguments of a metric.\<close>

definition no_metrics :: "string list" where
  "no_metrics =
     [''valid_esd_names'', ''failover_state'', ''agent_configurations'', ''all_deployed_loadbalancers'',
      ''all_deployed_listeners'', ''all_deployed_pools'', ''all_deployed_health_monitors'',
      ''all_deployed_l7_policys'', ''stats'', ''loadbalancers_in_tenant'', ''active_bigip'', ''bigip'',
      ''bigip_hosts'', ''all_bigips'', ''config_bigips'', ''active_bigips'', ''errored_bigips_hostnames'', ''config_dir'']"

definition metric_func ::
  "('ip, 'net, 'd, 'w) drv_env \<Rightarrow> string \<Rightarrow> (global_stats \<Rightarrow> ('d, int) py) option" where
  "metric_func D metric =
     (case map_of (metrics D) metric of
        Some f \<Rightarrow> Some f
      | None \<Rightarrow> if metric \<in> set no_metrics then Some (\<lambda>_. raiseM TypeError) else None)"

text \<open>The largest value of a metric on the active devices, at least 0.\<close>

definition metric_value ::
  "'d sys_sdk \<Rightarrow> (global_stats \<Rightarrow> ('d, int) py) \<Rightarrow> ('d bigip list, int) py" where
  "metric_value Y f =
     for_bigips (\<lambda>v. on_dev (bindM (get_global_statistics Y) (\<lambda>g. bindM (f g) (\<lambda>x. retM (max v x))))) 0"

definition zero_division :: exn where
  "zero_division = OtherError ''ZeroDivisionError''"

definition metric_capacity ::
  "('ip, 'net, 'd, 'w) drv_env \<Rightarrow> string \<Rightarrow> string \<Rightarrow> ('d bigip list, rat option) py" where
  "metric_capacity D metric bound =
     (case metric_func D metric of
        None \<Rightarrow> retM None
      | Some f \<Rightarrow>
          bindM (liftM (py_int bound)) (\<lambda>b.
          bindM (metric_value (dr_sys D) f) (\<lambda>v.
            if b = 0 then raiseM zero_division else retM (Some (of_int v / of_int b)))))"

fun highest_metric ::
  "('ip, 'net, 'd, 'w) drv_env \<Rightarrow> (string \<times> string) list \<Rightarrow> rat \<Rightarrow> ('d bigip list, rat) py" where
  "highest_metric D [] high = retM high"
| "highest_metric D ((metric, bound) # policy) high =
     bindM (metric_capacity D metric bound) (\<lambda>c.
       highest_metric D policy (case c of None \<Rightarrow> high | Some c \<Rightarrow> max high c))"

definition generate_capacity_score ::
  "('ip, 'net, 'd, 'w) drv_env \<Rightarrow> (string \<times> string) list \<Rightarrow> (('net, 'd, 'w) drv, rat) py" where
  "generate_capacity_score D policy = (if policy = [] then retM 0 else on_active (highest_metric D policy 0))"

section \<open>Removing the objects of a service\<close>

text \<open>The dictionary of the load balancer and one object; the adapter mutates the listener.\<close>

definition teardown_listener ::
  "'d benv \<Rightarrow> loadbalancer \<Rightarrow> listener \<Rightarrow> 'd bigip \<Rightarrow> (exn + unit) \<times> listener \<times> 'd bigip" where
  "teardown_listener B lb li b =
     (let A = be_adapter B; folder = get_folder_name A (lb_tenant_id lb);
          svc = empty_service\<lparr>sv_loadbalancer := Some lb\<rparr>;
          named = (if get_or '''' (li_name li) \<noteq> '''' then Inr (get_or '''' (li_name li), li)
                   else bindE (get_virtual (be_ip_version B) A svc lb li) (\<lambda>(v, li'). Inr (bn_name v, li')))
      in case named of
           Inl e \<Rightarrow> (Inl e, virtual_listener A lb None li, b)
         | Inr (n, li') \<Rightarrow> (case rh_delete (sdk_virtual (be_sdk B)) n folder b of (r, b') \<Rightarrow> (r, li', b')))"

definition teardown_pool :: "'d benv \<Rightarrow> loadbalancer \<Rightarrow> pool \<Rightarrow> 'd bigip \<Rightarrow> (exn + unit) \<times> pool \<times> 'd bigip" where
  "teardown_pool B lb p b =
     (let A = be_adapter B; folder = get_folder_name A (lb_tenant_id lb) in
      if get_or '''' (po_name p) \<noteq> ''''
      then (case rh_delete (sdk_pool (be_sdk B)) (get_or '''' (po_name p)) folder b of (r, b') \<Rightarrow> (r, p, b'))
      else case get_pool A lb p [] [] of
             (Inl e, p') \<Rightarrow> (Inl e, p', b)
           | (Inr bp, p') \<Rightarrow> (case rh_delete (sdk_pool (be_sdk B)) (bn_name bp) folder b of (r, b') \<Rightarrow> (r, p', b')))"

definition teardown_monitor ::
  "'d benv \<Rightarrow> loadbalancer \<Rightarrow> healthmonitor \<Rightarrow> 'd bigip \<Rightarrow> (exn + unit) \<times> healthmonitor \<times> 'd bigip" where
  "teardown_monitor B lb hm b =
     (let A = be_adapter B; folder = get_folder_name A (lb_tenant_id lb);
          ep = sdk_monitor (be_sdk B) (get_monitor_endpoint hm);
          named = (if get_or '''' (hm_name hm) \<noteq> '''' then Inr (get_or '''' (hm_name hm))
                   else bindE (map_healthmonitor A lb hm) (\<lambda>m. Inr (bn_name m)))
      in case named of
           Inl e \<Rightarrow> (Inl e, hm, b)
         | Inr n \<Rightarrow> (case rh_delete ep n folder b of (r, b') \<Rightarrow> (r, hm, b')))"

definition teardown_on :: "'d benv \<Rightarrow> loadbalancer \<Rightarrow> (service \<times> 'd bigip, unit) py" where
  "teardown_on B lb =
     bindM (for_objs sv_listeners (\<lambda>xs svc. svc\<lparr>sv_listeners := Some xs\<rparr>) (teardown_listener B lb)) (\<lambda>_.
     bindM (for_objs sv_pools (\<lambda>xs svc. svc\<lparr>sv_pools := Some xs\<rparr>) (teardown_pool B lb)) (\<lambda>_.
       for_objs sv_healthmonitors (\<lambda>xs svc. svc\<lparr>sv_healthmonitors := Some xs\<rparr>) (teardown_monitor B lb)))"

text \<open>\<open>Some False\<close> without a load balancer; otherwise the method has no result.\<close>

definition teardown_bigip ::
  "'d benv \<Rightarrow> loadbalancer \<Rightarrow> 'd bigip \<Rightarrow> service \<Rightarrow> (exn + unit) \<times> 'd bigip \<times> service" where
  "teardown_bigip B lb b svc = (case teardown_on B lb (svc, b) of (r, svc', b') \<Rightarrow> (r, b', svc'))"

definition service_object_teardown ::
  "('ip, 'net, 'd, 'w) drv_env \<Rightarrow> (('net, 'd, 'w) svc_drv, bool option) py" where
  "service_object_teardown D st =
     (case sv_loadbalancer (fst st) of
        None \<Rightarrow> (Inr (Some False), st)
      | Some lb \<Rightarrow>
          (case inplace (teardown_bigip (builder_env D (snd st)) lb) (get_all_bigips (dv_hosts (snd st))) (fst st) of
             (r, bs, svc) \<Rightarrow>
               ((case r of Inl e \<Rightarrow> Inl e | Inr _ \<Rightarrow> Inr None), svc,
                (snd st)\<lparr>dv_hosts := put_active (dv_hosts (snd st)) bs\<rparr>)))"

end
