(* ===== verification/AgentManager.thy ===== *)
theory AgentManager
  imports DriverSetup
begin

text \<open>
  \<open>agent_manager.py\<close>: the cache of services, the report of the agent's state, the periodic tasks, the
  purge of orphans, and the handlers of the calls from Neutron.

  The driver class is loaded by its configured name, so the manager uses it through the interface
  \<open>lbdriver\<close>, whose operations may call back and so work on the whole state of the agent; \<open>plugin_api\<close>
  is the RPC interface in the same way. Times are whole seconds; \<open>ag_now\<close> is the clock.
\<close>

section \<open>The service cache\<close>

record cached_service =
  cs_port_id :: "string option"
  cs_loadbalancer_id :: string
  cs_tenant_id :: "string option"
  cs_agent_host :: string

type_synonym service_cache = "(string \<times> cached_service) list"

definition cache_size :: "service_cache \<Rightarrow> nat" where
  "cache_size c = length c"

definition cache_put :: "service \<Rightarrow> string \<Rightarrow> service_cache \<Rightarrow> exn + service_cache" where
  "cache_put svc agent_host c =
     bindE (subE (sv_loadbalancer svc)) (\<lambda>lb.
       Inr (AList.update (lb_id lb)
              \<lparr>cs_port_id = lb_vip_port_id lb, cs_loadbalancer_id = lb_id lb, cs_tenant_id = lb_tenant_id lb,
               cs_agent_host = agent_host\<rparr> c))"

definition cache_remove_by_id :: "string \<Rightarrow> service_cache \<Rightarrow> service_cache" where
  "cache_remove_by_id i c = AList.delete i c"

definition cache_remove :: "service \<Rightarrow> service_cache \<Rightarrow> exn + service_cache" where
  "cache_remove svc c = bindE (subE (sv_loadbalancer svc)) (\<lambda>lb. Inr (cache_remove_by_id (lb_id lb) c))"

definition cache_get :: "string \<Rightarrow> service_cache \<Rightarrow> cached_service option" where
  "cache_get i c = map_of c i"

definition cache_ids :: "service_cache \<Rightarrow> string list" where
  "cache_ids c = map fst c"

text \<open>The code iterates the keys, which are texts without these attributes.\<close>

definition cache_tenant_ids :: "service_cache \<Rightarrow> exn + string list" where
  "cache_tenant_ids c = (if c = [] then Inr [] else Inl AttributeError)"

definition cache_agent_hosts :: "service_cache \<Rightarrow> exn + string list" where
  "cache_agent_hosts c = (if c = [] then Inr [] else Inl AttributeError)"

section \<open>State and interfaces\<close>

record 'v agent =
  ag_services :: service_cache
  ag_now :: int
  ag_last_resync :: int
  ag_needs_resync :: bool
  ag_pending :: "(string \<times> int) list"
  ag_admin_up :: bool
  ag_start_flag :: bool
  ag_capacity :: "(string \<times> rat) list"
  ag_driver :: 'v

datatype event =
    LoadbalancerEvent bool \<comment> \<open>delete\<close>
  | ListenerEvent | PoolEvent | MemberEvent | HealthMonitorEvent | L7PolicyEvent | L7RuleEvent

record 'v lbdriver =
  ld_connect :: "('v agent, unit) py"
  ld_recover :: "('v agent, unit) py"
  ld_flush_cache :: "('v agent, unit) py"
  ld_backend_integrity :: "'v agent \<Rightarrow> bool"
  ld_configurations :: "('v agent, unit) py"
  ld_capacity_score :: "(string \<times> string) list \<Rightarrow> ('v agent, rat) py"
  ld_tunnel_sync :: "('v agent, bool) py"
  ld_tunnel_update :: "('v agent, unit) py"
  ld_sync :: "service \<Rightarrow> ('v agent, bool option) py"
  ld_service_exists :: "service \<Rightarrow> ('v agent, bool \<times> service) py" \<comment> \<open>and the service it annotated\<close>
  ld_update_service_status :: "service \<Rightarrow> bool \<Rightarrow> ('v agent, unit) py"
  ld_update_operating_status :: "service \<Rightarrow> ('v agent, unit) py"
  ld_get_stats :: "service \<Rightarrow> ('v agent, unit) py"
  ld_event :: "event \<Rightarrow> service \<Rightarrow> ('v agent, bool option) py"
  ld_backup_configuration :: "('v agent, unit) py"
  ld_loadbalancers :: "bool \<Rightarrow> ('v agent, deployed_table option) py"
  ld_listeners :: "bool \<Rightarrow> ('v agent, deployed_table option) py"
  ld_l7_policys :: "('v agent, deployed_table option) py"
  ld_pools :: "('v agent, deployed_table option) py"
  ld_monitors :: "('v agent, deployed_table option) py"
  ld_purge_loadbalancer :: "string \<Rightarrow> string \<Rightarrow> string list \<Rightarrow> ('v agent, unit) py" \<comment> \<open>tenant, id, hosts\<close>
  ld_purge_listener :: "string \<Rightarrow> string \<Rightarrow> string list \<Rightarrow> ('v agent, unit) py"
  ld_purge_l7_policy :: "string \<Rightarrow> string \<Rightarrow> string list \<Rightarrow> string option \<Rightarrow> ('v agent, unit) py"
  ld_purge_pool :: "string \<Rightarrow> string \<Rightarrow> string list \<Rightarrow> ('v agent, unit) py"
  ld_purge_nodes :: "(string \<times> member list) list \<Rightarrow> ('v agent, unit) py"
  ld_purge_monitor :: "string \<Rightarrow> string \<Rightarrow> string list \<Rightarrow> ('v agent, unit) py"
  ld_fdb_add :: "fdb_message \<Rightarrow> ('v agent, unit) py"
  ld_fdb_remove :: "fdb_message \<Rightarrow> ('v agent, unit) py"

record 'v plugin_api =
  pa_service :: "string \<Rightarrow> ('v agent, service) py"
  pa_active :: "string \<Rightarrow> ('v agent, lb_row list) py" \<comment> \<open>of a host\<close>
  pa_all :: "string \<Rightarrow> ('v agent, lb_row list) py"
  pa_pending :: "string \<Rightarrow> ('v agent, lb_row list) py"
  pa_set_admin_state :: "bool \<Rightarrow> ('v agent, unit) py"
  pa_scrub_dead_agents :: "('v agent, unit) py"
  pa_clusterwide_agent :: "('v agent, string option) py"
  pa_validate_loadbalancers :: "string list \<Rightarrow> ('v agent, (string \<times> string) list) py"
  pa_validate_listeners :: "string list \<Rightarrow> ('v agent, (string \<times> string) list) py"
  pa_validate_pools :: "string list \<Rightarrow> ('v agent, (string \<times> string) list) py"
  pa_validate_l7policys :: "string list \<Rightarrow> ('v agent, (string \<times> bool) list) py"
  pa_pools_members :: "string list \<Rightarrow> ('v agent, (string \<times> member list) list) py"
  pa_report_state :: "('v agent, unit) py"

record 'v agent_env =
  ae_host :: string
  ae_resync_interval :: int
  ae_pending_timeout :: int
  ae_capacity_policy :: "(string \<times> string) list"
  ae_driver :: "'v lbdriver"
  ae_plugin :: "'v plugin_api"

text \<open>\<open>(now - t).seconds\<close>: a \<open>timedelta\<close> keeps whole days apart.\<close>

definition seconds_since :: "int \<Rightarrow> int \<Rightarrow> int" where
  "seconds_since now t = (now - t) mod 86400"

definition want_resync :: "('v agent, unit) py" where
  [py_simps]: "want_resync = modifyM (\<lambda>s. s\<lparr>ag_needs_resync := True\<rparr>)"

definition put_service :: "'v agent_env \<Rightarrow> service \<Rightarrow> ('v agent, unit) py" where
  "put_service A svc s =
     (case cache_put svc (ae_host A) (ag_services s) of
        Inl e \<Rightarrow> (Inl e, s) | Inr c \<Rightarrow> (Inr (), s\<lparr>ag_services := c\<rparr>))"

text \<open>\<open>except Exception\<close> with nothing but a log entry.\<close>

definition logged :: "('s, unit) py \<Rightarrow> ('s, unit) py" where
  [py_simps]: "logged m = tryM m (\<lambda>_. retM ())"

section \<open>Reporting the state\<close>

definition forget_services :: "'v agent_env \<Rightarrow> ('v agent, unit) py" where
  "forget_services A =
     bindM (modifyM (\<lambda>s. s\<lparr>ag_needs_resync := True, ag_services := []\<rparr>)) (\<lambda>_. ld_flush_cache (ae_driver A))"

definition report_admin_state :: "'v agent_env \<Rightarrow> ('v agent, unit) py" where
  "report_admin_state A =
     bindM (getsM (ld_backend_integrity (ae_driver A))) (\<lambda>ok.
       if \<not> ok then
         bindM (forget_services A) (\<lambda>_.
         bindM (pa_set_admin_state (ae_plugin A) False) (\<lambda>_. modifyM (\<lambda>s. s\<lparr>ag_admin_up := False\<rparr>)))
       else
         bindM (getsM ag_admin_up) (\<lambda>up.
           if up then retM ()
           else bindM (pa_set_admin_state (ae_plugin A) True) (\<lambda>_. modifyM (\<lambda>s. s\<lparr>ag_admin_up := True\<rparr>))))"

text \<open>The keys as the code spells them.\<close>

definition report_capacity :: "'v agent_env \<Rightarrow> ('v agent, unit) py" where
  "report_capacity A =
     (if ae_capacity_policy A \<noteq> []
      then bindM (ld_capacity_score (ae_driver A) (ae_capacity_policy A)) (\<lambda>c.
             modifyM (\<lambda>s. s\<lparr>ag_capacity := AList.update ''environment_capaciy_score'' c (ag_capacity s)\<rparr>))
      else modifyM (\<lambda>s. s\<lparr>ag_capacity := AList.update ''environment_capacity_score'' 0 (ag_capacity s)\<rparr>))"

definition report_state :: "'v agent_env \<Rightarrow> bool \<Rightarrow> ('v agent, unit) py" where
  "report_state A force_resync =
     logged (bindM (if force_resync then forget_services A else retM ()) (\<lambda>_.
             bindM (report_admin_state A) (\<lambda>_.
             bindM (ld_configurations (ae_driver A)) (\<lambda>_.
             bindM (report_capacity A) (\<lambda>_.
             bindM (pa_report_state (ae_plugin A)) (\<lambda>_. modifyM (\<lambda>s. s\<lparr>ag_start_flag := False\<rparr>)))))))"

definition agent_updated :: "'v agent_env \<Rightarrow> bool \<Rightarrow> ('v agent, unit) py" where
  "agent_updated A up =
     bindM (getsM ag_admin_up) (\<lambda>old.
       if up = old then retM ()
       else
         bindM (modifyM (\<lambda>s. s\<lparr>ag_admin_up := up\<rparr>)) (\<lambda>_.
         bindM (getsM (ld_backend_integrity (ae_driver A))) (\<lambda>ok. report_state A (ok \<and> up))))"

section \<open>Refreshing services\<close>

definition is_error :: "pstatus \<Rightarrow> bool" where
  "is_error st \<longleftrightarrow> st = ERROR"

text \<open>\<open>has_provisioning_status_of_error\<close> marks the load balancer when any object is in error.\<close>

definition any_error :: "service \<Rightarrow> loadbalancer \<Rightarrow> bool" where
  "any_error svc lb \<longleftrightarrow>
     is_error (lb_status lb) \<or> list_ex (\<lambda>m. me_status m = Some ERROR) (get_all (sv_members svc)) \<or>
     list_ex (\<lambda>x. is_error (po_status x)) (get_all (sv_pools svc)) \<or>
     list_ex (\<lambda>x. is_error (li_status x)) (get_all (sv_listeners svc)) \<or>
     list_ex (\<lambda>x. is_error (hm_status x)) (get_all (sv_healthmonitors svc)) \<or>
     list_ex (\<lambda>x. is_error (l7p_status x)) (get_all (sv_l7policies svc)) \<or>
     list_ex (\<lambda>x. is_error (l7r_status x)) (get_all (sv_l7policy_rules svc))"

definition has_provisioning_status_of_error :: "service \<Rightarrow> exn + bool \<times> service" where
  "has_provisioning_status_of_error svc =
     bindE (subE (sv_loadbalancer svc)) (\<lambda>lb.
       Inr (any_error svc lb, if any_error svc lb then lb_error svc else svc))"

text \<open>The handler of \<open>InvalidNetworkType\<close> reads \<open>exc.msg\<close>, which it lacks.\<close>

definition validate_service :: "'v agent_env \<Rightarrow> string \<Rightarrow> ('v agent, unit) py" where
  "validate_service A i =
     tryM (bindM (pa_service (ae_plugin A) i) (\<lambda>svc.
           bindM (put_service A svc) (\<lambda>_.
           bindM (ld_service_exists (ae_driver A) svc) (\<lambda>(ex, svc).
           bindM (if ex then liftM (has_provisioning_status_of_error svc) else retM (True, svc)) (\<lambda>(bad, svc).
             if bad then bindM (ld_sync (ae_driver A) svc) (\<lambda>_. retM ()) else retM ())))))
       (\<lambda>e. if e = F5 InvalidNetworkType then raiseM AttributeError else retM ())"

definition validate_services :: "'v agent_env \<Rightarrow> string list \<Rightarrow> ('v agent, unit) py" where
  "validate_services A ids =
     forM ids (\<lambda>i. bindM (getsM (\<lambda>s. cache_get i (ag_services s))) (\<lambda>c.
       if c = None then validate_service A i else retM ()))"

text \<open>The result is the flag of the agent, not that of the service.\<close>

definition refresh_service :: "'v agent_env \<Rightarrow> string \<Rightarrow> ('v agent, bool) py" where
  "refresh_service A i =
     bindM (tryM (bindM (pa_service (ae_plugin A) i) (\<lambda>svc.
                  bindM (put_service A svc) (\<lambda>_.
                  bindM (ld_sync (ae_driver A) svc) (\<lambda>p. if p = Some True then want_resync else retM ()))))
              (\<lambda>_. want_resync)) (\<lambda>_. getsM ag_needs_resync)"

definition service_timeout :: "'v agent_env \<Rightarrow> string \<Rightarrow> ('v agent, unit) py" where
  "service_timeout A i =
     logged (bindM (pa_service (ae_plugin A) i) (\<lambda>svc.
             bindM (put_service A svc) (\<lambda>_. ld_update_service_status (ae_driver A) svc True)))"

definition pending_since :: "int \<Rightarrow> string \<Rightarrow> ('v agent, int) py" where
  "pending_since now i s =
     (case map_of (ag_pending s) i of
        Some t \<Rightarrow> (Inr t, s)
      | None \<Rightarrow> (Inr now, s\<lparr>ag_pending := AList.update i now (ag_pending s)\<rparr>))"

definition refresh_pending :: "'v agent_env \<Rightarrow> int \<Rightarrow> string \<Rightarrow> ('v agent, unit) py" where
  "refresh_pending A now i =
     bindM (refresh_service A i) (\<lambda>p.
     bindM (if p then bindM (pending_since now i) (\<lambda>t.
                      if ae_pending_timeout A < seconds_since now t
                      then bindM (service_timeout A i) (\<lambda>_. retM False) else retM True)
            else retM False) (\<lambda>p.
       if p then retM () else modifyM (\<lambda>s. s\<lparr>ag_pending := AList.delete i (ag_pending s)\<rparr>)))"

definition row_ids :: "lb_row list \<Rightarrow> string list" where
  "row_ids rows = remdups (map lr_lb_id rows)"

definition refresh_pending_services :: "'v agent_env \<Rightarrow> ('v agent, bool) py" where
  "refresh_pending_services A =
     bindM (getsM ag_now) (\<lambda>now.
     bindM (pa_pending (ae_plugin A) (ae_host A)) (\<lambda>rows.
     bindM (forM (row_ids rows) (refresh_pending A now)) (\<lambda>_.
       getsM (\<lambda>s. ag_pending s \<noteq> []))))"

section \<open>Orphans\<close>

definition hosts_of :: "deployed_table \<Rightarrow> string \<Rightarrow> exn + deployed \<times> string list" where
  "hosts_of t i = bindE (subE (map_of t i)) (\<lambda>d. bindE (subE (dp_hostnames d)) (\<lambda>hs. Inr (d, hs)))"

text \<open>The objects Neutron calls \<open>Unknown\<close>.\<close>

definition purge_unknown ::
  "(string \<Rightarrow> string \<Rightarrow> string list \<Rightarrow> ('v agent, unit) py) \<Rightarrow> deployed_table \<Rightarrow> (string \<times> string) list \<Rightarrow> ('v agent, unit) py" where
  "purge_unknown purge t status =
     forM status (\<lambda>(i, st).
       if st = ''Unknown'' then bindM (liftM (hosts_of t i)) (\<lambda>(d, hs). purge (dp_tenant_id d) i hs) else retM ())"

definition purge_orphaned_loadbalancers :: "'v agent_env \<Rightarrow> deployed_table \<Rightarrow> ('v agent, unit) py" where
  "purge_orphaned_loadbalancers A t =
     bindM (pa_validate_loadbalancers (ae_plugin A) (map fst t)) (\<lambda>status.
     bindM (purge_unknown (ld_purge_loadbalancer (ae_driver A)) t status) (\<lambda>_.
       if list_ex (\<lambda>(i, st). st = ''Unknown'') status
       then bindM (ld_loadbalancers (ae_driver A) True) (\<lambda>_. retM ()) else retM ()))"

definition purge_orphaned_listeners :: "'v agent_env \<Rightarrow> deployed_table \<Rightarrow> ('v agent, unit) py" where
  "purge_orphaned_listeners A t =
     bindM (pa_validate_listeners (ae_plugin A) (map fst t)) (purge_unknown (ld_purge_listener (ae_driver A)) t)"

definition purge_orphaned_pools :: "'v agent_env \<Rightarrow> deployed_table \<Rightarrow> ('v agent, unit) py" where
  "purge_orphaned_pools A t =
     bindM (pa_validate_pools (ae_plugin A) (map fst t)) (purge_unknown (ld_purge_pool (ae_driver A)) t)"

text \<open>\<open>policy.split('/')[2]\<close>; a listener without policy counts as one with the empty policy.\<close>

definition policy_used :: "deployed \<Rightarrow> exn + string" where
  "policy_used d =
     (if dp_extra d = '''' then Inr ''''
      else let parts = split_on CHR ''/'' (dp_extra d) in if 2 < length parts then Inr (parts ! 2) else Inl IndexError)"

text \<open>A table that may be \<open>None\<close> is iterated.\<close>

definition the_table :: "deployed_table option \<Rightarrow> exn + deployed_table" where
  "the_table t = (case t of None \<Rightarrow> Inl TypeError | Some t \<Rightarrow> Inr t)"

text \<open>
  A policy Neutron does not have is purged together with the policies of the listener \<open>li_id\<close>: the
  variable of the loop before, so the last listener.
\<close>

definition purge_orphaned_l7_policys :: "'v agent_env \<Rightarrow> deployed_table \<Rightarrow> ('v agent, unit) py" where
  "purge_orphaned_l7_policys A policies =
     bindM (ld_listeners (ae_driver A) True) (\<lambda>t.
     bindM (liftM (the_table t)) (\<lambda>listeners.
     bindM (liftM (mapE policy_used (map snd listeners))) (\<lambda>used.
     bindM (pa_validate_l7policys (ae_plugin A) (map fst listeners)) (\<lambda>has.
       forM policies (\<lambda>(k, d).
         if k \<notin> set used then
           bindM (liftM (hosts_of policies k)) (\<lambda>(d, hs). ld_purge_l7_policy (ae_driver A) (dp_tenant_id d) k hs None)
         else if \<not> get_or False (map_of has (dp_id d)) then
           bindM (liftM (hosts_of policies k)) (\<lambda>(d, hs).
             if listeners = [] then raiseM UnboundLocalError
             else ld_purge_l7_policy (ae_driver A) (dp_tenant_id d) k hs (Some (fst (last listeners))))
         else retM ())))))"

definition tenant_members :: "deployed_table \<Rightarrow> (string \<times> member list) list \<Rightarrow> (string \<times> member list) list" where
  "tenant_members pools members =
     fold (\<lambda>(i, d) acc.
       AList.update (dp_tenant_id d) (get_or [] (map_of acc (dp_tenant_id d)) @ get_or [] (map_of members i)) acc) pools []"

definition purge_orphaned_nodes_of :: "'v agent_env \<Rightarrow> deployed_table \<Rightarrow> ('v agent, unit) py" where
  "purge_orphaned_nodes_of A pools =
     bindM (pa_pools_members (ae_plugin A) (map fst pools)) (\<lambda>ms. ld_purge_nodes (ae_driver A) (tenant_members pools ms))"

definition purge_orphaned_health_monitors :: "'v agent_env \<Rightarrow> deployed_table \<Rightarrow> ('v agent, unit) py" where
  "purge_orphaned_health_monitors A monitors =
     bindM (ld_pools (ae_driver A)) (\<lambda>t.
     bindM (liftM (the_table t)) (\<lambda>pools.
       forM monitors (\<lambda>(k, _).
         if k \<in> dp_extra ` set (map snd pools) then retM ()
         else bindM (liftM (hosts_of monitors k)) (\<lambda>(d, hs). ld_purge_monitor (ae_driver A) (dp_tenant_id d) k hs))))"

text \<open>\<open>x = self.lbdriver.get_all_deployed...; if x: self.purge...\<close>.\<close>

definition if_deployed ::
  "('v agent, deployed_table option) py \<Rightarrow> (deployed_table \<Rightarrow> ('v agent, unit) py) \<Rightarrow> ('v agent, unit) py" where
  "if_deployed m f = bindM m (\<lambda>t. if get_or [] t = [] then retM () else f (get_or [] t))"

definition purge_all :: "'v agent_env \<Rightarrow> ('v agent, unit) py" where
  "purge_all A =
     bindM (if_deployed (ld_loadbalancers (ae_driver A) True) (purge_orphaned_loadbalancers A)) (\<lambda>_.
     bindM (if_deployed (ld_listeners (ae_driver A) False) (purge_orphaned_listeners A)) (\<lambda>_.
     bindM (if_deployed (ld_l7_policys (ae_driver A)) (purge_orphaned_l7_policys A)) (\<lambda>_.
     bindM (if_deployed (ld_pools (ae_driver A))
              (\<lambda>pools. bindM (purge_orphaned_pools A pools) (\<lambda>_. purge_orphaned_nodes_of A pools))) (\<lambda>_.
       if_deployed (ld_monitors (ae_driver A)) (purge_orphaned_health_monitors A)))))"

text \<open>The result asks for another resync.\<close>

definition clean_orphaned_objects :: "'v agent_env \<Rightarrow> ('v agent, bool) py" where
  "clean_orphaned_objects A =
     tryM (bindM (pa_clusterwide_agent (ae_plugin A)) (\<lambda>g.
             case g of
               None \<Rightarrow> retM True
             | Some h \<Rightarrow>
                 if h \<noteq> ae_host A then retM True
                 else bindM (purge_all A) (\<lambda>_. bindM (ld_backup_configuration (ae_driver A)) (\<lambda>_. retM False))))
       (\<lambda>_. retM True)"

section \<open>The periodic tasks\<close>

text \<open>The service lists of the cache are only logged; an unhealthy driver ends the task.\<close>

definition sync_state :: "'v agent_env \<Rightarrow> ('v agent, bool) py" where
  "sync_state A =
     bindM (getsM (ld_backend_integrity (ae_driver A))) (\<lambda>ok.
       if \<not> ok then retM False
       else
         tryM (bindM (pa_active (ae_plugin A) (ae_host A)) (\<lambda>_.
               bindM (pa_all (ae_plugin A) (ae_host A)) (\<lambda>rows.
               bindM (validate_services A (row_ids rows)) (\<lambda>_. refresh_pending_services A))))
           (\<lambda>_. retM True))"

definition resync_if :: "('v agent, bool) py \<Rightarrow> ('v agent, unit) py" where
  "resync_if m = bindM m (\<lambda>again. if again then want_resync else retM ())"

definition check_resync_timer :: "'v agent_env \<Rightarrow> ('v agent, unit) py" where
  "check_resync_timer A =
     bindM (getsM (\<lambda>s. \<not> ag_needs_resync s \<and> ae_resync_interval A < seconds_since (ag_now s) (ag_last_resync s))) (\<lambda>due.
       if due then
         bindM (modifyM (\<lambda>s. s\<lparr>ag_needs_resync := True, ag_services := [], ag_last_resync := ag_now s\<rparr>)) (\<lambda>_.
           ld_flush_cache (ae_driver A))
       else retM ())"

definition periodic_resync :: "'v agent_env \<Rightarrow> ('v agent, unit) py" where
  "periodic_resync A =
     bindM (check_resync_timer A) (\<lambda>_.
     bindM (getsM ag_needs_resync) (\<lambda>needed.
       if \<not> needed then retM ()
       else
         bindM (modifyM (\<lambda>s. s\<lparr>ag_needs_resync := False\<rparr>)) (\<lambda>_.
         bindM (resync_if (ld_tunnel_sync (ae_driver A))) (\<lambda>_.
         bindM (resync_if (sync_state A)) (\<lambda>_. resync_if (clean_orphaned_objects A))))))"

definition update_status_of :: "'v agent_env \<Rightarrow> lb_row \<Rightarrow> ('v agent, unit) py" where
  "update_status_of A r =
     (if lr_agent_host r \<noteq> ae_host A then retM ()
      else logged (bindM (pa_service (ae_plugin A) (lr_lb_id r)) (ld_update_operating_status (ae_driver A))))"

definition update_operating_status_task :: "'v agent_env \<Rightarrow> ('v agent, unit) py" where
  "update_operating_status_task A = bindM (pa_active (ae_plugin A) (ae_host A)) (\<lambda>rows. forM rows (update_status_of A))"

section \<open>The calls from Neutron\<close>

text \<open>
  create, update and delete of a kind of object have the same body; a load balancer that is deleted leaves
  the cache instead. The handlers of L7 policies and rules do not look at the result.
\<close>

definition resync_if_pending :: "bool option \<Rightarrow> ('v agent, unit) py" where
  "resync_if_pending p = (if p = Some True then want_resync else retM ())"

definition object_handler :: "'v agent_env \<Rightarrow> event \<Rightarrow> service \<Rightarrow> ('v agent, unit) py" where
  "object_handler A ev svc =
     logged (bindM (ld_event (ae_driver A) ev svc) (\<lambda>p. bindM (put_service A svc) (\<lambda>_. resync_if_pending p)))"

definition loadbalancer_handler :: "'v agent_env \<Rightarrow> bool \<Rightarrow> service \<Rightarrow> ('v agent, unit) py" where
  "loadbalancer_handler A is_delete svc =
     (if is_delete
      then logged (bindM (ld_event (ae_driver A) (LoadbalancerEvent True) svc) (\<lambda>p.
             bindM (bindM (liftM (subE (sv_loadbalancer svc))) (\<lambda>lb.
                      modifyM (\<lambda>s. s\<lparr>ag_services := cache_remove_by_id (lb_id lb) (ag_services s)\<rparr>))) (\<lambda>_.
               resync_if_pending p)))
      else object_handler A (LoadbalancerEvent False) svc)"

definition listener_handler :: "'v agent_env \<Rightarrow> service \<Rightarrow> ('v agent, unit) py" where
  "listener_handler A = object_handler A ListenerEvent"

definition pool_handler :: "'v agent_env \<Rightarrow> service \<Rightarrow> ('v agent, unit) py" where
  "pool_handler A = object_handler A PoolEvent"

definition member_handler :: "'v agent_env \<Rightarrow> service \<Rightarrow> ('v agent, unit) py" where
  "member_handler A = object_handler A MemberEvent"

definition health_monitor_handler :: "'v agent_env \<Rightarrow> service \<Rightarrow> ('v agent, unit) py" where
  "health_monitor_handler A = object_handler A HealthMonitorEvent"

definition l7_handler :: "'v agent_env \<Rightarrow> event \<Rightarrow> service \<Rightarrow> ('v agent, unit) py" where
  "l7_handler A ev svc = logged (bindM (ld_event (ae_driver A) ev svc) (\<lambda>_. put_service A svc))"

fun handle_event :: "'v agent_env \<Rightarrow> event \<Rightarrow> service \<Rightarrow> ('v agent, unit) py" where
  "handle_event A (LoadbalancerEvent is_delete) = loadbalancer_handler A is_delete"
| "handle_event A ListenerEvent = listener_handler A"
| "handle_event A PoolEvent = pool_handler A"
| "handle_event A MemberEvent = member_handler A"
| "handle_event A HealthMonitorEvent = health_monitor_handler A"
| "handle_event A L7PolicyEvent = l7_handler A L7PolicyEvent"
| "handle_event A L7RuleEvent = l7_handler A L7RuleEvent"

lemmas handler_defs =
  object_handler_def loadbalancer_handler_def listener_handler_def pool_handler_def member_handler_def
  health_monitor_handler_def l7_handler_def resync_if_pending_def

definition update_loadbalancer_stats :: "'v agent_env \<Rightarrow> service \<Rightarrow> ('v agent, unit) py" where
  "update_loadbalancer_stats A svc = logged (bindM (ld_get_stats (ae_driver A) svc) (\<lambda>_. put_service A svc))"

definition agent_add_fdb_entries :: "'v agent_env \<Rightarrow> fdb_message \<Rightarrow> ('v agent, unit) py" where
  "agent_add_fdb_entries A fdb = logged (ld_fdb_add (ae_driver A) fdb)"

definition agent_remove_fdb_entries :: "'v agent_env \<Rightarrow> fdb_message \<Rightarrow> ('v agent, unit) py" where
  "agent_remove_fdb_entries A fdb = logged (ld_fdb_remove (ae_driver A) fdb)"

text \<open>An update of an address is not handled, but for a warning.\<close>

definition agent_update_fdb_entries :: "'v agent_env \<Rightarrow> fdb_message \<Rightarrow> ('v agent, unit) py" where
  "agent_update_fdb_entries A fdb = logged (retM ())"

definition agent_tunnel_update :: "'v agent_env \<Rightarrow> ('v agent, unit) py" where
  "agent_tunnel_update A = logged (ld_tunnel_update (ae_driver A))"

definition agent_tunnel_sync :: "'v agent_env \<Rightarrow> ('v agent, bool) py" where
  "agent_tunnel_sync A = ld_tunnel_sync (ae_driver A)"

text \<open>\<open>static_agent_configuration_data\<close>: entries \<open>name:value\<close> separated by commas.\<close>

definition static_entry :: "string \<Rightarrow> (string \<times> string) list \<Rightarrow> (string \<times> string) list" where
  "static_entry entry conf =
     (case split_on CHR '':'' (strip entry) of n # v # _ \<Rightarrow> AList.update n v conf | _ \<Rightarrow> conf)"

definition static_configuration :: "string \<Rightarrow> (string \<times> string) list \<Rightarrow> (string \<times> string) list" where
  "static_configuration s conf = (if s = '''' then conf else fold static_entry (split_on CHR '','' s) conf)"

section \<open>Construction\<close>

text \<open>
  The identity of the agent: a configured id, or the host with a hash of the environment and the first
  device name. \<open>uuid5\<close> is the hash in the DNS name space. Without a host name (the driver failed to read
  them) there is \<open>None\<close> to subscript.
\<close>

definition agent_host :: "string \<Rightarrow> string \<Rightarrow> string \<Rightarrow> string" where
  "agent_host agent_id host agent_hash = (if agent_id = '''' then host @ '':'' @ agent_hash else agent_id)"

definition hash_source :: "string \<Rightarrow> string option list \<Rightarrow> exn + string" where
  "hash_source prefix hostnames =
     (case hostnames of Some h # _ \<Rightarrow> Inr (prefix @ ''.'' @ h) | _ \<Rightarrow> Inl TypeError)"

definition agent_identity ::
  "(string \<Rightarrow> string) \<Rightarrow> string \<Rightarrow> string \<Rightarrow> string \<Rightarrow> string option list \<Rightarrow> exn + string" where
  "agent_identity uuid5 agent_id host prefix hostnames =
     (if agent_id \<noteq> '''' then Inr (agent_host agent_id host '''')
      else bindE (hash_source prefix hostnames) (\<lambda>x. Inr (agent_host agent_id host (uuid5 x))))"

definition agent_configurations :: "string \<Rightarrow> int \<Rightarrow> bool \<Rightarrow> string \<Rightarrow> (string \<times> rpc_value) list" where
  "agent_configurations prefix grp grm static =
     fold (\<lambda>(n, v). AList.update n (RStr v)) (static_configuration static [])
       [(''environment_prefix'', RStr prefix), (''environment_group_number'', RInt grp), (''global_routed_mode'', RBool grm)]"

definition plugin_topic :: "bool \<Rightarrow> string \<Rightarrow> string" where
  "plugin_topic environment_specific prefix =
     ''f5-lbaasv2-process-on-controller'' @ (if environment_specific then ''_'' @ prefix else '''')"

text \<open>The topic on which the agent receives the calls.\<close>

definition node_topic :: "string \<Rightarrow> string \<Rightarrow> string" where
  "node_topic prefix host = ''f5-lbaasv2-process-on-agent_'' @ prefix @ ''.'' @ host"

definition new_plugin :: "bool \<Rightarrow> string \<Rightarrow> int \<Rightarrow> string \<Rightarrow> plugin" where
  "new_plugin environment_specific prefix grp host =
     plugin_init (plugin_topic environment_specific prefix) prefix grp host"

text \<open>What the agent subscribes to; nothing in global routed mode.\<close>

definition rpc_consumers :: "conf \<Rightarrow> string \<Rightarrow> string list list" where
  "rpc_consumers c host =
     (if f5_global_routed_mode c then []
      else [''tunnel'', ''update''] # (if l2_population c then [[''l2population'', ''update'', host]] else []))"

definition new_agent :: "int \<Rightarrow> bool \<Rightarrow> 'v \<Rightarrow> 'v agent" where
  "new_agent now up v =
     \<lparr>ag_services = [], ag_now = now, ag_last_resync = now, ag_needs_resync = False, ag_pending = [],
      ag_admin_up = up, ag_start_flag = True, ag_capacity = [], ag_driver = v\<rparr>"

text \<open>The end of the constructor, and the periodic tasks that call the driver.\<close>

definition start_agent :: "'v agent_env \<Rightarrow> bool \<Rightarrow> ('v agent, unit) py" where
  "start_agent A up =
     bindM (modifyM (\<lambda>s. s\<lparr>ag_needs_resync := True, ag_admin_up := up, ag_start_flag := True\<rparr>)) (\<lambda>_.
     bindM (if up then pa_set_admin_state (ae_plugin A) True else retM ()) (\<lambda>_. ld_connect (ae_driver A)))"

definition connect_driver :: "'v agent_env \<Rightarrow> ('v agent, unit) py" where
  "connect_driver A = ld_connect (ae_driver A)"

definition recover_devices :: "'v agent_env \<Rightarrow> ('v agent, unit) py" where
  "recover_devices A = ld_recover (ae_driver A)"

definition scrub_dead_agents_task :: "'v agent_env \<Rightarrow> ('v agent, unit) py" where
  "scrub_dead_agents_task A = pa_scrub_dead_agents (ae_plugin A)"

definition all_vs_known_services :: "'v agent_env \<Rightarrow> service_cache \<Rightarrow> string list \<times> string list" where
  "all_vs_known_services A c = (map fst c, map fst (filter (\<lambda>(i, x). cs_agent_host x = ae_host A) c))"

end
