(* ===== verification/Agent_Properties.thy ===== *)
theory Agent_Properties
  imports AgentManager Frames
begin

text \<open>
  The properties of the agent manager: the cache and the handlers, the purge of orphans, the timers and
  the report of the admin state. The witnesses run an agent whose driver always answers and counts the
  calls of interest in its state.
\<close>

section \<open>An agent\<close>





section \<open>Events\<close>



section \<open>Orphans\<close>



section \<open>Timers\<close>



section \<open>Where the code errs\<close>





end
