(* ===== verification/AgentSystem.thy ===== *)
theory AgentSystem
  imports AgentManager
begin

text \<open>
  The agent manager with the iControl driver and the RPC interface behind its two interfaces.

  The driver calls the agent back (\<open>agent_report_state\<close>) and the agent calls the driver in the report, so
  the two are mutually recursive. The state of the system is an \<open>agent\<close> whose driver part is the state of
  the driver; while the driver runs, the fields of the agent travel in the second component of its world
  (\<open>enter\<close>, \<open>leave\<close>), where the callback finds them. The RPC clients work on the first component.

  \<open>report_cb\<close> gives the callback a depth; \<open>report\<close> chooses it from the number of active devices, and
  \<open>System_Properties\<close> shows that this is the callback the code has.
\<close>

section \<open>Passing from one to the other\<close>

type_synonym ('net, 'd, 'x) sys_drv = "('net, 'd, 'x \<times> unit agent) drv"
type_synonym ('net, 'd, 'x) sys = "('net, 'd, 'x) sys_drv agent"

definition shell_of :: "'v agent \<Rightarrow> unit agent" where
  "shell_of a =
     \<lparr>ag_services = ag_services a, ag_now = ag_now a, ag_last_resync = ag_last_resync a,
      ag_needs_resync = ag_needs_resync a, ag_pending = ag_pending a, ag_admin_up = ag_admin_up a,
      ag_start_flag = ag_start_flag a, ag_capacity = ag_capacity a, ag_driver = ()\<rparr>"

definition with_driver :: "unit agent \<Rightarrow> 'v \<Rightarrow> 'v agent" where
  "with_driver sh v =
     \<lparr>ag_services = ag_services sh, ag_now = ag_now sh, ag_last_resync = ag_last_resync sh,
      ag_needs_resync = ag_needs_resync sh, ag_pending = ag_pending sh, ag_admin_up = ag_admin_up sh,
      ag_start_flag = ag_start_flag sh, ag_capacity = ag_capacity sh, ag_driver = v\<rparr>"

definition enter :: "('net, 'd, 'x) sys \<Rightarrow> ('net, 'd, 'x) sys_drv" where
  "enter a = (ag_driver a)\<lparr>dv_world := (fst (dv_world (ag_driver a)), shell_of a)\<rparr>"

definition leave :: "('net, 'd, 'x) sys_drv \<Rightarrow> ('net, 'd, 'x) sys" where
  "leave s = with_driver (snd (dv_world s)) s"

text \<open>An operation of the driver, in the system; and one of the agent, called by the driver.\<close>

definition drive :: "(('net, 'd, 'x) sys_drv, 'a) py \<Rightarrow> (('net, 'd, 'x) sys, 'a) py" where
  "drive m a = (case m (enter a) of (r, s) \<Rightarrow> (r, leave s))"

definition manage :: "(('net, 'd, 'x) sys, 'a) py \<Rightarrow> (('net, 'd, 'x) sys_drv, 'a) py" where
  "manage m s = (case m (leave s) of (r, a) \<Rightarrow> (r, enter a))"

section \<open>The driver behind the interface\<close>

text \<open>A call that gets the service; what the driver writes into it is dropped, or returned with the result.\<close>

definition with_service :: "service \<Rightarrow> (('net, 'd, 'w) svc_drv, 'a) py \<Rightarrow> (('net, 'd, 'w) drv, 'a) py" where
  "with_service svc m s = (case m (svc, s) of (r, _, s') \<Rightarrow> (r, s'))"

definition returning_service :: "service \<Rightarrow> (('net, 'd, 'w) svc_drv, 'a) py \<Rightarrow> (('net, 'd, 'w) drv, 'a \<times> service) py" where
  "returning_service svc m s =
     (case m (svc, s) of (r, svc', s') \<Rightarrow> (case r of Inl e \<Rightarrow> Inl e | Inr x \<Rightarrow> Inr (x, svc'), s'))"

definition no_result :: "('s, 'a) py \<Rightarrow> ('s, unit) py" where
  [py_simps]: "no_result m = bindM m (\<lambda>_. retM ())"

fun driver_event :: "('ip, 'net, 'd, 'w) drv_env \<Rightarrow> event \<Rightarrow> (('net, 'd, 'w) svc_drv, bool option) py" where
  "driver_event D (LoadbalancerEvent is_delete) = loadbalancer_event D is_delete"
| "driver_event D ListenerEvent = listener_event D"
| "driver_event D PoolEvent = pool_event D"
| "driver_event D MemberEvent = member_event D"
| "driver_event D HealthMonitorEvent = health_monitor_event D"
| "driver_event D L7PolicyEvent = l7policy_event D"
| "driver_event D L7RuleEvent = l7rule_event D"

text \<open>\<open>members\<close> and \<open>addresses\<close> read the members of a pool from a device.\<close>

definition icontrol ::
  "('ip, 'net, 'd, 'x \<times> unit agent) drv_env \<Rightarrow> (bigip_pool \<Rightarrow> ('d bigip, string list) py)
     \<Rightarrow> (bigip_pool \<Rightarrow> ('d, string list) py) \<Rightarrow> ('net, 'd, 'x) sys_drv lbdriver" where
  "icontrol D members addresses =
     \<lparr>ld_connect = drive (connect D), ld_recover = drive (recover_errored_devices D),
      ld_flush_cache = drive flush_cache, ld_backend_integrity = (\<lambda>a. backend_integrity (ag_driver a)),
      ld_configurations = drive (get_agent_configurations D),
      ld_capacity_score = (\<lambda>policy. drive (generate_capacity_score D policy)),
      ld_tunnel_sync = drive (driver_tunnel_sync D), ld_tunnel_update = drive driver_tunnel_update,
      ld_sync = (\<lambda>svc. drive (sync D svc)),
      ld_service_exists = (\<lambda>svc. drive (returning_service svc (service_exists D members))),
      ld_update_service_status = (\<lambda>svc timed_out. drive (with_service svc (update_service_status D timed_out))),
      ld_update_operating_status = (\<lambda>svc. drive (no_result (with_service svc (update_operating_status_event D)))),
      ld_get_stats = (\<lambda>svc. drive (no_result (with_service svc (get_stats D)))),
      ld_event = (\<lambda>ev svc. drive (with_service svc (driver_event D ev))),
      ld_backup_configuration = drive (no_result (backup_configuration D)),
      ld_loadbalancers = (\<lambda>purge. drive (get_all_deployed_loadbalancers D purge)),
      ld_listeners = (\<lambda>expand. drive (get_all_deployed_listeners D expand)),
      ld_l7_policys = drive (get_all_deployed_l7_policys D),
      ld_pools = drive (get_all_deployed_pools D),
      ld_monitors = drive (get_all_deployed_health_monitors D),
      ld_purge_loadbalancer = (\<lambda>t i hs. drive (no_result (purge_orphaned_loadbalancer D t i hs))),
      ld_purge_listener = (\<lambda>t i hs. drive (no_result (purge_orphaned_listener D t i hs))),
      ld_purge_l7_policy = (\<lambda>t i hs li. drive (no_result (purge_orphaned_l7_policy D t i hs li))),
      ld_purge_pool = (\<lambda>t i hs. drive (no_result (purge_orphaned_pool D addresses t i hs))),
      ld_purge_nodes = (\<lambda>tms. drive (no_result (purge_orphaned_nodes D tms))),
      ld_purge_monitor = (\<lambda>t i hs. drive (no_result (purge_orphaned_health_monitor D t i hs))),
      ld_fdb_add = (\<lambda>fdb. drive (fdb_add D fdb)), ld_fdb_remove = (\<lambda>fdb. drive (fdb_remove D fdb))\<rparr>"

section \<open>The RPC interface behind the interface\<close>

text \<open>The replies of Neutron, by their type; \<open>rp_report\<close> is the state report of Neutron's own agent API.\<close>

record 'w reply_clients =
  rp_done :: "('w, unit) client"
  rp_flag :: "('w, bool) client"
  rp_service :: "('w, service) client"
  rp_rows :: "('w, lb_row list) client"
  rp_agent :: "('w, string option) client"
  rp_states :: "('w, (string \<times> string) list) client"
  rp_policies :: "('w, (string \<times> bool) list) client"
  rp_members :: "('w, (string \<times> member list) list) client"
  rp_report :: "('w, unit) py"

definition ask :: "('x \<times> unit agent, 'a) py \<Rightarrow> (('net, 'd, 'x) sys, 'a) py" where
  "ask m = drive (on_world m)"

definition rpc_api :: "plugin \<Rightarrow> ('x \<times> unit agent) reply_clients \<Rightarrow> ('net, 'd, 'x) sys_drv plugin_api" where
  "rpc_api P R =
     \<lparr>pa_service = (\<lambda>i. ask (get_service_by_loadbalancer_id P (rp_service R) i)),
      pa_active = (\<lambda>h. ask (get_active_loadbalancers P (rp_rows R) None None (Some h))),
      pa_all = (\<lambda>h. ask (get_all_loadbalancers P (rp_rows R) None None (Some h))),
      pa_pending = (\<lambda>h. ask (get_pending_loadbalancers P (rp_rows R) None None (Some h))),
      pa_set_admin_state = (\<lambda>up. no_result (ask (set_agent_admin_state P (rp_flag R) up))),
      pa_scrub_dead_agents = ask (scrub_dead_agents P (rp_done R) (pg_env P) (pg_group P)),
      pa_clusterwide_agent = ask (get_clusterwide_agent P (rp_agent R) (pg_env P) (pg_group P)),
      pa_validate_loadbalancers = (\<lambda>ids. ask (validate_loadbalancers_state P (rp_states R) ids)),
      pa_validate_listeners = (\<lambda>ids. ask (validate_listeners_state P (rp_states R) ids)),
      pa_validate_pools = (\<lambda>ids. ask (validate_pools_state P (rp_states R) ids)),
      pa_validate_l7policys = (\<lambda>ids. ask (validate_l7policys_state_by_listener P (rp_policies R) ids)),
      pa_pools_members = (\<lambda>ids. ask (get_pools_members P (rp_members R) ids)),
      pa_report_state = ask (rp_report R)\<rparr>"

section \<open>The system\<close>

record ('ip, 'net, 'd, 'x) deployment =
  su_driver :: "('ip, 'net, 'd, 'x \<times> unit agent) drv_env"
  su_members :: "bigip_pool \<Rightarrow> ('d bigip, string list) py"
  su_addresses :: "bigip_pool \<Rightarrow> ('d, string list) py"
  su_plugin :: plugin
  su_replies :: "('x \<times> unit agent) reply_clients"
  su_host :: string
  su_resync_interval :: int
  su_pending_timeout :: int
  su_capacity_policy :: "(string \<times> string) list"

text \<open>The driver after \<open>set_agent_report_state\<close>, and the agent with that driver.\<close>

definition driver_with ::
  "('ip, 'net, 'd, 'x) deployment \<Rightarrow> (bool \<Rightarrow> (('net, 'd, 'x) sys_drv, unit) py) \<Rightarrow> ('ip, 'net, 'd, 'x \<times> unit agent) drv_env" where
  "driver_with S cb = (su_driver S)\<lparr>dr_report := Some cb\<rparr>"

definition agent_with ::
  "('ip, 'net, 'd, 'x) deployment \<Rightarrow> (bool \<Rightarrow> (('net, 'd, 'x) sys_drv, unit) py) \<Rightarrow> ('net, 'd, 'x) sys_drv agent_env" where
  "agent_with S cb =
     \<lparr>ae_host = su_host S, ae_resync_interval = su_resync_interval S, ae_pending_timeout = su_pending_timeout S,
      ae_capacity_policy = su_capacity_policy S,
      ae_driver = icontrol (driver_with S cb) (su_members S) (su_addresses S), ae_plugin = rpc_api (su_plugin S) (su_replies S)\<rparr>"

text \<open>The callback with a depth. At depth 0 the stack of Python is taken to be exhausted.\<close>

primrec report_cb ::
  "('ip, 'net, 'd, 'x) deployment \<Rightarrow> nat \<Rightarrow> bool \<Rightarrow> (('net, 'd, 'x) sys_drv, unit) py" where
  "report_cb S 0 = (\<lambda>force. raiseM (OtherError ''RuntimeError''))"
| "report_cb S (Suc n) = (\<lambda>force. manage (report_state (agent_with S (report_cb S n)) force))"

definition active_count :: "(string option \<times> 'd host) list \<Rightarrow> nat" where
  "active_count hs = length (filter (\<lambda>(k, x). ho_status x = HActive) hs)"

definition report :: "('ip, 'net, 'd, 'x) deployment \<Rightarrow> bool \<Rightarrow> (('net, 'd, 'x) sys_drv, unit) py" where
  "report S force s = report_cb S (Suc (active_count (dv_hosts s))) force s"

definition system :: "('ip, 'net, 'd, 'x) deployment \<Rightarrow> ('net, 'd, 'x) sys_drv agent_env" where
  "system S = agent_with S (report S)"

section \<open>What can happen\<close>

text \<open>
  The calls from Neutron, the periodic tasks, the heartbeat and the clock. One of them runs at a time
  (\<open>ServiceQueue\<close>); what it raises ends in its caller, so the state it leaves is the next one.
\<close>

datatype occurrence =
    Tick nat | Connect | Recover | Heartbeat | AdminState bool | PeriodicResync | StatusTask | ScrubAgents
  | Call event service | Stats service | FdbAdd fdb_message | FdbRemove fdb_message | FdbUpdate fdb_message | TunnelUpdate

fun occur :: "'v agent_env \<Rightarrow> occurrence \<Rightarrow> ('v agent, unit) py" where
  "occur A (Tick n) = modifyM (\<lambda>s. s\<lparr>ag_now := ag_now s + int n\<rparr>)"
| "occur A Connect = connect_driver A"
| "occur A Recover = recover_devices A"
| "occur A Heartbeat = report_state A False"
| "occur A (AdminState up) = agent_updated A up"
| "occur A PeriodicResync = periodic_resync A"
| "occur A StatusTask = update_operating_status_task A"
| "occur A ScrubAgents = scrub_dead_agents_task A"
| "occur A (Call ev svc) = handle_event A ev svc"
| "occur A (Stats svc) = update_loadbalancer_stats A svc"
| "occur A (FdbAdd fdb) = agent_add_fdb_entries A fdb"
| "occur A (FdbRemove fdb) = agent_remove_fdb_entries A fdb"
| "occur A (FdbUpdate fdb) = agent_update_fdb_entries A fdb"
| "occur A TunnelUpdate = agent_tunnel_update A"

inductive reachable :: "'v agent_env \<Rightarrow> 'v agent \<Rightarrow> 'v agent \<Rightarrow> bool" for A s0 where
  reach_start: "reachable A s0 s0"
| reach_occur: "reachable A s0 s \<Longrightarrow> occur A c s = (r, s') \<Longrightarrow> reachable A s0 s'"

end
