(* ===== verification/Agreement.thy ===== *)
theory Agreement
  imports Frames
begin

text \<open>
  Two computations that \<open>agree\<close> on the states of a predicate, and what a computation \<open>ensures\<close> of the
  state it leaves. The rules follow the combinators: after a first part that ensures \<open>Q\<close>, the rest only
  has to agree where \<open>Q\<close> holds.
\<close>

definition ensures :: "('s \<Rightarrow> bool) \<Rightarrow> ('s, 'a) py \<Rightarrow> ('s \<Rightarrow> bool) \<Rightarrow> bool" where
  "ensures P m Q \<longleftrightarrow> (\<forall>s. P s \<longrightarrow> Q (snd (m s)))"

definition agree :: "('s \<Rightarrow> bool) \<Rightarrow> ('s, 'a) py \<Rightarrow> ('s, 'a) py \<Rightarrow> bool" where
  "agree P m n \<longleftrightarrow> (\<forall>s. P s \<longrightarrow> m s = n s)"

lemma ensuresI: "(\<And>s. P s \<Longrightarrow> Q (snd (m s))) \<Longrightarrow> ensures P m Q"
  by (simp add: ensures_def)

lemma keeps_ensures: "keeps P m \<Longrightarrow> ensures P m P"
  by (simp add: keeps_def ensures_def)

lemma agreeI: "(\<And>s. P s \<Longrightarrow> m s = n s) \<Longrightarrow> agree P m n"
  by (simp add: agree_def)

lemma agreeD: "agree P m n \<Longrightarrow> P s \<Longrightarrow> m s = n s"
  by (simp add: agree_def)

lemma agree_refl: "agree P m m"
  by (simp add: agree_def)

lemma agree_weaken: "agree P m n \<Longrightarrow> (\<And>s. Q s \<Longrightarrow> P s) \<Longrightarrow> agree Q m n"
  by (simp add: agree_def)

lemma agree_bind:
  assumes "agree P m n" and "ensures P m Q" and "\<And>x. agree Q (f x) (g x)"
  shows "agree P (bindM m f) (bindM n g)"
proof (rule agreeI)
  fix s assume s: "P s"
  obtain r s' where m: "m s = (r, s')" by (rule prod.exhaust)
  have "n s = (r, s')" "Q s'" using assms(1,2) s m by (auto simp: agree_def ensures_def)
  with m assms(3) show "bindM m f s = bindM n g s"
    by (cases r) (simp_all add: bindM_def agree_def)
qed

lemma agree_bind_same: "ensures P m Q \<Longrightarrow> (\<And>x. agree Q (f x) (g x)) \<Longrightarrow> agree P (bindM m f) (bindM m g)"
  by (rule agree_bind [OF agree_refl])

lemma agree_bind_keeps:
  "agree P m n \<Longrightarrow> keeps P m \<Longrightarrow> (\<And>x. agree P (f x) (g x)) \<Longrightarrow> agree P (bindM m f) (bindM n g)"
  by (rule agree_bind [OF _ keeps_ensures])

lemma agree_try:
  assumes "agree P m n" and "ensures P m Q" and "\<And>e. agree Q (h e) (k e)"
  shows "agree P (tryM m h) (tryM n k)"
proof (rule agreeI)
  fix s assume s: "P s"
  obtain r s' where m: "m s = (r, s')" by (rule prod.exhaust)
  have "n s = (r, s')" "Q s'" using assms(1,2) s m by (auto simp: agree_def ensures_def)
  with m assms(3) show "tryM m h s = tryM n k s"
    by (cases r) (simp_all add: tryM_def agree_def)
qed

lemma agree_if: "(b \<Longrightarrow> agree P m n) \<Longrightarrow> (\<not> b \<Longrightarrow> agree P m' n') \<Longrightarrow> agree P (if b then m else m') (if b then n else n')"
  by simp

lemma agree_for:
  assumes "\<And>x. agree P (body x) (body' x)" and "\<And>x. keeps P (body x)"
  shows "agree P (forM xs body) (forM xs body')"
  by (induction xs) (auto intro: agree_bind_keeps agree_refl assms)

end
