(* ===== verification/SystemFrame.thy ===== *)
theory SystemFrame
  imports AgentSystem DriverFrame Agreement
begin

text \<open>
  The report callback: it does not make a device active, what it does depends on its own recursion only
  after a device has left the active ones, and so its depth is bounded by their number.
\<close>

section \<open>Passing the state\<close>

lemma leave_driver [simp]: "ag_driver (leave s) = s"
  by (simp add: leave_def with_driver_def)

lemma enter_hosts [simp]: "dv_hosts (enter a) = dv_hosts (ag_driver a)"
  by (simp add: enter_def)

lemma shell_with_driver [simp]: "shell_of (with_driver sh v) = sh"
  by (cases sh) (simp add: shell_of_def with_driver_def)

lemma enter_leave [simp]: "enter (leave s) = s"
proof -
  have "shell_of (leave s) = snd (dv_world s)" by (simp add: leave_def)
  then show ?thesis by (cases s) (simp add: enter_def)
qed

lemma manage_drive: "manage (drive m) = m"
  by (rule ext) (simp add: manage_def drive_def split: prod.splits)

text \<open>A property of the driver's state that does not look at the world.\<close>

definition world_free :: "(('net, 'd, 'w) drv \<Rightarrow> bool) \<Rightarrow> bool" where
  "world_free P \<longleftrightarrow> (\<forall>s w. P (s\<lparr>dv_world := w\<rparr>) = P s)"

lemma enter_free: "world_free P \<Longrightarrow> P (enter a) = P (ag_driver a)"
  by (simp add: world_free_def enter_def)

lemma keeps_drive: "world_free P \<Longrightarrow> keeps P m \<Longrightarrow> keeps (\<lambda>a. P (ag_driver a)) (drive m)"
proof (rule keepsI)
  fix a :: "('a, 'b, 'c) sys" assume "world_free P" "keeps P m" "P (ag_driver a)"
  then have "P (snd (m (enter a)))" by (simp add: keeps_def enter_free)
  then show "P (ag_driver (snd (drive m a)))" by (cases "m (enter a)") (simp add: drive_def)
qed

lemma keeps_manage: "world_free P \<Longrightarrow> keeps (\<lambda>a. P (ag_driver a)) m \<Longrightarrow> keeps P (manage m)"
  unfolding keeps_def manage_def by (auto simp: enter_free split: prod.splits) (metis leave_driver snd_conv)

lemma keeps_on_world_free: "world_free P \<Longrightarrow> keeps P (on_world m)"
  by (rule keepsI) (simp add: on_world_def world_free_def split: prod.splits)

lemma keeps_ask: "world_free P \<Longrightarrow> keeps (\<lambda>a. P (ag_driver a)) (ask m)"
  unfolding ask_def by (intro keeps_drive keeps_on_world_free)

lemma agree_drive: "world_free P \<Longrightarrow> agree P m n \<Longrightarrow> agree (\<lambda>a. P (ag_driver a)) (drive m) (drive n)"
  by (simp add: agree_def drive_def enter_free)

lemma agree_manage: "agree (\<lambda>a. P (ag_driver a)) m n \<Longrightarrow> agree P (manage m) (manage n)"
  by (simp add: agree_def manage_def)

lemma keeps_shell:
  "keeps (\<lambda>a. P (ag_driver a)) (modifyM (\<lambda>a. a\<lparr>ag_needs_resync := f1 a, ag_services := f2 a\<rparr>))"
  "keeps (\<lambda>a. P (ag_driver a)) (modifyM (\<lambda>a. a\<lparr>ag_admin_up := f3 a\<rparr>))"
  "keeps (\<lambda>a. P (ag_driver a)) (modifyM (\<lambda>a. a\<lparr>ag_capacity := f4 a\<rparr>))"
  "keeps (\<lambda>a. P (ag_driver a)) (modifyM (\<lambda>a. a\<lparr>ag_start_flag := f5 a\<rparr>))"
  by (rule keeps_modify, simp)+

section \<open>The number of active devices\<close>

definition at_most :: "nat \<Rightarrow> ('net, 'd, 'w) drv \<Rightarrow> bool" where
  "at_most k s \<longleftrightarrow> active_count (dv_hosts s) \<le> k"

lemma at_most_free [simp]: "world_free (at_most k)"
  by (simp add: world_free_def at_most_def)

lemma active_count_shape: "active_count hs = length (filter (\<lambda>(k, st, dev). st = HActive) (shape hs))"
  unfolding active_count_def shape_def by (induction hs) auto

lemma at_most_shape: "shape (dv_hosts s') = shape (dv_hosts s) \<Longrightarrow> at_most k s \<Longrightarrow> at_most k s'"
  by (simp add: at_most_def active_count_shape)

lemma active_count_upd:
  assumes "\<And>x. ho_status (f x) = HActive \<Longrightarrow> ho_status x = HActive"
  shows "active_count (dv_hosts (upd_host h f s)) \<le> active_count (dv_hosts s)"
proof -
  have "active_count (map (\<lambda>(k, x). (k, if k = h then f x else x)) hs) \<le> active_count hs" for hs
    using assms by (induction hs) (auto simp: active_count_def split: if_splits)
  then show ?thesis by (simp add: upd_host_def)
qed

lemma at_most_upd: "(\<And>x. ho_status (f x) = HActive \<Longrightarrow> ho_status x = HActive) \<Longrightarrow> keeps (at_most k) (modifyM (upd_host h f))"
  by (rule keeps_modify) (simp add: at_most_def order_trans [OF active_count_upd])

lemma at_most_status [keeps_rules]: "st \<noteq> HActive \<Longrightarrow> keeps (at_most k) (set_status h st msg)"
  unfolding set_status_def by (rule at_most_upd) simp

text \<open>Setting an active device to an error leaves one active device less.\<close>

lemma count_error:
  assumes "map_of (dv_hosts s) h = Some x" and "ho_status x = HActive"
  shows "active_count (dv_hosts (upd_host h (\<lambda>x. x\<lparr>ho_status := HError, ho_message := msg\<rparr>) s)) < active_count (dv_hosts s)"
proof -
  have "active_count (map (\<lambda>(k, x). (k, if k = h then x\<lparr>ho_status := HError, ho_message := msg\<rparr> else x)) hs)
      < active_count hs" if "(h, x) \<in> set hs" for hs
    using that
  proof (induction hs)
    case (Cons p hs)
    have le: "active_count (map (\<lambda>(k, x). (k, if k = h then x\<lparr>ho_status := HError, ho_message := msg\<rparr> else x)) hs)
        \<le> active_count hs"
      by (induction hs) (auto simp: active_count_def split: if_splits)
    obtain k y where p: "p = (k, y)" by (rule prod.exhaust)
    show ?case
    proof (cases "(h, x) = p")
      case True
      with le p assms(2) show ?thesis by (simp add: active_count_def)
    next
      case False
      with Cons p show ?thesis by (auto simp: active_count_def)
    qed
  qed simp
  with map_of_SomeD [OF assms(1)] show ?thesis by (simp add: upd_host_def)
qed

lemma at_most_on_host [keeps_rules]: "keeps (at_most k) (on_host_bigip h m)"
proof (rule keepsI)
  fix s :: "('a, 'b, 'c) drv" assume "at_most k s"
  moreover have "active_count (dv_hosts (upd_host h (\<lambda>x. x\<lparr>ho_device := Some b\<rparr>) s)) \<le> active_count (dv_hosts s)" for b
    by (rule active_count_upd) simp
  ultimately show "at_most k (snd (on_host_bigip h m s))"
    unfolding at_most_def on_host_bigip_def by (auto split: option.splits prod.splits intro: order_trans)
qed

lemma at_most_on_dev [keeps_rules]: "keeps (at_most k) (on_host_dev h m)"
  unfolding on_host_dev_def by (rule at_most_on_host)

lemma at_most_on_active [keeps_rules]: "keeps (at_most k) (on_active m)"
  by (rule keepsI) (simp add: on_active_def at_most_def active_count_shape put_active_shape split: prod.splits)

lemma at_most_put_endpoint [keeps_rules]: "keeps (at_most k) (put_endpoint h f)"
  by (rule keepsI) (simp add: put_endpoint_def at_most_def split: option.splits)

lemma at_most_put_status [keeps_rules]: "keeps (at_most k) (put_status h)"
  unfolding put_status_def by (intro keeps_rules)

lemma at_most_fields [keeps_rules]:
  "keeps (at_most k) (modifyM (\<lambda>s. s\<lparr>dv_operational := f1 s\<rparr>))"
  "keeps (at_most k) (modifyM (\<lambda>s. s\<lparr>dv_reported_operational := f2 s\<rparr>))"
  "keeps (at_most k) (modifyM (\<lambda>s. s\<lparr>dv_reported_esds := f3 s\<rparr>))"
  by (rule keeps_modify, simp add: at_most_def)+

lemma at_most_failover [keeps_rules]: "keeps (at_most k) (modifyM (upd_host h (\<lambda>x. x\<lparr>ho_failover := g x\<rparr>)))"
  by (rule at_most_upd) simp

lemma at_most_flush_cache [keeps_rules]: "keeps (at_most k) flush_cache"
  unfolding flush_cache_def by (intro keeps_rules)

lemma at_most_capacity [keeps_rules]: "keeps (at_most k) (generate_capacity_score D policy)"
  unfolding generate_capacity_score_def by (intro keeps_rules)

lemma at_most_set_agent_status [keeps_rules]:
  "report_keeps (at_most k) D \<Longrightarrow> keeps (at_most k) (set_agent_status D force)"
  unfolding set_agent_status_def by (intro keeps_bind report_keepsD keeps_gets keeps_for keeps_if keeps_rules)

lemma at_most_get_failover_state [keeps_rules]:
  "report_keeps (at_most k) D \<Longrightarrow> keeps (at_most k) (get_failover_state D h)"
  unfolding get_failover_state_def by (intro keeps_rules) simp_all

lemma at_most_get_agent_configurations [keeps_rules]:
  "report_keeps (at_most k) D \<Longrightarrow> keeps (at_most k) (get_agent_configurations D)"
  unfolding get_agent_configurations_def endpoint_configuration_def by (intro keeps_rules)


section \<open>The report of the agent\<close>

text \<open>What the parts of the report keep, at the agent; \<open>P\<close> is a property of the driver.\<close>

definition cb_keeps :: "(('net, 'd, 'x) sys_drv \<Rightarrow> bool) \<Rightarrow> (bool \<Rightarrow> (('net, 'd, 'x) sys_drv, unit) py) \<Rightarrow> bool" where
  "cb_keeps P cb \<longleftrightarrow> (\<forall>force. keeps P (cb force))"

lemma report_keeps_with: "cb_keeps P cb \<Longrightarrow> report_keeps P (driver_with S cb)"
  by (simp add: cb_keeps_def report_keeps_def driver_with_def)

lemma keeps_report_state:
  assumes "world_free P" and "keeps P flush_cache" and "keeps P (get_agent_configurations (driver_with S cb))"
    and "\<And>policy. keeps P (generate_capacity_score (driver_with S cb) policy)"
  shows "keeps (\<lambda>a. P (ag_driver a)) (report_state (agent_with S cb) force)"
  unfolding report_state_def logged_def forget_services_def report_admin_state_def report_capacity_def
  by (intro keeps_rules keeps_shell) (simp_all add: agent_with_def icontrol_def rpc_api_def no_result_def
      keeps_drive keeps_ask keeps_bind keeps_ret assms)

lemma keeps_report_cb: "cb_keeps (at_most k) (report_cb S n)"
proof (induction n)
  case 0
  show ?case by (simp add: cb_keeps_def keeps_raise)
next
  case (Suc n)
  have "keeps (\<lambda>a. at_most k (ag_driver a)) (report_state (agent_with S (report_cb S n)) force)" for force
    by (rule keeps_report_state)
      (simp_all add: at_most_flush_cache at_most_capacity at_most_get_agent_configurations report_keeps_with Suc)
  then show ?case by (simp add: cb_keeps_def keeps_manage)
qed

section \<open>Where two callbacks differ\<close>

lemma driver_with_fields [simp]:
  "dr_sys (driver_with S cb) = dr_sys (su_driver S)" "dr_str (driver_with S cb) = dr_str (su_driver S)"
  "dr_report_esds (driver_with S cb) = dr_report_esds (su_driver S)" "dr_report (driver_with S cb) = Some cb"
  "dr_net (driver_with S cb) = dr_net (su_driver S)"
  by (simp_all add: driver_with_def)

lemma capacity_same: "generate_capacity_score (driver_with S cb) policy = generate_capacity_score (su_driver S) policy"
proof -
  have "metric_capacity (driver_with S cb) m b = metric_capacity (su_driver S) m b" for m b
    by (simp add: metric_capacity_def metric_func_def metrics_def ltm_of_def)
  then have "highest_metric (driver_with S cb) p v = highest_metric (su_driver S) p v" for p v
    by (induction p arbitrary: v) auto
  then show ?thesis by (simp add: generate_capacity_score_def)
qed

lemma set_agent_status_agree:
  assumes "agree (at_most k) (cb force) (cb' force)"
  shows "agree (at_most k) (set_agent_status (driver_with S cb) force) (set_agent_status (driver_with S cb') force)"
  unfolding set_agent_status_def driver_with_fields option.case
  by (rule agree_bind_same [OF keeps_ensures], intro keeps_rules)+ (rule assms)

text \<open>Only an active device whose state cannot be read leads back to the agent, one active device later.\<close>

definition same_below ::
  "nat \<Rightarrow> (bool \<Rightarrow> (('net, 'd, 'x) sys_drv, unit) py) \<Rightarrow> (bool \<Rightarrow> (('net, 'd, 'x) sys_drv, unit) py) \<Rightarrow> bool" where
  "same_below k cb cb' \<longleftrightarrow> (0 < k \<longrightarrow> agree (at_most (k - 1)) (cb False) (cb' False))"

definition active_at :: "nat \<Rightarrow> string option \<Rightarrow> ('net, 'd, 'w) drv \<Rightarrow> bool" where
  "active_at k h s \<longleftrightarrow> at_most k s \<and> (\<exists>x. map_of (dv_hosts s) h = Some x \<and> ho_status x = HActive)"

lemma active_at_on_dev: "keeps (active_at k h) (on_host_dev h m)"
proof (rule keepsI)
  fix s :: "('a, 'b, 'c) drv" assume s: "active_at k h s"
  then have "at_most k (snd (on_host_dev h m s))" using keepsD [OF at_most_on_dev] by (auto simp: active_at_def)
  moreover have "\<exists>x. map_of (dv_hosts (snd (on_host_dev h m s))) h = Some x \<and> ho_status x = HActive"
    using s by (auto simp: active_at_def on_host_dev_def on_host_bigip_def upd_host_lookup split: option.splits prod.splits)
  ultimately show "active_at k h (snd (on_host_dev h m s))" by (simp add: active_at_def)
qed

lemma active_at_failover: "keeps (active_at k h) (modifyM (upd_host h (\<lambda>x. x\<lparr>ho_failover := g x\<rparr>)))"
proof (rule keeps_modify)
  fix s :: "('a, 'b, 'c) drv" assume s: "active_at k h s"
  then have "at_most k (upd_host h (\<lambda>x. x\<lparr>ho_failover := g x\<rparr>) s)"
    using keepsD [OF at_most_failover, of k s h g] by (simp add: active_at_def modifyM_def)
  with s show "active_at k h (upd_host h (\<lambda>x. x\<lparr>ho_failover := g x\<rparr>) s)"
    by (auto simp: active_at_def upd_host_lookup)
qed

lemma error_ensures: "ensures (active_at k h) (set_status h HError msg) (at_most (k - 1))"
proof (rule ensuresI)
  fix s :: "('a, 'b, 'c) drv" assume "active_at k h s"
  then obtain x where "map_of (dv_hosts s) h = Some x" "ho_status x = HActive" "active_count (dv_hosts s) \<le> k"
    by (auto simp: active_at_def at_most_def)
  with count_error [of s h x msg] show "at_most (k - 1) (snd (set_status h HError msg s))"
    by (simp add: at_most_def set_status_def modifyM_def)
qed

lemma failover_agree:
  fixes S :: "('ip, 'net, 'd, 'x) deployment"
  assumes "same_below k cb cb'"
  shows "agree (active_at k h) (get_failover_state (driver_with S cb) h) (get_failover_state (driver_with S cb') h)"
proof (cases "k = 0")
  case True
  have "\<not> active_at 0 h s" for s :: "('net, 'd, 'x) sys_drv"
  proof
    assume "active_at 0 h s"
    then obtain x where "(h, x) \<in> set (dv_hosts s)" "ho_status x = HActive" "active_count (dv_hosts s) = 0"
      by (auto simp: active_at_def at_most_def dest: map_of_SomeD)
    then show False by (auto simp: active_count_def filter_empty_conv)
  qed
  with True show ?thesis by (simp add: agree_def)
next
  case False
  let ?body = "bindM (on_host_dev h (sy_db (dr_sys (su_driver S)) ''failover.state'')) (\<lambda>v.
      case v of None \<Rightarrow> raiseM AttributeError
      | Some v \<Rightarrow> bindM (modifyM (upd_host h (\<lambda>x. x\<lparr>ho_failover := Some v\<rparr>))) (\<lambda>_. retM v))"
  have body: "ensures (active_at k h) ?body (active_at k h)"
    by (rule keeps_ensures, intro keeps_rules active_at_on_dev active_at_failover)
  have handler: "agree (active_at k h)
      (bindM (set_status h HError msg) (\<lambda>_. bindM (set_agent_status (driver_with S cb) False) (\<lambda>_. retM ''error'')))
      (bindM (set_status h HError msg) (\<lambda>_. bindM (set_agent_status (driver_with S cb') False) (\<lambda>_. retM ''error'')))" for msg
    by (rule agree_bind_same [OF error_ensures], rule agree_bind [where Q = "\<lambda>_. True"],
        rule set_agent_status_agree)
      (use False assms in \<open>simp_all add: same_below_def agree_refl ensures_def\<close>)
  show ?thesis
    unfolding get_failover_state_def driver_with_fields
    by (rule agree_bind_same [OF keeps_ensures [OF keeps_get_host]])
      (intro agree_if agree_refl agree_try [OF agree_refl body] handler)
qed

lemma endpoint_agree:
  fixes S :: "('ip, 'net, 'd, 'x) deployment"
  assumes cb: "same_below k cb cb'" and keeps: "cb_keeps (at_most k) cb"
  shows "agree (at_most k) (endpoint_configuration (driver_with S cb) h) (endpoint_configuration (driver_with S cb') h)"
proof (rule agreeI)
  fix s :: "('net, 'd, 'x) sys_drv" assume s: "at_most k s"
  have "(if ho_status x = HActive then get_failover_state (driver_with S cb) h else retM ''unknown'') s
      = (if ho_status x = HActive then get_failover_state (driver_with S cb') h else retM ''unknown'') s"
    if "map_of (dv_hosts s) h = Some x" for x
    using agreeD [OF failover_agree [OF cb]] s that by (auto simp: active_at_def)
  then show "endpoint_configuration (driver_with S cb) h s = endpoint_configuration (driver_with S cb') h s"
    unfolding endpoint_configuration_def by (cases "map_of (dv_hosts s) h") (simp_all add: bindM_def get_host_def)
qed

lemma configurations_agree:
  assumes cb: "same_below k cb cb'" and keeps: "cb_keeps (at_most k) cb"
  shows "agree (at_most k) (get_agent_configurations (driver_with S cb)) (get_agent_configurations (driver_with S cb'))"
proof -
  have "keeps (at_most k) (endpoint_configuration (driver_with S cb) h)" for h
    unfolding endpoint_configuration_def by (intro keeps_rules report_keeps_with keeps)
  then show ?thesis
    unfolding get_agent_configurations_def
    by (intro agree_bind_same [OF keeps_ensures [OF keeps_gets]] agree_for endpoint_agree assms)
qed

text \<open>The two agents differ in the report of the configurations only.\<close>

lemma agent_with_fields [simp]:
  "ae_plugin (agent_with S cb) = rpc_api (su_plugin S) (su_replies S)"
  "ae_capacity_policy (agent_with S cb) = su_capacity_policy S"
  "ld_flush_cache (ae_driver (agent_with S cb)) = drive flush_cache"
  "ld_backend_integrity (ae_driver (agent_with S cb)) = (\<lambda>a. backend_integrity (ag_driver a))"
  "ld_configurations (ae_driver (agent_with S cb)) = drive (get_agent_configurations (driver_with S cb))"
  "ld_capacity_score (ae_driver (agent_with S cb)) = (\<lambda>policy. drive (generate_capacity_score (su_driver S) policy))"
  by (simp_all add: agent_with_def icontrol_def capacity_same)

lemma report_state_agree:
  fixes S :: "('ip, 'net, 'd, 'x) deployment"
  assumes "agree (at_most k) (get_agent_configurations (driver_with S cb)) (get_agent_configurations (driver_with S cb'))"
    and keeps: "cb_keeps (at_most k) cb"
  shows "agree (\<lambda>a. at_most k (ag_driver a)) (report_state (agent_with S cb) force) (report_state (agent_with S cb') force)"
proof -
  have forget: "forget_services (agent_with S cb') = forget_services (agent_with S cb)"
    and admin: "report_admin_state (agent_with S cb') = report_admin_state (agent_with S cb)"
    and capacity: "report_capacity (agent_with S cb') = report_capacity (agent_with S cb)"
    and api: "ae_plugin (agent_with S cb') = ae_plugin (agent_with S cb)"
    by (simp_all add: forget_services_def report_admin_state_def report_capacity_def cong: if_cong)
  let ?P = "\<lambda>a. at_most k (ag_driver a)"
  have k1: "keeps ?P (forget_services (agent_with S cb))" and k2: "keeps ?P (report_admin_state (agent_with S cb))"
    unfolding forget_services_def report_admin_state_def
    by (intro keeps_rules keeps_shell; simp add: rpc_api_def no_result_def keeps_drive keeps_ask keeps_bind keeps_ret
        at_most_flush_cache)+
  have conf: "agree ?P (ld_configurations (ae_driver (agent_with S cb))) (ld_configurations (ae_driver (agent_with S cb')))"
    by (simp add: agree_drive assms)
  have k3: "keeps ?P (ld_configurations (ae_driver (agent_with S cb)))"
    by (simp add: keeps_drive at_most_get_agent_configurations report_keeps_with keeps)
  have k0: "keeps ?P (if force then forget_services (agent_with S cb) else retM ())" by (simp add: k1 keeps_ret)
  have body: "agree ?P
      (bindM (if force then forget_services (agent_with S cb) else retM ()) (\<lambda>_.
       bindM (report_admin_state (agent_with S cb)) (\<lambda>_.
       bindM (ld_configurations (ae_driver (agent_with S cb))) (\<lambda>_. rest))))
      (bindM (if force then forget_services (agent_with S cb) else retM ()) (\<lambda>_.
       bindM (report_admin_state (agent_with S cb)) (\<lambda>_.
       bindM (ld_configurations (ae_driver (agent_with S cb'))) (\<lambda>_. rest))))" for rest :: "(('net, 'd, 'x) sys, unit) py"
    by (intro agree_bind_same [OF keeps_ensures [OF k0]] agree_bind_same [OF keeps_ensures [OF k2]]
        agree_bind_keeps [OF conf k3] agree_refl)
  show ?thesis
    unfolding report_state_def logged_def forget admin capacity api
    by (rule agree_try [where Q = "\<lambda>_. True", OF body]) (simp_all only: agree_refl ensures_def simp_thms)
qed

section \<open>The depth of the recursion\<close>

lemma report_cb_step:
  assumes "same_below k cb cb'" and "cb_keeps (at_most k) cb"
  shows "agree (at_most k) (manage (report_state (agent_with S cb) force)) (manage (report_state (agent_with S cb') force))"
  by (intro agree_manage report_state_agree configurations_agree assms)

lemma report_cb_more: "k < n \<Longrightarrow> agree (at_most k) (report_cb S n force) (report_cb S (Suc n) force)"
proof (induction n arbitrary: k force)
  case (Suc n)
  have "same_below k (report_cb S n) (report_cb S (Suc n))"
    using Suc.IH [of "k - 1"] Suc.prems unfolding same_below_def by simp
  from report_cb_step [OF this keeps_report_cb, of S force] show ?case by simp
qed simp

lemma report_cb_enough:
  assumes "active_count (dv_hosts s) < n"
  shows "report_cb S n force s = report S force s"
proof -
  let ?k = "active_count (dv_hosts s)"
  have "report_cb S (Suc ?k + m) force s = report_cb S (Suc ?k) force s" for m
  proof (induction m)
    case (Suc m)
    have "report_cb S (Suc ?k + m) force s = report_cb S (Suc (Suc ?k + m)) force s"
      by (rule agreeD [OF report_cb_more [of ?k]]) (simp_all add: at_most_def)
    with Suc show ?case by simp
  qed simp
  from this [of "n - Suc ?k"] assms show ?thesis by (simp add: report_def)
qed

lemma report_step: "report S force s = manage (report_state (agent_with S (report S)) force) s"
proof -
  let ?k = "active_count (dv_hosts s)"
  have "same_below ?k (report_cb S ?k) (report S)"
    unfolding same_below_def by (intro impI agreeI report_cb_enough) (simp add: at_most_def)
  from agreeD [OF report_cb_step [OF this keeps_report_cb, of S force], of s] show ?thesis
    by (simp add: report_def at_most_def)
qed

end
