(* ===== verification/ServiceFrame.thy ===== *)
theory ServiceFrame
  imports DriverSetup DriverFrame
begin

text \<open>
  What handling services, reporting statuses, purging orphans and forwarding messages leave intact. The
  locale \<open>driver_invariant\<close> says what a property of the driver's state has to tolerate: the changes of
  devices, of the route domain cache and of two flags, what the network components and the RPC clients
  do to the world, and a reconnection. Every operation then keeps the property.
\<close>

section \<open>Messages about statuses\<close>

text \<open>\<open>Q\<close> is a property of the world that every message keeps.\<close>

definition send_keeps :: "('w \<Rightarrow> bool) \<Rightarrow> (rpc_body \<Rightarrow> ('w, unit) py) \<Rightarrow> bool" where
  "send_keeps Q send \<longleftrightarrow> (\<forall>body. keeps Q (send body))"

definition step_keeps :: "('w \<Rightarrow> bool) \<Rightarrow> ('o \<Rightarrow> 'w \<Rightarrow> (exn + unit) \<times> 'o \<times> 'w) \<Rightarrow> bool" where
  "step_keeps Q step \<longleftrightarrow> (\<forall>x w. Q w \<longrightarrow> Q (snd (snd (step x w))))"

lemma send_keepsI: "(\<And>body. keeps Q (send body)) \<Longrightarrow> send_keeps Q send"
  unfolding send_keeps_def by (rule allI)

lemma send_keepsD: "send_keeps Q send \<Longrightarrow> keeps Q (send body)"
  unfolding send_keeps_def by (rule spec)

lemma with_status_keeps: "keeps Q m \<Longrightarrow> Q w \<Longrightarrow> Q (snd (snd (with_status m x y w)))"
  using keepsD [of Q m w] by (auto simp: with_status_def split: prod.split sum.split)

lemmas status_keeps = with_status_keeps [OF send_keepsD]

lemma update_provisioning_keeps:
  "send_keeps Q send \<Longrightarrow> step_keeps Q (update_provisioning send status act good destroyed bad)"
  unfolding step_keeps_def update_provisioning_def by (simp add: status_keeps split: sum.split)

lemma update_member_keeps: "send_keeps Q send \<Longrightarrow> step_keeps Q (update_member_provisioning send timed_out)"
  unfolding step_keeps_def update_member_provisioning_def Let_def by (simp add: status_keeps split: option.split)

lemma update_loadbalancer_keeps: "send_keeps Q send \<Longrightarrow> step_keeps Q (update_loadbalancer_provisioning send timed_out)"
  unfolding step_keeps_def update_loadbalancer_provisioning_def Let_def by (simp add: status_keeps)

lemma inplace_keeps: "step_keeps Q step \<Longrightarrow> Q w \<Longrightarrow> Q (snd (snd (inplace step xs w)))"
proof (induction xs arbitrary: w)
  case (Cons x xs)
  obtain r x' w' where s: "step x w = (r, x', w')" by (rule prod_cases3)
  with Cons.prems have "Q w'" unfolding step_keeps_def by (metis snd_conv)
  with Cons.IH [OF Cons.prems(1), of w'] s show ?case by (cases r) (auto split: prod.split)
qed simp

lemma for_objs_keeps: "step_keeps Q step \<Longrightarrow> keeps (\<lambda>st. Q (snd st)) (for_objs get put step)"
proof (rule keepsI)
  fix st :: "service \<times> 'a" assume "step_keeps Q step" "Q (snd st)"
  from inplace_keeps [OF this] show "Q (snd (snd (for_objs get put step st)))"
    using \<open>Q (snd st)\<close> by (simp add: for_objs_def split: option.split prod.split) (metis snd_conv)
qed

lemma keeps_if_present: "keeps P m \<Longrightarrow> keeps P (if_present get m)"
  by (simp add: keeps_def if_present_def)

lemma update_loadbalancer_status_keeps:
  assumes "send_keeps Q send"
  shows "keeps (\<lambda>st. Q (snd st)) (update_loadbalancer_status send timed_out)"
proof (rule keepsI)
  fix st :: "service \<times> 'a" assume "Q (snd st)"
  then have "Q (snd (snd (update_loadbalancer_provisioning send timed_out lb (snd st))))" for lb
    using update_loadbalancer_keeps [OF assms] by (simp add: step_keeps_def)
  then show "Q (snd (snd (update_loadbalancer_status send timed_out st)))"
    using \<open>Q (snd st)\<close> unfolding update_loadbalancer_status_def
    by (auto split: option.split prod.split) (metis snd_conv)
qed

lemmas update_status_defs =
  update_members_status_def update_health_monitors_status_def update_pools_status_def update_listeners_status_def
  update_l7rules_status_def update_l7policies_status_def update_health_monitor_provisioning_def
  update_pool_provisioning_def update_listener_provisioning_def update_l7rule_provisioning_def
  update_l7policy_provisioning_def

lemma status_updates_keep:
  assumes "send_keeps Q send"
  shows "keeps (\<lambda>st. Q (snd st)) (update_members_status send timed_out)"
    and "keeps (\<lambda>st. Q (snd st)) (update_health_monitors_status send)"
    and "keeps (\<lambda>st. Q (snd st)) (update_pools_status send)"
    and "keeps (\<lambda>st. Q (snd st)) (update_listeners_status send)"
    and "keeps (\<lambda>st. Q (snd st)) (update_l7rules_status send)"
    and "keeps (\<lambda>st. Q (snd st)) (update_l7policies_status send)"
  unfolding update_status_defs
  by (intro for_objs_keeps update_member_keeps update_provisioning_keeps assms)+

lemma service_status_updates_keep:
  "send_keeps Q send \<Longrightarrow> keeps (\<lambda>st. Q (snd st)) (service_status_updates send timed_out)"
  unfolding service_status_updates_def
  by (intro keeps_bind keeps_if_present status_updates_keep update_loadbalancer_status_keeps)

text \<open>A computation that looks at its state first.\<close>

lemma keeps_unless: "keeps P m \<Longrightarrow> keeps P (\<lambda>s. if c s then (x, s) else m s)"
  by (simp add: keeps_def)

lemma keeps_case: "(\<And>v s. keeps P (f v s)) \<Longrightarrow> keeps P (\<lambda>s. case g s of None \<Rightarrow> (x, s) | Some v \<Rightarrow> f v s s)"
  by (simp add: keeps_def split: option.split)

section \<open>The driver\<close>

definition keeps_site ::
  "(('net, 'd, 'w) drv \<Rightarrow> bool) \<Rightarrow> (('net, 'd, 'w) site, 'a) py \<Rightarrow> bool" where
  "keeps_site I m \<longleftrightarrow> (\<forall>s. keeps (\<lambda>t. I (s\<lparr>dv_world := st_world t\<rparr>)) m)"

locale driver_invariant =
  fixes D :: "('ip, 'net, 'd, 'w) drv_env" and I :: "('net, 'd, 'w) drv \<Rightarrow> bool"
  assumes active: "I s \<Longrightarrow> I (s\<lparr>dv_hosts := put_active (dv_hosts s) bs\<rparr>)"
    and device: "I s \<Longrightarrow> I (upd_host h (\<lambda>x. x\<lparr>ho_device := Some b\<rparr>) s)"
    and do_update: "I s \<Longrightarrow> I (s\<lparr>dv_do_update := v\<rparr>)"
    and to_sync: "I s \<Longrightarrow> I (s\<lparr>dv_to_sync := v\<rparr>)"
    and cached: "I s \<Longrightarrow> I (s\<lparr>dv_rds_cache := c, dv_payload := p, dv_vcmp := vs\<rparr>)"
    and told: "dr_plugin D = Some P \<Longrightarrow> send_keeps (\<lambda>w. I (s\<lparr>dv_world := w\<rparr>)) (plugin_cast P (dr_cast D))"
    and asked: "dr_plugin D = Some P \<Longrightarrow> keeps I (on_world (get_service_by_loadbalancer_id P (dr_services D) i))"
    and tunnels: "keeps I (on_world (tunnel_sync (dr_net D) ips))"
    and created: "keeps_site I (assure_tenant_created (dr_net D) (dr_sys D) (dr_md5 D) tgs)"
    and prepared: "keeps_site I (prep_service_networking (dr_net D) l3 tg)"
    and annotated: "keeps_site I (annotate_service_route_domains (dr_net D))"
    and cleaned: "keeps_site I (assure_tenant_cleanup (dr_net D) (dr_sys D) hints)"
    and found: "keeps_site I (find_subnet_route_domain (dr_net D) tenant)"
    and posted: "keeps (\<lambda>st. I (s\<lparr>dv_world := st_world (fst st)\<rparr>)) (post_service_networking (dr_net D) l3)"
    and connecting: "keeps I (init_bigips D)"
begin

lemma on_active_keeps: "keeps I (on_active m)"
  by (rule keepsI) (simp add: on_active_def active split: prod.split)

lemma on_host_keeps: "keeps I (on_host_dev h m)"
  by (rule keepsI) (auto simp: on_host_dev_def on_host_bigip_def device split: option.split prod.split)

lemma operational_keeps: "keeps I m \<Longrightarrow> keeps I (is_operational D m)"
  unfolding is_operational_def by (intro keeps_rules connecting)

lemma put_site_keeps: "I (s\<lparr>dv_world := st_world t\<rparr>) \<Longrightarrow> I (put_site t s)"
proof -
  assume "I (s\<lparr>dv_world := st_world t\<rparr>)"
  from cached [OF active [OF this, of "st_bigips t"], where c = "st_rds_cache t" and p = "st_payload t" and vs = "st_hosts t"]
  moreover have "put_site t s = s\<lparr>dv_world := st_world t\<rparr>\<lparr>dv_hosts := put_active (dv_hosts s) (st_bigips t)\<rparr>
      \<lparr>dv_rds_cache := st_rds_cache t, dv_payload := st_payload t, dv_vcmp := st_hosts t\<rparr>"
    by (cases s) (simp add: put_site_def)
  ultimately show ?thesis by simp
qed

lemma site_run:
  assumes "keeps_site I m" and "I s"
  shows "I (put_site (snd (m (site_of svc s))) s)"
proof -
  have "keeps (\<lambda>t. I (s\<lparr>dv_world := st_world t\<rparr>)) m" using assms(1) by (simp add: keeps_site_def)
  from keepsD [OF this, of "site_of svc s"] assms(2) show ?thesis by (simp add: site_of_def put_site_keeps)
qed

lemma on_site_keeps: "keeps_site I m \<Longrightarrow> keeps (\<lambda>st. I (snd st)) (on_site m)"
proof (rule keepsI)
  fix st :: "('net, 'd, 'w) svc_drv" assume "keeps_site I m" "I (snd st)"
  from site_run [OF this] show "I (snd (snd (on_site m st)))"
    by (cases "m (site_of (fst st) (snd st))") (simp add: on_site_def, metis snd_conv)
qed

lemma on_drv_keeps: "keeps I m \<Longrightarrow> keeps (\<lambda>st. I (snd st)) (on_drv m)"
  by (auto simp: keeps_def on_drv_def split: prod.split)

lemma mod_svc_keeps: "keeps (\<lambda>st. I (snd st)) (mod_svc f)"
  by (auto simp: keeps_def mod_svc_def modifyM_def)

lemma flags_keep: "keeps (\<lambda>st. I (snd st)) (set_do_update v)" "keeps (\<lambda>st. I (snd st)) (set_to_sync v)"
  unfolding set_do_update_def set_to_sync_def
  by (intro on_drv_keeps keeps_modify do_update to_sync, assumption)+

lemma mark_error_keeps: "keeps (\<lambda>st. I (snd st)) (mark_error ps)"
  unfolding mark_error_def by (intro keeps_rules mod_svc_keeps)

lemma sending_keeps:
  assumes "\<And>Q send. send_keeps Q send \<Longrightarrow> keeps (\<lambda>ss. Q (snd ss)) (m send)"
  shows "keeps (\<lambda>st. I (snd st)) (sending D m)"
proof (rule keepsI)
  fix st :: "('net, 'd, 'w) svc_drv" assume st: "I (snd st)"
  define send where "send = (case dr_plugin D of None \<Rightarrow> (\<lambda>_. raiseM AttributeError) | Some P \<Rightarrow> plugin_cast P (dr_cast D))"
  have "send_keeps (\<lambda>w. I ((snd st)\<lparr>dv_world := w\<rparr>)) send"
    unfolding send_def by (cases "dr_plugin D") (simp_all add: told send_keepsI keeps_raise)
  from keepsD [OF assms [OF this], of "(fst st, dv_world (snd st))"] st
  show "I (snd (snd (sending D m st)))"
    by (cases "m send (fst st, dv_world (snd st))") (auto simp: sending_def send_def [symmetric] Let_def)
qed

section \<open>The common handler\<close>

lemma assure_tenant_keeps: "keeps (\<lambda>st. I (snd st)) (assure_tenant D ps)"
  unfolding assure_tenant_def by (intro keeps_rules on_site_keeps created mark_error_keeps)

lemma traffic_group_keeps: "keeps (\<lambda>st. I (snd st)) (traffic_group_of_service D)"
  unfolding traffic_group_of_service_def
  by (rule keeps_bind) (simp add: keeps_def, intro keeps_rules mod_svc_keeps)

lemma prep_networking_keeps: "keeps (\<lambda>st. I (snd st)) (prep_networking D ps del tg)"
proof -
  have "keeps (\<lambda>st. I (snd st)) (\<lambda>st. on_site (prep_service_networking (dr_net D) (l3_of (snd st)) tg) st)"
    using on_site_keeps [OF prepared] by (simp add: keeps_def)
  then show ?thesis unfolding prep_networking_def by (intro keeps_rules flags_keep mark_error_keeps)
qed

lemma on_svc_keeps: "keeps (\<lambda>st. I (snd st)) m \<Longrightarrow> keeps (\<lambda>h. I (snd (fst h))) (on_svc m)"
  by (auto simp: keeps_def on_svc_def split: prod.split) (metis snd_conv)

lemma assure_on_bigips_keeps: "keeps (\<lambda>h. I (snd (fst h))) (assure_on_bigips D)"
  by (rule keepsI) (simp add: assure_on_bigips_def Let_def active split: prod.split)

lemma post_networking_keeps: "keeps (\<lambda>h. I (snd (fst h))) (post_networking D ps)"
proof -
  have "I (put_site t (snd (fst h)))"
    if "I (snd (fst h))"
      and "post_service_networking (dr_net D) l3 (site_of (fst (fst h)) (snd (fst h)), hs, []) = (r, t, hs', del)"
    for h :: "('net, 'd, 'w) handling" and l3 hs r t hs' del
    using keepsE [OF posted [of "snd (fst h)" l3] _ that(2)] that(1) by (simp add: site_of_def put_site_keeps)
  then have "keeps (\<lambda>h. I (snd (fst h))) (\<lambda>h.
      case post_service_networking (dr_net D) (l3_of (snd (fst h)))
             (site_of (fst (fst h)) (snd (fst h)), get_or [] (snd h), []) of
        (r, t, hints, _) \<Rightarrow> (r, (st_service t, put_site t (snd (fst h))), Some hints))"
    by (intro keepsI) (auto split: prod.split)
  then show ?thesis unfolding post_networking_def by (intro keeps_rules on_svc_keeps mark_error_keeps)
qed

lemma handle_service_keeps: "keeps (\<lambda>h. I (snd (fst h))) (handle_service D ps del)"
  unfolding handle_service_def
  by (intro keeps_bind on_svc_keeps assure_tenant_keeps traffic_group_keeps prep_networking_keeps assure_on_bigips_keeps
      post_networking_keeps keeps_modify) simp

lemma common_service_handler_keeps: "keeps (\<lambda>st. I (snd st)) (common_service_handler D del)"
  unfolding common_service_handler_def
proof (rule keeps_bind [OF flags_keep(1)], rule keepsI)
  fix x :: unit and st :: "('net, 'd, 'w) svc_drv" assume st: "I (snd st)"
  have "keeps (\<lambda>h. I (snd (fst h))) (tryM (handle_service D ps del) (\<lambda>_. retM ()))" for ps
    by (intro keeps_rules handle_service_keeps)
  from keepsD [OF this, of "(st, None)"] st
  have "I (snd (fst (snd (tryM (handle_service D ps del) (\<lambda>_. retM ()) (st, None)))))" for ps by simp
  then show "I (snd (snd (case sv_loadbalancer (fst st) of None \<Rightarrow> (Inr (), st)
      | Some lb \<Rightarrow> (case tryM (handle_service D (lb_status lb) del) (\<lambda>_. retM ()) (st, None) of
          (r, st', hints) \<Rightarrow> if lb_status lb \<noteq> PENDING_DELETE then (r, st')
            else (case hints of None \<Rightarrow> (Inl UnboundLocalError, st')
              | Some hs \<Rightarrow> on_site (assure_tenant_cleanup (dr_net D) (dr_sys D) hs) st')))))"
    using st keepsD [OF on_site_keeps [OF cleaned]]
    by (auto split: option.split prod.split) (metis fst_conv snd_conv)+
qed

section \<open>Events\<close>

lemma operational_event_keeps: "keeps (\<lambda>st. I (snd st)) m \<Longrightarrow> keeps (\<lambda>st. I (snd st)) (operational_event D m)"
  unfolding operational_event_def by (intro keeps_rules on_drv_keeps connecting)

lemma update_target_keeps:
  assumes "\<And>Q send. send_keeps Q send \<Longrightarrow> keeps (\<lambda>ss. Q (snd ss)) (m send)"
  shows "keeps (\<lambda>st. I (snd st)) (update_target D m)"
  unfolding update_target_def
  by (intro keeps_rules sending_keeps assms update_loadbalancer_status_keeps)

lemma mark_first_keeps: "keeps (\<lambda>st. I (snd st)) (mark_first get put set_st)"
  by (rule keepsI) (auto simp: mark_first_def split: option.split list.split)

lemma service_event_keeps:
  assumes "keeps (\<lambda>st. I (snd st)) mark" and "\<And>Q send. send_keeps Q send \<Longrightarrow> keeps (\<lambda>ss. Q (snd ss)) (m send)"
  shows "keeps (\<lambda>st. I (snd st)) (service_event D mark del target m)"
  unfolding service_event_def
  by (intro operational_event_keeps keeps_bind assms(1) common_service_handler_keeps update_target_keeps assms(2))
    (simp_all add: keeps_def)

lemma events_keep:
  "keeps (\<lambda>st. I (snd st)) (loadbalancer_event D del)" "keeps (\<lambda>st. I (snd st)) (listener_event D)"
  "keeps (\<lambda>st. I (snd st)) (pool_event D)" "keeps (\<lambda>st. I (snd st)) (l7policy_event D)"
  "keeps (\<lambda>st. I (snd st)) (l7rule_event D)" "keeps (\<lambda>st. I (snd st)) (member_event D)"
  "keeps (\<lambda>st. I (snd st)) (health_monitor_event D)"
proof -
  have "keeps (\<lambda>st. I (snd st)) (\<lambda>st. if get_all (sv_listeners (fst st)) = [] then (Inr (), st) else mark_first_listener st)"
    unfolding mark_first_listener_def by (intro keeps_unless mark_first_keeps)
  then show "keeps (\<lambda>st. I (snd st)) (pool_event D)"
    unfolding pool_event_def by (intro service_event_keeps status_updates_keep)
qed (unfold loadbalancer_event_def listener_event_def l7policy_event_def l7rule_event_def member_event_def
      health_monitor_event_def mark_first_listener_def mark_first_pool_def,
    (intro service_event_keeps status_updates_keep mark_first_keeps keeps_ret; assumption)+)

lemma update_service_status_keeps: "keeps (\<lambda>st. I (snd st)) (update_service_status D timed_out)"
  unfolding update_service_status_def by (intro keeps_rules sending_keeps service_status_updates_keep)

lemma sync_service_keeps: "keeps (\<lambda>st. I (snd st)) (sync_service D)"
  unfolding sync_service_def
  by (intro keeps_rules flags_keep common_service_handler_keeps update_service_status_keeps)

lemma latest_service_keeps: "keeps I (latest_service D svc)"
  unfolding latest_service_def by (auto split: option.split prod.split intro!: keeps_rules asked)

lemma sync_keeps: "keeps I (sync D svc)"
proof -
  have "keeps I (sync_latest D svc)"
    unfolding sync_latest_def
  proof (rule keeps_bind [OF latest_service_keeps], rule keepsI)
    fix svc' s assume "I s"
    then have "I (snd (snd (sync_service D (svc', s))))" using keepsD [OF sync_service_keeps, of "(svc', s)"] by simp
    with \<open>I s\<close> show "I (snd (if sv_loadbalancer svc' = None then (Inr None, s)
        else case sync_service D (svc', s) of (r, _, s') \<Rightarrow> (case r of Inl e \<Rightarrow> Inl e | Inr p \<Rightarrow> Inr (Some p), s')))"
      by (auto split: prod.split)
  qed
  then show ?thesis unfolding sync_def by (intro keeps_rules operational_keeps)
qed

section \<open>Questions about a service\<close>

lemma annotate_keeps: "keeps (\<lambda>st. I (snd st)) (on_site (annotate_service_route_domains (dr_net D)))"
  by (rule on_site_keeps [OF annotated])

lemma service_exists_keeps: "keeps (\<lambda>st. I (snd st)) (service_exists D members)"
  unfolding service_exists_def
  by (intro keeps_unless keeps_bind keeps_if keeps_ret annotate_keeps keeps_case on_drv_keeps on_active_keeps)

lemma on_active_bigip_keeps: "keeps (\<lambda>st. I (snd st)) (on_active_bigip m)"
  by (rule keepsI) (auto simp: on_active_bigip_def device split: sum.split option.split prod.split)

lemma active_status_keeps: "keeps (\<lambda>st. I (snd st)) (\<lambda>st. on_active_bigip (f st) st)"
  using keepsD [OF on_active_bigip_keeps] by (intro keepsI)

lemma report_member_keeps: "send_keeps Q send \<Longrightarrow> keeps Q (report_member send m)"
  unfolding report_member_def by (intro keeps_rules send_keepsD)

lemma with_service_part_keeps: "keeps Q m \<Longrightarrow> keeps (\<lambda>ss. Q (snd ss)) (\<lambda>ss. case m (snd ss) of (r, w) \<Rightarrow> (r, fst ss, w))"
  by (auto simp: keeps_def split: prod.split)

lemma operating_status_keeps: "keeps (\<lambda>st. I (snd st)) (update_operating_status_event D)"
  unfolding update_operating_status_event_def
  by (intro operational_event_keeps keeps_unless keeps_bind keeps_if keeps_ret keeps_try keeps_raise keeps_gets
      annotate_keeps active_status_keeps sending_keeps with_service_part_keeps keeps_for report_member_keeps)

lemma get_stats_keeps: "keeps (\<lambda>st. I (snd st)) (get_stats D)"
proof -
  have stats: "I (snd st')"
    if "on_drv (on_active (get_service_stats B svc keys)) st = (r, st')" "I (snd st)"
    for B svc keys st r and st' :: "('net, 'd, 'w) svc_drv"
    using keepsE [OF on_drv_keeps [OF on_active_keeps] _ that(1)] that(2) by simp
  have told: "I (snd st')"
    if "sending D (\<lambda>send ss. case send body (snd ss) of (r, w) \<Rightarrow> (r, fst ss, w)) st = (r, st')" "I (snd st)"
    for body st r and st' :: "('net, 'd, 'w) svc_drv"
    by (rule keepsE [OF sending_keeps _ that(1)]) (simp_all add: with_service_part_keeps send_keepsD that(2))
  show ?thesis unfolding get_stats_def
    by (intro operational_event_keeps keepsI) (auto split: option.split prod.split sum.split dest: stats told)
qed

section \<open>Deployed objects, orphans, tunnels\<close>

lemma all_deployed_keeps: "keeps I (all_deployed D visit)"
  unfolding all_deployed_def by (intro operational_keeps on_active_keeps)

lemma on_hosts_keeps: "keeps I (on_hosts D hostnames m)"
  unfolding on_hosts_def by (intro operational_keeps on_active_keeps)

lemma tables_keep:
  "keeps I (get_all_deployed_loadbalancers D purge)" "keeps I (get_all_deployed_listeners D expand)"
  "keeps I (get_all_deployed_l7_policys D)" "keeps I (get_all_deployed_pools D)"
  "keeps I (get_all_deployed_health_monitors D)"
  unfolding get_all_deployed_loadbalancers_def get_all_deployed_listeners_def get_all_deployed_l7_policys_def
    get_all_deployed_pools_def get_all_deployed_health_monitors_def
  by (rule all_deployed_keeps)+

lemma purges_keep:
  "keeps I (purge_orphaned_loadbalancer D t i hs)" "keeps I (purge_orphaned_listener D t i hs)"
  "keeps I (purge_orphaned_pool D addresses t i hs)" "keeps I (purge_orphaned_health_monitor D t i hs)"
  "keeps I (purge_orphaned_l7_policy D t i hs li)"
  unfolding purge_orphaned_loadbalancer_def purge_orphaned_listener_def purge_orphaned_pool_def
    purge_orphaned_health_monitor_def purge_orphaned_l7_policy_def Let_def
  by (intro on_hosts_keeps operational_keeps keeps_bind on_active_keeps keeps_ret)+

lemma foldM_keeps: "(\<And>x a. keeps P (f x a)) \<Longrightarrow> keeps P (foldM f xs a)"
  by (induction xs arbitrary: a) (simp_all add: keeps_ret keeps_bind)

lemma member_nodes_keeps: "keeps I (member_nodes D tenant ms)"
proof (induction ms)
  case (Cons m ms)
  have "keeps I (\<lambda>s. case find_subnet_route_domain (dr_net D) (Some tenant) (site_of empty_service s) of
      (r, t) \<Rightarrow> (r, put_site t s))"
    using site_run [OF found] by (intro keepsI) (simp split: prod.split, metis snd_conv)
  with Cons show ?case by (simp add: keeps_bind keeps_ret keeps_raise)
qed (simp add: keeps_ret)

lemma purge_nodes_keeps: "keeps I (purge_orphaned_nodes D tms)"
  unfolding purge_orphaned_nodes_def purge_tenant_nodes_def Let_def
  by (intro operational_keeps keeps_bind keeps_gets foldM_keeps keeps_ret on_host_keeps member_nodes_keeps keeps_for)

lemma fdb_keeps: "keeps I (fdb_add D fdb)" "keeps I (fdb_remove D fdb)" "keeps I (fdb_update D fdb)"
  unfolding fdb_add_def fdb_remove_def fdb_update_def fdb_each_def by (rule on_active_keeps)+

lemma tunnel_sync_keeps: "keeps I (driver_tunnel_sync D)"
  unfolding driver_tunnel_sync_def by (intro keeps_rules tunnels)

lemma device_walks_keep:
  "keeps I flush_cache" "keeps I (generate_capacity_score D policy)" "keeps I (backup_configuration D)"
  unfolding flush_cache_def generate_capacity_score_def backup_configuration_def
  by (intro keeps_if keeps_ret operational_keeps on_active_keeps)+

lemma teardown_keeps: "keeps (\<lambda>st. I (snd st)) (service_object_teardown D)"
  by (rule keepsI) (auto simp: service_object_teardown_def active split: option.split prod.split)

end

end
