(* ===== verification/AgentFrame.thy ===== *)
theory AgentFrame
  imports SystemFrame ServiceFrame
begin

text \<open>
  What the agent leaves intact of its driver. \<open>lbdriver_contract\<close> and \<open>plugin_contract\<close> say that the
  operations behind the two interfaces keep a property of the driver's state; \<open>agent_invariant\<close> derives
  it for every handler and task of the agent, and so for every state it reaches. \<open>system_invariant\<close>
  shows that the iControl driver fulfils the first contract, and the interpretations at the end take the
  registry of the devices as the property.
\<close>

section \<open>The interfaces of the agent\<close>

abbreviation holds :: "('v \<Rightarrow> bool) \<Rightarrow> 'v agent \<Rightarrow> bool" where
  "holds J a \<equiv> J (ag_driver a)"

locale lbdriver_contract =
  fixes L :: "'v lbdriver" and J :: "'v \<Rightarrow> bool"
  assumes driver_keeps:
    "keeps (holds J) (ld_connect L)" "keeps (holds J) (ld_recover L)" "keeps (holds J) (ld_flush_cache L)"
    "keeps (holds J) (ld_configurations L)" "keeps (holds J) (ld_capacity_score L policy)"
    "keeps (holds J) (ld_tunnel_sync L)" "keeps (holds J) (ld_tunnel_update L)"
    "keeps (holds J) (ld_sync L svc)" "keeps (holds J) (ld_service_exists L svc)"
    "keeps (holds J) (ld_update_service_status L svc timed_out)" "keeps (holds J) (ld_update_operating_status L svc)"
    "keeps (holds J) (ld_get_stats L svc)" "keeps (holds J) (ld_event L ev svc)"
    "keeps (holds J) (ld_backup_configuration L)"
  and driver_tables_keep:
    "keeps (holds J) (ld_loadbalancers L purge)" "keeps (holds J) (ld_listeners L expand)"
    "keeps (holds J) (ld_l7_policys L)" "keeps (holds J) (ld_pools L)" "keeps (holds J) (ld_monitors L)"
  and driver_purges_keep:
    "keeps (holds J) (ld_purge_loadbalancer L t i hs)" "keeps (holds J) (ld_purge_listener L t i hs)"
    "keeps (holds J) (ld_purge_l7_policy L t i hs li)" "keeps (holds J) (ld_purge_pool L t i hs)"
    "keeps (holds J) (ld_purge_nodes L tms)" "keeps (holds J) (ld_purge_monitor L t i hs)"
  and driver_fdb_keeps: "keeps (holds J) (ld_fdb_add L fdb)" "keeps (holds J) (ld_fdb_remove L fdb)"

locale plugin_contract =
  fixes Q :: "'v plugin_api" and J :: "'v \<Rightarrow> bool"
  assumes plugin_keeps:
    "keeps (holds J) (pa_service Q i)" "keeps (holds J) (pa_active Q h)" "keeps (holds J) (pa_all Q h)"
    "keeps (holds J) (pa_pending Q h)" "keeps (holds J) (pa_set_admin_state Q up)"
    "keeps (holds J) (pa_scrub_dead_agents Q)" "keeps (holds J) (pa_clusterwide_agent Q)"
    "keeps (holds J) (pa_validate_loadbalancers Q ids)" "keeps (holds J) (pa_validate_listeners Q ids)"
    "keeps (holds J) (pa_validate_pools Q ids)" "keeps (holds J) (pa_validate_l7policys Q ids)"
    "keeps (holds J) (pa_pools_members Q ids)" "keeps (holds J) (pa_report_state Q)"

section \<open>The agent\<close>

lemma keeps_agent: "(\<And>a. ag_driver (f a) = ag_driver a) \<Longrightarrow> keeps (holds J) (modifyM f)"
  by (rule keeps_modify) simp

lemma want_resync_keeps: "keeps (holds J) want_resync"
  unfolding want_resync_def by (rule keeps_agent) simp

lemma put_service_keeps: "keeps (holds J) (put_service A svc)"
  by (rule keepsI) (simp add: put_service_def split: sum.split)

lemma pending_since_keeps: "keeps (holds J) (pending_since now i)"
  by (rule keepsI) (simp add: pending_since_def split: option.split)

lemmas agent_rules =
  keeps_ret keeps_raise keeps_lift keeps_gets keeps_bind keeps_try keeps_if keeps_option keeps_pair keeps_for
  want_resync_keeps put_service_keeps pending_since_keeps

locale agent_invariant =
  lbdriver_contract "ae_driver A" J + plugin_contract "ae_plugin A" J for A :: "'v agent_env" and J
begin

lemmas interface_keeps = driver_keeps driver_tables_keep driver_purges_keep driver_fdb_keeps plugin_keeps

lemma logged_keeps: "keeps P m \<Longrightarrow> keeps P (logged m)"
  unfolding logged_def by (intro keeps_try keeps_ret)

lemma report_state_keeps: "keeps (holds J) (report_state A force)"
  unfolding report_state_def forget_services_def report_admin_state_def report_capacity_def
  by (intro logged_keeps agent_rules interface_keeps keeps_agent; simp)

lemma agent_updated_keeps: "keeps (holds J) (agent_updated A up)"
  unfolding agent_updated_def by (intro agent_rules keeps_agent report_state_keeps; simp)

lemma validate_services_keeps: "keeps (holds J) (validate_services A ids)"
  unfolding validate_services_def validate_service_def by (intro agent_rules interface_keeps)

lemma refresh_pending_keeps: "keeps (holds J) (refresh_pending_services A)"
  unfolding refresh_pending_services_def refresh_pending_def refresh_service_def service_timeout_def
  by (intro agent_rules logged_keeps interface_keeps keeps_agent; simp)

lemma sync_state_keeps: "keeps (holds J) (sync_state A)"
  unfolding sync_state_def
  by (intro agent_rules interface_keeps validate_services_keeps refresh_pending_keeps)

lemma purge_unknown_keeps: "(\<And>t i hs. keeps (holds J) (purge t i hs)) \<Longrightarrow> keeps (holds J) (purge_unknown purge t status)"
  unfolding purge_unknown_def by (intro agent_rules)

lemma purges_of_agent_keep:
  "keeps (holds J) (purge_orphaned_loadbalancers A t)" "keeps (holds J) (purge_orphaned_listeners A t)"
  "keeps (holds J) (purge_orphaned_pools A t)" "keeps (holds J) (purge_orphaned_l7_policys A t)"
  "keeps (holds J) (purge_orphaned_nodes_of A t)" "keeps (holds J) (purge_orphaned_health_monitors A t)"
  unfolding purge_orphaned_loadbalancers_def purge_orphaned_listeners_def purge_orphaned_pools_def
    purge_orphaned_l7_policys_def purge_orphaned_nodes_of_def purge_orphaned_health_monitors_def
  by (intro agent_rules purge_unknown_keeps interface_keeps)+

lemma clean_orphans_keeps: "keeps (holds J) (clean_orphaned_objects A)"
  unfolding clean_orphaned_objects_def purge_all_def if_deployed_def
  by (intro agent_rules purges_of_agent_keep interface_keeps)

lemma periodic_resync_keeps: "keeps (holds J) (periodic_resync A)"
  unfolding periodic_resync_def check_resync_timer_def resync_if_def
  by (intro agent_rules interface_keeps sync_state_keeps clean_orphans_keeps keeps_agent; simp)

lemma status_task_keeps: "keeps (holds J) (update_operating_status_task A)"
  unfolding update_operating_status_task_def update_status_of_def
  by (intro agent_rules logged_keeps interface_keeps)

lemma handle_event_keeps: "keeps (holds J) (handle_event A ev svc)"
proof -
  have "keeps (holds J) (resync_if_pending p)" for p
    unfolding resync_if_pending_def by (intro agent_rules)
  moreover have "keeps (holds J) (loadbalancer_handler A is_delete svc)" for is_delete
    unfolding loadbalancer_handler_def object_handler_def resync_if_pending_def
    by (intro logged_keeps agent_rules interface_keeps keeps_agent; simp)
  ultimately show ?thesis
    by (cases ev) (simp_all add: handler_defs logged_keeps keeps_bind interface_keeps put_service_keeps keeps_ret want_resync_keeps)
qed

lemma start_agent_keeps: "keeps (holds J) (start_agent A up)"
  unfolding start_agent_def by (intro agent_rules interface_keeps keeps_agent; simp)

lemma occur_keeps: "keeps (holds J) (occur A c)"
proof (cases c)
  case (Tick n)
  then show ?thesis by (simp add: keeps_agent)
qed (simp_all add: connect_driver_def recover_devices_def scrub_dead_agents_task_def update_loadbalancer_stats_def
      agent_add_fdb_entries_def agent_remove_fdb_entries_def agent_update_fdb_entries_def agent_tunnel_update_def
      keeps_ret logged_keeps keeps_bind interface_keeps put_service_keeps
      report_state_keeps agent_updated_keeps periodic_resync_keeps status_task_keeps handle_event_keeps)

lemma reachable_keeps: "reachable A s0 s \<Longrightarrow> J (ag_driver s0) \<Longrightarrow> J (ag_driver s)"
  by (induction rule: reachable.induct) (auto dest: keepsE [OF occur_keeps])

end

section \<open>The iControl driver fulfils the contract\<close>

lemma with_service_keeps: "keeps (\<lambda>st. I (snd st)) m \<Longrightarrow> keeps I (with_service svc m)"
  by (auto simp: keeps_def with_service_def split: prod.split) (metis snd_conv)

lemma returning_service_keeps: "keeps (\<lambda>st. I (snd st)) m \<Longrightarrow> keeps I (returning_service svc m)"
  by (auto simp: keeps_def returning_service_def split: prod.split) (metis snd_conv)

lemma no_result_keeps: "keeps I m \<Longrightarrow> keeps I (no_result m)"
  unfolding no_result_def by (intro keeps_bind keeps_ret)

locale system_invariant = driver_invariant D I
  for D :: "('ip, 'net, 'd, 'x \<times> unit agent) drv_env" and I +
  assumes free: "world_free I" and connect_keeps: "keeps I (connect D)"
    and recover_keeps: "keeps I (recover_errored_devices D)"
    and configurations_keep: "keeps I (get_agent_configurations D)"
begin

lemma driver_event_keeps: "keeps (\<lambda>st. I (snd st)) (driver_event D ev)"
  by (cases ev) (simp_all add: events_keep)

lemma icontrol_keeps: "lbdriver_contract (icontrol D members addresses) I"
  by unfold_locales
    (simp_all add: icontrol_def keeps_drive [OF free] with_service_keeps returning_service_keeps no_result_keeps
      connect_keeps recover_keeps configurations_keep driver_tunnel_update_def keeps_ret device_walks_keep tunnel_sync_keeps sync_keeps service_exists_keeps
      update_service_status_keeps operating_status_keeps get_stats_keeps driver_event_keeps tables_keep purges_keep
      purge_nodes_keeps fdb_keeps)

lemma rpc_api_keeps: "plugin_contract (rpc_api P R) I"
  by unfold_locales (simp_all add: rpc_api_def keeps_ask [OF free] no_result_keeps)

end

sublocale system_invariant \<subseteq> icontrol: lbdriver_contract "icontrol D members addresses" I for members addresses
  by (rule icontrol_keeps)

sublocale system_invariant \<subseteq> rpc: plugin_contract "rpc_api P R" I for P R
  by (rule rpc_api_keeps)

section \<open>The registry of the devices\<close>

lemma registry_free [simp]: "world_free (registry H)"
  by (simp add: world_free_def registry_def)

lemma registry_world [simp]: "registry H (s\<lparr>dv_world := w\<rparr>) = registry H s"
  by (simp add: registry_def)

lemma capacity_registry: "keeps (registry H) (generate_capacity_score D policy)"
  unfolding generate_capacity_score_def by (intro keeps_rules)

lemma keeps_const: "keeps (\<lambda>_. c) m"
  by (simp add: keeps_def)

text \<open>The callback of the agent keeps the registry, however deep it calls itself.\<close>

lemma report_cb_registry: "cb_keeps (registry H) (report_cb S n)"
proof (induction n)
  case 0
  show ?case by (simp add: cb_keeps_def keeps_raise)
next
  case (Suc n)
  have "keeps (holds (registry H)) (report_state (agent_with S (report_cb S n)) force)" for force
    by (intro keeps_report_state) (simp_all add: keeps_flush_cache capacity_registry keeps_get_agent_configurations report_keeps_with Suc)
  then show ?case by (simp add: cb_keeps_def keeps_manage)
qed

lemma report_registry: "cb_keeps (registry H) (report S)"
  using report_cb_registry [of H S] unfolding cb_keeps_def keeps_def report_def by blast

interpretation reg: system_invariant "driver_with S (report S)" "registry {}" for S :: "('ip, 'net, 'd, 'x) deployment"
proof unfold_locales
  fix s :: "('net, 'd, 'x) sys_drv" and bs assume "registry {} s"
  then show "registry {} (s\<lparr>dv_hosts := put_active (dv_hosts s) bs\<rparr>)"
    by (simp add: registry_def hosts_ok_shape put_active_shape)
next
  fix s :: "('net, 'd, 'x) sys_drv" and h b assume "registry {} s"
  then show "registry {} (upd_host h (\<lambda>x. x\<lparr>ho_device := Some b\<rparr>) s)"
    by (rule registry_upd_host) simp
next
  show "keeps (registry {}) (init_bigips (driver_with S (report S)))"
    by (intro keeps_init_bigips report_keeps_with report_registry)
next
  show "keeps (registry {}) (connect (driver_with S (report S)))"
    by (intro keeps_connect report_keeps_with report_registry)
next
  show "keeps (registry {}) (recover_errored_devices (driver_with S (report S)))"
    unfolding recover_errored_devices_def
    by (intro keeps_try keeps_ret keeps_init_errored_bigips report_keeps_with report_registry)
next
  show "keeps (registry {}) (get_agent_configurations (driver_with S (report S)))"
    by (intro keeps_get_agent_configurations report_keeps_with report_registry)
qed (simp_all add: registry_def [where H = "{}"] send_keepsI keeps_site_def keeps_const keeps_on_world)

interpretation agent_reg: agent_invariant "system S" "registry {}" for S :: "('ip, 'net, 'd, 'x) deployment"
proof -
  have "ae_driver (system S) = icontrol (driver_with S (report S)) (su_members S) (su_addresses S)"
    and "ae_plugin (system S) = rpc_api (su_plugin S) (su_replies S)"
    by (simp_all add: system_def agent_with_def)
  then show "agent_invariant (system S) (registry {})"
    unfolding agent_invariant_def by (simp only: reg.icontrol_keeps reg.rpc_api_keeps)
qed

end
