(* ===== verification/Options.thy ===== *)
theory Options
  imports DriverSetup
begin

text \<open>
  The configuration options of the agent and of the iControl driver with their defaults, and the
  configuration the rest of the model reads, from the options and what the files set. Where an option is
  tested for truth, \<open>truthy\<close> is Python's test.
\<close>

section \<open>Values\<close>

datatype opt_value =
    ONone | OStr string | OInt int | OBool bool | OList "string list" | ODict "(string \<times> string) list"

type_synonym options = "(string \<times> opt_value) list"

fun truthy :: "opt_value \<Rightarrow> bool" where
  "truthy ONone \<longleftrightarrow> False"
| "truthy (OStr s) \<longleftrightarrow> s \<noteq> ''''"
| "truthy (OInt i) \<longleftrightarrow> i \<noteq> 0"
| "truthy (OBool b) \<longleftrightarrow> b"
| "truthy (OList xs) \<longleftrightarrow> xs \<noteq> []"
| "truthy (ODict d) \<longleftrightarrow> d \<noteq> []"

fun opt_text :: "opt_value \<Rightarrow> string option" where
  "opt_text (OStr s) = Some s"
| "opt_text _ = None"

fun opt_int :: "opt_value \<Rightarrow> int" where
  "opt_int (OInt i) = i"
| "opt_int _ = 0"

fun opt_list :: "opt_value \<Rightarrow> string list" where
  "opt_list (OList xs) = xs"
| "opt_list _ = []"

fun opt_dict :: "opt_value \<Rightarrow> (string \<times> string) list" where
  "opt_dict (ODict d) = d"
| "opt_dict _ = []"

section \<open>The options\<close>

definition agent_options :: options where
  "agent_options =
     [(''periodic_interval'', OInt 10), (''start_agent_admin_state_up'', OBool True),
      (''f5_bigip_lbaas_device_driver'',
       OStr ''f5_openstack_agent.lbaasv2.drivers.bigip.icontrol_driver.iControlDriver''),
      (''l2_population'', OBool False), (''f5_global_routed_mode'', OBool True), (''use_namespaces'', OBool True),
      (''f5_snat_mode'', OBool True), (''f5_snat_addresses_per_subnet'', OInt 1), (''agent_id'', ONone),
      (''static_agent_configuration_data'', ONone), (''service_resync_interval'', OInt 300),
      (''environment_prefix'', OStr ''Project''), (''environment_specific_plugin'', OBool True),
      (''environment_group_number'', OInt 1), (''capacity_policy'', ODict []),
      (''f5_pending_services_timeout'', OInt 60), (''f5_errored_services_timeout'', OInt 60)]"

definition account_options :: options where
  "account_options =
     [(''bigiq_hostname'', ONone), (''bigiq_admin_username'', OStr ''admin''),
      (''bigiq_admin_password'', OStr ''[Provide password in config file]''),
      (''openstack_keystone_uri'', OStr ''http://192.0.2.248:5000/''), (''openstack_admin_username'', OStr ''admin''),
      (''openstack_admin_password'', OStr ''[Provide password in config file]''),
      (''bigip_management_username'', OStr ''admin''),
      (''bigip_management_password'', OStr ''[Provide password in config file]'')]"

definition network_options :: options where
  "network_options =
     [(''f5_device_type'', OStr ''external''), (''f5_ha_type'', OStr ''pair''),
      (''f5_external_physical_mappings'', OList [''default:1.1:True'']), (''f5_vtep_folder'', OStr ''Common''),
      (''f5_vtep_selfip_name'', ONone), (''advertised_tunnel_types'', OList [''vxlan'']),
      (''f5_populate_static_arp'', OBool False), (''vlan_binding_driver'', ONone),
      (''interface_port_static_mappings'', ONone), (''l3_binding_driver'', ONone),
      (''l3_binding_static_mappings'', ONone), (''f5_route_domain_strictness'', OBool False),
      (''f5_common_networks'', OBool False), (''f5_common_external_networks'', OBool True),
      (''external_gateway_mode'', OBool False)]"

definition icontrol_options :: options where
  "icontrol_options =
     [(''icontrol_vcmp_hostname'', ONone), (''icontrol_hostname'', OStr ''10.190.5.7''),
      (''icontrol_username'', OStr ''admin''), (''icontrol_password'', OStr ''admin''),
      (''icontrol_connection_timeout'', OInt 30), (''icontrol_connection_retry_interval'', OInt 10),
      (''common_network_ids'', ODict []), (''icontrol_config_mode'', OStr ''objects''),
      (''max_namespaces_per_tenant'', OInt 1)]"

definition keystone_options :: options where
  "keystone_options =
     [(''cert_manager'', ONone), (''auth_version'', ONone), (''os_project_id'', OStr ''service''), (''os_auth_url'', ONone),
      (''os_username'', ONone), (''os_user_domain_name'', ONone), (''os_project_name'', ONone),
      (''os_project_domain_name'', ONone), (''os_password'', ONone)]"

definition service_options :: options where
  "service_options =
     [(''f5_network_segment_physical_network'', ONone), (''unlegacy_setting_placeholder'', ONone),
      (''f5_network_segment_polling_interval'', OInt 10), (''f5_network_segment_gross_timeout'', OInt 300),
      (''f5_parent_ssl_profile'', OStr ''clientssl''), (''os_tenant_name'', ONone),
      (''trace_service_requests'', OBool False), (''report_esd_names_in_agent'', OBool False)]"

definition all_options :: options where
  "all_options =
     agent_options @ account_options @ network_options @ icontrol_options @ keystone_options @ service_options"

section \<open>The configuration\<close>

text \<open>What a file sets comes before the default; an option that is not registered cannot be read.\<close>

definition setting :: "options \<Rightarrow> string \<Rightarrow> opt_value" where
  "setting given name =
     (case map_of all_options name of
        None \<Rightarrow> ONone
      | Some d \<Rightarrow> (case map_of given name of None \<Rightarrow> d | Some v \<Rightarrow> v))"

definition read_conf :: "options \<Rightarrow> conf" where
  "read_conf given =
     (let v = setting given; on = (\<lambda>n. truthy (v n)); txt = (\<lambda>n. get_or '''' (opt_text (v n))) in
      \<lparr>environment_prefix = txt ''environment_prefix'', f5_snat_mode = on ''f5_snat_mode'',
       f5_snat_addresses_per_subnet = opt_int (v ''f5_snat_addresses_per_subnet''),
       common_network_ids = opt_dict (v ''common_network_ids''), f5_common_networks = on ''f5_common_networks'',
       f5_common_external_networks = on ''f5_common_external_networks'',
       f5_global_routed_mode = on ''f5_global_routed_mode'', use_namespaces = on ''use_namespaces'',
       max_namespaces_per_tenant = opt_int (v ''max_namespaces_per_tenant''),
       f5_route_domain_strictness = on ''f5_route_domain_strictness'',
       external_gateway_mode = on ''external_gateway_mode'',
       f5_network_segment_physical_network = opt_text (v ''f5_network_segment_physical_network''),
       f5_ha_type = txt ''f5_ha_type'', f5_populate_static_arp = on ''f5_populate_static_arp'',
       f5_pending_services_timeout = opt_int (v ''f5_pending_services_timeout''),
       service_resync_interval = opt_int (v ''service_resync_interval''),
       unlegacy_setting_placeholder = on ''unlegacy_setting_placeholder'', l2_population = on ''l2_population'',
       advertised_tunnel_types = opt_list (v ''advertised_tunnel_types''),
       f5_external_physical_mappings = opt_list (v ''f5_external_physical_mappings''),
       f5_vtep_folder = opt_text (v ''f5_vtep_folder''), f5_vtep_selfip_name = opt_text (v ''f5_vtep_selfip_name'')\<rparr>)"

text \<open>The configuration of a driver without configuration files, after its constructor.\<close>

definition default_conf :: conf where
  "default_conf = mode_settings (read_conf [])"

section \<open>The certificate manager\<close>

text \<open>What Keystone is asked with: user name, password, URL, then the tenant or the domains and the project.\<close>

datatype keystone_auth =
    KeystoneV2 "string option" "string option" "string option" "string option"
  | KeystoneV3 "string option" "string option" "string option" "string option" "string option" "string option"

definition keystone_auth_of :: "options \<Rightarrow> keystone_auth" where
  "keystone_auth_of given =
     (let v = (\<lambda>n. opt_text (setting given n)) in
      if v ''auth_version'' = Some ''v3''
      then KeystoneV3 (v ''os_username'') (v ''os_password'') (v ''os_auth_url'') (v ''os_user_domain_name'')
             (v ''os_project_domain_name'') (v ''os_project_name'')
      else KeystoneV2 (v ''os_username'') (v ''os_password'') (v ''os_auth_url'') (v ''os_tenant_name''))"

text \<open>\<open>attempt\<close> opens a session and lists the containers; \<open>None\<close> is a manager without configuration.\<close>

definition new_cert_manager ::
  "(keystone_auth \<Rightarrow> nat \<Rightarrow> exn + 'c) \<Rightarrow> options option \<Rightarrow> (exn + 'c option) \<times> nat" where
  "new_cert_manager attempt conf =
     (case conf of
        None \<Rightarrow> (Inl (F5 InvalidBarbicanConfig), 0)
      | Some given \<Rightarrow> init_client (attempt (keystone_auth_of given)) 0 0)"

section \<open>Lemmas\<close>

lemma options_distinct: "distinct (map fst all_options)"
  by code_simp

text \<open>Without files the agent works in global routed mode: no namespaces, SNAT, and a pair of devices.\<close>

lemma default_conf_routed:
  "f5_global_routed_mode default_conf" "\<not> use_namespaces default_conf" "f5_snat_mode default_conf"
  "f5_snat_addresses_per_subnet default_conf = 0" "f5_ha_type default_conf = ''pair''"
  by code_simp+

end
