(* ===== verification/System_Properties.thy ===== *)
theory System_Properties
  imports AgentFrame Options Driver_Properties
begin

text \<open>
  The properties of the agent with its driver: the recursion of the report, the registry of devices in
  every state the system reaches, orphans from the answer of Neutron to the devices, and the capacity score.
  The witnesses run the driver of \<open>Driver_Properties\<close> under the agent, with clients that always answer.
\<close>

section \<open>A system\<close>

definition ex_replies :: "('w \<times> unit agent) reply_clients" where
  "ex_replies =
     \<lparr>rp_done = (\<lambda>_. retM ()), rp_flag = (\<lambda>_. retM True), rp_service = (\<lambda>_. retM empty_service), rp_rows = (\<lambda>_. retM []),
      rp_agent = (\<lambda>_. retM (Some ''host1'')),
      rp_states = (\<lambda>_. retM [(''li1'', ''Unknown''), (''li2'', ''ACTIVE'')]), rp_policies = (\<lambda>_. retM []),
      rp_members = (\<lambda>_. retM []), rp_report = retM ()\<rparr>"

definition ex_system :: "(unit, unit, ex_unit, unit) deployment" where
  "ex_system =
     \<lparr>su_driver = ex_env (\<lambda>_. retM ()), su_members = (\<lambda>_. retM []), su_addresses = (\<lambda>_. retM []),
      su_plugin = plugin_init ''topic'' ''Project'' 1 ''host1'', su_replies = ex_replies, su_host = ''host1'',
      su_resync_interval = 300, su_pending_timeout = 60, su_capacity_policy = []\<rparr>"

definition ex_new_driver :: "(unit, ex_unit, unit \<times> unit agent) drv" where
  "ex_new_driver = snd (new_driver (su_driver ex_system) ''bigip1'' ''admin'' ''secret'' (Inr None) (Inr None)
     (blank_driver route_domain_defaults ((), shell_of (new_agent 0 True ()))))"

definition ex_start :: "(unit, ex_unit, unit) sys" where
  "ex_start = snd (start_agent (system ex_system) True (new_agent 0 True ex_new_driver))"

section \<open>The registry in every state\<close>

lemma new_driver_registry:
  assumes "dr_report D = None" and "registry {} s"
  shows "registry {} (snd (new_driver D hosts user password vlan l3 s))"
proof -
  have r: "report_keeps (registry {}) D" using assms(1) by (simp add: report_keeps_def)
  have "keeps (registry {}) (modifyM (\<lambda>s. s\<lparr>dv_vlan := v\<rparr>))" "keeps (registry {}) (modifyM (\<lambda>s. s\<lparr>dv_l3 := l\<rparr>))" for v l
    by (rule keeps_modify, simp add: registry_def)+
  with r have "keeps (registry {}) (new_driver D hosts user password vlan l3)"
    unfolding new_driver_def by (intro keeps_rules keeps_init_bigip_hostnames)
  from keepsD [OF this assms(2)] show ?thesis .
qed

text \<open>C3
  A driver is constructed, an agent is started on it and handles, in any order and any number, calls from
  Neutron, periodic tasks, reconnections and admin changes, some of which raise. In every state the two
  reach, each device host name occurs once in the registry, and a host that is connected, initializing,
  validating or active has a device behind it. Nothing is assumed of the devices, of Neutron or of the
  network components; the callback between the two is the one of the code.
\<close>

theorem system_registry:
  assumes "dr_report (su_driver S) = None"
    and "new_driver (su_driver S) hosts user password vlan l3 (blank_driver payload w) = (r, v)"
    and "start_agent (system S) up (new_agent now up v) = (r', a0)" and "reachable (system S) a0 a"
  shows "distinct (map fst (dv_hosts (ag_driver a))) \<and>
    (\<forall>h x. map_of (dv_hosts (ag_driver a)) h = Some x \<and> needs_device (ho_status x) \<longrightarrow> ho_device x \<noteq> None)"
proof -
  have "registry {} (blank_driver payload w)" by (simp add: registry_def hosts_ok_def blank_driver_def)
  from new_driver_registry [OF assms(1) this, of hosts user password vlan l3]
  have "registry {} (ag_driver (new_agent now up v))" by (simp add: assms(2) new_agent_def)
  from keepsE [OF agent_reg.start_agent_keeps this assms(3)] have "registry {} (ag_driver a0)" .
  from agent_reg.reachable_keeps [OF assms(4) this] have "hosts_ok {} (dv_hosts (ag_driver a))" by (simp add: registry_def)
  then show ?thesis unfolding hosts_ok_def by (auto dest!: map_of_SomeD)
qed

text \<open>After the start a heartbeat, then Neutron's call for a new listener.\<close>

definition ex_later :: "(unit, ex_unit, unit) sys" where
  "ex_later = snd (occur (system ex_system) (Call ListenerEvent (empty_service\<lparr>sv_loadbalancer := Some ex_lb\<rparr>))
     (snd (occur (system ex_system) Heartbeat ex_start)))"

lemma system_registry_witness:
  "reachable (system ex_system) ex_start ex_later \<and> distinct (map fst (dv_hosts (ag_driver ex_later))) \<and>
     \<not> (\<exists>h x. map_of (dv_hosts (ag_driver ex_later)) h = Some x \<and> needs_device (ho_status x) \<and> ho_device x = None)"
proof -
  have o: "occur (system ex_system) c b = (fst (occur (system ex_system) c b), snd (occur (system ex_system) c b))" for c b
    by (rule prod.collapse [symmetric])
  have r: "reachable (system ex_system) ex_start ex_later"
    unfolding ex_later_def by (rule reach_occur [OF reach_occur [OF reach_start o] o])
  have 1: "dr_report (su_driver ex_system) = None" by (simp add: ex_system_def ex_env_def)
  have 2: "new_driver (su_driver ex_system) ''bigip1'' ''admin'' ''secret'' (Inr None) (Inr None)
      (blank_driver route_domain_defaults ((), shell_of (new_agent 0 True ()))) = (r, ex_new_driver)"
    if "r = fst (new_driver (su_driver ex_system) ''bigip1'' ''admin'' ''secret'' (Inr None) (Inr None)
      (blank_driver route_domain_defaults ((), shell_of (new_agent 0 True ()))))" for r
    using that by (simp add: ex_new_driver_def)
  have 3: "start_agent (system ex_system) True (new_agent 0 True ex_new_driver)
      = (fst (start_agent (system ex_system) True (new_agent 0 True ex_new_driver)), ex_start)"
    by (simp add: ex_start_def)
  from system_registry [OF 1 2 [OF refl] 3 r] r show ?thesis by blast
qed

section \<open>The recursion of the report\<close>

text \<open>C4
  The driver reports through the agent, which asks the driver for its configurations, which may report
  again. This recursion ends: each further report follows a device that left the active ones, so a depth of one
  more than the number of active devices is enough, more changes nothing, and the callback is the
  unbounded one of the code: the report of the agent whose driver has this very callback.
\<close>

theorem report_returns:
  "report S force s = manage (report_state (system S) force) s \<and>
   report_cb S (Suc (active_count (dv_hosts s)) + extra) force s = report S force s"
proof
  show "report S force s = manage (report_state (system S) force) s"
    unfolding system_def by (rule report_step)
  show "report_cb S (Suc (active_count (dv_hosts s)) + extra) force s = report S force s"
    by (rule report_cb_enough) simp
qed

section \<open>Orphans, from Neutron to the devices\<close>

lemma get_all_put_active: "length bs = length (get_all_bigips hs) \<Longrightarrow> get_all_bigips (put_active hs bs) = bs"
proof (induction hs bs rule: put_active.induct)
  case (2 k x hs bs)
  show ?case
  proof (cases "ho_status x = HActive \<and> ho_device x \<noteq> None")
    case True
    then obtain d where d: "ho_device x = Some d" by auto
    with True 2 show ?thesis by (cases bs) (auto simp: get_all_bigips_def List.map_filter_simps)
  next
    case False
    with 2 have "get_all_bigips (put_active hs bs) = bs"
      by (auto simp: get_all_bigips_def List.map_filter_simps split: if_splits)
    with False show ?thesis by (auto simp: get_all_bigips_def List.map_filter_simps)
  qed
qed (simp add: get_all_bigips_def List.map_filter_simps)

text \<open>An attempt that never raises, on the devices of some hosts.\<close>

definition attempt_on :: "string list \<Rightarrow> ('d, unit) py \<Rightarrow> 'd bigip \<Rightarrow> 'd bigip" where
  "attempt_on hosts m b = (if b_hostname b \<in> set hosts then b\<lparr>b_dev := snd (m (b_dev b))\<rparr> else b)"

lemma on_hosts_run:
  assumes "dv_operational s" and "\<And>d. fst (m d) = Inr ()"
  shows "on_hosts D hosts m s =
    (Inr (Some ()), s\<lparr>dv_hosts := put_active (dv_hosts s) (map (attempt_on hosts m) (get_all_bigips (dv_hosts s)))\<rparr>)"
proof -
  have "for_bigips (\<lambda>_ b. if b_hostname b \<in> set hosts then on_dev m b else (Inr (), b)) () bs
      = (Inr (), map (attempt_on hosts m) bs)" for bs
  proof (induction bs)
    case (Cons b bs)
    obtain d where "m (b_dev b) = (Inr (), d)" using assms(2) [of "b_dev b"] by (metis prod.collapse)
    with Cons show ?case by (simp add: attempt_on_def on_dev_def)
  qed simp
  with assms(1) show ?thesis
    by (simp add: on_hosts_def is_operational_def bindM_def getsM_def on_active_def retM_def)
qed

lemma hush_load_delete:
  assumes "endpoint_ok ep key view"
  shows "fst (hush (load_delete ep n p) d) = Inr ()" "view (snd (hush (load_delete ep n p) d)) = (view d)((n, p) := None)"
proof -
  have "\<exists>d'. hush (load_delete ep n p) d = (Inr (), d') \<and> view d' = (view d)((n, p) := None)"
  proof (cases "view d (n, p)")
    case None
    then have "view d = (view d)((n, p) := None)" by auto
    with None show ?thesis
      by (auto simp: hush_def load_delete_def rh_load_def endpoint_ok_load [OF assms] py_simps)
  next
    case (Some x)
    from endpoint_ok_delete [OF assms Some] Some show ?thesis
      by (auto simp: hush_def load_delete_def rh_load_def endpoint_ok_load [OF assms] py_simps)
  qed
  then show "fst (hush (load_delete ep n p) d) = Inr ()" "view (snd (hush (load_delete ep n p) d)) = (view d)((n, p) := None)"
    by auto
qed

text \<open>The objects of \<open>K\<close>, pairs of a host and a name, are gone, and nothing else has changed.\<close>

definition gone :: "('d \<Rightarrow> 'k \<Rightarrow> 'm option) \<Rightarrow> (string \<times> 'k) set \<Rightarrow> 'd bigip \<Rightarrow> 'd bigip \<Rightarrow> bool" where
  "gone view K b b' \<longleftrightarrow> b_hostname b' = b_hostname b \<and>
     (\<forall>k. view (b_dev b') k = (if (b_hostname b, k) \<in> K then None else view (b_dev b) k))"

lemma gone_trans: "gone view K b b1 \<Longrightarrow> gone view L b1 b2 \<Longrightarrow> gone view (K \<union> L) b b2"
  by (auto simp: gone_def)

lemma all_gone_trans:
  "list_all2 (gone view K) bs bs1 \<Longrightarrow> list_all2 (gone view L) bs1 bs2 \<Longrightarrow> list_all2 (gone view (K \<union> L)) bs bs2"
  by (rule list_all2_trans [where ?P1.0 = "gone view K" and ?P2.0 = "gone view L"]) (auto intro: gone_trans)

text \<open>One listener, in the system.\<close>

lemma purge_listener_run:
  assumes "endpoint_ok (sdk_virtual (ltm_of (su_driver S))) key view" and "dv_operational (ag_driver a)"
  shows "\<exists>a'. ld_purge_listener (ae_driver (system S)) t i hosts a = (Inr (), a') \<and> dv_operational (ag_driver a') \<and>
    list_all2 (gone view ((\<lambda>h. (h, prefix_of (su_driver S) @ i, prefix_of (su_driver S) @ t)) ` set hosts))
      (get_all_bigips (dv_hosts (ag_driver a))) (get_all_bigips (dv_hosts (ag_driver a')))"
proof -
  let ?n = "prefix_of (su_driver S) @ i" and ?p = "prefix_of (su_driver S) @ t"
  let ?m = "hush (load_delete (sdk_virtual (ltm_of (su_driver S))) ?n ?p)"
  let ?hs = "put_active (dv_hosts (ag_driver a)) (map (attempt_on hosts ?m) (get_all_bigips (dv_hosts (ag_driver a))))"
  have same: "ltm_of (driver_with S (report S)) = ltm_of (su_driver S)"
    "prefix_of (driver_with S (report S)) = prefix_of (su_driver S)"
    by (simp_all add: ltm_of_def prefix_of_def)
  have "dv_operational (enter a)" using assms(2) by (simp add: enter_def)
  from on_hosts_run [where m = ?m and D = "driver_with S (report S)" and hosts = hosts, OF this hush_load_delete(1) [OF assms(1)]]
  have "ld_purge_listener (ae_driver (system S)) t i hosts a = (Inr (), leave ((enter a)\<lparr>dv_hosts := ?hs\<rparr>))"
    by (simp add: system_def agent_with_def icontrol_def drive_def no_result_def purge_orphaned_listener_def same
        bindM_def retM_def)
  moreover have "gone view ((\<lambda>h. (h, ?n, ?p)) ` set hosts) b (attempt_on hosts ?m b)" for b
    by (auto simp: gone_def attempt_on_def hush_load_delete(2) [OF assms(1)])
  then have "list_all2 (gone view ((\<lambda>h. (h, ?n, ?p)) ` set hosts)) (get_all_bigips (dv_hosts (ag_driver a)))
      (get_all_bigips ?hs)"
    by (simp add: get_all_put_active list_all2_map2 list_all2_same)
  ultimately show ?thesis using assms(2) by (simp add: enter_def)
qed

text \<open>The objects Neutron does not know, on the hosts the table has for them.\<close>

definition unknown_keys :: "string \<Rightarrow> deployed_table \<Rightarrow> (string \<times> string) list \<Rightarrow> (string \<times> string \<times> string) set" where
  "unknown_keys prefix t status =
     (\<Union>(i, st) \<in> set status. if st = ''Unknown''
        then (\<lambda>h. (h, prefix @ i, prefix @ dp_tenant_id (the (map_of t i)))) ` set (hosts_in t i) else {})"

lemma purge_unknown_run:
  assumes "endpoint_ok (sdk_virtual (ltm_of (su_driver S))) key view" and "dv_operational (ag_driver a)"
    and "\<And>i. (i, ''Unknown'') \<in> set status \<Longrightarrow> \<exists>d hs. map_of t i = Some d \<and> dp_hostnames d = Some hs"
  shows "\<exists>a'. purge_unknown (ld_purge_listener (ae_driver (system S))) t status a = (Inr (), a') \<and>
    list_all2 (gone view (unknown_keys (prefix_of (su_driver S)) t status))
      (get_all_bigips (dv_hosts (ag_driver a))) (get_all_bigips (dv_hosts (ag_driver a')))"
  using assms(2,3)
proof (induction status arbitrary: a)
  case Nil
  have "list_all2 (gone view {}) bs bs" for bs by (rule list_all2_refl) (simp add: gone_def)
  then show ?case by (simp add: purge_unknown_def unknown_keys_def retM_def)
next
  case (Cons q status)
  obtain i st where q: "q = (i, st)" by (rule prod.exhaust)
  show ?case
  proof (cases "st = ''Unknown''")
    case False
    with q Cons show ?thesis by (simp add: purge_unknown_def unknown_keys_def bindM_def retM_def)
  next
    case True
    with q Cons.prems(2) [of i] obtain d hs where d: "map_of t i = Some d" "dp_hostnames d = Some hs" by auto
    from purge_listener_run [OF assms(1) Cons.prems(1), of "dp_tenant_id d" i hs] obtain a1
      where 1: "ld_purge_listener (ae_driver (system S)) (dp_tenant_id d) i hs a = (Inr (), a1)" "dv_operational (ag_driver a1)"
        "list_all2 (gone view ((\<lambda>h. (h, prefix_of (su_driver S) @ i, prefix_of (su_driver S) @ dp_tenant_id d)) ` set hs))
          (get_all_bigips (dv_hosts (ag_driver a))) (get_all_bigips (dv_hosts (ag_driver a1)))" by blast
    from Cons.IH [OF 1(2)] Cons.prems(2) obtain a2
      where 2: "purge_unknown (ld_purge_listener (ae_driver (system S))) t status a1 = (Inr (), a2)"
        "list_all2 (gone view (unknown_keys (prefix_of (su_driver S)) t status))
          (get_all_bigips (dv_hosts (ag_driver a1))) (get_all_bigips (dv_hosts (ag_driver a2)))" by auto
    have "purge_unknown (ld_purge_listener (ae_driver (system S))) t (q # status) a = (Inr (), a2)"
      using q True d 1(1) 2(1) by (simp add: purge_unknown_def hosts_of_def bindM_def liftM_def)
    moreover have "unknown_keys (prefix_of (su_driver S)) t (q # status) =
        (\<lambda>h. (h, prefix_of (su_driver S) @ i, prefix_of (su_driver S) @ dp_tenant_id d)) ` set hs \<union>
        unknown_keys (prefix_of (su_driver S)) t status"
      using q True d by (simp add: unknown_keys_def hosts_in_def)
    ultimately show ?thesis using all_gone_trans [OF 1(3) 2(2)] by auto
  qed
qed

lemma validate_listeners_frame:
  assumes "pa_validate_listeners (ae_plugin (system S)) ids a = (r, a1)"
  shows "dv_hosts (ag_driver a1) = dv_hosts (ag_driver a)" "dv_operational (ag_driver a1) = dv_operational (ag_driver a)"
  using assms
  by (auto simp: system_def agent_with_def rpc_api_def ask_def drive_def on_world_def enter_def split: prod.splits)

text \<open>C5
  When the driver is operational and Neutron answers, exactly the virtual servers of the listeners that
  Neutron calls \<open>Unknown\<close> disappear, in the folder of their tenant and from the active devices the table
  names; every other virtual server of every device stays as it is.
\<close>

theorem orphaned_listeners_removed:
  assumes "endpoint_ok (sdk_virtual (ltm_of (su_driver S))) key view" and "dv_operational (ag_driver a)"
    and "pa_validate_listeners (ae_plugin (system S)) (map fst t) a = (Inr status, a1)"
    and "\<And>i. (i, ''Unknown'') \<in> set status \<Longrightarrow> \<exists>d hs. map_of t i = Some d \<and> dp_hostnames d = Some hs"
  shows "\<exists>a'. purge_orphaned_listeners (system S) t a = (Inr (), a') \<and>
    list_all2 (gone view (unknown_keys (prefix_of (su_driver S)) t status))
      (get_all_bigips (dv_hosts (ag_driver a))) (get_all_bigips (dv_hosts (ag_driver a')))"
  using purge_unknown_run [OF assms(1) _ assms(4), of a1] assms(2,3) validate_listeners_frame [OF assms(3)]
  by (simp add: purge_orphaned_listeners_def bindM_def)

definition ex_orphans :: "(unit, ex_unit, unit) sys" where
  "ex_orphans = ex_start\<lparr>ag_driver := (ag_driver ex_start)\<lparr>dv_operational := True,
     dv_hosts := [(Some ''bigip1'', (connected_host (Some ''bigip1'')
       \<lparr>xu_folders = [], xu_vas = [],
         xu_virtuals = map (\<lambda>n. ((n, ''Project_t1''), ex_virtual\<lparr>bn_name := n\<rparr>)) [''Project_li1'', ''Project_li2'']\<rparr>)
         \<lparr>ho_status := HActive\<rparr>)]\<rparr>\<rparr>"

definition ex_listed :: deployed_table where
  "ex_listed = map (\<lambda>i. (i, (plain_entry i ''t1'' '''')\<lparr>dp_hostnames := Some [''bigip1'']\<rparr>)) [''li1'', ''li2'']"

lemma orphaned_listeners_removed_witness:
  "\<exists>b. get_all_bigips (dv_hosts (ag_driver (snd (purge_orphaned_listeners (system ex_system) ex_listed ex_orphans)))) = [b] \<and>
     map_of (xu_virtuals (b_dev b)) (''Project_li1'', ''Project_t1'') = None \<and>
     map_of (xu_virtuals (b_dev b)) (''Project_li2'', ''Project_t1'') = Some (ex_virtual\<lparr>bn_name := ''Project_li2''\<rparr>)"
proof -
  let ?view = "\<lambda>d. map_of (xu_virtuals d)"
  have 1: "endpoint_ok (sdk_virtual (ltm_of (su_driver ex_system))) bkey ?view"
    by (simp add: ex_system_def ex_env_def ltm_of_def ex_dnet_def unit_sdk_def lift_endpoint_ok)
  have 2: "dv_operational (ag_driver ex_orphans)" by (simp add: ex_orphans_def)
  have 3: "pa_validate_listeners (ae_plugin (system ex_system)) (map fst ex_listed) ex_orphans
      = (Inr [(''li1'', ''Unknown''), (''li2'', ''ACTIVE'')], leave (enter ex_orphans))"
    by (simp add: system_def agent_with_def rpc_api_def ex_system_def ex_replies_def ask_def drive_def on_world_def
        validate_listeners_state_def plugin_call_def or_default_def tryM_def rpc_call_def retM_def)
  have 4: "\<exists>d hs. map_of ex_listed i = Some d \<and> dp_hostnames d = Some hs"
    if "(i, ''Unknown'') \<in> set [(''li1'', ''Unknown''), (''li2'', ''ACTIVE'')]" for i
    using that by (simp add: ex_listed_def)
  have p: "prefix_of (su_driver ex_system) = ''Project_''"
    by (simp add: prefix_of_def ex_system_def ex_env_def ex_dnet_def ex_adapter_def new_adapter_def ex_conf_def)
  from orphaned_listeners_removed [OF 1 2 3 4] obtain a' where
    a': "purge_orphaned_listeners (system ex_system) ex_listed ex_orphans = (Inr (), a')"
      "list_all2 (gone ?view (unknown_keys ''Project_'' ex_listed [(''li1'', ''Unknown''), (''li2'', ''ACTIVE'')]))
        (get_all_bigips (dv_hosts (ag_driver ex_orphans))) (get_all_bigips (dv_hosts (ag_driver a')))"
    by (auto simp: p)
  have k: "unknown_keys ''Project_'' ex_listed [(''li1'', ''Unknown''), (''li2'', ''ACTIVE'')]
      = {(''bigip1'', ''Project_li1'', ''Project_t1'')}"
    by (simp add: unknown_keys_def ex_listed_def hosts_in_def plain_entry_def)
  have "get_all_bigips (dv_hosts (ag_driver ex_orphans)) = [new_bigip (Some ''bigip1'') \<lparr>xu_folders = [], xu_vas = [],
      xu_virtuals = map (\<lambda>n. ((n, ''Project_t1''), ex_virtual\<lparr>bn_name := n\<rparr>)) [''Project_li1'', ''Project_li2'']\<rparr>]"
    by (simp add: ex_orphans_def get_all_bigips_def List.map_filter_simps connected_host_def)
  with a' k show ?thesis
    by (auto simp: list_all2_Cons1 gone_def new_bigip_def)
qed

section \<open>The capacity score\<close>

text \<open>What a metric reads on a device, and its ratio.\<close>

lemma metric_value_run:
  assumes "\<And>b. b \<in> set bs \<Longrightarrow> get_global_statistics Y (b_dev b) = (Inr (g b), b_dev b) \<and> f (g b) (b_dev b) = (Inr (x b), b_dev b)"
  shows "metric_value Y f bs = (Inr (Max (set (0 # map x bs))), bs)"
proof -
  have "for_bigips (\<lambda>v. on_dev (bindM (get_global_statistics Y) (\<lambda>g. bindM (f g) (\<lambda>x. retM (max v x))))) v bs
      = (Inr (fold max (map x bs) v), bs)" for v
    using assms
  proof (induction bs arbitrary: v)
    case (Cons b bs)
    then show ?case by (simp add: on_dev_def bindM_def retM_def max.commute)
  qed simp
  from this [of 0] show ?thesis unfolding metric_value_def by (simp only: Max.set_eq_fold)
qed

definition ratios :: "(string \<Rightarrow> 'd bigip \<Rightarrow> int) \<Rightarrow> (string \<Rightarrow> int) \<Rightarrow> (string \<times> string) list \<Rightarrow> 'd bigip list \<Rightarrow> rat list" where
  "ratios x limit policy bs =
     concat (map (\<lambda>(m, bound). map (\<lambda>b. of_int (x m b) / of_int (limit bound)) bs) policy)"

lemma Max_ratio:
  assumes "0 < l"
  shows "of_int (Max (set (0 # xs))) / of_int l = Max (set (0 # map (\<lambda>x. of_int x / of_int l :: rat) xs))"
proof -
  have "mono (\<lambda>v. of_int v / of_int l :: rat)" using assms by (simp add: mono_def divide_right_mono)
  from mono_Max_commute [OF this, of "set (0 # xs)"] show ?thesis by (simp add: image_image)
qed

lemma highest_metric_run:
  assumes "\<And>m bound. (m, bound) \<in> set policy \<Longrightarrow> \<exists>f. metric_func D m = Some f \<and> py_int bound = Inr (limit bound) \<and>
      0 < limit bound \<and> (\<forall>b \<in> set bs. get_global_statistics (dr_sys D) (b_dev b) = (Inr (g b), b_dev b) \<and>
        f (g b) (b_dev b) = (Inr (x m b), b_dev b))"
    and "0 \<le> high"
  shows "highest_metric D policy high bs = (Inr (Max (set (high # ratios x limit policy bs))), bs)"
  using assms
proof (induction policy arbitrary: high)
  case (Cons q policy)
  obtain m bound where q: "q = (m, bound)" by (rule prod.exhaust)
  with Cons.prems(1) [of m bound] obtain f where f: "metric_func D m = Some f" "py_int bound = Inr (limit bound)"
    "0 < limit bound" "\<And>b. b \<in> set bs \<Longrightarrow> get_global_statistics (dr_sys D) (b_dev b) = (Inr (g b), b_dev b) \<and>
      f (g b) (b_dev b) = (Inr (x m b), b_dev b)" by auto
  let ?r = "map (\<lambda>b. of_int (x m b) / of_int (limit bound) :: rat) bs"
  have c: "metric_capacity D m bound bs = (Inr (Some (Max (set (0 # ?r)))), bs)"
    using f metric_value_run [OF f(4)] Max_ratio [OF f(3), of "map (x m) bs"]
    by (simp add: metric_capacity_def bindM_def liftM_def retM_def comp_def)
  have "max high (Max (set (0 # ?r))) = Max (set (high # ?r))"
    using Cons.prems(2) by (cases "bs = []") (auto simp: max.left_commute max_absorb1 max_absorb2)
  moreover have "highest_metric D policy (Max (set (high # ?r))) bs
      = (Inr (Max (set (Max (set (high # ?r)) # ratios x limit policy bs))), bs)"
    by (rule Cons.IH) (use Cons.prems in \<open>auto simp: Max_ge_iff\<close>)
  moreover have "Max (set (Max (set (high # ?r)) # ratios x limit policy bs)) = Max (set (high # ?r @ ratios x limit policy bs))"
    by (simp only: Max.set_eq_fold fold_append comp_apply)
  ultimately show ?case using q c by (simp add: bindM_def ratios_def)
qed (simp add: ratios_def retM_def)

text \<open>C12
  When the bounds of the policy are positive numbers and the metrics can be read on every active device, the
  capacity score is the largest ratio of a metric on a device to its bound, and 0 if there is none.
\<close>

theorem capacity_score_highest:
  assumes "\<And>m bound. (m, bound) \<in> set policy \<Longrightarrow> \<exists>f. metric_func D m = Some f \<and> py_int bound = Inr (limit bound) \<and>
      0 < limit bound \<and> (\<forall>b \<in> set (get_all_bigips (dv_hosts s)).
        get_global_statistics (dr_sys D) (b_dev b) = (Inr (g b), b_dev b) \<and> f (g b) (b_dev b) = (Inr (x m b), b_dev b))"
  shows "generate_capacity_score D policy s =
    (Inr (Max (set (0 # ratios x limit policy (get_all_bigips (dv_hosts s))))), s)"
  using highest_metric_run [where high = 0, OF assms]
  by (simp add: generate_capacity_score_def on_active_def put_active_same retM_def ratios_def)

lemma capacity_score_highest_witness:
  "generate_capacity_score ex_drv_env [(''tenant_count'', ''4''), (''tenant_count'', ''8'')] ex_has = (Inr (1 / 4), ex_has)"
proof -
  let ?policy = "[(''tenant_count'', ''4''), (''tenant_count'', ''8'')]"
  let ?limit = "\<lambda>bound. if bound = ''4'' then 4 else 8 :: int"
  let ?d = "\<lparr>xu_folders = [((''Project_t1'', ''''), get_folder ex_adapter ex_lb)],
         xu_vas = [((''Project_lb1'', ''Project_t1''), va_init ex_adapter ex_lb)],
         xu_virtuals = [((''Project_li1'', ''Project_t1''), ex_virtual\<lparr>bn_name := ''Project_li1''\<rparr>)]\<rparr>"
  have b: "get_all_bigips (dv_hosts ex_has) = [new_bigip (Some ''bigip1'') ?d]"
    by (simp add: ex_has_def get_all_bigips_def List.map_filter_simps connected_host_def)
  have f: "fo_name (get_folder ex_adapter ex_lb) = ''Project_t1''" by code_simp
  have l: "py_int ''4'' = Inr 4" "py_int ''8'' = Inr 8" by code_simp+
  have 1: "\<exists>f. metric_func ex_drv_env m = Some f \<and> py_int bound = Inr (?limit bound) \<and> 0 < ?limit bound \<and>
      (\<forall>b \<in> set (get_all_bigips (dv_hosts ex_has)). get_global_statistics (dr_sys ex_drv_env) (b_dev b) = (Inr None, b_dev b) \<and>
        f None (b_dev b) = (Inr 1, b_dev b))" if "(m, bound) \<in> set ?policy" for m bound
    using that f l by (auto simp: b metric_func_def metrics_def Let_def new_bigip_def get_global_statistics_def
        get_tenant_folder_count_def get_folders_def ex_drv_env_def ex_env_def ex_sys_def lift_endpoint_def
        table_endpoint_def py_simps)
  show ?thesis
    using capacity_score_highest [where policy = ?policy and g = "\<lambda>_. None" and x = "\<lambda>_ _. 1" and limit = ?limit, OF 1]
    by (simp add: b ratios_def)
qed

section \<open>Global routed mode\<close>

text \<open>The network side of a driver: the network objects of the devices, the address library, the port calls.\<close>

definition with_network_side ::
  "'d net_sdk \<Rightarrow> ('ip, 'net) netlib \<Rightarrow> 'w rpc \<Rightarrow> ('ip, 'net, 'd, 'w) drv_env \<Rightarrow> ('ip, 'net, 'd, 'w) drv_env" where
  "with_network_side N L R D = D\<lparr>dr_net := (dr_net D)\<lparr>ne_net := N, ne_lib := L, ne_rpc := R\<rparr>\<rparr>"

lemma with_network_side_fields [simp]:
  "ne_conf (dr_net (with_network_side N L R D)) = ne_conf (dr_net D)"
  "dr_builder (with_network_side N L R D) = dr_builder D" "dr_md5 (with_network_side N L R D) = dr_md5 D"
  "dr_sys (with_network_side N L R D) = dr_sys D" "ne_adapter (dr_net (with_network_side N L R D)) = ne_adapter (dr_net D)"
  by (simp_all add: with_network_side_def)




end
