(* ===== verification/Isolation.thy ===== *)
theory Isolation
  imports BuilderFrame Frames Translation_Properties
begin

text \<open>
  What a service cannot touch. \<open>view\<close> reads something off a device; \<open>quiet view m\<close> says that \<open>m\<close> leaves it as
  it is, whether or not it raises. \<open>Q\<close> tells for each kind of object the partitions \<open>view\<close> looks at. The SDK
  is \<open>confined\<close>: a call that reads, or that names a kind and a partition \<open>view\<close> does not look at, is quiet.
  The rules follow the combinators and the operations of the builder, up to its phases.
\<close>

section \<open>Quiet operations\<close>

definition quiet :: "('d \<Rightarrow> 'v) \<Rightarrow> ('d \<Rightarrow> 'r \<times> 'd) \<Rightarrow> bool" where
  "quiet view m \<longleftrightarrow> (\<forall>d. view (snd (m d)) = view d)"

named_theorems quiet_rules \<open>operations that leave a partition alone\<close>

lemma quietI: "(\<And>d r d'. m d = (r, d') \<Longrightarrow> view d' = view d) \<Longrightarrow> quiet view m"
  unfolding quiet_def by (metis prod.collapse)

lemma quietD: "quiet view m \<Longrightarrow> m d = (r, d') \<Longrightarrow> view d' = view d"
  unfolding quiet_def by (metis snd_conv)

lemma quiet_ret [quiet_rules]: "quiet view (retM x)"
  by (simp add: quiet_def retM_def)

lemma quiet_raise [quiet_rules]: "quiet view (raiseM e)"
  by (simp add: quiet_def raiseM_def)

lemma quiet_lift [quiet_rules]: "quiet view (liftM r)"
  by (simp add: quiet_def liftM_def)

lemma quiet_gets [quiet_rules]: "quiet view (getsM f)"
  by (simp add: quiet_def getsM_def)

lemma quiet_bind [quiet_rules]:
  assumes "quiet view m" and "\<And>x. quiet view (f x)"
  shows "quiet view (bindM m f)"
  by (rule quietI) (auto simp: bindM_def split: prod.splits sum.splits dest: quietD [OF assms(1)],
    metis quietD [OF assms(1)] quietD [OF assms(2)])

lemma quiet_try [quiet_rules]:
  assumes "quiet view m" and "\<And>e. quiet view (h e)"
  shows "quiet view (tryM m h)"
  by (rule quietI) (auto simp: tryM_def split: prod.splits sum.splits dest: quietD [OF assms(1)],
    metis quietD [OF assms(1)] quietD [OF assms(2)])

lemma quiet_if [quiet_rules]: "(b \<Longrightarrow> quiet view m) \<Longrightarrow> (\<not> b \<Longrightarrow> quiet view n) \<Longrightarrow> quiet view (if b then m else n)"
  by simp

lemma quiet_option [quiet_rules]:
  "(v = None \<Longrightarrow> quiet view m) \<Longrightarrow> (\<And>x. v = Some x \<Longrightarrow> quiet view (f x)) \<Longrightarrow>
    quiet view (case v of None \<Rightarrow> m | Some x \<Rightarrow> f x)"
  by (cases v) simp_all

lemma quiet_for [quiet_rules]: "(\<And>x. x \<in> set xs \<Longrightarrow> quiet view (body x)) \<Longrightarrow> quiet view (forM xs body)"
  by (induction xs) (auto intro!: quiet_bind quiet_ret)

text \<open>The loop over the devices, with a fact about the accumulator.\<close>

lemma for_bigips_quiet_acc:
  assumes "\<And>acc d r d'. Q acc \<Longrightarrow> body acc d = (r, d') \<Longrightarrow> view d' = view d \<and> (\<forall>acc'. r = Inr acc' \<longrightarrow> Q acc')"
    and "Q acc" and "for_bigips body acc ds = (r, ds')"
  shows "map view ds' = map view ds"
  using assms(2,3)
proof (induction ds arbitrary: acc r ds')
  case (Cons d ds)
  obtain r1 d1 where b: "body acc d = (r1, d1)" by (cases "body acc d")
  note h = assms(1) [OF Cons.prems(1) b]
  from Cons.prems(2) b h Cons.IH show ?case by (auto split: sum.splits prod.splits)
qed simp

lemma quiet_for_bigips:
  assumes "\<And>acc. quiet view (body acc)"
  shows "quiet (map view) (for_bigips body acc)"
proof (rule quietI)
  fix ds r ds'
  assume run: "for_bigips body acc ds = (r, ds')"
  show "map view ds' = map view ds"
    by (rule for_bigips_quiet_acc [OF _ _ run, where Q = "\<lambda>_. True"]) (auto dest: quietD [OF assms])
qed

section \<open>The SDK\<close>

definition ep_confined :: "('d, 'm) endpoint \<Rightarrow> ('m \<Rightarrow> string \<times> string) \<Rightarrow> string set \<Rightarrow> ('d \<Rightarrow> 'v) \<Rightarrow> bool" where
  "ep_confined ep key P view \<longleftrightarrow>
     (\<forall>m. snd (key m) \<notin> P \<longrightarrow> quiet view (ep_create ep m)) \<and>
     (\<forall>n p. quiet view (ep_exists ep n p)) \<and> (\<forall>n p. quiet view (ep_load ep n p)) \<and>
     (\<forall>n p m. p \<notin> P \<longrightarrow> quiet view (ep_modify ep n p m)) \<and>
     (\<forall>n p. p \<notin> P \<longrightarrow> quiet view (ep_delete ep n p)) \<and> (\<forall>c. quiet view (ep_collection ep c))"

datatype kind = KPool | KNode | KMonitor | KVirtual | KVa | KPolicy | KRule | KUniversal | KSsl

text \<open>Certificates and keys are uploaded and installed in \<open>Common\<close>, like the profiles that use them.\<close>

definition confined :: "'d sdk \<Rightarrow> (kind \<Rightarrow> string set) \<Rightarrow> ('d \<Rightarrow> 'v) \<Rightarrow> bool" where
  "confined S Q view \<longleftrightarrow>
     ep_confined (sdk_pool S) bkey (Q KPool) view \<and> ep_confined (sdk_node S) bkey (Q KNode) view \<and>
     (\<forall>t. ep_confined (sdk_monitor S t) bkey (Q KMonitor) view) \<and>
     ep_confined (sdk_virtual S) bkey (Q KVirtual) view \<and> ep_confined (sdk_va S) bkey (Q KVa) view \<and>
     ep_confined (sdk_l7policy S) fp_key (Q KPolicy) view \<and> ep_confined (sdk_rule S) bkey (Q KRule) view \<and>
     ep_confined (sdk_universal S) bkey (Q KUniversal) view \<and> ep_confined (sdk_client_ssl S) bkey (Q KSsl) view \<and>
     (''Common'' \<notin> Q KSsl \<longrightarrow> (\<forall>c f. quiet view (sdk_upload S c f) \<and> quiet view (sdk_install_cert S c f) \<and>
        quiet view (sdk_install_key S c f))) \<and>
     (\<forall>p n r. quiet view (sdk_member_exists S p n r))"

lemma confinedD:
  assumes "confined S Q view"
  shows "ep_confined (sdk_pool S) bkey (Q KPool) view" "ep_confined (sdk_node S) bkey (Q KNode) view"
    "ep_confined (sdk_monitor S t) bkey (Q KMonitor) view" "ep_confined (sdk_virtual S) bkey (Q KVirtual) view"
    "ep_confined (sdk_va S) bkey (Q KVa) view" "ep_confined (sdk_l7policy S) fp_key (Q KPolicy) view"
    "ep_confined (sdk_rule S) bkey (Q KRule) view" "ep_confined (sdk_universal S) bkey (Q KUniversal) view"
    "ep_confined (sdk_client_ssl S) bkey (Q KSsl) view"
    "quiet view (sdk_member_exists S p n r)"
  using assms by (simp_all add: confined_def)

lemma ep_reads:
  "ep_confined ep key P view \<Longrightarrow> quiet view (ep_exists ep n p)"
  "ep_confined ep key P view \<Longrightarrow> quiet view (ep_load ep n p)"
  "ep_confined ep key P view \<Longrightarrow> quiet view (ep_collection ep c)"
  by (simp_all add: ep_confined_def)

lemma ep_writes:
  "ep_confined ep key P view \<Longrightarrow> snd (key m) \<notin> P \<Longrightarrow> quiet view (ep_create ep m)"
  "ep_confined ep key P view \<Longrightarrow> p \<notin> P \<Longrightarrow> quiet view (ep_modify ep n p m')"
  "ep_confined ep key P view \<Longrightarrow> p \<notin> P \<Longrightarrow> quiet view (ep_delete ep n p)"
  by (simp_all add: ep_confined_def)

lemma rh_quiet:
  assumes "ep_confined ep key P view"
  shows "quiet view (rh_exists ep n p)" "quiet view (rh_load ep n p)"
    "snd (key m) \<notin> P \<Longrightarrow> quiet view (rh_create ep m)"
    "snd (key m) \<notin> P \<Longrightarrow> quiet view (rh_update ep key m)"
    "p \<notin> P \<Longrightarrow> quiet view (rh_delete ep n p)"
  unfolding rh_exists_def rh_load_def rh_create_def rh_update_def rh_delete_def Let_def
  by (auto intro!: quiet_rules ep_reads [OF assms] ep_writes [OF assms])

lemma create_attempt_quiet:
  assumes "ep_confined ep key P view" and "snd (key m) \<notin> P"
  shows "quiet view (create_attempt ep key ce ue m)"
  by (rule quietI) (auto simp: create_attempt_def split: prod.splits sum.splits if_splits
      dest: quietD [OF rh_quiet(3) [OF assms]],
    metis quietD [OF rh_quiet(3) [OF assms]] quietD [OF rh_quiet(4) [OF assms]],
    metis quietD [OF rh_quiet(3) [OF assms]] quietD [OF rh_quiet(4) [OF assms]])

lemma update_attempt_quiet:
  assumes "ep_confined ep key P view" and "snd (key m) \<notin> P"
  shows "quiet view (update_attempt ep key ue m)"
  by (rule quietI) (auto simp: update_attempt_def split: prod.splits sum.splits
      dest: quietD [OF rh_quiet(4) [OF assms]])

lemma delete_attempt_quiet:
  assumes "ep_confined ep key P view" and "p \<notin> P"
  shows "quiet view (delete_attempt ep de n p)"
  by (rule quietI) (auto simp: delete_attempt_def split: prod.splits sum.splits if_splits
      dest: quietD [OF rh_quiet(5) [OF assms]])

lemma keep_error_quiet: "quiet view attempt \<Longrightarrow> quiet view (keep_error attempt error)"
  by (rule quietI) (auto simp: keep_error_def split: prod.splits option.splits dest: quietD)

lemma run_attempts_quiet:
  assumes "quiet view attempt"
  shows "quiet (map view) (run_attempts attempt)"
proof (rule quietI)
  fix ds r ds'
  assume "run_attempts attempt ds = (r, ds')"
  then have "ds' = snd (for_bigips (keep_error attempt) None ds)"
    by (auto simp: run_attempts_def split: prod.splits sum.splits)
  with quiet_for_bigips [of view "keep_error attempt" None, OF keep_error_quiet [OF assms]]
  show "map view ds' = map view ds" unfolding quiet_def by simp
qed

lemma bkey_partition [simp]: "snd (bkey m) = bn_partition m" "snd (fp_key p) = fp_partition p"
  by (simp_all add: bkey_def fp_key_def)

section \<open>Pools and monitors\<close>

lemma create_pool_quiet:
  assumes "confined S Q view" and "get_folder_name A (lb_tenant_id lb) \<notin> Q KPool"
    and "create_pool A S lb p ms hms ds = (r, p', ds')"
  shows "map view ds' = map view ds"
proof (cases "fst (get_pool A lb p ms hms)")
  case (Inr bp)
  then obtain p1 where g: "get_pool A lb p ms hms = (Inr bp, p1)" by (metis prod.collapse)
  with get_pool_names [OF g] assms(2) have "snd (bkey bp) \<notin> Q KPool" by simp
  with assms(1) have "quiet (map view) (run_attempts (create_attempt (sdk_pool S) bkey PoolCreationException PoolUpdateException bp))"
    by (intro run_attempts_quiet create_attempt_quiet) (auto simp: confined_def)
  from quietD [OF this] assms(3) g show ?thesis by (auto simp: create_pool_def split: prod.splits)
qed (use assms(3) in \<open>auto simp: create_pool_def split: prod.splits sum.splits\<close>)

lemma delete_member_node_quiet:
  assumes "confined S Q view" and "get_folder_name A (lb_tenant_id lb) \<notin> Q KNode"
  shows "quiet view (delete_member_node A S lb m)"
proof -
  have "bn_partition (map_node A lb m) \<notin> Q KNode" using assms(2) by (simp add: map_node_def)
  from rh_quiet(5) [OF _ this, of "sdk_node S" bkey view] assms(1)
  have "quiet view (rh_delete (sdk_node S) n (bn_partition (map_node A lb m)))" for n by (simp add: confined_def)
  from quietD [OF this] show ?thesis
    by (intro quietI) (auto simp: delete_member_node_def split: prod.splits sum.splits option.splits if_splits)
qed

lemma delete_pool_quiet:
  assumes "confined S Q view" and "get_folder_name A (lb_tenant_id lb) \<notin> Q KPool" and "get_folder_name A (lb_tenant_id lb) \<notin> Q KNode"
    and "delete_pool A S lb p ms ds = (r, p', ds')"
  shows "map view ds' = map view ds"
proof (cases "fst (get_pool A lb p ms [])")
  case (Inr bp)
  then obtain p1 where g: "get_pool A lb p ms [] = (Inr bp, p1)" by (metis prod.collapse)
  with get_pool_names [OF g] assms(2) have "bn_partition bp \<notin> Q KPool" by simp
  then have "quiet view (delete_pool_on A S lb bp ms error)" for error
    unfolding delete_pool_on_def
    by (intro quiet_rules keep_error_quiet delete_attempt_quiet [OF confinedD(1) [OF assms(1)]]
        delete_member_node_quiet [OF assms(1,3)])
  from quietD [OF quiet_for_bigips [of view, OF this]] assms(4) g show ?thesis
    by (auto simp: delete_pool_def split: prod.splits)
qed (use assms(4) in \<open>auto simp: delete_pool_def split: prod.splits sum.splits\<close>)

lemma map_healthmonitor_partition:
  "map_healthmonitor A lb hm = Inr bm \<Longrightarrow> bn_partition bm = get_folder_name A (lb_tenant_id lb)"
  by (auto simp: map_healthmonitor_def Let_def bindE_eq_Inr init_monitor_name_def)

lemma healthmonitor_quiet:
  assumes "confined S Q view" and "get_folder_name A (lb_tenant_id lb) \<notin> Q KMonitor"
  shows "quiet (map view) (create_healthmonitor A S lb hm)" "quiet (map view) (delete_healthmonitor A S lb hm)"
proof -
  have "quiet (map view) (create_healthmonitor A S lb hm) \<and> quiet (map view) (delete_healthmonitor A S lb hm)"
  proof (cases "map_healthmonitor A lb hm")
    case (Inr bm)
    with map_healthmonitor_partition [OF this] assms(2) have bm: "bn_partition bm \<notin> Q KMonitor" by simp
    note m = confinedD(3) [OF assms(1)]
    have
      "quiet (map view) (run_attempts (create_attempt (sdk_monitor S (get_monitor_helper hm)) bkey
         MonitorCreationException MonitorUpdateException bm))"
      "quiet (map view) (run_attempts (delete_attempt (sdk_monitor S (get_monitor_helper hm))
         MonitorDeleteException (bn_name bm) (bn_partition bm)))"
      by (rule run_attempts_quiet, rule create_attempt_quiet [OF m], simp add: bm)
        (rule run_attempts_quiet, rule delete_attempt_quiet [OF m bm])
    from quietD [OF this(1)] quietD [OF this(2)] Inr show ?thesis
      by (auto intro!: quietI simp: create_healthmonitor_def delete_healthmonitor_def split: prod.splits)
  qed (auto intro!: quietI simp: create_healthmonitor_def delete_healthmonitor_def)
  then show "quiet (map view) (create_healthmonitor A S lb hm)" "quiet (map view) (delete_healthmonitor A S lb hm)"
    by simp_all
qed

section \<open>Members\<close>

lemma assure_member_quiet:
  assumes "confined S Q view" and "get_folder_name A (lb_tenant_id lb) \<notin> Q KNode"
    and "assure_member A S lb part p m d = (r, m', d')"
  shows "view d' = view d"
proof -
  have "quiet view (sdk_member_exists S bp n t)" for bp n t using assms(1) by (simp add: confined_def)
  from quietD [OF this] quietD [OF delete_member_node_quiet [OF assms(1,2)]] assms(3) show ?thesis
    by (auto simp: assure_member_def split: if_splits prod.splits sum.splits option.splits)
qed

lemma inplace_members_quiet:
  assumes "confined S Q view" and "get_folder_name A (lb_tenant_id lb) \<notin> Q KNode"
    and "inplace (assure_member A S lb part p) ms d = (r, ms', d')"
  shows "view d' = view d"
  using inplace_rel [OF assms(3), where R = "\<lambda>_ _. True" and Q = "\<lambda>d d'. view d' = view d"]
    assure_member_quiet [OF assms(1,2)] by metis

lemma assure_on_quiet:
  assumes "confined S Q view" and "get_folder_name A (lb_tenant_id lb) \<notin> Q KNode"
    and "assure_pool_members_on A S lb bp d ms = (r, d', ms')"
  shows "view d' = view d"
proof -
  obtain r1 d1 where l: "rh_load (sdk_pool S) (bn_name bp) (bn_partition bp) d = (r1, d1)"
    by (cases "rh_load (sdk_pool S) (bn_name bp) (bn_partition bp) d")
  have "quiet view (rh_load (sdk_pool S) (bn_name bp) (bn_partition bp))"
    using assms(1) by (intro rh_quiet(2) [of _ bkey "Q KPool"]) (simp add: confined_def)
  from quietD [OF this l] have 1: "view d1 = view d" .
  show ?thesis
  proof (cases "\<exists>p. inplace (assure_member A S lb (bn_partition bp) p) ms d1 = (r, ms', d')")
    case True
    with inplace_members_quiet [OF assms(1,2)] 1 show ?thesis by metis
  next
    case False
    with assms(3) l 1 show ?thesis
      by (auto simp: assure_pool_members_on_def split: sum.splits prod.splits if_splits)
  qed
qed

lemma assure_pool_members_quiet:
  assumes "confined S Q view" and "get_folder_name A (lb_tenant_id lb) \<notin> Q KNode"
    and "assure_pool_members A S lb p ms ds = (r, p', ms', ds')"
  shows "map view ds' = map view ds"
proof (cases "fst (get_pool A lb p ms [])")
  case (Inr bp)
  then obtain p1 where "get_pool A lb p ms [] = (Inr bp, p1)" by (metis prod.collapse)
  with assms(3) obtain ms1 where run: "inplace (assure_pool_members_on A S lb bp) ds ms = (r, ds', ms1)"
    by (auto simp: assure_pool_members_def split: prod.splits)
  have "list_all2 (\<lambda>d d'. view d' = view d) ds ds' \<and> True"
    by (rule inplace_rel [OF run, where Q = "\<lambda>_ _. True"]) (auto dest: assure_on_quiet [OF assms(1,2)])
  then show ?thesis by (simp add: list_all2_conv_all_nth list_eq_iff_nth_eq)
qed (use assms(3) in \<open>auto simp: assure_pool_members_def split: prod.splits sum.splits\<close>)

section \<open>Listeners\<close>

text \<open>Quiet, with a fact about the result.\<close>

definition gives :: "('d \<Rightarrow> 'v) \<Rightarrow> ('a \<Rightarrow> bool) \<Rightarrow> ('d, 'a) py \<Rightarrow> bool" where
  "gives view R m \<longleftrightarrow> quiet view m \<and> (\<forall>d x d'. m d = (Inr x, d') \<longrightarrow> R x)"

lemma gives_ret: "R x \<Longrightarrow> gives view R (retM x)"
  by (simp add: gives_def quiet_ret retM_def)

lemma gives_gets: "(\<And>d. R (f d)) \<Longrightarrow> gives view R (getsM f)"
  by (auto simp: gives_def quiet_gets getsM_def)

lemma gives_bind:
  assumes "gives view Q m" and "\<And>x. Q x \<Longrightarrow> gives view R (f x)"
  shows "gives view R (bindM m f)"
proof -
  have "view d' = view d \<and> (\<forall>x. r = Inr x \<longrightarrow> R x)" if run: "bindM m f d = (r, d')" for d r d'
  proof -
    obtain r1 d1 where m: "m d = (r1, d1)" by (cases "m d")
    have d1: "view d1 = view d" using assms(1) m by (auto simp: gives_def dest: quietD)
    show ?thesis
    proof (cases r1)
      case (Inr x)
      with assms(1) m have "Q x" by (auto simp: gives_def)
      moreover from run m Inr have "f x d1 = (r, d')" by (simp add: bindM_def)
      ultimately show ?thesis using assms(2) [of x] d1 by (auto simp: gives_def dest: quietD)
    qed (use run m d1 in \<open>auto simp: bindM_def\<close>)
  qed
  then show ?thesis unfolding gives_def by (blast intro: quietI)
qed

lemma gives_quiet: "quiet view m \<Longrightarrow> gives view (\<lambda>_. True) m"
  by (simp add: gives_def)

lemma client_ssl_quiet:
  assumes "confined S Q view" and "''Common'' \<notin> Q KSsl"
  shows "quiet view (create_client_ssl_profile S name cert key pp sni chain parent)"
proof -
  have u: "quiet view (sdk_upload S c f)" "quiet view (sdk_install_cert S c f)" "quiet view (sdk_install_key S c f)" for c f
    using assms by (simp_all add: confined_def)
  note ep = confinedD(9) [OF assms(1)]
  have c: "quiet view (ep_create (sdk_client_ssl S) m)" if "bn_partition m = ''Common''" for m
    by (rule ep_writes(1) [OF ep]) (use that assms(2) in simp)
  show ?thesis
    unfolding create_client_ssl_profile_def Let_def
    by (intro quiet_rules u c ep_reads(1) [OF ep]) simp_all
qed

text \<open>The virtual server with other profiles.\<close>

definition but_profiles :: "virtual \<Rightarrow> virtual \<Rightarrow> bool" where
  "but_profiles v w \<longleftrightarrow> (\<exists>ps. w = v\<lparr>vs_profiles := ps\<rparr>)"

lemma but_profiles_refl [simp]: "but_profiles v v"
  unfolding but_profiles_def by (rule exI [of _ "vs_profiles v"]) simp

lemma but_profiles_set [simp]: "but_profiles v (v\<lparr>vs_profiles := ps\<rparr>)"
  by (auto simp: but_profiles_def)

lemma but_profiles_trans: "but_profiles u v \<Longrightarrow> but_profiles v w \<Longrightarrow> but_profiles u w"
  by (auto simp: but_profiles_def)

lemma but_profiles_partition: "but_profiles v w \<Longrightarrow> bn_partition w = bn_partition v"
  by (auto simp: but_profiles_def)

lemma gives_weaken: "gives view R m \<Longrightarrow> (\<And>x. R x \<Longrightarrow> R' x) \<Longrightarrow> gives view R' m"
  unfolding gives_def by blast

lemma create_ssl_profile_gives:
  assumes "confined S Q view" and "''Common'' \<notin> Q KSsl"
  shows "gives view (but_profiles vip) (create_ssl_profile A S E ref sni vip)"
  unfolding create_ssl_profile_def Let_def
  by (intro gives_bind [where Q = "\<lambda>_. True"] gives_quiet quiet_lift quiet_try quiet_if quiet_raise quiet_ret
      client_ssl_quiet [OF assms] gives_ret) simp

lemma add_sni_gives:
  assumes "confined S Q view" and "''Common'' \<notin> Q KSsl"
  shows "gives view (but_profiles vip) (add_sni_profiles A S E refs vip)"
proof (induction refs arbitrary: vip)
  case (Cons ref refs)
  have "gives view (but_profiles vip) (add_sni_profiles A S E refs v)" if "but_profiles vip v" for v
    by (rule gives_weaken [OF Cons.IH]) (rule but_profiles_trans [OF that])
  then show ?case unfolding add_sni_profiles.simps
    by (rule gives_bind [OF create_ssl_profile_gives [OF assms]])
qed (simp add: gives_ret)

lemma add_ssl_profile_gives:
  assumes "confined S Q view" and "''Common'' \<notin> Q KSsl"
  shows "gives view (but_profiles vip) (add_ssl_profile A S E t vip)"
  unfolding add_ssl_profile_def
proof (rule gives_bind [where Q = "but_profiles vip"])
  show "gives view (but_profiles vip)
      (case tls_default t of None \<Rightarrow> retM vip | Some ref \<Rightarrow> create_ssl_profile A S E ref True vip)"
    by (cases "tls_default t") (simp_all add: gives_ret create_ssl_profile_gives [OF assms])
  show "gives view (but_profiles vip) (add_sni_profiles A S E (tls_sni t) v)" if "but_profiles vip v" for v
    by (rule gives_weaken [OF add_sni_gives [OF assms]]) (rule but_profiles_trans [OF that])
qed

lemma ensure_text_quiet:
  assumes "ep_confined ep bkey P view" and "bn_partition nt \<notin> P"
  shows "quiet view (ensure_text ep nt)"
  unfolding ensure_text_def
  by (intro quiet_rules ep_reads(1) [OF assms(1)] ep_writes(1) [OF assms(1)]) (use assms(2) in simp)

text \<open>The folder of a virtual server is also that of its rules.\<close>

definition rules_away :: "(kind \<Rightarrow> string set) \<Rightarrow> string \<Rightarrow> bool" where
  "rules_away Q part \<longleftrightarrow> part \<notin> Q KRule \<and> part \<notin> Q KUniversal"

lemma cookie_rule_quiet:
  assumes "confined S Q view" and "rules_away Q (bn_partition vip)"
  shows "quiet view (add_cookie_persist_rule S vip sp)"
proof -
  have "quiet view (ensure_text (sdk_rule S) nt)" "quiet view (ensure_text (sdk_universal S) nt)"
    if "bn_partition nt = bn_partition vip" for nt
    using that assms(2) by (intro ensure_text_quiet [OF confinedD(7) [OF assms(1)]]
      ensure_text_quiet [OF confinedD(8) [OF assms(1)]]; simp add: rules_away_def)+
  then show ?thesis
    unfolding add_cookie_persist_rule_def Let_def by (intro quiet_rules) simp_all
qed

lemma remove_cookie_rule_quiet:
  assumes "confined S Q view" and "rules_away Q (bn_partition vip)"
  shows "quiet view (remove_cookie_persist_rule S vip)"
  unfolding remove_cookie_persist_rule_def
  by (intro quiet_rules rh_quiet(5) [OF confinedD(7) [OF assms(1)]] rh_quiet(5) [OF confinedD(8) [OF assms(1)]])
    (use assms(2) in \<open>simp_all add: rules_away_def\<close>)

lemma log_http_error_quiet: "quiet view m \<Longrightarrow> quiet view (log_http_error m)"
  unfolding log_http_error_def by (intro quiet_rules)

lemma vlan_partition [simp]: "bn_partition (get_vlan A nets n vip) = bn_partition vip"
  by (simp add: get_vlan_def split: option.split)

lemma create_listener_on_gives:
  assumes "confined S Q view" and "''Common'' \<notin> Q KSsl" and "part \<notin> Q KVirtual" and "rules_away Q part" and "bn_partition (snd acc) = part"
  shows "gives view (\<lambda>acc'. bn_partition (snd acc') = part) (create_listener_on A S E n t li acc)"
proof -
  have rest: "gives view (\<lambda>acc'. bn_partition (snd acc') = part)
      (bindM (case li_session_persistence li of
              Some sp \<Rightarrow> if sp_true sp \<and> sp_type sp = Some ''APP_COOKIE''
                         then add_cookie_persist_rule S vip sp else retM ()
            | None \<Rightarrow> retM ()) (\<lambda>_.
       bindM (keep_error (create_attempt (sdk_virtual S) bkey
                          VirtualServerCreationException VirtualServerUpdateException vip) (fst acc)) (\<lambda>error.
       bindM (if has_persist li then retM () else log_http_error (remove_cookie_persist_rule S vip)) (\<lambda>_.
       retM (error, vip)))))" if "bn_partition vip = part" for vip :: virtual
  proof -
    from that assms(4) have v: "rules_away Q (bn_partition vip)" by simp
    have c: "quiet view (create_attempt (sdk_virtual S) bkey VirtualServerCreationException VirtualServerUpdateException vip)"
      by (rule create_attempt_quiet [OF confinedD(4) [OF assms(1)]]) (simp add: that assms(3))
    show ?thesis
      by (intro gives_bind [where Q = "\<lambda>_. True"] gives_quiet quiet_rules cookie_rule_quiet [OF assms(1) v]
          keep_error_quiet c log_http_error_quiet remove_cookie_rule_quiet [OF assms(1) v])
        (simp add: gives_ret that)
  qed
  show ?thesis
    unfolding create_listener_on_def
  proof (rule gives_bind [where Q = "\<lambda>v. bn_partition v = part"])
    show "gives view (\<lambda>v. bn_partition v = part) (getsM (\<lambda>b. get_vlan A (b_assured_networks b) n (snd acc)))"
      by (rule gives_gets) (simp add: assms(5))
  next
    fix vip0 :: virtual assume v0: "bn_partition vip0 = part"
    have "gives view (\<lambda>v. bn_partition v = part) (if tls_true t then add_ssl_profile A S E t vip0 else retM vip0)"
      using gives_weaken [OF add_ssl_profile_gives [OF assms(1,2), of vip0 A E t], where R' = "\<lambda>v. bn_partition v = part"]
        but_profiles_partition v0 by (auto simp: gives_ret)
    from gives_bind [OF this rest]
    show "gives view (\<lambda>acc'. bn_partition (snd acc') = part)
      (bindM (if tls_true t then add_ssl_profile A S E t vip0 else retM vip0) (\<lambda>vip.
       bindM (case li_session_persistence li of
              Some sp \<Rightarrow> if sp_true sp \<and> sp_type sp = Some ''APP_COOKIE''
                         then add_cookie_persist_rule S vip sp else retM ()
            | None \<Rightarrow> retM ()) (\<lambda>_.
       bindM (keep_error (create_attempt (sdk_virtual S) bkey
                          VirtualServerCreationException VirtualServerUpdateException vip) (fst acc)) (\<lambda>error.
       bindM (if has_persist li then retM () else log_http_error (remove_cookie_persist_rule S vip)) (\<lambda>_.
       retM (error, vip))))))" by simp
  qed
qed

text \<open>The partition of a virtual server is the folder of the load balancer's tenant.\<close>

lemma virtual_partition:
  "get_virtual ip A svc lb li = Inr (vip, li') \<Longrightarrow> bn_partition vip = get_folder_name A (lb_tenant_id lb)"
  by (drule get_virtual_core) simp

lemma create_listener_quiet:
  assumes "confined S Q view" and "''Common'' \<notin> Q KSsl" and "get_folder_name A (lb_tenant_id lb) \<notin> Q KVirtual"
    and "rules_away Q (get_folder_name A (lb_tenant_id lb))"
    and "create_listener ip A S E svc lb li ds = (r, li', ds')"
  shows "map view ds' = map view ds"
proof -
  let ?n = "get_or '''' (lb_network_id lb)" and ?part = "get_folder_name A (lb_tenant_id lb)"
  consider "ds' = ds" | vip li1 t r1 where "get_virtual ip A svc lb li = Inr (vip, li1)"
    "for_bigips (create_listener_on A S E ?n t li1) (None, vip) ds = (r1, ds')"
    using assms(5) by (auto simp: create_listener_def Let_def split: sum.splits prod.splits)
  then show ?thesis
  proof cases
    case 2
    show ?thesis
    proof (rule for_bigips_quiet_acc [OF _ _ 2(2), where Q = "\<lambda>acc. bn_partition (snd acc) = ?part"])
      show "view d' = view d \<and> (\<forall>acc'. r = Inr acc' \<longrightarrow> bn_partition (snd acc') = ?part)"
        if "bn_partition (snd acc) = ?part" "create_listener_on A S E ?n t li1 acc d = (r, d')" for acc d r d'
      proof -
        note g = create_listener_on_gives [OF assms(1-4) that(1), of A E ?n t li1, unfolded gives_def]
        from g that(2) show ?thesis by (blast dest: quietD)
      qed
    qed (simp add: virtual_partition [OF 2(1)])
  qed simp
qed

lemma remove_ssl_quiet:
  assumes "confined S Q view" and "''Common'' \<notin> Q KSsl"
  shows "quiet view (remove_ssl_profiles A S t)"
  unfolding remove_ssl_profiles_def remove_ref_profile_def remove_ssl_profile_def
  by (intro quiet_rules rh_quiet(5) [OF confinedD(9) [OF assms(1)]]) (use assms(2) in auto)

lemma delete_listener_quiet:
  assumes "confined S Q view" and "''Common'' \<notin> Q KSsl" and "get_folder_name A (lb_tenant_id lb) \<notin> Q KVirtual"
    and "rules_away Q (get_folder_name A (lb_tenant_id lb))"
  shows "quiet (map view) (delete_listener A S lb li)"
proof (cases "get_tls li")
  case (Inr t)
  let ?nm = "init_virtual_name A lb li"
  have p: "bn_partition ?nm \<notin> Q KVirtual" "rules_away Q (bn_partition ?nm)"
    using assms(3,4) by (simp_all add: init_virtual_name_def)
  have "quiet view (delete_listener_on A S t ?nm error)" for error
    unfolding delete_listener_on_def
    by (intro quiet_rules keep_error_quiet delete_attempt_quiet [OF confinedD(4) [OF assms(1)] p(1)]
        remove_ssl_quiet [OF assms(1,2)] log_http_error_quiet remove_cookie_rule_quiet [OF assms(1) p(2)])
  from quietD [OF quiet_for_bigips [of view, OF this]] Inr show ?thesis
    by (auto intro!: quietI simp: delete_listener_def)
qed (auto intro!: quietI simp: delete_listener_def)

section \<open>Virtual addresses and L7 policies\<close>

lemma va_assure_quiet:
  assumes "confined S Q view" and "bn_partition va \<notin> Q KVa"
  shows "quiet view (va_assure S va del)"
proof -
  note ep = confinedD(5) [OF assms(1)]
  have w: "quiet view (rh_create (sdk_va S) va)" "quiet view (rh_update (sdk_va S) bkey va)"
    using rh_quiet(3,4) [OF ep, of va] assms(2) by simp_all
  show ?thesis
    unfolding va_assure_def va_update_def va_create_def va_load_def va_exists_def va_delete_def
    by (intro quiet_rules w rh_quiet(1) [OF ep] rh_quiet(2) [OF ep] rh_quiet(5) [OF ep] assms(2))
qed

lemma create_l7policy_quiet:
  assumes "confined S Q view" and "fp_partition fp \<notin> Q KPolicy"
  shows "quiet (map view) (create_l7policy S fp)"
proof -
  have w: "quiet view (rh_create (sdk_l7policy S) fp)" "quiet view (rh_update (sdk_l7policy S) fp_key fp)"
    using rh_quiet(3,4) [OF confinedD(6) [OF assms(1)], of fp] assms(2) by simp_all
  have "quiet view (create_l7policy_on S fp error)" for error
  proof (rule quietI)
    fix d r d'
    assume run: "create_l7policy_on S fp error d = (r, d')"
    obtain r1 d1 where c: "rh_create (sdk_l7policy S) fp d = (r1, d1)" by (cases "rh_create (sdk_l7policy S) fp d")
    from run c have "d' = d1 \<or> (\<exists>r2. rh_update (sdk_l7policy S) fp_key fp d1 = (r2, d'))"
      by (auto simp: create_l7policy_on_def split: prod.splits sum.splits if_splits)
    with quietD [OF w(1) c] quietD [OF w(2)] show "view d' = view d" by metis
  qed
  then show ?thesis unfolding create_l7policy_def by (rule quiet_for_bigips)
qed

lemma delete_l7policy_quiet:
  assumes "confined S Q view" and "part \<notin> Q KPolicy"
  shows "quiet (map view) (delete_l7policy S name part)"
  unfolding delete_l7policy_def by (rule run_attempts_quiet, rule delete_attempt_quiet [OF confinedD(6) [OF assms(1)] assms(2)])


section \<open>The phases\<close>

text \<open>The folders a service names: its load balancer's, and those of its L7 policies.\<close>

definition svc_folders :: "adapter \<Rightarrow> service \<Rightarrow> string list" where
  "svc_folders A svc =
     get_folder_name A (case sv_loadbalancer svc of None \<Rightarrow> Some '''' | Some lb \<Rightarrow> lb_tenant_id lb) #
     map (\<lambda>p. get_folder_name A (l7p_tenant_id p)) (get_all (sv_l7policies svc))"

text \<open>The kinds \<open>ks\<close> are the ones a phase writes.\<close>

definition foreign :: "adapter \<Rightarrow> (kind \<Rightarrow> string set) \<Rightarrow> kind set \<Rightarrow> service \<Rightarrow> bool" where
  "foreign A Q ks svc \<longleftrightarrow> (\<forall>k \<in> ks. \<forall>f \<in> set (''Common'' # svc_folders A svc). f \<notin> Q k)"

lemma svc_folders_same:
  "sv_loadbalancer svc' = sv_loadbalancer svc \<Longrightarrow> sv_l7policies svc' = sv_l7policies svc \<Longrightarrow>
    svc_folders A svc' = svc_folders A svc"
  by (simp add: svc_folders_def)

lemma svc_folders_keep [simp]:
  "svc_folders A (lb_error svc) = svc_folders A svc"
  "svc_folders A (svc\<lparr>sv_listeners := ls\<rparr>) = svc_folders A svc"
  "svc_folders A (svc\<lparr>sv_pools := ps\<rparr>) = svc_folders A svc"
  "svc_folders A (set_monitors hms svc) = svc_folders A svc"
  "svc_folders A (put_members E i ms svc) = svc_folders A svc"
  by (simp_all add: svc_folders_def lb_error_def set_monitors_def put_members_def set_lb_status_def
      split: option.split)

lemma svc_folders_l7 [simp]:
  assumes "\<And>p. l7p_tenant_id (f p) = l7p_tenant_id p"
  shows "svc_folders A (set_l7policies f svc) = svc_folders A svc"
  by (cases "sv_l7policies svc") (simp_all add: svc_folders_def set_l7policies_def assms)

lemma foreign_lb:
  "foreign A Q ks svc \<Longrightarrow> sv_loadbalancer svc = Some lb \<Longrightarrow> k \<in> ks \<Longrightarrow> get_folder_name A (lb_tenant_id lb) \<notin> Q k"
  by (auto simp: foreign_def svc_folders_def)

lemma foreign_common: "foreign A Q ks svc \<Longrightarrow> k \<in> ks \<Longrightarrow> ''Common'' \<notin> Q k"
  by (simp add: foreign_def)

text \<open>A phase keeps the folders of the service, and leaves alone a partition that is none of them.\<close>

definition isolates :: "'x benv \<Rightarrow> (kind \<Rightarrow> string set) \<Rightarrow> kind set \<Rightarrow> ('x bigip \<Rightarrow> 'v) \<Rightarrow> 'x phase \<Rightarrow> bool" where
  "isolates E Q ks view ph \<longleftrightarrow>
     (\<forall>s r s'. ph s = (r, s') \<longrightarrow> foreign (be_adapter E) Q ks (bs_service s) \<longrightarrow>
        foreign (be_adapter E) Q ks (bs_service s') \<and> map view (bs_bigips s') = map view (bs_bigips s))"

lemma isolatesI:
  assumes "\<And>s r s'. ph s = (r, s') \<Longrightarrow> foreign (be_adapter E) Q ks (bs_service s) \<Longrightarrow>
      svc_folders (be_adapter E) (bs_service s') = svc_folders (be_adapter E) (bs_service s) \<and>
      map view (bs_bigips s') = map view (bs_bigips s)"
  shows "isolates E Q ks view ph"
  unfolding isolates_def
proof (intro allI impI)
  fix s r s' assume "ph s = (r, s')" "foreign (be_adapter E) Q ks (bs_service s)"
  with assms [OF this] show "foreign (be_adapter E) Q ks (bs_service s') \<and> map view (bs_bigips s') = map view (bs_bigips s)"
    by (simp add: foreign_def)
qed

lemma isolatesD:
  "isolates E Q ks view ph \<Longrightarrow> ph s = (r, s') \<Longrightarrow> foreign (be_adapter E) Q ks (bs_service s) \<Longrightarrow>
    foreign (be_adapter E) Q ks (bs_service s') \<and> map view (bs_bigips s') = map view (bs_bigips s)"
  unfolding isolates_def by blast

lemma isolates_run:
  assumes "\<And>ph. ph \<in> set phs \<Longrightarrow> isolates E Q ks view ph"
  shows "isolates E Q ks view (run_phases phs)"
  using assms
proof (induction phs)
  case (Cons ph phs)
  have 1: "isolates E Q ks view ph" and 2: "isolates E Q ks view (run_phases phs)" using Cons by auto
  show ?case
    unfolding isolates_def
  proof (intro allI impI)
    fix s r s' assume run: "run_phases (ph # phs) s = (r, s')" and f: "foreign (be_adapter E) Q ks (bs_service s)"
    obtain r1 s1 where p: "ph s = (r1, s1)" by (cases "ph s")
    note h = isolatesD [OF 1 p f]
    show "foreign (be_adapter E) Q ks (bs_service s') \<and> map view (bs_bigips s') = map view (bs_bigips s)"
    proof (cases r1)
      case (Inr u)
      with run p have "run_phases phs s1 = (r, s')" by simp
      from isolatesD [OF 2 this] h show ?thesis by metis
    qed (use run p h in auto)
  qed
qed (simp add: isolates_def)

text \<open>A loop over the objects of a service; \<open>dev\<close> reads the devices off its shared state.\<close>

lemma inplace_quiet:
  assumes "inplace step xs st = (r, xs', st')"
    and "\<And>x st r x' st'. step x st = (r, x', st') \<Longrightarrow> map view (dev st') = map view (dev st)"
  shows "map view (dev st') = map view (dev st)"
  using inplace_rel [OF assms(1), where R = "\<lambda>_ _. True" and Q = "\<lambda>a b. map view (dev b) = map view (dev a)"]
    assms(2) by metis

lemma update_subnet_hints_same:
  "update_subnet_hints st sn n m s = (r, s') \<Longrightarrow> bs_service s' = bs_service s \<and> bs_bigips s' = bs_bigips s"
  by (auto simp: update_subnet_hints_def split: prod.splits)

lemma va_init_partition [simp]: "bn_partition (va_init A lb) = get_folder_name A (lb_tenant_id lb)"
  by (simp add: va_init_def)

lemma loadbalancer_created_isolates:
  assumes "confined (be_sdk E) Q view" and "KVa \<in> ks"
  shows "isolates E Q ks view (assure_loadbalancer_created E)"
proof (rule isolatesI)
  fix s r s'
  assume run: "assure_loadbalancer_created E s = (r, s')" and f: "foreign (be_adapter E) Q ks (bs_service s)"
  show "svc_folders (be_adapter E) (bs_service s') = svc_folders (be_adapter E) (bs_service s) \<and>
      map view (bs_bigips s') = map view (bs_bigips s)"
  proof (cases "sv_loadbalancer (bs_service s)")
    case (Some lb)
    let ?va = "va_init (be_adapter E) lb"
    let ?s1 = "assure_lb_address E lb s"
    have "quiet view (assure_va_on E ?va failed)" for failed
      using quietD [OF va_assure_quiet [OF assms(1), of ?va False]] foreign_lb [OF f Some assms(2)]
      by (intro quietI) (auto simp: assure_va_on_def split: prod.splits sum.splits)
    from quietD [OF quiet_for_bigips [of view, OF this]]
    have "map view (snd (assure_va_all E ?va ds)) = map view ds" for ds
      by (auto simp: assure_va_all_def split: prod.splits sum.splits)
    then have 1: "svc_folders (be_adapter E) (bs_service ?s1) = svc_folders (be_adapter E) (bs_service s) \<and>
        map view (bs_bigips ?s1) = map view (bs_bigips s)"
      by (auto simp: assure_lb_address_def mod_service_def split: prod.splits) (metis snd_conv)+
    have "s' = ?s1 \<or> (\<exists>st sn n. update_subnet_hints st sn n False ?s1 = (r, s'))"
      using run Some by (auto simp: assure_loadbalancer_created_def Let_def split: option.splits sum.splits)
    with 1 show ?thesis by (metis update_subnet_hints_same)
  qed (use run in \<open>simp add: assure_loadbalancer_created_def\<close>)
qed

lemma loadbalancer_deleted_isolates:
  assumes "confined (be_sdk E) Q view" and "KVa \<in> ks"
  shows "isolates E Q ks view (assure_loadbalancer_deleted E)"
proof (rule isolatesI)
  fix s r s'
  assume run: "assure_loadbalancer_deleted E s = (r, s')" and f: "foreign (be_adapter E) Q ks (bs_service s)"
  show "svc_folders (be_adapter E) (bs_service s') = svc_folders (be_adapter E) (bs_service s) \<and>
      map view (bs_bigips s') = map view (bs_bigips s)"
  proof (cases "sv_loadbalancer (bs_service s)")
    case (Some lb)
    have "quiet view (va_assure (be_sdk E) (va_init (be_adapter E) lb) True)"
      by (rule va_assure_quiet [OF assms(1)]) (simp add: foreign_lb [OF f Some assms(2)])
    from quietD [OF quiet_for_bigips [of view, OF this]] run Some show ?thesis
      by (auto simp: assure_loadbalancer_deleted_def split: option.splits sum.splits prod.splits if_splits)
  qed (use run in \<open>simp add: assure_loadbalancer_deleted_def\<close>)
qed


lemma monitors_created_isolates:
  assumes "confined (be_sdk E) Q view" and "KMonitor \<in> ks"
  shows "isolates E Q ks view (assure_monitors_created E)"
proof (rule isolatesI)
  fix s r s'
  assume run: "assure_monitors_created E s = (r, s')" and f: "foreign (be_adapter E) Q ks (bs_service s)"
  let ?svc = "bs_service s"
  obtain hms bs where ip: "inplace (assure_monitor_created E ?svc) (get_all (sv_healthmonitors ?svc)) (bs_bigips s) = (r, hms, bs)"
    and s': "s' = mod_service (set_monitors hms) (s\<lparr>bs_bigips := bs\<rparr>)"
    using run by (auto simp: assure_monitors_created_def split: prod.splits)
  have "map view bs = map view (bs_bigips s)"
    by (rule inplace_quiet [OF ip, where dev = "\<lambda>d. d"])
      (auto simp: assure_monitor_created_def dest: foreign_lb [OF f _ assms(2)] quietD [OF healthmonitor_quiet(1) [OF assms(1)]]
        split: if_splits prod.splits sum.splits option.splits)
  with s' show "svc_folders (be_adapter E) (bs_service s') = svc_folders (be_adapter E) ?svc \<and>
      map view (bs_bigips s') = map view (bs_bigips s)"
    by (simp add: mod_service_def)
qed

lemma monitors_deleted_isolates:
  assumes "confined (be_sdk E) Q view" and "KMonitor \<in> ks"
  shows "isolates E Q ks view (assure_monitors_deleted E)"
proof (rule isolatesI)
  fix s r s'
  assume run: "assure_monitors_deleted E s = (r, s')" and f: "foreign (be_adapter E) Q ks (bs_service s)"
  show "svc_folders (be_adapter E) (bs_service s') = svc_folders (be_adapter E) (bs_service s) \<and>
      map view (bs_bigips s') = map view (bs_bigips s)"
  proof (cases "sv_loadbalancer (bs_service s)")
    case (Some lb)
    note del = quietD [OF healthmonitor_quiet(2) [OF assms(1) foreign_lb [OF f Some assms(2)]]]
    obtain hms bs where ip: "inplace (assure_monitor_deleted E lb)
        (get_all (sv_healthmonitors (bs_service s))) (bs_bigips s) = (r, hms, bs)"
      and s': "s' = mod_service (set_monitors hms) (s\<lparr>bs_bigips := bs\<rparr>)"
      using run Some by (auto simp: assure_monitors_deleted_def split: prod.splits)
    have "map view bs = map view (bs_bigips s)"
      by (rule inplace_quiet [OF ip, where dev = "\<lambda>d. d"])
        (auto simp: assure_monitor_deleted_def dest: del split: if_splits prod.splits sum.splits option.splits)
    with s' show ?thesis by (simp add: mod_service_def)
  qed (use run in \<open>simp add: assure_monitors_deleted_def\<close>)
qed

lemma pools_created_isolates:
  assumes "confined (be_sdk E) Q view" and "KPool \<in> ks"
  shows "isolates E Q ks view (assure_pools_created E)"
proof (rule isolatesI)
  fix s r s'
  assume run: "assure_pools_created E s = (r, s')" and f: "foreign (be_adapter E) Q ks (bs_service s)"
  show "svc_folders (be_adapter E) (bs_service s') = svc_folders (be_adapter E) (bs_service s) \<and>
      map view (bs_bigips s') = map view (bs_bigips s)"
  proof (cases "sv_pools (bs_service s)")
    case (Some ps)
    obtain ps' err bs where ip: "inplace (assure_pool_created E (bs_service s)) ps (False, bs_bigips s) = (r, ps', (err, bs))"
      and s': "s' = mod_service (\<lambda>svc. (if err then lb_error svc else svc)\<lparr>sv_pools := Some ps'\<rparr>) (s\<lparr>bs_bigips := bs\<rparr>)"
      using run Some by (auto simp: assure_pools_created_def split: prod.splits)
    have "map view (snd (err, bs)) = map view (snd (False, bs_bigips s))"
      by (rule inplace_quiet [OF ip])
        (auto simp: assure_pool_created_def dest: create_pool_quiet [OF assms(1) foreign_lb [OF f _ assms(2)]]
          split: if_splits prod.splits sum.splits option.splits)
    with s' show ?thesis by (simp add: mod_service_def)
  qed (use run in \<open>simp add: assure_pools_created_def\<close>)
qed

lemma pools_deleted_isolates:
  assumes "confined (be_sdk E) Q view" and "KPool \<in> ks" and "KNode \<in> ks"
  shows "isolates E Q ks view (assure_pools_deleted E)"
proof (rule isolatesI)
  fix s r s'
  assume run: "assure_pools_deleted E s = (r, s')" and f: "foreign (be_adapter E) Q ks (bs_service s)"
  show "svc_folders (be_adapter E) (bs_service s') = svc_folders (be_adapter E) (bs_service s) \<and>
      map view (bs_bigips s') = map view (bs_bigips s)"
  proof (cases "sv_pools (bs_service s) = None \<or> sv_loadbalancer (bs_service s) = None")
    case False
    then obtain ps lb where l: "sv_pools (bs_service s) = Some ps" "sv_loadbalancer (bs_service s) = Some lb" by auto
    obtain ps' bs where ip: "inplace (assure_pool_deleted E (bs_service s) lb) ps (bs_bigips s) = (r, ps', bs)"
      and s': "s' = mod_service (\<lambda>svc. svc\<lparr>sv_pools := Some ps'\<rparr>) (s\<lparr>bs_bigips := bs\<rparr>)"
      using run l by (auto simp: assure_pools_deleted_def split: prod.splits)
    have "map view bs = map view (bs_bigips s)"
      by (rule inplace_quiet [OF ip, where dev = "\<lambda>d. d"])
        (auto simp: assure_pool_deleted_def dest: delete_pool_quiet [OF assms(1) foreign_lb [OF f l(2) assms(2)] foreign_lb [OF f l(2) assms(3)]]
          split: if_splits prod.splits sum.splits option.splits)
    with s' show ?thesis by (simp add: mod_service_def)
  qed (use run in \<open>auto simp: assure_pools_deleted_def split: option.splits\<close>)
qed

lemma pool_group_isolates:
  assumes "confined (be_sdk E) Q view" and "get_folder_name (be_adapter E) (lb_tenant_id lb) \<notin> Q KNode"
  shows "isolates E Q ks view (assure_pool_group E lb i)"
proof (rule isolatesI)
  fix s r s'
  assume run: "assure_pool_group E lb i s = (r, s')"
  let ?ms = "filter (member_grouped E i) (get_all (sv_members (bs_service s)))"
  show "svc_folders (be_adapter E) (bs_service s') = svc_folders (be_adapter E) (bs_service s) \<and>
      map view (bs_bigips s') = map view (bs_bigips s)"
  proof (cases "get_pool_by_id (bs_service s) (Some i)")
    case (Some p)
    obtain r1 p' ms' bs where a: "assure_pool_members (be_adapter E) (be_sdk E) lb p ?ms (bs_bigips s) = (r1, p', ms', bs)"
      by (cases "assure_pool_members (be_adapter E) (be_sdk E) lb p ?ms (bs_bigips s)")
    from assure_pool_members_quiet [OF assms a] run Some a show ?thesis
      by (cases r1) (auto simp: assure_pool_group_def Let_def mod_service_def split: prod.splits)
  qed (use run in \<open>simp add: assure_pool_group_def Let_def\<close>)
qed

lemma members_isolates:
  assumes "confined (be_sdk E) Q view" and "KNode \<in> ks"
  shows "isolates E Q ks view (assure_members E)"
  unfolding isolates_def
proof (intro allI impI)
  fix s r s'
  assume run: "assure_members E s = (r, s')" and f: "foreign (be_adapter E) Q ks (bs_service s)"
  consider "s' = s" | lb ms where "sv_loadbalancer (bs_service s) = Some lb"
      "run_phases (map (assure_pool_group E lb) (grouped_pools E ms)) s = (r, s')"
    using run by (auto simp: assure_members_def split: option.splits if_splits)
  then show "foreign (be_adapter E) Q ks (bs_service s') \<and> map view (bs_bigips s') = map view (bs_bigips s)"
  proof cases
    case 2
    have "isolates E Q ks view (run_phases (map (assure_pool_group E lb) (grouped_pools E ms)))"
      by (rule isolates_run) (auto intro: pool_group_isolates [OF assms(1) foreign_lb [OF f 2(1) assms(2)]])
    from isolatesD [OF this 2(2) f] show ?thesis .
  qed (simp add: f)
qed

lemma listeners_created_isolates:
  assumes "confined (be_sdk E) Q view" and "KVirtual \<in> ks" and "KRule \<in> ks" and "KUniversal \<in> ks" and "KSsl \<in> ks"
  shows "isolates E Q ks view (assure_listeners_created E)"
proof (rule isolatesI)
  fix s r s'
  assume run: "assure_listeners_created E s = (r, s')" and f: "foreign (be_adapter E) Q ks (bs_service s)"
  show "svc_folders (be_adapter E) (bs_service s') = svc_folders (be_adapter E) (bs_service s) \<and>
      map view (bs_bigips s') = map view (bs_bigips s)"
  proof (cases "sv_listeners (bs_service s) = None \<or> sv_loadbalancer (bs_service s) = None")
    case False
    then obtain lis lb where l: "sv_listeners (bs_service s) = Some lis" "sv_loadbalancer (bs_service s) = Some lb"
      by auto
    have away: "rules_away Q (get_folder_name (be_adapter E) (lb_tenant_id lb))"
      by (simp add: rules_away_def foreign_lb [OF f l(2) assms(3)] foreign_lb [OF f l(2) assms(4)])
    obtain lis' err bs where ip: "inplace (assure_listener_created E (bs_service s) lb) lis (False, bs_bigips s)
        = (r, lis', (err, bs))"
      and s': "s' = mod_service (\<lambda>svc. (if err then lb_error svc else svc)\<lparr>sv_listeners := Some lis'\<rparr>) (s\<lparr>bs_bigips := bs\<rparr>)"
      using run l by (auto simp: assure_listeners_created_def split: prod.splits)
    have "map view (snd (err, bs)) = map view (snd (False, bs_bigips s))"
      by (rule inplace_quiet [OF ip])
        (auto simp: assure_listener_created_def
          dest: create_listener_quiet [OF assms(1) foreign_common [OF f assms(5)] foreign_lb [OF f l(2) assms(2)] away]
          split: if_splits prod.splits sum.splits option.splits)
    with s' show ?thesis by (simp add: mod_service_def)
  qed (use run in \<open>auto simp: assure_listeners_created_def split: option.splits\<close>)
qed

lemma listeners_deleted_isolates:
  assumes "confined (be_sdk E) Q view" and "KVirtual \<in> ks" and "KRule \<in> ks" and "KUniversal \<in> ks" and "KSsl \<in> ks"
  shows "isolates E Q ks view (assure_listeners_deleted E)"
proof (rule isolatesI)
  fix s r s'
  assume run: "assure_listeners_deleted E s = (r, s')" and f: "foreign (be_adapter E) Q ks (bs_service s)"
  show "svc_folders (be_adapter E) (bs_service s') = svc_folders (be_adapter E) (bs_service s) \<and>
      map view (bs_bigips s') = map view (bs_bigips s)"
  proof (cases "sv_listeners (bs_service s) = None \<or> sv_loadbalancer (bs_service s) = None")
    case False
    then obtain lis lb where l: "sv_listeners (bs_service s) = Some lis" "sv_loadbalancer (bs_service s) = Some lb"
      by auto
    have away: "rules_away Q (get_folder_name (be_adapter E) (lb_tenant_id lb))"
      by (simp add: rules_away_def foreign_lb [OF f l(2) assms(3)] foreign_lb [OF f l(2) assms(4)])
    note del = quietD [OF delete_listener_quiet [OF assms(1) foreign_common [OF f assms(5)] foreign_lb [OF f l(2) assms(2)] away]]
    obtain lis' bs where ip: "inplace (assure_listener_deleted E lb) lis (bs_bigips s) = (r, lis', bs)"
      and s': "s' = mod_service (\<lambda>svc. svc\<lparr>sv_listeners := Some lis'\<rparr>) (s\<lparr>bs_bigips := bs\<rparr>)"
      using run l by (auto simp: assure_listeners_deleted_def split: prod.splits)
    have "map view bs = map view (bs_bigips s)"
      by (rule inplace_quiet [OF ip, where dev = "\<lambda>d. d"])
        (auto simp: assure_listener_deleted_def dest: del split: if_splits prod.splits sum.splits option.splits)
    with s' show ?thesis by (simp add: mod_service_def)
  qed (use run in \<open>auto simp: assure_listeners_deleted_def split: option.splits\<close>)
qed


text \<open>A policy of the BIG-IP lies in the folder of one of the service's L7 policies.\<close>

lemma l7_tenant [simp]: "l7p_tenant_id (set_l7p_status v p) = l7p_tenant_id p"
  by (simp add: set_l7p_status_def)

lemma translate_folder:
  "translate A os = Inr fp \<Longrightarrow> \<exists>p0 \<in> set (os_l7policies os). fp_partition fp = get_folder_name A (l7p_tenant_id p0)"
  by (erule translate_cases) auto

lemma build_policy_folder:
  assumes "build_policy A p svc = Inr os" and "os_f5_policy os = Some fp"
  shows "fp_partition fp \<in> set (svc_folders A svc)"
proof -
  let ?ps = "\<lambda>refs. concat (map (\<lambda>r. case get_l7policy svc (ref_id r) of None \<Rightarrow> [] | Some p \<Rightarrow> [p]) refs)"
  obtain lid li refs where l: "l7p_listener_id p = Some lid" "get_listener svc lid = Some li" "li_l7_policies li = Some refs"
    using assms(1) by (auto simp: build_policy_def bindE_eq_Inr split: option.splits)
  from assms l have t: "translate A \<lparr>os_l7rules = concat (map (policy_l7rules svc) (?ps refs)),
      os_l7policies = ?ps refs, os_f5_policy = None\<rparr> = Inr fp"
    by (auto simp: build_policy_def Let_def bindE_eq_Inr split: if_splits)
  obtain p0 where p0: "p0 \<in> set (?ps refs)" "fp_partition fp = get_folder_name A (l7p_tenant_id p0)"
    using translate_folder [OF t] by auto
  then have "p0 \<in> set (get_all (sv_l7policies svc))"
    by (auto simp: get_l7policy_def dest: get_obj_Some [OF sym] split: option.splits)
  with p0 show ?thesis by (auto simp: svc_folders_def)
qed

lemma policy_map_folders:
  assumes "listener_policy_map A svc ps acc = Inr entries"
    and "\<And>e fp. e \<in> set acc \<Longrightarrow> os_f5_policy (snd e) = Some fp \<Longrightarrow> fp_partition fp \<in> set (svc_folders A svc)"
    and "e \<in> set entries" and "os_f5_policy (snd e) = Some fp"
  shows "fp_partition fp \<in> set (svc_folders A svc)"
  using assms
proof (induction ps arbitrary: acc)
  case (Cons p ps)
  consider (same) "listener_policy_map A svc ps acc = Inr entries"
    | (new) lid os where "build_policy A p svc = Inr os" "listener_policy_map A svc ps (acc @ [(lid, os)]) = Inr entries"
    using Cons.prems(1) by (auto simp: bindE_eq_Inr split: option.splits if_splits)
  then show ?case
  proof cases
    case same
    show ?thesis by (rule Cons.IH [OF same Cons.prems(2-4)])
  next
    case new
    show ?thesis
      by (rule Cons.IH [OF new(2) _ Cons.prems(3,4)]) (use Cons.prems(2) build_policy_folder [OF new(1)] in auto)
  qed
qed auto

definition entry_away :: "string set \<Rightarrow> string \<times> os_policies \<Rightarrow> bool" where
  "entry_away P entry \<longleftrightarrow> (\<forall>fp. os_f5_policy (snd entry) = Some fp \<longrightarrow> fp_partition fp \<notin> P)"

lemma policy_map_away:
  assumes "listener_policy_map A svc ps [] = Inr entries" and "foreign A Q ks svc" and "KPolicy \<in> ks" and "e \<in> set entries"
  shows "entry_away (Q KPolicy) e"
  using policy_map_folders [OF assms(1) _ assms(4)] assms(2,3) by (auto simp: entry_away_def foreign_def)

lemma l7_listener_isolates:
  assumes "confined (be_sdk E) Q view" and "entry_away (Q KPolicy) entry"
  shows "isolates E Q ks view (assure_l7_listener E entry)"
proof (rule isolatesI)
  fix s r s'
  assume run: "assure_l7_listener E entry s = (r, s')"
  obtain r1 bs where c: "create_l7_entry E (snd entry) (bs_bigips s) = (r1, bs)"
    by (cases "create_l7_entry E (snd entry) (bs_bigips s)")
  have "map view bs = map view (bs_bigips s)"
    using c quietD [OF create_l7policy_quiet [OF assms(1)]] assms(2)
    by (auto simp: create_l7_entry_def entry_away_def split: option.splits if_splits)
  with run c show "svc_folders (be_adapter E) (bs_service s') = svc_folders (be_adapter E) (bs_service s) \<and>
      map view (bs_bigips s') = map view (bs_bigips s)"
    by (auto simp: assure_l7_listener_def mod_service_def split: sum.splits option.splits)
qed

lemma l7policies_created_isolates:
  assumes "confined (be_sdk E) Q view" and "KPolicy \<in> ks"
  shows "isolates E Q ks view (assure_l7policies_created E)"
  unfolding isolates_def
proof (intro allI impI)
  fix s r s'
  assume run: "assure_l7policies_created E s = (r, s')" and f: "foreign (be_adapter E) Q ks (bs_service s)"
  consider "s' = s" | ps en where "listener_policy_map (be_adapter E) (bs_service s) ps [] = Inr en"
      "run_phases (map (assure_l7_listener E) en) s = (r, s')"
    using run by (auto simp: assure_l7policies_created_def split: option.splits sum.splits)
  then show "foreign (be_adapter E) Q ks (bs_service s') \<and> map view (bs_bigips s') = map view (bs_bigips s)"
  proof cases
    case 2
    have "isolates E Q ks view (run_phases (map (assure_l7_listener E) en))"
      by (rule isolates_run) (auto intro: l7_listener_isolates [OF assms(1) policy_map_away [OF 2(1) f assms(2)]])
    from isolatesD [OF this 2(2) f] show ?thesis .
  qed (simp add: f)
qed

lemma delete_l7_listener_isolates:
  assumes "confined (be_sdk E) Q view" and "entry_away (Q KPolicy) entry"
  shows "isolates E Q ks view (delete_l7_listener E entry)"
proof (rule isolatesI)
  fix s r s'
  assume run: "delete_l7_listener E entry s = (r, s')"
  then obtain err bs g where b: "(err, bs) = (if os_rules (snd entry) = []
        then (case os_f5_policy (snd entry) of
                None \<Rightarrow> (if bs_bigips s = [] then None else Some L7PolicyDeleteException, bs_bigips s)
              | Some fp \<Rightarrow> delete_l7policy (be_sdk E) (fp_name fp) (fp_partition fp) (bs_bigips s))
        else (None, bs_bigips s))"
    and s': "s' = mod_service (set_l7policies (\<lambda>p. if g p then set_l7p_status ERROR p else p)) (s\<lparr>bs_bigips := bs\<rparr>)"
    by (auto simp: delete_l7_listener_def Let_def split: prod.splits)
  have "map view bs = map view (bs_bigips s)"
    using b quietD [OF delete_l7policy_quiet [OF assms(1)]] assms(2)
    by (auto simp: entry_away_def split: option.splits if_splits) metis
  with s' show "svc_folders (be_adapter E) (bs_service s') = svc_folders (be_adapter E) (bs_service s) \<and>
      map view (bs_bigips s') = map view (bs_bigips s)"
    by (simp add: mod_service_def)
qed

lemma l7policies_deleted_isolates:
  assumes "confined (be_sdk E) Q view" and "KPolicy \<in> ks"
  shows "isolates E Q ks view (assure_l7policies_deleted E)"
  unfolding isolates_def
proof (intro allI impI)
  fix s r s'
  assume run: "assure_l7policies_deleted E s = (r, s')" and f: "foreign (be_adapter E) Q ks (bs_service s)"
  let ?folder = "get_folder_name (be_adapter E)
    (case sv_loadbalancer (bs_service s) of None \<Rightarrow> Some '''' | Some lb \<Rightarrow> lb_tenant_id lb)"
  consider "s' = s" | ps en err bs where "listener_policy_map (be_adapter E) (bs_service s) ps [] = Inr en"
      "delete_l7policy (be_sdk E) ''wrapper_policy'' ?folder (bs_bigips s) = (err, bs)"
      "run_phases (map (delete_l7_listener E) en) (s\<lparr>bs_bigips := bs\<rparr>) = (r, s')"
    using run by (auto simp: assure_l7policies_deleted_def Let_def split: option.splits sum.splits prod.splits)
  then show "foreign (be_adapter E) Q ks (bs_service s') \<and> map view (bs_bigips s') = map view (bs_bigips s)"
  proof cases
    case 2
    have "?folder \<notin> Q KPolicy" using f assms(2) unfolding foreign_def svc_folders_def by auto
    from quietD [OF delete_l7policy_quiet [OF assms(1) this] 2(2)] have bs: "map view bs = map view (bs_bigips s)" .
    have "isolates E Q ks view (run_phases (map (delete_l7_listener E) en))"
      by (rule isolates_run) (auto intro: delete_l7_listener_isolates [OF assms(1) policy_map_away [OF 2(1) f assms(2)]])
    from isolatesD [OF this 2(3)] f bs show ?thesis by simp
  qed (simp add: f)
qed

lemmas phases_isolate =
  loadbalancer_created_isolates monitors_created_isolates pools_created_isolates members_isolates
  l7policies_created_isolates listeners_created_isolates listeners_deleted_isolates
  l7policies_deleted_isolates pools_deleted_isolates monitors_deleted_isolates loadbalancer_deleted_isolates

lemma assure_service_isolates: "confined (be_sdk E) Q view \<Longrightarrow> isolates E Q UNIV view (assure_service E)"
  unfolding assure_service_def by (rule isolates_run) (auto intro: phases_isolate)

end
