(* ===== verification/Deployment.thy ===== *)
theory Deployment
  imports Isolation
begin

text \<open>
  What a service leaves on devices that answer. \<open>ltm_ok\<close>: the calls for pools, virtual servers, virtual
  addresses, monitors and policies work on a table of each kind, and the calls for another kind of
  object do not change the first three tables. Each phase either writes one of the tables, key by
  key (\<open>writes\<close>), or leaves it alone (by \<open>Isolation\<close>); the composition gives what is on a device in the end.
\<close>

section \<open>Devices that answer\<close>

definition only :: "kind \<Rightarrow> kind \<Rightarrow> string set" where
  "only k = (\<lambda>j. if j = k then UNIV else {})"

record 'd views =
  vw_pools :: "'d \<Rightarrow> (string \<times> string) \<Rightarrow> bigip_pool option"
  vw_virtuals :: "'d \<Rightarrow> (string \<times> string) \<Rightarrow> virtual option"
  vw_vas :: "'d \<Rightarrow> (string \<times> string) \<Rightarrow> virtual_address option"
  vw_policies :: "'d \<Rightarrow> (string \<times> string) \<Rightarrow> f5_policy option"
  vw_monitors :: "resource_type \<Rightarrow> 'd \<Rightarrow> (string \<times> string) \<Rightarrow> bigip_monitor option"

definition ltm_ok :: "'d sdk \<Rightarrow> 'd views \<Rightarrow> bool" where
  "ltm_ok S V \<longleftrightarrow>
     endpoint_ok (sdk_pool S) bkey (vw_pools V) \<and> endpoint_ok (sdk_virtual S) bkey (vw_virtuals V) \<and>
     endpoint_ok (sdk_va S) bkey (vw_vas V) \<and> endpoint_ok (sdk_l7policy S) fp_key (vw_policies V) \<and>
     (\<forall>t. endpoint_ok (sdk_monitor S t) bkey (vw_monitors V t)) \<and>
     confined S (only KPool) (vw_pools V) \<and> confined S (only KVirtual) (vw_virtuals V) \<and>
     confined S (only KVa) (vw_vas V)"

lemma ltm_okD:
  assumes "ltm_ok S V"
  shows "endpoint_ok (sdk_pool S) bkey (vw_pools V)" "endpoint_ok (sdk_virtual S) bkey (vw_virtuals V)"
    "endpoint_ok (sdk_va S) bkey (vw_vas V)" "endpoint_ok (sdk_l7policy S) fp_key (vw_policies V)"
    "endpoint_ok (sdk_monitor S t) bkey (vw_monitors V t)"
    "confined S (only KPool) (vw_pools V)" "confined S (only KVirtual) (vw_virtuals V)"
    "confined S (only KVa) (vw_vas V)"
  using assms by (simp_all add: ltm_ok_def)

lemma foreign_only: "k \<notin> ks \<Longrightarrow> foreign A (only k) ks svc"
  by (auto simp: foreign_def only_def)

section \<open>Writing a table key by key\<close>

text \<open>The objects \<open>x\<close> in \<open>xs\<close> with \<open>T x\<close> are written at \<open>key x\<close>, as \<open>R x\<close> says; nothing else changed.\<close>

definition writes ::
  "('x \<Rightarrow> bool) \<Rightarrow> ('x \<Rightarrow> 'k) \<Rightarrow> ('x \<Rightarrow> 'm option \<Rightarrow> bool) \<Rightarrow> 'x list \<Rightarrow> ('k \<Rightarrow> 'm option) \<Rightarrow> ('k \<Rightarrow> 'm option) \<Rightarrow> bool" where
  "writes T key R xs t t' \<longleftrightarrow>
     (\<forall>x \<in> set xs. T x \<longrightarrow> R x (t' (key x))) \<and> (\<forall>k. k \<notin> key ` {x \<in> set xs. T x} \<longrightarrow> t' k = t k)"

lemma writes_Nil [simp]: "writes T key R [] t t' \<longleftrightarrow> t' = t"
  by (auto simp: writes_def)

lemma writes_skip: "\<not> T x \<Longrightarrow> writes T key R (x # xs) t t' \<longleftrightarrow> writes T key R xs t t'"
  by (auto simp: writes_def)

lemma writes_Cons:
  assumes "T x" and "R x v" and w: "writes T key R xs (t(key x := v)) t'" and new: "key x \<notin> key ` set xs"
  shows "writes T key R (x # xs) t t'"
proof -
  have keep: "t' k = (t(key x := v)) k" if "k \<notin> key ` {y \<in> set xs. T y}" for k
    using w that unfolding writes_def by blast
  have "t' (key x) = v" using keep [of "key x"] new by auto
  with assms(2) have x: "R x (t' (key x))" by simp
  have "t' k = t k" if "k \<notin> key ` {y \<in> set (x # xs). T y}" for k
  proof -
    have "k \<noteq> key x" "k \<notin> key ` {y \<in> set xs. T y}" using that assms(1) by auto
    with keep [of k] show ?thesis by simp
  qed
  moreover have "R y (t' (key y))" if "y \<in> set (x # xs)" "T y" for y
    using that x w unfolding writes_def by auto
  ultimately show ?thesis unfolding writes_def by blast
qed

lemma inplace_writes:
  assumes "inplace step xs st = (Inr (), xs', st')" and "distinct (map key xs)"
    and "\<And>x st x' st'. x \<in> set xs \<Longrightarrow> step x st = (Inr (), x', st') \<Longrightarrow> T x \<Longrightarrow>
      list_all2 (\<lambda>d d'. \<exists>v. R x v \<and> view d' = (view d)(key x := v)) (dev st) (dev st')"
    and "\<And>x st x' st'. x \<in> set xs \<Longrightarrow> step x st = (Inr (), x', st') \<Longrightarrow> \<not> T x \<Longrightarrow> map view (dev st') = map view (dev st)"
  shows "list_all2 (\<lambda>d d'. writes T key R xs (view d) (view d')) (dev st) (dev st')"
  using assms
proof (induction xs arbitrary: st xs')
  case (Cons x xs)
  obtain x1 s1 xs1 where s: "step x st = (Inr (), x1, s1)" and rest: "inplace step xs s1 = (Inr (), xs1, st')"
    using Cons.prems(1) by (auto split: prod.splits sum.splits)
  have IH: "list_all2 (\<lambda>d d'. writes T key R xs (view d) (view d')) (dev s1) (dev st')"
  proof (rule Cons.IH [OF rest])
    show "distinct (map key xs)" using Cons.prems(2) by simp
  qed (rule Cons.prems(3,4), simp_all)+
  have new: "key x \<notin> key ` set xs" using Cons.prems(2) by auto
  show ?case
  proof (cases "T x")
    case True
    have 1: "list_all2 (\<lambda>d d'. \<exists>v. R x v \<and> view d' = (view d)(key x := v)) (dev st) (dev s1)"
      by (rule Cons.prems(3) [OF _ s True]) simp
    have "writes T key R (x # xs) (view a) (view c)"
      if "\<exists>v. R x v \<and> view b = (view a)(key x := v)" "writes T key R xs (view b) (view c)" for a b c
    proof -
      from that(1) obtain v where v: "R x v" "view b = (view a)(key x := v)" by blast
      show ?thesis by (rule writes_Cons [where T = T and R = R, OF True v(1) _ new]) (use that(2) v(2) in simp)
    qed
    from list_all2_trans [OF this 1 IH] show ?thesis .
  next
    case False
    have "map view (dev s1) = map view (dev st)" by (rule Cons.prems(4) [OF _ s False]) simp
    with IH False show ?thesis
      by (auto simp: writes_skip list_all2_conv_all_nth list_eq_iff_nth_eq)
  qed
qed (auto intro: list_all2_refl)

lemma writes_eq: "map view ds' = map view ds \<Longrightarrow> list_all2 (\<lambda>d d'. view d' = view d) ds ds'"
  by (simp add: list_all2_conv_all_nth list_eq_iff_nth_eq)


lemma for_bigips_returns:
  assumes "\<And>acc d acc' d'. Q acc \<Longrightarrow> body acc d = (Inr acc', d') \<Longrightarrow> Q acc' \<and> G d d'"
    and "Q acc" and "for_bigips body acc ds = (Inr acc', ds')"
  shows "Q acc' \<and> list_all2 G ds ds'"
  using assms(2,3)
proof (induction ds arbitrary: acc ds')
  case (Cons d ds)
  from Cons.prems(2) obtain acc1 d1 ds1 where b: "body acc d = (Inr acc1, d1)"
    and rest: "for_bigips body acc1 ds = (Inr acc', ds1)" "ds' = d1 # ds1"
    by (auto split: prod.splits sum.splits)
  with assms(1) [OF Cons.prems(1) b] Cons.IH [of acc1 ds1] show ?case by simp
qed simp

section \<open>Pools\<close>

definition pool_key :: "adapter \<Rightarrow> loadbalancer \<Rightarrow> pool \<Rightarrow> string \<times> string" where
  "pool_key A lb p = (ad_prefix A @ po_id p, get_folder_name A (lb_tenant_id lb))"

lemma pool_keys_distinct: "distinct (map po_id ps) \<Longrightarrow> distinct (map (pool_key A lb) ps)"
  by (auto simp: distinct_map inj_on_def pool_key_def)

lemma get_pool_key: "get_pool A lb p ms hms = (Inr bp, p') \<Longrightarrow> bkey bp = pool_key A lb p"
  by (auto simp: bkey_def pool_key_def dest: get_pool_names)

lemma get_pool_Inr: "fst (get_pool A lb p ms hms) = Inr bp \<Longrightarrow> get_pool A lb p ms hms = (Inr bp, snd (get_pool A lb p ms hms))"
  by (metis prod.collapse)

text \<open>What the service says a pool should be.\<close>

definition pool_wanted :: "adapter \<Rightarrow> service \<Rightarrow> loadbalancer \<Rightarrow> pool \<Rightarrow> bigip_pool option \<Rightarrow> bool" where
  "pool_wanted A svc lb p v \<longleftrightarrow>
     (\<exists>ms bp. get_pool_members (get_all (sv_members svc)) (po_id p) = Inr ms \<and>
        fst (get_pool A lb p ms (filter (\<lambda>h. hm_status h \<noteq> PENDING_DELETE) (get_all (sv_healthmonitors svc)))) = Inr bp \<and>
        v = Some bp)"

lemma create_pool_effect:
  assumes ok: "endpoint_ok (sdk_pool S) bkey view" and run: "create_pool A S lb p ms hms ds = (Inr err, p', ds')"
  shows "err = None \<and> p' = snd (get_pool A lb p ms hms) \<and> (\<exists>bp. fst (get_pool A lb p ms hms) = Inr bp \<and>
    list_all2 (\<lambda>d d'. view d' = (view d)(pool_key A lb p := Some bp)) ds ds')"
proof (cases "fst (get_pool A lb p ms hms)")
  case (Inr bp)
  note g = get_pool_Inr [OF Inr]
  from create_pool_run [OF ok g, of ds] run Inr show ?thesis by (auto simp: get_pool_key [OF g])
qed (use run in \<open>auto simp: create_pool_def split: prod.splits sum.splits\<close>)

lemma delete_member_node_keeps:
  assumes "confined S (only KPool) view"
  shows "quiet view (delete_member_node A S lb m)"
  by (rule delete_member_node_quiet [OF assms]) (simp add: only_def)

lemma delete_pool_on_effect:
  assumes ok: "endpoint_ok (sdk_pool S) bkey view" and c: "confined S (only KPool) view"
    and run: "delete_pool_on A S lb bp ms None d = (Inr err, d')"
  shows "err = None \<and> view d' = (view d)(bkey bp := None)"
proof -
  obtain d1 where d1: "delete_attempt (sdk_pool S) PoolDeleteException (bn_name bp) (bn_partition bp) d = (None, d1)"
    "view d1 = (view d)(bkey bp := None)"
    using delete_attempt_ok [OF ok, of PoolDeleteException "bn_name bp" "bn_partition bp" d] by (auto simp: bkey_def)
  have q: "quiet view (forM ms (\<lambda>m. bindM (delete_member_node A S lb m) (\<lambda>_. retM ())))"
    by (intro quiet_rules delete_member_node_keeps [OF c])
  from run d1(1) have "bindM (forM ms (\<lambda>m. bindM (delete_member_node A S lb m) (\<lambda>_. retM ()))) (\<lambda>_. retM None) d1 = (Inr err, d')"
    by (simp add: delete_pool_on_def keep_error_def bindM_def)
  from bindM_Inr [OF this] obtain u where "forM ms (\<lambda>m. bindM (delete_member_node A S lb m) (\<lambda>_. retM ())) d1 = (Inr u, d')" "err = None"
    by (auto simp: retM_def)
  with quietD [OF q] d1(2) show ?thesis by simp
qed

lemma delete_pool_effect:
  assumes "endpoint_ok (sdk_pool S) bkey view" and "confined S (only KPool) view"
    and run: "delete_pool A S lb p ms ds = (Inr err, p', ds')"
  shows "err = None \<and> list_all2 (\<lambda>d d'. view d' = (view d)(pool_key A lb p := None)) ds ds'"
proof (cases "fst (get_pool A lb p ms [])")
  case (Inr bp)
  note g = get_pool_Inr [OF Inr]
  from run g have "for_bigips (delete_pool_on A S lb bp ms) None ds = (Inr err, ds')"
    by (auto simp: delete_pool_def split: prod.splits)
  from for_bigips_returns [where Q = "\<lambda>e. e = None" and G = "\<lambda>d d'. view d' = (view d)(bkey bp := None)", OF _ refl this]
  show ?thesis using delete_pool_on_effect [OF assms(1,2)] by (auto simp: get_pool_key [OF g, symmetric] simp del: fun_upd_apply)
qed (use run in \<open>auto simp: delete_pool_def split: prod.splits sum.splits\<close>)

text \<open>What does not matter to the other phases: the id and the status.\<close>

definition pool_tag :: "pool \<Rightarrow> string \<times> pstatus" where
  "pool_tag p = (po_id p, po_status p)"

lemma assure_pool_created_effect:
  assumes "endpoint_ok (sdk_pool (be_sdk E)) bkey view" and "sv_loadbalancer svc = Some lb"
    and run: "assure_pool_created E svc p st = (Inr (), p', st')"
  shows "pool_tag p' = pool_tag p \<and> fst st' = fst st \<and>
    (if po_status p \<in> set (be_const_status E)
     then list_all2 (\<lambda>d d'. \<exists>v. pool_wanted (be_adapter E) svc lb p v \<and> view d' = (view d)(pool_key (be_adapter E) lb p := v))
            (snd st) (snd st')
     else snd st' = snd st)"
proof (cases "po_status p \<in> set (be_const_status E)")
  case True
  let ?hms = "filter (\<lambda>h. hm_status h \<noteq> PENDING_DELETE) (get_all (sv_healthmonitors svc))"
  from run True assms(2) obtain ms err p1 bs where ms: "get_pool_members (get_all (sv_members svc)) (po_id p) = Inr ms"
    and c: "create_pool (be_adapter E) (be_sdk E) lb p ms ?hms (snd st) = (Inr err, p1, bs)"
    by (auto simp: assure_pool_created_def split: sum.splits prod.splits)
  note e = create_pool_effect [OF assms(1) c]
  from e obtain bp where bp: "fst (get_pool (be_adapter E) lb p ms ?hms) = Inr bp"
    "list_all2 (\<lambda>d d'. view d' = (view d)(pool_key (be_adapter E) lb p := Some bp)) (snd st) bs" by blast
  have "pool_wanted (be_adapter E) svc lb p (Some bp)" using ms bp(1) by (auto simp: pool_wanted_def)
  with bp(2) have "list_all2 (\<lambda>d d'. \<exists>v. pool_wanted (be_adapter E) svc lb p v \<and> view d' = (view d)(pool_key (be_adapter E) lb p := v))
      (snd st) bs" by (auto elim!: list_all2_mono simp del: fun_upd_apply)
  with run True ms c e assms(2) show ?thesis
    by (auto simp: assure_pool_created_def pool_tag_def split: if_splits)
qed (use run in \<open>auto simp: assure_pool_created_def\<close>)

lemma inplace_tags:
  assumes "inplace step xs st = (Inr (), xs', st')"
    and "\<And>x st x' st'. step x st = (Inr (), x', st') \<Longrightarrow> tag x' = tag x \<and> Q st st'"
    and "\<And>s. Q s s" and "\<And>a b c. Q a b \<Longrightarrow> Q b c \<Longrightarrow> Q a c"
  shows "map tag xs' = map tag xs \<and> Q st st'"
  using assms(1)
proof (induction xs arbitrary: st xs')
  case (Cons x xs)
  obtain x1 s1 xs1 where s: "step x st = (Inr (), x1, s1)" and rest: "inplace step xs s1 = (Inr (), xs1, st')" "xs' = x1 # xs1"
    using Cons.prems by (auto split: prod.splits sum.splits)
  from assms(2) [OF s] Cons.IH [OF rest(1)] rest(2) show ?case by (auto intro: assms(4))
qed (simp add: assms(3))


section \<open>Listeners\<close>

text \<open>What the service says of a virtual server; \<open>pid\<close> is the id of its default pool.\<close>

definition virtual_for :: "adapter \<Rightarrow> loadbalancer \<Rightarrow> listener \<Rightarrow> string option \<Rightarrow> virtual \<Rightarrow> bool" where
  "virtual_for A lb li pid v \<longleftrightarrow>
     bn_name v = ad_prefix A @ li_id li \<and> bn_partition v = get_folder_name A (lb_tenant_id lb) \<and>
     vs_pool v = (case pid of None \<Rightarrow> '''' | Some i \<Rightarrow> ad_prefix A @ i) \<and>
     vs_enabled v = (li_admin_state_up li = Some True) \<and> vs_disabled v = (li_admin_state_up li = Some False) \<and>
     (\<forall>a p. lb_vip_address lb = Some a \<longrightarrow> a \<noteq> '''' \<longrightarrow> li_protocol_port li = Some p \<longrightarrow> p \<noteq> 0 \<longrightarrow>
       vs_destination v = Some (addr_port (vip_ip a) p))"

definition default_pool_id :: "listener \<Rightarrow> pool list \<Rightarrow> string option" where
  "default_pool_id li ps = map_option po_id (get_vip_default_pool li ps)"

lemma get_virtual_for:
  assumes "get_virtual ip A svc lb li = Inr (vip, li')"
  shows "virtual_for A lb li (default_pool_id li (get_all (sv_pools svc))) vip"
  using get_virtual_core [OF assms] by (auto simp: virtual_for_def default_pool_id_def split: option.splits)

lemma virtual_for_vlan: "virtual_for A lb li pid v \<Longrightarrow> virtual_for A lb li pid (get_vlan A nets n v)"
  by (simp add: virtual_for_def get_vlan_def split: option.split)

lemma virtual_for_profiles: "virtual_for A lb li pid v \<Longrightarrow> but_profiles v w \<Longrightarrow> virtual_for A lb li pid w"
  by (auto simp: virtual_for_def but_profiles_def)

definition listener_key :: "adapter \<Rightarrow> loadbalancer \<Rightarrow> listener \<Rightarrow> string \<times> string" where
  "listener_key A lb li = (ad_prefix A @ li_id li, get_folder_name A (lb_tenant_id lb))"

lemma listener_keys_distinct: "distinct (map li_id lis) \<Longrightarrow> distinct (map (listener_key A lb) lis)"
  by (auto simp: distinct_map inj_on_def listener_key_def)

lemma virtual_for_key: "virtual_for A lb li pid v \<Longrightarrow> bkey v = listener_key A lb li"
  by (simp add: virtual_for_def bkey_def listener_key_def)

lemma only_away: "k \<noteq> j \<Longrightarrow> x \<notin> only k j"
  by (simp add: only_def)

lemma rules_away_only [simp]: "rules_away (only KVirtual) part"
  by (simp add: rules_away_def only_def)

lemma create_listener_on_effect:
  assumes ok: "endpoint_ok (sdk_virtual S) bkey view" and c: "confined S (only KVirtual) view"
    and acc: "fst acc = None" "virtual_for A lb li0 pid (snd acc)"
    and run: "create_listener_on A S E n t li acc d = (Inr acc', d')"
  shows "fst acc' = None \<and> virtual_for A lb li0 pid (snd acc') \<and> view d' = (view d)(listener_key A lb li0 := Some (snd acc'))"
proof -
  let ?tls = "\<lambda>v. if tls_true t then add_ssl_profile A S E t v else retM v"
  let ?add = "\<lambda>v. case li_session_persistence li of
      Some sp \<Rightarrow> if sp_true sp \<and> sp_type sp = Some ''APP_COOKIE'' then add_cookie_persist_rule S v sp else retM ()
    | None \<Rightarrow> retM ()"
  let ?create = "\<lambda>v. keep_error (create_attempt (sdk_virtual S) bkey VirtualServerCreationException VirtualServerUpdateException v) (fst acc)"
  let ?rem = "\<lambda>v. if has_persist li then retM () else log_http_error (remove_cookie_persist_rule S v)"
  have nc: "''Common'' \<notin> only KVirtual KSsl" by (simp add: only_def)
  define v0 where "v0 = get_vlan A (b_assured_networks d) n (snd acc)"
  have "bindM (?tls v0) (\<lambda>v. bindM (?add v) (\<lambda>_. bindM (?create v) (\<lambda>e. bindM (?rem v) (\<lambda>_. retM (e, v))))) d = (Inr acc', d')"
    using run unfolding create_listener_on_def v0_def by (simp add: bindM_def [of "getsM _"] getsM_def)
  from bindM_Inr [OF this] obtain v d1 where tls: "?tls v0 d = (Inr v, d1)"
    and r1: "bindM (?add v) (\<lambda>_. bindM (?create v) (\<lambda>e. bindM (?rem v) (\<lambda>_. retM (e, v)))) d1 = (Inr acc', d')"
    by blast
  have "gives view (but_profiles v0) (?tls v0)"
    using add_ssl_profile_gives [OF c nc] by (simp add: gives_ret)
  with tls have v: "but_profiles v0 v" "view d1 = view d" unfolding gives_def by (blast, blast dest: quietD)
  have vf: "virtual_for A lb li0 pid v"
    by (rule virtual_for_profiles [OF virtual_for_vlan [OF acc(2)]]) (use v(1) v0_def in simp)
  from bindM_Inr [OF r1] obtain u d2 where a: "?add v d1 = (Inr u, d2)"
    and r2: "bindM (?create v) (\<lambda>e. bindM (?rem v) (\<lambda>_. retM (e, v))) d2 = (Inr acc', d')" by blast
  have "quiet view (?add v)" by (intro quiet_rules cookie_rule_quiet [OF c]) simp
  from quietD [OF this a] have d2: "view d2 = view d1" .
  obtain d3 where cr: "?create v d2 = (Inr None, d3)" and d3: "view d3 = (view d2)(bkey v := Some v)"
    using create_attempt_ok [OF ok, of VirtualServerCreationException VirtualServerUpdateException v d2] acc(1)
    by (auto simp: keep_error_def)
  from r2 cr have "bindM (?rem v) (\<lambda>_. retM (None, v)) d3 = (Inr acc', d')" by (simp add: bindM_def)
  from bindM_Inr [OF this] obtain w where "?rem v d3 = (Inr w, d')" and acc': "acc' = (None, v)"
    by (auto simp: retM_def)
  moreover have "quiet view (?rem v)"
    by (intro quiet_rules log_http_error_quiet remove_cookie_rule_quiet [OF c]) simp
  ultimately have "view d' = view d3" by (blast dest: quietD)
  with d3 d2 v(2) vf acc' show ?thesis by (simp add: virtual_for_key)
qed

lemma create_listener_effect:
  assumes ok: "endpoint_ok (sdk_virtual S) bkey view" and c: "confined S (only KVirtual) view"
    and run: "create_listener ip A S E svc lb li ds = (Inr err, li', ds')"
  shows "err = None \<and> (\<exists>po. li' = virtual_listener A lb po li) \<and>
    list_all2 (\<lambda>d d'. \<exists>v. virtual_for A lb li (default_pool_id li (get_all (sv_pools svc))) v \<and>
      view d' = (view d)(listener_key A lb li := Some v)) ds ds'"
proof -
  let ?pid = "default_pool_id li (get_all (sv_pools svc))"
  obtain vip li1 t acc where g: "get_virtual ip A svc lb li = Inr (vip, li1)"
    and r: "for_bigips (create_listener_on A S E (get_or '''' (lb_network_id lb)) t li1) (None, vip) ds = (Inr acc, ds')"
    and err: "err = fst acc"
    using run by (auto simp: create_listener_def Let_def split: sum.splits prod.splits)
  have "(fst acc = None \<and> virtual_for A lb li ?pid (snd acc)) \<and>
      list_all2 (\<lambda>d d'. \<exists>v. virtual_for A lb li ?pid v \<and> view d' = (view d)(listener_key A lb li := Some v)) ds ds'"
  proof (rule for_bigips_returns [OF _ _ r])
    show "fst (None, vip) = None \<and> virtual_for A lb li ?pid (snd (None, vip))" by (simp add: get_virtual_for [OF g])
  qed (use create_listener_on_effect [OF ok c] in blast)
  with err create_listener_listener [OF run] show ?thesis by auto
qed


lemma delete_listener_on_effect:
  assumes ok: "endpoint_ok (sdk_virtual S) bkey view" and c: "confined S (only KVirtual) view"
    and run: "delete_listener_on A S t nm None d = (Inr err, d')"
  shows "err = None \<and> view d' = (view d)(bkey nm := None)"
proof -
  obtain d1 where d1: "delete_attempt (sdk_virtual S) VirtualServerDeleteException (bn_name nm) (bn_partition nm) d = (None, d1)"
    "view d1 = (view d)(bkey nm := None)"
    using delete_attempt_ok [OF ok, of VirtualServerDeleteException "bn_name nm" "bn_partition nm" d] by (auto simp: bkey_def)
  from run have "bindM (remove_ssl_profiles A S t) (\<lambda>_. bindM (log_http_error (remove_cookie_persist_rule S nm)) (\<lambda>_. retM None)) d1 = (Inr err, d')"
    by (simp add: delete_listener_on_def bindM_def [of "keep_error a e" for a e] keep_error_def d1(1))
  moreover have "quiet view (bindM (remove_ssl_profiles A S t) (\<lambda>_. bindM (log_http_error (remove_cookie_persist_rule S nm)) (\<lambda>_. retM (None :: f5exn option))))"
    by (intro quiet_rules remove_ssl_quiet [OF c] log_http_error_quiet remove_cookie_rule_quiet [OF c]) (simp_all add: only_away)
  ultimately have "view d' = view d1" "err = None" by (blast dest: quietD, fastforce simp: retM_def dest!: bindM_Inr)
  with d1(2) show ?thesis by simp
qed

lemma delete_listener_effect:
  assumes "endpoint_ok (sdk_virtual S) bkey view" and "confined S (only KVirtual) view"
    and run: "delete_listener A S lb li ds = (Inr err, ds')"
  shows "err = None \<and> list_all2 (\<lambda>d d'. view d' = (view d)(listener_key A lb li := None)) ds ds'"
proof -
  let ?nm = "init_virtual_name A lb li"
  obtain t where "for_bigips (delete_listener_on A S t ?nm) None ds = (Inr err, ds')"
    using run by (auto simp: delete_listener_def split: sum.splits)
  moreover have "bkey ?nm = listener_key A lb li" by (simp add: bkey_def listener_key_def init_virtual_name_def)
  ultimately show ?thesis
    using for_bigips_returns [where Q = "\<lambda>e. e = None" and G = "\<lambda>d d'. view d' = (view d)(bkey ?nm := None)"
        and acc = None and acc' = err and ds = ds and ds' = ds' and body = "delete_listener_on A S t ?nm"]
      delete_listener_on_effect [OF assms(1,2)] by (simp del: fun_upd_apply)
qed

definition li_tag :: "listener \<Rightarrow> string \<times> pstatus" where
  "li_tag li = (li_id li, li_status li)"

lemma virtual_listener_tag [simp]: "li_tag (virtual_listener A lb po li) = li_tag li"
  by (simp add: li_tag_def virtual_listener_def)

lemma assure_listener_created_effect:
  assumes "endpoint_ok (sdk_virtual (be_sdk E)) bkey view" and "confined (be_sdk E) (only KVirtual) view"
    and run: "assure_listener_created E svc lb li st = (Inr (), li', st')"
  shows "li_tag li' = li_tag li \<and> fst st' = fst st \<and>
    (if li_status li \<in> set (be_const_status E)
     then list_all2 (\<lambda>d d'. \<exists>v. virtual_for (be_adapter E) lb li (default_pool_id li (get_all (sv_pools svc))) v \<and>
            view d' = (view d)(listener_key (be_adapter E) lb li := Some v)) (snd st) (snd st')
     else snd st' = snd st)"
proof (cases "li_status li \<in> set (be_const_status E)")
  case True
  from run True obtain err li1 bs where c: "create_listener (be_ip_version E) (be_adapter E) (be_sdk E) (be_ssl E) svc lb li (snd st)
      = (Inr err, li1, bs)"
    by (auto simp: assure_listener_created_def split: sum.splits prod.splits)
  note e = create_listener_effect [OF assms(1,2) c]
  from e have "li_tag li1 = li_tag li" by auto
  with run True c e show ?thesis
    by (auto simp: assure_listener_created_def li_tag_def split: option.splits if_splits)
qed (use run in \<open>auto simp: assure_listener_created_def\<close>)

section \<open>Virtual addresses\<close>

lemma va_all_effect:
  assumes ok: "endpoint_ok (sdk_va (be_sdk E)) bkey view"
  shows "\<exists>ds'. assure_va_all E va ds = (False, ds') \<and> list_all2 (\<lambda>d d'. view d' = (view d)(bkey va := Some va)) ds ds'"
proof -
  have "\<exists>ds'. for_bigips (assure_va_on E va) False ds = (Inr False, ds') \<and>
      list_all2 (\<lambda>d d'. view d' = (view d)(bkey va := Some va)) ds ds'"
  proof (induction ds)
    case (Cons d ds)
    from va_assure_ok [OF ok, of va False d] obtain d' where "va_assure (be_sdk E) va False d = (Inr (), d')"
      "view d' = (view d)(bkey va := Some va)" by auto
    with Cons.IH show ?case by (auto simp: assure_va_on_def)
  qed simp
  then show ?thesis by (auto simp: assure_va_all_def)
qed

lemma va_delete_effect:
  assumes ok: "endpoint_ok (sdk_va S) bkey view"
  shows "for_bigips (\<lambda>_. va_assure S va True) () ds = (Inr (), ds') \<Longrightarrow>
    list_all2 (\<lambda>d d'. view d' = (view d)(bkey va := None)) ds ds'"
proof (induction ds arbitrary: ds')
  case (Cons d ds)
  from va_assure_ok [OF ok, of va True d] obtain d' where "va_assure S va True d = (Inr (), d')"
    "view d' = (view d)(bkey va := None)" by auto
  with Cons show ?case by (auto split: prod.splits)
qed simp


section \<open>The phases\<close>

text \<open>What a phase that returns keeps of the service: its load balancer, the listeners up to their policy,
  ids and statuses of its pools.\<close>

definition li_core :: "listener \<Rightarrow> listener" where
  "li_core li = li\<lparr>li_f5_policy := None\<rparr>"

definition svc_lb :: "service \<Rightarrow> loadbalancer option \<times> (string \<times> pstatus) list option" where
  "svc_lb svc = (sv_loadbalancer svc, map_option (map pool_tag) (sv_pools svc))"

definition svc_core :: "service \<Rightarrow> (loadbalancer option \<times> (string \<times> pstatus) list option) \<times> listener list option" where
  "svc_core svc = (svc_lb svc, map_option (map li_core) (sv_listeners svc))"

definition retains :: "(service \<Rightarrow> 'a) \<Rightarrow> 'x phase \<Rightarrow> bool" where
  "retains f ph \<longleftrightarrow> (\<forall>s s'. ph s = (Inr (), s') \<longrightarrow> f (bs_service s') = f (bs_service s))"

lemma retainsI: "(\<And>s s'. ph s = (Inr (), s') \<Longrightarrow> f (bs_service s') = f (bs_service s)) \<Longrightarrow> retains f ph"
  unfolding retains_def by blast

lemma retainsD: "retains f ph \<Longrightarrow> ph s = (Inr (), s') \<Longrightarrow> f (bs_service s') = f (bs_service s)"
  unfolding retains_def by blast

lemma run_phases_Cons:
  "run_phases (ph # phs) s = (Inr u, s') \<longleftrightarrow> (\<exists>s1. ph s = (Inr (), s1) \<and> run_phases phs s1 = (Inr u, s'))"
  by (auto split: prod.splits sum.splits)

lemma retains_run: "(\<And>ph. ph \<in> set phs \<Longrightarrow> retains f ph) \<Longrightarrow> retains f (run_phases phs)"
proof (induction phs)
  case (Cons ph phs)
  have "retains f ph" "retains f (run_phases phs)" using Cons by auto
  then show ?case unfolding retains_def run_phases_Cons by metis
qed (simp add: retains_def)

lemma mod_service_bigips [simp]: "bs_bigips (mod_service f s) = bs_bigips s"
  by (simp add: mod_service_def)

lemma loadbalancer_created_effect:
  assumes ok: "endpoint_ok (sdk_va (be_sdk E)) bkey view"
    and run: "assure_loadbalancer_created E s = (Inr (), s')" and lb: "sv_loadbalancer (bs_service s) = Some lb"
  shows "bs_service s' = bs_service s \<and>
    (if lb_status lb \<in> set (be_const_status E)
     then list_all2 (\<lambda>d d'. view d' = (view d)(bkey (va_init (be_adapter E) lb) := Some (va_init (be_adapter E) lb)))
            (bs_bigips s) (bs_bigips s')
     else bs_bigips s' = bs_bigips s)"
proof -
  let ?va = "va_init (be_adapter E) lb"
  let ?s1 = "assure_lb_address E lb s"
  obtain ds' where ds': "assure_va_all E ?va (bs_bigips s) = (False, ds')"
    "list_all2 (\<lambda>d d'. view d' = (view d)(bkey ?va := Some ?va)) (bs_bigips s) ds'"
    using va_all_effect [OF ok] by blast
  have 1: "bs_service ?s1 = bs_service s" "bs_bigips ?s1 = (if lb_status lb \<in> set (be_const_status E) then ds' else bs_bigips s)"
    using ds'(1) by (auto simp: assure_lb_address_def mod_service_def)
  have "s' = ?s1 \<or> (\<exists>st sn n. update_subnet_hints st sn n False ?s1 = (Inr (), s'))"
    using run lb by (auto simp: assure_loadbalancer_created_def Let_def split: option.splits sum.splits)
  then have "bs_service s' = bs_service ?s1 \<and> bs_bigips s' = bs_bigips ?s1" using update_subnet_hints_same by blast
  with 1 ds'(2) show ?thesis by simp
qed

lemma loadbalancer_deleted_effect:
  assumes ok: "endpoint_ok (sdk_va (be_sdk E)) bkey view"
    and run: "assure_loadbalancer_deleted E s = (Inr (), s')" and lb: "sv_loadbalancer (bs_service s) = Some lb"
  shows "if lb_status lb = PENDING_DELETE
     then list_all2 (\<lambda>d d'. view d' = (view d)(bkey (va_init (be_adapter E) lb) := None)) (bs_bigips s) (bs_bigips s')
     else bs_bigips s' = bs_bigips s"
proof (cases "lb_status lb = PENDING_DELETE")
  case True
  with run lb obtain ds' where "for_bigips (\<lambda>_. va_assure (be_sdk E) (va_init (be_adapter E) lb) True) () (bs_bigips s) = (Inr (), ds')"
    "bs_bigips s' = ds'"
    by (auto simp: assure_loadbalancer_deleted_def split: option.splits sum.splits prod.splits)
  with True va_delete_effect [OF ok] show ?thesis by simp
qed (use run lb in \<open>auto simp: assure_loadbalancer_deleted_def\<close>)

lemma monitors_created_effect:
  assumes ok: "\<And>t. endpoint_ok (sdk_monitor (be_sdk E) t) bkey (view t)"
    and run: "assure_monitors_created E s = (Inr (), s')"
  shows "bs_service s' = bs_service s"
proof -
  let ?svc = "bs_service s"
  obtain hms bs where ip: "inplace (assure_monitor_created E ?svc) (get_all (sv_healthmonitors ?svc)) (bs_bigips s) = (Inr (), hms, bs)"
    and s': "s' = mod_service (set_monitors hms) (s\<lparr>bs_bigips := bs\<rparr>)"
    using run by (auto simp: assure_monitors_created_def split: prod.splits)
  have "hm' = hm" if step: "assure_monitor_created E ?svc hm st = (Inr (), hm', st')" for hm st hm' st'
  proof -
    have "err = None" if c: "create_healthmonitor A (be_sdk E) lb hm st = (Inr err, ds')" for A lb err ds'
    proof (cases "map_healthmonitor A lb hm")
      case (Inr bm)
      from create_healthmonitor_run [OF ok this, of st] c show ?thesis by auto
    qed (use c in \<open>simp add: create_healthmonitor_def\<close>)
    with step show ?thesis
      by (auto simp: assure_monitor_created_def split: if_splits prod.splits sum.splits option.splits)
  qed
  from inplace_tags [OF ip, where tag = "\<lambda>h. h" and Q = "\<lambda>_ _. True"] this
  have "hms = get_all (sv_healthmonitors ?svc)" by auto
  with s' show ?thesis by (cases "sv_healthmonitors ?svc") (simp_all add: set_monitors_def)
qed

lemma pools_created_effect:
  assumes ok: "endpoint_ok (sdk_pool (be_sdk E)) bkey view"
    and run: "assure_pools_created E s = (Inr (), s')" and lb: "sv_loadbalancer (bs_service s) = Some lb"
    and dist: "distinct (map po_id (get_all (sv_pools (bs_service s))))"
  shows "list_all2 (\<lambda>d d'. writes (\<lambda>p. po_status p \<in> set (be_const_status E)) (pool_key (be_adapter E) lb)
      (pool_wanted (be_adapter E) (bs_service s) lb) (get_all (sv_pools (bs_service s))) (view d) (view d'))
      (bs_bigips s) (bs_bigips s') \<and> svc_core (bs_service s') = svc_core (bs_service s)"
proof (cases "sv_pools (bs_service s)")
  case None
  with run show ?thesis by (auto simp: assure_pools_created_def intro: list_all2_refl)
next
  case (Some ps)
  let ?svc = "bs_service s"
  obtain ps' err bs where ip: "inplace (assure_pool_created E ?svc) ps (False, bs_bigips s) = (Inr (), ps', (err, bs))"
    and s': "s' = mod_service (\<lambda>svc. (if err then lb_error svc else svc)\<lparr>sv_pools := Some ps'\<rparr>) (s\<lparr>bs_bigips := bs\<rparr>)"
    using run Some by (auto simp: assure_pools_created_def split: prod.splits)
  note e = assure_pool_created_effect [OF ok lb]
  have "map pool_tag ps' = map pool_tag ps \<and> fst (err, bs) = fst (False, bs_bigips s)"
    by (rule inplace_tags [OF ip, where Q = "\<lambda>a b. fst b = fst a"]) (auto dest: e)
  moreover have "list_all2 (\<lambda>d d'. writes (\<lambda>p. po_status p \<in> set (be_const_status E)) (pool_key (be_adapter E) lb)
      (pool_wanted (be_adapter E) ?svc lb) ps (view d) (view d')) (snd (False, bs_bigips s)) (snd (err, bs))"
    by (rule inplace_writes [OF ip, where dev = snd and view = view]) (use dist Some e in \<open>auto simp: pool_keys_distinct\<close>)
  ultimately show ?thesis using s' Some by (simp add: svc_core_def svc_lb_def)
qed


lemma upd_pool_tags:
  "(\<And>p. get_obj po_id ps i = Some p \<Longrightarrow> pool_tag p' = pool_tag p) \<Longrightarrow> map pool_tag (upd_obj po_id i (\<lambda>_. p') ps) = map pool_tag ps"
  by (induction ps) auto

lemma pool_group_retains: "retains svc_core (assure_pool_group E lb i)"
proof (rule retainsI)
  fix s s'
  assume run: "assure_pool_group E lb i s = (Inr (), s')"
  let ?svc = "bs_service s"
  let ?ms = "filter (member_grouped E i) (get_all (sv_members ?svc))"
  obtain p where p: "get_pool_by_id ?svc (Some i) = Some p"
    using run by (auto simp: assure_pool_group_def Let_def split: option.splits)
  obtain r1 p' ms' bs where a: "assure_pool_members (be_adapter E) (be_sdk E) lb p ?ms (bs_bigips s) = (r1, p', ms', bs)"
    by (cases "assure_pool_members (be_adapter E) (be_sdk E) lb p ?ms (bs_bigips s)") auto
  have "pool_tag p' = pool_tag p" using assure_pool_members_pool [OF a] by (simp add: pool_tag_def)
  moreover have "get_obj po_id (get_all (sv_pools ?svc)) i = Some p"
    using p by (auto simp: get_pool_by_id_def split: if_splits)
  ultimately have "map_option (map pool_tag) (map_option (upd_obj po_id i (\<lambda>_. p')) (sv_pools ?svc)) = map_option (map pool_tag) (sv_pools ?svc)"
    by (cases "sv_pools ?svc") (auto intro!: upd_pool_tags)
  with run p a show "svc_core (bs_service s') = svc_core ?svc"
    by (auto simp: assure_pool_group_def Let_def svc_core_def svc_lb_def put_members_def split: sum.splits prod.splits)
qed

lemma members_retains: "retains svc_core (assure_members E)"
proof (rule retainsI)
  fix s s'
  assume run: "assure_members E s = (Inr (), s')"
  have "s' = s \<or> (\<exists>lb ms. run_phases (map (assure_pool_group E lb) (grouped_pools E ms)) s = (Inr (), s'))"
    using run by (auto simp: assure_members_def split: option.splits if_splits)
  moreover have "retains svc_core (run_phases (map (assure_pool_group E lb) (grouped_pools E ms)))" for lb ms
    by (rule retains_run) (auto intro: pool_group_retains)
  ultimately show "svc_core (bs_service s') = svc_core (bs_service s)" by (metis retainsD)
qed

lemma upd_listener_cores: "map li_core (upd_obj li_id i (\<lambda>li. li\<lparr>li_f5_policy := pol\<rparr>) ls) = map li_core ls"
  by (induction ls) (auto simp: li_core_def)

lemma l7_listener_retains:
  assumes ok: "endpoint_ok (sdk_l7policy (be_sdk E)) fp_key view"
  shows "retains svc_core (assure_l7_listener E entry)"
proof (rule retainsI)
  fix s s'
  assume run: "assure_l7_listener E entry s = (Inr (), s')"
  obtain bs where "create_l7_entry E (snd entry) (bs_bigips s) = (Inr None, bs)"
  proof (cases "os_f5_policy (snd entry)")
    case (Some fp)
    with create_l7policy_run [OF ok, of fp "bs_bigips s"] that show thesis
      by (cases "fp_rules fp = []") (auto simp: create_l7_entry_def)
  qed (use that in \<open>simp add: create_l7_entry_def\<close>)
  with run show "svc_core (bs_service s') = svc_core (bs_service s)"
    by (cases "sv_listeners (bs_service s)")
      (auto simp: assure_l7_listener_def svc_core_def svc_lb_def upd_listener_cores)
qed

lemma l7policies_created_retains:
  assumes "endpoint_ok (sdk_l7policy (be_sdk E)) fp_key view"
  shows "retains svc_core (assure_l7policies_created E)"
proof (rule retainsI)
  fix s s'
  assume run: "assure_l7policies_created E s = (Inr (), s')"
  have "s' = s \<or> (\<exists>en. run_phases (map (assure_l7_listener E) en) s = (Inr (), s'))"
    using run by (auto simp: assure_l7policies_created_def split: option.splits sum.splits)
  moreover have "retains svc_core (run_phases (map (assure_l7_listener E) en))" for en
    by (rule retains_run) (auto intro: l7_listener_retains [OF assms])
  ultimately show "svc_core (bs_service s') = svc_core (bs_service s)" by (metis retainsD)
qed

lemma delete_l7_listener_retains: "retains svc_lb (delete_l7_listener E entry)"
  by (rule retainsI) (auto simp: delete_l7_listener_def Let_def svc_lb_def set_l7policies_def split: prod.splits)

lemma l7policies_deleted_retains: "retains svc_lb (assure_l7policies_deleted E)"
proof (rule retainsI)
  fix s s'
  assume run: "assure_l7policies_deleted E s = (Inr (), s')"
  have "s' = s \<or> (\<exists>en bs. run_phases (map (delete_l7_listener E) en) (s\<lparr>bs_bigips := bs\<rparr>) = (Inr (), s'))"
    using run by (auto simp: assure_l7policies_deleted_def Let_def split: option.splits sum.splits prod.splits)
  moreover have r: "retains svc_lb (run_phases (map (delete_l7_listener E) en))" for en
    by (rule retains_run) (auto intro: delete_l7_listener_retains)
  ultimately show "svc_lb (bs_service s') = svc_lb (bs_service s)" by (auto dest!: retainsD [OF r])
qed

lemma listeners_created_effect:
  assumes ok: "endpoint_ok (sdk_virtual (be_sdk E)) bkey view" "confined (be_sdk E) (only KVirtual) view"
    and run: "assure_listeners_created E s = (Inr (), s')" and lb: "sv_loadbalancer (bs_service s) = Some lb"
    and dist: "distinct (map li_id (get_all (sv_listeners (bs_service s))))"
  shows "list_all2 (\<lambda>d d'. writes (\<lambda>li. li_status li \<in> set (be_const_status E)) (listener_key (be_adapter E) lb)
      (\<lambda>li v. \<exists>w. v = Some w \<and> virtual_for (be_adapter E) lb li (default_pool_id li (get_all (sv_pools (bs_service s)))) w)
      (get_all (sv_listeners (bs_service s))) (view d) (view d'))
      (bs_bigips s) (bs_bigips s') \<and> svc_lb (bs_service s') = svc_lb (bs_service s) \<and>
    map_option (map li_tag) (sv_listeners (bs_service s')) = map_option (map li_tag) (sv_listeners (bs_service s))"
proof (cases "sv_listeners (bs_service s)")
  case None
  with run show ?thesis by (auto simp: assure_listeners_created_def intro: list_all2_refl)
next
  case (Some lis)
  let ?svc = "bs_service s"
  let ?R = "\<lambda>li v. \<exists>w. v = Some w \<and> virtual_for (be_adapter E) lb li (default_pool_id li (get_all (sv_pools ?svc))) w"
  obtain lis' err bs where ip: "inplace (assure_listener_created E ?svc lb) lis (False, bs_bigips s) = (Inr (), lis', (err, bs))"
    and s': "s' = mod_service (\<lambda>svc. (if err then lb_error svc else svc)\<lparr>sv_listeners := Some lis'\<rparr>) (s\<lparr>bs_bigips := bs\<rparr>)"
    using run Some lb by (auto simp: assure_listeners_created_def split: prod.splits)
  note e = assure_listener_created_effect [OF ok]
  have "map li_tag lis' = map li_tag lis \<and> fst (err, bs) = fst (False, bs_bigips s)"
    by (rule inplace_tags [OF ip, where Q = "\<lambda>a b. fst b = fst a"]) (auto dest: e)
  moreover have "list_all2 (\<lambda>d d'. writes (\<lambda>li. li_status li \<in> set (be_const_status E)) (listener_key (be_adapter E) lb)
      ?R lis (view d) (view d')) (snd (False, bs_bigips s)) (snd (err, bs))"
  proof (rule inplace_writes [OF ip, where dev = snd and view = view])
    show "distinct (map (listener_key (be_adapter E) lb) lis)" using dist Some by (simp add: listener_keys_distinct)
  next
    fix li st li' st'
    assume step: "assure_listener_created E ?svc lb li st = (Inr (), li', st')"
    show "list_all2 (\<lambda>d d'. \<exists>v. ?R li v \<and> view d' = (view d)(listener_key (be_adapter E) lb li := v)) (snd st) (snd st')"
      if "li_status li \<in> set (be_const_status E)"
      using e [OF step] that by (auto elim!: list_all2_mono simp del: fun_upd_apply)
    show "map view (snd st') = map view (snd st)" if "li_status li \<notin> set (be_const_status E)"
      using e [OF step] that by simp
  qed
  ultimately show ?thesis using s' Some by (simp add: svc_lb_def)
qed

lemma listeners_deleted_effect:
  assumes ok: "endpoint_ok (sdk_virtual (be_sdk E)) bkey view" "confined (be_sdk E) (only KVirtual) view"
    and run: "assure_listeners_deleted E s = (Inr (), s')" and lb: "sv_loadbalancer (bs_service s) = Some lb"
    and dist: "distinct (map li_id (get_all (sv_listeners (bs_service s))))"
  shows "list_all2 (\<lambda>d d'. writes (\<lambda>li. li_status li = PENDING_DELETE) (listener_key (be_adapter E) lb)
      (\<lambda>li v. v = None) (get_all (sv_listeners (bs_service s))) (view d) (view d'))
      (bs_bigips s) (bs_bigips s') \<and> svc_lb (bs_service s') = svc_lb (bs_service s)"
proof (cases "sv_listeners (bs_service s)")
  case None
  with run show ?thesis by (auto simp: assure_listeners_deleted_def intro: list_all2_refl)
next
  case (Some lis)
  obtain lis' bs where ip: "inplace (assure_listener_deleted E lb) lis (bs_bigips s) = (Inr (), lis', bs)"
    and s': "s' = mod_service (\<lambda>svc. svc\<lparr>sv_listeners := Some lis'\<rparr>) (s\<lparr>bs_bigips := bs\<rparr>)"
    using run Some lb by (auto simp: assure_listeners_deleted_def split: prod.splits)
  have "list_all2 (\<lambda>d d'. writes (\<lambda>li. li_status li = PENDING_DELETE) (listener_key (be_adapter E) lb)
      (\<lambda>li v. v = None) lis (view d) (view d')) (bs_bigips s) bs"
  proof (rule inplace_writes [OF ip, where dev = "\<lambda>d. d" and view = view])
    show "distinct (map (listener_key (be_adapter E) lb) lis)" using dist Some by (simp add: listener_keys_distinct)
  next
    fix li st li' st'
    assume step: "assure_listener_deleted E lb li st = (Inr (), li', st')"
    show "list_all2 (\<lambda>d d'. \<exists>v. v = None \<and> view d' = (view d)(listener_key (be_adapter E) lb li := v)) st st'"
      if pd: "li_status li = PENDING_DELETE"
    proof -
      obtain err where "delete_listener (be_adapter E) (be_sdk E) lb li st = (Inr err, st')"
        using step pd by (auto simp: assure_listener_deleted_def split: sum.splits prod.splits option.splits)
      from delete_listener_effect [OF ok this] show ?thesis by (simp del: fun_upd_apply)
    qed
    show "map view st' = map view st" if "li_status li \<noteq> PENDING_DELETE"
      using step that by (simp add: assure_listener_deleted_def)
  qed
  with s' Some show ?thesis by (simp add: svc_lb_def)
qed

lemma pools_deleted_effect:
  assumes ok: "endpoint_ok (sdk_pool (be_sdk E)) bkey view" "confined (be_sdk E) (only KPool) view"
    and run: "assure_pools_deleted E s = (Inr (), s')" and lb: "sv_loadbalancer (bs_service s) = Some lb"
    and dist: "distinct (map po_id (get_all (sv_pools (bs_service s))))"
  shows "list_all2 (\<lambda>d d'. writes (\<lambda>p. po_status p = PENDING_DELETE) (pool_key (be_adapter E) lb)
      (\<lambda>p v. v = None) (get_all (sv_pools (bs_service s))) (view d) (view d'))
      (bs_bigips s) (bs_bigips s') \<and> sv_loadbalancer (bs_service s') = sv_loadbalancer (bs_service s)"
proof (cases "sv_pools (bs_service s)")
  case None
  with run show ?thesis by (auto simp: assure_pools_deleted_def intro: list_all2_refl)
next
  case (Some ps)
  let ?svc = "bs_service s"
  obtain ps' bs where ip: "inplace (assure_pool_deleted E ?svc lb) ps (bs_bigips s) = (Inr (), ps', bs)"
    and s': "s' = mod_service (\<lambda>svc. svc\<lparr>sv_pools := Some ps'\<rparr>) (s\<lparr>bs_bigips := bs\<rparr>)"
    using run Some lb by (auto simp: assure_pools_deleted_def split: prod.splits)
  have "list_all2 (\<lambda>d d'. writes (\<lambda>p. po_status p = PENDING_DELETE) (pool_key (be_adapter E) lb)
      (\<lambda>p v. v = None) ps (view d) (view d')) (bs_bigips s) bs"
  proof (rule inplace_writes [OF ip, where dev = "\<lambda>d. d" and view = view])
    show "distinct (map (pool_key (be_adapter E) lb) ps)" using dist Some by (simp add: pool_keys_distinct)
  next
    fix p st p' st'
    assume step: "assure_pool_deleted E ?svc lb p st = (Inr (), p', st')"
    show "list_all2 (\<lambda>d d'. \<exists>v. v = None \<and> view d' = (view d)(pool_key (be_adapter E) lb p := v)) st st'"
      if pd: "po_status p = PENDING_DELETE"
    proof -
      obtain err p1 ms where "delete_pool (be_adapter E) (be_sdk E) lb p ms st = (Inr err, p1, st')"
        using step pd by (auto simp: assure_pool_deleted_def split: sum.splits prod.splits option.splits)
      from delete_pool_effect [OF ok this] show ?thesis by (simp del: fun_upd_apply)
    qed
    show "map view st' = map view st" if "po_status p \<noteq> PENDING_DELETE"
      using step that by (simp add: assure_pool_deleted_def)
  qed
  with s' Some show ?thesis by simp
qed

lemma monitors_deleted_retains: "retains sv_loadbalancer (assure_monitors_deleted E)"
  by (rule retainsI) (auto simp: assure_monitors_deleted_def set_monitors_def split: option.splits prod.splits)


section \<open>The whole service\<close>

text \<open>The objects \<open>x\<close> with \<open>A x\<close> are as \<open>R x\<close> says, those with \<open>B x\<close> are gone, nothing else changed.\<close>

definition settled ::
  "('x \<Rightarrow> bool) \<Rightarrow> ('x \<Rightarrow> bool) \<Rightarrow> ('x \<Rightarrow> 'k) \<Rightarrow> ('x \<Rightarrow> 'm option \<Rightarrow> bool) \<Rightarrow> 'x list \<Rightarrow> ('k \<Rightarrow> 'm option) \<Rightarrow> ('k \<Rightarrow> 'm option) \<Rightarrow> bool" where
  "settled A B key R xs t t' \<longleftrightarrow>
     (\<forall>x \<in> set xs. (A x \<longrightarrow> R x (t' (key x))) \<and> (B x \<longrightarrow> t' (key x) = None)) \<and>
     (\<forall>k. k \<notin> key ` {x \<in> set xs. A x \<or> B x} \<longrightarrow> t' k = t k)"

lemma writes_then:
  assumes w1: "writes A key R xs t t1" and w2: "writes B key (\<lambda>_ v. v = None) xs t1 t2"
    and dist: "distinct (map key xs)" and excl: "\<And>x. A x \<Longrightarrow> \<not> B x"
  shows "settled A B key R xs t t2"
proof -
  have keep: "t2 k = t1 k" if "k \<notin> key ` {y \<in> set xs. B y}" for k using w2 that unfolding writes_def by blast
  have "t2 (key x) = t1 (key x)" if "x \<in> set xs" "A x" for x
  proof (rule keep)
    show "key x \<notin> key ` {y \<in> set xs. B y}"
      using that excl [OF that(2)] dist by (auto simp: distinct_map dest: inj_onD)
  qed
  moreover have "t2 k = t k" if "k \<notin> key ` {x \<in> set xs. A x \<or> B x}" for k
  proof -
    have "k \<notin> key ` {y \<in> set xs. B y}" "k \<notin> key ` {y \<in> set xs. A y}" using that by auto
    with keep [of k] w1 show ?thesis unfolding writes_def by simp
  qed
  ultimately show ?thesis using w1 w2 unfolding settled_def writes_def by simp
qed

lemma writes_map:
  "writes T key R xs t t' \<longleftrightarrow>
     (let us = set (map (\<lambda>x. (T x, key x, R x)) xs)
      in (\<forall>(b, k, r) \<in> us. b \<longrightarrow> r (t' k)) \<and> (\<forall>k. (\<forall>(b, k', r) \<in> us. b \<longrightarrow> k' \<noteq> k) \<longrightarrow> t' k = t k))"
proof -
  have "k \<notin> key ` {x \<in> set xs. T x} \<longleftrightarrow> (\<forall>x \<in> set xs. T x \<longrightarrow> key x \<noteq> k)" for k by auto
  then show ?thesis by (simp add: writes_def Let_def)
qed

lemma writes_cong:
  assumes "map g xs = map g ys" and "\<And>x y. g x = g y \<Longrightarrow> T x = T y \<and> key x = key y \<and> R x = R' y"
  shows "writes T key R xs t t' \<longleftrightarrow> writes T key R' ys t t'"
proof -
  have "map (\<lambda>x. (T x, key x, R x)) xs = map (\<lambda>y. (T y, key y, R' y)) ys"
  proof (rule nth_equalityI)
    have len: "length xs = length ys" by (metis assms(1) length_map)
    then show "length (map (\<lambda>x. (T x, key x, R x)) xs) = length (map (\<lambda>y. (T y, key y, R' y)) ys)" by simp
    fix i assume "i < length (map (\<lambda>x. (T x, key x, R x)) xs)"
    then have i: "i < length xs" "i < length ys" using len by simp_all
    have "g (xs ! i) = g (ys ! i)" by (metis assms(1) i nth_map)
    from assms(2) [OF this] i
    show "map (\<lambda>x. (T x, key x, R x)) xs ! i = map (\<lambda>y. (T y, key y, R' y)) ys ! i" by simp
  qed
  then show ?thesis unfolding writes_map by simp
qed

lemma leaves:
  assumes "isolates E (only k) ks view ph" and "k \<notin> ks" and "ph s = (r, s')"
  shows "map view (bs_bigips s') = map view (bs_bigips s)"
  using isolatesD [OF assms(1,3) foreign_only [OF assms(2)]] by simp

lemma writes_after:
  "map view b = map view a \<Longrightarrow> map view d = map view c \<Longrightarrow> list_all2 (\<lambda>x y. P (view x) (view y)) b c \<Longrightarrow>
    list_all2 (\<lambda>x y. P (view x) (view y)) a d"
  by (auto simp: list_all2_conv_all_nth list_eq_iff_nth_eq)

text \<open>A table written twice, with phases before, between and after that leave it alone. The second time the
  objects are those the first phases left, of which \<open>g\<close> is known.\<close>

lemma settled_phases:
  assumes before: "map view b = map view a"
    and w1: "list_all2 (\<lambda>x y. writes A key R0 xs0 (view x) (view y)) b c"
    and between: "map view d = map view c"
    and w2: "list_all2 (\<lambda>x y. writes B key (\<lambda>_ v. v = None) xs1 (view x) (view y)) d e"
    and after: "map view z = map view e"
    and f: "map f xs0 = map f xs" "\<And>x y. f x = f y \<Longrightarrow> A x = A y \<and> key x = key y \<and> R0 x = R y"
    and g: "map g xs1 = map g xs" "\<And>x y. g x = g y \<Longrightarrow> B x = B y \<and> key x = key y"
    and dist: "distinct (map key xs)" and excl: "\<And>x. A x \<Longrightarrow> \<not> B x"
  shows "list_all2 (\<lambda>x y. settled A B key R xs (view x) (view y)) a z"
proof -
  have 1: "writes A key R0 xs0 = writes A key R xs"
    by (intro ext) (rule writes_cong [OF f])
  have 2: "writes B key (\<lambda>_ v. v = None) xs1 = writes B key (\<lambda>_ v. v = None) xs"
    by (intro ext, rule writes_cong [OF g(1)]) (drule g(2), blast)
  have "list_all2 (\<lambda>x y. writes A key R xs (view x) (view y)) a c"
    using writes_after [where P = "writes A key R xs", OF before refl] w1 unfolding 1 by blast
  moreover have "list_all2 (\<lambda>x y. writes B key (\<lambda>_ v. v = None) xs (view x) (view y)) c z"
    using writes_after [where P = "writes B key (\<lambda>_ v. v = None) xs", OF between after] w2 unfolding 2 by blast
  ultimately show ?thesis
    by (rule list_all2_trans [OF _, rotated]) (rule writes_then [OF _ _ dist excl])
qed

lemma default_pool_tags:
  assumes "map pool_tag ps = map pool_tag qs"
  shows "default_pool_id li ps = default_pool_id li qs"
proof -
  have "rel_option (\<lambda>p q. pool_tag p = pool_tag q) (get_obj po_id ps i) (get_obj po_id qs i)" for i
    using assms by (induction ps arbitrary: qs) (auto simp: pool_tag_def Cons_eq_map_conv)
  note rel = this
  show ?thesis
  proof (cases "li_default_pool_id li")
    case (Some i)
    with rel [of i] show ?thesis
      by (cases "get_obj po_id ps i"; cases "get_obj po_id qs i")
        (auto simp: default_pool_id_def get_vip_default_pool_def pool_tag_def)
  qed (simp add: default_pool_id_def get_vip_default_pool_def)
qed


lemma get_all_tags: "map_option (map g) a = map_option (map g) b \<Longrightarrow> map g (get_all a) = map g (get_all b)"
  by (cases a; cases b) (auto simp: get_all_def)

lemma distinct_tags: "map g xs = map g ys \<Longrightarrow> (\<And>x y. g x = g y \<Longrightarrow> f x = f y) \<Longrightarrow> distinct (map f ys) \<Longrightarrow> distinct (map f xs)"
proof -
  assume "map g xs = map g ys" and f: "\<And>x y. g x = g y \<Longrightarrow> f x = f y"
  then have "list_all2 (\<lambda>x y. g x = g y) xs ys" by (simp add: list_all2_map1 list_all2_map2 list.rel_eq [symmetric] list_all2_conv_all_nth list_eq_iff_nth_eq)
  then have "list_all2 (\<lambda>x y. f x = f y) xs ys" by (rule list_all2_mono) (rule f)
  then have "map f xs = map f ys" by (simp add: list_all2_conv_all_nth list_eq_iff_nth_eq)
  then show "distinct (map f ys) \<Longrightarrow> distinct (map f xs)" by simp
qed

lemma li_core_eq:
  assumes "li_core x = li_core y"
  shows "li_id x = li_id y \<and> li_status x = li_status y \<and> li_admin_state_up x = li_admin_state_up y \<and>
    li_protocol_port x = li_protocol_port y \<and> li_default_pool_id x = li_default_pool_id y"
  using arg_cong [OF assms, of li_id] arg_cong [OF assms, of li_status] arg_cong [OF assms, of li_admin_state_up]
    arg_cong [OF assms, of li_protocol_port] arg_cong [OF assms, of li_default_pool_id]
  by (simp add: li_core_def)

text \<open>A run that returns, phase by phase, with what is known of the service before each phase that writes.\<close>

lemma li_core_tags: "map li_core xs = map li_core ys \<Longrightarrow> map li_tag xs = map li_tag ys"
proof -
  assume "map li_core xs = map li_core ys"
  then have "map (li_tag \<circ> li_core) xs = map (li_tag \<circ> li_core) ys" by (metis map_map)
  moreover have "li_tag \<circ> li_core = li_tag" by (auto simp: li_tag_def li_core_def)
  ultimately show ?thesis by simp
qed

lemma assure_service_chain:
  assumes ok: "ltm_ok (be_sdk E) V" and run: "assure_service E s = (Inr (), s')"
    and lb: "sv_loadbalancer (bs_service s) = Some lb"
    and dp: "distinct (map po_id (get_all (sv_pools (bs_service s))))"
    and dl: "distinct (map li_id (get_all (sv_listeners (bs_service s))))"
  obtains s1 s2 s3 s4 s5 s6 s7 s8 s9 s10 where
    "assure_loadbalancer_created E s = (Inr (), s1)" "assure_monitors_created E s1 = (Inr (), s2)"
    "assure_pools_created E s2 = (Inr (), s3)" "assure_members E s3 = (Inr (), s4)"
    "assure_l7policies_created E s4 = (Inr (), s5)" "assure_listeners_created E s5 = (Inr (), s6)"
    "assure_listeners_deleted E s6 = (Inr (), s7)" "assure_l7policies_deleted E s7 = (Inr (), s8)"
    "assure_pools_deleted E s8 = (Inr (), s9)" "assure_monitors_deleted E s9 = (Inr (), s10)"
    "assure_loadbalancer_deleted E s10 = (Inr (), s')"
    "bs_service s2 = bs_service s" "svc_core (bs_service s5) = svc_core (bs_service s)"
    "sv_loadbalancer (bs_service s6) = Some lb"
    "map li_tag (get_all (sv_listeners (bs_service s6))) = map li_tag (get_all (sv_listeners (bs_service s)))"
    "svc_lb (bs_service s8) = svc_lb (bs_service s)" "sv_loadbalancer (bs_service s10) = Some lb"
proof -
  note okd = ltm_okD [OF ok]
  obtain s1 s2 s3 s4 s5 s6 s7 s8 s9 s10 where
    ph: "assure_loadbalancer_created E s = (Inr (), s1)" "assure_monitors_created E s1 = (Inr (), s2)"
    "assure_pools_created E s2 = (Inr (), s3)" "assure_members E s3 = (Inr (), s4)"
    "assure_l7policies_created E s4 = (Inr (), s5)" "assure_listeners_created E s5 = (Inr (), s6)"
    "assure_listeners_deleted E s6 = (Inr (), s7)" "assure_l7policies_deleted E s7 = (Inr (), s8)"
    "assure_pools_deleted E s8 = (Inr (), s9)" "assure_monitors_deleted E s9 = (Inr (), s10)"
    "assure_loadbalancer_deleted E s10 = (Inr (), s')"
    using run unfolding assure_service_def run_phases_Cons run_phases.simps(1) by auto
  have "bs_service s1 = bs_service s" using loadbalancer_created_effect [OF okd(3) ph(1) lb] by simp
  with monitors_created_effect [OF okd(5) ph(2)] have e2: "bs_service s2 = bs_service s" by simp
  have c5: "svc_core (bs_service s5) = svc_core (bs_service s)"
    using retainsD [OF l7policies_created_retains [OF okd(4)] ph(5)] retainsD [OF members_retains ph(4)]
      pools_created_effect [OF okd(1) ph(3)] lb dp e2 by simp
  then have lb5: "sv_loadbalancer (bs_service s5) = Some lb"
    and l5: "map li_core (get_all (sv_listeners (bs_service s5))) = map li_core (get_all (sv_listeners (bs_service s)))"
    using lb by (auto simp: svc_core_def svc_lb_def intro: get_all_tags)
  have dl5: "distinct (map li_id (get_all (sv_listeners (bs_service s5))))"
    by (rule distinct_tags [OF l5 _ dl]) (use li_core_eq in blast)
  note e6 = conjunct2 [OF listeners_created_effect [OF okd(2,7) ph(6) lb5 dl5]]
  have lb6: "sv_loadbalancer (bs_service s6) = Some lb" using e6 lb5 by (simp add: svc_lb_def)
  have "map li_tag (get_all (sv_listeners (bs_service s6))) = map li_tag (get_all (sv_listeners (bs_service s5)))"
    using e6 by (auto intro: get_all_tags)
  from trans [OF this li_core_tags [OF l5]]
  have l6: "map li_tag (get_all (sv_listeners (bs_service s6))) = map li_tag (get_all (sv_listeners (bs_service s)))" .
  have dl6: "distinct (map li_id (get_all (sv_listeners (bs_service s6))))"
    by (rule distinct_tags [OF l6 _ dl]) (simp add: li_tag_def)
  have c8: "svc_lb (bs_service s8) = svc_lb (bs_service s)"
    using retainsD [OF l7policies_deleted_retains ph(8)] listeners_deleted_effect [OF okd(2,7) ph(7) lb6 dl6] e6 c5
    by (simp add: svc_core_def)
  then have lb8: "sv_loadbalancer (bs_service s8) = Some lb" using lb by (simp add: svc_lb_def)
  have p8: "map pool_tag (get_all (sv_pools (bs_service s8))) = map pool_tag (get_all (sv_pools (bs_service s)))"
    using c8 by (auto simp: svc_lb_def intro: get_all_tags)
  have "distinct (map po_id (get_all (sv_pools (bs_service s8))))"
    by (rule distinct_tags [OF p8 _ dp]) (simp add: pool_tag_def)
  from pools_deleted_effect [OF okd(1,6) ph(9) lb8 this] retainsD [OF monitors_deleted_retains ph(10)] lb8
  have "sv_loadbalancer (bs_service s10) = Some lb" by simp
  from that [OF ph e2 c5 lb6 l6 c8 this] show thesis .
qed

lemma pools_settled:
  assumes ok: "ltm_ok (be_sdk E) V" and run: "assure_service E s = (Inr (), s')"
    and lb: "sv_loadbalancer (bs_service s) = Some lb"
    and pd: "PENDING_DELETE \<notin> set (be_const_status E)"
    and dp: "distinct (map po_id (get_all (sv_pools (bs_service s))))"
    and dl: "distinct (map li_id (get_all (sv_listeners (bs_service s))))"
  shows "list_all2 (\<lambda>d d'. settled (\<lambda>p. po_status p \<in> set (be_const_status E)) (\<lambda>p. po_status p = PENDING_DELETE)
      (pool_key (be_adapter E) lb) (pool_wanted (be_adapter E) (bs_service s) lb) (get_all (sv_pools (bs_service s)))
      (vw_pools V d) (vw_pools V d')) (bs_bigips s) (bs_bigips s')"
proof (rule assure_service_chain [OF ok run lb dp dl])
  fix s1 s2 s3 s4 s5 s6 s7 s8 s9 s10
  assume ph: "assure_loadbalancer_created E s = (Inr (), s1)" "assure_monitors_created E s1 = (Inr (), s2)"
    "assure_pools_created E s2 = (Inr (), s3)" "assure_members E s3 = (Inr (), s4)"
    "assure_l7policies_created E s4 = (Inr (), s5)" "assure_listeners_created E s5 = (Inr (), s6)"
    "assure_listeners_deleted E s6 = (Inr (), s7)" "assure_l7policies_deleted E s7 = (Inr (), s8)"
    "assure_pools_deleted E s8 = (Inr (), s9)" "assure_monitors_deleted E s9 = (Inr (), s10)"
    "assure_loadbalancer_deleted E s10 = (Inr (), s')"
    and e2: "bs_service s2 = bs_service s" and c8: "svc_lb (bs_service s8) = svc_lb (bs_service s)"
  have lb8: "sv_loadbalancer (bs_service s8) = Some lb" using c8 lb by (simp add: svc_lb_def)
  have p8: "map pool_tag (get_all (sv_pools (bs_service s8))) = map pool_tag (get_all (sv_pools (bs_service s)))"
    using c8 by (auto simp: svc_lb_def intro: get_all_tags)
  have dp8: "distinct (map po_id (get_all (sv_pools (bs_service s8))))"
    by (rule distinct_tags [OF p8 _ dp]) (simp add: pool_tag_def)
  note okd = ltm_okD [OF ok]
  note keep = leaves [where k = KPool and ks = "UNIV - {KPool}" and view = "vw_pools V"]
  show ?thesis
  proof (rule settled_phases [OF _ _ _ _ _ refl _ p8])
    show "map (vw_pools V) (bs_bigips s2) = map (vw_pools V) (bs_bigips s)"
      using keep [OF loadbalancer_created_isolates [OF okd(6)] _ ph(1)]
        keep [OF monitors_created_isolates [OF okd(6)] _ ph(2)] by simp
    show "map (vw_pools V) (bs_bigips s8) = map (vw_pools V) (bs_bigips s3)"
      using keep [OF members_isolates [OF okd(6)] _ ph(4)] keep [OF l7policies_created_isolates [OF okd(6)] _ ph(5)]
        keep [OF listeners_created_isolates [OF okd(6)] _ ph(6)] keep [OF listeners_deleted_isolates [OF okd(6)] _ ph(7)]
        keep [OF l7policies_deleted_isolates [OF okd(6)] _ ph(8)] by simp
    show "map (vw_pools V) (bs_bigips s') = map (vw_pools V) (bs_bigips s9)"
      using keep [OF monitors_deleted_isolates [OF okd(6)] _ ph(10)]
        keep [OF loadbalancer_deleted_isolates [OF okd(6)] _ ph(11)] by simp
  qed (use pools_created_effect [OF okd(1) ph(3)] pools_deleted_effect [OF okd(1,6) ph(9) lb8 dp8] e2 lb dp pd
      in \<open>auto simp: pool_keys_distinct pool_tag_def pool_key_def\<close>)
qed


lemma listeners_settled:
  assumes ok: "ltm_ok (be_sdk E) V" and run: "assure_service E s = (Inr (), s')"
    and lb: "sv_loadbalancer (bs_service s) = Some lb"
    and pd: "PENDING_DELETE \<notin> set (be_const_status E)"
    and dp: "distinct (map po_id (get_all (sv_pools (bs_service s))))"
    and dl: "distinct (map li_id (get_all (sv_listeners (bs_service s))))"
  shows "list_all2 (\<lambda>d d'. settled (\<lambda>li. li_status li \<in> set (be_const_status E)) (\<lambda>li. li_status li = PENDING_DELETE)
      (listener_key (be_adapter E) lb)
      (\<lambda>li v. \<exists>w. v = Some w \<and> virtual_for (be_adapter E) lb li (default_pool_id li (get_all (sv_pools (bs_service s)))) w)
      (get_all (sv_listeners (bs_service s))) (vw_virtuals V d) (vw_virtuals V d')) (bs_bigips s) (bs_bigips s')"
proof (rule assure_service_chain [OF ok run lb dp dl])
  fix s1 s2 s3 s4 s5 s6 s7 s8 s9 s10
  assume ph: "assure_loadbalancer_created E s = (Inr (), s1)" "assure_monitors_created E s1 = (Inr (), s2)"
    "assure_pools_created E s2 = (Inr (), s3)" "assure_members E s3 = (Inr (), s4)"
    "assure_l7policies_created E s4 = (Inr (), s5)" "assure_listeners_created E s5 = (Inr (), s6)"
    "assure_listeners_deleted E s6 = (Inr (), s7)" "assure_l7policies_deleted E s7 = (Inr (), s8)"
    "assure_pools_deleted E s8 = (Inr (), s9)" "assure_monitors_deleted E s9 = (Inr (), s10)"
    "assure_loadbalancer_deleted E s10 = (Inr (), s')"
    and c5: "svc_core (bs_service s5) = svc_core (bs_service s)" and lb6: "sv_loadbalancer (bs_service s6) = Some lb"
    and l6: "map li_tag (get_all (sv_listeners (bs_service s6))) = map li_tag (get_all (sv_listeners (bs_service s)))"
  have lb5: "sv_loadbalancer (bs_service s5) = Some lb"
    and l5: "map li_core (get_all (sv_listeners (bs_service s5))) = map li_core (get_all (sv_listeners (bs_service s)))"
    and p5: "map pool_tag (get_all (sv_pools (bs_service s5))) = map pool_tag (get_all (sv_pools (bs_service s)))"
    using c5 lb by (auto simp: svc_core_def svc_lb_def intro: get_all_tags)
  have dl5: "distinct (map li_id (get_all (sv_listeners (bs_service s5))))"
    by (rule distinct_tags [OF l5 _ dl]) (use li_core_eq in blast)
  have dl6: "distinct (map li_id (get_all (sv_listeners (bs_service s6))))"
    by (rule distinct_tags [OF l6 _ dl]) (simp add: li_tag_def)
  note okd = ltm_okD [OF ok]
  note keep = leaves [where k = KVirtual and ks = "UNIV - {KVirtual}" and view = "vw_virtuals V"]
  show ?thesis
  proof (rule settled_phases [OF _ conjunct1 [OF listeners_created_effect [OF okd(2,7) ph(6) lb5 dl5]] _
        conjunct1 [OF listeners_deleted_effect [OF okd(2,7) ph(7) lb6 dl6]] _ l5 _ l6])
    show "map (vw_virtuals V) (bs_bigips s5) = map (vw_virtuals V) (bs_bigips s)"
      using keep [OF loadbalancer_created_isolates [OF okd(7)] _ ph(1)]
        keep [OF monitors_created_isolates [OF okd(7)] _ ph(2)] keep [OF pools_created_isolates [OF okd(7)] _ ph(3)]
        keep [OF members_isolates [OF okd(7)] _ ph(4)] keep [OF l7policies_created_isolates [OF okd(7)] _ ph(5)] by simp
    show "map (vw_virtuals V) (bs_bigips s') = map (vw_virtuals V) (bs_bigips s7)"
      using keep [OF l7policies_deleted_isolates [OF okd(7)] _ ph(8)] keep [OF pools_deleted_isolates [OF okd(7)] _ ph(9)]
        keep [OF monitors_deleted_isolates [OF okd(7)] _ ph(10)]
        keep [OF loadbalancer_deleted_isolates [OF okd(7)] _ ph(11)] by simp
  next
    fix x y :: listener assume xy: "li_core x = li_core y"
    have "default_pool_id x (get_all (sv_pools (bs_service s5))) = default_pool_id y (get_all (sv_pools (bs_service s)))"
      using default_pool_tags [OF p5] li_core_eq [OF xy] by (simp add: default_pool_id_def get_vip_default_pool_def)
    with li_core_eq [OF xy]
    show "(li_status x \<in> set (be_const_status E)) = (li_status y \<in> set (be_const_status E)) \<and>
        listener_key (be_adapter E) lb x = listener_key (be_adapter E) lb y \<and>
        (\<lambda>v. \<exists>w. v = Some w \<and> virtual_for (be_adapter E) lb x (default_pool_id x (get_all (sv_pools (bs_service s5)))) w) =
        (\<lambda>v. \<exists>w. v = Some w \<and> virtual_for (be_adapter E) lb y (default_pool_id y (get_all (sv_pools (bs_service s)))) w)"
      by (simp add: virtual_for_def listener_key_def)
  next
    fix x y :: listener assume "li_tag x = li_tag y"
    then show "(li_status x = PENDING_DELETE) = (li_status y = PENDING_DELETE) \<and>
        listener_key (be_adapter E) lb x = listener_key (be_adapter E) lb y" by (simp add: li_tag_def listener_key_def)
  qed (use dl pd in \<open>auto simp: listener_keys_distinct\<close>)
qed

lemma vas_settled:
  assumes ok: "ltm_ok (be_sdk E) V" and run: "assure_service E s = (Inr (), s')"
    and lb: "sv_loadbalancer (bs_service s) = Some lb"
    and pd: "PENDING_DELETE \<notin> set (be_const_status E)"
    and dp: "distinct (map po_id (get_all (sv_pools (bs_service s))))"
    and dl: "distinct (map li_id (get_all (sv_listeners (bs_service s))))"
  shows "list_all2 (\<lambda>d d'. settled (\<lambda>l. lb_status l \<in> set (be_const_status E)) (\<lambda>l. lb_status l = PENDING_DELETE)
      (\<lambda>l. bkey (va_init (be_adapter E) l)) (\<lambda>l v. v = Some (va_init (be_adapter E) l)) [lb]
      (vw_vas V d) (vw_vas V d')) (bs_bigips s) (bs_bigips s')"
proof (rule assure_service_chain [OF ok run lb dp dl])
  fix s1 s2 s3 s4 s5 s6 s7 s8 s9 s10
  assume ph: "assure_loadbalancer_created E s = (Inr (), s1)" "assure_monitors_created E s1 = (Inr (), s2)"
    "assure_pools_created E s2 = (Inr (), s3)" "assure_members E s3 = (Inr (), s4)"
    "assure_l7policies_created E s4 = (Inr (), s5)" "assure_listeners_created E s5 = (Inr (), s6)"
    "assure_listeners_deleted E s6 = (Inr (), s7)" "assure_l7policies_deleted E s7 = (Inr (), s8)"
    "assure_pools_deleted E s8 = (Inr (), s9)" "assure_monitors_deleted E s9 = (Inr (), s10)"
    "assure_loadbalancer_deleted E s10 = (Inr (), s')"
    and lb10: "sv_loadbalancer (bs_service s10) = Some lb"
  let ?key = "\<lambda>l. bkey (va_init (be_adapter E) l)" and ?R = "\<lambda>l v. v = Some (va_init (be_adapter E) l)"
  note okd = ltm_okD [OF ok]
  note keep = leaves [where k = KVa and ks = "UNIV - {KVa}" and view = "vw_vas V"]
  from conjunct2 [OF loadbalancer_created_effect [OF okd(3) ph(1) lb]]
  have w1: "list_all2 (\<lambda>d d'. writes (\<lambda>l. lb_status l \<in> set (be_const_status E)) ?key ?R [lb] (vw_vas V d) (vw_vas V d'))
      (bs_bigips s) (bs_bigips s1)"
    by (auto simp: writes_def split: if_splits elim!: list_all2_mono intro: list_all2_refl)
  from loadbalancer_deleted_effect [OF okd(3) ph(11) lb10]
  have w2: "list_all2 (\<lambda>d d'. writes (\<lambda>l. lb_status l = PENDING_DELETE) ?key (\<lambda>_ v. v = None) [lb] (vw_vas V d) (vw_vas V d'))
      (bs_bigips s10) (bs_bigips s')"
    by (auto simp: writes_def split: if_splits elim!: list_all2_mono intro: list_all2_refl)
  show ?thesis
  proof (rule settled_phases [where f = "\<lambda>l :: loadbalancer. l" and g = "\<lambda>l :: loadbalancer. l",
        OF refl w1 _ w2 refl refl _ refl])
    show "map (vw_vas V) (bs_bigips s10) = map (vw_vas V) (bs_bigips s1)"
      using keep [OF monitors_created_isolates [OF okd(8)] _ ph(2)] keep [OF pools_created_isolates [OF okd(8)] _ ph(3)]
        keep [OF members_isolates [OF okd(8)] _ ph(4)] keep [OF l7policies_created_isolates [OF okd(8)] _ ph(5)]
        keep [OF listeners_created_isolates [OF okd(8)] _ ph(6)] keep [OF listeners_deleted_isolates [OF okd(8)] _ ph(7)]
        keep [OF l7policies_deleted_isolates [OF okd(8)] _ ph(8)] keep [OF pools_deleted_isolates [OF okd(8)] _ ph(9)]
        keep [OF monitors_deleted_isolates [OF okd(8)] _ ph(10)] by simp
  qed (use pd in auto)
qed

text \<open>What a device holds before and after: the three tables, settled as the service says.\<close>

definition service_settled ::
  "'x benv \<Rightarrow> 'x bigip views \<Rightarrow> service \<Rightarrow> loadbalancer \<Rightarrow> 'x bigip \<Rightarrow> 'x bigip \<Rightarrow> bool" where
  "service_settled E V svc lb d d' \<longleftrightarrow>
     settled (\<lambda>p. po_status p \<in> set (be_const_status E)) (\<lambda>p. po_status p = PENDING_DELETE)
       (pool_key (be_adapter E) lb) (pool_wanted (be_adapter E) svc lb) (get_all (sv_pools svc))
       (vw_pools V d) (vw_pools V d') \<and>
     settled (\<lambda>li. li_status li \<in> set (be_const_status E)) (\<lambda>li. li_status li = PENDING_DELETE)
       (listener_key (be_adapter E) lb)
       (\<lambda>li v. \<exists>w. v = Some w \<and> virtual_for (be_adapter E) lb li (default_pool_id li (get_all (sv_pools svc))) w)
       (get_all (sv_listeners svc)) (vw_virtuals V d) (vw_virtuals V d') \<and>
     settled (\<lambda>l. lb_status l \<in> set (be_const_status E)) (\<lambda>l. lb_status l = PENDING_DELETE)
       (\<lambda>l. bkey (va_init (be_adapter E) l)) (\<lambda>l v. v = Some (va_init (be_adapter E) l)) [lb]
       (vw_vas V d) (vw_vas V d')"

end
