(* ===== verification/Builder_Properties.thy ===== *)
theory Builder_Properties
  imports Deployment Driver_Properties
begin

text \<open>
  The service builder as a whole: what a service leaves on devices that answer, and that it leaves other
  tenants alone. The witnesses run it on a device whose tables answer.
\<close>

section \<open>A device with two tenants\<close>

text \<open>What a device holds in a partition: the virtual addresses and the virtual servers.\<close>

definition held_in :: "string \<Rightarrow> ((string \<times> string) \<times> 'm) list \<Rightarrow> ((string \<times> string) \<times> 'm) list" where
  "held_in q = filter (\<lambda>e. snd (fst e) = q)"

definition ex_held :: "string \<Rightarrow> ex_unit bigip
    \<Rightarrow> ((string \<times> string) \<times> virtual_address) list \<times> ((string \<times> string) \<times> virtual) list" where
  "ex_held q b = (held_in q (xu_vas (b_dev b)), held_in q (xu_virtuals (b_dev b)))"

lemma held_in_update: "snd k \<noteq> q \<Longrightarrow> held_in q (AList.update k m t) = held_in q t"
  unfolding held_in_def by (induction t) auto

lemma held_in_delete: "snd k \<noteq> q \<Longrightarrow> held_in q (AList.delete k t) = held_in q t"
  unfolding held_in_def by (induction t) (auto simp: AList.delete_eq)

lemma table_confined:
  assumes "\<And>t d. view (put t d) = view d \<or> held_in q t \<noteq> held_in q (get d)"
  shows "ep_confined (lift_endpoint get put (table_endpoint key)) key {q} view"
proof -
  have w: "view (put t d) = view d" if "held_in q t = held_in q (get d)" for t d
    using assms [of t d] that by blast
  show ?thesis
    by (auto simp: ep_confined_def quiet_def lift_endpoint_def table_endpoint_def zoomM_def py_simps
        held_in_update held_in_delete intro!: w split: prod.splits)
qed

lemma fails_confined: "ep_confined (fails e) key P view"
  by (simp add: ep_confined_def fails_def quiet_raise)

lemma ex_confined: "confined (be_sdk (dr_builder ex_drv_env)) (\<lambda>_. {q}) (ex_held q)"
  unfolding confined_def
  by (auto simp: ex_drv_env_def ex_env_def unit_sdk_def ex_held_def quiet_ret fails_confined intro!: table_confined)

definition ex_two_tenants :: "ex_unit bstate" where
  "ex_two_tenants =
     \<lparr>bs_service = ex_service,
      bs_bigips = [new_bigip (Some ''bigip1'')
        \<lparr>xu_folders = [], xu_vas = [((''Project_lb2'', ''Project_t2''), va_init ex_adapter ex_lb)],
         xu_virtuals = [((''Project_li2'', ''Project_t2''), ex_virtual)]\<rparr>],
      bs_hints = []\<rparr>"

section \<open>Tenants are isolated\<close>

text \<open>C2 Tenants are isolated from each other: whatever a service asks for, whatever the devices answer and
  wherever \<open>assure_service\<close> stops, a partition other than \<open>Common\<close>, the folder of the load balancer's tenant
  and those of the L7 policies' tenants is left on every device as it was. All that is asked of the
  iControl REST calls is that one that names another partition does not change it.\<close>

theorem tenant_isolation:
  assumes "confined (be_sdk E) (\<lambda>_. {q}) view" and "q \<notin> set (''Common'' # svc_folders (be_adapter E) (bs_service s))"
    and "assure_service E s = (r, s')"
  shows "map view (bs_bigips s') = map view (bs_bigips s)"
proof -
  have "foreign (be_adapter E) (\<lambda>_. {q}) UNIV (bs_service s)" using assms(2) by (auto simp: foreign_def)
  from isolatesD [OF assure_service_isolates [OF assms(1)] assms(3) this] show ?thesis by simp
qed

lemma tenant_isolation_witness:
  "map (ex_held ''Project_t2'') (bs_bigips (snd (assure_service (dr_builder ex_drv_env) ex_two_tenants))) =
     [([((''Project_lb2'', ''Project_t2''), va_init ex_adapter ex_lb)],
       [((''Project_li2'', ''Project_t2''), ex_virtual)])]"
proof -
  have "''Project_t2'' \<notin> set (''Common'' # svc_folders (be_adapter (dr_builder ex_drv_env)) (bs_service ex_two_tenants))"
    by code_simp
  from tenant_isolation [OF ex_confined this prod.collapse [symmetric]] show ?thesis
    by (simp add: ex_two_tenants_def ex_held_def held_in_def new_bigip_def)
qed


section \<open>A service is deployed\<close>

text \<open>A device with a table for each kind of object that matters.\<close>

record ex_tables =
  xl_pools :: "((string \<times> string) \<times> bigip_pool) list"
  xl_virtuals :: "((string \<times> string) \<times> virtual) list"
  xl_vas :: "((string \<times> string) \<times> virtual_address) list"
  xl_policies :: "((string \<times> string) \<times> f5_policy) list"
  xl_monitors :: "resource_type \<Rightarrow> ((string \<times> string) \<times> bigip_monitor) list"

definition on_ltm :: "(ex_tables \<Rightarrow> ex_tables) \<Rightarrow> ex_tables bigip \<Rightarrow> ex_tables bigip" where
  "on_ltm f b = b\<lparr>b_dev := f (b_dev b)\<rparr>"

definition ltm_sdk :: "ex_tables bigip sdk" where
  "ltm_sdk =
     \<lparr>sdk_pool = lift_endpoint (\<lambda>b. xl_pools (b_dev b)) (\<lambda>t. on_ltm (\<lambda>d. d\<lparr>xl_pools := t\<rparr>)) (table_endpoint bkey),
      sdk_node = fails (HTTPError 503 ''''),
      sdk_monitor = (\<lambda>k. lift_endpoint (\<lambda>b. xl_monitors (b_dev b) k)
        (\<lambda>t. on_ltm (\<lambda>d. d\<lparr>xl_monitors := (xl_monitors d)(k := t)\<rparr>)) (table_endpoint bkey)),
      sdk_virtual = lift_endpoint (\<lambda>b. xl_virtuals (b_dev b)) (\<lambda>t. on_ltm (\<lambda>d. d\<lparr>xl_virtuals := t\<rparr>)) (table_endpoint bkey),
      sdk_va = lift_endpoint (\<lambda>b. xl_vas (b_dev b)) (\<lambda>t. on_ltm (\<lambda>d. d\<lparr>xl_vas := t\<rparr>)) (table_endpoint bkey),
      sdk_l7policy = lift_endpoint (\<lambda>b. xl_policies (b_dev b)) (\<lambda>t. on_ltm (\<lambda>d. d\<lparr>xl_policies := t\<rparr>)) (table_endpoint fp_key),
      sdk_rule = fails (HTTPError 503 ''''), sdk_universal = fails (HTTPError 503 ''''),
      sdk_client_ssl = fails (HTTPError 503 ''''),
      sdk_upload = (\<lambda>_ _. retM ()), sdk_install_cert = (\<lambda>_ _. retM ()), sdk_install_key = (\<lambda>_ _. retM ()),
      sdk_member_exists = (\<lambda>_ _ _. retM True), sdk_member_stats = (\<lambda>_ _ _. retM []), sdk_virtual_stats = (\<lambda>_. [])\<rparr>"

definition ltm_views :: "ex_tables bigip views" where
  "ltm_views =
     \<lparr>vw_pools = (\<lambda>b. map_of (xl_pools (b_dev b))), vw_virtuals = (\<lambda>b. map_of (xl_virtuals (b_dev b))),
      vw_vas = (\<lambda>b. map_of (xl_vas (b_dev b))), vw_policies = (\<lambda>b. map_of (xl_policies (b_dev b))),
      vw_monitors = (\<lambda>k b. map_of (xl_monitors (b_dev b) k))\<rparr>"

lemma other_table:
  assumes "\<And>t b. view (put t b) = view b"
  shows "ep_confined (lift_endpoint get put (table_endpoint key)) key P view"
  by (auto simp: ep_confined_def quiet_def lift_endpoint_def table_endpoint_def zoomM_def py_simps assms split: prod.splits)

lemma any_table:
  assumes "\<And>b. put (get b) b = b"
  shows "ep_confined (lift_endpoint get put (table_endpoint key)) key UNIV view"
  by (auto simp: ep_confined_def quiet_def lift_endpoint_def table_endpoint_def zoomM_def py_simps assms split: prod.splits)

lemma ltm_sdk_ok: "ltm_ok ltm_sdk ltm_views"
  unfolding ltm_ok_def confined_def
  by (auto simp: ltm_sdk_def ltm_views_def only_def quiet_ret fails_confined on_ltm_def
      intro!: lift_endpoint_ok other_table any_table)

definition ltm_env :: "ex_tables benv" where
  "ltm_env =
     \<lparr>be_adapter = ex_adapter, be_sdk = ltm_sdk, be_ssl = ex_ssl_env, be_ip_version = (\<lambda>_. Inr 4),
      be_bind = None, be_unbind = None, be_const_status = normal_status\<rparr>"

text \<open>A pool that is to be deleted is on the device, the rest of the service is not yet.\<close>

definition ltm_state :: "ex_tables bstate" where
  "ltm_state =
     \<lparr>bs_service = ex_service\<lparr>sv_pools := Some [ex_pool, ex_pool\<lparr>po_id := ''p2'', po_status := PENDING_DELETE\<rparr>]\<rparr>,
      bs_bigips = [new_bigip (Some ''bigip1'')
        \<lparr>xl_pools = [((''Project_p2'', ''Project_t1''), ex_bigip_pool)], xl_virtuals = [], xl_vas = [], xl_policies = [],
         xl_monitors = (\<lambda>_. [])\<rparr>],
      bs_hints = [('''', empty_hints)]\<rparr>"

lemma ltm_returns: "fst (assure_service ltm_env ltm_state) = Inr ()"
  by code_simp


text \<open>C1 A service that is handled without an exception is deployed: on devices where the calls for
  pools, virtual servers, virtual addresses, monitors and policies work on tables, every device then holds the
  pools the service asks for as the adapter translates them, a virtual server for each listener with its
  name, folder, default pool, admin state and destination, and the address of the load balancer; the objects
  to be deleted are gone, and every other pool, virtual server and address is as it was. Nothing is
  assumed of the calls for nodes, rules, certificates and profiles.\<close>

theorem service_deployed:
  assumes "ltm_ok (be_sdk E) V" and "assure_service E s = (Inr (), s')"
    and "sv_loadbalancer (bs_service s) = Some lb" and "PENDING_DELETE \<notin> set (be_const_status E)"
    and "distinct (map po_id (get_all (sv_pools (bs_service s))))"
    and "distinct (map li_id (get_all (sv_listeners (bs_service s))))"
  shows "list_all2 (service_settled E V (bs_service s) lb) (bs_bigips s) (bs_bigips s')"
  using pools_settled [OF assms] listeners_settled [OF assms] vas_settled [OF assms]
  unfolding service_settled_def by (simp add: list_all2_conv_all_nth)

lemma settledD:
  "settled A B key R xs t t' \<Longrightarrow> \<forall>x \<in> set xs. (A x \<longrightarrow> R x (t' (key x))) \<and> (B x \<longrightarrow> t' (key x) = None)"
  by (simp add: settled_def)

lemma service_deployed_witness:
  "\<exists>b. bs_bigips (snd (assure_service ltm_env ltm_state)) = [b] \<and>
     map_of (xl_pools (b_dev b)) (''Project_p2'', ''Project_t1'') = None \<and>
     map_of (xl_pools (b_dev b)) (''Project_p1'', ''Project_t1'') = Some ex_bigip_pool \<and>
     map_of (xl_vas (b_dev b)) (''Project_lb1'', ''Project_t1'') = Some (va_init ex_adapter ex_lb) \<and>
     (\<exists>v. map_of (xl_virtuals (b_dev b)) (''Project_l1'', ''Project_t1'') = Some v \<and>
       vs_pool v = ''Project_p1'' \<and> vs_destination v = Some (addr_port ''10.0.0.5'' 80))"
proof -
  let ?s' = "snd (assure_service ltm_env ltm_state)" and ?svc = "bs_service ltm_state"
  have run: "assure_service ltm_env ltm_state = (Inr (), ?s')" using ltm_returns by (metis prod.collapse)
  have ok: "ltm_ok (be_sdk ltm_env) ltm_views" using ltm_sdk_ok by (simp add: ltm_env_def)
  have svc: "sv_loadbalancer ?svc = Some ex_lb" "get_all (sv_listeners ?svc) = [ex_listener]"
    "get_all (sv_pools ?svc) = [ex_pool, ex_pool\<lparr>po_id := ''p2'', po_status := PENDING_DELETE\<rparr>]"
    by (simp_all add: ltm_state_def ex_service_def get_all_def)
  have "PENDING_DELETE \<notin> set (be_const_status ltm_env)" by (simp add: ltm_env_def normal_status_def)
  from service_deployed [OF ok run svc(1) this]
  have "list_all2 (service_settled ltm_env ltm_views ?svc ex_lb) (bs_bigips ltm_state) (bs_bigips ?s')"
    by (simp add: svc(2,3) ex_pool_def)
  then obtain b where b: "bs_bigips ?s' = [b]" "service_settled ltm_env ltm_views ?svc ex_lb (hd (bs_bigips ltm_state)) b"
    by (auto simp: ltm_state_def list_all2_Cons1)
  let ?p2 = "ex_pool\<lparr>po_id := ''p2'', po_status := PENDING_DELETE\<rparr>"
  have keys: "pool_key ex_adapter ex_lb ex_pool = (''Project_p1'', ''Project_t1'')"
    "pool_key ex_adapter ex_lb ?p2 = (''Project_p2'', ''Project_t1'')"
    "listener_key ex_adapter ex_lb ex_listener = (''Project_l1'', ''Project_t1'')"
    "bkey (va_init ex_adapter ex_lb) = (''Project_lb1'', ''Project_t1'')"
    "default_pool_id ex_listener [ex_pool, ?p2] = Some ''p1''" "ad_prefix ex_adapter = ''Project_''"
    by code_simp+
  have w: "pool_wanted ex_adapter ?svc ex_lb ex_pool v \<Longrightarrow> v = Some ex_bigip_pool" for v
    using ex_get_pool by (auto simp: pool_wanted_def ltm_state_def ex_service_def get_all_def ex_member_def ex_pool_def)
  have st: "po_status ex_pool = PENDING_CREATE" "po_status ?p2 = PENDING_DELETE" "li_status ex_listener = PENDING_CREATE"
    "lb_status ex_lb = PENDING_CREATE"
    by (simp_all add: ex_pool_def ex_listener_def ex_lb_def)
  have E: "be_adapter ltm_env = ex_adapter" "PENDING_CREATE \<in> set (be_const_status ltm_env)"
    by (simp_all add: ltm_env_def normal_status_def)
  from b(2) have p: "pool_wanted ex_adapter ?svc ex_lb ex_pool (vw_pools ltm_views b (pool_key ex_adapter ex_lb ex_pool))"
    "vw_pools ltm_views b (pool_key ex_adapter ex_lb ?p2) = None"
    unfolding service_settled_def svc E by (auto dest!: settledD simp: st E)
  from b(2) have v: "\<exists>w. vw_virtuals ltm_views b (listener_key ex_adapter ex_lb ex_listener) = Some w \<and>
      virtual_for ex_adapter ex_lb ex_listener (default_pool_id ex_listener [ex_pool, ?p2]) w"
    and a: "vw_vas ltm_views b (bkey (va_init ex_adapter ex_lb)) = Some (va_init ex_adapter ex_lb)"
    unfolding service_settled_def svc E by (auto dest!: settledD simp: st E)
  from v have "\<exists>w. vw_virtuals ltm_views b (''Project_l1'', ''Project_t1'') = Some w \<and>
      vs_pool w = ''Project_p1'' \<and> vs_destination w = Some (addr_port ''10.0.0.5'' 80)"
    unfolding keys by (auto simp: virtual_for_def keys ex_lb_def ex_listener_def vip_ip_def endswith_def)
  with b(1) w [OF p(1)] p(2) a show ?thesis unfolding keys by (simp add: ltm_views_def)
qed

end
