(* ===== verification/Exceptions.thy ===== *)
theory Exceptions
  imports DriverPurge
begin

text \<open>
  \<open>exceptions.py\<close>: the classes of exceptions with their base classes, which handler catches what, and
  \<open>F5MissingDependencies\<close>, which computes its message and looks for the debug setting.

  The lemmas: every exception of the agent is an \<open>F5AgentException\<close>, those of two other modules apart, and
  none is an \<open>F5NeutronException\<close>, so the handlers for it in the agent manager never apply.
\<close>

section \<open>The classes\<close>

definition agent_class :: string where
  "agent_class = ''F5AgentException''"

definition device_classes :: "string list" where
  "device_classes =
     [''UnreadableCert'', ''MinorVersionValidateFailed'', ''MajorVersionValidateFailed'',
      ''ProvisioningExtraMBValidateFailed'', ''BigIPDeviceLockAcquireFailed'', ''BigIPClusterInvalidHA'',
      ''BigIPClusterSyncFailure'', ''BigIPClusterPeerAddFailure'', ''BigIPClusterConfigSaveFailure'',
      ''UnknownMonitorType'', ''MissingVTEPAddress'', ''MissingNetwork'', ''NetworkNotReady'',
      ''InvalidNetworkType'', ''InvalidNetworkDefinition'', ''StaticARPCreationException'',
      ''StaticARPQueryException'', ''StaticARPDeleteException'', ''ClusterCreationException'',
      ''ClusterUpdateException'', ''ClusterQueryException'', ''ClusterDeleteException'',
      ''DeviceCreationException'', ''DeviceUpdateException'', ''DeviceQueryException'',
      ''DeviceDeleteException'', ''InterfaceQueryException'', ''IAppCreationException'',
      ''IAppQueryException'', ''IAppUpdateException'', ''IAppDeleteException'']"

definition object_classes :: "string list" where
  "object_classes =
     [''L2GRETunnelCreationException'', ''L2GRETunnelQueryException'', ''L2GRETunnelUpdateException'',
      ''L2GRETunnelDeleteException'', ''MemberCreationException'', ''MemberQueryException'',
      ''MemberUpdateException'', ''MemberDeleteException'', ''NodeDeleteException'',
      ''MonitorCreationException'', ''MonitorQueryException'', ''MonitorUpdateException'',
      ''MonitorDeleteException'', ''NATCreationException'', ''NATQueryException'', ''NATUpdateException'',
      ''NATDeleteException'', ''PoolCreationException'', ''PoolQueryException'', ''PoolUpdateException'',
      ''PoolDeleteException'', ''RouteCreationException'', ''RouteQueryException'',
      ''RouteUpdateException'', ''RouteDeleteException'', ''RouteDomainCreationException'',
      ''RouteDomainQueryException'', ''RouteDomainUpdateException'', ''RouteDomainDeleteException'',
      ''RuleCreationException'', ''RuleQueryException'', ''RuleUpdateException'', ''RuleDeleteException'']"

definition service_classes :: "string list" where
  "service_classes =
     [''SelfIPCreationException'', ''SelfIPQueryException'', ''SelfIPUpdateException'',
      ''SelfIPDeleteException'', ''SNATCreationException'', ''SNATQueryException'',
      ''SNATUpdateException'', ''SNATDeleteException'', ''SystemCreationException'',
      ''SystemQueryException'', ''SystemUpdateException'', ''SystemDeleteException'',
      ''VirtualServerCreationException'', ''VirtualServerQueryException'',
      ''VirtualServerUpdateException'', ''VirtualServerDeleteException'', ''VLANCreationException'',
      ''VLANQueryException'', ''VLANUpdateException'', ''VLANDeleteException'', ''VXLANCreationException'',
      ''VXLANQueryException'', ''VXLANUpdateException'', ''VXLANDeleteException'',
      ''BigIPNotLicensedForVcmp'', ''NoActionFoundForPolicy'', ''PolicyHasNoRules'',
      ''L7PolicyCreationException'', ''L7PolicyQueryException'', ''L7PolicyUpdateException'',
      ''L7PolicyDeleteException'', ''esdJSONFileEmptyException'', ''esdJSONFileInvalidException'']"

definition message_classes :: "string list" where
  "message_classes =
     [''F5MissingDependencies'', ''RouteDomainCacheMiss'', ''F5NeutronException'',
      ''F5InvalidConfigurationOption'']"

definition f5_classes :: "(string \<times> string) list" where
  "f5_classes =
     (agent_class, ''Exception'') #
     map (\<lambda>c. (c, agent_class)) (device_classes @ object_classes @ service_classes @ message_classes)"

text \<open>A class and its base classes; no class is more than three levels below \<open>Exception\<close>.\<close>

fun base_classes :: "nat \<Rightarrow> string \<Rightarrow> string list" where
  "base_classes 0 c = [c]"
| "base_classes (Suc n) c = c # (case map_of f5_classes c of None \<Rightarrow> [] | Some p \<Rightarrow> base_classes n p)"

definition is_subclass :: "string \<Rightarrow> string \<Rightarrow> bool" where
  "is_subclass c d \<longleftrightarrow> d \<in> set (base_classes 3 c)"

text \<open>The class of an exception the agent raises; \<open>SSLProfileError\<close> and \<open>InvalidBarbicanConfig\<close> are of other modules.\<close>

fun f5_class :: "f5exn \<Rightarrow> string" where
  "f5_class MissingVTEPAddress = ''MissingVTEPAddress''"
| "f5_class MissingNetwork = ''MissingNetwork''"
| "f5_class NetworkNotReady = ''NetworkNotReady''"
| "f5_class InvalidNetworkType = ''InvalidNetworkType''"
| "f5_class InvalidNetworkDefinition = ''InvalidNetworkDefinition''"
| "f5_class BigIPClusterInvalidHA = ''BigIPClusterInvalidHA''"
| "f5_class MajorVersionValidateFailed = ''MajorVersionValidateFailed''"
| "f5_class MinorVersionValidateFailed = ''MinorVersionValidateFailed''"
| "f5_class ProvisioningExtraMBValidateFailed = ''ProvisioningExtraMBValidateFailed''"
| "f5_class NodeDeleteException = ''NodeDeleteException''"
| "f5_class MonitorCreationException = ''MonitorCreationException''"
| "f5_class MonitorUpdateException = ''MonitorUpdateException''"
| "f5_class MonitorDeleteException = ''MonitorDeleteException''"
| "f5_class PoolCreationException = ''PoolCreationException''"
| "f5_class PoolUpdateException = ''PoolUpdateException''"
| "f5_class PoolDeleteException = ''PoolDeleteException''"
| "f5_class RouteDomainCreationException = ''RouteDomainCreationException''"
| "f5_class SelfIPCreationException = ''SelfIPCreationException''"
| "f5_class SelfIPQueryException = ''SelfIPQueryException''"
| "f5_class SelfIPDeleteException = ''SelfIPDeleteException''"
| "f5_class SNATCreationException = ''SNATCreationException''"
| "f5_class SystemCreationException = ''SystemCreationException''"
| "f5_class VirtualServerCreationException = ''VirtualServerCreationException''"
| "f5_class VirtualServerUpdateException = ''VirtualServerUpdateException''"
| "f5_class VirtualServerDeleteException = ''VirtualServerDeleteException''"
| "f5_class VLANCreationException = ''VLANCreationException''"
| "f5_class VXLANCreationException = ''VXLANCreationException''"
| "f5_class L7PolicyCreationException = ''L7PolicyCreationException''"
| "f5_class L7PolicyUpdateException = ''L7PolicyUpdateException''"
| "f5_class L7PolicyDeleteException = ''L7PolicyDeleteException''"
| "f5_class EsdJSONFileInvalidException = ''esdJSONFileInvalidException''"
| "f5_class PolicyHasNoRules = ''PolicyHasNoRules''"
| "f5_class NoActionFoundForPolicy = ''NoActionFoundForPolicy''"
| "f5_class RouteDomainCacheMiss = ''RouteDomainCacheMiss''"
| "f5_class SSLProfileError = ''SSLProfileError''"
| "f5_class BigIPNotLicensedForVcmp = ''BigIPNotLicensedForVcmp''"
| "f5_class UnreadableCert = ''UnreadableCert''"
| "f5_class InvalidBarbicanConfig = ''InvalidBarbicanConfig''"

text \<open>Does \<open>except c\<close> catch it?\<close>

definition caught_by :: "string \<Rightarrow> f5exn \<Rightarrow> bool" where
  "caught_by c e \<longleftrightarrow> is_subclass (f5_class e) c"

section \<open>A missing dependency\<close>

record missing_args =
  md_errno :: "int option"
  md_message :: "string option"
  md_exception :: "string option"
  md_frame :: "string \<times> int" \<comment> \<open>file and line\<close>

definition enosys :: int where
  "enosys = 38"

text \<open>\<open>', '.join(args)\<close>.\<close>

fun comma_sep :: "string list \<Rightarrow> string" where
  "comma_sep [] = ''''"
| "comma_sep [x] = x"
| "comma_sep (x # y # xs) = x @ '', '' @ comma_sep (y # xs)"

text \<open>\<open>program\<close> is \<open>sys.argv[0]\<close>; a given exception replaces the message, and then the details are dropped.\<close>

definition set_message :: "string \<Rightarrow> string list \<Rightarrow> missing_args \<Rightarrow> int \<times> string" where
  "set_message program args k =
     (let no = (if get_or 0 (md_errno k) = 0 then enosys else get_or 0 (md_errno k));
          given = (if get_or '''' (md_message k) = '''' then program @ '' cannot start due to missing dependency''
                   else get_or '''' (md_message k));
          replaced = get_or '''' (md_exception k) \<noteq> '''';
          message = (if replaced then get_or '''' (md_exception k) else given);
          details = (if replaced then '''' else comma_sep args)
      in (no, ''('' @ str_int no @ '') '' @ message @ '': '' @ details @ '' ['' @ fst (md_frame k) @ ''; line:''
              @ str_int (snd (md_frame k)) @ '']''))"

definition get_mod :: "string \<Rightarrow> string" where
  "get_mod file = remove_str ''.py'' (''f5_openstack_agent.lbaasv2.drivers.bigip.'' @ basename file)"

text \<open>The pattern \<open>debug\s*=\s*([Tt]rue|[Ff]alse|[01])\<close>, at the start of a text and anywhere in it.\<close>

definition debug_words :: "string list" where
  "debug_words = [''True'', ''true'', ''False'', ''false'', ''0'', ''1'']"

definition debug_here :: "string \<Rightarrow> string option" where
  "debug_here s =
     (if \<not> startswith ''debug'' s then None
      else case dropWhile is_space (drop 5 s) of
             [] \<Rightarrow> None
           | c # r \<Rightarrow> if c \<noteq> CHR ''='' then None else find (\<lambda>w. startswith w (dropWhile is_space r)) debug_words)"

fun debug_value :: "string \<Rightarrow> string option" where
  "debug_value [] = None"
| "debug_value (c # cs) = (case debug_here (c # cs) of None \<Rightarrow> debug_value cs | Some v \<Rightarrow> Some v)"

text \<open>The first line that matches decides for its file.\<close>

fun debug_enabled :: "string list \<Rightarrow> bool" where
  "debug_enabled [] = False"
| "debug_enabled (l # ls) =
     (case debug_value l of None \<Rightarrow> debug_enabled ls | Some v \<Rightarrow> v \<in> {''True'', ''true'', ''1''})"

text \<open>\<open>read\<close> opens a file; a setting that is found stays.\<close>

definition check_debug :: "(string \<Rightarrow> exn + string list) \<Rightarrow> string list \<Rightarrow> exn + bool" where
  "check_debug read argv =
     foldE (\<lambda>item debug. if contains_str ''f5-openstack-agent.ini'' item
                         then bindE (read item) (\<lambda>ls. Inr (debug \<or> debug_enabled ls)) else Inr debug) argv False"

text \<open>The text of an \<open>F5NeutronException\<close>: a template without places to fill.\<close>

definition neutron_message :: string where
  "neutron_message = ''An unknown exception occurred.''"

section \<open>Lemmas\<close>

lemma map_of_constant: "map_of (map (\<lambda>c. (c, a)) cs) c = (if c \<in> set cs then Some a else None)"
  by (induction cs) auto

lemma f5_parent: "map_of f5_classes c =
    (if c = agent_class then Some ''Exception''
     else if c \<in> set (device_classes @ object_classes @ service_classes @ message_classes) then Some agent_class else None)"
  by (simp only: f5_classes_def map_of.simps map_of_constant fun_upd_apply fst_conv snd_conv split: if_split)

lemma base_classes_of: "d \<in> set (base_classes n c) \<Longrightarrow> d = c \<or> d = agent_class \<or> d = ''Exception''"
proof (induction n arbitrary: c)
  case (Suc n)
  then have "d = c \<or> (\<exists>p. map_of f5_classes c = Some p \<and> d \<in> set (base_classes n p))"
    by (auto split: option.splits)
  then show ?case using Suc.IH by (metis f5_parent option.distinct(1) option.inject)
qed simp

lemma neutron_handler_unused: "\<not> caught_by ''F5NeutronException'' e"
proof -
  have "f5_class e \<noteq> ''F5NeutronException''" by (cases e) simp_all
  then show ?thesis using base_classes_of [of "''F5NeutronException''" 3 "f5_class e"]
    by (auto simp: caught_by_def is_subclass_def agent_class_def)
qed

lemma caught_by_agent: "e \<notin> {SSLProfileError, InvalidBarbicanConfig} \<Longrightarrow> caught_by agent_class e"
proof -
  assume "e \<notin> {SSLProfileError, InvalidBarbicanConfig}"
  then have "f5_class e \<in> set (device_classes @ object_classes @ service_classes @ message_classes)"
    by (cases e) (simp_all add: device_classes_def object_classes_def service_classes_def message_classes_def)
  moreover have "f5_class e \<noteq> agent_class" by (cases e) (simp_all add: agent_class_def)
  ultimately have "map_of f5_classes (f5_class e) = Some agent_class" by (simp only: f5_parent if_True if_False)
  then show ?thesis by (simp add: caught_by_def is_subclass_def numeral_3_eq_3)
qed

lemma debug_setting: "debug_enabled [''[DEFAULT]'', ''# debug'', ''debug = True'', ''debug = False'']"
  by code_simp

end
