(* ===== verification/Scripts.thy ===== *)
theory Scripts
  imports PyStrings
begin

text \<open>
  What the packaging and test scripts use of Python beside the agent: a script ends by \<open>sys.exit\<close>, which
  is an exception that \<open>except Exception\<close> does not catch, by another exception, or by returning. Paths,
  the lines of a file, the word characters of regular expressions, \<open>getopt\<close>.
\<close>

section \<open>Scripts\<close>

datatype stop = Exit int | Raised exn

type_synonym ('s, 'a) script = "'s \<Rightarrow> (stop + 'a) \<times> 's"

named_theorems script_simps \<open>unfoldings of the script combinators\<close>

definition retS :: "'a \<Rightarrow> ('s, 'a) script" where
  [script_simps]: "retS x s = (Inr x, s)"

definition stopS :: "stop \<Rightarrow> ('s, 'a) script" where
  [script_simps]: "stopS e s = (Inl e, s)"

definition getS :: "('s \<Rightarrow> 'a) \<Rightarrow> ('s, 'a) script" where
  [script_simps]: "getS f s = (Inr (f s), s)"

definition modifyS :: "('s \<Rightarrow> 's) \<Rightarrow> ('s, unit) script" where
  [script_simps]: "modifyS f s = (Inr (), f s)"

definition bindS :: "('s, 'a) script \<Rightarrow> ('a \<Rightarrow> ('s, 'b) script) \<Rightarrow> ('s, 'b) script" where
  [script_simps]: "bindS m f s = (case m s of (Inl e, s') \<Rightarrow> (Inl e, s') | (Inr x, s') \<Rightarrow> f x s')"

text \<open>\<open>try: m except Exception: h\<close>.\<close>

definition catchS :: "('s, 'a) script \<Rightarrow> (exn \<Rightarrow> ('s, 'a) script) \<Rightarrow> ('s, 'a) script" where
  [script_simps]: "catchS m h s = (case m s of (Inl (Raised e), s') \<Rightarrow> h e s' | r \<Rightarrow> r)"

abbreviation raiseS :: "exn \<Rightarrow> ('s, 'a) script" where
  "raiseS e \<equiv> stopS (Raised e)"

text \<open>A value that may be missing: an unset local variable, an absent key.\<close>

definition needS :: "exn \<Rightarrow> 'a option \<Rightarrow> ('s, 'a) script" where
  [script_simps]: "needS e v = (case v of None \<Rightarrow> raiseS e | Some x \<Rightarrow> retS x)"

definition pureS :: "exn + 'a \<Rightarrow> ('s, 'a) script" where
  [script_simps]: "pureS r = (case r of Inl e \<Rightarrow> raiseS e | Inr x \<Rightarrow> retS x)"

fun eachS :: "('a \<Rightarrow> ('s, unit) script) \<Rightarrow> 'a list \<Rightarrow> ('s, unit) script" where
  "eachS f [] = retS ()"
| "eachS f (x # xs) = bindS (f x) (\<lambda>_. eachS f xs)"

definition os_error :: exn where
  "os_error = OtherError ''OSError''"

lemma bindS_Inr: "bindS m f s = (Inr y, s'') \<longleftrightarrow> (\<exists>x s'. m s = (Inr x, s') \<and> f x s' = (Inr y, s''))"
  by (auto simp: bindS_def split: prod.splits sum.splits)

lemma bindS_assoc: "bindS (bindS m f) g = bindS m (\<lambda>x. bindS (f x) g)"
  by (rule ext) (auto simp: bindS_def split: prod.splits sum.splits)

lemma bindS_pure [simp]: "bindS (retS x) f = f x" "bindS (stopS e) g = stopS e"
  by (auto simp: script_simps)

lemma bindS_getS [simp]: "bindS (getS h) k s = k (h s) s"
  by (simp add: script_simps)

lemma bindS_modifyS [simp]: "bindS (modifyS u) k s = k () (u s)"
  by (simp add: script_simps)

section \<open>Text\<close>

definition newline :: char where
  "newline = CHR 0x0A"

text \<open>The lines \<open>fh.readline()\<close> gives, each with its line end; the last one may have none.\<close>

fun file_lines :: "string \<Rightarrow> string list" where
  "file_lines [] = []"
| "file_lines (c # cs) =
     (if c = newline then [c] # file_lines cs
      else (case file_lines cs of [] \<Rightarrow> [[c]] | l # ls \<Rightarrow> (c # l) # ls))"

lemma concat_lines [simp]: "concat (file_lines s) = s"
  by (induction s) (auto split: list.splits)

lemma file_lines_Nil [simp]: "file_lines s = [] \<longleftrightarrow> s = []"
proof
  assume "file_lines s = []"
  then have "concat (file_lines s) = []" by simp
  then show "s = []" by (simp only: concat_lines)
qed simp

lemma file_lines_line: "newline \<notin> set l \<Longrightarrow> file_lines (l @ newline # s) = (l @ [newline]) # file_lines s"
  by (induction l) auto

text \<open>A text that ends with a line end is followed by new lines only.\<close>

definition ended :: "string \<Rightarrow> bool" where
  "ended s \<longleftrightarrow> s = [] \<or> last s = newline"

lemma file_lines_append: "ended a \<Longrightarrow> file_lines (a @ b) = file_lines a @ file_lines b"
proof (induction a)
  case (Cons c cs)
  show ?case
  proof (cases "c = newline")
    case True
    with Cons show ?thesis by (cases cs) (auto simp: ended_def)
  next
    case False
    with Cons.prems have "cs \<noteq> []" "ended cs" by (auto simp: ended_def split: if_splits)
    moreover from this have "file_lines cs \<noteq> []" by simp
    ultimately show ?thesis using Cons.IH False by (cases "file_lines cs") auto
  qed
qed simp

definition a_line :: "string \<Rightarrow> bool" where
  "a_line l \<longleftrightarrow> (\<exists>b. l = b @ [newline] \<and> newline \<notin> set b)"

lemma ended_lines: "ended s \<Longrightarrow> list_all a_line (file_lines s)"
proof (induction s)
  case (Cons c cs)
  show ?case
  proof (cases "c = newline")
    case True
    with Cons.prems have "ended cs" by (cases cs) (auto simp: ended_def)
    moreover have "a_line [newline]" by (simp add: a_line_def)
    ultimately show ?thesis using True Cons.IH by simp
  next
    case False
    with Cons.prems have cs: "cs \<noteq> []" "ended cs" by (auto simp: ended_def split: if_splits)
    then obtain x xs where l: "file_lines cs = x # xs" by (cases "file_lines cs") auto
    with Cons.IH cs(2) have r: "a_line x" "list_all a_line xs" by simp_all
    from r(1) obtain b where b: "x = b @ [newline]" "newline \<notin> set b" unfolding a_line_def by blast
    then have "a_line (c # x)" unfolding a_line_def by (intro exI [of _ "c # b"]) (use False in auto)
    with False l r(2) show ?thesis by simp
  qed
qed simp

text \<open>Lines put together again are the same lines.\<close>

lemma file_lines_concat: "list_all a_line ls \<Longrightarrow> file_lines (concat ls) = ls"
proof (induction ls)
  case (Cons l ls)
  then obtain b where "l = b @ [newline]" "newline \<notin> set b" by (auto simp: a_line_def)
  with Cons show ?case by (simp add: file_lines_line)
qed simp

text \<open>\<open>\w\<close> and \<open>\s\<close> of regular expressions, \<open>s.rstrip()\<close>, \<open>s.split()\<close>.\<close>

definition is_word :: "char \<Rightarrow> bool" where
  "is_word c \<longleftrightarrow> (let n = (of_char c :: nat) in is_digit c \<or> (65 \<le> n \<and> n \<le> 90) \<or> (97 \<le> n \<and> n \<le> 122) \<or> c = CHR ''_'')"

fun words :: "string \<Rightarrow> string list" where
  "words [] = []"
| "words (c # cs) =
     (if is_space c then words cs
      else (case cs of
              [] \<Rightarrow> [[c]]
            | d # _ \<Rightarrow> if is_space d then [c] # words cs
                      else (case words cs of [] \<Rightarrow> [[c]] | w # ws \<Rightarrow> (c # w) # ws)))"

text \<open>\<open>os.path.dirname\<close>: what precedes the last slash, without slashes at its end unless it has nothing else.\<close>

definition dirname :: "string \<Rightarrow> string" where
  "dirname s =
     (let h = rev (dropWhile (\<lambda>c. c \<noteq> CHR ''/'') (rev s)) in
      if list_all (\<lambda>c. c = CHR ''/'') h then h else rev (dropWhile (\<lambda>c. c = CHR ''/'') (rev h)))"

text \<open>\<open>re.sub('-\d+', '', s)\<close>.\<close>

function drop_builds :: "string \<Rightarrow> string" where
  "drop_builds [] = []"
| "drop_builds (c # cs) =
     (if c = CHR ''-'' \<and> cs \<noteq> [] \<and> is_digit (hd cs) then drop_builds (dropWhile is_digit cs) else c # drop_builds cs)"
  by pat_completeness auto
termination by (relation "measure length") (auto intro: le_imp_less_Suc length_dropWhile_le)

text \<open>\<open>os.path.join\<close> with a relative second part.\<close>

definition path_join :: "string \<Rightarrow> string \<Rightarrow> string" where
  "path_join a b = (if a = '''' \<or> endswith ''/'' a then a @ b else a @ ''/'' @ b)"

section \<open>Long options\<close>

text \<open>\<open>getopt.getopt(args, '', longopts)\<close>, the options only; a name that ends with \<open>=\<close> takes an argument.\<close>

definition getopt_error :: exn where
  "getopt_error = OtherError ''GetoptError''"

definition long_has_args :: "string \<Rightarrow> string list \<Rightarrow> exn + bool \<times> string" where
  "long_has_args opt longopts =
     (let ps = filter (startswith opt) longopts in
      if ps = [] then Inl getopt_error
      else if opt \<in> set ps then Inr (False, opt)
      else if opt @ ''='' \<in> set ps then Inr (True, opt)
      else if length ps > 1 then Inl getopt_error
      else if endswith ''='' (hd ps) then Inr (True, butlast (hd ps)) else Inr (False, hd ps))"

text \<open>
  \<open>do_longs\<close> on one argument: the name of the option and its value, \<open>None\<close> if the value is the next argument.
\<close>

definition do_long :: "string list \<Rightarrow> string \<Rightarrow> exn + string \<times> string option" where
  "do_long longopts a =
     (let opt = takeWhile (\<lambda>c. c \<noteq> CHR ''='') (drop 2 a);
          given = (if CHR ''='' \<in> set (drop 2 a) then Some (tl (dropWhile (\<lambda>c. c \<noteq> CHR ''='') (drop 2 a))) else None)
      in case long_has_args opt longopts of
           Inl e \<Rightarrow> Inl e
         | Inr (has_arg, name) \<Rightarrow>
             if has_arg then Inr (name, given) else if given \<noteq> None then Inl getopt_error else Inr (name, Some ''''))"

text \<open>\<open>pending\<close> is the option that waits for its value.\<close>

primrec long_options :: "string list \<Rightarrow> string option \<Rightarrow> string list \<Rightarrow> exn + (string \<times> string) list" where
  "long_options longopts pending [] = (if pending = None then Inr [] else Inl getopt_error)"
| "long_options longopts pending (a # args) =
     (case pending of
        Some name \<Rightarrow> bindE (long_options longopts None args) (\<lambda>os. Inr ((name, a) # os))
      | None \<Rightarrow>
          if \<not> startswith ''-'' a \<or> a = ''-'' \<or> a = ''--'' then Inr []
          else if \<not> startswith ''--'' a then Inl getopt_error
          else (case do_long longopts a of
                  Inl e \<Rightarrow> Inl e
                | Inr (name, None) \<Rightarrow> long_options longopts (Some name) args
                | Inr (name, Some v) \<Rightarrow> bindE (long_options longopts None args) (\<lambda>os. Inr ((name, v) # os))))"

definition getopt_long :: "string list \<Rightarrow> string list \<Rightarrow> exn + (string \<times> string) list" where
  "getopt_long longopts args = long_options longopts None args"

end
