(* ===== verification/Tools.thy ===== *)
theory Tools
  imports DriverPurge Scripts
begin

text \<open>
  The command line tools: \<open>clean_partition.py\<close>, which empties a folder on the configured devices, and
  \<open>debug_bundler.py\<close>, in two versions, which collects configuration and log files in an archive. Arguments are parsed by
  the standard library; files are seen through a predicate \<open>exists\<close> and a list of names \<open>listing\<close>.
\<close>

section \<open>Cleaning a partition\<close>

definition clean_partition :: "'d sdk \<Rightarrow> 'd net_sdk \<Rightarrow> 'd sys_sdk \<Rightarrow> string \<Rightarrow> ('d, unit) py" where
  "clean_partition S N Y part = purge_folder_contents S N Y part"

text \<open>\<open>get\<close> reads an option of the section \<open>DEFAULT\<close>; \<open>login\<close> opens a device.\<close>

definition parse_config ::
  "(string \<Rightarrow> string option) \<Rightarrow> (string \<Rightarrow> string \<Rightarrow> string \<Rightarrow> ('w, 'd) py) \<Rightarrow> ('w, 'd list) py" where
  "parse_config get login =
     (case (get ''icontrol_hostname'', get ''icontrol_username'', get ''icontrol_password'') of
        (Some addrs, Some user, Some password) \<Rightarrow>
          foldM (\<lambda>addr ds. bindM (login addr user password) (\<lambda>d. retM (ds @ [d]))) (split_on CHR '','' addrs) []
      | _ \<Rightarrow> retM [])"

text \<open>The failure of a device is printed, and the next one is cleaned.\<close>

definition clean_devices :: "'d sdk \<Rightarrow> 'd net_sdk \<Rightarrow> 'd sys_sdk \<Rightarrow> string \<Rightarrow> ('d list, unit) py" where
  "clean_devices S N Y part = for_bigips (\<lambda>_. hush (clean_partition S N Y part)) ()"

section \<open>The debug bundle\<close>

record bundle_args =
  ba_config_dir :: string
  ba_log_dir :: string
  ba_tar_dest :: string
  ba_no_config_files :: bool
  ba_no_log_files :: bool

text \<open>An archive is the list of its entries: the path of a file and its name in the archive.\<close>

type_synonym archive = "(string \<times> string) list"

definition not_extant :: exn where
  "not_extant = OtherError ''TarAdditionNonExtant''"

definition add_file_to_tar :: "(string \<Rightarrow> bool) \<Rightarrow> string \<times> string \<Rightarrow> archive \<Rightarrow> exn + archive" where
  "add_file_to_tar exists f tar =
     (let path = path_join (fst f) (snd f) in if exists path then Inr (tar @ [(path, snd f)]) else Inl not_extant)"

definition config_bundle :: "bundle_args \<Rightarrow> (string \<times> string) list" where
  "config_bundle a =
     [(ba_config_dir a, ''neutron.conf''), (ba_config_dir a, ''neutron_lbaas.conf''),
      (path_join (path_join (ba_config_dir a) ''services'') ''f5'', ''f5-openstack-agent.ini'')]"

definition tar_config_files :: "(string \<Rightarrow> bool) \<Rightarrow> bundle_args \<Rightarrow> archive \<Rightarrow> exn + archive" where
  "tar_config_files exists a = foldE (add_file_to_tar exists) (config_bundle a)"

text \<open>The pattern \<open>log_file + '.[0-9].gz'\<close>.\<close>

definition is_archived_log :: "string \<Rightarrow> string \<Rightarrow> bool" where
  "is_archived_log log_file name \<longleftrightarrow> (\<exists>d \<in> set ''0123456789''. name = log_file @ ''.'' @ [d] @ ''.gz'')"

definition log_bundle :: "(string \<Rightarrow> string list) \<Rightarrow> bundle_args \<Rightarrow> string \<Rightarrow> (string \<times> string) list" where
  "log_bundle listing a log_file =
     map (\<lambda>n. (ba_log_dir a, n)) (log_file # filter (is_archived_log log_file) (listing (ba_log_dir a)))"

definition tar_log_files :: "(string \<Rightarrow> bool) \<Rightarrow> (string \<Rightarrow> string list) \<Rightarrow> bundle_args \<Rightarrow> archive \<Rightarrow> exn + archive" where
  "tar_log_files exists listing a =
     foldE (\<lambda>log. foldE (add_file_to_tar exists) (log_bundle listing a log)) [''server.log'', ''f5-openstack-agent.log'']"

text \<open>The list of packages is written to a file, added, and the file removed.\<close>

definition save_pip_list :: "bundle_args \<Rightarrow> archive \<Rightarrow> archive" where
  "save_pip_list a tar = tar @ [(path_join (ba_tar_dest a) ''pip_list.txt'', ''pip_list.txt'')]"

definition produce_bundle :: "(string \<Rightarrow> bool) \<Rightarrow> (string \<Rightarrow> string list) \<Rightarrow> bundle_args \<Rightarrow> exn + archive" where
  "produce_bundle exists listing a =
     bindE (if ba_no_config_files a then Inr [] else tar_config_files exists a []) (\<lambda>tar.
     bindE (if ba_no_log_files a then Inr tar else tar_log_files exists listing a tar) (\<lambda>tar.
       Inr (save_pip_list a tar)))"

section \<open>The best-effort bundle\<close>

text \<open>
  The script under \<open>bin\<close> skips what does not exist; \<open>pip_installed\<close> tells whether pip could be imported.
\<close>

definition bin_add_file_to_tar :: "(string \<Rightarrow> bool) \<Rightarrow> string \<times> string \<Rightarrow> archive \<Rightarrow> archive" where
  "bin_add_file_to_tar exists f tar =
     (let path = path_join (fst f) (snd f) in if exists path then tar @ [(path, snd f)] else tar)"

definition bin_config_files :: "bundle_args \<Rightarrow> (string \<times> string) list" where
  "bin_config_files a =
     [(ba_config_dir a, ''neutron.conf''), (ba_config_dir a, ''neutron_lbaas.conf''),
      (path_join (path_join (ba_config_dir a) ''services'') ''f5'', ''f5-openstack-agent.ini'')]"

definition bin_tar_config_files :: "(string \<Rightarrow> bool) \<Rightarrow> bundle_args \<Rightarrow> archive \<Rightarrow> archive" where
  "bin_tar_config_files exists a tar = fold (bin_add_file_to_tar exists) (bin_config_files a) tar"

definition bin_tar_archived_log_files ::
  "(string \<Rightarrow> bool) \<Rightarrow> (string \<Rightarrow> string list) \<Rightarrow> string \<Rightarrow> string \<Rightarrow> archive \<Rightarrow> archive" where
  "bin_tar_archived_log_files exists listing log_dir log_file tar =
     fold (\<lambda>log tar. if is_archived_log log_file log then bin_add_file_to_tar exists (log_dir, log) tar else tar)
       (listing log_dir) tar"

definition bin_tar_log_files :: "(string \<Rightarrow> bool) \<Rightarrow> (string \<Rightarrow> string list) \<Rightarrow> bundle_args \<Rightarrow> archive \<Rightarrow> archive" where
  "bin_tar_log_files exists listing a tar =
     fold (\<lambda>log_file tar.
             if exists (ba_log_dir a)
             then bin_tar_archived_log_files exists listing (ba_log_dir a) log_file
                    (bin_add_file_to_tar exists (ba_log_dir a, log_file) tar)
             else tar)
       [''server.log'', ''f5-openstack-agent.log''] tar"

definition bin_save_pip_list :: "bundle_args \<Rightarrow> archive \<Rightarrow> archive" where
  "bin_save_pip_list a tar = tar @ [(path_join (ba_tar_dest a) ''pip_list.txt'', ''pip_list.txt'')]"

definition bin_produce_bundle ::
  "(string \<Rightarrow> bool) \<Rightarrow> (string \<Rightarrow> string list) \<Rightarrow> bool \<Rightarrow> bundle_args \<Rightarrow> archive" where
  "bin_produce_bundle exists listing pip_installed a =
     (let tar = (if ba_no_config_files a then [] else bin_tar_config_files exists a []);
          tar = (if ba_no_log_files a then tar else bin_tar_log_files exists listing a tar)
      in if pip_installed then bin_save_pip_list a tar else tar)"

text \<open>The arguments of the command line with their defaults.\<close>

definition bin_bundle_args :: "string \<Rightarrow> bool \<Rightarrow> bool \<Rightarrow> string option \<Rightarrow> string option \<Rightarrow> bundle_args" where
  "bin_bundle_args tar_dest no_config_files no_log_files log_dir config_dir =
     \<lparr>ba_config_dir = get_or ''/etc/neutron/'' config_dir, ba_log_dir = get_or ''/var/log/neutron/'' log_dir,
      ba_tar_dest = tar_dest, ba_no_config_files = no_config_files, ba_no_log_files = no_log_files\<rparr>"

section \<open>Lemmas\<close>

text \<open>Every device is cleaned, whatever happens on the others.\<close>

lemma clean_devices_all: "clean_devices S N Y part ds = (Inr (), map (\<lambda>d. snd (clean_partition S N Y part d)) ds)"
proof -
  have "hush m d = (Inr (), snd (m d))" for m :: "('a, unit) py" and d
    by (cases "m d"; cases "fst (m d)") (auto simp: hush_def py_simps)
  then show ?thesis unfolding clean_devices_def by (induction ds) simp_all
qed

text \<open>What the bundle holds: all files that were asked for, in order, or the error that one is missing.\<close>

definition wanted :: "(string \<Rightarrow> string list) \<Rightarrow> bundle_args \<Rightarrow> (string \<times> string) list" where
  "wanted listing a =
     (if ba_no_config_files a then [] else config_bundle a) @
     (if ba_no_log_files a then []
      else log_bundle listing a ''server.log'' @ log_bundle listing a ''f5-openstack-agent.log'')"

lemma bindE_assoc: "bindE (bindE m f) g = bindE m (\<lambda>x. bindE (f x) g)"
  by (cases m) simp_all

lemma foldE_append: "foldE f (xs @ ys) a = bindE (foldE f xs a) (foldE f ys)"
  by (induction xs arbitrary: a) (auto simp: bindE_def split: sum.splits)

lemma add_files:
  "foldE (add_file_to_tar exists) fs tar =
     (if \<forall>f \<in> set fs. exists (path_join (fst f) (snd f))
      then Inr (tar @ map (\<lambda>f. (path_join (fst f) (snd f), snd f)) fs) else Inl not_extant)"
  by (induction fs arbitrary: tar) (auto simp: add_file_to_tar_def Let_def)

lemma produce_bundle_contents:
  "produce_bundle exists listing a =
     (if \<forall>f \<in> set (wanted listing a). exists (path_join (fst f) (snd f))
      then Inr (save_pip_list a (map (\<lambda>f. (path_join (fst f) (snd f), snd f)) (wanted listing a)))
      else Inl not_extant)"
proof -
  have l: "tar_log_files exists listing a tar =
      foldE (add_file_to_tar exists) (log_bundle listing a ''server.log'' @ log_bundle listing a ''f5-openstack-agent.log'') tar"
    for tar
    by (simp add: tar_log_files_def foldE_append bindE_def split: sum.split)
  have "bindE (if ba_no_config_files a then Inr [] else tar_config_files exists a []) (\<lambda>tar.
      if ba_no_log_files a then Inr tar else tar_log_files exists listing a tar)
    = foldE (add_file_to_tar exists) (wanted listing a) []"
    by (auto simp: wanted_def l tar_config_files_def foldE_append bindE_def split: sum.split)
  moreover have "produce_bundle exists listing a =
      bindE (bindE (if ba_no_config_files a then Inr [] else tar_config_files exists a []) (\<lambda>tar.
        if ba_no_log_files a then Inr tar else tar_log_files exists listing a tar)) (\<lambda>tar. Inr (save_pip_list a tar))"
    unfolding produce_bundle_def by (rule bindE_assoc [symmetric])
  ultimately show ?thesis by (simp add: add_files)
qed

text \<open>The best-effort bundle holds exactly the wanted files that exist, in the same order.\<close>

definition bundled :: "(string \<Rightarrow> bool) \<Rightarrow> (string \<times> string) list \<Rightarrow> archive" where
  "bundled exists fs =
     map (\<lambda>f. (path_join (fst f) (snd f), snd f)) (filter (\<lambda>f. exists (path_join (fst f) (snd f))) fs)"

lemma bundled_simps [simp]:
  "bundled exists [] = []" "bundled exists (fs @ gs) = bundled exists fs @ bundled exists gs"
  by (simp_all add: bundled_def)

lemma bin_add_files: "fold (bin_add_file_to_tar exists) fs tar = tar @ bundled exists fs"
  by (induction fs arbitrary: tar) (auto simp: bin_add_file_to_tar_def Let_def bundled_def)

lemma fold_filtered: "fold (\<lambda>x t. if P x then f x t else t) xs = fold f (filter P xs)"
  by (induction xs) (auto simp: fun_eq_iff)

lemma bin_archived:
  "bin_tar_archived_log_files exists listing dir log tar =
     tar @ bundled exists (map (\<lambda>n. (dir, n)) (filter (is_archived_log log) (listing dir)))"
  using bin_add_files [of exists "map (\<lambda>n. (dir, n)) (filter (is_archived_log log) (listing dir))" tar]
  by (simp add: bin_tar_archived_log_files_def fold_filtered fold_map comp_def)

lemma bin_bundle_contents:
  assumes "exists (ba_log_dir a) \<or> ba_no_log_files a"
  shows "bin_produce_bundle exists listing pip a =
    (if pip then save_pip_list a (bundled exists (wanted listing a)) else bundled exists (wanted listing a))"
proof -
  have "bin_tar_config_files exists a [] = bundled exists (config_bundle a)"
    using bin_add_files [of exists "config_bundle a" "[]"]
    by (simp add: bin_tar_config_files_def bin_config_files_def config_bundle_def)
  moreover have "bin_add_file_to_tar exists f tar = tar @ bundled exists [f]" for f tar
    using bin_add_files [of exists "[f]" tar] by simp
  then have "bin_tar_log_files exists listing a tar =
      tar @ bundled exists (log_bundle listing a ''server.log'' @ log_bundle listing a ''f5-openstack-agent.log'')"
    if "exists (ba_log_dir a)" for tar
    using that bundled_simps(2) [of exists "[(ba_log_dir a, n)]" for n]
    by (simp add: bin_tar_log_files_def bin_archived log_bundle_def flip: bundled_simps(2))
  ultimately show ?thesis using assms
    by (auto simp: bin_produce_bundle_def Let_def wanted_def bin_save_pip_list_def save_pip_list_def)
qed

text \<open>When no file is missing both bundles are the same.\<close>

lemma bundles_agree:
  assumes "produce_bundle exists listing a = Inr tar" and "exists (ba_log_dir a) \<or> ba_no_log_files a"
  shows "bin_produce_bundle exists listing True a = tar"
  using assms by (auto simp: produce_bundle_contents bin_bundle_contents bundled_def split: if_splits)

end
