(* ===== verification/Packaging.thy ===== *)
theory Packaging
  imports Scripts
begin

text \<open>
  \<open>construct_setups.py\<close>, \<open>configure.py\<close>, \<open>universal_truth.py\<close>: the dependencies of the packages. The
  requirement files are read by pip and written as \<open>requires\<close> of \<open>setup.cfg\<close> and as \<open>Depends\<close> of
  \<open>stdeb.cfg\<close>, in place of those that were there. The state is the files, the directories and the two
  default contents of the module, which are used up; \<open>pk_env\<close> holds what the scripts ask the system, pip
  and the JSON reader. Texts printed on the terminal are dropped.
\<close>

section \<open>State and environment\<close>

record pk =
  pk_files :: "(string \<times> string) list"
  pk_dirs :: "string list"
  pk_default_setup :: "string list"
  pk_default_stdeb :: "string list"

record pk_env =
  pe_glob :: "string \<Rightarrow> string list"
  pe_readable :: "string \<Rightarrow> bool"
  pe_writable :: "string \<Rightarrow> bool"
  pe_mkdir :: "string \<Rightarrow> int option" \<comment> \<open>the error number, \<open>None\<close> if the directory is made\<close>
  pe_chdir :: "string \<Rightarrow> string option" \<comment> \<open>the directory then worked in\<close>
  pe_reqs :: "string \<Rightarrow> exn + (string \<times> string) option list" \<comment> \<open>pip: name and specifier, \<open>None\<close> for a bare URL\<close>
  pe_json :: "string \<Rightarrow> exn + (string \<times> string) list"

definition default_setup_cfg :: "string list" where
  "default_setup_cfg = [''[bdist_rpm]'' @ [newline]]"

definition default_stdeb_cfg :: "string list" where
  "default_stdeb_cfg = [''[DEFAULT]'' @ [newline]]"

text \<open>The module as it is loaded.\<close>

definition loaded :: "pk \<Rightarrow> pk" where
  "loaded s = s\<lparr>pk_default_setup := default_setup_cfg, pk_default_stdeb := default_stdeb_cfg\<rparr>"

section \<open>Ends of the script\<close>

definition EIO :: int where "EIO = 5"
definition ENOEXEC :: int where "ENOEXEC = 8"
definition EEXIST :: int where "EEXIST = 17"
definition EINVAL :: int where "EINVAL = 22"
definition ENOSYS :: int where "ENOSYS = 38"

definition exit_cleanly :: "int \<Rightarrow> ('s, 'a) script" where
  "exit_cleanly n = stopS (Exit n)"

text \<open>What it prints before.\<close>

definition exit_statement :: "int \<Rightarrow> string" where
  "exit_statement n =
     (if n = 0 then ''No error has been detected!''
      else if n = 22 then ''An improper input error has occurred.  Please see above stmt(s)''
      else if n = 29 then ''An operation failed.  Please see above stmt(s)''
      else if n = 5 then ''An IO Error has occurred.  Please see above stmt(s)''
      else if n = 8 then ''An format error has occurred. Please see above stmt(s)''
      else ''An Unknown error has occurred!'')"

definition assertion_error :: exn where
  "assertion_error = OtherError ''AssertionError''"

section \<open>Reading a configuration\<close>

text \<open>The patterns \<open>^[^#\W]\<close> and \<open>^Depends:|^requires\s*=\s*\<close>.\<close>

definition begins_word :: "string \<Rightarrow> bool" where
  "begins_word l \<longleftrightarrow> l \<noteq> [] \<and> is_word (hd l)"

definition is_req :: "string \<Rightarrow> bool" where
  "is_req l \<longleftrightarrow> startswith ''Depends:'' l \<or>
     startswith ''requires'' l \<and> startswith ''='' (dropWhile is_space (drop 8 l))"

fun keep_lines :: "bool \<Rightarrow> string list \<Rightarrow> string list" where
  "keep_lines reading [] = []"
| "keep_lines reading (l # ls) =
     (let now = (if begins_word l \<and> \<not> reading then True else reading);
          now = (if is_req l then False else now)
      in (if now then [l] else []) @ keep_lines now ls)"

text \<open>The lines of the file, or one of the default contents of the module.\<close>

datatype contents = Lines "string list" | DefaultSetup | DefaultStdeb

definition read_in_cfgs :: "pk_env \<Rightarrow> string \<Rightarrow> (pk, contents) script" where
  "read_in_cfgs E cfg =
     bindS (getS (\<lambda>s. map_of (pk_files s) cfg)) (\<lambda>f.
       let cfgs = (case f of Some t \<Rightarrow> if pe_readable E cfg then keep_lines True (file_lines t) else [] | None \<Rightarrow> []) in
       retS (if cfgs \<noteq> [] then Lines cfgs
             else if endswith ''setup.cfg'' cfg then DefaultSetup
             else if endswith ''stdeb.cfg'' cfg then DefaultStdeb
             else Lines []))"

fun contents_lines :: "contents \<Rightarrow> pk \<Rightarrow> string list" where
  "contents_lines (Lines ls) s = ls"
| "contents_lines DefaultSetup s = pk_default_setup s"
| "contents_lines DefaultStdeb s = pk_default_stdeb s"

text \<open>\<open>contents.popleft()\<close> until it is empty empties the default of the module.\<close>

fun used_up :: "contents \<Rightarrow> pk \<Rightarrow> pk" where
  "used_up (Lines ls) s = s"
| "used_up DefaultSetup s = s\<lparr>pk_default_setup := []\<rparr>"
| "used_up DefaultStdeb s = s\<lparr>pk_default_stdeb := []\<rparr>"

section \<open>Writing the requirements\<close>

text \<open>The state of these is the text written to the open file.\<close>

definition fh_write :: "string \<Rightarrow> (string, unit) script" where
  "fh_write t = modifyS (\<lambda>f. f @ t)"

definition next_line :: string where
  "next_line = newline # ''    ''"

text \<open>The first match of \<open>(\d+)\.(\d+)\.(\d+)\<close>.\<close>

definition match_version :: "string \<Rightarrow> (string \<times> string \<times> string) option" where
  "match_version s =
     (let a = takeWhile is_digit s; r = dropWhile is_digit s;
          b = takeWhile is_digit (tl r); r' = dropWhile is_digit (tl r);
          c = takeWhile is_digit (tl r')
      in if a \<noteq> [] \<and> startswith ''.'' r \<and> b \<noteq> [] \<and> startswith ''.'' r' \<and> c \<noteq> [] then Some (a, b, c) else None)"

fun find_version :: "string \<Rightarrow> (string \<times> string \<times> string) option" where
  "find_version [] = None"
| "find_version (c # cs) = (case match_version (c # cs) of None \<Rightarrow> find_version cs | Some v \<Rightarrow> Some v)"

definition dotted :: "string \<Rightarrow> string \<Rightarrow> string \<Rightarrow> string" where
  "dotted a b c = a @ ''.'' @ b @ ''.'' @ c"

definition digits_val :: "string \<Rightarrow> nat" where
  "digits_val s = get_or 0 (parse_digits 0 s)"

definition handle_equals ::
  "(string \<Rightarrow> string \<Rightarrow> string) \<Rightarrow> string \<Rightarrow> string \<Rightarrow> string \<Rightarrow> (string, unit) script" where
  "handle_equals fmt name specifier pkg_type =
     (let specifier = (if CHR ''-'' \<in> set specifier then drop_builds specifier else specifier) in
      case find_version specifier of
        None \<Rightarrow> raiseS assertion_error
      | Some (major, minor, patch) \<Rightarrow>
          bindS (fh_write (fmt name ((if pkg_type = ''deb'' then ''<<'' else ''<'') @ '' '' @
                                     dotted major minor (str_nat (Suc (digits_val patch)))))) (\<lambda>_.
          bindS (fh_write next_line) (\<lambda>_.
          bindS (fh_write (fmt name (''>= '' @ dotted major minor patch))) (\<lambda>_.
          fh_write next_line))))"

text \<open>The first match of \<open>([><=]{1,2})(.*)\<close>, its groups joined by a space.\<close>

definition is_oper :: "char \<Rightarrow> bool" where
  "is_oper c \<longleftrightarrow> c = CHR ''>'' \<or> c = CHR ''<'' \<or> c = CHR ''=''"

definition relation :: "string \<Rightarrow> string option" where
  "relation specifier =
     (case dropWhile (\<lambda>c. \<not> is_oper c) specifier of
        [] \<Rightarrow> None
      | c # cs \<Rightarrow>
          (case cs of
             d # ds \<Rightarrow> if is_oper d then Some ([c, d] @ '' '' @ takeWhile (\<lambda>x. x \<noteq> newline) ds)
                       else Some ([c] @ '' '' @ takeWhile (\<lambda>x. x \<noteq> newline) cs)
           | [] \<Rightarrow> Some ([c] @ '' '')))"

definition package_name :: "string \<Rightarrow> string \<Rightarrow> string" where
  "package_name start name =
     (if contains_str ''Depends'' start then (if contains_str ''python-'' name then name else ''python-'' @ name) else name)"

fun write_reqs ::
  "(string \<Rightarrow> string \<Rightarrow> string) \<Rightarrow> string \<Rightarrow> (string \<times> string) option list \<Rightarrow> (string, unit) script" where
  "write_reqs fmt start [] = retS ()"
| "write_reqs fmt start (None # rs) = raiseS AttributeError"
| "write_reqs fmt start (Some (name, specifier) # rs) =
     (if contains_str ''=='' specifier
      then bindS (handle_equals fmt (package_name start name) specifier
                    (if contains_str ''Depends'' start then ''deb'' else ''rpm'')) (\<lambda>_. write_reqs fmt start rs)
      else
        (case relation specifier of
           None \<Rightarrow> exit_cleanly ENOEXEC
         | Some t \<Rightarrow>
             bindS (fh_write (fmt (package_name start name) t)) (\<lambda>_.
             bindS (if rs \<noteq> [] then fh_write next_line else retS ()) (\<lambda>_.
             write_reqs fmt start rs))))"

definition write_cfg ::
  "(string \<Rightarrow> string \<Rightarrow> string) \<Rightarrow> string \<Rightarrow> string list \<Rightarrow> (string \<times> string) option list \<Rightarrow> (string, unit) script" where
  "write_cfg fmt start ls rs =
     bindS (eachS fh_write ls) (\<lambda>_.
     bindS (fh_write start) (\<lambda>_.
     bindS (write_reqs fmt start rs) (\<lambda>_. fh_write [newline])))"

section \<open>Constructing a file\<close>

definition mkdir :: "pk_env \<Rightarrow> string \<Rightarrow> (pk, int option) script" where
  "mkdir E d =
     (case pe_mkdir E d of
        None \<Rightarrow> bindS (modifyS (\<lambda>s. s\<lparr>pk_dirs := d # pk_dirs s\<rparr>)) (\<lambda>_. retS None)
      | Some n \<Rightarrow> retS (Some n))"

definition make_base_dir :: "pk_env \<Rightarrow> string \<Rightarrow> (pk, unit) script" where
  "make_base_dir E d =
     bindS (getS (\<lambda>s. d \<in> set (pk_dirs s))) (\<lambda>there.
       if there then retS ()
       else bindS (mkdir E d) (\<lambda>e. if e \<in> {None, Some EEXIST} then retS () else raiseS os_error))"

text \<open>The file is truncated when it is opened; what was written before an exception stays.\<close>

definition write_file ::
  "pk_env \<Rightarrow> string \<Rightarrow> contents \<Rightarrow> (string \<Rightarrow> string \<Rightarrow> string) \<Rightarrow> string \<Rightarrow> (string \<times> string) option list \<Rightarrow> (pk, unit) script"
where
  "write_file E cfg c fmt start rs =
     bindS (getS (\<lambda>s. pe_writable E cfg \<and> dirname cfg \<in> set (pk_dirs s))) (\<lambda>opened.
       if \<not> opened then exit_cleanly EIO
       else
         bindS (getS (contents_lines c)) (\<lambda>ls.
           case write_cfg fmt start ls rs [] of
             (r, text) \<Rightarrow>
               bindS (modifyS (\<lambda>s. (used_up c s)\<lparr>pk_files := AList.update cfg text (pk_files s)\<rparr>)) (\<lambda>_.
               case r of
                 Inl (Raised e) \<Rightarrow> raiseS (if e = assertion_error then ValueError else e)
               | Inl (Exit n) \<Rightarrow> stopS (Exit n)
               | Inr _ \<Rightarrow> retS ())))"

definition construct_file ::
  "pk_env \<Rightarrow> string \<Rightarrow> string \<Rightarrow> (string \<Rightarrow> string \<Rightarrow> string) \<Rightarrow> string \<Rightarrow> (pk, unit) script" where
  "construct_file E cfg setup fmt start =
     bindS (getS (\<lambda>s. map_of (pk_files s) setup)) (\<lambda>f.
       case f of
         None \<Rightarrow> exit_cleanly ENOSYS
       | Some text \<Rightarrow>
           if \<not> pe_readable E setup then exit_cleanly ENOSYS
           else
             bindS (read_in_cfgs E cfg) (\<lambda>c.
             bindS (pureS (pe_reqs E text)) (\<lambda>rs.
               if rs = [] then exit_cleanly 0
               else bindS (make_base_dir E (dirname cfg)) (\<lambda>_. write_file E cfg c fmt start rs))))"

section \<open>From a working directory\<close>

definition build_setup_cfg :: "pk_env \<Rightarrow> string \<Rightarrow> (pk, unit) script" where
  "build_setup_cfg E wkg =
     construct_file E (wkg @ ''/setup.cfg'') (wkg @ ''/setup_requirements.txt'') (\<lambda>n v. n @ v) ''requires = ''"

text \<open>\<open>os.mkdir\<close> raises \<open>OSError\<close>, which \<open>except IOError\<close> does not catch.\<close>

definition stdeb_cfg_of :: "pk_env \<Rightarrow> string \<Rightarrow> (pk, string) script" where
  "stdeb_cfg_of E wkg =
     (case pe_glob E (wkg @ ''/*-dist/deb_dist/stdeb.cfg'') of
        cfg # _ \<Rightarrow> retS cfg
      | [] \<Rightarrow>
          (case pe_glob E (wkg @ ''/*-dist'') of
             [] \<Rightarrow> exit_cleanly ENOSYS
           | dist # _ \<Rightarrow>
               bindS (mkdir E (dist @ ''/deb_dist'')) (\<lambda>e.
                 if e = None then retS (dist @ ''/deb_dist'' @ ''/stdeb.cfg'') else raiseS os_error)))"

definition depends :: string where
  "depends = ''Depends:'' @ next_line"

definition build_stdeb_cfg :: "pk_env \<Rightarrow> string \<Rightarrow> (pk, unit) script" where
  "build_stdeb_cfg E wkg =
     bindS (stdeb_cfg_of E wkg) (\<lambda>cfg.
       construct_file E cfg (wkg @ ''/setup_requirements.txt'') (\<lambda>n v. n @ '' ('' @ v @ ''),'') depends)"

text \<open>
  \<open>str(None)\<close> for an argument that is not given. A percent sign in the working directory is a conversion for
  the \<open>%\<close> that follows and makes it fail (a doubled one aside).
\<close>

definition str_arg :: "string option \<Rightarrow> string" where
  "str_arg = get_or ''None''"

definition check_args :: "pk_env \<Rightarrow> string option \<Rightarrow> string option \<Rightarrow> string option \<Rightarrow> (pk, string) script" where
  "check_args E operating_system version working_directory =
     (case operating_system of
        None \<Rightarrow> exit_cleanly EINVAL
      | Some os \<Rightarrow>
          if os \<notin> {''ubuntu'', ''redhat''} then exit_cleanly EINVAL
          else if CHR ''%'' \<in> set (str_arg working_directory) then raiseS (OtherError ''format'')
          else
            (case pe_glob E (str_arg working_directory @ ''/*-dist/Docker/'' @ os @ ''/'' @ str_arg version) of
               [] \<Rightarrow> exit_cleanly 0
             | dir # _ \<Rightarrow> if dir = [] then exit_cleanly 0 else retS dir))"

definition expected_args :: "string list" where
  "expected_args = [''working_directory'', ''operating_system'', ''version'']"

definition construct_cfgs :: "pk_env \<Rightarrow> (string \<times> string) list \<Rightarrow> (pk, unit) script" where
  "construct_cfgs E args =
     (if \<exists>(k, v) \<in> set args. k \<notin> set expected_args then raiseS TypeError
      else
        bindS (check_args E (map_of args ''operating_system'') (map_of args ''version'')
                 (map_of args ''working_directory'')) (\<lambda>docker_dir.
        bindS (getS (\<lambda>s. docker_dir \<in> set (pk_dirs s))) (\<lambda>there.
          if \<not> there then bindS (needS KeyError (map_of args ''version'')) (\<lambda>_. exit_cleanly ENOSYS)
          else
            bindS (needS KeyError (map_of args ''working_directory'')) (\<lambda>wkg.
              if map_of args ''operating_system'' = Some ''redhat'' then build_setup_cfg E wkg
              else if map_of args ''operating_system'' = Some ''ubuntu'' then build_stdeb_cfg E wkg
              else retS ()))))"

section \<open>From a dictionary\<close>

definition construct_cfgs_from_json :: "pk_env \<Rightarrow> (string \<times> string) list \<Rightarrow> (pk, unit) script" where
  "construct_cfgs_from_json E args =
     bindS (needS KeyError (map_of args ''setup_cfg'')) (\<lambda>setup_cfg.
     bindS (needS KeyError (map_of args ''rpm_setup_requirements'')) (\<lambda>rpm_reqs.
     bindS (needS KeyError (map_of args ''stdeb_cfg'')) (\<lambda>stdeb_cfg.
     bindS (needS KeyError (map_of args ''deb_setup_requirements'')) (\<lambda>deb_reqs.
     bindS (construct_file E setup_cfg rpm_reqs (\<lambda>n v. n @ '' '' @ v) ''requires = '') (\<lambda>_.
     construct_file E stdeb_cfg deb_reqs (\<lambda>n v. n @ '' ('' @ v @ ''), '') depends)))))"

text \<open>A file that cannot be read leaves \<open>data\<close> unset.\<close>

definition load_json :: "pk_env \<Rightarrow> string \<Rightarrow> (pk, (string \<times> string) list) script" where
  "load_json E fl =
     bindS (getS (\<lambda>s. map_of (pk_files s) fl)) (\<lambda>f.
       case f of
         None \<Rightarrow> raiseS UnboundLocalError
       | Some t \<Rightarrow>
           if \<not> pe_readable E fl then raiseS UnboundLocalError
           else (case pe_json E t of Inl _ \<Rightarrow> raiseS UnboundLocalError | Inr data \<Rightarrow> retS data))"

fun collect_args :: "pk_env \<Rightarrow> (string \<times> string) list \<Rightarrow> (string \<times> string) list \<Rightarrow> (pk, (string \<times> string) list) script" where
  "collect_args E arguments [] = retS arguments"
| "collect_args E arguments ((option, a) # opts) =
     (if contains_str ''json'' option then load_json E a
      else collect_args E (if option \<in> set expected_args then AList.update option a arguments else arguments) opts)"

definition get_args :: "pk_env \<Rightarrow> string list \<Rightarrow> (pk, (string \<times> string) list) script" where
  "get_args E argv =
     (case getopt_long (map (\<lambda>x. x @ ''='') (''json'' # expected_args)) argv of
        Inl _ \<Rightarrow> exit_cleanly EINVAL
      | Inr opts \<Rightarrow>
          bindS (collect_args E [] opts) (\<lambda>arguments.
            if \<exists>item \<in> set expected_args. map_of arguments item = None then exit_cleanly EINVAL else retS arguments))"

definition construct_main :: "pk_env \<Rightarrow> string list \<Rightarrow> (pk, unit) script" where
  "construct_main E argv =
     bindS (catchS
       (bindS (get_args E argv) (\<lambda>args.
          if map_of args ''setup_cfg'' \<noteq> None \<and> map_of args ''stdeb_cfg'' \<noteq> None then construct_cfgs_from_json E args
          else construct_cfgs E args))
       (\<lambda>_. exit_cleanly 0)) (\<lambda>_. exit_cleanly 0)"

section \<open>The environment of the repository\<close>

text \<open>The first match of \<open>/([^/]+)-dist/?\<close>: the last \<open>-dist\<close> of the first component that has one after its first character.\<close>

definition before_dist :: "string \<Rightarrow> string option" where
  "before_dist c = map_option (\<lambda>i. take i c) (find (\<lambda>i. startswith ''-dist'' (drop i c)) (rev [1..<length c]))"

definition project_of :: "string \<Rightarrow> string option" where
  "project_of path = (case List.map_filter before_dist (tl (split_on CHR ''/'' path)) of [] \<Rightarrow> None | p # _ \<Rightarrow> Some p)"

text \<open>\<open>configure.exit_cleanly\<close> only prints, so the locals not set before it are unset after it.\<close>

definition get_env :: "pk_env \<Rightarrow> string \<Rightarrow> exn + (string \<times> string) list" where
  "get_env E working =
     (let dist_dirs = pe_glob E (working @ ''/f5-*-dist'');
          (dist_dir, project_name) =
            (if dist_dirs \<noteq> [] then (Some (hd dist_dirs), project_of (hd dist_dirs))
             else if contains_str ''-dist/scripts'' working then (None, project_of working)
             else (None, None))
      in case (dist_dir, project_name) of
           (Some d, Some p) \<Rightarrow>
             Inr [(''working'', working), (''dist_dir'', d),
                  (''rpm_setup_requirements'', working @ ''/rpm_setup_requirements.txt''),
                  (''deb_setup_requirements'', working @ ''/deb_setup_requirements.txt''),
                  (''setup_cfg'', working @ ''/setup.cfg''), (''stdeb_cfg'', d @ ''/deb_dist/stdeb.cfg''),
                  (''scripts'', d @ ''/scripts''), (''project'', p)]
         | _ \<Rightarrow> Inl UnboundLocalError)"

fun relative_dir :: "string \<Rightarrow> string list \<Rightarrow> string" where
  "relative_dir relative [] = relative"
| "relative_dir relative (item # path) =
     (let relative = relative @ ''/'' @ item in
      if item = ''f5-openstack-agent'' then relative else relative_dir relative path)"

definition get_relative_dir :: "string \<Rightarrow> string" where
  "get_relative_dir cwd = relative_dir '''' (split_on CHR ''/'' cwd)"

definition chdir :: "pk_env \<Rightarrow> string \<Rightarrow> (pk, string) script" where
  "chdir E d = needS os_error (pe_chdir E d)"

definition universal_main :: "pk_env \<Rightarrow> string \<Rightarrow> (pk, unit) script" where
  "universal_main E current =
     catchS
       (bindS (chdir E (get_relative_dir current)) (\<lambda>working.
        bindS (pureS (get_env E working)) (\<lambda>cfg.
        bindS (construct_cfgs_from_json E cfg) (\<lambda>_.
        bindS (chdir E current) (\<lambda>_. retS ())))))
       (\<lambda>_. retS ())"

end
