(* ===== verification/Packaging_Properties.thy ===== *)
theory Packaging_Properties
  imports Packaging
begin

text \<open>
  What the packaging scripts do: the text written is made of whole entries (\<open>hang_only\<close>), what is kept of
  a configuration is kept again, so a second run changes nothing, and the two relations written for a
  pinned version admit that version only.
\<close>

section \<open>Hanging text\<close>

text \<open>Every line after the first is indented.\<close>

primrec hang :: "string \<Rightarrow> bool" where
  "hang [] \<longleftrightarrow> True"
| "hang (c # cs) \<longleftrightarrow> (c = newline \<longrightarrow> cs \<noteq> [] \<and> hd cs = CHR '' '') \<and> hang cs"

lemma hang_flat: "newline \<notin> set t \<Longrightarrow> hang t"
  by (induction t) auto

lemma hang_append [intro]: "hang a \<Longrightarrow> hang b \<Longrightarrow> hang (a @ b)"
  by (induction a) auto

lemma hang_next_line [intro, simp]: "hang next_line"
  by (simp add: next_line_def newline_def)

definition indented :: "string \<Rightarrow> bool" where
  "indented l \<longleftrightarrow> l \<noteq> [] \<and> hd l = CHR '' ''"

lemma hang_lines:
  "hang t \<Longrightarrow> t \<noteq> [] \<Longrightarrow> \<exists>l ls. file_lines (t @ [newline]) = l # ls \<and> l \<noteq> [] \<and> hd l = hd t \<and> list_all indented ls"
proof (induction t)
  case (Cons c cs)
  show ?case
  proof (cases "cs = []")
    case True
    show ?thesis
    proof (cases "c = newline")
      case True
      with Cons.prems \<open>cs = []\<close> show ?thesis by simp
    qed (simp add: True)
  next
    case False
    from Cons.IH Cons.prems False obtain l ls
      where 1: "file_lines (cs @ [newline]) = l # ls" "l \<noteq> []" "hd l = hd cs" "list_all indented ls" by auto
    show ?thesis
    proof (cases "c = newline")
      case True
      with Cons.prems 1(3) have "hd l = CHR '' ''" by simp
      with 1(2) have "indented l" by (simp add: indented_def)
      with 1 True show ?thesis by simp
    qed (use 1 in simp)
  qed
qed simp

lemma file_lines_prefix:
  "newline \<notin> set p \<Longrightarrow> file_lines t = l # ls \<Longrightarrow> file_lines (p @ t) = (p @ l) # ls"
  by (induction p) auto

lemma skip_indented: "list_all indented ls \<Longrightarrow> keep_lines False ls = []"
  by (induction ls) (auto simp: indented_def begins_word_def is_word_def is_digit_def)

lemma keep_lines_req: "is_req l \<Longrightarrow> list_all indented ls \<Longrightarrow> keep_lines reading (l # ls) = []"
  by (simp add: skip_indented Let_def)

text \<open>The dependencies written are not read as part of the rest.\<close>

lemma requires_skipped:
  assumes "hang t" and "start = ''requires = '' \<or> start = depends"
  shows "keep_lines reading (file_lines (start @ t @ [newline])) = []"
proof -
  have body: "\<exists>l ls. file_lines (u @ [newline]) = l # ls \<and> l \<noteq> [] \<and> (u \<noteq> [] \<longrightarrow> hd l = hd u) \<and> list_all indented ls"
    if "hang u" for u
    using hang_lines [OF that] by (cases "u = []") auto
  from assms(2) show ?thesis
  proof
    assume s: "start = ''requires = ''"
    from body [OF assms(1)] obtain l ls where 1: "file_lines (t @ [newline]) = l # ls" "list_all indented ls" by blast
    have "file_lines (start @ t @ [newline]) = (''requires = '' @ l) # ls"
      unfolding s by (rule file_lines_prefix [OF _ 1(1)]) (simp add: newline_def)
    moreover have "is_req (''requires = '' @ l)" by (simp add: is_req_def startswith_def is_space_def)
    ultimately show ?thesis using keep_lines_req 1(2) by metis
  next
    assume s: "start = depends"
    have "hang (''    '' @ t)" by (intro hang_append assms(1) hang_flat) (simp add: newline_def)
    from body [OF this] obtain l ls where 1: "file_lines ((''    '' @ t) @ [newline]) = l # ls" "l \<noteq> []"
      "hd l = CHR '' ''" "list_all indented ls" by auto
    have "file_lines (start @ t @ [newline]) = (''Depends:'' @ [newline]) # file_lines ((''    '' @ t) @ [newline])"
      using file_lines_line [of "''Depends:''" "(''    '' @ t) @ [newline]"]
      by (simp add: s depends_def next_line_def newline_def)
    moreover have "is_req (''Depends:'' @ [newline])" by (simp add: is_req_def startswith_def)
    moreover have "list_all indented (l # ls)" using 1 by (simp add: indented_def)
    ultimately show ?thesis using keep_lines_req unfolding 1(1) by metis
  qed
qed

section \<open>What is kept is kept again\<close>

lemma keep_lines_not_req: "list_all (\<lambda>l. \<not> is_req l) (keep_lines reading ls)"
  by (induction ls arbitrary: reading) (auto simp: Let_def)

lemma keep_lines_all: "list_all (\<lambda>l. \<not> is_req l) ls \<Longrightarrow> keep_lines True (ls @ rest) = ls @ keep_lines True rest"
  by (induction ls) auto

lemma keep_lines_lines: "list_all a_line ls \<Longrightarrow> list_all a_line (keep_lines reading ls)"
  by (induction ls arbitrary: reading) (auto simp: Let_def)

lemma keep_again:
  assumes "list_all a_line ls" and "list_all (\<lambda>l. \<not> is_req l) ls"
    and "hang t" and "start = ''requires = '' \<or> start = depends"
  shows "keep_lines True (file_lines (concat ls @ start @ t @ [newline])) = ls"
proof -
  have "ended (concat ls)"
    using assms(1) by (cases ls rule: rev_cases) (auto simp: ended_def a_line_def)
  then have "file_lines (concat ls @ start @ t @ [newline]) = ls @ file_lines (start @ t @ [newline])"
    by (simp add: file_lines_append file_lines_concat [OF assms(1)])
  with requires_skipped [OF assms(3,4), of True] assms(2) show ?thesis by (simp add: keep_lines_all)
qed

section \<open>The text written\<close>

text \<open>A script that adds the same hanging text whatever was written before it.\<close>

definition hang_only :: "(string, unit) script \<Rightarrow> bool" where
  "hang_only m \<longleftrightarrow> (\<exists>r b. hang b \<and> m = (\<lambda>f. (r, f @ b)))"

lemma hang_only_rules:
  "hang_only (retS ())" "hang_only (stopS e)" "hang t \<Longrightarrow> hang_only (fh_write t)"
  unfolding hang_only_def retS_def stopS_def fh_write_def modifyS_def
  by (rule exI, rule exI [of _ "[]"], force) (rule exI, rule exI [of _ "[]"], force,
    rule exI, rule exI [of _ t], force)

lemma hang_only_bind:
  assumes "hang_only m" and "hang_only (k ())"
  shows "hang_only (bindS m k)"
proof -
  from assms(1) obtain r b where 1: "hang b" "m = (\<lambda>f. (r, f @ b))" unfolding hang_only_def by blast
  from assms(2) obtain r' b' where 2: "hang b'" "k () = (\<lambda>f. (r', f @ b'))" unfolding hang_only_def by blast
  show ?thesis
  proof (cases r)
    case (Inl e)
    with 1(2) have "bindS m k = (\<lambda>f. (Inl e, f @ b))" by (simp add: bindS_def fun_eq_iff)
    with 1(1) show ?thesis unfolding hang_only_def by blast
  next
    case (Inr u)
    with 1(2) 2(2) have "bindS m k = (\<lambda>f. (r', f @ b @ b'))" by (simp add: bindS_def fun_eq_iff)
    with 1(1) 2(1) show ?thesis unfolding hang_only_def by blast
  qed
qed

definition flat_fmt :: "(string \<Rightarrow> string \<Rightarrow> string) \<Rightarrow> bool" where
  "flat_fmt fmt \<longleftrightarrow> (\<forall>n v. newline \<notin> set n \<longrightarrow> newline \<notin> set v \<longrightarrow> newline \<notin> set (fmt n v))"

lemma flat_fmts:
  "flat_fmt (\<lambda>n v. n @ v)" "flat_fmt (\<lambda>n v. n @ '' '' @ v)"
  "flat_fmt (\<lambda>n v. n @ '' ('' @ v @ ''),'')" "flat_fmt (\<lambda>n v. n @ '' ('' @ v @ ''), '')"
  by (simp_all add: flat_fmt_def newline_def)

lemma hang_fmt: "flat_fmt fmt \<Longrightarrow> newline \<notin> set n \<Longrightarrow> newline \<notin> set v \<Longrightarrow> hang (fmt n v)"
  by (simp add: flat_fmt_def hang_flat)

lemma digits_flat: "list_all is_digit d \<Longrightarrow> newline \<notin> set d"
  by (induction d) (auto simp: is_digit_def newline_def)

lemma match_version_digits:
  "match_version s = Some (a, b, c) \<Longrightarrow> list_all is_digit a \<and> list_all is_digit b \<and> list_all is_digit c"
  by (auto simp: match_version_def Let_def list_all_iff dest: set_takeWhileD split: if_splits)

lemma find_version_digits:
  "find_version s = Some (a, b, c) \<Longrightarrow> list_all is_digit a \<and> list_all is_digit b \<and> list_all is_digit c"
  by (induction s) (auto dest: match_version_digits split: option.splits)

lemma str_nat_flat: "newline \<notin> set (str_nat n)"
  by (rule digits_flat) (use str_nat_digits in \<open>auto simp: list_all_iff\<close>)

lemma handle_equals_hangs:
  assumes "flat_fmt fmt" and "newline \<notin> set name"
  shows "hang_only (handle_equals fmt name specifier pkg)"
proof (cases "find_version (if CHR ''-'' \<in> set specifier then drop_builds specifier else specifier)")
  case None
  then show ?thesis by (simp add: handle_equals_def hang_only_rules)
next
  case (Some v)
  obtain a b c where v: "v = (a, b, c)" by (cases v)
  from find_version_digits [OF Some [unfolded v]] have "newline \<notin> set a" "newline \<notin> set b" "newline \<notin> set c"
    using digits_flat by blast+
  then have "newline \<notin> set (dotted a b c)" "newline \<notin> set (dotted a b (str_nat n))" for n
    using str_nat_flat by (auto simp: dotted_def newline_def)
  moreover have "hang (fmt name (oper @ u))" if "newline \<notin> set oper" "newline \<notin> set u" for oper u
    by (rule hang_fmt [OF assms]) (simp add: that)
  ultimately have w: "newline \<notin> set oper \<Longrightarrow> hang (fmt name (oper @ dotted a b c))"
    "newline \<notin> set oper \<Longrightarrow> hang (fmt name (oper @ dotted a b (str_nat n)))" for oper n
    by blast+
  have n: "newline \<notin> set ''>= ''" "newline \<notin> set ((if pkg = ''deb'' then ''<<'' else ''<'') @ '' '')"
    by (simp_all add: newline_def)
  from w(1) [OF n(1)] w(2) [OF n(2)] show ?thesis
    unfolding handle_equals_def Let_def Some v
    by (simp only: option.case prod.case append_assoc, intro hang_only_bind hang_only_rules hang_next_line) simp_all
qed

lemma oper_flat: "is_oper c \<Longrightarrow> c \<noteq> newline"
  by (auto simp: is_oper_def newline_def)

lemma before_newline: "newline \<notin> set (takeWhile (\<lambda>x. x \<noteq> newline) s)"
  by (auto dest: set_takeWhileD)

lemma relation_flat:
  assumes "relation s = Some t"
  shows "newline \<notin> set t"
proof -
  from assms obtain c cs where d: "dropWhile (\<lambda>c. \<not> is_oper c) s = c # cs"
    by (cases "dropWhile (\<lambda>c. \<not> is_oper c) s") (simp_all add: relation_def)
  then have "is_oper c" by (simp add: dropWhile_eq_Cons_conv)
  from oper_flat [OF this] have c: "c \<noteq> newline" "CHR '' '' \<noteq> newline" by (simp_all add: newline_def)
  show ?thesis
  proof (cases cs)
    case (Cons x xs)
    show ?thesis
    proof (cases "is_oper x")
      case True
      with oper_flat [OF True] assms d Cons c before_newline [of xs] show ?thesis by (auto simp: relation_def)
    qed (use assms d Cons c before_newline [of cs] in \<open>auto simp: relation_def\<close>)
  qed (use assms d c in \<open>auto simp: relation_def\<close>)
qed

definition plain_names :: "(string \<times> string) option list \<Rightarrow> bool" where
  "plain_names rs \<longleftrightarrow> (\<forall>n v. Some (n, v) \<in> set rs \<longrightarrow> newline \<notin> set n)"

lemma write_reqs_hangs:
  "flat_fmt fmt \<Longrightarrow> plain_names rs \<Longrightarrow> hang_only (write_reqs fmt start rs)"
proof (induction rs)
  case (Cons r rs)
  from Cons.prems have ps: "plain_names rs" by (auto simp: plain_names_def)
  show ?case
  proof (cases r)
    case (Some p)
    obtain n v where p: "p = (n, v)" by (cases p)
    from Cons.prems Some p have "newline \<notin> set n" by (auto simp: plain_names_def)
    then have n: "newline \<notin> set (package_name start n)" by (simp add: package_name_def newline_def)
    show ?thesis
    proof (cases "contains_str ''=='' v")
      case True
      then show ?thesis unfolding Some p
        by (simp only: write_reqs.simps if_True, intro hang_only_bind handle_equals_hangs Cons.prems n)
          (rule Cons.IH [OF Cons.prems(1) ps])
    next
      case False
      note neq = this
      show ?thesis
      proof (cases "relation v")
        case None
        with neq show ?thesis unfolding Some p by (simp add: exit_cleanly_def hang_only_rules)
      next
        case (Some t)
        have "hang_only (if rs \<noteq> [] then fh_write next_line else retS ())"
          by (simp add: hang_only_rules)
        with neq Some show ?thesis unfolding \<open>r = Some p\<close> p
          by (simp only: write_reqs.simps if_False option.case, intro hang_only_bind hang_only_rules)
            (use hang_fmt [OF Cons.prems(1) n relation_flat [OF Some]] Cons.IH [OF Cons.prems(1) ps] in auto)
      qed
    qed
  qed (simp add: hang_only_rules)
qed (simp add: hang_only_rules)

lemma write_all: "eachS fh_write ls f = (Inr (), f @ concat ls)"
  by (induction ls arbitrary: f) (auto simp: script_simps fh_write_def)

lemma write_cfg_text:
  assumes "flat_fmt fmt" and "plain_names rs" and "write_cfg fmt start ls rs [] = (Inr (), text)"
  shows "\<exists>b. hang b \<and> text = concat ls @ start @ b @ [newline]"
proof -
  from write_reqs_hangs [OF assms(1,2), of start] obtain r b
    where "hang b" "write_reqs fmt start rs = (\<lambda>f. (r, f @ b))" unfolding hang_only_def by blast
  with assms(3) show ?thesis
    by (auto simp: write_cfg_def write_all fh_write_def bindS_def modifyS_def split: sum.splits)
qed

section \<open>One file\<close>

text \<open>What goes into the file before its dependencies.\<close>

definition contents_of :: "pk_env \<Rightarrow> string \<Rightarrow> pk \<Rightarrow> contents" where
  "contents_of E cfg s =
     (let cfgs = (case map_of (pk_files s) cfg of
                    Some t \<Rightarrow> if pe_readable E cfg then keep_lines True (file_lines t) else [] | None \<Rightarrow> [])
      in if cfgs \<noteq> [] then Lines cfgs
         else if endswith ''setup.cfg'' cfg then DefaultSetup
         else if endswith ''stdeb.cfg'' cfg then DefaultStdeb else Lines [])"

lemma read_in_cfgs_contents: "read_in_cfgs E cfg s = (Inr (contents_of E cfg s), s)"
  by (simp add: read_in_cfgs_def contents_of_def Let_def retS_def del: file_lines.simps)

lemma contents_dirs [simp]: "contents_lines c (s\<lparr>pk_dirs := ds\<rparr>) = contents_lines c s"
  by (cases c) simp_all

lemma used_up_fields [simp]:
  "pk_files (used_up c s) = pk_files s" "pk_dirs (used_up c s) = pk_dirs s"
  by (cases c; simp)+

lemma make_base_dir_cases:
  assumes "make_base_dir E d s = (Inr (), s')"
  shows "\<exists>ds. s' = s\<lparr>pk_dirs := ds\<rparr> \<and> set (pk_dirs s) \<subseteq> set ds"
proof -
  have id: "s = s\<lparr>pk_dirs := pk_dirs s\<rparr>" by simp
  from assms consider "s' = s" | "s' = s\<lparr>pk_dirs := d # pk_dirs s\<rparr>"
    by (auto simp: make_base_dir_def mkdir_def retS_def stopS_def bindS_def getS_def modifyS_def
        split: if_splits option.splits)
  then show ?thesis
  proof cases
    case 1
    with id show ?thesis by blast
  next
    case 2
    then show ?thesis by (intro exI [of _ "d # pk_dirs s"]) auto
  qed
qed

text \<open>A run that returns, from the facts it rests on, and those facts from the run.\<close>

lemma construct_file_returns:
  assumes "construct_file E cfg setup fmt start s = (Inr (), s')"
  shows "\<exists>content rs out. map_of (pk_files s) setup = Some content \<and> pe_readable E setup \<and> pe_reqs E content = Inr rs \<and> rs \<noteq> [] \<and>
     pe_writable E cfg \<and> dirname cfg \<in> set (pk_dirs s') \<and> set (pk_dirs s) \<subseteq> set (pk_dirs s') \<and>
     write_cfg fmt start (contents_lines (contents_of E cfg s) s) rs [] = (Inr (), out) \<and>
     pk_files s' = AList.update cfg out (pk_files s) \<and>
     pk_default_setup s' = pk_default_setup (used_up (contents_of E cfg s) s) \<and>
     pk_default_stdeb s' = pk_default_stdeb (used_up (contents_of E cfg s) s)"
proof -
  from assms obtain content rs s0 where 1: "map_of (pk_files s) setup = Some content" "pe_readable E setup"
      "pe_reqs E content = Inr rs" "rs \<noteq> []" "make_base_dir E (dirname cfg) s = (Inr (), s0)"
      "write_file E cfg (contents_of E cfg s) fmt start rs s0 = (Inr (), s')"
    by (auto simp: construct_file_def read_in_cfgs_contents pureS_def exit_cleanly_def stopS_def retS_def
        bindS_def getS_def split: option.splits if_splits sum.splits prod.splits)
  from make_base_dir_cases [OF 1(5)] obtain ds where s0: "s0 = s\<lparr>pk_dirs := ds\<rparr>" and ds: "set (pk_dirs s) \<subseteq> set ds"
    by blast
  obtain r out where w: "write_cfg fmt start (contents_lines (contents_of E cfg s) s) rs [] = (r, out)"
    by (cases "write_cfg fmt start (contents_lines (contents_of E cfg s) s) rs []")
  from 1(6) s0 w have o: "pe_writable E cfg" "dirname cfg \<in> set ds" "r = Inr ()"
    "s' = (used_up (contents_of E cfg s) s0)\<lparr>pk_files := AList.update cfg out (pk_files s0)\<rparr>"
    by (auto simp: write_file_def exit_cleanly_def stopS_def retS_def bindS_def getS_def modifyS_def
        split: if_splits sum.splits stop.splits)
  have "pk_default_setup (used_up c s0) = pk_default_setup (used_up c s)"
    "pk_default_stdeb (used_up c s0) = pk_default_stdeb (used_up c s)" for c
    by (cases c; simp add: s0)+
  with 1 o w ds show ?thesis by (auto simp: s0)
qed

lemma construct_file_there:
  assumes "map_of (pk_files s) setup = Some content" and "pe_readable E setup" and "pe_reqs E content = Inr rs" and "rs \<noteq> []"
    and "pe_writable E cfg" and "dirname cfg \<in> set (pk_dirs s)"
    and "write_cfg fmt start (contents_lines (contents_of E cfg s) s) rs [] = (Inr (), out)"
  shows "construct_file E cfg setup fmt start s =
    (Inr (), (used_up (contents_of E cfg s) s)\<lparr>pk_files := AList.update cfg out (pk_files s)\<rparr>)"
proof -
  have "make_base_dir E (dirname cfg) s = (Inr (), s)"
    using assms(6) by (simp add: make_base_dir_def retS_def)
  moreover have "write_file E cfg (contents_of E cfg s) fmt start rs s =
      (Inr (), (used_up (contents_of E cfg s) s)\<lparr>pk_files := AList.update cfg out (pk_files s)\<rparr>)"
    using assms(5-7) by (simp add: write_file_def retS_def)
  ultimately show ?thesis using assms(1-4)
    by (simp add: construct_file_def read_in_cfgs_contents pureS_def bindS_def [of "read_in_cfgs E cfg"]
        bindS_def [of "make_base_dir E (dirname cfg)"])
qed

text \<open>The defaults a file may need are there.\<close>

definition default_there :: "string \<Rightarrow> pk \<Rightarrow> bool" where
  "default_there cfg s \<longleftrightarrow>
     (if endswith ''setup.cfg'' cfg then pk_default_setup s = default_setup_cfg
      else endswith ''stdeb.cfg'' cfg \<longrightarrow> pk_default_stdeb s = default_stdeb_cfg)"

definition ended_file :: "string \<Rightarrow> pk \<Rightarrow> bool" where
  "ended_file cfg s \<longleftrightarrow> (case map_of (pk_files s) cfg of None \<Rightarrow> True | Some t \<Rightarrow> ended t)"

lemma contents_good:
  assumes "default_there cfg s" and "ended_file cfg s"
  shows "list_all a_line (contents_lines (contents_of E cfg s) s) \<and>
    list_all (\<lambda>l. \<not> is_req l) (contents_lines (contents_of E cfg s) s) \<and>
    (contents_of E cfg s \<noteq> Lines [] \<longrightarrow> contents_lines (contents_of E cfg s) s \<noteq> [])"
proof -
  have d: "list_all a_line default_setup_cfg" "list_all a_line default_stdeb_cfg"
    "list_all (\<lambda>l. \<not> is_req l) default_setup_cfg" "list_all (\<lambda>l. \<not> is_req l) default_stdeb_cfg"
    "default_setup_cfg \<noteq> []" "default_stdeb_cfg \<noteq> []"
    by (auto simp: default_setup_cfg_def default_stdeb_cfg_def a_line_def newline_def is_req_def startswith_def)
  have "list_all a_line (keep_lines True (file_lines t))" if "map_of (pk_files s) cfg = Some t" for t
    using that assms(2) by (intro keep_lines_lines ended_lines) (simp add: ended_file_def)
  then show ?thesis using assms(1) d keep_lines_not_req
    by (auto simp: contents_of_def Let_def default_there_def split: option.splits)
qed

text \<open>A file that was constructed is constructed again with the same content.\<close>

lemma construct_file_again:
  assumes run: "construct_file E cfg setup fmt start s = (Inr (), s')"
    and good: "default_there cfg s" "ended_file cfg s" "pe_readable E cfg"
    and fmt: "flat_fmt fmt" "start = ''requires = '' \<or> start = depends"
    and plain: "\<And>t rs. pe_reqs E t = Inr rs \<Longrightarrow> plain_names rs"
    and later: "map_of (pk_files s2) setup = map_of (pk_files s) setup"
      "map_of (pk_files s2) cfg = map_of (pk_files s') cfg" "set (pk_dirs s') \<subseteq> set (pk_dirs s2)"
      "contents_of E cfg s = Lines [] \<longrightarrow> \<not> endswith ''setup.cfg'' cfg \<and> \<not> endswith ''stdeb.cfg'' cfg"
  shows "construct_file E cfg setup fmt start s2 = (Inr (), s2)"
proof -
  from construct_file_returns [OF run] obtain content rs out where
      1: "map_of (pk_files s) setup = Some content" "pe_readable E setup" "pe_reqs E content = Inr rs" "rs \<noteq> []"
        "pe_writable E cfg" "dirname cfg \<in> set (pk_dirs s')"
    and w: "write_cfg fmt start (contents_lines (contents_of E cfg s) s) rs [] = (Inr (), out)"
    and f: "pk_files s' = AList.update cfg out (pk_files s)" by blast
  let ?ls = "contents_lines (contents_of E cfg s) s"
  from write_cfg_text [OF fmt(1) plain [OF 1(3)] w] obtain b where
    b: "hang b" "out = concat ?ls @ start @ b @ [newline]" by blast
  note g = contents_good [OF good(1,2), of E]
  from g keep_again [OF _ _ b(1) fmt(2)] have k: "keep_lines True (file_lines out) = ?ls" unfolding b(2) by blast
  from f later(2) have out: "map_of (pk_files s2) cfg = Some out" by (simp add: update_conv')
  have c: "contents_of E cfg s2 = Lines ?ls"
  proof (cases "contents_of E cfg s = Lines []")
    case True
    with later(4) show ?thesis by (simp add: contents_of_def [of E cfg s2] out good(3) k)
  next
    case False
    with g have "?ls \<noteq> []" by blast
    then show ?thesis by (simp add: contents_of_def [of E cfg s2] out good(3) k)
  qed
  have "construct_file E cfg setup fmt start s2 =
      (Inr (), (used_up (contents_of E cfg s2) s2)\<lparr>pk_files := AList.update cfg out (pk_files s2)\<rparr>)"
    by (rule construct_file_there [OF _ 1(2,3,4,5)]) (use 1 w later c in auto)
  then show ?thesis by (simp add: c update_triv [OF out])
qed

section \<open>Both files\<close>

lemma needS_Some [simp]: "bindS (needS e (Some x)) k = k x"
  by (simp add: needS_def)

text \<open>The paths of the environment are different files.\<close>

lemma env_paths:
  "w @ ''/setup.cfg'' \<noteq> d @ ''/deb_dist/stdeb.cfg''"
  "w @ ''/setup.cfg'' \<noteq> v @ ''/rpm_setup_requirements.txt''" "w @ ''/setup.cfg'' \<noteq> v @ ''/deb_setup_requirements.txt''"
  "d @ ''/deb_dist/stdeb.cfg'' \<noteq> v @ ''/rpm_setup_requirements.txt''"
  "d @ ''/deb_dist/stdeb.cfg'' \<noteq> v @ ''/deb_setup_requirements.txt''"
  by (rule notI, drule arg_cong [of _ _ rev], simp)+

lemma env_names:
  "endswith ''setup.cfg'' (w @ ''/setup.cfg'')" "endswith ''stdeb.cfg'' (d @ ''/deb_dist/stdeb.cfg'')"
  "\<not> endswith ''setup.cfg'' (d @ ''/deb_dist/stdeb.cfg'')"
proof -
  have "w @ ''/setup.cfg'' = (w @ ''/'') @ ''setup.cfg''" by simp
  then show "endswith ''setup.cfg'' (w @ ''/setup.cfg'')" by (metis endswith_append)
  have "d @ ''/deb_dist/stdeb.cfg'' = (d @ ''/deb_dist/'') @ ''stdeb.cfg''" by simp
  then show "endswith ''stdeb.cfg'' (d @ ''/deb_dist/stdeb.cfg'')" by (metis endswith_append)
  show "\<not> endswith ''setup.cfg'' (d @ ''/deb_dist/stdeb.cfg'')" by (simp add: endswith_def)
qed

text \<open>C28
  The script that writes the dependencies of both packages, run again on what it wrote, changes nothing:
  the blocks it wrote are taken out completely, what it kept is kept again, and the default sections it
  wrote into an empty file are not written twice. The configuration files end with a line end, as text
  files do, can be read back, and the names pip finds are one line each.
\<close>

theorem setups_rebuilt:
  assumes env: "get_env E working = Inr env" "map_of env ''setup_cfg'' = Some cfg" "map_of env ''stdeb_cfg'' = Some deb"
    and run: "construct_cfgs_from_json E env (loaded s) = (Inr (), s1)"
    and files: "ended_file cfg s" "ended_file deb s" "pe_readable E cfg" "pe_readable E deb"
    and plain: "\<And>t rs. pe_reqs E t = Inr rs \<Longrightarrow> plain_names rs"
  shows "construct_cfgs_from_json E env (loaded s1) = (Inr (), loaded s1)"
proof -
  from env(1) obtain d p where e: "env = [(''working'', working), (''dist_dir'', d),
        (''rpm_setup_requirements'', working @ ''/rpm_setup_requirements.txt''),
        (''deb_setup_requirements'', working @ ''/deb_setup_requirements.txt''),
        (''setup_cfg'', working @ ''/setup.cfg''), (''stdeb_cfg'', d @ ''/deb_dist/stdeb.cfg''),
        (''scripts'', d @ ''/scripts''), (''project'', p)]"
    by (auto simp: get_env_def Let_def split: option.splits prod.splits)
  define rpm_reqs where "rpm_reqs = working @ ''/rpm_setup_requirements.txt''"
  define deb_reqs where "deb_reqs = working @ ''/deb_setup_requirements.txt''"
  from env(2,3) e have names: "cfg = working @ ''/setup.cfg''" "deb = d @ ''/deb_dist/stdeb.cfg''" by auto
  then have diff: "cfg \<noteq> deb" "cfg \<noteq> rpm_reqs" "cfg \<noteq> deb_reqs" "deb \<noteq> rpm_reqs" "deb \<noteq> deb_reqs"
    and ends: "endswith ''setup.cfg'' cfg" "endswith ''stdeb.cfg'' deb" "\<not> endswith ''setup.cfg'' deb"
    by (simp_all only: rpm_reqs_def deb_reqs_def env_paths env_names not_False_eq_True)
  let ?rpm = "construct_file E cfg rpm_reqs (\<lambda>n v. n @ '' '' @ v) ''requires = ''"
  let ?deb = "construct_file E deb deb_reqs (\<lambda>n v. n @ '' ('' @ v @ ''), '') depends"
  have both: "construct_cfgs_from_json E env = bindS ?rpm (\<lambda>_. ?deb)"
    unfolding construct_cfgs_from_json_def e rpm_reqs_def deb_reqs_def names by simp
  from run both obtain s' where r: "?rpm (loaded s) = (Inr (), s')" and d: "?deb s' = (Inr (), s1)"
    by (auto simp: bindS_Inr)
  from construct_file_returns [OF r] have 1: "\<exists>out. pk_files s' = AList.update cfg out (pk_files s)"
    "pk_default_stdeb s' = pk_default_stdeb (used_up (contents_of E cfg (loaded s)) (loaded s))"
    by (auto simp: loaded_def)
  from construct_file_returns [OF d] have 2: "\<exists>out. pk_files s1 = AList.update deb out (pk_files s')"
    "set (pk_dirs s') \<subseteq> set (pk_dirs s1)" by auto
  have "contents_of E cfg (loaded s) \<noteq> DefaultStdeb" using ends by (auto simp: contents_of_def Let_def)
  then have "pk_default_stdeb s' = default_stdeb_cfg"
    using 1(2) by (cases "contents_of E cfg (loaded s)") (auto simp: loaded_def)
  then have g: "default_there cfg (loaded s)" "ended_file cfg (loaded s)" "default_there deb s'" "ended_file deb s'"
    using files(1,2) ends 1(1) diff by (auto simp: default_there_def loaded_def ended_file_def update_conv')
  have "?rpm (loaded s1) = (Inr (), loaded s1)"
    by (rule construct_file_again [OF r g(1,2) files(3) flat_fmts(2) _ plain])
      (use 1 2 diff ends in \<open>auto simp: loaded_def update_conv' contents_of_def Let_def split: if_splits option.splits\<close>)
  moreover have "?deb (loaded s1) = (Inr (), loaded s1)"
    by (rule construct_file_again [OF d g(3,4) files(4) flat_fmts(4) _ plain])
      (use 1 2 diff ends in \<open>auto simp: loaded_def update_conv' contents_of_def Let_def split: if_splits option.splits\<close>)
  ultimately show ?thesis by (simp add: both bindS_def)
qed

text \<open>A repository with a \<open>setup.cfg\<close> of an earlier run and no \<open>stdeb.cfg\<close>.\<close>

definition ex_pip :: "(string \<times> string) option list" where
  "ex_pip = [Some (''f5-sdk'', ''==3.0.11''), Some (''oslo.log'', ''>=3.1'')]"

definition ex_packager :: pk_env where
  "ex_packager =
     \<lparr>pe_glob = (\<lambda>_. [''/w/f5-openstack-agent-dist'']), pe_readable = (\<lambda>_. True), pe_writable = (\<lambda>_. True),
      pe_mkdir = (\<lambda>_. None), pe_chdir = (\<lambda>d. Some ''/w''), pe_reqs = (\<lambda>_. Inr ex_pip), pe_json = (\<lambda>_. Inl ValueError)\<rparr>"

definition ex_repo :: pk where
  "ex_repo =
     \<lparr>pk_files =
        [(''/w/setup.cfg'', ''[metadata]'' @ [newline] @ ''requires = f5-sdk < 3.0.10'' @ next_line @
                          ''f5-sdk >= 3.0.9'' @ [newline] @ ''name = agent'' @ [newline]),
         (''/w/rpm_setup_requirements.txt'', ''f5-sdk==3.0.11''), (''/w/deb_setup_requirements.txt'', ''f5-sdk==3.0.11'')],
      pk_dirs = [''/w''], pk_default_setup = [], pk_default_stdeb = []\<rparr>"

definition ex_built :: pk where
  "ex_built = snd (construct_cfgs_from_json ex_packager (projr (get_env ex_packager ''/w'')) (loaded ex_repo))"

lemma setups_rebuilt_witness:
  "construct_cfgs_from_json ex_packager (projr (get_env ex_packager ''/w'')) (loaded ex_built) = (Inr (), loaded ex_built) \<and>
   map_of (pk_files ex_built) ''/w/setup.cfg'' =
     Some (''[metadata]'' @ [newline] @ ''name = agent'' @ [newline] @ ''requires = f5-sdk < 3.0.12'' @ next_line @
           ''f5-sdk >= 3.0.11'' @ next_line @ ''oslo.log >= 3.1'' @ [newline])"
proof -
  let ?env = "projr (get_env ex_packager ''/w'')" and ?cfg = "''/w/setup.cfg''"
    and ?deb = "''/w/f5-openstack-agent-dist/deb_dist/stdeb.cfg''"
  have 1: "get_env ex_packager ''/w'' = Inr ?env" by code_simp
  have 2: "map_of ?env ''setup_cfg'' = Some ?cfg" by code_simp
  have 3: "map_of ?env ''stdeb_cfg'' = Some ?deb" by code_simp
  have "fst (construct_cfgs_from_json ex_packager ?env (loaded ex_repo)) = Inr ()" by code_simp
  then have 4: "construct_cfgs_from_json ex_packager ?env (loaded ex_repo) = (Inr (), ex_built)"
    by (simp add: ex_built_def prod_eq_iff)
  have 5: "ended_file ?cfg ex_repo" "ended_file ?deb ex_repo" by code_simp+
  have 6: "pe_readable ex_packager ?cfg" "pe_readable ex_packager ?deb" by (simp_all add: ex_packager_def)
  have 7: "plain_names rs" if "pe_reqs ex_packager t = Inr rs" for t rs
    using that by (auto simp: ex_packager_def ex_pip_def plain_names_def newline_def)
  have "map_of (pk_files ex_built) ?cfg =
     Some (''[metadata]'' @ [newline] @ ''name = agent'' @ [newline] @ ''requires = f5-sdk < 3.0.12'' @ next_line @
           ''f5-sdk >= 3.0.11'' @ next_line @ ''oslo.log >= 3.1'' @ [newline])" by code_simp
  moreover have "construct_cfgs_from_json ex_packager ?env (loaded ex_built) = (Inr (), loaded ex_built)"
    by (rule setups_rebuilt [OF 1 2 3 4 5 6]) (rule 7)
  ultimately show ?thesis by blast
qed

section \<open>Pinned versions\<close>

definition ver_less :: "nat \<times> nat \<times> nat \<Rightarrow> nat \<times> nat \<times> nat \<Rightarrow> bool" where
  "ver_less x y \<longleftrightarrow>
     fst x < fst y \<or> fst x = fst y \<and> (fst (snd x) < fst (snd y) \<or> fst (snd x) = fst (snd y) \<and> snd (snd x) < snd (snd y))"

lemma ver_window: "ver_less x (a, b, Suc c) \<and> \<not> ver_less x (a, b, c) \<longleftrightarrow> x = (a, b, c)"
  by (cases x) (auto simp: ver_less_def)

text \<open>
  For \<open>==a.b.c\<close> the text below the next patch and the text from this one on are written; of the versions
  of three numbers exactly the pinned one satisfies both.
\<close>

lemma pinned_version_exact:
  assumes "find_version (if CHR ''-'' \<in> set v then drop_builds v else v) = Some (a, b, c)"
  shows "handle_equals fmt name v pkg f =
      (Inr (), f @ fmt name ((if pkg = ''deb'' then ''<<'' else ''<'') @ '' '' @ dotted a b (str_nat (Suc (digits_val c)))) @
               next_line @ fmt name (''>= '' @ dotted a b c) @ next_line) \<and>
    (\<forall>x. ver_less x (digits_val a, digits_val b, Suc (digits_val c)) \<and>
         \<not> ver_less x (digits_val a, digits_val b, digits_val c)
       \<longleftrightarrow> x = (digits_val a, digits_val b, digits_val c))"
  using ver_window [of _ "digits_val a" "digits_val b" "digits_val c"]
  by (simp add: handle_equals_def Let_def assms fh_write_def modifyS_def bindS_def)

text \<open>A requirement other than a version, \<open>!=\<close> or \<open>~=\<close>, is written as an equality.\<close>

lemma exclusion_written_as_equality: "relation ''!=1.0'' = Some ''= 1.0''" "relation ''~=1.2'' = Some ''= 1.2''"
  by code_simp+

section \<open>Exit status\<close>

lemma construct_main_exits: "\<exists>n. fst (construct_main E argv s) = Inl (Exit n)"
proof -
  have "\<exists>n. fst (bindS (catchS m (\<lambda>_. exit_cleanly 0)) (\<lambda>_. exit_cleanly 0) s) = Inl (Exit n)" for m :: "(pk, unit) script"
    by (auto simp: bindS_def catchS_def exit_cleanly_def stopS_def split: prod.splits sum.splits stop.splits)
  then show ?thesis unfolding construct_main_def by blast
qed

text \<open>Every exception ends in the status of a success.\<close>

lemma exception_exits_zero:
  assumes "get_args E argv s = (Inr args, s')" and "construct_cfgs E args s' = (Inl (Raised e), s'')"
    and "map_of args ''setup_cfg'' = None"
  shows "construct_main E argv s = (Inl (Exit 0), s'')"
  using assms by (simp add: construct_main_def bindS_def catchS_def exit_cleanly_def stopS_def)

end
