(* ===== verification/InstallTest.thy ===== *)
theory InstallTest
  imports Scripts
begin

text \<open>
  \<open>fetch_and_install_deps.py\<close> for Ubuntu and for Red Hat: the dependencies of an agent package are read,
  those that are missing are fetched and installed, then the packages themselves. The state is the machine
  the commands run on; a command gives its output and status or cannot be run at all. \<open>glob\<close> and the order
  in which Python goes through a set are parameters. Texts printed on the terminal are dropped.
\<close>

section \<open>Commands\<close>

record 'm it_env =
  it_run :: "string \<Rightarrow> 'm \<Rightarrow> (string \<times> int) option \<times> 'm" \<comment> \<open>\<open>None\<close> if it cannot be run\<close>
  it_glob :: "string \<Rightarrow> string list"
  it_chdir :: "string \<Rightarrow> 'm \<Rightarrow> 'm"

text \<open>Without a process \<open>p.returncode\<close> is an unset local variable.\<close>

definition run_command :: "'m it_env \<Rightarrow> string \<Rightarrow> ('m, string \<times> int) script" where
  "run_command I cmd m = (case it_run I cmd m of (None, m') \<Rightarrow> (Inl (Raised UnboundLocalError), m') | (Some r, m') \<Rightarrow> (Inr r, m'))"

record req_details =
  rd_name :: string
  rd_oper :: string
  rd_version :: string

definition is_name_char :: "char \<Rightarrow> bool" where
  "is_name_char c \<longleftrightarrow> is_word c \<or> c = CHR ''-''"

definition is_rel_char :: "char \<Rightarrow> bool" where
  "is_rel_char c \<longleftrightarrow> c = CHR ''='' \<or> c = CHR ''<'' \<or> c = CHR ''>''"

text \<open>A character of a class, then the rest: \<open>None\<close> if there is none.\<close>

definition one_of :: "(char \<Rightarrow> bool) \<Rightarrow> string \<Rightarrow> string option" where
  "one_of P s = (case s of [] \<Rightarrow> None | c # cs \<Rightarrow> if P c then Some cs else None)"

definition some_of :: "(char \<Rightarrow> bool) \<Rightarrow> string \<Rightarrow> (string \<times> string) option" where
  "some_of P s = (let r = takeWhile P s in if r = [] then None else Some (r, dropWhile P s))"

section \<open>Ubuntu\<close>

text \<open>The pattern \<open>^\s*([\w\-]+)\s\(([=<>]+)\s([^\)]+)\<close>.\<close>

definition ubuntu_match :: "string \<Rightarrow> req_details option" where
  "ubuntu_match dep =
     Option.bind (some_of is_name_char (dropWhile is_space dep)) (\<lambda>(name, s).
     Option.bind (one_of is_space s) (\<lambda>s.
     Option.bind (one_of (\<lambda>c. c = CHR ''('') s) (\<lambda>s.
     Option.bind (some_of is_rel_char s) (\<lambda>(oper, s).
     Option.bind (one_of is_space s) (\<lambda>s.
     Option.bind (some_of (\<lambda>c. c \<noteq> CHR '')'') s) (\<lambda>(version, _).
       Some \<lparr>rd_name = name, rd_oper = oper, rd_version = version\<rparr>))))))"

text \<open>If a line has \<open>Depends\<close>, the parts of the whole output between commas are matched.\<close>

definition ubuntu_deps :: "string \<Rightarrow> req_details list" where
  "ubuntu_deps output =
     (if \<exists>line \<in> set (split_on newline output). contains_str ''Depends'' line
      then List.map_filter ubuntu_match (split_on CHR '','' output) else [])"

definition ubuntu_sdk_version :: "req_details list \<Rightarrow> string option" where
  "ubuntu_sdk_version deps =
     (case filter (\<lambda>d. contains_str ''f5-sdk'' (rd_name d) \<and> contains_str ''='' (rd_oper d) \<and>
                       \<not> contains_str ''!='' (rd_oper d)) (rev deps) of
        [] \<Rightarrow> None | d # _ \<Rightarrow> Some (rd_version d))"

text \<open>\<open>re.search('^>?=', oper)\<close>; without such a dependency the variable stays unset.\<close>

definition icontrol_version :: "string \<Rightarrow> req_details list \<Rightarrow> string option" where
  "icontrol_version package deps =
     (case filter (\<lambda>d. contains_str package (rd_name d) \<and>
                       (startswith ''='' (rd_oper d) \<or> startswith ''>='' (rd_oper d))) (rev deps) of
        [] \<Rightarrow> None | d # _ \<Rightarrow> Some (rd_version d))"

text \<open>
  A deque may not change while it is gone through: after a removal the next step of the loop raises, also
  when the removed one was the last.
\<close>

fun drop_provided :: "string \<Rightarrow> req_details list \<Rightarrow> req_details list \<Rightarrow> (exn + unit) \<times> req_details list" where
  "drop_provided file [] to_get = (Inr (), to_get)"
| "drop_provided file (d # ds) to_get =
     (if contains_str (rd_name d) file then (Inl (OtherError ''RuntimeError''), remove1 d to_get)
      else drop_provided file ds to_get)"

fun ubuntu_install_held :: "'m it_env \<Rightarrow> string list \<Rightarrow> req_details list \<Rightarrow> ('m, req_details list) script" where
  "ubuntu_install_held I [] to_get = retS to_get"
| "ubuntu_install_held I (deb # debs) to_get =
     (case drop_provided deb to_get to_get of
        (Inl e, _) \<Rightarrow> raiseS e
      | (Inr _, to_get) \<Rightarrow>
          bindS (run_command I (''dpkg -i '' @ deb)) (\<lambda>_. ubuntu_install_held I debs to_get))"

definition apt_get :: "'m it_env \<Rightarrow> req_details \<Rightarrow> ('m, unit) script" where
  "apt_get I d =
     (let pkg = rd_name d @ ''='' @ rd_version d in
      if contains_str ''f5-sdk'' pkg then retS ()
      else bindS (run_command I (''apt-get -y install '' @ pkg)) (\<lambda>(_, status).
             if status \<noteq> 0 then stopS (Exit 1) else retS ()))"

definition ubuntu_other_dependencies :: "'m it_env \<Rightarrow> req_details list \<Rightarrow> string \<Rightarrow> ('m, int) script" where
  "ubuntu_other_dependencies I requires dist_dir =
     bindS (run_command I ''dpkg -l'') (\<lambda>(output, _).
     bindS (ubuntu_install_held I (it_glob I (dist_dir @ ''/Docker/ubuntu/14.04/*.deb''))
              (filter (\<lambda>d. \<not> contains_str (rd_name d) output \<and> rd_name d \<noteq> ''f5-sdk'') requires)) (\<lambda>to_get.
     bindS (eachS (apt_get I) to_get) (\<lambda>_. retS 0)))"

text \<open>A step whose failure ends \<open>fetch_agent_dependencies\<close> with 1.\<close>

definition or_one :: "bool \<Rightarrow> ('m, int) script \<Rightarrow> ('m, int) script" where
  "or_one ok k = (if ok then k else retS 1)"

definition ubuntu_fetch :: "'m it_env \<Rightarrow> string \<Rightarrow> string \<Rightarrow> ('m, int) script" where
  "ubuntu_fetch I dist_dir agent_pkg =
     bindS (run_command I (''cp '' @ agent_pkg @ '' /tmp'')) (\<lambda>_.
     bindS (run_command I (''dpkg -I '' @ agent_pkg)) (\<lambda>(output, status).
     or_one (status = 0)
       (let requires = ubuntu_deps output in
        case ubuntu_sdk_version requires of
          None \<Rightarrow> retS 1
        | Some sdk \<Rightarrow> or_one (sdk \<noteq> [])
            (let url = ''https://github.com/F5Networks/f5-common-python/releases/download/v'' @ drop_builds sdk;
                 pkg = ''python-f5-sdk-rest_'' @ sdk @ ''_1404_all.deb'';
                 build = (if contains_str ''-1'' sdk then sdk else sdk @ ''-1'') in
             bindS (run_command I (''curl -L -o /tmp/'' @ pkg @ '' '' @ url @ ''/python-f5-sdk_'' @ build @ ''_1404_all.deb'')) (\<lambda>_.
             bindS (run_command I (''dpkg -I /tmp/'' @ pkg)) (\<lambda>(output, status).
             or_one (status = 0)
               (bindS (needS UnboundLocalError (icontrol_version ''icontrol'' (ubuntu_deps output))) (\<lambda>icr.
                or_one (icr \<noteq> [])
                  (let version = drop_builds icr;
                       pkg = ''python-f5-icontrol-rest_'' @ version @ ''-1_1404_all.deb'' in
                   bindS (run_command I (''curl -L -o /tmp/'' @ pkg @
                       '' https://github.com/F5Networks/f5-icontrol-rest-python/releases/download/v'' @ version @ ''/'' @ pkg)) (\<lambda>_.
                   bindS (run_command I (''dpkg -I /tmp/'' @ pkg)) (\<lambda>(_, status).
                   or_one (status = 0) (ubuntu_other_dependencies I requires dist_dir))))))))))))"

text \<open>\<open>dpkgs.sort()\<close>: by the codes of the characters, and stable.\<close>

fun str_le :: "string \<Rightarrow> string \<Rightarrow> bool" where
  "str_le [] t = True"
| "str_le (c # cs) [] = False"
| "str_le (c # cs) (d # ds) = ((of_char c :: nat) < of_char d \<or> c = d \<and> str_le cs ds)"

fun insert_str :: "string \<Rightarrow> string list \<Rightarrow> string list" where
  "insert_str x [] = [x]"
| "insert_str x (y # ys) = (if str_le x y then x # y # ys else y # insert_str x ys)"

definition sort_strs :: "string list \<Rightarrow> string list" where
  "sort_strs xs = foldr insert_str xs []"

definition dpkg_install :: "'m it_env \<Rightarrow> string \<Rightarrow> ('m, unit) script" where
  "dpkg_install I dpkg =
     bindS (run_command I (''dpkg -i '' @ dpkg)) (\<lambda>(_, status). if status \<noteq> 0 then stopS (Exit 1) else retS ())"

definition install_order :: "string list" where
  "install_order = [''icontrol'', ''sdk'', ''openstack'']"

definition ubuntu_install_agent :: "'m it_env \<Rightarrow> string \<Rightarrow> ('m, unit) script" where
  "ubuntu_install_agent I repo =
     (let dpkgs = sort_strs (it_glob I (repo @ ''/*.deb'')) in
      eachS (\<lambda>item. eachS (\<lambda>dpkg. if contains_str item dpkg then dpkg_install I dpkg else retS ()) dpkgs) install_order)"

section \<open>Red Hat\<close>

text \<open>The pattern \<open>^((python|f5-sdk|f5-icontrol-rest)[\w\-]*)\s([<>=]{1,2})\s(\S+)\<close>.\<close>

definition redhat_match :: "string \<Rightarrow> req_details option" where
  "redhat_match line =
     (if startswith ''python'' line \<or> startswith ''f5-sdk'' line \<or> startswith ''f5-icontrol-rest'' line
      then
        Option.bind (some_of is_name_char line) (\<lambda>(name, s).
        Option.bind (one_of is_space s) (\<lambda>s.
        Option.bind (some_of is_rel_char s) (\<lambda>(oper, s).
          if length oper > 2 then None
          else
            Option.bind (one_of is_space s) (\<lambda>s.
            Option.bind (some_of (\<lambda>c. \<not> is_space c) s) (\<lambda>(version, _).
              Some \<lparr>rd_name = name, rd_oper = oper, rd_version = version\<rparr>)))))
      else None)"

text \<open>\<open>re.search(' [><]?=', line)\<close>.\<close>

fun has_equality :: "string \<Rightarrow> bool" where
  "has_equality [] \<longleftrightarrow> False"
| "has_equality (c # cs) \<longleftrightarrow>
     startswith '' ='' (c # cs) \<or> startswith '' >='' (c # cs) \<or> startswith '' <='' (c # cs) \<or> has_equality cs"

definition is_sdk_line :: "string \<Rightarrow> bool" where
  "is_sdk_line line \<longleftrightarrow>
     (case redhat_match line of None \<Rightarrow> False | Some d \<Rightarrow> contains_str ''f5-sdk'' (rd_name d) \<and> has_equality line)"

definition redhat_sdk_version :: "string list \<Rightarrow> string option" where
  "redhat_sdk_version ls =
     (case filter is_sdk_line (rev ls) of [] \<Rightarrow> None | l # _ \<Rightarrow> map_option rd_version (redhat_match l))"

definition redhat_requires :: "string list \<Rightarrow> req_details list" where
  "redhat_requires ls = List.map_filter redhat_match (filter (\<lambda>l. \<not> is_sdk_line l) ls)"

text \<open>\<open>'... % installation' % name\<close> is a conversion to a number, which raises.\<close>

definition yum_install :: "'m it_env \<Rightarrow> req_details \<Rightarrow> ('m, unit) script" where
  "yum_install I d =
     (if rd_name d = ''f5-sdk'' then retS ()
      else bindS (run_command I (''yum install -y '' @ rd_name d)) (\<lambda>(_, status).
             if status \<noteq> 0 then raiseS TypeError else retS ()))"

definition redhat_other_dependencies ::
  "'m it_env \<Rightarrow> (req_details list \<Rightarrow> req_details list) \<Rightarrow> req_details list \<Rightarrow> string \<Rightarrow> ('m, int) script" where
  "redhat_other_dependencies I hash_order requires dist_dir =
     bindS (run_command I ''rpm -qa'') (\<lambda>(output, _).
       let to_get = filter (\<lambda>d. \<not> contains_str (rd_name d) output) requires;
           to_install = it_glob I (dist_dir @ ''/Docker/redhat/7/*.rpm'');
           provided = (\<lambda>d. \<exists>rpm \<in> set to_install. contains_str (rd_name d) rpm)
       in
       bindS (eachS (\<lambda>rpm. bindS (run_command I (''rpm -i '' @ rpm)) (\<lambda>_. retS ())) to_install) (\<lambda>_.
       bindS (eachS (yum_install I) (hash_order (remdups (filter (\<lambda>d. \<not> provided d) to_get)))) (\<lambda>_.
       retS 0)))"

definition redhat_fetch ::
  "'m it_env \<Rightarrow> (req_details list \<Rightarrow> req_details list) \<Rightarrow> string \<Rightarrow> string \<Rightarrow> ('m, int) script" where
  "redhat_fetch I hash_order dist_dir agent_pkg =
     bindS (run_command I (''cp '' @ agent_pkg @ '' /tmp'')) (\<lambda>_.
     bindS (run_command I (''rpm -qRp '' @ agent_pkg)) (\<lambda>(output, status).
     or_one (status = 0)
       (let ls = split_on newline output in
        case redhat_sdk_version ls of
          None \<Rightarrow> retS 1
        | Some sdk \<Rightarrow>
            (let url = ''https://github.com/F5Networks/f5-common-python/releases/download/v'' @ sdk;
                 pkg = ''f5-sdk-'' @ sdk @ ''-1.el7.noarch.rpm'' in
             bindS (run_command I (''curl -L -o /tmp/'' @ pkg @ '' '' @ url @ ''/'' @ pkg)) (\<lambda>_.
             bindS (run_command I (''rpm -qRp /tmp/'' @ pkg)) (\<lambda>(output, status).
             or_one (status = 0)
               (bindS (needS UnboundLocalError
                         (icontrol_version ''f5-icontrol-rest'' (List.map_filter redhat_match (split_on newline output)))) (\<lambda>icr.
                let pkg = ''f5-icontrol-rest-'' @ icr @ ''-1.el7.noarch.rpm'' in
                bindS (run_command I (''curl -L -o /tmp/'' @ pkg @
                    '' https://github.com/F5Networks/f5-icontrol-rest/releases/download/v'' @ icr @ ''/'' @ pkg)) (\<lambda>(_, status).
                or_one (status = 0) (redhat_other_dependencies I hash_order (redhat_requires ls) dist_dir))))))))))"

definition redhat_install_agent :: "'m it_env \<Rightarrow> ('m, unit) script" where
  "redhat_install_agent I =
     bindS (run_command I ''rpm -ivh /tmp/*.rpm'') (\<lambda>(_, status). if status \<noteq> 0 then stopS (Exit 1) else retS ())"

section \<open>The two programs\<close>

text \<open>\<open>os.path.normpath\<close>.\<close>

fun norm_parts :: "bool \<Rightarrow> string list \<Rightarrow> string list \<Rightarrow> string list" where
  "norm_parts rooted seen [] = rev seen"
| "norm_parts rooted seen (c # cs) =
     (if c = '''' \<or> c = ''.'' then norm_parts rooted seen cs
      else if c \<noteq> ''..'' \<or> (\<not> rooted \<and> seen = []) \<or> (seen \<noteq> [] \<and> hd seen = ''..'') then norm_parts rooted (c # seen) cs
      else norm_parts rooted (tl seen) cs)"

definition normpath :: "string \<Rightarrow> string" where
  "normpath path =
     (let rooted = startswith ''/'' path;
          slashes = (if startswith ''//'' path \<and> \<not> startswith ''///'' path then ''//'' else if rooted then ''/'' else '''');
          p = slashes @ joined ''/'' (norm_parts rooted [] (split_on CHR ''/'' path))
      in if path = '''' \<or> p = '''' then ''.'' else p)"

text \<open>
  \<open>main\<close>: what \<open>fetch\<close> returns is not looked at, and the version is unset when the tool that tells it fails.
\<close>

definition install_main ::
  "'m it_env \<Rightarrow> (string \<Rightarrow> string \<Rightarrow> ('m, int) script) \<Rightarrow> ('m, unit) script \<Rightarrow> string list \<Rightarrow> ('m, unit) script" where
  "install_main I fetch install args =
     (case args of
        [_, dir, pkg] \<Rightarrow>
          (let working_dir = normpath dir;
               dist_dir = path_join working_dir ''f5-openstack-agent-dist'' in
           bindS (modifyS (it_chdir I ''/var/wdir'')) (\<lambda>_.
           bindS (run_command I (path_join dist_dir ''scripts/get-version-release.py'' @ '' --version --release'')) (\<lambda>(output, status).
             if status \<noteq> 0 then raiseS UnboundLocalError
             else if length (words output) \<noteq> 2 then raiseS ValueError
             else bindS (fetch dist_dir pkg) (\<lambda>_. install))))
      | _ \<Rightarrow> stopS (Exit 1))"

definition ubuntu_main :: "'m it_env \<Rightarrow> string list \<Rightarrow> ('m, unit) script" where
  "ubuntu_main I = install_main I (ubuntu_fetch I) (ubuntu_install_agent I ''/tmp'')"

definition redhat_main :: "'m it_env \<Rightarrow> (req_details list \<Rightarrow> req_details list) \<Rightarrow> string list \<Rightarrow> ('m, unit) script" where
  "redhat_main I hash_order = install_main I (redhat_fetch I hash_order) (redhat_install_agent I)"

section \<open>Lemmas\<close>

lemma eachS_append: "eachS f (xs @ ys) = bindS (eachS f xs) (\<lambda>_. eachS f ys)"
  by (induction xs) (simp_all add: bindS_assoc)

lemma eachS_concat: "eachS (\<lambda>x. eachS f (g x)) xs = eachS f (concat (map g xs))"
  by (induction xs) (simp_all add: eachS_append)

lemma eachS_filter: "eachS (\<lambda>x. if P x then f x else retS ()) xs = eachS f (filter P xs)"
  by (induction xs) simp_all

text \<open>The packages of the agent are installed in one pass: iControl, then the SDK, then the agent, each by name.\<close>

lemma ubuntu_install_in_order:
  "ubuntu_install_agent I repo =
     eachS (dpkg_install I)
       (concat (map (\<lambda>item. filter (contains_str item) (sort_strs (it_glob I (repo @ ''/*.deb'')))) install_order))"
  by (simp add: ubuntu_install_agent_def Let_def eachS_filter eachS_concat)

lemma set_insert_str [simp]: "set (insert_str x ys) = insert x (set ys)"
  by (induction ys) auto

lemma set_sort_strs [simp]: "set (sort_strs xs) = set xs"
  by (induction xs) (simp_all add: sort_strs_def)

text \<open>A first failure ends the installation with status 1.\<close>

lemma install_failure_exits:
  assumes "it_run I (''dpkg -i '' @ dpkg) m = (Some (out, status), m')" and "status \<noteq> 0"
  shows "eachS (dpkg_install I) (dpkg # dpkgs) m = (Inl (Exit 1), m')"
  using assms by (simp add: dpkg_install_def run_command_def bindS_def stopS_def)

text \<open>A held package that provides a missing dependency makes the script raise before it is installed.\<close>

lemma drop_provided_raises:
  "\<exists>d \<in> set ds. contains_str (rd_name d) file \<Longrightarrow> fst (drop_provided file ds to_get) = Inl (OtherError ''RuntimeError'')"
  by (induction ds) auto

lemma drop_provided_none:
  "\<forall>d \<in> set ds. \<not> contains_str (rd_name d) file \<Longrightarrow> drop_provided file ds to_get = (Inr (), to_get)"
  by (induction ds) auto

lemma ubuntu_held_raises:
  assumes "\<exists>d \<in> set to_get. contains_str (rd_name d) deb"
  shows "ubuntu_install_held I (deb # debs) to_get m = (Inl (Raised (OtherError ''RuntimeError'')), m)"
  using drop_provided_raises [OF assms, of to_get]
  by (cases "drop_provided deb to_get to_get") (simp add: stopS_def)

lemma ubuntu_held_installed:
  assumes "\<forall>deb \<in> set debs. \<forall>d \<in> set to_get. \<not> contains_str (rd_name d) deb"
  shows "ubuntu_install_held I debs to_get =
    bindS (eachS (\<lambda>deb. bindS (run_command I (''dpkg -i '' @ deb)) (\<lambda>_. retS ())) debs) (\<lambda>_. retS to_get)"
  using assms by (induction debs) (simp_all add: drop_provided_none bindS_assoc)

text \<open>The first dependency of the list follows no comma and is not found, here the SDK itself.\<close>

lemma first_dependency_lost:
  "ubuntu_deps ('' new debian package, version 2.0.'' @ [newline] @ '' Depends: f5-sdk (= 3.0.11-1), python-oslo (>= 1.2)'') =
     [\<lparr>rd_name = ''python-oslo'', rd_oper = ''>='', rd_version = ''1.2''\<rparr>]"
  by code_simp

text \<open>The message of a failed \<open>yum\<close> raises before the exit.\<close>

lemma yum_failure_raises:
  assumes "it_run I (''yum install -y '' @ rd_name d) m = (Some (out, status), m')" and "status \<noteq> 0" and "rd_name d \<noteq> ''f5-sdk''"
  shows "yum_install I d m = (Inl (Raised TypeError), m')"
  using assms by (simp add: yum_install_def run_command_def bindS_def stopS_def)

text \<open>The installation follows also when the dependencies could not be fetched.\<close>

lemma install_after_failed_fetch:
  assumes "it_run I (path_join (path_join (normpath dir) ''f5-openstack-agent-dist'') ''scripts/get-version-release.py'' @ '' --version --release'')
      (it_chdir I ''/var/wdir'' m) = (Some (v @ '' '' @ r, 0), m1)"
    and "words (v @ '' '' @ r) = [v, r]" and "fetch (path_join (normpath dir) ''f5-openstack-agent-dist'') pkg m1 = (Inr 1, m2)"
  shows "install_main I fetch install [prog, dir, pkg] m = install m2"
  using assms by (simp add: install_main_def Let_def run_command_def bindS_def modifyS_def)

end
