(* ===== verification/Release.thy ===== *)
theory Release
  imports Packaging InstallTest
begin

text \<open>
  The version of a checkout as \<open>get-version-release.py\<close> prints it from what git answers, and the rest of
  \<open>configure.py\<close>: the dictionary kept in \<open>config.JSON\<close>. Git is the machine commands run on (\<open>it_env\<close>), the
  files are those of \<open>Packaging\<close>; what \<open>json.dumps\<close> gives is a parameter, as its reader is.
\<close>

section \<open>What git describes\<close>

text \<open>\<open>$\<close>: the end, or a line end that is the end.\<close>

definition at_end :: "string \<Rightarrow> bool" where
  "at_end s \<longleftrightarrow> s = [] \<or> s = [newline]"

text \<open>\<open>\d+\.\d+\.\d+\<close>, and what follows it.\<close>

definition three_numbers :: "string \<Rightarrow> (string \<times> string) option" where
  "three_numbers s =
     Option.bind (some_of is_digit s) (\<lambda>(a, s).
     Option.bind (one_of (\<lambda>c. c = CHR ''.'') s) (\<lambda>s.
     Option.bind (some_of is_digit s) (\<lambda>(b, s).
     Option.bind (one_of (\<lambda>c. c = CHR ''.'') s) (\<lambda>s.
     Option.bind (some_of is_digit s) (\<lambda>(c, s). Some (dotted a b c, s))))))"

text \<open>\<open>((m1|m2|...)\d+)?\<close>: a mark with its number, or nothing.\<close>

fun marked :: "string list \<Rightarrow> string \<Rightarrow> string \<times> string" where
  "marked [] s = ([], s)"
| "marked (m # ms) s =
     (if startswith m s then
        (case some_of is_digit (drop (length m) s) of Some (n, r) \<Rightarrow> (m @ n, r) | None \<Rightarrow> marked ms s)
      else marked ms s)"

text \<open>\<open>^v(\d+\.\d+\.\d+((a|rc|RC)\d+)?$)\<close>, the first group.\<close>

definition release_tag :: "string \<Rightarrow> string option" where
  "release_tag s =
     Option.bind (one_of (\<lambda>c. c = CHR ''v'') s) (\<lambda>s.
     Option.bind (three_numbers s) (\<lambda>(v, s).
       case marked [''a'', ''rc'', ''RC''] s of (m, r) \<Rightarrow> if at_end r then Some (v @ m) else None))"

text \<open>\<open>^v(\d+\.\d+\.\d+(?:a\d+)?)-(\d+)-g(.*)$\<close>, its three groups.\<close>

definition git_describe :: "string \<Rightarrow> (string \<times> string \<times> string) option" where
  "git_describe s =
     Option.bind (one_of (\<lambda>c. c = CHR ''v'') s) (\<lambda>s.
     Option.bind (three_numbers s) (\<lambda>(v, s).
       case marked [''a''] s of (m, s) \<Rightarrow>
         Option.bind (one_of (\<lambda>c. c = CHR ''-'') s) (\<lambda>s.
         Option.bind (some_of is_digit s) (\<lambda>(n, s).
           if startswith ''-g'' s \<and> at_end (dropWhile (\<lambda>c. c \<noteq> newline) (drop 2 s))
           then Some (v @ m, n, takeWhile (\<lambda>c. c \<noteq> newline) (drop 2 s)) else None))))"

section \<open>The version of a checkout\<close>

definition rstrip :: "string \<Rightarrow> string" where
  "rstrip s = rev (dropWhile is_space (rev s))"

record version_args =
  va_version :: bool
  va_release :: bool
  va_commit :: bool
  va_branch :: bool

text \<open>The version, the number of the release and the commit, \<open>None\<close> while the variable is unset.\<close>

definition tagged_commit :: "'m it_env \<Rightarrow> string \<Rightarrow> ('m, string \<times> nat \<times> string option) script" where
  "tagged_commit I output =
     (let version = get_or ''0.0.0'' (release_tag (rstrip output)) in
      bindS (run_command I ''git rev-parse --short HEAD'') (\<lambda>(output, status).
        retS (version, 1, if status = 0 then Some (rstrip output) else None)))"

definition described_commit :: "'m it_env \<Rightarrow> ('m, string \<times> nat \<times> string option) script" where
  "described_commit I =
     bindS (run_command I ''git describe --tags'') (\<lambda>(output, status).
       retS (if status \<noteq> 0 then (''0.0.0'', 1, None)
             else (case git_describe output of
                     None \<Rightarrow> (''0.0.0'', 1, None)
                   | Some (version, release, commit) \<Rightarrow> (version, 1 + digits_val release, Some commit))))"

definition current_branch :: "'m it_env \<Rightarrow> ('m, string) script" where
  "current_branch I =
     bindS (run_command I ''git rev-parse --abbrev-ref HEAD'') (\<lambda>(output, status).
       retS (if status = 0 then rstrip output else ''''))"

text \<open>The line printed: what the arguments ask for, all four without an argument.\<close>

definition version_line ::
  "version_args \<Rightarrow> string \<Rightarrow> nat \<Rightarrow> string option \<Rightarrow> string \<Rightarrow> ('m, string) script" where
  "version_line args version number commit branch =
     (let every = \<not> (va_version args \<or> va_release args \<or> va_commit args \<or> va_branch args) in
      bindS (if va_commit args \<or> every
             then bindS (needS UnboundLocalError commit) (\<lambda>c. retS [c]) else retS []) (\<lambda>commits.
        retS (joined '' '' ((if va_version args \<or> every then [version] else []) @
                            (if va_release args \<or> every then [str_nat number] else []) @ commits @
                            (if va_branch args \<or> every then [branch] else [])) @ [newline])))"

definition release_main :: "'m it_env \<Rightarrow> version_args \<Rightarrow> ('m, string) script" where
  "release_main I args =
     bindS (run_command I ''git describe --tags --exact-match'') (\<lambda>(output, status).
     bindS (if status = 0 then tagged_commit I output else described_commit I) (\<lambda>(version, number, commit).
     bindS (current_branch I) (\<lambda>branch.
     version_line args version number commit branch)))"

section \<open>The file config.JSON\<close>

text \<open>What \<open>configure.exit_cleanly\<close> prints for a number; \<open>prog\<close> is the name of the script.\<close>

definition configure_statement :: "string \<Rightarrow> int \<Rightarrow> string" where
  "configure_statement prog errnum =
     (let stmt =
        (if errnum = 0 then ''Successful in configuration!''
         else if errnum = EINVAL then ''Improper or invalid input value''
         else if errnum = 29 then ''Could not complete action due to a broken dependency''
         else if errnum = ENOSYS then ''Could not complete action due to unexpected setup''
         else if errnum = EIO then ''Could not access an expected file''
         else if errnum = 1 then ''Could not access an item due to permissions issues''
         else ''An Unknown Error has Occurred!'');
          help =
        (if errnum = 0 then ''''
         else [newline] @ prog @ '' [--opt [option]]'' @ next_line @ ''With opts:'' @ next_line @
              ''    working_directory - ONLY use this if you'' @ [CHR 0x27] @ ''re overwriting `pwd`!'' @ next_line)
      in stmt @ [newline, newline] @ help @ [newline])"

text \<open>The file is opened, and so emptied, before the dictionary is turned into text.\<close>

definition export_to_json ::
  "pk_env \<Rightarrow> ((string \<times> string) list \<Rightarrow> exn + string) \<Rightarrow> (string \<times> string) list \<Rightarrow> (pk, unit) script" where
  "export_to_json E dumps env =
     bindS (needS KeyError (map_of env ''scripts'')) (\<lambda>scripts.
       let json_fl = scripts @ ''/config.JSON'' in
       bindS (getS (\<lambda>s. pe_writable E json_fl \<and> dirname json_fl \<in> set (pk_dirs s))) (\<lambda>opened.
         if \<not> opened then raiseS IOError
         else
           bindS (modifyS (\<lambda>s. s\<lparr>pk_files := AList.update json_fl [] (pk_files s)\<rparr>)) (\<lambda>_.
           bindS (pureS (dumps env)) (\<lambda>text.
           modifyS (\<lambda>s. s\<lparr>pk_files := AList.update json_fl text (pk_files s)\<rparr>)))))"

definition load_config :: "pk_env \<Rightarrow> string \<Rightarrow> (pk, (string \<times> string) list option) script" where
  "load_config E filename =
     bindS (getS (\<lambda>s. map_of (pk_files s) filename)) (\<lambda>f.
       case f of
         None \<Rightarrow> retS None
       | Some text \<Rightarrow>
           if pe_readable E filename then bindS (pureS (pe_json E text)) (\<lambda>config. retS (Some config)) else retS None)"

text \<open>\<open>os.path.abspath\<close>.\<close>

definition abspath :: "string \<Rightarrow> string \<Rightarrow> string" where
  "abspath cwd path = normpath (if startswith ''/'' path then path else path_join cwd path)"

definition config_path :: "pk_env \<Rightarrow> string \<Rightarrow> string" where
  "config_path E working =
     (if contains_str ''-dist/script'' working then working @ ''/config.JSON''
      else if contains_str ''-dist'' working then working @ ''/script/config.JSON''
      else (case pe_glob E (working @ ''/*-dist/script/config.JSON'') of
              [] \<Rightarrow> working @ ''/*-dist/script/config.JSON''
            | config # _ \<Rightarrow> config))"

definition add_package ::
  "pk_env \<Rightarrow> ((string \<times> string) list \<Rightarrow> exn + string) \<Rightarrow> string \<Rightarrow> string \<Rightarrow> string \<Rightarrow> string option \<Rightarrow> (pk, unit) script"
where
  "add_package E dumps cwd pkg_type pkg_name working =
     (let working = (case working of None \<Rightarrow> cwd | Some w \<Rightarrow> if w = [] then cwd else abspath cwd w) in
      bindS (load_config E (config_path E working)) (\<lambda>config.
        case config of
          None \<Rightarrow> raiseS AttributeError
        | Some env \<Rightarrow> export_to_json E dumps (AList.update pkg_type pkg_name env)))"

definition configure_main :: "pk_env \<Rightarrow> ((string \<times> string) list \<Rightarrow> exn + string) \<Rightarrow> string \<Rightarrow> (pk, unit) script" where
  "configure_main E dumps cwd = bindS (pureS (get_env E cwd)) (export_to_json E dumps)"

section \<open>What git describes is read\<close>

lemma some_of_stop [simp]:
  "r \<noteq> [] \<Longrightarrow> list_all P r \<Longrightarrow> \<not> P c \<Longrightarrow> some_of P (r @ c # s) = Some (r, c # s)"
  "r \<noteq> [] \<Longrightarrow> list_all P r \<Longrightarrow> some_of P r = Some (r, [])"
  by (auto simp: some_of_def Let_def list_all_iff takeWhile_append dropWhile_append takeWhile_eq_Nil_iff hd_in_set)

lemma some_of_Some: "some_of P s = Some (r, t) \<Longrightarrow> s = r @ t \<and> r \<noteq> [] \<and> list_all P r"
  by (auto simp: some_of_def Let_def list_all_iff dest: set_takeWhileD split: if_splits)

lemma one_of_Cons [simp]: "one_of P (c # s) = (if P c then Some s else None)" "one_of P [] = None"
  by (simp_all add: one_of_def)

definition numeral_text :: "string \<Rightarrow> bool" where
  "numeral_text s \<longleftrightarrow> s \<noteq> [] \<and> list_all is_digit s"

lemma not_digits [simp]:
  "\<not> is_digit CHR ''.''" "\<not> is_digit CHR ''-''" "\<not> is_digit CHR ''a''" "\<not> is_digit CHR ''r''" "\<not> is_digit CHR ''R''"
  by (simp_all add: is_digit_def)

lemma some_of_numeral [simp]:
  "numeral_text r \<Longrightarrow> \<not> is_digit c \<Longrightarrow> some_of is_digit (r @ c # s) = Some (r, c # s)"
  "numeral_text r \<Longrightarrow> some_of is_digit r = Some (r, [])"
  by (simp_all add: numeral_text_def)

lemma three_numbers_dotted:
  assumes "numeral_text a" and "numeral_text b" and "numeral_text c"
  shows "three_numbers (dotted a b c) = Some (dotted a b c, [])"
    and "\<not> is_digit d \<Longrightarrow> three_numbers (dotted a b c @ d # s) = Some (dotted a b c, d # s)"
  using assms by (simp_all add: three_numbers_def dotted_def)

lemmas describe_simps = release_tag_def git_describe_def three_numbers_dotted at_end_def startswith_def

text \<open>A final release, an alpha release, or a candidate, tagged as such, is its own version.\<close>

lemma release_tag_read:
  assumes "numeral_text a" and "numeral_text b" and "numeral_text c" and "numeral_text n"
  shows "release_tag (''v'' @ dotted a b c) = Some (dotted a b c)"
    and "k \<in> {''a'', ''rc'', ''RC''} \<Longrightarrow> release_tag (''v'' @ dotted a b c @ k @ n) = Some (dotted a b c @ k @ n)"
  using assms by (auto simp: describe_simps)

text \<open>Commits after a final or an alpha release: what \<open>git describe\<close> puts together is taken apart.\<close>

lemma git_describe_read:
  assumes "numeral_text a" and "numeral_text b" and "numeral_text c" and "numeral_text n"
    and "m = [] \<or> (\<exists>d. numeral_text d \<and> m = ''a'' @ d)" and "newline \<notin> set commit"
  shows "git_describe (''v'' @ dotted a b c @ m @ ''-'' @ n @ ''-g'' @ commit @ [newline]) = Some (dotted a b c @ m, n, commit)"
  using assms by (auto simp: describe_simps takeWhile_append dropWhile_append)

text \<open>After a candidate it is not: the pattern knows only the mark \<open>a\<close>.\<close>

lemma git_describe_candidate:
  assumes "numeral_text a" and "numeral_text b" and "numeral_text c" and "k \<in> {''rc'', ''RC''}"
  shows "git_describe (''v'' @ dotted a b c @ k @ s) = None"
  using assms by (auto simp: describe_simps)

text \<open>The commit is then unset, and the script raises where it should print it.\<close>

lemma commit_after_candidate_unset:
  assumes "it_run I ''git describe --tags --exact-match'' m = (Some (out, status), m1)" and "status \<noteq> 0"
    and "it_run I ''git describe --tags'' m1 = (Some (''v'' @ dotted a b c @ k @ s, 0), m2)"
    and "it_run I ''git rev-parse --abbrev-ref HEAD'' m2 = (Some (branch, st), m3)"
    and "numeral_text a" "numeral_text b" "numeral_text c" "k \<in> {''rc'', ''RC''}"
    and "va_commit args \<or> \<not> (va_version args \<or> va_release args \<or> va_branch args)"
  shows "release_main I args m = (Inl (Raised UnboundLocalError), m3)"
  using assms(1-4,9) git_describe_candidate [OF assms(5-8), of s]
  by (auto simp: release_main_def described_commit_def current_branch_def version_line_def run_command_def script_simps Let_def)

section \<open>The output the installation test reads\<close>

lemma words_step: "v \<noteq> [] \<Longrightarrow> list_all (\<lambda>c. \<not> is_space c) v \<Longrightarrow> is_space c \<Longrightarrow> words (v @ c # s) = v # words s"
  by (induction v rule: induct_list012) auto

definition one_word :: "string \<Rightarrow> bool" where
  "one_word s \<longleftrightarrow> s \<noteq> [] \<and> list_all (\<lambda>c. \<not> is_space c) s"

lemma is_space_dot: "\<not> is_space CHR ''.''"
  by (simp add: is_space_def)

lemma numeral_one_word: "numeral_text s \<Longrightarrow> one_word s"
  using digit_not_special by (auto simp: numeral_text_def one_word_def list_all_iff)

lemma three_numbers_word: "three_numbers s = Some (v, r) \<Longrightarrow> one_word v"
  using digit_not_special is_space_dot
  by (auto simp: three_numbers_def bind_eq_Some_conv dotted_def one_word_def list_all_iff dest!: some_of_Some)

lemma marked_no_space: "list_all (list_all (\<lambda>c. \<not> is_space c)) ms \<Longrightarrow> list_all (\<lambda>c. \<not> is_space c) (fst (marked ms s))"
  by (induction ms) (auto simp: list_all_iff dest!: some_of_Some digit_not_special split: option.splits)

lemma marked_word:
  "three_numbers s = Some (v, r) \<Longrightarrow> list_all (list_all (\<lambda>c. \<not> is_space c)) ms \<Longrightarrow> one_word (v @ fst (marked ms r))"
  using three_numbers_word [of s v r] marked_no_space [of ms r] by (simp add: one_word_def)

lemma version_words:
  "release_tag s = Some v \<Longrightarrow> one_word v" "git_describe s = Some (v, n, c) \<Longrightarrow> one_word v"
  by (auto simp: release_tag_def git_describe_def bind_eq_Some_conv case_prod_beta' is_space_def simp del: marked.simps
      split: if_split_asm intro!: marked_word)

lemma version_of_checkout_word:
  "tagged_commit I out m = (Inr (v, n, c), m') \<Longrightarrow> one_word v"
  "described_commit I m = (Inr (v, n, c), m') \<Longrightarrow> one_word v"
proof -
  have zero: "one_word ''0.0.0''" by (simp add: one_word_def is_space_def)
  show "tagged_commit I out m = (Inr (v, n, c), m') \<Longrightarrow> one_word v"
    using zero by (auto simp: tagged_commit_def script_simps Let_def get_or_def
        split: prod.splits sum.splits option.splits if_splits dest: version_words)
  show "described_commit I m = (Inr (v, n, c), m') \<Longrightarrow> one_word v"
    using zero by (auto simp: described_commit_def script_simps
        split: prod.splits sum.splits option.splits if_splits dest: version_words)
qed

text \<open>\<open>--version --release\<close> always prints two words, so \<open>version, release = output.split()\<close> never fails.\<close>

lemma version_release_two_words:
  assumes "release_main I \<lparr>va_version = True, va_release = True, va_commit = False, va_branch = False\<rparr> m = (Inr text, m')"
  shows "\<exists>v n. words text = [v, str_nat n]"
proof -
  from assms obtain v n where v: "one_word v" and t: "text = v @ CHR '' '' # str_nat n @ [newline]"
    unfolding release_main_def bindS_Inr
    by (auto simp: version_line_def retS_def bindS_Inr split: if_splits prod.splits dest: version_of_checkout_word)
  have n: "one_word (str_nat n)"
    by (rule numeral_one_word) (use str_nat_digits in \<open>auto simp: numeral_text_def list_all_iff\<close>)
  have "is_space CHR '' ''" "is_space newline" by (simp_all add: is_space_def newline_def)
  with v n show ?thesis
    using words_step [of v "CHR '' ''" "str_nat n @ [newline]"] words_step [of "str_nat n" newline "[]"]
    by (auto simp: t one_word_def)
qed

section \<open>What is kept in config.JSON\<close>

text \<open>What is documented of the two JSON functions: a dictionary of strings is read back as it was written.\<close>

definition json_ok :: "pk_env \<Rightarrow> ((string \<times> string) list \<Rightarrow> exn + string) \<Rightarrow> bool" where
  "json_ok E dumps \<longleftrightarrow> (\<forall>d. \<exists>text d'. dumps d = Inr text \<and> pe_json E text = Inr d' \<and> map_of d' = map_of d)"

text \<open>A dictionary is in a file when reading the file gives one that answers alike.\<close>

definition kept :: "pk_env \<Rightarrow> (string \<rightharpoonup> string) \<Rightarrow> string \<Rightarrow> pk \<Rightarrow> bool" where
  "kept E d fl s \<longleftrightarrow> (\<exists>d'. load_config E fl s = (Inr (Some d'), s) \<and> map_of d' = d)"

lemma export_kept:
  assumes "json_ok E dumps" and "map_of env ''scripts'' = Some w" and "pe_readable E (w @ ''/config.JSON'')"
    and "export_to_json E dumps env s = (r, s')"
    and "r = Inr () \<or> pe_writable E (w @ ''/config.JSON'') \<and> dirname (w @ ''/config.JSON'') \<in> set (pk_dirs s)"
  shows "r = Inr () \<and> kept E (map_of env) (w @ ''/config.JSON'') s' \<and> pk_dirs s' = pk_dirs s \<and>
    (\<forall>f. f \<noteq> w @ ''/config.JSON'' \<longrightarrow> map_of (pk_files s') f = map_of (pk_files s) f) \<and>
    pe_writable E (w @ ''/config.JSON'') \<and> dirname (w @ ''/config.JSON'') \<in> set (pk_dirs s)"
proof -
  obtain j d' where t: "dumps env = Inr j" "pe_json E j = Inr d'" "map_of d' = map_of env"
    using assms(1) unfolding json_ok_def by blast
  show ?thesis using assms(2-) t
    by (auto simp: export_to_json_def kept_def load_config_def script_simps Let_def update_conv split: if_splits)
qed

text \<open>
  A package added from the directory of the scripts is in the file beside what was there. It is found there
  only from that directory: from the one above, the file is looked for in \<open>script\<close> and the dictionary is
  \<open>None\<close>.
\<close>

lemma package_added:
  assumes json: "json_ok E dumps" and env: "get_env E cwd = Inr env" "map_of env ''scripts'' = Some w"
    and w: "contains_str ''-dist/script'' w" "pe_readable E (w @ ''/config.JSON'')" and t: "t \<noteq> ''scripts''"
    and run: "configure_main E dumps cwd s = (Inr (), s1)"
  shows "\<exists>s2. add_package E dumps w t n None s1 = (Inr (), s2) \<and>
    kept E ((map_of env)(t \<mapsto> n)) (w @ ''/config.JSON'') s2"
proof -
  from run env(1) have "export_to_json E dumps env s = (Inr (), s1)" by (simp add: configure_main_def script_simps)
  from export_kept [OF json env(2) w(2) this] obtain d where
    d: "load_config E (w @ ''/config.JSON'') s1 = (Inr (Some d), s1)" "map_of d = map_of env" and
    there: "pe_writable E (w @ ''/config.JSON'')" "dirname (w @ ''/config.JSON'') \<in> set (pk_dirs s1)"
    by (auto simp: kept_def)
  have up: "map_of (AList.update t n d) = (map_of env)(t \<mapsto> n)" by (simp add: update_conv' d(2))
  then have "map_of (AList.update t n d) ''scripts'' = Some w" using env(2) t by simp
  moreover obtain r s2 where x: "export_to_json E dumps (AList.update t n d) s1 = (r, s2)" by fastforce
  ultimately have "r = Inr ()" "kept E ((map_of env)(t \<mapsto> n)) (w @ ''/config.JSON'') s2"
    using export_kept [OF json _ w(2), of "AList.update t n d" s1 r s2] there up by auto
  with x d(1) w(1) show ?thesis by (simp add: add_package_def config_path_def bindS_def)
qed

lemma package_without_config:
  "map_of (pk_files s) (config_path E w) = None \<Longrightarrow>
     add_package E dumps w t n None s = (Inl (Raised AttributeError), s)"
  by (simp add: add_package_def load_config_def script_simps)

lemma package_from_dist_lost:
  assumes json: "json_ok E dumps" and env: "get_env E cwd = Inr env" "map_of env ''scripts'' = Some (d @ ''/scripts'')"
    and d: "contains_str ''-dist'' d" "\<not> contains_str ''-dist/script'' d" "pe_readable E (d @ ''/scripts/config.JSON'')"
    and none: "map_of (pk_files s) (d @ ''/script/config.JSON'') = None"
    and run: "configure_main E dumps cwd s = (Inr (), s1)"
  shows "kept E (map_of env) (d @ ''/scripts/config.JSON'') s1 \<and>
    add_package E dumps d t n None s1 = (Inl (Raised AttributeError), s1)"
proof -
  from run env(1) have "export_to_json E dumps env s = (Inr (), s1)" by (simp add: configure_main_def script_simps)
  from export_kept [OF json env(2) _ this] d none show ?thesis
    by (auto intro!: package_without_config simp: config_path_def)
qed

text \<open>The directory of \<open>get_env\<close>: a checkout of the agent.\<close>

definition ex_config :: pk_env where
  "ex_config = \<lparr>pe_glob = (\<lambda>p. if p = ''/w/f5-*-dist'' then [''/w/f5-agent-dist''] else []), pe_readable = (\<lambda>_. True),
      pe_writable = (\<lambda>_. True), pe_mkdir = (\<lambda>_. None), pe_chdir = (\<lambda>d. Some d), pe_reqs = (\<lambda>_. Inr []),
      pe_json = (\<lambda>t. Inr (List.map_filter (\<lambda>l. case split_on CHR ''='' l of [k, v] \<Rightarrow> Some (k, v) | _ \<Rightarrow> None) (split_on newline t)))\<rparr>"

definition ex_dumps :: "(string \<times> string) list \<Rightarrow> exn + string" where
  "ex_dumps d = Inr (joined [newline] (map (\<lambda>(k, v). k @ ''='' @ v) d))"

lemma package_from_repository_lost:
  "let s = snd (configure_main ex_config ex_dumps ''/w'' \<lparr>pk_files = [], pk_dirs = [''/w/f5-agent-dist/scripts''], pk_default_setup = [], pk_default_stdeb = []\<rparr>) in
   map_of (pk_files s) ''/w/f5-agent-dist/scripts/config.JSON'' \<noteq> None \<and>
   fst (add_package ex_config ex_dumps ''/w'' ''deb'' ''agent.deb'' None s) = Inl (Raised AttributeError) \<and>
   fst (add_package ex_config ex_dumps ''/w/f5-agent-dist/scripts'' ''deb'' ''agent.deb'' None s) = Inr ()"
  by code_simp

end
