(* ===== verification/Spec2Isabelle.thy ===== *)
theory Spec2Isabelle
  imports Translation_Properties Device_Properties Network_Properties Driver_Properties Agent_Properties
    System_Properties Builder_Properties Exceptions Tools Packaging_Properties InstallTest Release
begin

text \<open>
  The F5 OpenStack LBaaSv2 agent: a model of the Python sources under
  \<open>src/f5_openstack_agent/lbaasv2/drivers/bigip/\<close> and \<open>utils/\<close>, of the scripts that package it
  (\<open>src/f5-openstack-agent-dist/\<close>), and the theorems about them.

  \<^bold>\<open>The program.\<close> Neutron sends the agent services: a load balancer with its listeners, pools, members,
  monitors and L7 policies, each with a provisioning status. \<open>agent_manager.py\<close> receives the calls, keeps a
  cache of the services it knows, and runs the periodic tasks (resync, refresh of pending services, purge of
  orphans). It hands a service to \<open>icontrol_driver.py\<close>, which keeps the registry of the BIG-IP devices and
  takes the service through its stages: the folder and route domain of the tenant (\<open>tenants.py\<close>), the
  networking (\<open>network_service.py\<close> with \<open>l2_service.py\<close>, \<open>selfips.py\<close>, \<open>snats.py\<close>, \<open>l3_binding.py\<close>,
  \<open>vcmp.py\<close>, \<open>network_helper.py\<close>), the LTM objects (\<open>lbaas_builder.py\<close> with the services of pools, listeners,
  L7 policies and virtual addresses, which \<open>service_adapter.py\<close> and \<open>l7policy_adapter.py\<close> translate), the
  clean-up, and the report of the new statuses to Neutron (\<open>plugin_rpc.py\<close>).

  \<^bold>\<open>The theories\<close>, in the order of the imports:

  \<^item> \<open>PyBase\<close>, \<open>PyStrings\<close>: exceptions, computations with a state that may raise, loops over devices and over
    mutable objects, the string methods of Python that the code uses. \<open>Frames\<close>: the rules of
    preservation \<open>keeps P m\<close>.
  \<^item> \<open>Service\<close>: the service dictionaries (\<open>lbaas_service.py\<close>, \<open>constants_v2.py\<close>), the configuration.
  \<^item> \<open>ResourceHelper\<close>, \<open>Devices\<close>: \<open>resource_helper.py\<close> over an SDK endpoint; the device object and the
    attempts to create, update and delete on it.
  \<^item> \<open>Esd\<close>, \<open>Adapter\<close>, \<open>AdapterVirtual\<close>, \<open>L7Adapter\<close>: \<open>esd_filehandler.py\<close>, \<open>service_adapter.py\<close>,
    \<open>l7policy_adapter.py\<close>. \<open>Translation_Properties\<close>: what the translated objects contain.
  \<^item> \<open>PoolService\<close>, \<open>ListenerService\<close>, \<open>L7Service\<close>, \<open>VirtualAddress\<close>, \<open>Certs\<close>: the services of the builder,
    \<open>ssl_profile.py\<close>, \<open>barbican_cert.py\<close>, \<open>cert_parser.py\<close>.
  \<^item> \<open>SubnetHints\<close>, \<open>Builder\<close>, \<open>BuilderFrame\<close>: \<open>lbaas_builder.py\<close>, phase by phase, and what a phase
    leaves intact. \<open>ServiceQueue\<close>: the decorator \<open>serialized\<close> of \<open>utils.py\<close> as a step relation.
    \<open>Device_Properties\<close>: convergence of the device operations, the hints, the queue.
    \<open>Isolation\<close>: what a service cannot touch. \<open>Deployment\<close>: what it leaves on devices that answer, phase by
    phase. \<open>Builder_Properties\<close>: the two for \<open>assure_service\<close> as a whole.
  \<^item> \<open>NetworkHelper\<close>, \<open>Vcmp\<close>, \<open>L2Service\<close>, \<open>VlanBinding\<close>, \<open>L3Binding\<close>, \<open>SelfIps\<close>, \<open>Snats\<close>, \<open>RouteDomains\<close>,
    \<open>NetworkService\<close>: the network side, a theory per module (\<open>network_service.py\<close> is split in two).
    \<open>Network_Properties\<close>: route domains, self IPs, FDB records, which subnets are kept, port mappings.
  \<^item> \<open>Systems\<close>, \<open>StatHelper\<close>, \<open>Tenants\<close>, \<open>PluginRpc\<close>: \<open>system_helper.py\<close>, \<open>cluster_manager.py\<close>,
    \<open>stat_helper.py\<close>, \<open>tenants.py\<close>, \<open>plugin_rpc.py\<close>.
  \<^item> \<open>Driver\<close>, \<open>DriverService\<close>, \<open>DriverPurge\<close>, \<open>DriverSetup\<close>: \<open>icontrol_driver.py\<close>: the registry and the
    connection of devices; the handling of services, statuses and statistics; deployed objects and
    orphans; construction, capacity score and teardown. \<open>DriverFrame\<close>: every operation on devices keeps the
    registry well formed. \<open>StatusReports\<close>: the status messages as a list. \<open>DeployedTables\<close>: what the tables
    of deployed objects hold. \<open>Driver_Properties\<close>: the properties of the driver.
  \<^item> \<open>AgentManager\<close>, \<open>Agent_Properties\<close>: \<open>agent_manager.py\<close> and its properties.
  \<^item> \<open>AgentSystem\<close>: the agent with the driver and the RPC calls behind its interfaces, and what can happen
    to them (\<open>occur\<close>, \<open>reachable\<close>). \<open>Agreement\<close>, \<open>SystemFrame\<close>: the recursion of the report. \<open>ServiceFrame\<close>: the
    locale \<open>driver_invariant\<close>, what handling services keeps. \<open>AgentFrame\<close>: the locales \<open>lbdriver_contract\<close>
    and \<open>plugin_contract\<close> of the agent's interfaces, \<open>agent_invariant\<close> over them and \<open>system_invariant\<close>,
    which shows that the iControl driver fulfils its contract; all are interpreted on the system with
    the registry as the invariant. \<open>System_Properties\<close>: the properties of the two together.
  \<^item> \<open>Options\<close>: the options of \<open>agent_manager.py\<close> and \<open>icontrol_driver.py\<close>, the configuration read from
    them, the constructor of \<open>barbican_cert.py\<close>. \<open>Exceptions\<close>: \<open>exceptions.py\<close>. \<open>Tools\<close>: \<open>clean_partition.py\<close>,
    both versions of \<open>debug_bundler.py\<close>.
  \<^item> \<open>Scripts\<close>: scripts that end by \<open>sys.exit\<close>, lines of files, \<open>getopt\<close>. \<open>Packaging\<close>: the dependencies in
    \<open>setup.cfg\<close> and \<open>stdeb.cfg\<close> (\<open>construct_setups.py\<close>, \<open>configure.py\<close>, \<open>universal_truth.py\<close>).
    \<open>Packaging_Properties\<close>: a second run changes nothing, pinned versions, exit status. \<open>InstallTest\<close>: the two
    \<open>fetch_and_install_deps.py\<close>. \<open>Release\<close>: \<open>get-version-release.py\<close> and \<open>config.JSON\<close> of \<open>configure.py\<close>; what
    git describes is read back, and the line for the installation test always has its two words.

  \<^bold>\<open>State.\<close> A device is a value of a type \<open>'d\<close> the model does not look into; the attributes the agent hangs
  on the device object are the record \<open>bigip\<close>. Everything outside the agent (Neutron, the message
  bus) is a value of type \<open>'w\<close>. Objects the code mutates in place are threaded through (\<open>inplace\<close>,
  \<open>for_bigips\<close>), so that what was changed before an exception stays changed. A dictionary key that the code
  tests with \<open>in\<close> or reads with \<open>.get\<close> is an option field; reading a missing one is \<open>KeyError\<close>.
  A dictionary is taken in the order of insertion where the code iterates it.

  \<^bold>\<open>Parameters.\<close> Code that is not in the repository is an argument: the F5 SDK (\<open>sdk\<close>, \<open>net_sdk\<close>, \<open>sys_sdk\<close>;
  what it promises is \<open>endpoint_ok\<close>, which a table of objects satisfies), the messaging client, the
  address library (\<open>netlib\<close>), the hash of a tenant id, Barbican and the certificate library, the VLAN
  binding of the L2 service. The driver alone has the report callback of the agent as a parameter
  (\<open>report_keeps\<close> states what it relies on); \<open>AgentSystem\<close> puts the agent there. The agent manager loads its
  driver by name, so it uses it through the record \<open>lbdriver\<close>, of which \<open>icontrol\<close> is the one of this program.
  The scripts get pip, the JSON functions, the file system they ask about and the machine that runs commands as
  arguments (\<open>pk_env\<close>, \<open>it_env\<close>).

  \<^bold>\<open>What is shown.\<close> The queue of serialized calls runs one call at a time, in order, and makes progress. The
  registry of devices is well formed in every state the system reaches, the report of agent and driver
  ends, and the driver is operational exactly when a device is active.
  Errors while a service is handled stay in the handler and mark the load balancer; the messages to Neutron
  are exactly those a list computed from the service says. A service said to exist is on every
  device; tables of deployed objects are exact, and only unknown objects are purged, down to the devices. In
  global routed mode the network side is not touched. A service leaves the partitions of other tenants as
  they were (the SDK calls are \<open>confined\<close> to the partition they name), and what it names is in the end on
  every device that answers, or gone if it was to be deleted (\<open>ltm_ok\<close>). Pools, virtual
  addresses, policies and self IPs converge on devices that answer; route domains of a tenant stay
  disjoint; subnets in use are not given up. The dependencies of the packages are read back as they
  were written. Where the code does not do what it means to, the theorem states
  what it does.

  \<^bold>\<open>Bounds.\<close> The loops of the code run over finite lists or retry a fixed number of times. The one recursion
  without a bound of its own is the report: the driver calls the agent, which calls the driver. \<open>report\<close>
  gives it a depth of one more than the number of active devices, since each further call follows a device
  that left them; \<open>report_returns\<close> shows that this is enough and is the recursion of the code. Numbers of
  Python are \<open>int\<close> or \<open>nat\<close>, the capacity score is a \<open>rat\<close> where the code rounds to a floating point number,
  and the clock is in whole seconds.

  \<^bold>\<open>Not modelled.\<close> Log messages and the trace of requests written to a file; process start with the oslo
  services (\<open>agent.py\<close>); the abstract base classes \<open>lbaas_driver.py\<close> and \<open>fdb_connector.py\<close>, whose methods
  raise \<open>NotImplementedError\<close>; the log files and the syslog entry of \<open>F5MissingDependencies\<close>; parsing of options
  and arguments, archives and package lists, which are libraries; the assignments of \<open>docs/conf.py\<close> and \<open>setup.py\<close>.
\<close>

end
